(* ===== verification/Fornix_Prelude.thy ===== *)
theory Fornix_Prelude
  imports Main "HOL-Library.Word" "HOL-Library.Char_ord" "HOL-Library.List_Lexorder"
    "HOL-Library.Multiset"
begin

text \<open>
  Vocabulary shared by every component: results with an error value, Go's strings and
  machine integers, sorting by a comparison callback, first-occurrence deduplication, and
  the database clock.

  \<^item> A Go function that returns \<open>(value, error)\<close> is a function into
    \<open>'e + 'a\<close>; \<open>bindE\<close> is the "if err is not nil, return it" idiom and
    \<open>guardE\<close> a check with an early return.
  \<^item> A Go string is its byte sequence, a \<open>char list\<close>; \<open>length\<close> is Go's
    \<open>len\<close>.  \<open>trim_space\<close> is \<open>strings.TrimSpace\<close>: the white-space
    runes of package unicode are the byte sequences \<open>go_spaces\<close>.  \<open>to_lower\<close> is
    \<open>strings.ToLower\<close> on ASCII bytes; the Unicode case tables for bytes from 128 on
    are not modelled, those bytes are kept.
  \<^item> Go's \<open>int\<close> and \<open>int64\<close> are \<open>int\<close>; where the code's arithmetic can
    leave the 64-bit range the model applies \<open>wrap64\<close> at that operation.
  \<^item> Instants are microseconds (the resolution of the database's timestamps), durations are
    nanoseconds (Go's \<open>time.Duration\<close>).
\<close>

section \<open>Results\<close>

named_theorems results "introduction and elimination of successful and failed results"

definition bindE :: "'e + 'a \<Rightarrow> ('a \<Rightarrow> 'e + 'b) \<Rightarrow> 'e + 'b" where
  "bindE m f = (case m of Inl e \<Rightarrow> Inl e | Inr x \<Rightarrow> f x)"

definition guardE :: "bool \<Rightarrow> 'e \<Rightarrow> 'e + unit" where
  "guardE b e = (if b then Inr () else Inl e)"

fun mapE :: "('a \<Rightarrow> 'e + 'b) \<Rightarrow> 'a list \<Rightarrow> 'e + 'b list" where
  "mapE f [] = Inr []"
| "mapE f (x # xs) = bindE (f x) (\<lambda>y. bindE (mapE f xs) (\<lambda>ys. Inr (y # ys)))"

lemma bindE_simps [simp]:
  "bindE (Inl e) f = Inl e"
  "bindE (Inr x) f = f x"
  by (simp_all add: bindE_def)

lemma guardE_simps [simp]:
  "guardE True e = Inr ()"
  "guardE False e = Inl e"
  by (simp_all add: guardE_def)

text \<open>Evaluation unfolds the combinator, so that a continuation runs only on its argument.\<close>

declare bindE_def [code_unfold]

lemma bindE_eq_Inr [results]: "bindE m f = Inr y \<longleftrightarrow> (\<exists>x. m = Inr x \<and> f x = Inr y)"
  by (cases m) auto

lemma bindE_eq_Inl [results]:
  "bindE m f = Inl e \<longleftrightarrow> m = Inl e \<or> (\<exists>x. m = Inr x \<and> f x = Inl e)"
  by (cases m) auto

lemma guardE_eq_Inr [results]: "guardE b e = Inr u \<longleftrightarrow> b"
  by (cases b) auto

lemma guardE_eq_Inl [results]: "guardE b e = Inl e' \<longleftrightarrow> \<not> b \<and> e' = e"
  by (cases b) auto

lemma mapE_eq_Inr: "mapE f xs = Inr ys \<longleftrightarrow> list_all2 (\<lambda>x y. f x = Inr y) xs ys"
  by (induction xs arbitrary: ys) (auto simp: results list_all2_Cons1)

lemma mapE_length: "mapE f xs = Inr ys \<Longrightarrow> length ys = length xs"
  by (auto simp: mapE_eq_Inr dest: list_all2_lengthD)

text \<open>A chain of early returns ends well exactly when no guard fires.\<close>

lemma if_cases_Inr:
  "(if b then Inl e else m) = Inr y \<longleftrightarrow> \<not> b \<and> m = Inr y"
  "Inr x = Inr y \<longleftrightarrow> x = y"
  by auto

text \<open>An error of a callee, wrapped in the caller's error type.\<close>

definition liftE :: "('d \<Rightarrow> 'e) \<Rightarrow> 'd + 'a \<Rightarrow> 'e + 'a" where
  "liftE f m = (case m of Inl d \<Rightarrow> Inl (f d) | Inr x \<Rightarrow> Inr x)"

lemma liftE_simps [simp]:
  "liftE f (Inl d) = Inl (f d)"
  "liftE f (Inr x) = Inr x"
  by (simp_all add: liftE_def)

lemma liftE_eq_Inr [results]: "liftE f m = Inr y \<longleftrightarrow> m = Inr y"
  by (cases m) auto

lemma liftE_eq_Inl [results]: "liftE f m = Inl e \<longleftrightarrow> (\<exists>d. m = Inl d \<and> e = f d)"
  by (cases m) auto

text \<open>Elimination rules that walk through a successful handler one statement at a time.\<close>

lemma bindE_InrE:
  assumes "bindE m f = Inr y"
  obtains x where "m = Inr x" and "f x = Inr y"
  using assms by (cases m) auto

lemma bindE_pairE:
  assumes "bindE m (\<lambda>(a, b). f a b) = Inr y"
  obtains a b where "m = Inr (a, b)" and "f a b = Inr y"
  using assms by (cases m) auto

lemma if_InlE:
  assumes "(if b then Inl e else m) = Inr y"
  obtains "\<not> b" and "m = Inr y"
  using assms by (auto split: if_splits)

lemma guardE_InrE:
  assumes "guardE b e = Inr u"
  obtains b
  using assms by (auto simp: guardE_def split: if_splits)

lemmas handler_elims = bindE_pairE bindE_InrE if_InlE

section \<open>Strings\<close>

text \<open>Go's \<open>len\<close> of a string or slice.\<close>

definition len :: "'a list \<Rightarrow> int" where
  "len xs = int (length xs)"

lemma len_code [code]:
  "len [] = 0"
  "len (x # xs) = len xs + 1"
  by (simp_all add: len_def)

text \<open>The runes \<open>unicode.IsSpace\<close> accepts, UTF-8 encoded.\<close>

definition go_spaces :: "string list" where
  "go_spaces =
    [[CHR 0x20], [CHR 0x09], [CHR 0x0A], [CHR 0x0B], [CHR 0x0C], [CHR 0x0D],
     [CHR 0xC2, CHR 0x85], [CHR 0xC2, CHR 0xA0], [CHR 0xE1, CHR 0x9A, CHR 0x80],
     [CHR 0xE2, CHR 0x80, CHR 0x80], [CHR 0xE2, CHR 0x80, CHR 0x81],
     [CHR 0xE2, CHR 0x80, CHR 0x82], [CHR 0xE2, CHR 0x80, CHR 0x83],
     [CHR 0xE2, CHR 0x80, CHR 0x84], [CHR 0xE2, CHR 0x80, CHR 0x85],
     [CHR 0xE2, CHR 0x80, CHR 0x86], [CHR 0xE2, CHR 0x80, CHR 0x87],
     [CHR 0xE2, CHR 0x80, CHR 0x88], [CHR 0xE2, CHR 0x80, CHR 0x89],
     [CHR 0xE2, CHR 0x80, CHR 0x8A], [CHR 0xE2, CHR 0x80, CHR 0xA8],
     [CHR 0xE2, CHR 0x80, CHR 0xA9], [CHR 0xE2, CHR 0x80, CHR 0xAF],
     [CHR 0xE2, CHR 0x81, CHR 0x9F], [CHR 0xE3, CHR 0x80, CHR 0x80]]"

definition leads :: "string list \<Rightarrow> string \<Rightarrow> string option" where
  "leads ws s = find (\<lambda>w. w \<noteq> [] \<and> take (length w) s = w) ws"

lemma leads_SomeD: "leads ws s = Some w \<Longrightarrow> w \<in> set ws \<and> w \<noteq> [] \<and> take (length w) s = w"
  by (auto simp: leads_def find_Some_iff)

lemma leads_None_iff: "leads ws s = None \<longleftrightarrow> (\<forall>w \<in> set ws. w \<noteq> [] \<longrightarrow> take (length w) s \<noteq> w)"
  by (auto simp: leads_def find_None_iff)

function strip_by :: "string list \<Rightarrow> string \<Rightarrow> string" where
  "strip_by ws s =
    (case leads ws s of None \<Rightarrow> s | Some w \<Rightarrow> strip_by ws (drop (length w) s))"
  by pat_completeness auto
termination
proof (relation "measure (\<lambda>(ws, s). length s)", goal_cases)
  case 1
  then show ?case by simp
next
  case (2 ws s w)
  then have "w \<noteq> []" and "take (length w) s = w" by (auto dest: leads_SomeD)
  then have "s \<noteq> []" and "length w > 0" by auto
  then show ?case by simp
qed

declare strip_by.simps [simp del]

lemma strip_by_leads: "leads ws (strip_by ws s) = None"
proof (induction ws s rule: strip_by.induct)
  case (1 ws s)
  then show ?case
    by (cases "leads ws s") (simp_all add: strip_by.simps [of ws s])
qed

lemma strip_by_id: "leads ws s = None \<Longrightarrow> strip_by ws s = s"
  by (simp add: strip_by.simps)

lemma strip_by_suffix: "\<exists>p. s = p @ strip_by ws s"
proof (induction ws s rule: strip_by.induct)
  case (1 ws s)
  show ?case
  proof (cases "leads ws s")
    case None
    then show ?thesis by (simp add: strip_by_id)
  next
    case (Some w)
    with "1.IH" obtain p where "drop (length w) s = p @ strip_by ws (drop (length w) s)"
      by blast
    then have "s = (take (length w) s @ p) @ strip_by ws s"
      using Some by (metis append_assoc append_take_drop_id option.simps(5) strip_by.simps)
    then show ?thesis by blast
  qed
qed

definition trim_left :: "string \<Rightarrow> string" where
  "trim_left s = strip_by go_spaces s"

definition trim_right :: "string \<Rightarrow> string" where
  "trim_right s = rev (strip_by (map rev go_spaces) (rev s))"

definition trim_space :: "string \<Rightarrow> string" where
  "trim_space s = trim_right (trim_left s)"

lemma trim_right_prefix: "\<exists>q. s = trim_right s @ q"
proof -
  obtain p where "rev s = p @ strip_by (map rev go_spaces) (rev s)"
    using strip_by_suffix by blast
  then have "s = rev (strip_by (map rev go_spaces) (rev s)) @ rev p"
    by (metis rev_append rev_rev_ident)
  then show ?thesis by (auto simp: trim_right_def)
qed

lemma leads_prefix: "leads ws (s @ t) = None \<Longrightarrow> leads ws s = None"
proof (unfold leads_None_iff, intro ballI impI)
  fix w assume all: "\<forall>w \<in> set ws. w \<noteq> [] \<longrightarrow> take (length w) (s @ t) \<noteq> w"
    and w: "w \<in> set ws" "w \<noteq> []"
  show "take (length w) s \<noteq> w"
  proof
    assume eq: "take (length w) s = w"
    then have "length w \<le> length s" by (metis length_take min.cobounded1)
    with eq have "take (length w) (s @ t) = w" by simp
    with all w show False by blast
  qed
qed

lemma trim_space_idem [simp]: "trim_space (trim_space s) = trim_space s"
proof -
  let ?l = "trim_left s"
  have "leads go_spaces ?l = None" by (simp add: trim_left_def strip_by_leads)
  moreover obtain q where "?l = trim_right ?l @ q" using trim_right_prefix by blast
  ultimately have "leads go_spaces (trim_right ?l) = None" by (metis leads_prefix)
  then have "trim_left (trim_right ?l) = trim_right ?l"
    by (simp add: trim_left_def strip_by_id)
  moreover have "trim_right (trim_right ?l) = trim_right ?l"
    by (simp add: trim_right_def strip_by_leads strip_by_id)
  ultimately show ?thesis by (simp add: trim_space_def)
qed

lemma trim_space_Nil [simp]: "trim_space [] = []"
  by code_simp

text \<open>A code equation for evaluation: a string between two visible ASCII characters is trimmed.\<close>

primrec visible :: "char \<Rightarrow> bool" where
  "visible (Char b0 b1 b2 b3 b4 b5 b6 b7) = (\<not> b7 \<and> (b6 \<or> (b5 \<and> (b0 \<or> b1 \<or> b2 \<or> b3 \<or> b4))))"

lemma visible_no_space:
  "\<forall>w \<in> set go_spaces. w = [] \<or> \<not> visible (hd w)" "\<forall>w \<in> set (map rev go_spaces). w = [] \<or> \<not> visible (hd w)"
  by code_simp+

lemma visible_leads:
  assumes "s \<noteq> []" and "visible (hd s)" and "\<forall>w \<in> set ws. w = [] \<or> \<not> visible (hd w)"
  shows "leads ws s = None"
  unfolding leads_None_iff
proof (intro ballI impI notI)
  fix w assume w: "w \<in> set ws" "w \<noteq> []" "take (length w) s = w"
  then have "hd w = hd s" using assms(1) by (metis hd_take length_greater_0_conv)
  with assms(2,3) w(1,2) show False by auto
qed

lemma trim_space_code [code]:
  "trim_space s = (if s = [] \<or> (visible (hd s) \<and> visible (last s)) then s else trim_right (trim_left s))"
proof (cases "s = [] \<or> \<not> (visible (hd s) \<and> visible (last s))")
  case False
  then have "leads go_spaces s = None" and "leads (map rev go_spaces) (rev s) = None"
    by (auto intro!: visible_leads visible_no_space simp: hd_rev simp del: set_map)
  with False show ?thesis by (simp add: trim_space_def trim_left_def trim_right_def strip_by_id)
qed (auto simp flip: trim_space_def)

lemma length_trim_space: "length (trim_space s) \<le> length s"
proof -
  obtain p where "s = p @ trim_left s" by (metis strip_by_suffix trim_left_def)
  moreover obtain q where "trim_left s = trim_space s @ q"
    by (metis trim_right_prefix trim_space_def)
  ultimately show ?thesis by (metis le_add1 le_trans length_append trans_le_add2 order_refl)
qed

definition lower_char :: "char \<Rightarrow> char" where
  "lower_char c =
    (if 65 \<le> (of_char c :: nat) \<and> (of_char c :: nat) \<le> 90 then char_of (of_char c + 32 :: nat) else c)"

lemma upper_case_bits:
  "65 \<le> (of_char (Char b0 b1 b2 b3 b4 b5 b6 b7) :: nat) \<and> (of_char (Char b0 b1 b2 b3 b4 b5 b6 b7) :: nat) \<le> 90 \<longleftrightarrow>
    \<not> b7 \<and> b6 \<and> \<not> b5 \<and> (b0 \<or> b1 \<or> b2 \<or> b3 \<or> b4) \<and> \<not> (b4 \<and> b3 \<and> (b2 \<or> (b1 \<and> b0)))"
  by (cases b0; cases b1; cases b2; cases b3; cases b4; cases b5; cases b6; cases b7) simp_all

lemma lower_char_code [code]:
  "lower_char (Char b0 b1 b2 b3 b4 b5 b6 b7) =
    (if \<not> b7 \<and> b6 \<and> \<not> b5 \<and> (b0 \<or> b1 \<or> b2 \<or> b3 \<or> b4) \<and> \<not> (b4 \<and> b3 \<and> (b2 \<or> (b1 \<and> b0)))
     then Char b0 b1 b2 b3 b4 True b6 b7 else Char b0 b1 b2 b3 b4 b5 b6 b7)"
proof -
  have "(of_char (Char b0 b1 b2 b3 b4 False b6 b7) :: nat) + 32 = of_char (Char b0 b1 b2 b3 b4 True b6 b7)" by simp
  then show ?thesis
    unfolding lower_char_def upper_case_bits by (cases b5) (simp_all only: char_of_char if_True if_False simp_thms)
qed

definition to_lower :: "string \<Rightarrow> string" where
  "to_lower s = map lower_char s"

lemma to_lower_Nil [simp]: "to_lower [] = []"
  by (simp add: to_lower_def)

lemma to_lower_eq_Nil [simp]: "to_lower s = [] \<longleftrightarrow> s = []"
  by (simp add: to_lower_def)

lemma length_to_lower [simp]: "length (to_lower s) = length s"
  by (simp add: to_lower_def)

lemma lower_char_idem [simp]: "lower_char (lower_char c) = lower_char c"
  by (auto simp: lower_char_def)

lemma to_lower_idem [simp]: "to_lower (to_lower s) = to_lower s"
  by (simp add: to_lower_def)

text \<open>Lower-casing does not touch the bytes of white space.\<close>

lemma lower_char_eq_iff:
  "\<not> (97 \<le> (of_char d :: nat) \<and> (of_char d :: nat) \<le> 122) \<Longrightarrow>
    \<not> (65 \<le> (of_char d :: nat) \<and> (of_char d :: nat) \<le> 90) \<Longrightarrow> lower_char c = d \<longleftrightarrow> c = d"
  by (auto simp: lower_char_def split: if_splits)

lemma map_lower_eq:
  assumes "\<forall>d \<in> set w. \<not> (97 \<le> (of_char d :: nat) \<and> (of_char d :: nat) \<le> 122) \<and>
    \<not> (65 \<le> (of_char d :: nat) \<and> (of_char d :: nat) \<le> 90)"
  shows "map lower_char s = w \<longleftrightarrow> s = w"
  using assms
proof (induction s arbitrary: w)
  case (Cons c s)
  then show ?case
    by (cases w) (auto simp: lower_char_eq_iff)
qed auto

lemma go_spaces_no_letters:
  "\<forall>w \<in> set go_spaces. \<forall>d \<in> set w. \<not> (97 \<le> (of_char d :: nat) \<and> (of_char d :: nat) \<le> 122) \<and>
    \<not> (65 \<le> (of_char d :: nat) \<and> (of_char d :: nat) \<le> 90)"
  by (simp add: go_spaces_def)

lemma leads_to_lower:
  assumes "\<forall>w \<in> set ws. \<forall>d \<in> set w. \<not> (97 \<le> (of_char d :: nat) \<and> (of_char d :: nat) \<le> 122) \<and>
    \<not> (65 \<le> (of_char d :: nat) \<and> (of_char d :: nat) \<le> 90)"
  shows "leads ws (to_lower s) = leads ws s"
proof -
  have "take (length w) (to_lower s) = w \<longleftrightarrow> take (length w) s = w" if "w \<in> set ws" for w
    using assms that by (simp add: to_lower_def take_map map_lower_eq)
  then have "find (\<lambda>w. w \<noteq> [] \<and> take (length w) (to_lower s) = w) ws =
    find (\<lambda>w. w \<noteq> [] \<and> take (length w) s = w) ws"
    by (intro find_cong) auto
  then show ?thesis by (simp add: leads_def)
qed

lemma trim_fix_iff: "trim_space s = s \<longleftrightarrow>
  leads go_spaces s = None \<and> leads (map rev go_spaces) (rev s) = None"
proof
  assume "trim_space s = s"
  then have len: "length s \<le> length (trim_space s)" by simp
  obtain p where p: "s = p @ trim_left s" by (metis strip_by_suffix trim_left_def)
  obtain q where q: "trim_left s = trim_space s @ q" by (metis trim_right_prefix trim_space_def)
  have "p = []" "q = []"
    using len arg_cong [OF p, of length] arg_cong [OF q, of length] by auto
  have l: "trim_left s = s" using p \<open>p = []\<close> by (metis append_Nil)
  then have r: "trim_right s = s" using \<open>trim_space s = s\<close> by (metis trim_space_def)
  show "leads go_spaces s = None \<and> leads (map rev go_spaces) (rev s) = None"
    using l r strip_by_leads [of go_spaces s] strip_by_leads [of "map rev go_spaces" "rev s"]
    by (metis rev_swap trim_left_def trim_right_def)
next
  assume "leads go_spaces s = None \<and> leads (map rev go_spaces) (rev s) = None"
  then show "trim_space s = s"
    by (simp add: trim_space_def trim_left_def trim_right_def strip_by_id)
qed

lemma trim_lower_trim [simp]: "trim_space (to_lower (trim_space s)) = to_lower (trim_space s)"
proof -
  let ?t = "trim_space s"
  have "leads go_spaces ?t = None" "leads (map rev go_spaces) (rev ?t) = None"
    using trim_fix_iff [of ?t] by simp_all
  moreover have "rev (to_lower ?t) = to_lower (rev ?t)" by (simp add: to_lower_def rev_map)
  ultimately show ?thesis
    using go_spaces_no_letters by (simp add: trim_fix_iff leads_to_lower)
qed

definition has_prefix :: "string \<Rightarrow> string \<Rightarrow> bool" where
  "has_prefix s p \<longleftrightarrow> take (length p) s = p"

text \<open>Decimal rendering, as the verb \<open>%d\<close> prints a non-negative number.\<close>

fun show_nat :: "nat \<Rightarrow> string" where
  "show_nat n =
    (if n < 10 then [char_of (48 + n)] else show_nat (n div 10) @ [char_of (48 + n mod 10)])"

declare show_nat.simps [simp del]

definition show_int :: "int \<Rightarrow> string" where
  "show_int i = (if i < 0 then CHR ''-'' # show_nat (nat (- i)) else show_nat (nat i))"

text \<open>For evaluation, the digits are taken from a binary integer.\<close>

definition digit_of :: "int \<Rightarrow> char" where
  "digit_of d = (if d = 0 then CHR ''0'' else if d = 1 then CHR ''1'' else if d = 2 then CHR ''2''
    else if d = 3 then CHR ''3'' else if d = 4 then CHR ''4'' else if d = 5 then CHR ''5''
    else if d = 6 then CHR ''6'' else if d = 7 then CHR ''7'' else if d = 8 then CHR ''8'' else CHR ''9'')"

function show_digits :: "int \<Rightarrow> string" where
  "show_digits i = (if i < 10 then [digit_of i] else show_digits (i div 10) @ [digit_of (i mod 10)])"
  by pat_completeness auto
termination by (relation "measure nat") auto

declare show_digits.simps [simp del]

lemma digit_of_nat: "n < 10 \<Longrightarrow> digit_of (int n) = char_of (48 + n)"
proof -
  have "\<forall>n \<in> set [0..<10]. digit_of (int n) = char_of (48 + n)" by code_simp
  then show "n < 10 \<Longrightarrow> digit_of (int n) = char_of (48 + n)" by simp
qed

lemma show_nat_code [code]: "show_nat n = show_digits (int n)"
proof (induction n rule: show_nat.induct)
  case (1 n)
  have "int n div 10 = int (n div 10)" "int n mod 10 = int (n mod 10)" by (simp_all add: zdiv_int zmod_int)
  with 1 show ?case
    by (simp add: show_nat.simps [of n] show_digits.simps [of "int n"] digit_of_nat)
qed

lemma show_int_code [code]:
  "show_int i = (if i < 0 then CHR ''-'' # show_digits (- i) else show_digits i)"
  by (simp add: show_int_def show_nat_code)

section \<open>Cleaning string lists\<close>

text \<open>The loop shared by \<open>cleanStrings\<close> and \<open>normalizeStrings\<close>: trim, drop blanks,
  keep first occurrences.  \<open>seen\<close> is the map of values already emitted.\<close>

fun dedup_trim :: "string list \<Rightarrow> string list \<Rightarrow> string list" where
  "dedup_trim seen [] = []"
| "dedup_trim seen (v # vs) =
    (let v = trim_space v in
      if v = [] then dedup_trim seen vs
      else if v \<in> set seen then dedup_trim seen vs
      else v # dedup_trim (v # seen) vs)"

lemma set_dedup_trim:
  "set (dedup_trim seen vs) = (trim_space ` set vs - {[]}) - set seen"
  by (induction seen vs rule: dedup_trim.induct) (auto simp: Let_def)

lemma distinct_dedup_trim [simp]: "distinct (dedup_trim seen vs)"
  by (induction seen vs rule: dedup_trim.induct) (auto simp: Let_def set_dedup_trim)

lemma dedup_trim_fix:
  "\<forall>v \<in> set vs. trim_space v = v \<and> v \<noteq> [] \<and> v \<notin> set seen \<Longrightarrow> distinct vs \<Longrightarrow>
    dedup_trim seen vs = vs"
  by (induction seen vs rule: dedup_trim.induct) (auto simp: Let_def)

lemma dedup_trim_idem [simp]: "dedup_trim [] (dedup_trim [] vs) = dedup_trim [] vs"
  by (rule dedup_trim_fix) (auto simp: set_dedup_trim)

section \<open>Sorting with a comparison callback\<close>

text \<open>
  \<open>sort.SliceStable\<close> with a \<open>less\<close> callback.  Where the code uses the unstable
  \<open>sort.Slice\<close>, the order it promises for elements the callback ties is unspecified; this
  is one admissible result.
\<close>

fun insert_by :: "('a \<Rightarrow> 'a \<Rightarrow> bool) \<Rightarrow> 'a \<Rightarrow> 'a list \<Rightarrow> 'a list" where
  "insert_by lt x [] = [x]"
| "insert_by lt x (y # ys) = (if lt y x then y # insert_by lt x ys else x # y # ys)"

definition sort_by :: "('a \<Rightarrow> 'a \<Rightarrow> bool) \<Rightarrow> 'a list \<Rightarrow> 'a list" where
  "sort_by lt xs = foldr (insert_by lt) xs []"

lemma mset_insert_by [simp]: "mset (insert_by lt x ys) = add_mset x (mset ys)"
  by (induction ys) auto

lemma mset_sort_by [simp]: "mset (sort_by lt xs) = mset xs"
  unfolding sort_by_def by (induction xs) auto

lemma set_sort_by [simp]: "set (sort_by lt xs) = set xs"
  by (metis mset_sort_by set_mset_mset)

lemma length_sort_by [simp]: "length (sort_by lt xs) = length xs"
  by (metis mset_sort_by size_mset)

lemma distinct_sort_by [simp]: "distinct (sort_by lt xs) = distinct xs"
  by (metis mset_sort_by mset_eq_imp_distinct_iff)

definition strict_weak :: "('a \<Rightarrow> 'a \<Rightarrow> bool) \<Rightarrow> bool" where
  "strict_weak lt \<longleftrightarrow>
    (\<forall>x y. lt x y \<longrightarrow> \<not> lt y x) \<and> (\<forall>x y z. \<not> lt y x \<longrightarrow> \<not> lt z y \<longrightarrow> \<not> lt z x)"

lemma set_insert_by: "set (insert_by lt x ys) = insert x (set ys)"
  by (metis mset_insert_by set_mset_add_mset_insert set_mset_mset)

lemma sorted_insert_by:
  assumes "strict_weak lt" and "sorted_wrt (\<lambda>x y. \<not> lt y x) ys"
  shows "sorted_wrt (\<lambda>x y. \<not> lt y x) (insert_by lt x ys)"
  using assms(2)
proof (induction ys)
  case Nil
  then show ?case by simp
next
  case (Cons y ys)
  have asym: "\<not> lt b a" if "lt a b" for a b
    using assms(1) that unfolding strict_weak_def by blast
  have trans: "\<not> lt c a" if "\<not> lt b a" "\<not> lt c b" for a b c
    using assms(1) that unfolding strict_weak_def by blast
  show ?case
  proof (cases "lt y x")
    case True
    then have "\<not> lt x y" by (rule asym)
    with True Cons show ?thesis by (auto simp: set_insert_by)
  next
    case False
    moreover have "\<not> lt z x" if "z \<in> set ys" for z
      using Cons.prems that trans [OF False, of z] by auto
    ultimately show ?thesis using Cons.prems by auto
  qed
qed

lemma sorted_sort_by: "strict_weak lt \<Longrightarrow> sorted_wrt (\<lambda>x y. \<not> lt y x) (sort_by lt xs)"
  unfolding sort_by_def by (induction xs) (auto intro: sorted_insert_by)

lemma sort_by_unique:
  assumes "strict_weak lt" and "mset xs = mset ys"
    and "\<And>x y. x \<in> set xs \<Longrightarrow> y \<in> set xs \<Longrightarrow> \<not> lt x y \<Longrightarrow> \<not> lt y x \<Longrightarrow> x = y"
  shows "sort_by lt xs = sort_by lt ys"
proof -
  let ?R = "\<lambda>x y. \<not> lt y x"
  have unique: "us = vs"
    if "sorted_wrt ?R us" "sorted_wrt ?R vs" "mset us = mset vs" "set us \<subseteq> set xs" for us vs
    using that
  proof (induction us arbitrary: vs)
    case (Cons u us)
    then obtain v vs' where vs: "vs = v # vs'" by (cases vs) auto
    have "set (u # us) = set (v # vs')" using Cons.prems(3) vs by (metis set_mset_mset)
    then have "u = v \<or> v \<in> set us" and "u = v \<or> u \<in> set vs'" and "v \<in> set xs" and "u \<in> set xs"
      using Cons.prems(4) by auto
    then have "u = v" using Cons.prems(1,2) assms(3) [of u v] by (auto simp: vs)
    with Cons vs show ?case by auto
  qed simp
  show ?thesis
    by (rule unique) (use assms(1,2) in \<open>simp_all add: sorted_sort_by\<close>)
qed

section \<open>Machine integers\<close>

text \<open>Two's complement wrap-around of Go's 64-bit signed integers.\<close>

definition wrap64 :: "int \<Rightarrow> int" where
  "wrap64 x = sint (word_of_int x :: 64 word)"

lemma wrap64_id: "- (2 ^ 63) \<le> x \<Longrightarrow> x < 2 ^ 63 \<Longrightarrow> wrap64 x = x"
  by (simp add: wrap64_def sint_word_ariths signed_take_bit_int_eq_self_iff sint_sbintrunc')

lemma wrap64_range: "- (2 ^ 63) \<le> wrap64 x \<and> wrap64 x < 2 ^ 63"
  using sint_greater_eq [of "word_of_int x :: 64 word"] sint_less [of "word_of_int x :: 64 word"]
  by (simp add: wrap64_def)

section \<open>Time\<close>

type_synonym time = int
type_synonym duration = int

definition millisecond :: duration where
  "millisecond = 1000000"

definition second :: duration where
  "second = 1000000000"

text \<open>\<open>Duration.Milliseconds\<close> truncates towards zero.\<close>

definition milliseconds :: "duration \<Rightarrow> int" where
  "milliseconds d = (if d < 0 then - ((- d) div 1000000) else d div 1000000)"

text \<open>
  SQL \<open>clock_timestamp() + n * interval '1 millisecond'\<close>.  The clock readings of one
  transaction are a function \<open>clk\<close> from the statement's position to its reading: the
  database's clock moves between statements of one transaction.
\<close>

definition add_millis :: "time \<Rightarrow> int \<Rightarrow> time" where
  "add_millis t n = t + 1000 * n"

lemma milliseconds_pos: "millisecond \<le> d \<Longrightarrow> 0 < milliseconds d"
  by (simp add: milliseconds_def millisecond_def)

lemma milliseconds_mono: "0 \<le> d \<Longrightarrow> d \<le> e \<Longrightarrow> milliseconds d \<le> milliseconds e"
  by (simp add: milliseconds_def zdiv_mono1)

section \<open>Keyed tables\<close>

text \<open>
  A table with a primary key is a map.  \<open>insert_new\<close> is
  \<open>INSERT ... ON CONFLICT DO NOTHING\<close> with its affected-row flag, \<open>update_where\<close> is
  \<open>UPDATE ... WHERE key = k AND P\<close>.  A transaction that returns an error is rolled back:
  \<open>in_tx\<close> runs a body and keeps the old state when it fails.
\<close>

definition insert_new :: "'k \<Rightarrow> 'r \<Rightarrow> ('k \<rightharpoonup> 'r) \<Rightarrow> bool \<times> ('k \<rightharpoonup> 'r)" where
  "insert_new k r t = (case t k of None \<Rightarrow> (True, t(k \<mapsto> r)) | Some _ \<Rightarrow> (False, t))"

definition update_where :: "'k \<Rightarrow> ('r \<Rightarrow> bool) \<Rightarrow> ('r \<Rightarrow> 'r) \<Rightarrow> ('k \<rightharpoonup> 'r) \<Rightarrow> ('k \<rightharpoonup> 'r)" where
  "update_where k P f t =
    (case t k of None \<Rightarrow> t | Some r \<Rightarrow> if P r then t(k \<mapsto> f r) else t)"

definition in_tx :: "('s \<Rightarrow> 'e + 'a \<times> 's) \<Rightarrow> 's \<Rightarrow> ('e + 'a) \<times> 's" where
  "in_tx body s = (case body s of Inl e \<Rightarrow> (Inl e, s) | Inr (x, s') \<Rightarrow> (Inr x, s'))"

lemma update_where_other [simp]: "k' \<noteq> k \<Longrightarrow> update_where k P f t k' = t k'"
  by (simp add: update_where_def split: option.splits)

lemma update_where_same:
  "update_where k P f t k = (case t k of None \<Rightarrow> None | Some r \<Rightarrow> Some (if P r then f r else r))"
  by (simp add: update_where_def split: option.splits)

lemma insert_new_simps [simp]:
  "t k = None \<Longrightarrow> insert_new k r t = (True, t(k \<mapsto> r))"
  "t k = Some q \<Longrightarrow> insert_new k r t = (False, t)"
  by (simp_all add: insert_new_def)

lemma in_tx_cases:
  assumes "in_tx body s = (r, t)"
  obtains e where "r = Inl e" and "t = s" and "body s = Inl e"
  | x where "r = Inr x" and "body s = Inr (x, t)"
  using assms by (auto simp: in_tx_def split: sum.splits)

end
