(* ===== verification/Json.thy ===== *)
theory Json
  imports Fornix_Prelude
begin

text \<open>
  What the program uses of package \<open>encoding/json\<close>: \<open>Valid\<close>, \<open>Compact\<close> and the
  decoding of a top-level string or null.

  \<open>Valid\<close> is the package's pushdown scanner: a state, a stack of open objects and arrays,
  one transition per byte and at most 10000 open brackets.  \<open>Compact\<close> drops the white space
  the scanner skips.  A string literal is decoded with its escapes, a surrogate pair as one
  rune and a lone surrogate as U+FFFD; the bytes from 128 on are copied (Go also replaces
  ill-formed UTF-8 there, which is not modelled).  The re-marshalling of other values
  (\<open>json.Marshal\<close> of an \<open>any\<close>) is an argument of the definitions that use it.
\<close>

section \<open>The scanner\<close>

datatype frame = ObjectKey | ObjectValue | ArrayValue

datatype scan =
  BeginValue | BeginValueOrEmpty | BeginStringOrEmpty | BeginString | EndValue | EndTop
| InString | InStringEsc | InStringEscU nat
| Neg | Num1 | Num0 | Dot | Dot0 | Exp | ExpSign | Exp0
| Literal string

definition max_nesting :: int where
  "max_nesting = 10000"

definition json_space :: "char \<Rightarrow> bool" where
  "json_space c \<longleftrightarrow> c = CHR 0x20 \<or> c = CHR 0x09 \<or> c = CHR 0x0D \<or> c = CHR 0x0A"

definition digit :: "char \<Rightarrow> bool" where
  "digit c \<longleftrightarrow> CHR ''0'' \<le> c \<and> c \<le> CHR ''9''"

definition hex_digit :: "char \<Rightarrow> bool" where
  "hex_digit c \<longleftrightarrow> digit c \<or> (CHR ''a'' \<le> c \<and> c \<le> CHR ''f'') \<or> (CHR ''A'' \<le> c \<and> c \<le> CHR ''F'')"

text \<open>For evaluation, the character classes on the bits of a character.\<close>

lemma digit_code [code]:
  "digit (Char b0 b1 b2 b3 b4 b5 b6 b7) = (\<not> b7 \<and> \<not> b6 \<and> b5 \<and> b4 \<and> (\<not> b3 \<or> (\<not> b2 \<and> \<not> b1)))"
  unfolding digit_def less_eq_char_def
  by (cases b0; cases b1; cases b2; cases b3; cases b4; cases b5; cases b6; cases b7) simp_all

definition hex_lower :: "char \<Rightarrow> bool" where
  "hex_lower c \<longleftrightarrow> CHR ''a'' \<le> c \<and> c \<le> CHR ''f''"

lemma hex_lower_code [code]:
  "hex_lower (Char b0 b1 b2 b3 b4 b5 b6 b7) =
    (\<not> b7 \<and> b6 \<and> b5 \<and> \<not> b4 \<and> \<not> b3 \<and> (b0 \<or> b1 \<or> b2) \<and> \<not> (b0 \<and> b1 \<and> b2))"
  unfolding hex_lower_def less_eq_char_def
  by (cases b0; cases b1; cases b2; cases b3; cases b4; cases b5; cases b6; cases b7) simp_all

declare hex_lower_def [symmetric, code_unfold]

definition control_byte :: "char \<Rightarrow> bool" where
  "control_byte c \<longleftrightarrow> (of_char c :: nat) < 32"

lemma control_byte_code [code]: "control_byte (Char b0 b1 b2 b3 b4 b5 b6 b7) = (\<not> b7 \<and> \<not> b6 \<and> \<not> b5)"
  unfolding control_byte_def
  by (cases b0; cases b1; cases b2; cases b3; cases b4; cases b5; cases b6; cases b7) simp_all

declare control_byte_def [symmetric, code_unfold]

definition push_frame :: "scan \<Rightarrow> frame \<Rightarrow> frame list \<Rightarrow> (scan \<times> frame list) option" where
  "push_frame s f st = (if len st < max_nesting then Some (s, f # st) else None)"

definition pop_frame :: "frame list \<Rightarrow> scan \<times> frame list" where
  "pop_frame st = (if tl st = [] then (EndTop, []) else (EndValue, tl st))"

definition end_value :: "char \<Rightarrow> frame list \<Rightarrow> (scan \<times> frame list) option" where
  "end_value c st =
    (case st of
      [] \<Rightarrow> if json_space c then Some (EndTop, []) else None
    | f # fs \<Rightarrow>
        if json_space c then Some (EndValue, st)
        else case f of
          ObjectKey \<Rightarrow> if c = CHR '':'' then Some (BeginValue, ObjectValue # fs) else None
        | ObjectValue \<Rightarrow>
            if c = CHR '','' then Some (BeginString, ObjectKey # fs)
            else if c = CHR ''}'' then Some (pop_frame st) else None
        | ArrayValue \<Rightarrow>
            if c = CHR '','' then Some (BeginValue, st)
            else if c = CHR '']'' then Some (pop_frame st) else None)"

definition begin_value :: "char \<Rightarrow> frame list \<Rightarrow> (scan \<times> frame list) option" where
  "begin_value c st =
    (if json_space c then Some (BeginValue, st)
     else if c = CHR ''{'' then push_frame BeginStringOrEmpty ObjectKey st
     else if c = CHR ''['' then push_frame BeginValueOrEmpty ArrayValue st
     else if c = CHR 0x22 then Some (InString, st)
     else if c = CHR ''-'' then Some (Neg, st)
     else if c = CHR ''0'' then Some (Num0, st)
     else if c = CHR ''t'' then Some (Literal ''rue'', st)
     else if c = CHR ''f'' then Some (Literal ''alse'', st)
     else if c = CHR ''n'' then Some (Literal ''ull'', st)
     else if digit c then Some (Num1, st) else None)"

definition scan_step :: "scan \<times> frame list \<Rightarrow> char \<Rightarrow> (scan \<times> frame list) option" where
  "scan_step s c = (case s of (q, st) \<Rightarrow> (case q of
      BeginValue \<Rightarrow> begin_value c st
    | BeginValueOrEmpty \<Rightarrow>
        if json_space c then Some (q, st)
        else if c = CHR '']'' then end_value c st else begin_value c st
    | BeginStringOrEmpty \<Rightarrow>
        if json_space c then Some (q, st)
        else if c = CHR ''}'' then end_value c (ObjectValue # tl st)
        else if c = CHR 0x22 then Some (InString, st) else None
    | BeginString \<Rightarrow>
        if json_space c then Some (q, st)
        else if c = CHR 0x22 then Some (InString, st) else None
    | EndValue \<Rightarrow> end_value c st
    | EndTop \<Rightarrow> if json_space c then Some (q, st) else None
    | InString \<Rightarrow>
        if c = CHR 0x22 then Some (EndValue, st)
        else if c = CHR 0x5C then Some (InStringEsc, st)
        else if (of_char c :: nat) < 32 then None else Some (q, st)
    | InStringEsc \<Rightarrow>
        if c \<in> set (CHR 0x22 # CHR 0x5C # ''bfnrt/'') then Some (InString, st)
        else if c = CHR ''u'' then Some (InStringEscU 3, st) else None
    | InStringEscU n \<Rightarrow>
        if hex_digit c then Some (if n = 0 then InString else InStringEscU (n - 1), st) else None
    | Neg \<Rightarrow> if c = CHR ''0'' then Some (Num0, st) else if digit c then Some (Num1, st) else None
    | Num1 \<Rightarrow>
        if digit c then Some (Num1, st)
        else if c = CHR ''.'' then Some (Dot, st)
        else if c = CHR ''e'' \<or> c = CHR ''E'' then Some (Exp, st) else end_value c st
    | Num0 \<Rightarrow>
        if c = CHR ''.'' then Some (Dot, st)
        else if c = CHR ''e'' \<or> c = CHR ''E'' then Some (Exp, st) else end_value c st
    | Dot \<Rightarrow> if digit c then Some (Dot0, st) else None
    | Dot0 \<Rightarrow>
        if digit c then Some (Dot0, st)
        else if c = CHR ''e'' \<or> c = CHR ''E'' then Some (Exp, st) else end_value c st
    | Exp \<Rightarrow>
        if c = CHR ''+'' \<or> c = CHR ''-'' then Some (ExpSign, st)
        else if digit c then Some (Exp0, st) else None
    | ExpSign \<Rightarrow> if digit c then Some (Exp0, st) else None
    | Exp0 \<Rightarrow> if digit c then Some (Exp0, st) else end_value c st
    | Literal w \<Rightarrow>
        (case w of
          [] \<Rightarrow> None
        | x # xs \<Rightarrow> if c = x then Some (if xs = [] then EndValue else Literal xs, st) else None)))"

fun scan_all :: "scan \<times> frame list \<Rightarrow> string \<Rightarrow> (scan \<times> frame list) option" where
  "scan_all s [] = Some s"
| "scan_all s (c # cs) = (case scan_step s c of None \<Rightarrow> None | Some s' \<Rightarrow> scan_all s' cs)"

definition json_valid :: "string \<Rightarrow> bool" where
  "json_valid raw \<longleftrightarrow>
    (case scan_all (BeginValue, []) (raw @ '' '') of Some (EndTop, st) \<Rightarrow> True | _ \<Rightarrow> False)"

section \<open>Compaction\<close>

fun compact_from :: "scan \<times> frame list \<Rightarrow> string \<Rightarrow> string" where
  "compact_from s [] = []"
| "compact_from s (c # cs) =
    (case scan_step s c of
      None \<Rightarrow> []
    | Some s' \<Rightarrow>
        if json_space c \<and> fst s \<noteq> InString then compact_from s' cs else c # compact_from s' cs)"

definition json_compact :: "string \<Rightarrow> string" where
  "json_compact raw = (if json_valid raw then compact_from (BeginValue, []) raw else raw)"

section \<open>Top-level strings\<close>

definition hex_val :: "char \<Rightarrow> nat" where
  "hex_val c =
    (if digit c then of_char c - 48
     else if CHR ''a'' \<le> c then of_char c - 87 else of_char c - 55)"

definition hex4 :: "string \<Rightarrow> nat" where
  "hex4 cs = foldl (\<lambda>n c. 16 * n + hex_val c) 0 (take 4 cs)"

definition utf8 :: "nat \<Rightarrow> string" where
  "utf8 r =
    (if r < 0x80 then [char_of r]
     else if r < 0x800 then [char_of (0xC0 + r div 64), char_of (0x80 + r mod 64)]
     else if r < 0x10000
     then [char_of (0xE0 + r div 4096), char_of (0x80 + r div 64 mod 64), char_of (0x80 + r mod 64)]
     else [char_of (0xF0 + r div 262144), char_of (0x80 + r div 4096 mod 64),
           char_of (0x80 + r div 64 mod 64), char_of (0x80 + r mod 64)])"

definition unescape :: "char \<Rightarrow> char" where
  "unescape c =
    (if c = CHR ''b'' then CHR 0x08 else if c = CHR ''f'' then CHR 0x0C
     else if c = CHR ''n'' then CHR 0x0A else if c = CHR ''r'' then CHR 0x0D
     else if c = CHR ''t'' then CHR 0x09 else c)"

function unquote :: "string \<Rightarrow> string" where
  "unquote cs =
    (case cs of
      [] \<Rightarrow> []
    | c # r \<Rightarrow>
        if c = CHR 0x22 then []
        else if c \<noteq> CHR 0x5C then c # unquote r
        else case r of
          [] \<Rightarrow> []
        | e # r' \<Rightarrow>
            if e \<noteq> CHR ''u'' then unescape e # unquote r'
            else let u = hex4 r'; r4 = drop 4 r' in
              if 0xD800 \<le> u \<and> u < 0xDC00 \<and> take 2 r4 = [CHR 0x5C, CHR ''u''] \<and>
                0xDC00 \<le> hex4 (drop 2 r4) \<and> hex4 (drop 2 r4) < 0xE000
              then utf8 (0x10000 + (u - 0xD800) * 1024 + (hex4 (drop 2 r4) - 0xDC00)) @ unquote (drop 6 r4)
              else if 0xD800 \<le> u \<and> u < 0xE000 then utf8 0xFFFD @ unquote r4
              else utf8 u @ unquote r4)"
  by pat_completeness auto
termination by (relation "measure length") (auto simp: less_Suc_eq_le)

declare unquote.simps [simp del]

datatype json_top = JsonNull | JsonString string | JsonOther

text \<open>The kind of a valid document, and the text of a top-level string.\<close>

definition json_top :: "string \<Rightarrow> json_top" where
  "json_top raw =
    (case dropWhile json_space raw of
      [] \<Rightarrow> JsonOther
    | c # cs \<Rightarrow>
        if c = CHR 0x22 then JsonString (unquote cs)
        else if c = CHR ''n'' then JsonNull else JsonOther)"

text \<open>\<open>json.Unmarshal\<close> into a Go string: null leaves the empty string.\<close>

definition json_unmarshal_string :: "string \<Rightarrow> string option" where
  "json_unmarshal_string raw =
    (if \<not> json_valid raw then None
     else case json_top raw of JsonString s \<Rightarrow> Some s | JsonNull \<Rightarrow> Some [] | JsonOther \<Rightarrow> None)"

text \<open>A literal in double quotes, for a text that needs no escape.\<close>

definition json_quote :: "string \<Rightarrow> string" where
  "json_quote s = CHR 0x22 # s @ [CHR 0x22]"

definition json_plain :: "string \<Rightarrow> bool" where
  "json_plain s \<longleftrightarrow> (\<forall>c \<in> set s. c \<noteq> CHR 0x22 \<and> c \<noteq> CHR 0x5C \<and> 32 \<le> (of_char c :: nat))"

lemma scan_plain:
  "json_plain s \<Longrightarrow> scan_all (InString, st) (s @ t) = scan_all (InString, st) t"
  by (induction s) (auto simp: json_plain_def scan_step_def)

lemma json_valid_quote: "json_plain s \<Longrightarrow> json_valid (json_quote s)"
  by (simp add: json_valid_def json_quote_def scan_plain scan_step_def begin_value_def
      json_space_def end_value_def)

lemma unquote_plain: "json_plain s \<Longrightarrow> unquote (s @ [CHR 0x22]) = s"
  by (induction s) (simp_all add: json_plain_def unquote.simps)

lemma json_unmarshal_quote: "json_plain s \<Longrightarrow> json_unmarshal_string (json_quote s) = Some s"
  using json_valid_quote [of s] unquote_plain [of s]
  by (simp add: json_unmarshal_string_def json_top_def json_quote_def json_space_def)

lemma json_valid_samples:
  "json_valid ''{}''" "json_valid ''[1, -2.5e+3, true, null]''" "\<not> json_valid ''''"
  "\<not> json_valid ''{,}''" "\<not> json_valid ''01''"
  by code_simp+

lemma json_compact_sample: "json_compact ''{ } '' = ''{}''"
  by code_simp

section \<open>Marshalling\<close>

text \<open>
  \<open>json.Marshal\<close> of a Go string: quotes, backslashes, control bytes, the HTML characters
  and the two line separators U+2028 and U+2029 are escaped.  Lower-case hexadecimal digits.
\<close>

definition hex_char :: "nat \<Rightarrow> char" where
  "hex_char n = (if n < 10 then char_of (48 + n) else char_of (87 + n))"

definition escape_char :: "char \<Rightarrow> string" where
  "escape_char c =
    (let n = of_char c :: nat in
      if c = CHR 0x22 \<or> c = CHR 0x5C then [CHR 0x5C, c]
      else if c = CHR 0x08 then [CHR 0x5C, CHR ''b''] else if c = CHR 0x0C then [CHR 0x5C, CHR ''f'']
      else if c = CHR 0x0A then [CHR 0x5C, CHR ''n''] else if c = CHR 0x0D then [CHR 0x5C, CHR ''r'']
      else if c = CHR 0x09 then [CHR 0x5C, CHR ''t'']
      else if n < 32 \<or> c = CHR ''<'' \<or> c = CHR ''>'' \<or> c = CHR ''&''
      then [CHR 0x5C, CHR ''u'', CHR ''0'', CHR ''0'', hex_char (n div 16), hex_char (n mod 16)]
      else [c])"

definition line_separator :: "string \<Rightarrow> bool" where
  "line_separator cs \<longleftrightarrow>
    take 3 cs = [CHR 0xE2, CHR 0x80, CHR 0xA8] \<or> take 3 cs = [CHR 0xE2, CHR 0x80, CHR 0xA9]"

lemma escape_char_code [code]:
  "escape_char c =
    (if \<not> (control_byte c \<or> c = CHR 0x22 \<or> c = CHR 0x5C \<or> c = CHR ''<'' \<or> c = CHR ''>'' \<or> c = CHR ''&'') then [c]
     else if c = CHR 0x22 \<or> c = CHR 0x5C then [CHR 0x5C, c]
     else if c = CHR 0x08 then [CHR 0x5C, CHR ''b''] else if c = CHR 0x0C then [CHR 0x5C, CHR ''f'']
     else if c = CHR 0x0A then [CHR 0x5C, CHR ''n''] else if c = CHR 0x0D then [CHR 0x5C, CHR ''r'']
     else if c = CHR 0x09 then [CHR 0x5C, CHR ''t'']
     else [CHR 0x5C, CHR ''u'', CHR ''0'', CHR ''0'', hex_char (of_char c div 16), hex_char (of_char c mod 16)])"
  by (auto simp: escape_char_def control_byte_def Let_def)

lemma line_separator_code [code]:
  "line_separator [] = False"
  "line_separator (c # cs) = (c = CHR 0xE2 \<and> (take 2 cs = [CHR 0x80, CHR 0xA8] \<or> take 2 cs = [CHR 0x80, CHR 0xA9]))"
  by (auto simp: line_separator_def numeral_3_eq_3 numeral_2_eq_2)

function json_escape :: "string \<Rightarrow> string" where
  "json_escape cs =
    (case cs of
      [] \<Rightarrow> []
    | c # r \<Rightarrow>
        if line_separator cs
        then [CHR 0x5C, CHR ''u'', CHR ''2'', CHR ''0'', CHR ''2'',
              if r ! 1 = CHR 0xA8 then CHR ''8'' else CHR ''9''] @ json_escape (drop 2 r)
        else escape_char c @ json_escape r)"
  by pat_completeness auto
termination by (relation "measure length") (auto simp: less_Suc_eq_le)

declare json_escape.simps [simp del]

definition json_string :: "string \<Rightarrow> string" where
  "json_string s = CHR 0x22 # json_escape s @ [CHR 0x22]"

text \<open>
  \<open>json.Marshal\<close> of a raw message: null when it is empty, an error when it is not a JSON
  document, otherwise the compact form with the HTML characters and line separators escaped
  (they occur inside strings only).
\<close>

function html_escape :: "string \<Rightarrow> string" where
  "html_escape cs =
    (case cs of
      [] \<Rightarrow> []
    | c # r \<Rightarrow>
        if line_separator cs
        then [CHR 0x5C, CHR ''u'', CHR ''2'', CHR ''0'', CHR ''2'',
              if r ! 1 = CHR 0xA8 then CHR ''8'' else CHR ''9''] @ html_escape (drop 2 r)
        else (if c = CHR ''<'' \<or> c = CHR ''>'' \<or> c = CHR ''&'' then escape_char c else [c]) @ html_escape r)"
  by pat_completeness auto
termination by (relation "measure length") (auto simp: less_Suc_eq_le)

declare html_escape.simps [simp del]

definition json_marshal_raw :: "string \<Rightarrow> string option" where
  "json_marshal_raw raw =
    (if raw = [] then Some ''null''
     else if json_valid raw then Some (html_escape (json_compact raw)) else None)"

definition json_bool :: "bool \<Rightarrow> string" where
  "json_bool b = (if b then ''true'' else ''false'')"

text \<open>An object from its members, in the order given.\<close>

definition json_member :: "string \<Rightarrow> string \<Rightarrow> string" where
  "json_member k v = json_string k @ [CHR 0x3A] @ v"

fun json_members :: "(string \<times> string) list \<Rightarrow> string" where
  "json_members [] = []"
| "json_members [(k, v)] = json_member k v"
| "json_members ((k, v) # ms) = json_member k v @ [CHR 0x2C] @ json_members ms"

definition json_object :: "(string \<times> string) list \<Rightarrow> string" where
  "json_object ms = CHR 0x7B # json_members ms @ [CHR 0x7D]"

text \<open>\<open>strconv.ParseInt(s, 10, 64)\<close>.\<close>

definition parse_int64 :: "string \<Rightarrow> int option" where
  "parse_int64 s =
    (let signed = (s \<noteq> [] \<and> (hd s = CHR ''+'' \<or> hd s = CHR ''-'')); ds = (if signed then tl s else s);
         v = foldl (\<lambda>a d. 10 * a + (int (of_char d) - 48)) 0 ds;
         w = (if signed \<and> hd s = CHR ''-'' then - v else v) in
    if ds = [] \<or> \<not> list_all digit ds \<or> w < - (2 ^ 63) \<or> w \<ge> 2 ^ 63 then None else Some w)"

section \<open>Strings survive the round trip\<close>

lemma hex_val_char: "n < 16 \<Longrightarrow> hex_val (hex_char n) = n \<and> hex_digit (hex_char n)"
proof -
  have "\<forall>n \<in> set [0..<16]. hex_val (hex_char n) = n \<and> hex_digit (hex_char n)" by code_simp
  then show "n < 16 \<Longrightarrow> hex_val (hex_char n) = n \<and> hex_digit (hex_char n)" by simp
qed

lemma hex_val_digits [simp]: "hex_val (CHR ''0'') = 0" "hex_val (CHR ''2'') = 2"
  "hex_val (CHR ''8'') = 8" "hex_val (CHR ''9'') = 9"
  by code_simp+

lemma utf8_separators: "utf8 0x2028 = [CHR 0xE2, CHR 0x80, CHR 0xA8]" "utf8 0x2029 = [CHR 0xE2, CHR 0x80, CHR 0xA9]"
  by (simp_all add: utf8_def of_char_eq_iff [symmetric, where 'a = nat] del: of_char_eq_iff)

lemma unquote_u:
  assumes "hex4 (a # b # c # d # r) < 0xD800"
  shows "unquote (CHR 0x5C # CHR ''u'' # a # b # c # d # r) = utf8 (hex4 [a, b, c, d]) @ unquote r"
  using assms by (simp add: unquote.simps [of "CHR 0x5C # CHR ''u'' # a # b # c # d # r"] hex4_def)

lemma unquote_escape_char: "unquote (escape_char c @ r) = c # unquote r"
proof (cases "(of_char c :: nat) < 32 \<or> c = CHR ''<'' \<or> c = CHR ''>'' \<or> c = CHR ''&''")
  case True
  let ?n = "of_char c :: nat"
  have n: "?n < 64" using True by auto
  have hex: "hex4 [CHR ''0'', CHR ''0'', hex_char (?n div 16), hex_char (?n mod 16)] = ?n"
    using n hex_val_char [of "?n div 16"] hex_val_char [of "?n mod 16"] by (simp add: hex4_def)
  have "unquote (CHR 0x5C # CHR ''u'' # CHR ''0'' # CHR ''0'' # hex_char (?n div 16) # hex_char (?n mod 16) # r)
      = utf8 ?n @ unquote r"
    using unquote_u [of "CHR ''0''" "CHR ''0''" "hex_char (?n div 16)" "hex_char (?n mod 16)" r] hex n
    by (simp add: hex4_def)
  moreover have "utf8 ?n = [c]" using n by (simp add: utf8_def)
  ultimately show ?thesis using True
    by (auto simp: escape_char_def Let_def unquote.simps [of "CHR 0x5C # _"] unescape_def)
next
  case False
  then show ?thesis
    by (auto simp: escape_char_def Let_def unquote.simps [of "_ # _"] unescape_def)
qed

lemma line_separator_Cons:
  assumes "line_separator cs"
  obtains x r where "cs = [CHR 0xE2, CHR 0x80, x] @ r" and "x = CHR 0xA8 \<or> x = CHR 0xA9"
proof -
  obtain x where "take 3 cs = [CHR 0xE2, CHR 0x80, x]" "x = CHR 0xA8 \<or> x = CHR 0xA9"
    using assms by (auto simp: line_separator_def)
  then show ?thesis using that by (metis append_take_drop_id)
qed

lemma unquote_escape: "unquote (json_escape s @ [CHR 0x22]) = s"
proof (induction s rule: json_escape.induct)
  case (1 cs)
  show ?case
  proof (cases cs)
    case Nil
    then show ?thesis by (simp add: json_escape.simps unquote.simps)
  next
    case (Cons c r)
    show ?thesis
    proof (cases "line_separator cs")
      case True
      then obtain x r' where cs: "cs = [CHR 0xE2, CHR 0x80, x] @ r'" and x: "x = CHR 0xA8 \<or> x = CHR 0xA9"
        by (rule line_separator_Cons)
      have IH: "unquote (json_escape r' @ [CHR 0x22]) = r'"
        using "1.IH"(1) [of c r] Cons True cs by (auto simp del: json_escape.simps)
      have "json_escape cs = [CHR 0x5C, CHR ''u'', CHR ''2'', CHR ''0'', CHR ''2'',
          if x = CHR 0xA8 then CHR ''8'' else CHR ''9''] @ json_escape r'"
        using True cs by (simp add: json_escape.simps [of "CHR 0xE2 # CHR 0x80 # x # r'"])
      then show ?thesis using x cs IH
        by (auto simp: unquote_u hex4_def utf8_separators [simplified])
    next
      case False
      with Cons have "json_escape cs = escape_char c @ json_escape r"
        by (simp add: json_escape.simps [of "c # r"])
      then show ?thesis
        using "1.IH"(2) [of c r] Cons False by (simp add: unquote_escape_char)
    qed
  qed
qed

lemma scan_all_append: "scan_all s (xs @ ys) = (case scan_all s xs of None \<Rightarrow> None | Some t \<Rightarrow> scan_all t ys)"
  by (induction xs arbitrary: s) (auto split: option.splits)

lemma scan_hex: "n < 16 \<Longrightarrow> scan_step (InStringEscU k, st) (hex_char n) =
    Some (if k = 0 then InString else InStringEscU (k - 1), st)"
  using hex_val_char by (simp add: scan_step_def)

lemma scan_hex_digits: "hex_digit (CHR ''0'')" "hex_digit (CHR ''2'')" "hex_digit (CHR ''8'')" "hex_digit (CHR ''9'')"
  by code_simp+

lemma scan_escape_char: "scan_all (InString, st) (escape_char c) = Some (InString, st)"
proof (cases "(of_char c :: nat) < 32 \<or> c = CHR ''<'' \<or> c = CHR ''>'' \<or> c = CHR ''&''")
  case True
  then have "(of_char c :: nat) < 64" by auto
  then have "of_char c div 16 < (16 :: nat)" by simp
  with True show ?thesis
    by (auto simp: escape_char_def Let_def scan_step_def scan_hex scan_hex_digits hex_val_char)
next
  case False
  then show ?thesis by (auto simp: escape_char_def Let_def scan_step_def)
qed

lemma scan_escape: "scan_all (InString, st) (json_escape s) = Some (InString, st)"
proof (induction s rule: json_escape.induct)
  case (1 cs)
  show ?case
  proof (cases cs)
    case Nil
    then show ?thesis by (simp add: json_escape.simps)
  next
    case (Cons c r)
    show ?thesis
    proof (cases "line_separator cs")
      case True
      with Cons "1.IH"(1) [of c r] show ?thesis
        by (simp add: json_escape.simps [of "c # r"] scan_step_def scan_hex_digits)
    next
      case False
      with Cons "1.IH"(2) [of c r] show ?thesis
        by (simp add: json_escape.simps [of "c # r"] scan_all_append scan_escape_char)
    qed
  qed
qed

lemma json_valid_string: "json_valid (json_string s)"
  by (simp add: json_valid_def json_string_def scan_step_def begin_value_def json_space_def
      scan_all_append scan_escape end_value_def)

text \<open>Encoding a Go string and decoding it gives the string back.\<close>

lemma json_string_roundtrip: "json_unmarshal_string (json_string s) = Some s"
  using json_valid_string [of s]
  by (simp add: json_unmarshal_string_def json_top_def json_string_def json_space_def unquote_escape)

lemma json_top_string: "json_top (json_string s) = JsonString s"
  by (simp add: json_top_def json_string_def json_space_def unquote_escape)

end
