(* ===== verification/Event_Contract.thy ===== *)
theory Event_Contract
  imports Json
begin

text \<open>
  \<open>internal/contracts/events.go\<close> and the policy reference of
  \<open>internal/contracts/policy.go\<close>: the event envelope, its normalisation and the content
  that identifies a retried request.

  Fields keep the Go names with the prefix \<open>ev_\<close>; a nil pointer is \<open>None\<close>, a raw
  JSON message is its bytes and the zero \<open>OccurredAt\<close> is \<open>None\<close>.  \<open>EventInvalid\<close> carries
  the kind of the message, not its formatted text.  The generated identity and the clock are
  arguments of \<open>normalize_event\<close>; \<open>RequestHash\<close> is a digest of \<open>request_content\<close>,
  the struct it marshals.
\<close>

section \<open>Data\<close>

record scope =
  sc_workspace :: string
  sc_visibility :: string
  sc_subject :: string

record actor_ref =
  ac_id :: string
  ac_kind :: string
  ac_name :: string
  ac_workspace :: string

record entity_ref =
  er_id :: string
  er_kind :: string
  er_workspace :: string

record artifact_reference =
  ar_ref :: string
  ar_kind :: string
  ar_sha256 :: string
  ar_media_type :: string
  ar_size_bytes :: int

record provenance =
  pv_event_ids :: "string list"
  pv_artifact_refs :: "string list"
  pv_paths :: "string list"

record state_delta =
  sd_op :: string
  sd_path :: string
  sd_value :: string
  sd_evidence :: "string list"

record policy_ref =
  pr_schema_version :: int
  pr_workspace :: string
  pr_policy_id :: string
  pr_version :: string
  pr_policy_hash :: string

record event =
  ev_id :: string
  ev_sequence :: int
  ev_type :: string
  ev_schema_version :: int
  ev_occurred :: "time option"
  ev_recorded :: time
  ev_scope :: scope
  ev_actor :: actor_ref
  ev_task :: "entity_ref option"
  ev_session :: "entity_ref option"
  ev_policy :: "policy_ref option"
  ev_causation :: string
  ev_correlation :: string
  ev_idempotency :: string
  ev_deltas :: "state_delta list"
  ev_artifacts :: "artifact_reference list"
  ev_provenance :: provenance
  ev_payload :: string

datatype event_error = EventInvalid string

definition default_workspace_id :: string where
  "default_workspace_id = ''default''"

definition max_event_payload_bytes :: int where
  "max_event_payload_bytes = 4194304"

definition max_event_id_length :: int where
  "max_event_id_length = 128"

definition max_idempotency_length :: int where
  "max_idempotency_length = 256"

section \<open>Lexical classes\<close>

definition lower_alpha :: "char \<Rightarrow> bool" where
  "lower_alpha c \<longleftrightarrow> CHR ''a'' \<le> c \<and> c \<le> CHR ''z''"

lemma lower_alpha_code [code]:
  "lower_alpha (Char b0 b1 b2 b3 b4 b5 b6 b7) =
    (\<not> b7 \<and> b6 \<and> b5 \<and> (b0 \<or> b1 \<or> b2 \<or> b3 \<or> b4) \<and> \<not> (b4 \<and> b3 \<and> (b2 \<or> (b1 \<and> b0))))"
  unfolding lower_alpha_def less_eq_char_def
  by (cases b0; cases b1; cases b2; cases b3; cases b4; cases b5; cases b6; cases b7) simp_all

definition segment_char :: "char \<Rightarrow> bool" where
  "segment_char c \<longleftrightarrow> lower_alpha c \<or> digit c \<or> c = CHR ''_'' \<or> c = CHR ''-''"

fun split_on :: "char \<Rightarrow> string \<Rightarrow> string list" where
  "split_on d [] = [[]]"
| "split_on d (c # cs) =
    (if c = d then [] # split_on d cs
     else case split_on d cs of [] \<Rightarrow> [[c]] | w # ws \<Rightarrow> (c # w) # ws)"

text \<open>The regular expression \<open>^[a-z][a-z0-9_-]*(\.[a-z0-9_-]+)+$\<close>.\<close>

definition event_type_pattern :: "string \<Rightarrow> bool" where
  "event_type_pattern s =
    (case split_on (CHR ''.'') s of
      (c # w) # w' # ws \<Rightarrow>
        lower_alpha c \<and> list_all segment_char w \<and>
        list_all (\<lambda>x. x \<noteq> [] \<and> list_all segment_char x) (w' # ws)
    | _ \<Rightarrow> False)"

definition valid_sha256 :: "string \<Rightarrow> bool" where
  "valid_sha256 s \<longleftrightarrow> len s = 64 \<and> list_all (\<lambda>c. digit c \<or> (CHR ''a'' \<le> c \<and> c \<le> CHR ''f'')) s"

section \<open>Normalisation\<close>

definition clean_strings :: "string list \<Rightarrow> string list" where
  "clean_strings vs = dedup_trim [] vs"

definition normalize_scope :: "scope \<Rightarrow> scope" where
  "normalize_scope s =
    (let w = trim_space (sc_workspace s) in
      \<lparr>sc_workspace = (if w = [] then default_workspace_id else w),
       sc_visibility = trim_space (sc_visibility s), sc_subject = trim_space (sc_subject s)\<rparr>)"

definition normalize_actor :: "actor_ref \<Rightarrow> event_error + actor_ref" where
  "normalize_actor a0 =
    (let a = \<lparr>ac_id = trim_space (ac_id a0), ac_kind = trim_space (ac_kind a0),
              ac_name = trim_space (ac_name a0), ac_workspace = trim_space (ac_workspace a0)\<rparr> in
      if len (ac_id a) > max_event_id_length \<or> len (ac_kind a) > 64 \<or>
         len (ac_name a) > 256 \<or> len (ac_workspace a) > 256
      then Inl (EventInvalid ''actor reference is too large'') else Inr a)"

definition validate_entity_ref ::
    "entity_ref option \<Rightarrow> string \<Rightarrow> event_error + entity_ref option" where
  "validate_entity_ref ref expected =
    (case ref of
      None \<Rightarrow> Inr None
    | Some r0 \<Rightarrow>
        let r = \<lparr>er_id = trim_space (er_id r0), er_kind = to_lower (trim_space (er_kind r0)),
                 er_workspace = trim_space (er_workspace r0)\<rparr> in
        if er_id r = [] \<or> er_kind r = [] then Inl (EventInvalid ''reference requires id and kind'')
        else if er_kind r \<noteq> expected then Inl (EventInvalid ''reference kind'')
        else Inr (Some r))"

definition normalize_artifact_reference ::
    "artifact_reference \<Rightarrow> event_error + artifact_reference" where
  "normalize_artifact_reference a0 =
    (let a = a0\<lparr>ar_ref := trim_space (ar_ref a0), ar_kind := trim_space (ar_kind a0),
                ar_sha256 := to_lower (trim_space (ar_sha256 a0)),
                ar_media_type := trim_space (ar_media_type a0)\<rparr> in
      if ar_ref a = [] then Inl (EventInvalid ''ref is required'')
      else if len (ar_ref a) > 2048 \<or> len (ar_kind a) > 128 \<or> len (ar_sha256 a) > 64 \<or>
        len (ar_media_type a) > 256 then Inl (EventInvalid ''artifact reference is too large'')
      else if ar_sha256 a \<noteq> [] \<and> len (ar_sha256 a) \<noteq> 64
        then Inl (EventInvalid ''sha256 length'')
      else if ar_sha256 a \<noteq> [] \<and> \<not> list_all hex_digit (ar_sha256 a)
        then Inl (EventInvalid ''sha256 must be hexadecimal'')
      else if ar_size_bytes a < 0 then Inl (EventInvalid ''size_bytes cannot be negative'')
      else Inr a)"

definition delta_ops :: "string list" where
  "delta_ops = [''set'', ''add'', ''remove'', ''delete'']"

definition normalize_state_delta :: "state_delta \<Rightarrow> event_error + state_delta" where
  "normalize_state_delta d0 =
    (let op = to_lower (trim_space (sd_op d0)); path = trim_space (sd_path d0) in
      if op \<notin> set delta_ops then Inl (EventInvalid ''op'')
      else if path = [] \<or> \<not> has_prefix path ''/''
        then Inl (EventInvalid ''path must be an absolute slash-prefixed path'')
      else if op \<noteq> ''delete'' \<and> (sd_value d0 = [] \<or> \<not> json_valid (sd_value d0))
        then Inl (EventInvalid ''value must be valid JSON'')
      else Inr (d0\<lparr>sd_op := op, sd_path := path, sd_evidence := map trim_space (sd_evidence d0)\<rparr>))"

definition normalize_provenance :: "provenance \<Rightarrow> provenance" where
  "normalize_provenance p =
    \<lparr>pv_event_ids = clean_strings (pv_event_ids p),
     pv_artifact_refs = clean_strings (pv_artifact_refs p), pv_paths = clean_strings (pv_paths p)\<rparr>"

definition normalize_policy_ref :: "policy_ref \<Rightarrow> event_error + policy_ref" where
  "normalize_policy_ref r0 =
    (let v = (if pr_schema_version r0 = 0 then 1 else pr_schema_version r0);
         r = \<lparr>pr_schema_version = v, pr_workspace = trim_space (pr_workspace r0),
              pr_policy_id = trim_space (pr_policy_id r0), pr_version = trim_space (pr_version r0),
              pr_policy_hash = to_lower (trim_space (pr_policy_hash r0))\<rparr> in
      if v \<noteq> 1 then Inl (EventInvalid ''unsupported policy schema_version'')
      else if pr_workspace r = [] \<or> pr_policy_id r = [] \<or> pr_version r = []
        then Inl (EventInvalid ''policy workspace_id, policy_id, and version are required'')
      else if len (pr_policy_id r) > 128 \<or> len (pr_version r) > 64
        then Inl (EventInvalid ''policy identity is too large'')
      else if pr_policy_hash r \<noteq> [] \<and> \<not> valid_sha256 (pr_policy_hash r)
        then Inl (EventInvalid ''policy_hash must be a lowercase SHA-256 hash'')
      else Inr r)"

definition normalize_event_policy ::
    "string \<Rightarrow> policy_ref option \<Rightarrow> event_error + policy_ref option" where
  "normalize_event_policy workspace p =
    (case p of
      None \<Rightarrow> Inr None
    | Some r0 \<Rightarrow> bindE (normalize_policy_ref r0) (\<lambda>r.
        if pr_workspace r \<noteq> workspace
        then Inl (EventInvalid ''policy reference crosses workspace boundary'') else Inr (Some r)))"

definition normalize_event :: "string \<Rightarrow> time \<Rightarrow> event \<Rightarrow> event_error + event" where
  "normalize_event new_id now e =
    (let eid = (if trim_space (ev_id e) = [] then new_id else trim_space (ev_id e));
         etype = to_lower (trim_space (ev_type e));
         version = (if ev_schema_version e = 0 then 1 else ev_schema_version e);
         occurred = (case ev_occurred e of None \<Rightarrow> now | Some t \<Rightarrow> t);
         key = trim_space (ev_idempotency e);
         sc = normalize_scope (ev_scope e);
         payload = (if ev_payload e = [] then ''{}'' else ev_payload e) in
    bindE (guardE (len eid \<le> max_event_id_length) (EventInvalid ''event_id is too long'')) (\<lambda>_.
    bindE (guardE (event_type_pattern etype)
      (EventInvalid ''event_type must use dot-separated lowercase segments'')) (\<lambda>_.
    bindE (guardE (version = 1) (EventInvalid ''unsupported event schema_version'')) (\<lambda>_.
    bindE (guardE (len key \<le> max_idempotency_length)
      (EventInvalid ''idempotency_key is too long'')) (\<lambda>_.
    bindE (normalize_actor (ev_actor e)) (\<lambda>actor.
    bindE (validate_entity_ref (ev_task e) ''task'') (\<lambda>task.
    bindE (validate_entity_ref (ev_session e) ''session'') (\<lambda>session.
    bindE (normalize_event_policy (sc_workspace sc) (ev_policy e)) (\<lambda>policy.
    bindE (guardE (len payload \<le> max_event_payload_bytes \<and> json_valid payload)
      (EventInvalid ''event payload must be valid JSON'')) (\<lambda>_.
    bindE (mapE normalize_state_delta (ev_deltas e)) (\<lambda>deltas.
    bindE (mapE normalize_artifact_reference (ev_artifacts e)) (\<lambda>artifacts.
    Inr (e\<lparr>ev_id := eid, ev_type := etype, ev_schema_version := version,
           ev_occurred := Some occurred, ev_scope := sc, ev_actor := actor, ev_task := task,
           ev_session := session, ev_policy := policy, ev_idempotency := key,
           ev_deltas := deltas, ev_artifacts := artifacts,
           ev_provenance := normalize_provenance (ev_provenance e),
           ev_payload := payload\<rparr>)))))))))))))"

section \<open>New events\<close>

text \<open>
  \<open>NewEvent\<close>: \<open>payload\<close> is the marshalled payload (\<open>None\<close> when marshalling failed),
  \<open>new_id\<close> the generated identity and \<open>now\<close> the process clock.
\<close>

definition blank_event :: event where
  "blank_event = \<lparr>ev_id = [], ev_sequence = 0, ev_type = [], ev_schema_version = 0, ev_occurred = None,
    ev_recorded = 0, ev_scope = \<lparr>sc_workspace = [], sc_visibility = [], sc_subject = []\<rparr>,
    ev_actor = \<lparr>ac_id = [], ac_kind = [], ac_name = [], ac_workspace = []\<rparr>, ev_task = None,
    ev_session = None, ev_policy = None, ev_causation = [], ev_correlation = [], ev_idempotency = [],
    ev_deltas = [], ev_artifacts = [],
    ev_provenance = \<lparr>pv_event_ids = [], pv_artifact_refs = [], pv_paths = []\<rparr>, ev_payload = []\<rparr>"

definition new_event :: "string \<Rightarrow> time \<Rightarrow> string \<Rightarrow> string option \<Rightarrow> event_error + event" where
  "new_event new_id now etype payload =
    (case payload of
      None \<Rightarrow> Inl (EventInvalid ''marshal event payload'')
    | Some raw \<Rightarrow> normalize_event new_id now (blank_event\<lparr>ev_id := new_id, ev_type := etype,
        ev_schema_version := 1, ev_occurred := Some now,
        ev_scope := \<lparr>sc_workspace = default_workspace_id, sc_visibility = [], sc_subject = []\<rparr>,
        ev_payload := raw\<rparr>))"

section \<open>The content of a request\<close>

record hash_input =
  rq_type :: string
  rq_schema_version :: int
  rq_scope :: scope
  rq_actor :: actor_ref
  rq_task :: "entity_ref option"
  rq_session :: "entity_ref option"
  rq_policy :: "policy_ref option"
  rq_causation :: string
  rq_correlation :: string
  rq_deltas :: "state_delta list"
  rq_artifacts :: "artifact_reference list"
  rq_provenance :: provenance
  rq_payload :: string

definition canonical_json :: "string \<Rightarrow> string" where
  "canonical_json raw = json_compact raw"

definition request_content :: "event \<Rightarrow> hash_input" where
  "request_content e =
    \<lparr>rq_type = ev_type e, rq_schema_version = ev_schema_version e, rq_scope = ev_scope e,
     rq_actor = ev_actor e, rq_task = ev_task e, rq_session = ev_session e,
     rq_policy = ev_policy e, rq_causation = ev_causation e, rq_correlation = ev_correlation e,
     rq_deltas = ev_deltas e, rq_artifacts = ev_artifacts e, rq_provenance = ev_provenance e,
     rq_payload = canonical_json (ev_payload e)\<rparr>"

definition request_hash :: "(hash_input \<Rightarrow> string) \<Rightarrow> event \<Rightarrow> string" where
  "request_hash digest e = digest (request_content e)"

section \<open>Normalisation is idempotent\<close>

lemma to_lower_cong_prefix [simp]: "to_lower (a @ b) = to_lower a @ to_lower b"
  by (simp add: to_lower_def)

lemma default_trim [simp]: "trim_space default_workspace_id = default_workspace_id"
  by code_simp

lemma default_nonempty [simp]: "default_workspace_id \<noteq> []"
  by (simp add: default_workspace_id_def)

lemma normalize_scope_workspace: "sc_workspace (normalize_scope s) \<noteq> [] \<and>
    trim_space (sc_workspace (normalize_scope s)) = sc_workspace (normalize_scope s)"
  by (simp add: normalize_scope_def Let_def)

lemma normalize_scope_idem [simp]: "normalize_scope (normalize_scope s) = normalize_scope s"
  by (simp add: normalize_scope_def Let_def)

lemma clean_strings_idem [simp]: "clean_strings (clean_strings vs) = clean_strings vs"
  by (simp add: clean_strings_def)

lemma normalize_provenance_idem [simp]: "normalize_provenance (normalize_provenance p) = normalize_provenance p"
  by (simp add: normalize_provenance_def)

lemma normalize_actor_idem: "normalize_actor a = Inr b \<Longrightarrow> normalize_actor b = Inr b"
  by (auto simp: normalize_actor_def Let_def split: if_splits)

lemma validate_entity_ref_idem: "validate_entity_ref r k = Inr q \<Longrightarrow> validate_entity_ref q k = Inr q"
  by (auto simp: validate_entity_ref_def Let_def split: if_splits option.splits)

lemma normalize_artifact_reference_idem:
  "normalize_artifact_reference a = Inr b \<Longrightarrow> normalize_artifact_reference b = Inr b"
  unfolding normalize_artifact_reference_def Let_def
  by (simp only: if_cases_Inr, clarify) simp

lemma normalize_state_delta_idem: "normalize_state_delta d = Inr b \<Longrightarrow> normalize_state_delta b = Inr b"
  unfolding normalize_state_delta_def Let_def
  by (simp only: if_cases_Inr, clarify) (simp add: o_def)

lemma normalize_policy_ref_idem: "normalize_policy_ref r = Inr q \<Longrightarrow> normalize_policy_ref q = Inr q"
  unfolding normalize_policy_ref_def Let_def
  by (simp only: if_cases_Inr, clarify) simp

lemma normalize_event_policy_idem:
  "normalize_event_policy w p = Inr q \<Longrightarrow> normalize_event_policy w q = Inr q"
  by (auto simp: normalize_event_policy_def results split: if_splits option.splits
      dest: normalize_policy_ref_idem)

lemma mapE_idem:
  assumes "\<And>x y. f x = Inr y \<Longrightarrow> f y = Inr y" and "mapE f xs = Inr ys"
  shows "mapE f ys = Inr ys"
  using assms(2) by (induction xs arbitrary: ys) (auto simp: results intro: assms(1))

lemma normalize_event_Inr:
  assumes "normalize_event new_id now e = Inr e'"
  obtains eid etype key payload actor task session policy deltas artifacts where
    "eid = (if trim_space (ev_id e) = [] then new_id else trim_space (ev_id e))"
    and "etype = to_lower (trim_space (ev_type e))" and "key = trim_space (ev_idempotency e)"
    and "payload = (if ev_payload e = [] then ''{}'' else ev_payload e)"
    and "len eid \<le> max_event_id_length" and "event_type_pattern etype"
    and "len key \<le> max_idempotency_length" and "normalize_actor (ev_actor e) = Inr actor"
    and "validate_entity_ref (ev_task e) ''task'' = Inr task"
    and "validate_entity_ref (ev_session e) ''session'' = Inr session"
    and "normalize_event_policy (sc_workspace (normalize_scope (ev_scope e))) (ev_policy e) = Inr policy"
    and "len payload \<le> max_event_payload_bytes" and "json_valid payload"
    and "mapE normalize_state_delta (ev_deltas e) = Inr deltas"
    and "mapE normalize_artifact_reference (ev_artifacts e) = Inr artifacts"
    and "e' = e\<lparr>ev_id := eid, ev_type := etype, ev_schema_version := 1,
      ev_occurred := Some (case ev_occurred e of None \<Rightarrow> now | Some t \<Rightarrow> t),
      ev_scope := normalize_scope (ev_scope e), ev_actor := actor, ev_task := task,
      ev_session := session, ev_policy := policy, ev_idempotency := key, ev_deltas := deltas,
      ev_artifacts := artifacts, ev_provenance := normalize_provenance (ev_provenance e),
      ev_payload := payload\<rparr>"
  using assms unfolding normalize_event_def Let_def
  by (simp only: bindE_eq_Inr guardE_eq_Inr) (elim exE conjE, simp)

text \<open>
  normalisation is idempotent. An event that was accepted once is accepted again and left
  unchanged, whatever identity and clock the second call would generate; so the store may
  normalise again what a client has normalised, and a stored event compares equal to itself.
\<close>

theorem normalize_event_idem:
  assumes "normalize_event new_id now e = Inr e'"
    and "trim_space new_id = new_id" and "new_id \<noteq> []"
  shows "normalize_event new_id' now' e' = Inr e'"
  using assms(1)
proof (cases rule: normalize_event_Inr)
  case (1 eid etype key payload actor task session policy deltas artifacts)
  have "trim_space eid = eid" "eid \<noteq> []" "to_lower (trim_space etype) = etype"
    "trim_space key = key" "payload \<noteq> []"
    using 1(1-4) assms(2,3) by simp_all
  with 1(5-) show ?thesis
    by (simp add: normalize_event_def Let_def normalize_actor_idem validate_entity_ref_idem
        normalize_event_policy_idem mapE_idem [OF normalize_state_delta_idem]
        mapE_idem [OF normalize_artifact_reference_idem])
qed

definition sample_event :: event where
  "sample_event = \<lparr>ev_id = '' '', ev_sequence = 0, ev_type = '' Task.Created'', ev_schema_version = 0,
    ev_occurred = None, ev_recorded = 0,
    ev_scope = \<lparr>sc_workspace = '''', sc_visibility = '''', sc_subject = ''''\<rparr>,
    ev_actor = \<lparr>ac_id = ''u'', ac_kind = ''user'', ac_name = '''', ac_workspace = ''''\<rparr>,
    ev_task = Some \<lparr>er_id = ''t1 '', er_kind = ''Task'', er_workspace = ''''\<rparr>, ev_session = None,
    ev_policy = None, ev_causation = '''', ev_correlation = '''', ev_idempotency = '' k1'',
    ev_deltas = [\<lparr>sd_op = ''SET'', sd_path = ''/tasks/t1/status'',
      sd_value = json_quote ''pending'', sd_evidence = []\<rparr>],
    ev_artifacts = [], ev_provenance = \<lparr>pv_event_ids = ['' a'', ''a''], pv_artifact_refs = [], pv_paths = []\<rparr>,
    ev_payload = ''''\<rparr>"

definition sample_event' :: event where
  "sample_event' = \<lparr>ev_id = ''evt_1'', ev_sequence = 0, ev_type = ''task.created'', ev_schema_version = 1,
    ev_occurred = Some 7, ev_recorded = 0,
    ev_scope = \<lparr>sc_workspace = ''default'', sc_visibility = '''', sc_subject = ''''\<rparr>,
    ev_actor = \<lparr>ac_id = ''u'', ac_kind = ''user'', ac_name = '''', ac_workspace = ''''\<rparr>,
    ev_task = Some \<lparr>er_id = ''t1'', er_kind = ''task'', er_workspace = ''''\<rparr>, ev_session = None,
    ev_policy = None, ev_causation = '''', ev_correlation = '''', ev_idempotency = ''k1'',
    ev_deltas = [\<lparr>sd_op = ''set'', sd_path = ''/tasks/t1/status'',
      sd_value = json_quote ''pending'', sd_evidence = []\<rparr>],
    ev_artifacts = [], ev_provenance = \<lparr>pv_event_ids = [''a''], pv_artifact_refs = [], pv_paths = []\<rparr>,
    ev_payload = ''{}''\<rparr>"

lemma sample_normalize: "normalize_event ''evt_1'' 7 sample_event = Inr sample_event'"
  by code_simp

lemma normalize_event_idem_witness: "normalize_event ''evt_2'' 9 sample_event' = Inr sample_event'"
  by (rule normalize_event_idem [OF sample_normalize]) code_simp+

end
