(* ===== verification/Event_Store.thy ===== *)
theory Event_Store
  imports Event_Contract
begin

text \<open>
  \<open>internal/store/events.go\<close>: the append-only event log, idempotency records and consumer
  checkpoints.

  \<open>control_db\<close> holds the three tables this file owns; \<open>control_events\<close> is the list of
  rows in the order their transactions committed, each with its request hash.  The evidence
  tables, written through \<open>EvidenceStore.PutTx\<close>, are the type parameter \<open>'x\<close>.  A database
  that also holds the tables of another component extends the record, so the operations here
  act on every such extension.

  What is not code of the repository is collected in \<open>event_env\<close>: the digest of a marshalled
  request, whether PostgreSQL accepts the values of a row (text encoding, JSONB casts, the
  foreign key of a policy reference), the JSONB normal form, the JSON field operator and, as an
  interface, the evidence write.  \<open>io\<close> holds what one call draws from outside: a generated
  identity, the process clock, the BIGSERIAL value and the database clock.  Sequence values are
  handed out before a transaction commits, so \<open>io_seq\<close> need not exceed the sequences already in
  the table.
\<close>

section \<open>State\<close>

datatype store_error =
  EventRejected event_error
| ErrIdempotencyConflict
| ErrIncompleteIdempotency
| ErrInvalidCheckpoint
| ErrCheckpointRegression
| StoreInvalid string
| ReadDuplicateFailed
| InsertEventFailed
| InvalidSequence
| EvidenceFailed string

record event_row =
  row_event :: event
  row_hash :: string

record idem_row =
  ir_hash :: string
  ir_sequence :: "int option"
  ir_event_id :: string

record 'x control_db =
  control_events :: "event_row list"
  idempotency_records :: "string \<times> string \<Rightarrow> idem_row option"
  control_checkpoints :: "string \<times> string \<Rightarrow> int option"
  evidence_tables :: 'x

record evidence_input =
  ei_workspace :: string
  ei_source :: string
  ei_dedup :: string
  ei_kind :: string
  ei_media :: string
  ei_gist :: string
  ei_detail :: string
  ei_raw :: string

record 'x event_env =
  env_digest :: "hash_input \<Rightarrow> string"
  env_accepts :: "event \<Rightarrow> bool"
  env_jsonb :: "string \<Rightarrow> string"
  env_field :: "string \<Rightarrow> string \<Rightarrow> string option"
  env_evidence :: "evidence_input \<Rightarrow> 'x \<Rightarrow> string + 'x"

record io =
  io_new_id :: string
  io_now :: time
  io_seq :: int
  io_recorded :: time

definition row_seq :: "event_row \<Rightarrow> int" where
  "row_seq r = ev_sequence (row_event r)"

definition row_workspace :: "event_row \<Rightarrow> string" where
  "row_workspace r = sc_workspace (ev_scope (row_event r))"

text \<open>The database clock's reading and the assigned sequence, and the JSONB form of delta values.\<close>

definition store_form :: "'x event_env \<Rightarrow> io \<Rightarrow> event \<Rightarrow> event" where
  "store_form E i e =
    e\<lparr>ev_sequence := io_seq i, ev_recorded := io_recorded i,
      ev_deltas := map (\<lambda>d. d\<lparr>sd_value := env_jsonb E (sd_value d)\<rparr>) (ev_deltas e)\<rparr>"

text \<open>The unique index on \<open>event_id\<close>, the primary key on \<open>sequence\<close>, and the value checks.\<close>

definition insertable :: "'x event_env \<Rightarrow> io \<Rightarrow> event \<Rightarrow> event_row list \<Rightarrow> bool" where
  "insertable E i e rows \<longleftrightarrow>
    env_accepts E e \<and> list_all (\<lambda>r. ev_id (row_event r) \<noteq> ev_id e \<and> row_seq r \<noteq> io_seq i) rows"

section \<open>Append\<close>

definition read_event_by_sequence_tx ::
    "string \<Rightarrow> int \<Rightarrow> ('x, 'z) control_db_scheme \<Rightarrow> event option" where
  "read_event_by_sequence_tx workspace sequence db =
    map_option row_event
      (find (\<lambda>r. row_workspace r = workspace \<and> row_seq r = sequence) (control_events db))"

definition event_evidence :: "int \<Rightarrow> event \<Rightarrow> evidence_input" where
  "event_evidence sequence e =
    \<lparr>ei_workspace = sc_workspace (ev_scope e), ei_source = ''event:'' @ show_int sequence,
     ei_dedup = ev_id e, ei_kind = ''control_event'', ei_media = ''application/json'',
     ei_gist = ev_type e, ei_detail = ev_payload e, ei_raw = ev_payload e\<rparr>"

definition append_new ::
    "'x event_env \<Rightarrow> io \<Rightarrow> event \<Rightarrow> ('x, 'z) control_db_scheme \<Rightarrow>
      store_error + (event \<times> bool) \<times> ('x, 'z) control_db_scheme" where
  "append_new E i e db =
    (let workspace = sc_workspace (ev_scope e); key = ev_idempotency e in
    if \<not> insertable E i e (control_events db) then Inl InsertEventFailed
    else if io_seq i \<le> 0 then Inl InvalidSequence
    else
      let db1 = db\<lparr>control_events := control_events db @
        [\<lparr>row_event = store_form E i e, row_hash = request_hash (env_digest E) e\<rparr>]\<rparr> in
      bindE (liftE EvidenceFailed (env_evidence E (event_evidence (io_seq i) e) (evidence_tables db1)))
        (\<lambda>ev.
      let db2 = db1\<lparr>evidence_tables := ev\<rparr>;
          db3 = (if key \<noteq> []
            then db2\<lparr>idempotency_records := update_where (workspace, key) (\<lambda>_. True)
              (\<lambda>r. r\<lparr>ir_sequence := Some (io_seq i), ir_event_id := ev_id e\<rparr>)
              (idempotency_records db2)\<rparr>
            else db2)
      in Inr ((e\<lparr>ev_sequence := io_seq i, ev_recorded := io_recorded i\<rparr>, False), db3)))"

definition append_tx ::
    "'x event_env \<Rightarrow> io \<Rightarrow> event \<Rightarrow> ('x, 'z) control_db_scheme \<Rightarrow>
      store_error + (event \<times> bool) \<times> ('x, 'z) control_db_scheme" where
  "append_tx E i e0 db =
    bindE (liftE EventRejected (normalize_event (io_new_id i) (io_now i) e0)) (\<lambda>e.
    let hash = request_hash (env_digest E) e; workspace = sc_workspace (ev_scope e);
        key = ev_idempotency e in
    if key \<noteq> [] then
      let (inserted, idem) = insert_new (workspace, key)
        \<lparr>ir_hash = hash, ir_sequence = None, ir_event_id = []\<rparr> (idempotency_records db) in
      if inserted then append_new E i e (db\<lparr>idempotency_records := idem\<rparr>)
      else case idem (workspace, key) of
        None \<Rightarrow> Inl (StoreInvalid ''read idempotency record'')
      | Some r \<Rightarrow>
          if ir_hash r \<noteq> hash then Inl ErrIdempotencyConflict
          else case ir_sequence r of
            None \<Rightarrow> Inl ErrIncompleteIdempotency
          | Some q \<Rightarrow>
              if q \<le> 0 then Inl ErrIncompleteIdempotency
              else case read_event_by_sequence_tx workspace q db of
                None \<Rightarrow> Inl ReadDuplicateFailed
              | Some stored \<Rightarrow> Inr ((stored, True), db)
    else append_new E i e db)"

definition append_event ::
    "'x event_env \<Rightarrow> io \<Rightarrow> event \<Rightarrow> ('x, 'z) control_db_scheme \<Rightarrow>
      (store_error + event \<times> bool) \<times> ('x, 'z) control_db_scheme" where
  "append_event E i e = in_tx (append_tx E i e)"

section \<open>Reads\<close>

definition default_event_read_limit :: int where
  "default_event_read_limit = 500"

definition max_event_read_limit :: int where
  "max_event_read_limit = 5000"

record read_request =
  rr_workspace :: string
  rr_after :: int
  rr_to :: int
  rr_event_type :: string
  rr_run_id :: string
  rr_task_id :: string
  rr_session_id :: string
  rr_limit :: int

definition bounded_read_limit :: "int \<Rightarrow> int" where
  "bounded_read_limit limit0 =
    (let limit = (if limit0 \<le> 0 then default_event_read_limit else limit0) in
      if limit > max_event_read_limit then max_event_read_limit else limit)"

definition opt_filter :: "string \<Rightarrow> string option \<Rightarrow> bool" where
  "opt_filter wanted actual \<longleftrightarrow> trim_space wanted = [] \<or> actual = Some (trim_space wanted)"

definition read_matches :: "'x event_env \<Rightarrow> read_request \<Rightarrow> event \<Rightarrow> bool" where
  "read_matches E q e \<longleftrightarrow>
    sc_workspace (ev_scope e) = trim_space (rr_workspace q) \<and> rr_after q < ev_sequence e \<and>
    (rr_to q > 0 \<longrightarrow> ev_sequence e \<le> rr_to q) \<and>
    opt_filter (rr_event_type q) (Some (ev_type e)) \<and>
    opt_filter (rr_run_id q) (env_field E (ev_payload e) ''run_id'') \<and>
    opt_filter (rr_task_id q) (map_option er_id (ev_task e)) \<and>
    opt_filter (rr_session_id q) (map_option er_id (ev_session e))"

definition read_after ::
    "'x event_env \<Rightarrow> read_request \<Rightarrow> ('x, 'z) control_db_scheme \<Rightarrow> store_error + event list" where
  "read_after E q db =
    (if trim_space (rr_workspace q) = [] then Inl (StoreInvalid ''workspace_id is required'')
     else Inr (take (nat (bounded_read_limit (rr_limit q)))
       (sort_key ev_sequence (filter (read_matches E q) (map row_event (control_events db))))))"

definition read_after_sequence ::
    "'x event_env \<Rightarrow> string \<Rightarrow> int \<Rightarrow> int \<Rightarrow> ('x, 'z) control_db_scheme \<Rightarrow> store_error + event list" where
  "read_after_sequence E workspace after limit =
    read_after E \<lparr>rr_workspace = workspace, rr_after = after, rr_to = 0, rr_event_type = [],
      rr_run_id = [], rr_task_id = [], rr_session_id = [], rr_limit = limit\<rparr>"

definition replay ::
    "'x event_env \<Rightarrow> string \<Rightarrow> int \<Rightarrow> int \<Rightarrow> int \<Rightarrow> ('x, 'z) control_db_scheme \<Rightarrow> store_error + event list" where
  "replay E workspace from to limit db =
    (if to > 0 \<and> to < from
     then Inl (StoreInvalid ''replay upper sequence must be >= lower sequence'')
     else read_after E \<lparr>rr_workspace = workspace, rr_after = from, rr_to = to, rr_event_type = [],
       rr_run_id = [], rr_task_id = [], rr_session_id = [], rr_limit = limit\<rparr> db)"

section \<open>Checkpoints\<close>

definition ensure_checkpoint_tx ::
    "string \<Rightarrow> string \<Rightarrow> ('x, 'z) control_db_scheme \<Rightarrow> store_error + int \<times> ('x, 'z) control_db_scheme" where
  "ensure_checkpoint_tx workspace0 consumer0 db =
    (let workspace = trim_space workspace0; consumer = trim_space consumer0 in
    if workspace = [] \<or> consumer = []
    then Inl (StoreInvalid ''workspace_id and consumer_id are required'')
    else
      let cps = snd (insert_new (workspace, consumer) 0 (control_checkpoints db)) in
      case cps (workspace, consumer) of
        None \<Rightarrow> Inl (StoreInvalid ''lock checkpoint'')
      | Some q \<Rightarrow>
          if q < 0 then Inl (StoreInvalid ''database returned negative checkpoint'')
          else Inr (q, db\<lparr>control_checkpoints := cps\<rparr>))"

definition advance_checkpoint_at_tx ::
    "string \<Rightarrow> string \<Rightarrow> int \<Rightarrow> int \<Rightarrow> ('x, 'z) control_db_scheme \<Rightarrow>
      store_error + unit \<times> ('x, 'z) control_db_scheme" where
  "advance_checkpoint_at_tx workspace0 consumer0 current sequence db =
    (let workspace = trim_space workspace0; consumer = trim_space consumer0 in
    if workspace = [] \<or> consumer = []
    then Inl (StoreInvalid ''workspace_id and consumer_id are required'')
    else if current > 2 ^ 63 - 1 \<or> sequence > 2 ^ 63 - 1 then Inl ErrInvalidCheckpoint
    else if sequence < current then Inl ErrCheckpointRegression
    else if sequence = current then Inr ((), db)
    else if \<not> list_ex (\<lambda>r. row_workspace r = workspace \<and> row_seq r = sequence) (control_events db)
    then Inl ErrInvalidCheckpoint
    else if control_checkpoints db (workspace, consumer) \<noteq> Some current
    then Inl ErrCheckpointRegression
    else Inr ((), db\<lparr>control_checkpoints :=
      (control_checkpoints db)((workspace, consumer) \<mapsto> sequence)\<rparr>))"

definition advance_checkpoint_tx ::
    "string \<Rightarrow> string \<Rightarrow> int \<Rightarrow> ('x, 'z) control_db_scheme \<Rightarrow>
      store_error + unit \<times> ('x, 'z) control_db_scheme" where
  "advance_checkpoint_tx workspace consumer sequence db =
    bindE (ensure_checkpoint_tx workspace consumer db) (\<lambda>(current, db1).
    advance_checkpoint_at_tx workspace consumer current sequence db1)"

definition advance_checkpoint ::
    "string \<Rightarrow> string \<Rightarrow> int \<Rightarrow> ('x, 'z) control_db_scheme \<Rightarrow>
      (store_error + unit) \<times> ('x, 'z) control_db_scheme" where
  "advance_checkpoint workspace consumer sequence = in_tx (advance_checkpoint_tx workspace consumer sequence)"

definition reset_checkpoint_tx ::
    "string \<Rightarrow> string \<Rightarrow> ('x, 'z) control_db_scheme \<Rightarrow> store_error + unit \<times> ('x, 'z) control_db_scheme" where
  "reset_checkpoint_tx workspace consumer db =
    bindE (ensure_checkpoint_tx workspace consumer db) (\<lambda>(_, db1).
    Inr ((), db1\<lparr>control_checkpoints := update_where (trim_space workspace, trim_space consumer)
      (\<lambda>_. True) (\<lambda>_. 0) (control_checkpoints db1)\<rparr>))"

definition checkpoint ::
    "string \<Rightarrow> string \<Rightarrow> ('x, 'z) control_db_scheme \<Rightarrow> store_error + int" where
  "checkpoint workspace consumer db =
    (case control_checkpoints db (trim_space workspace, trim_space consumer) of
      None \<Rightarrow> Inr 0
    | Some q \<Rightarrow> if q < 0 then Inl (StoreInvalid ''database returned negative checkpoint'') else Inr q)"

section \<open>How an append succeeds\<close>

text \<open>A successful append either finds the committed event of its key, or adds one row.\<close>

lemma append_new_Inr:
  assumes "append_new E i e db = Inr ((x, dup), db')"
  obtains ev where "insertable E i e (control_events db)" and "0 < io_seq i" and "\<not> dup"
    and "x = e\<lparr>ev_sequence := io_seq i, ev_recorded := io_recorded i\<rparr>"
    and "env_evidence E (event_evidence (io_seq i) e) (evidence_tables db) = Inr ev"
    and "db' = db\<lparr>control_events := control_events db @
        [\<lparr>row_event = store_form E i e, row_hash = request_hash (env_digest E) e\<rparr>],
      evidence_tables := ev,
      idempotency_records := (if ev_idempotency e \<noteq> []
        then update_where (sc_workspace (ev_scope e), ev_idempotency e) (\<lambda>_. True)
          (\<lambda>r. r\<lparr>ir_sequence := Some (io_seq i), ir_event_id := ev_id e\<rparr>) (idempotency_records db)
        else idempotency_records db)\<rparr>"
  using assms unfolding append_new_def Let_def
  by (auto simp: results split: if_splits)

lemma append_tx_Inr:
  assumes "append_tx E i e0 db = Inr ((x, dup), db')"
  obtains
    (duplicate) e r q where "normalize_event (io_new_id i) (io_now i) e0 = Inr e" and "dup"
      and "ev_idempotency e \<noteq> []" and "db' = db"
      and "idempotency_records db (sc_workspace (ev_scope e), ev_idempotency e) = Some r"
      and "ir_hash r = request_hash (env_digest E) e" and "ir_sequence r = Some q"
      and "read_event_by_sequence_tx (sc_workspace (ev_scope e)) q db = Some x"
  | (fresh) e ev where "normalize_event (io_new_id i) (io_now i) e0 = Inr e" and "\<not> dup"
      and "insertable E i e (control_events db)" and "0 < io_seq i"
      and "x = e\<lparr>ev_sequence := io_seq i, ev_recorded := io_recorded i\<rparr>"
      and "ev_idempotency e \<noteq> [] \<Longrightarrow>
        idempotency_records db (sc_workspace (ev_scope e), ev_idempotency e) = None"
      and "env_evidence E (event_evidence (io_seq i) e) (evidence_tables db) = Inr ev"
      and "db' = db\<lparr>control_events := control_events db @
          [\<lparr>row_event = store_form E i e, row_hash = request_hash (env_digest E) e\<rparr>],
        evidence_tables := ev,
        idempotency_records := (if ev_idempotency e \<noteq> []
          then (idempotency_records db)((sc_workspace (ev_scope e), ev_idempotency e) \<mapsto>
            \<lparr>ir_hash = request_hash (env_digest E) e, ir_sequence = Some (io_seq i),
             ir_event_id = ev_id e\<rparr>)
          else idempotency_records db)\<rparr>"
proof -
  obtain e where e: "normalize_event (io_new_id i) (io_now i) e0 = Inr e"
    using assms by (auto simp: append_tx_def results)
  let ?k = "(sc_workspace (ev_scope e), ev_idempotency e)"
  let ?r = "\<lparr>ir_hash = request_hash (env_digest E) e, ir_sequence = None, ir_event_id = []\<rparr>"
  show ?thesis
  proof (cases "ev_idempotency e \<noteq> [] \<and> idempotency_records db ?k \<noteq> None")
    case True
    then obtain r where r: "idempotency_records db ?k = Some r" by blast
    with True assms e show ?thesis
      by (auto simp: append_tx_def Let_def split: if_splits option.splits intro!: duplicate)
  next
    case False
    define db0 where "db0 = (if ev_idempotency e \<noteq> []
      then db\<lparr>idempotency_records := (idempotency_records db)(?k \<mapsto> ?r)\<rparr> else db)"
    have "append_new E i e db0 = Inr ((x, dup), db')"
      using assms e False by (auto simp: append_tx_def Let_def db0_def split: if_splits)
    then obtain ev where ev: "insertable E i e (control_events db0)" "0 < io_seq i" "\<not> dup"
      "x = e\<lparr>ev_sequence := io_seq i, ev_recorded := io_recorded i\<rparr>"
      "env_evidence E (event_evidence (io_seq i) e) (evidence_tables db0) = Inr ev"
      "db' = db0\<lparr>control_events := control_events db0 @
          [\<lparr>row_event = store_form E i e, row_hash = request_hash (env_digest E) e\<rparr>],
        evidence_tables := ev,
        idempotency_records := (if ev_idempotency e \<noteq> []
          then update_where ?k (\<lambda>_. True)
            (\<lambda>r. r\<lparr>ir_sequence := Some (io_seq i), ir_event_id := ev_id e\<rparr>) (idempotency_records db0)
          else idempotency_records db0)\<rparr>"
      by (rule append_new_Inr) blast
    have db0: "control_events db0 = control_events db" "evidence_tables db0 = evidence_tables db"
      by (simp_all add: db0_def)
    show ?thesis
    proof (rule fresh [OF e])
      show "db' = db\<lparr>control_events := control_events db @
            [\<lparr>row_event = store_form E i e, row_hash = request_hash (env_digest E) e\<rparr>],
          evidence_tables := ev,
          idempotency_records := (if ev_idempotency e \<noteq> []
            then (idempotency_records db)(?k \<mapsto>
              \<lparr>ir_hash = request_hash (env_digest E) e, ir_sequence = Some (io_seq i),
               ir_event_id = ev_id e\<rparr>)
            else idempotency_records db)\<rparr>"
        using ev(6) by (simp add: db0 db0_def update_where_def)
    qed (use ev False in \<open>simp_all add: db0\<close>)
  qed
qed

lemma normalize_event_props:
  assumes "normalize_event n t e0 = Inr e"
  shows "sc_workspace (ev_scope e) \<noteq> []" and "trim_space (sc_workspace (ev_scope e)) = sc_workspace (ev_scope e)"
    and "trim_space (ev_idempotency e) = ev_idempotency e"
  using assms normalize_scope_workspace by (auto elim!: normalize_event_Inr)

lemma store_form_simps [simp]:
  "ev_sequence (store_form E i e) = io_seq i" "ev_id (store_form E i e) = ev_id e"
  "ev_scope (store_form E i e) = ev_scope e" "ev_idempotency (store_form E i e) = ev_idempotency e"
  "ev_type (store_form E i e) = ev_type e" "ev_task (store_form E i e) = ev_task e"
  by (simp_all add: store_form_def)

section \<open>The invariant of the tables\<close>

definition idem_row_ok :: "event_row list \<Rightarrow> string \<Rightarrow> string \<Rightarrow> idem_row \<Rightarrow> bool" where
  "idem_row_ok rows w k r \<longleftrightarrow>
    (\<exists>row \<in> set rows. ir_sequence r = Some (row_seq row) \<and> row_workspace row = w \<and>
      ev_idempotency (row_event row) = k \<and> ev_id (row_event row) = ir_event_id r \<and>
      row_hash row = ir_hash r)"

definition event_db_wf :: "('x, 'z) control_db_scheme \<Rightarrow> bool" where
  "event_db_wf db \<longleftrightarrow>
    distinct (map row_seq (control_events db)) \<and>
    distinct (map (\<lambda>r. ev_id (row_event r)) (control_events db)) \<and>
    (\<forall>r \<in> set (control_events db). 0 < row_seq r \<and> row_workspace r \<noteq> []) \<and>
    (\<forall>w k r. idempotency_records db (w, k) = Some r \<longrightarrow> idem_row_ok (control_events db) w k r) \<and>
    (\<forall>row \<in> set (control_events db). ev_idempotency (row_event row) \<noteq> [] \<longrightarrow>
      (\<exists>r. idempotency_records db (row_workspace row, ev_idempotency (row_event row)) = Some r \<and>
        ir_sequence r = Some (row_seq row))) \<and>
    (\<forall>w c q. control_checkpoints db (w, c) = Some q \<longrightarrow>
      q = 0 \<or> (\<exists>row \<in> set (control_events db). row_workspace row = w \<and> row_seq row = q))"

lemma idem_row_ok_mono: "idem_row_ok rows w k r \<Longrightarrow> idem_row_ok (rows @ rows2) w k r"
  by (auto simp: idem_row_ok_def)

lemma append_tx_wf:
  assumes "append_tx E i e0 db = Inr ((x, dup), db')" and wf: "event_db_wf db"
  shows "event_db_wf db'"
  using assms(1)
proof (cases rule: append_tx_Inr)
  case (duplicate e r q)
  with wf show ?thesis by simp
next
  case (fresh e ev)
  let ?row = "\<lparr>row_event = store_form E i e, row_hash = request_hash (env_digest E) e\<rparr>"
  have new: "\<forall>r \<in> set (control_events db). row_seq r \<noteq> io_seq i \<and> ev_id (row_event r) \<noteq> ev_id e"
    using fresh(3) by (auto simp: insertable_def list_all_iff)
  have row: "row_seq ?row = io_seq i" "row_workspace ?row = sc_workspace (ev_scope e)"
    by (simp_all add: row_seq_def row_workspace_def)
  have ws: "sc_workspace (ev_scope e) \<noteq> []" using normalize_event_props [OF fresh(1)] by simp
  have old: "idem_row_ok (control_events db @ [?row]) w k r"
    if "idempotency_records db (w, k) = Some r" for w k r
    using wf that by (auto simp: event_db_wf_def intro: idem_row_ok_mono)
  have this_row: "idem_row_ok (control_events db @ [?row]) (sc_workspace (ev_scope e)) (ev_idempotency e)
      \<lparr>ir_hash = request_hash (env_digest E) e, ir_sequence = Some (io_seq i), ir_event_id = ev_id e\<rparr>"
    using row by (auto simp: idem_row_ok_def)
  have keys: "\<exists>r. idempotency_records db' (row_workspace row, ev_idempotency (row_event row)) = Some r \<and>
      ir_sequence r = Some (row_seq row)"
    if "row \<in> set (control_events db')" "ev_idempotency (row_event row) \<noteq> []" for row
  proof (cases "row = ?row")
    case True
    with that(2) show ?thesis using row by (simp add: fresh(8))
  next
    case False
    with that have "row \<in> set (control_events db)" by (simp add: fresh(8))
    with wf that(2) obtain r where
      "idempotency_records db (row_workspace row, ev_idempotency (row_event row)) = Some r"
      "ir_sequence r = Some (row_seq row)"
      unfolding event_db_wf_def by blast
    with fresh(6) show ?thesis by (auto simp: fresh(8))
  qed
  have "distinct (map row_seq (control_events db'))"
    "distinct (map (\<lambda>r. ev_id (row_event r)) (control_events db'))"
    "\<forall>r \<in> set (control_events db'). 0 < row_seq r \<and> row_workspace r \<noteq> []"
    using wf new row ws fresh(4) by (auto simp: event_db_wf_def fresh(8))
  moreover have "\<forall>w k r. idempotency_records db' (w, k) = Some r \<longrightarrow> idem_row_ok (control_events db') w k r"
    using old this_row by (auto simp: fresh(8))
  moreover have "\<forall>w c q. control_checkpoints db' (w, c) = Some q \<longrightarrow>
      q = 0 \<or> (\<exists>row \<in> set (control_events db'). row_workspace row = w \<and> row_seq row = q)"
    using wf unfolding event_db_wf_def fresh(8) by (simp, blast)
  ultimately show ?thesis using keys unfolding event_db_wf_def by blast
qed

section \<open>Histories\<close>

inductive event_step :: "'x event_env \<Rightarrow> ('x, 'z) control_db_scheme \<Rightarrow> ('x, 'z) control_db_scheme \<Rightarrow> bool"
  for E where
  append: "append_event E i e s = (r, t) \<Longrightarrow> event_step E s t"
| advance: "advance_checkpoint w c q s = (r', t) \<Longrightarrow> event_step E s t"
| reset: "in_tx (reset_checkpoint_tx w c) s = (r', t) \<Longrightarrow> event_step E s t"

lemma ensure_checkpoint_Inr:
  assumes "ensure_checkpoint_tx w c db = Inr (q, db')"
  shows "control_checkpoints db' (trim_space w, trim_space c) = Some q" and "0 \<le> q"
    and "db' = db\<lparr>control_checkpoints := control_checkpoints db'\<rparr>"
    and "control_checkpoints db (trim_space w, trim_space c) = None \<and> q = 0 \<and>
        control_checkpoints db' = (control_checkpoints db)((trim_space w, trim_space c) \<mapsto> 0) \<or>
      control_checkpoints db (trim_space w, trim_space c) = Some q \<and>
        control_checkpoints db' = control_checkpoints db"
  using assms
  by (auto simp: ensure_checkpoint_tx_def Let_def insert_new_def split: if_splits option.splits)

lemma advance_checkpoint_at_Inr:
  assumes "advance_checkpoint_at_tx w c cur q db = Inr (u, db')"
  shows "cur \<le> q" and "q = cur \<and> db' = db \<or> cur < q \<and>
    control_checkpoints db (trim_space w, trim_space c) = Some cur \<and>
    (\<exists>row \<in> set (control_events db). row_workspace row = trim_space w \<and> row_seq row = q) \<and>
    db' = db\<lparr>control_checkpoints := (control_checkpoints db)((trim_space w, trim_space c) \<mapsto> q)\<rparr>"
  using assms by (auto simp: advance_checkpoint_at_tx_def Let_def list_ex_iff split: if_splits)

lemma wf_set_checkpoint:
  assumes "event_db_wf db"
    and "q = 0 \<or> (\<exists>row \<in> set (control_events db). row_workspace row = w \<and> row_seq row = q)"
  shows "event_db_wf (db\<lparr>control_checkpoints := (control_checkpoints db)((w, c) \<mapsto> q)\<rparr>)"
  using assms unfolding event_db_wf_def by simp

lemma ensure_checkpoint_wf:
  assumes "ensure_checkpoint_tx w c db = Inr (q, db')" and "event_db_wf db"
  shows "event_db_wf db'"
proof -
  note e = ensure_checkpoint_Inr [OF assms(1)]
  from e(4) have "db' = db \<or>
      db' = db\<lparr>control_checkpoints := (control_checkpoints db)((trim_space w, trim_space c) \<mapsto> 0)\<rparr>"
    using e(3) by auto
  with assms(2) wf_set_checkpoint show ?thesis by blast
qed

lemma advance_checkpoint_at_wf:
  assumes "advance_checkpoint_at_tx w c cur q db = Inr (u, db')" and "event_db_wf db"
  shows "event_db_wf db'"
  using advance_checkpoint_at_Inr(2) [OF assms(1)] assms(2) wf_set_checkpoint by blast

lemma reset_checkpoint_wf:
  assumes "reset_checkpoint_tx w c db = Inr (u, db')" and "event_db_wf db"
  shows "event_db_wf db'"
proof -
  from assms(1) obtain q db1 where e: "ensure_checkpoint_tx w c db = Inr (q, db1)"
    and "db' = db1\<lparr>control_checkpoints :=
      (control_checkpoints db1)((trim_space w, trim_space c) \<mapsto> 0)\<rparr>"
    unfolding reset_checkpoint_tx_def
    by (auto simp: results update_where_def ensure_checkpoint_Inr(1))
  then show ?thesis
    using wf_set_checkpoint [OF ensure_checkpoint_wf [OF e assms(2)], of 0] by simp
qed

lemma event_step_wf:
  assumes "event_step E s t" and "event_db_wf s"
  shows "event_db_wf t"
  using assms(1)
proof cases
  case (append i e r)
  then show ?thesis unfolding append_event_def
    by (cases rule: in_tx_cases) (use assms(2) append_tx_wf in auto)
next
  case (advance w c q r')
  then show ?thesis unfolding advance_checkpoint_def
  proof (cases rule: in_tx_cases)
    case (2 x)
    then show ?thesis using assms(2)
      by (auto simp: advance_checkpoint_tx_def results
          intro: advance_checkpoint_at_wf ensure_checkpoint_wf)
  qed (use assms(2) in simp)
next
  case (reset w c r')
  then show ?thesis
    by (cases rule: in_tx_cases) (use assms(2) reset_checkpoint_wf in auto)
qed

lemma event_steps_wf: "(event_step E)\<^sup>*\<^sup>* s t \<Longrightarrow> event_db_wf s \<Longrightarrow> event_db_wf t"
  by (induction rule: rtranclp_induct) (auto intro: event_step_wf)

section \<open>Nothing is lost or repeated\<close>

lemma append_tx_log:
  assumes "append_tx E i e db = Inr (r, db')"
  shows "\<exists>rows. control_events db' = control_events db @ rows \<and> length rows \<le> 1 \<and>
      (\<forall>row \<in> set rows. row_seq row = io_seq i)"
    and "idempotency_records db k = Some q \<Longrightarrow> idempotency_records db' k = Some q"
    and "control_checkpoints db' = control_checkpoints db"
proof -
  obtain x dup where r: "r = (x, dup)" by fastforce
  note run = assms [unfolded r]
  from run show "\<exists>rows. control_events db' = control_events db @ rows \<and> length rows \<le> 1 \<and>
      (\<forall>row \<in> set rows. row_seq row = io_seq i)"
    by (cases rule: append_tx_Inr) (auto simp: row_seq_def)
  from run show "idempotency_records db k = Some q \<Longrightarrow> idempotency_records db' k = Some q"
    by (cases rule: append_tx_Inr) auto
  from run show "control_checkpoints db' = control_checkpoints db"
    by (cases rule: append_tx_Inr) auto
qed

lemma ensure_checkpoint_frame:
  assumes "ensure_checkpoint_tx w c db = Inr (q, db')"
  shows "control_events db' = control_events db" and "idempotency_records db' = idempotency_records db"
    and "evidence_tables db' = evidence_tables db"
  using assms by (auto simp: ensure_checkpoint_tx_def Let_def split: if_splits option.splits)

lemma advance_checkpoint_at_frame:
  assumes "advance_checkpoint_at_tx w c cur q db = Inr (u, db')"
  shows "control_events db' = control_events db" and "idempotency_records db' = idempotency_records db"
  using advance_checkpoint_at_Inr(2) [OF assms] by auto

lemma event_step_log:
  assumes "event_step E s t"
  shows "\<exists>rows. control_events t = control_events s @ rows"
    and "idempotency_records s k = Some q \<Longrightarrow> idempotency_records t k = Some q"
proof -
  have "(\<exists>rows. control_events t = control_events s @ rows) \<and>
    (\<forall>k q. idempotency_records s k = Some q \<longrightarrow> idempotency_records t k = Some q)"
    using assms
  proof cases
    case (append i e r)
    then show ?thesis unfolding append_event_def
    proof (cases rule: in_tx_cases)
      case (2 x)
      from append_tx_log(1) [OF 2(2)] append_tx_log(2) [OF 2(2)] show ?thesis by blast
    qed simp
  next
    case (advance w c q r')
    then show ?thesis unfolding advance_checkpoint_def
    proof (cases rule: in_tx_cases)
      case (2 x)
      then obtain cur b where "ensure_checkpoint_tx w c s = Inr (cur, b)"
        and "advance_checkpoint_at_tx w c cur q b = Inr (x, t)"
        by (auto simp: advance_checkpoint_tx_def results)
      then show ?thesis by (simp add: ensure_checkpoint_frame advance_checkpoint_at_frame)
    qed simp
  next
    case (reset w c r')
    then show ?thesis
    proof (cases rule: in_tx_cases)
      case (2 x)
      then obtain cur b where "ensure_checkpoint_tx w c s = Inr (cur, b)"
        and "control_events t = control_events b" "idempotency_records t = idempotency_records b"
        by (auto simp: reset_checkpoint_tx_def results)
      then show ?thesis by (simp add: ensure_checkpoint_frame)
    qed simp
  qed
  then show "\<exists>rows. control_events t = control_events s @ rows"
    and "idempotency_records s k = Some q \<Longrightarrow> idempotency_records t k = Some q" by blast+
qed

lemma event_steps_idem:
  "(event_step E)\<^sup>*\<^sup>* s t \<Longrightarrow> idempotency_records s k = Some q \<Longrightarrow> idempotency_records t k = Some q"
  by (induction rule: rtranclp_induct) (auto dest: event_step_log(2))

lemma event_steps_events:
  "(event_step E)\<^sup>*\<^sup>* s t \<Longrightarrow> set (control_events s) \<subseteq> set (control_events t)"
  by (induction rule: rtranclp_induct) (force dest: event_step_log(1))+

lemma find_by_seq:
  assumes "distinct (map row_seq rows)" and "row \<in> set rows"
  shows "find (\<lambda>r. row_workspace r = row_workspace row \<and> row_seq r = row_seq row) rows = Some row"
  using assms by (induction rows) force+

lemma read_event_committed:
  assumes "event_db_wf db" and "row \<in> set (control_events db)"
  shows "read_event_by_sequence_tx (row_workspace row) (row_seq row) db = Some (row_event row)"
  using assms by (simp add: read_event_by_sequence_tx_def event_db_wf_def find_by_seq)

lemma idem_committed:
  assumes "event_db_wf db" and "idempotency_records db (w, k) = Some r"
  obtains row where "row \<in> set (control_events db)" and "ir_sequence r = Some (row_seq row)"
    and "row_workspace row = w" and "ev_idempotency (row_event row) = k"
    and "ev_id (row_event row) = ir_event_id r" and "row_hash row = ir_hash r" and "0 < row_seq row"
    and "read_event_by_sequence_tx w (row_seq row) db = Some (row_event row)"
proof -
  from assms have "idem_row_ok (control_events db) w k r" by (auto simp: event_db_wf_def)
  then obtain row where "row \<in> set (control_events db)" and "ir_sequence r = Some (row_seq row)"
    and "row_workspace row = w" and "ev_idempotency (row_event row) = k"
    and "ev_id (row_event row) = ir_event_id r" and "row_hash row = ir_hash r"
    by (auto simp: idem_row_ok_def)
  with assms(1) read_event_committed [OF assms(1)] that show ?thesis
    by (auto simp: event_db_wf_def)
qed

text \<open>The outcome of an append whose key is already recorded.\<close>

lemma append_recorded:
  assumes "event_db_wf db" and "normalize_event (io_new_id i) (io_now i) e0 = Inr e"
    and "ev_idempotency e \<noteq> []"
    and "idempotency_records db (sc_workspace (ev_scope e), ev_idempotency e) = Some r"
  shows "append_event E i e0 db =
    (if ir_hash r \<noteq> request_hash (env_digest E) e then (Inl ErrIdempotencyConflict, db)
     else (Inr (the (read_event_by_sequence_tx (sc_workspace (ev_scope e)) (the (ir_sequence r)) db),
           True), db))"
  using assms(1,4)
proof (cases rule: idem_committed)
  case (1 row)
  with assms show ?thesis by (simp add: append_event_def append_tx_def in_tx_def Let_def)
qed

lemma append_tx_recorded:
  assumes "append_tx E i e0 db = Inr ((x, dup), db')"
    and "normalize_event (io_new_id i) (io_now i) e0 = Inr e" and "ev_idempotency e \<noteq> []"
    and "event_db_wf db"
  obtains r where "idempotency_records db' (sc_workspace (ev_scope e), ev_idempotency e) = Some r"
    and "ir_hash r = request_hash (env_digest E) e" and "ir_sequence r = Some (ev_sequence x)"
    and "ir_event_id r = ev_id x"
  using assms(1)
proof (cases rule: append_tx_Inr)
  case (duplicate n r q)
  with assms(2) have n: "n = e" by simp
  from assms(4) duplicate(5) show ?thesis
  proof (cases rule: idem_committed)
    case (1 row)
    with duplicate n that show ?thesis by (simp add: row_seq_def)
  qed
next
  case (fresh n ev)
  with assms(2) have "n = e" by simp
  with fresh assms(3) show ?thesis by (intro that [where r = "\<lparr>ir_hash = request_hash (env_digest E) e,
      ir_sequence = Some (io_seq i), ir_event_id = ev_id e\<rparr>"]) simp_all
qed

definition empty_control_db :: "unit control_db" where
  "empty_control_db = \<lparr>control_events = [], idempotency_records = (\<lambda>_. None),
    control_checkpoints = (\<lambda>_. None), evidence_tables = ()\<rparr>"

definition sample_env :: "unit event_env" where
  "sample_env = \<lparr>env_digest = rq_payload, env_accepts = (\<lambda>_. True), env_jsonb = (\<lambda>s. s),
    env_field = (\<lambda>_ _. None), env_evidence = (\<lambda>_ _. Inr ())\<rparr>"

definition sample_io :: "string \<Rightarrow> int \<Rightarrow> io" where
  "sample_io n q = \<lparr>io_new_id = n, io_now = 7, io_seq = q, io_recorded = 8\<rparr>"

lemma empty_control_db_wf: "event_db_wf empty_control_db"
  by (simp add: empty_control_db_def event_db_wf_def)

definition sample_db :: "unit control_db" where
  "sample_db = snd (append_event sample_env (sample_io ''evt_1'' 1) sample_event empty_control_db)"

definition sample_stored :: event where
  "sample_stored = sample_event'\<lparr>ev_sequence := 1, ev_recorded := 8\<rparr>"

lemma sample_append:
  "append_event sample_env (sample_io ''evt_1'' 1) sample_event empty_control_db =
    (Inr (sample_stored, False), sample_db)"
proof -
  have "fst (append_event sample_env (sample_io ''evt_1'' 1) sample_event empty_control_db) =
    Inr (sample_stored, False)" by code_simp
  then show ?thesis by (simp add: sample_db_def prod_eq_iff)
qed

lemma sample_io_normalize:
  "normalize_event (io_new_id (sample_io ''evt_1'' 1)) (io_now (sample_io ''evt_1'' 1)) sample_event =
    Inr sample_event'"
  using sample_normalize by (simp add: sample_io_def)

text \<open>
  C1: an idempotency key takes effect once. After an append that carries a key has committed, any
  later append of the same logical request (same content after normalisation, any new event id and
  clock) returns the committed event with its original id and sequence, reports a duplicate and
  leaves every table as it was, whatever appends and checkpoint moves ran in between.
\<close>

theorem append_retry_returns_original:
  assumes "event_db_wf s" and "append_event E i e s = (Inr (x, dup), s1)"
    and "normalize_event (io_new_id i) (io_now i) e = Inr n" and "ev_idempotency n \<noteq> []"
    and "(event_step E)\<^sup>*\<^sup>* s1 t"
    and "normalize_event (io_new_id i') (io_now i') e' = Inr n'"
    and "request_content n' = request_content n" and "ev_idempotency n' = ev_idempotency n"
  shows "\<exists>y. append_event E i' e' t = (Inr (y, True), t) \<and> ev_id y = ev_id x \<and>
    ev_sequence y = ev_sequence x"
proof -
  have tx: "append_tx E i e s = Inr ((x, dup), s1)"
    using assms(2) by (auto simp: append_event_def elim: in_tx_cases)
  have wf: "event_db_wf t" using append_tx_wf [OF tx assms(1)] assms(5) event_steps_wf by blast
  have ws: "sc_workspace (ev_scope n') = sc_workspace (ev_scope n)"
    using arg_cong [OF assms(7), of rq_scope] by (simp add: request_content_def)
  from tx assms(3,4,1) obtain r where r:
    "idempotency_records s1 (sc_workspace (ev_scope n), ev_idempotency n) = Some r"
    "ir_hash r = request_hash (env_digest E) n" "ir_sequence r = Some (ev_sequence x)"
    "ir_event_id r = ev_id x"
    by (rule append_tx_recorded)
  have rt: "idempotency_records t (sc_workspace (ev_scope n'), ev_idempotency n') = Some r"
    using event_steps_idem [OF assms(5) r(1)] ws assms(8) by simp
  have run: "append_event E i' e' t =
      (Inr (the (read_event_by_sequence_tx (sc_workspace (ev_scope n')) (the (ir_sequence r)) t), True), t)"
    using append_recorded [OF wf assms(6) _ rt, of E] assms(4,7,8) r(2)
    by (simp add: request_hash_def)
  from wf rt show ?thesis
    by (cases rule: idem_committed) (use run r in \<open>auto simp: row_seq_def\<close>)
qed

lemma sample_retry_normalize:
  "normalize_event (io_new_id (sample_io ''evt_9'' 5)) (io_now (sample_io ''evt_9'' 5)) sample_event =
    Inr (sample_event'\<lparr>ev_id := ''evt_9''\<rparr>)"
  by code_simp

lemma append_retry_returns_original_witness:
  "\<exists>y. append_event sample_env (sample_io ''evt_9'' 5) sample_event sample_db = (Inr (y, True), sample_db) \<and>
    ev_id y = ev_id sample_stored \<and> ev_sequence y = ev_sequence sample_stored"
  by (rule append_retry_returns_original [OF empty_control_db_wf sample_append sample_io_normalize _
        rtranclp.rtrancl_refl sample_retry_normalize])
    (simp_all add: sample_event'_def request_content_def)

text \<open>
  C29: reusing a key for a different request is refused. When the digests of the two contents
  differ, the append fails with the conflict error and changes nothing.
\<close>

theorem append_key_reuse_conflicts:
  assumes "event_db_wf s" and "append_event E i e s = (Inr (x, dup), s1)"
    and "normalize_event (io_new_id i) (io_now i) e = Inr n" and "ev_idempotency n \<noteq> []"
    and "(event_step E)\<^sup>*\<^sup>* s1 t"
    and "normalize_event (io_new_id i') (io_now i') e' = Inr n'"
    and "sc_workspace (ev_scope n') = sc_workspace (ev_scope n)"
    and "ev_idempotency n' = ev_idempotency n"
    and "env_digest E (request_content n') \<noteq> env_digest E (request_content n)"
  shows "append_event E i' e' t = (Inl ErrIdempotencyConflict, t)"
proof -
  have tx: "append_tx E i e s = Inr ((x, dup), s1)"
    using assms(2) by (auto simp: append_event_def elim: in_tx_cases)
  have wf: "event_db_wf t" using append_tx_wf [OF tx assms(1)] assms(5) event_steps_wf by blast
  from tx assms(3,4,1) obtain r where r:
    "idempotency_records s1 (sc_workspace (ev_scope n), ev_idempotency n) = Some r"
    "ir_hash r = request_hash (env_digest E) n"
    by (rule append_tx_recorded)
  have "idempotency_records t (sc_workspace (ev_scope n'), ev_idempotency n') = Some r"
    using event_steps_idem [OF assms(5) r(1)] assms(7,8) by simp
  from append_recorded [OF wf assms(6) _ this, of E] show ?thesis
    using assms(4,8,9) r(2) by (auto simp: request_hash_def)
qed

lemma append_key_reuse_conflicts_witness:
  "append_event sample_env (sample_io ''evt_9'' 5) (sample_event\<lparr>ev_payload := ''[1]''\<rparr>) sample_db =
    (Inl ErrIdempotencyConflict, sample_db)"
proof (rule append_key_reuse_conflicts [OF empty_control_db_wf sample_append sample_io_normalize _
        rtranclp.rtrancl_refl])
  show "normalize_event (io_new_id (sample_io ''evt_9'' 5)) (io_now (sample_io ''evt_9'' 5))
      (sample_event\<lparr>ev_payload := ''[1]''\<rparr>) =
    Inr (sample_event'\<lparr>ev_id := ''evt_9'', ev_payload := ''[1]''\<rparr>)" by code_simp
  show "env_digest sample_env (request_content (sample_event'\<lparr>ev_id := ''evt_9'', ev_payload := ''[1]''\<rparr>)) \<noteq>
    env_digest sample_env (request_content sample_event')" by code_simp
qed (simp_all add: sample_event'_def)

definition one_event_per_key :: "event_row list \<Rightarrow> bool" where
  "one_event_per_key rows \<longleftrightarrow> (\<forall>a \<in> set rows. \<forall>b \<in> set rows.
    row_workspace a = row_workspace b \<longrightarrow> ev_idempotency (row_event a) \<noteq> [] \<longrightarrow>
    ev_idempotency (row_event a) = ev_idempotency (row_event b) \<longrightarrow> a = b)"

lemma wf_one_event_per_key:
  assumes "event_db_wf db"
  shows "one_event_per_key (control_events db)"
  unfolding one_event_per_key_def
proof (intro ballI impI)
  fix a b assume ab: "a \<in> set (control_events db)" "b \<in> set (control_events db)"
    "row_workspace a = row_workspace b" "ev_idempotency (row_event a) \<noteq> []"
    "ev_idempotency (row_event a) = ev_idempotency (row_event b)"
  have "\<exists>r. idempotency_records db (row_workspace c, ev_idempotency (row_event c)) = Some r \<and>
      ir_sequence r = Some (row_seq c)"
    if "c \<in> set (control_events db)" "ev_idempotency (row_event c) \<noteq> []" for c
    using assms that unfolding event_db_wf_def by blast
  from this [of a] this [of b] ab have "row_seq a = row_seq b" by auto
  then show "a = b" using assms ab(1,2) by (auto simp: event_db_wf_def distinct_map inj_on_def)
qed

text \<open>
  C13: every history of appends and checkpoint moves that starts on empty tables keeps the tables
  consistent: sequences and event ids are unique, at most one event carries a given workspace and
  idempotency key, a committed idempotency record names its event, and a checkpoint is zero or
  the sequence of an event of its own workspace.
\<close>

theorem event_tables_invariant:
  assumes "(event_step E)\<^sup>*\<^sup>* (\<lparr>control_events = [], idempotency_records = (\<lambda>_. None),
    control_checkpoints = (\<lambda>_. None), evidence_tables = x0\<rparr>) t"
  shows "event_db_wf t \<and> one_event_per_key (control_events t)"
proof -
  have "event_db_wf t"
    by (rule event_steps_wf [OF assms]) (simp add: event_db_wf_def)
  then show ?thesis by (simp add: wf_one_event_per_key)
qed

lemma event_tables_invariant_witness:
  "event_db_wf sample_db \<and> one_event_per_key (control_events sample_db)"
proof -
  have "(event_step sample_env)\<^sup>*\<^sup>* \<lparr>control_events = [], idempotency_records = (\<lambda>_. None),
    control_checkpoints = (\<lambda>_. None), evidence_tables = ()\<rparr> sample_db"
    using event_step.append [OF sample_append] by (simp add: empty_control_db_def r_into_rtranclp)
  then show ?thesis by (rule event_tables_invariant)
qed

text \<open>
  C30: the log is append-only. Along every history the committed rows keep their content and their
  position; new rows are only added after them.
\<close>

theorem event_log_append_only:
  assumes "(event_step E)\<^sup>*\<^sup>* s t"
  shows "\<exists>rows. control_events t = control_events s @ rows"
  using assms
proof (induction rule: rtranclp_induct)
  case (step u v)
  then show ?case using event_step_log(1) [of E u v] by auto
qed simp

lemma event_log_append_only_witness: "\<exists>rows. control_events sample_db = control_events empty_control_db @ rows"
  by (rule event_log_append_only [OF r_into_rtranclp, OF event_step.append [OF sample_append]])

lemma bounded_read_limit_range: "1 \<le> bounded_read_limit n \<and> bounded_read_limit n \<le> 5000"
  by (simp add: bounded_read_limit_def Let_def default_event_read_limit_def max_event_read_limit_def)

lemma sorted_wrt_less_key:
  "sorted (map f xs) \<Longrightarrow> distinct (map f xs) \<Longrightarrow> sorted_wrt (\<lambda>x y. f x < (f y :: 'b :: linorder)) xs"
  by (induction xs) (fastforce simp: order.order_iff_strict)+

lemma take_sorted_below:
  assumes "sorted_wrt (\<lambda>x y. f x < (f y :: 'b :: linorder)) xs" and "y \<in> set xs" and "y \<notin> set (take n xs)"
  shows "n < length xs \<and> (\<forall>x \<in> set (take n xs). f x < f y)"
proof -
  have "y \<in> set (drop n xs)" using assms(2,3) by (metis Un_iff append_take_drop_id set_append)
  moreover have "sorted_wrt (\<lambda>x y. f x < f y) (take n xs @ drop n xs)" using assms(1) by simp
  ultimately show ?thesis
    using sorted_wrt_append [of "\<lambda>x y. f x < f y" "take n xs" "drop n xs"]
    by (metis drop_eq_Nil empty_iff leI list.set(1))
qed

text \<open>
  C31: a read returns no gaps. The events come in strictly increasing sequence order, each one
  matches the request, their number respects the bounded limit, and a matching event that is not
  returned lies after every returned one and is left out only because the page is full; so a
  consumer that continues after the last sequence misses nothing that was committed.
\<close>

theorem read_after_complete:
  assumes "event_db_wf db" and "read_after E q db = Inr es"
  shows "sorted_wrt (\<lambda>a b. ev_sequence a < ev_sequence b) es \<and>
    len es \<le> bounded_read_limit (rr_limit q) \<and>
    (\<forall>e \<in> set es. read_matches E q e \<and> e \<in> row_event ` set (control_events db)) \<and>
    (\<forall>e \<in> row_event ` set (control_events db). read_matches E q e \<longrightarrow> e \<notin> set es \<longrightarrow>
      len es = bounded_read_limit (rr_limit q) \<and> (\<forall>x \<in> set es. ev_sequence x < ev_sequence e))"
proof -
  let ?n = "nat (bounded_read_limit (rr_limit q))"
  let ?f = "filter (read_matches E q) (map row_event (control_events db))"
  let ?s = "sort_key ev_sequence ?f"
  have es: "es = take ?n ?s" using assms(2) by (auto simp: read_after_def split: if_splits)
  have n: "0 < ?n" "int ?n = bounded_read_limit (rr_limit q)"
    using bounded_read_limit_range [of "rr_limit q"] by simp_all
  have "distinct (map ev_sequence (map row_event (control_events db)))"
    using assms(1) by (simp add: event_db_wf_def row_seq_def [abs_def] comp_def)
  then have "distinct (map ev_sequence ?f)" by (simp only: distinct_map_filter)
  then have "distinct (map ev_sequence ?s)"
    by (simp add: distinct_map)
  then have sorted: "sorted_wrt (\<lambda>a b. ev_sequence a < ev_sequence b) ?s"
    by (rule sorted_wrt_less_key [rotated]) simp
  have mem: "x \<in> set ?s \<longleftrightarrow> read_matches E q x \<and> x \<in> row_event ` set (control_events db)" for x
    by auto
  have full: "len es = bounded_read_limit (rr_limit q)" if "?n < length ?s"
    using that n es by (simp add: len_def)
  show ?thesis
  proof (intro conjI)
    show "sorted_wrt (\<lambda>a b. ev_sequence a < ev_sequence b) es"
      unfolding es using sorted by (rule sorted_wrt_take)
    show "len es \<le> bounded_read_limit (rr_limit q)"
      unfolding es len_def using n by simp
    show "\<forall>e \<in> set es. read_matches E q e \<and> e \<in> row_event ` set (control_events db)"
      unfolding es using mem by (meson in_set_takeD)
    show "\<forall>e \<in> row_event ` set (control_events db). read_matches E q e \<longrightarrow> e \<notin> set es \<longrightarrow>
      len es = bounded_read_limit (rr_limit q) \<and> (\<forall>x \<in> set es. ev_sequence x < ev_sequence e)"
      using take_sorted_below [OF sorted] mem full unfolding es by metis
  qed
qed

definition sample_read :: read_request where
  "sample_read = \<lparr>rr_workspace = ''default'', rr_after = 0, rr_to = 0, rr_event_type = [],
    rr_run_id = [], rr_task_id = '' t1'', rr_session_id = [], rr_limit = 1\<rparr>"

lemma sample_db_wf: "event_db_wf sample_db"
  using event_step_wf [OF event_step.append [OF sample_append] empty_control_db_wf] .

lemma read_after_complete_witness:
  "sorted_wrt (\<lambda>a b. ev_sequence a < ev_sequence b) [sample_stored] \<and>
    len [sample_stored] \<le> bounded_read_limit (rr_limit sample_read) \<and>
    read_matches sample_env sample_read sample_stored"
proof -
  have "read_after sample_env sample_read sample_db = Inr [sample_stored]" by code_simp
  from read_after_complete [OF sample_db_wf this] show ?thesis by simp
qed

text \<open>
  checkpoints never move backwards. Advancing a checkpoint, whether the call succeeds or is
  refused, leaves every checkpoint at least where it was; a successful call leaves its own
  checkpoint at the requested sequence.
\<close>

theorem advance_checkpoint_monotone:
  assumes "advance_checkpoint w c q s = (r, t)" and "checkpoint w' c' s = Inr before"
  shows "\<exists>after. checkpoint w' c' t = Inr after \<and> before \<le> after \<and>
    (r = Inr () \<and> trim_space w' = trim_space w \<and> trim_space c' = trim_space c \<longrightarrow> after = q)"
  using assms(1) unfolding advance_checkpoint_def
proof (cases rule: in_tx_cases)
  case (1 e)
  then show ?thesis using assms(2) by simp
next
  case (2 x)
  then obtain cur b where b: "ensure_checkpoint_tx w c s = Inr (cur, b)"
    and t: "advance_checkpoint_at_tx w c cur q b = Inr (x, t)"
    by (auto simp: advance_checkpoint_tx_def results)
  note e = ensure_checkpoint_Inr [OF b]
  note a = advance_checkpoint_at_Inr [OF t]
  from a(2) have "control_checkpoints t (trim_space w, trim_space c) = Some q" using e(1) by auto
  moreover have "control_checkpoints t k = control_checkpoints s k" if "k \<noteq> (trim_space w, trim_space c)" for k
    using a(2) e(4) that by auto
  ultimately show ?thesis
    using assms(2) e(2,4) a(1)
    by (cases "(trim_space w', trim_space c') = (trim_space w, trim_space c)")
      (auto simp: checkpoint_def split: option.splits if_splits)
qed

lemma advance_checkpoint_monotone_witness:
  "checkpoint ''default'' ''p'' (snd (advance_checkpoint ''default'' ''p'' 1 sample_db)) = Inr 1"
proof -
  have "fst (advance_checkpoint ''default'' ''p'' 1 sample_db) = Inr ()" by code_simp
  then have "advance_checkpoint ''default'' ''p'' 1 sample_db =
      (Inr (), snd (advance_checkpoint ''default'' ''p'' 1 sample_db))"
    by (simp add: prod_eq_iff)
  moreover have "checkpoint ''default'' ''p'' sample_db = Inr 0" by code_simp
  ultimately show ?thesis using advance_checkpoint_monotone by fastforce
qed

end
