(* ===== verification/Fencing.thy ===== *)
theory Fencing
  imports Fornix_Prelude
begin

text \<open>
  The ownership row the lease tables of the store share, and the contract of a fenced lease.

  The tables \<open>consumer_leases\<close>, \<open>task_execution_leases\<close> and
  \<open>agent_run_worker_leases\<close> hold one row per (workspace, key): an owner, a fencing
  epoch, an expiry instant and an optional release instant.  \<open>'k lease\<close> is that row and
  also the struct handed to callers.

  The locale \<open>fenced_lease\<close> states what a table of such rows promises: within one
  epoch the owner never changes and a dead lease stays dead, and the epoch never goes back.
  Its consequences (mutual exclusion, stale tokens are refused for ever) are proved once and
  hold of each of the three tables by interpretation.
\<close>

section \<open>Lease rows\<close>

record 'k lease =
  lease_workspace :: string
  lease_key :: 'k
  lease_owner :: string
  lease_fence :: int
  lease_until :: time
  lease_acquired :: time
  lease_renewed :: time
  lease_released :: "time option"

type_synonym 'k lease_table = "string \<times> 'k \<Rightarrow> 'k lease option"

text \<open>The column \<open>(released_at IS NULL AND lease_until > clock_timestamp()) AS active\<close>.\<close>

definition lease_active :: "time \<Rightarrow> ('k, 'z) lease_scheme \<Rightarrow> bool" where
  "lease_active now l \<longleftrightarrow> lease_released l = None \<and> now < lease_until l"

lemma lease_active_antimono: "lease_active n l \<Longrightarrow> m \<le> n \<Longrightarrow> lease_active m l"
  by (simp add: lease_active_def)

text \<open>The largest epoch the BIGINT column may hold, \<open>1 << 63 - 1\<close>.\<close>

definition max_fence :: int where
  "max_fence = 2 ^ 63 - 1"

section \<open>The contract\<close>

text \<open>\<open>lease_le n l m l'\<close>: how the row \<open>l\<close> seen at instant \<open>n\<close> may have become
  \<open>l'\<close> by instant \<open>m\<close>.\<close>

definition lease_le :: "time \<Rightarrow> 'k lease \<Rightarrow> time \<Rightarrow> 'k lease \<Rightarrow> bool" where
  "lease_le n l m l' \<longleftrightarrow>
    lease_fence l < lease_fence l' \<or>
    lease_fence l' = lease_fence l \<and> lease_owner l' = lease_owner l \<and>
      (lease_active m l' \<longrightarrow> lease_active n l)"

lemma lease_le_refl: "n \<le> m \<Longrightarrow> lease_le n l m l"
  by (auto simp: lease_le_def lease_active_def)

lemma lease_le_trans: "lease_le n l m l' \<Longrightarrow> lease_le m l' k l'' \<Longrightarrow> lease_le n l k l''"
  by (auto simp: lease_le_def)

lemma lease_le_fence: "lease_le n l m l' \<Longrightarrow> lease_fence l \<le> lease_fence l'"
  by (auto simp: lease_le_def)

lemma lease_le_live:
  "lease_fence l' = lease_fence l \<Longrightarrow> lease_owner l' = lease_owner l \<Longrightarrow> lease_active n l \<Longrightarrow>
    lease_le n l m l'"
  by (simp add: lease_le_def)

lemma lease_le_dead:
  "lease_fence l' = lease_fence l \<Longrightarrow> lease_owner l' = lease_owner l \<Longrightarrow> \<not> lease_active m l' \<Longrightarrow>
    lease_le n l m l'"
  by (simp add: lease_le_def)

text \<open>One row is overwritten, the others stay.\<close>

lemma lease_le_upd:
  assumes "s k = Some l" and "n \<le> m" and "\<And>q. s k0 = Some q \<Longrightarrow> lease_le n q m q'"
  shows "\<exists>l'. (s(k0 \<mapsto> q')) k = Some l' \<and> lease_le n l m l'"
  using assms by (cases "k = k0") (auto intro: lease_le_refl)

locale fenced_lease =
  fixes step :: "time \<times> 's \<Rightarrow> time \<times> 's \<Rightarrow> bool"
    and row :: "'s \<Rightarrow> 'k \<Rightarrow> 'i lease option"
    and validates :: "time \<Rightarrow> 's \<Rightarrow> 'k \<Rightarrow> string \<Rightarrow> int \<Rightarrow> bool"
  assumes step_time: "step (n, s) (m, t) \<Longrightarrow> n \<le> m"
    and step_row: "step (n, s) (m, t) \<Longrightarrow> row s k = Some l \<Longrightarrow>
      \<exists>l'. row t k = Some l' \<and> lease_le n l m l'"
    and validates_row: "validates n s k own f \<Longrightarrow>
      \<exists>l. row s k = Some l \<and> lease_owner l = own \<and> lease_fence l = f \<and> lease_active n l"
begin

lemma run_time: "step\<^sup>*\<^sup>* a b \<Longrightarrow> fst a \<le> fst b"
  by (induction rule: rtranclp_induct) (force dest: step_time)+

lemma run_row:
  assumes "step\<^sup>*\<^sup>* a b" and "row (snd a) k = Some l"
  shows "\<exists>l'. row (snd b) k = Some l' \<and> lease_le (fst a) l (fst b) l'"
  using assms
proof (induction rule: rtranclp_induct)
  case base
  then show ?case by (auto intro: lease_le_refl)
next
  case (step b c)
  then obtain l' where l': "row (snd b) k = Some l'" "lease_le (fst a) l (fst b) l'"
    by blast
  with step.hyps obtain l'' where "row (snd c) k = Some l''" "lease_le (fst b) l' (fst c) l''"
    by (metis prod.collapse step_row)
  with l' show ?case by (blast intro: lease_le_trans)
qed

text \<open>At one moment at most one token is valid.\<close>

lemma exclusive:
  "validates n s k o1 f1 \<Longrightarrow> validates m s k o2 f2 \<Longrightarrow> o1 = o2 \<and> f1 = f2"
  by (fastforce dest: validates_row)

text \<open>Once the row carries a larger epoch, an older token is refused for ever.\<close>

lemma stale_refused:
  assumes "step\<^sup>*\<^sup>* (n, s) (m, t)" and "row s k = Some l" and "f < lease_fence l"
  shows "\<not> validates m' t k own f"
proof
  assume "validates m' t k own f"
  then obtain l' where "row t k = Some l'" "lease_fence l' = f"
    by (blast dest: validates_row)
  with run_row [OF assms(1), of k l] assms(2,3) show False
    by (auto dest: lease_le_fence)
qed

text \<open>An epoch belongs to one owner for the whole history.\<close>

lemma epoch_owner:
  assumes "step\<^sup>*\<^sup>* (n, s) (m, t)" and "validates n' s k o1 f" and "validates m' t k o2 f"
  shows "o1 = o2"
  using assms run_row [OF assms(1), of k] by (fastforce dest!: validates_row simp: lease_le_def)

text \<open>A token that has expired or was released never becomes valid again.\<close>

lemma dead_refused:
  assumes "step\<^sup>*\<^sup>* (n, s) (m, t)" and "row s k = Some l" and "\<not> lease_active n l" and "m \<le> m'"
  shows "\<not> validates m' t k own (lease_fence l)"
proof
  assume "validates m' t k own (lease_fence l)"
  then obtain l' where l': "row t k = Some l'" "lease_fence l' = lease_fence l" "lease_active m' l'"
    by (blast dest: validates_row)
  then have "lease_active m l'" using assms(4) by (blast intro: lease_active_antimono)
  with run_row [OF assms(1), of k l] assms(2,3) l' show False
    by (auto simp: lease_le_def)
qed

end

end
