(* ===== verification/Consumer_Lease.thy ===== *)
theory Consumer_Lease
  imports Fencing
begin

text \<open>
  \<open>internal/contracts/leases.go\<close> and \<open>internal/store/leases.go\<close>: workspace-scoped
  leases of checkpointed consumers.

  The state is the table \<open>fornix.consumer_leases\<close>, keyed by (workspace, consumer).  A
  \<open>...Tx\<close> function takes the clock readings of its statements and the table and returns
  an error or a result with the new table; its public form wraps it in \<open>in_tx\<close>, so an
  error leaves the table as it was.  Row locks (\<open>FOR UPDATE\<close>) make the operations on one
  key sequential, which is why a step is one whole operation.  A nil transaction, a lost
  connection and a failing commit are not modelled.
\<close>

section \<open>Contract\<close>

datatype consumer_error =
  ErrConsumerLeaseHeld string
| ErrConsumerLeaseMissing
| ErrConsumerLeaseOwned
| ErrConsumerLeaseFenced
| ErrConsumerLeaseExpired
| ErrConsumerLeaseReleased
| ErrConsumerFenceExhausted
| ConsumerIdentityRequired string
| ConsumerFenceInvalid
| ConsumerTakeoverFailed

type_synonym consumer_lease = "string lease"
type_synonym consumer_leases = "string lease_table"

record consumer_lease_result =
  clr_lease :: consumer_lease
  clr_acquired :: bool
  clr_takeover :: bool
  clr_reused :: bool

definition default_consumer_lease_ttl :: duration where
  "default_consumer_lease_ttl = 30 * second"

definition max_consumer_lease_ttl :: duration where
  "max_consumer_lease_ttl = 600 * second"

definition consumer_active_at :: "consumer_lease \<Rightarrow> time \<Rightarrow> bool" where
  "consumer_active_at l now \<longleftrightarrow>
    trim_space (lease_workspace l) \<noteq> [] \<and> trim_space (lease_key l) \<noteq> [] \<and>
    trim_space (lease_owner l) \<noteq> [] \<and> lease_fence l > 0 \<and>
    lease_released l = None \<and> lease_until l > now"

definition validate_consumer_lease_identity ::
    "string \<Rightarrow> string \<Rightarrow> string \<Rightarrow> consumer_error + unit" where
  "validate_consumer_lease_identity workspace consumer owner =
    bindE (guardE (trim_space workspace \<noteq> []) (ConsumerIdentityRequired ''workspace_id is required'')) (\<lambda>_.
    bindE (guardE (trim_space consumer \<noteq> []) (ConsumerIdentityRequired ''consumer_id is required'')) (\<lambda>_.
    guardE (trim_space owner \<noteq> []) (ConsumerIdentityRequired ''owner_id is required'')))"

section \<open>Store operations\<close>

definition bounded_consumer_lease_ttl :: "duration \<Rightarrow> duration" where
  "bounded_consumer_lease_ttl ttl0 =
    (let ttl1 = (if ttl0 \<le> 0 then default_consumer_lease_ttl else ttl0);
         ttl2 = (if ttl1 > max_consumer_lease_ttl then max_consumer_lease_ttl else ttl1)
     in if ttl2 < millisecond then millisecond else ttl2)"

definition read_consumer_lease ::
    "time \<Rightarrow> string \<Rightarrow> string \<Rightarrow> consumer_leases \<Rightarrow> consumer_error + consumer_lease \<times> bool" where
  "read_consumer_lease now workspace consumer s =
    (case s (workspace, consumer) of
      None \<Rightarrow> Inl ErrConsumerLeaseMissing
    | Some l \<Rightarrow>
        if lease_fence l \<le> 0 then Inl ConsumerFenceInvalid else Inr (l, lease_active now l))"

definition read_consumer_lease_tx ::
    "time \<Rightarrow> string \<Rightarrow> string \<Rightarrow> consumer_leases \<Rightarrow> consumer_error + consumer_lease \<times> bool" where
  "read_consumer_lease_tx now workspace consumer s =
    read_consumer_lease now (trim_space workspace) (trim_space consumer) s"

definition acquire_consumer_lease_tx ::
    "(nat \<Rightarrow> time) \<Rightarrow> string \<Rightarrow> string \<Rightarrow> string \<Rightarrow> duration \<Rightarrow> consumer_leases \<Rightarrow>
      consumer_error + consumer_lease_result \<times> consumer_leases" where
  "acquire_consumer_lease_tx clk workspace0 consumer0 owner0 ttl0 s =
    (let workspace = trim_space workspace0; consumer = trim_space consumer0;
         owner = trim_space owner0 in
    bindE (validate_consumer_lease_identity workspace consumer owner) (\<lambda>_.
    let ttl = bounded_consumer_lease_ttl ttl0;
        (inserted, s1) = insert_new (workspace, consumer)
          \<lparr>lease_workspace = workspace, lease_key = consumer, lease_owner = owner, lease_fence = 1,
           lease_until = add_millis (clk 0) (milliseconds ttl), lease_acquired = clk 0,
           lease_renewed = clk 0, lease_released = None\<rparr> s in
    bindE (read_consumer_lease_tx (clk 1) workspace consumer s1) (\<lambda>(current, active).
    if active then
      if lease_owner current \<noteq> owner then Inl (ErrConsumerLeaseHeld (lease_owner current))
      else Inr (\<lparr>clr_lease = current, clr_acquired = inserted, clr_takeover = False,
                 clr_reused = \<not> inserted\<rparr>, s1)
    else if lease_fence current \<ge> max_fence then Inl ErrConsumerFenceExhausted
    else
      let s2 = update_where (workspace, consumer) (\<lambda>l. lease_fence l = lease_fence current)
        (\<lambda>l. l\<lparr>lease_owner := owner, lease_fence := lease_fence l + 1,
               lease_until := add_millis (clk 2) (milliseconds ttl),
               lease_acquired := clk 2, lease_renewed := clk 2, lease_released := None\<rparr>) s1 in
      bindE (read_consumer_lease_tx (clk 3) workspace consumer s2) (\<lambda>(updated, updated_active).
      if \<not> updated_active \<or> lease_owner updated \<noteq> owner \<or> lease_fence updated \<le> lease_fence current
      then Inl ConsumerTakeoverFailed
      else Inr (\<lparr>clr_lease = updated, clr_acquired = True, clr_takeover = \<not> inserted,
                 clr_reused = False\<rparr>, s2)))))"

definition acquire_consumer_lease ::
    "(nat \<Rightarrow> time) \<Rightarrow> string \<Rightarrow> string \<Rightarrow> string \<Rightarrow> duration \<Rightarrow> consumer_leases \<Rightarrow>
      (consumer_error + consumer_lease_result) \<times> consumer_leases" where
  "acquire_consumer_lease clk workspace consumer owner ttl =
    in_tx (acquire_consumer_lease_tx clk workspace consumer owner ttl)"

text \<open>\<open>GetConsumerLease\<close> returns the row, whether it is active, and no error when the row is
  missing (\<open>None\<close>).\<close>

definition get_consumer_lease ::
    "time \<Rightarrow> string \<Rightarrow> string \<Rightarrow> consumer_leases \<Rightarrow> consumer_error + (consumer_lease \<times> bool) option" where
  "get_consumer_lease now workspace0 consumer0 s =
    (let workspace = trim_space workspace0; consumer = trim_space consumer0 in
    if workspace = [] \<or> consumer = []
    then Inl (ConsumerIdentityRequired ''workspace_id and consumer_id are required'')
    else case read_consumer_lease now workspace consumer s of
      Inr la \<Rightarrow> Inr (Some la)
    | Inl e \<Rightarrow> if e = ErrConsumerLeaseMissing then Inr None else Inl e)"

definition validate_consumer_lease_tx ::
    "time \<Rightarrow> consumer_lease \<Rightarrow> consumer_leases \<Rightarrow> consumer_error + consumer_lease" where
  "validate_consumer_lease_tx now l s =
    bindE (validate_consumer_lease_identity (lease_workspace l) (lease_key l) (lease_owner l)) (\<lambda>_.
    if lease_fence l = 0 \<or> lease_fence l > max_fence then Inl ErrConsumerLeaseFenced
    else bindE (read_consumer_lease_tx now (lease_workspace l) (lease_key l) s) (\<lambda>(current, active).
    if lease_fence current \<noteq> lease_fence l then Inl ErrConsumerLeaseFenced
    else if lease_owner current \<noteq> trim_space (lease_owner l) then Inl ErrConsumerLeaseOwned
    else if lease_released current \<noteq> None then Inl ErrConsumerLeaseReleased
    else if \<not> active then Inl ErrConsumerLeaseExpired
    else Inr current))"

definition renew_consumer_lease_tx ::
    "(nat \<Rightarrow> time) \<Rightarrow> consumer_lease \<Rightarrow> duration \<Rightarrow> consumer_leases \<Rightarrow>
      consumer_error + consumer_lease \<times> consumer_leases" where
  "renew_consumer_lease_tx clk l ttl0 s =
    bindE (validate_consumer_lease_tx (clk 0) l s) (\<lambda>_.
    let ttl = bounded_consumer_lease_ttl ttl0;
        s1 = update_where (trim_space (lease_workspace l), trim_space (lease_key l))
          (\<lambda>r. lease_owner r = trim_space (lease_owner l) \<and> lease_fence r = lease_fence l)
          (\<lambda>r. r\<lparr>lease_until := add_millis (clk 1) (milliseconds ttl), lease_renewed := clk 1\<rparr>) s in
    bindE (read_consumer_lease_tx (clk 2) (lease_workspace l) (lease_key l) s1) (\<lambda>(updated, active).
    if \<not> active then Inl ErrConsumerLeaseExpired else Inr (updated, s1)))"

definition renew_consumer_lease ::
    "(nat \<Rightarrow> time) \<Rightarrow> consumer_lease \<Rightarrow> duration \<Rightarrow> consumer_leases \<Rightarrow>
      (consumer_error + consumer_lease) \<times> consumer_leases" where
  "renew_consumer_lease clk l ttl = in_tx (renew_consumer_lease_tx clk l ttl)"

definition release_consumer_lease_tx ::
    "(nat \<Rightarrow> time) \<Rightarrow> consumer_lease \<Rightarrow> consumer_leases \<Rightarrow> consumer_error + unit \<times> consumer_leases" where
  "release_consumer_lease_tx clk l s =
    bindE (validate_consumer_lease_tx (clk 0) l s) (\<lambda>_.
    Inr ((), update_where (trim_space (lease_workspace l), trim_space (lease_key l))
      (\<lambda>r. lease_owner r = trim_space (lease_owner l) \<and> lease_fence r = lease_fence l)
      (\<lambda>r. r\<lparr>lease_until := clk 1, lease_released := Some (clk 1), lease_renewed := clk 1\<rparr>) s))"

definition release_consumer_lease ::
    "(nat \<Rightarrow> time) \<Rightarrow> consumer_lease \<Rightarrow> consumer_leases \<Rightarrow> (consumer_error + unit) \<times> consumer_leases" where
  "release_consumer_lease clk l = in_tx (release_consumer_lease_tx clk l)"

section \<open>Effects of the operations\<close>

lemma bounded_ttl_range:
  "millisecond \<le> bounded_consumer_lease_ttl ttl \<and> bounded_consumer_lease_ttl ttl \<le> max_consumer_lease_ttl"
  by (simp add: bounded_consumer_lease_ttl_def Let_def default_consumer_lease_ttl_def
      max_consumer_lease_ttl_def millisecond_def second_def)

lemma validate_identity_ok [results]:
  "validate_consumer_lease_identity w c own = Inr u \<longleftrightarrow>
    trim_space w \<noteq> [] \<and> trim_space c \<noteq> [] \<and> trim_space own \<noteq> []"
  by (auto simp: validate_consumer_lease_identity_def results)

lemma read_consumer_ok [results]:
  "read_consumer_lease_tx now w c s = Inr (l, a) \<longleftrightarrow>
    s (trim_space w, trim_space c) = Some l \<and> 0 < lease_fence l \<and> a = lease_active now l"
  by (auto simp: read_consumer_lease_tx_def read_consumer_lease_def split: option.splits)

lemma validate_consumer_ok [results]:
  "validate_consumer_lease_tx now l s = Inr r \<longleftrightarrow>
    trim_space (lease_workspace l) \<noteq> [] \<and> trim_space (lease_key l) \<noteq> [] \<and>
    trim_space (lease_owner l) \<noteq> [] \<and> lease_fence l \<le> max_fence \<and> 0 < lease_fence l \<and>
    s (trim_space (lease_workspace l), trim_space (lease_key l)) = Some r \<and>
    lease_fence r = lease_fence l \<and> lease_owner r = trim_space (lease_owner l) \<and>
    lease_active now r"
  by (auto simp: validate_consumer_lease_tx_def results lease_active_def split: if_splits)

text \<open>The row written by a statement that grants the lease at instant \<open>t\<close>.\<close>

definition consumer_grant :: "string \<Rightarrow> string \<Rightarrow> string \<Rightarrow> int \<Rightarrow> time \<Rightarrow> duration \<Rightarrow> consumer_lease" where
  "consumer_grant w c own f t ttl =
    \<lparr>lease_workspace = w, lease_key = c, lease_owner = own, lease_fence = f,
     lease_until = add_millis t (milliseconds (bounded_consumer_lease_ttl ttl)),
     lease_acquired = t, lease_renewed = t, lease_released = None\<rparr>"

definition consumer_takeover :: "consumer_lease \<Rightarrow> string \<Rightarrow> time \<Rightarrow> duration \<Rightarrow> consumer_lease" where
  "consumer_takeover l own t ttl =
    l\<lparr>lease_owner := own, lease_fence := lease_fence l + 1,
      lease_until := add_millis t (milliseconds (bounded_consumer_lease_ttl ttl)),
      lease_acquired := t, lease_renewed := t, lease_released := None\<rparr>"

definition consumer_ids_ok :: "string \<Rightarrow> string \<Rightarrow> string \<Rightarrow> bool" where
  "consumer_ids_ok w c own \<longleftrightarrow> trim_space w \<noteq> [] \<and> trim_space c \<noteq> [] \<and> trim_space own \<noteq> []"

lemma acquire_consumer_active:
  assumes "consumer_ids_ok w c own" and "s (trim_space w, trim_space c) = Some l"
    and "0 < lease_fence l" and "lease_active (clk 1) l"
  shows "acquire_consumer_lease_tx clk w c own ttl s =
    (if lease_owner l \<noteq> trim_space own then Inl (ErrConsumerLeaseHeld (lease_owner l))
     else Inr (\<lparr>clr_lease = l, clr_acquired = False, clr_takeover = False, clr_reused = True\<rparr>, s))"
  using assms
  by (simp add: acquire_consumer_lease_tx_def consumer_ids_ok_def validate_consumer_lease_identity_def
      read_consumer_lease_tx_def read_consumer_lease_def Let_def)

lemma acquire_consumer_dead:
  fixes ttl :: duration and clk :: "nat \<Rightarrow> time"
  assumes "consumer_ids_ok w c own" and "s (trim_space w, trim_space c) = Some l"
    and "0 < lease_fence l" and "\<not> lease_active (clk 1) l"
  defines "l' \<equiv> consumer_takeover l (trim_space own) (clk 2) ttl"
  shows "acquire_consumer_lease_tx clk w c own ttl s =
    (if lease_fence l \<ge> max_fence then Inl ErrConsumerFenceExhausted
     else if lease_active (clk 3) l'
     then Inr (\<lparr>clr_lease = l', clr_acquired = True, clr_takeover = True, clr_reused = False\<rparr>,
               s((trim_space w, trim_space c) \<mapsto> l'))
     else Inl ConsumerTakeoverFailed)"
  using assms(1-4) unfolding l'_def
  by (simp add: acquire_consumer_lease_tx_def consumer_ids_ok_def validate_consumer_lease_identity_def
      read_consumer_lease_tx_def read_consumer_lease_def Let_def update_where_def consumer_takeover_def)

lemma acquire_consumer_fresh:
  fixes ttl :: duration and clk :: "nat \<Rightarrow> time"
  assumes "consumer_ids_ok w c own" and "s (trim_space w, trim_space c) = None"
  defines "l \<equiv> consumer_grant (trim_space w) (trim_space c) (trim_space own) 1 (clk 0) ttl"
    and "l' \<equiv> consumer_grant (trim_space w) (trim_space c) (trim_space own) 2 (clk 2) ttl"
  shows "acquire_consumer_lease_tx clk w c own ttl s =
    (if lease_active (clk 1) l
     then Inr (\<lparr>clr_lease = l, clr_acquired = True, clr_takeover = False, clr_reused = False\<rparr>,
               s((trim_space w, trim_space c) \<mapsto> l))
     else if lease_active (clk 3) l'
     then Inr (\<lparr>clr_lease = l', clr_acquired = True, clr_takeover = False, clr_reused = False\<rparr>,
               s((trim_space w, trim_space c) \<mapsto> l'))
     else Inl ConsumerTakeoverFailed)"
  using assms(1,2) unfolding l_def l'_def
  by (simp add: acquire_consumer_lease_tx_def consumer_ids_ok_def validate_consumer_lease_identity_def
      read_consumer_lease_tx_def read_consumer_lease_def Let_def update_where_def consumer_grant_def
      max_fence_def)

lemma acquire_consumer_ids:
  "acquire_consumer_lease_tx clk w c own ttl s = Inr (r, t) \<Longrightarrow> consumer_ids_ok w c own"
  by (auto simp: acquire_consumer_lease_tx_def consumer_ids_ok_def results Let_def)

lemma acquire_consumer_fence:
  assumes "acquire_consumer_lease_tx clk w c own ttl s = Inr (r, t)"
    and "s (trim_space w, trim_space c) = Some l"
  shows "0 < lease_fence l"
  using assms by (auto simp: acquire_consumer_lease_tx_def results Let_def)

text \<open>A successful acquisition: three ways, and nothing else.\<close>

lemma acquire_consumer_Inr:
  assumes "acquire_consumer_lease_tx clk w c own ttl s = Inr (r, t)"
  defines "k \<equiv> (trim_space w, trim_space c)"
  obtains
    (reused) l where "s k = Some l" and "lease_active (clk 1) l"
      and "lease_owner l = trim_space own" and "t = s" and "clr_lease r = l" and "clr_reused r"
      and "\<not> clr_takeover r"
  | (takeover) l where "s k = Some l" and "\<not> lease_active (clk 1) l" and "0 < lease_fence l"
      and "lease_fence l < max_fence"
      and "clr_lease r = consumer_takeover l (trim_space own) (clk 2) ttl" and "clr_takeover r"
      and "t = s(k \<mapsto> clr_lease r)" and "lease_active (clk 3) (clr_lease r)"
  | (fresh) f i where "s k = None" and "f = 1 \<or> f = 2" and "i = 0 \<or> i = 2"
      and "clr_lease r = consumer_grant (fst k) (snd k) (trim_space own) f (clk i) ttl"
      and "clr_acquired r" and "\<not> clr_takeover r" and "t = s(k \<mapsto> clr_lease r)"
proof (cases "s k")
  case None
  with assms acquire_consumer_ids [OF assms(1)] show ?thesis
    by (auto simp: acquire_consumer_fresh split: if_splits intro: fresh)
next
  case (Some l)
  then have "0 < lease_fence l" using assms acquire_consumer_fence by blast
  with Some assms acquire_consumer_ids [OF assms(1)] show ?thesis
    by (cases "lease_active (clk 1) l")
      (auto simp: acquire_consumer_active acquire_consumer_dead split: if_splits
        intro: reused takeover)
qed

lemma renew_consumer_Inr:
  assumes "renew_consumer_lease_tx clk l ttl s = Inr (r, t)"
  defines "k \<equiv> (trim_space (lease_workspace l), trim_space (lease_key l))"
  obtains q where "s k = Some q" and "lease_active (clk 0) q" and "lease_fence q = lease_fence l"
    and "lease_owner q = trim_space (lease_owner l)"
    and "r = q\<lparr>lease_until := add_millis (clk 1) (milliseconds (bounded_consumer_lease_ttl ttl)),
                 lease_renewed := clk 1\<rparr>"
    and "t = s(k \<mapsto> r)"
  using assms unfolding renew_consumer_lease_tx_def
  by (auto simp: results update_where_def Let_def split: if_splits)

lemma release_consumer_Inr:
  assumes "release_consumer_lease_tx clk l s = Inr (r, t)"
  defines "k \<equiv> (trim_space (lease_workspace l), trim_space (lease_key l))"
  obtains q where "s k = Some q" and "lease_active (clk 0) q" and "lease_fence q = lease_fence l"
    and "lease_owner q = trim_space (lease_owner l)"
    and "t = s(k \<mapsto> q\<lparr>lease_until := clk 1, lease_released := Some (clk 1), lease_renewed := clk 1\<rparr>)"
  using assms unfolding release_consumer_lease_tx_def
  by (auto simp: results update_where_def split: if_splits)

section \<open>Histories\<close>

text \<open>
  One step is one public operation, successful or not, with clock readings inside the
  step's interval; time may also just pass.
\<close>

inductive consumer_step :: "time \<times> consumer_leases \<Rightarrow> time \<times> consumer_leases \<Rightarrow> bool" where
  acquire: "mono clk \<Longrightarrow> n \<le> clk 0 \<Longrightarrow> clk 3 \<le> m \<Longrightarrow>
    acquire_consumer_lease clk w c own ttl s = (r, t) \<Longrightarrow> consumer_step (n, s) (m, t)"
| renew: "mono clk \<Longrightarrow> n \<le> clk 0 \<Longrightarrow> clk 2 \<le> m \<Longrightarrow>
    renew_consumer_lease clk l ttl s = (r', t) \<Longrightarrow> consumer_step (n, s) (m, t)"
| release: "mono clk \<Longrightarrow> n \<le> clk 0 \<Longrightarrow> clk 1 \<le> m \<Longrightarrow>
    release_consumer_lease clk l s = (r'', t) \<Longrightarrow> consumer_step (n, s) (m, t)"
| wait: "n \<le> m \<Longrightarrow> consumer_step (n, s) (m, s)"

text \<open>The token (owner, epoch) is accepted for the consumer's row at an instant.\<close>

definition consumer_token_ok ::
    "time \<Rightarrow> consumer_leases \<Rightarrow> string \<times> string \<Rightarrow> string \<Rightarrow> int \<Rightarrow> bool" where
  "consumer_token_ok now s k own f \<longleftrightarrow>
    (\<exists>l r. (trim_space (lease_workspace l), trim_space (lease_key l)) = k \<and>
      trim_space (lease_owner l) = own \<and> lease_fence l = f \<and>
      validate_consumer_lease_tx now l s = Inr r)"

lemma consumer_step_time: "consumer_step (n, s) (m, t) \<Longrightarrow> n \<le> m"
proof (cases rule: consumer_step.cases, assumption, goal_cases)
  case (1 clk n m w c own ttl s r t)
  then have "clk 0 \<le> clk 3" by (simp add: monoD)
  with 1 show ?case by simp
next
  case (2 clk n m l ttl s r' t)
  then have "clk 0 \<le> clk 2" by (simp add: monoD)
  with 2 show ?case by simp
next
  case (3 clk n m l s r'' t)
  then have "clk 0 \<le> clk 1" by (simp add: monoD)
  with 3 show ?case by simp
qed simp

lemma takeover_le: "\<not> lease_active n l \<Longrightarrow> lease_le n l m (consumer_takeover l own t ttl)"
  by (simp add: lease_le_def consumer_takeover_def)

lemma acquire_consumer_row:
  assumes clk: "mono clk" "n \<le> clk 0" "clk 3 \<le> m"
    and run: "acquire_consumer_lease clk w c own ttl s = (r, t)" and k: "s k = Some l"
  shows "\<exists>l'. t k = Some l' \<and> lease_le n l m l'"
proof -
  have "clk 0 \<le> clk 3" "clk 0 \<le> clk 1" using clk(1) by (simp_all add: monoD)
  then have nm: "n \<le> m" and n1: "n \<le> clk 1" using clk by simp_all
  from run show ?thesis unfolding acquire_consumer_lease_def
  proof (cases rule: in_tx_cases)
    case (1 e)
    then show ?thesis using k nm by (auto intro: lease_le_refl)
  next
    case (2 x)
    from 2(2) show ?thesis
    proof (cases rule: acquire_consumer_Inr)
      case (reused l0)
      then show ?thesis using k nm by (auto intro: lease_le_refl)
    next
      case (takeover l0)
      show ?thesis unfolding \<open>t = _\<close> using k nm
        by (rule lease_le_upd) (use takeover in \<open>auto simp: lease_le_def consumer_takeover_def\<close>)
    next
      case (fresh f i)
      show ?thesis unfolding \<open>t = _\<close> using k nm by (rule lease_le_upd) (use fresh in simp)
    qed
  qed
qed

lemma renew_consumer_row:
  assumes clk: "mono clk" "n \<le> clk 0" "clk 2 \<le> m"
    and run: "renew_consumer_lease clk l0 ttl s = (r, t)" and k: "s k = Some l"
  shows "\<exists>l'. t k = Some l' \<and> lease_le n l m l'"
proof -
  have "clk 0 \<le> clk 2" using clk(1) by (simp add: monoD)
  then have nm: "n \<le> m" using clk by simp
  from run show ?thesis unfolding renew_consumer_lease_def
  proof (cases rule: in_tx_cases)
    case (1 e)
    then show ?thesis using k nm by (auto intro: lease_le_refl)
  next
    case (2 x)
    from 2(2) show ?thesis
    proof (cases rule: renew_consumer_Inr)
      case (1 q)
      show ?thesis unfolding \<open>t = _\<close> using k nm
        by (rule lease_le_upd) (use 1 clk in \<open>auto intro: lease_le_live lease_active_antimono\<close>)
    qed
  qed
qed

lemma release_consumer_row:
  assumes clk: "mono clk" "n \<le> clk 0" "clk 1 \<le> m"
    and run: "release_consumer_lease clk l0 s = (r, t)" and k: "s k = Some l"
  shows "\<exists>l'. t k = Some l' \<and> lease_le n l m l'"
proof -
  have "clk 0 \<le> clk 1" using clk(1) by (simp add: monoD)
  then have nm: "n \<le> m" using clk by simp
  from run show ?thesis unfolding release_consumer_lease_def
  proof (cases rule: in_tx_cases)
    case (1 e)
    then show ?thesis using k nm by (auto intro: lease_le_refl)
  next
    case (2 x)
    then have "release_consumer_lease_tx clk l0 s = Inr (x, t)" by simp
    then show ?thesis
    proof (cases rule: release_consumer_Inr)
      case (1 q)
      show ?thesis unfolding \<open>t = _\<close> using k nm
        by (rule lease_le_upd) (use 1 in \<open>auto intro: lease_le_dead simp: lease_active_def\<close>)
    qed
  qed
qed

lemma consumer_step_row:
  assumes "consumer_step (n, s) (m, t)" and "s k = Some l"
  shows "\<exists>l'. t k = Some l' \<and> lease_le n l m l'"
  using assms
  by (cases rule: consumer_step.cases)
    (blast intro: acquire_consumer_row renew_consumer_row release_consumer_row lease_le_refl)+

lemma consumer_token_row:
  "consumer_token_ok n s k own f \<Longrightarrow>
    \<exists>l. s k = Some l \<and> lease_owner l = own \<and> lease_fence l = f \<and> lease_active n l"
  by (auto simp: consumer_token_ok_def results)

interpretation consumer: fenced_lease consumer_step "\<lambda>s. s" consumer_token_ok
  by unfold_locales (blast intro: consumer_step_time consumer_step_row consumer_token_row)+


section \<open>Properties\<close>

lemma acquire_takeover_fence:
  assumes "acquire_consumer_lease clk w c own ttl s = (Inr r, t)" and "clr_takeover r"
    and "s (trim_space w, trim_space c) = Some l"
  shows "\<exists>l'. t (trim_space w, trim_space c) = Some l' \<and> lease_fence l' = lease_fence l + 1"
proof -
  have "acquire_consumer_lease_tx clk w c own ttl s = Inr (r, t)"
    using assms(1) by (auto simp: acquire_consumer_lease_def elim: in_tx_cases)
  then show ?thesis
  proof (cases rule: acquire_consumer_Inr)
    case (reused l0)
    with assms(2) show ?thesis by simp
  next
    case (takeover l0)
    with assms(3) show ?thesis by (simp add: consumer_takeover_def)
  next
    case (fresh f i)
    with assms(3) show ?thesis by simp
  qed
qed

lemma token_ok_intro:
  "validate_consumer_lease_tx now tok s = Inr q \<Longrightarrow>
    consumer_token_ok now s (trim_space (lease_workspace tok), trim_space (lease_key tok))
      (trim_space (lease_owner tok)) (lease_fence tok)"
  by (auto simp: consumer_token_ok_def)

definition sample_lease :: consumer_lease where
  "sample_lease = \<lparr>lease_workspace = ''ws'', lease_key = ''tasks'', lease_owner = ''a'',
    lease_fence = 4, lease_until = 50, lease_acquired = 10, lease_renewed = 10,
    lease_released = None\<rparr>"

definition sample_table :: consumer_leases where
  "sample_table = [(''ws'', ''tasks'') \<mapsto> sample_lease]"

lemma trim_samples [simp]:
  "trim_space ''ws'' = ''ws''" "trim_space ''tasks'' = ''tasks''" "trim_space ''a'' = ''a''"
  "trim_space ''b'' = ''b''" "trim_space '' b '' = ''b''"
  by code_simp+

definition sample_taken :: consumer_lease where
  "sample_taken = consumer_takeover sample_lease ''b'' 60 0"

lemma sample_acquire:
  "acquire_consumer_lease (\<lambda>_. 60) ''ws'' ''tasks'' '' b '' 0 sample_table =
    (Inr \<lparr>clr_lease = sample_taken, clr_acquired = True, clr_takeover = True, clr_reused = False\<rparr>,
     sample_table((''ws'', ''tasks'') \<mapsto> sample_taken))"
proof -
  have "consumer_ids_ok ''ws'' ''tasks'' '' b ''" "0 < lease_fence sample_lease"
    "\<not> lease_active 60 sample_lease" "lease_fence sample_lease < max_fence"
    and new: "lease_active 60 sample_taken"
    by code_simp+
  moreover have "sample_table (trim_space ''ws'', trim_space ''tasks'') = Some sample_lease"
    by (simp add: sample_table_def)
  ultimately have "acquire_consumer_lease_tx (\<lambda>_. 60) ''ws'' ''tasks'' '' b '' 0 sample_table =
    Inr (\<lparr>clr_lease = sample_taken, clr_acquired = True, clr_takeover = True, clr_reused = False\<rparr>,
      sample_table((''ws'', ''tasks'') \<mapsto> sample_taken))"
    by (simp add: acquire_consumer_dead sample_taken_def [symmetric])
  then show ?thesis by (simp add: acquire_consumer_lease_def in_tx_def)
qed

text \<open>
  C21: once a lease has been taken over, every token of the previous epoch or an older one is
  refused in every later state, whatever operations run in between and whatever instant the
  validation reads: a paused consumer can not write with a stale token.
\<close>

theorem consumer_stale_token_refused:
  assumes "acquire_consumer_lease clk w c own ttl s = (Inr r, t)" and "clr_takeover r"
    and "s (trim_space w, trim_space c) = Some l"
    and "consumer_step\<^sup>*\<^sup>* (n, t) (m, u)"
    and "trim_space (lease_workspace tok) = trim_space w" and "trim_space (lease_key tok) = trim_space c"
    and "lease_fence tok \<le> lease_fence l"
  shows "validate_consumer_lease_tx now tok u \<noteq> Inr q"
proof
  assume "validate_consumer_lease_tx now tok u = Inr q"
  then have "consumer_token_ok now u (trim_space w, trim_space c) (trim_space (lease_owner tok))
      (lease_fence tok)"
    using assms(5,6) by (metis token_ok_intro)
  moreover obtain l' where "t (trim_space w, trim_space c) = Some l'" "lease_fence l' = lease_fence l + 1"
    using acquire_takeover_fence [OF assms(1-3)] by blast
  ultimately show False
    using consumer.stale_refused [OF assms(4)] assms(7) by fastforce
qed

lemma consumer_stale_token_refused_witness:
  "validate_consumer_lease_tx 70 sample_lease (sample_table((''ws'', ''tasks'') \<mapsto> sample_taken))
    \<noteq> Inr sample_lease"
  by (rule consumer_stale_token_refused [OF sample_acquire, where l = sample_lease and n = 70 and m = 80])
    (simp_all add: sample_table_def sample_lease_def consumer_step.wait r_into_rtranclp)

text \<open>
  mutual exclusion. In one state of the table all accepted tokens of a consumer carry the
  same owner and the same epoch, even when the validations read the clock at different instants.
\<close>

theorem consumer_lease_exclusive:
  assumes "validate_consumer_lease_tx n tok1 s = Inr q1" and "validate_consumer_lease_tx m tok2 s = Inr q2"
    and "trim_space (lease_workspace tok1) = trim_space (lease_workspace tok2)"
    and "trim_space (lease_key tok1) = trim_space (lease_key tok2)"
  shows "trim_space (lease_owner tok1) = trim_space (lease_owner tok2) \<and>
    lease_fence tok1 = lease_fence tok2"
  using consumer.exclusive token_ok_intro [OF assms(1)] token_ok_intro [OF assms(2)] assms(3,4)
  by metis

lemma consumer_lease_exclusive_witness:
  "trim_space (lease_owner sample_lease) = trim_space (lease_owner (sample_lease\<lparr>lease_owner := ''a''\<rparr>)) \<and>
    lease_fence sample_lease = lease_fence (sample_lease\<lparr>lease_owner := ''a''\<rparr>)"
  by (rule consumer_lease_exclusive [of 20 _ sample_table sample_lease 30 _ sample_lease])
    (simp_all add: results sample_table_def sample_lease_def lease_active_def max_fence_def)


text \<open>
  Availability. When no live lease is stored for the consumer, the identity is complete and
  the epoch is not exhausted, an acquisition whose statements run within the granted lifetime
  succeeds: the caller gets an active lease in its own (trimmed) name, stored in the table, with
  an epoch above the one it replaces.
\<close>

theorem acquire_consumer_lease_available:
  fixes ttl :: duration
  assumes "mono clk" and "consumer_ids_ok w c own"
    and "\<And>l. s (trim_space w, trim_space c) = Some l \<Longrightarrow>
      \<not> lease_active (clk 1) l \<and> 0 < lease_fence l \<and> lease_fence l < max_fence"
    and "clk 3 < clk 0 + 1000 * milliseconds (bounded_consumer_lease_ttl ttl)"
  shows "\<exists>r t. acquire_consumer_lease clk w c own ttl s = (Inr r, t) \<and> clr_acquired r \<and>
    lease_active (clk 3) (clr_lease r) \<and> lease_owner (clr_lease r) = trim_space own \<and>
    t = s((trim_space w, trim_space c) \<mapsto> clr_lease r) \<and>
    (case s (trim_space w, trim_space c) of
      None \<Rightarrow> \<not> clr_takeover r \<and> lease_fence (clr_lease r) = 1
    | Some l \<Rightarrow> clr_takeover r \<and> lease_fence (clr_lease r) = lease_fence l + 1)"
proof -
  have clk: "clk 0 \<le> clk 1" "clk 1 \<le> clk 3" "clk 0 \<le> clk 2" using assms(1) by (simp_all add: monoD)
  show ?thesis
  proof (cases "s (trim_space w, trim_space c)")
    case None
    with assms clk show ?thesis
      by (simp add: acquire_consumer_lease_def in_tx_def acquire_consumer_fresh consumer_grant_def
          lease_active_def add_millis_def)
  next
    case (Some l)
    with assms(3) have l: "\<not> lease_active (clk 1) l" "0 < lease_fence l" "lease_fence l < max_fence"
      by blast+
    have "lease_active (clk 3) (consumer_takeover l (trim_space own) (clk 2) ttl)"
      using assms(4) clk by (simp add: consumer_takeover_def lease_active_def add_millis_def)
    with Some l show ?thesis
      by (simp add: acquire_consumer_lease_def in_tx_def acquire_consumer_dead [OF assms(2), of s l clk])
        (simp add: consumer_takeover_def)
  qed
qed

lemma acquire_consumer_lease_available_witness:
  "\<exists>r t. acquire_consumer_lease (\<lambda>_. 60) ''ws'' ''tasks'' '' b '' 0 sample_table = (Inr r, t) \<and>
    clr_acquired r \<and> lease_active 60 (clr_lease r) \<and> lease_owner (clr_lease r) = trim_space '' b '' \<and>
    t = sample_table((trim_space ''ws'', trim_space ''tasks'') \<mapsto> clr_lease r) \<and>
    (case sample_table (trim_space ''ws'', trim_space ''tasks'') of
      None \<Rightarrow> \<not> clr_takeover r \<and> lease_fence (clr_lease r) = 1
    | Some l \<Rightarrow> clr_takeover r \<and> lease_fence (clr_lease r) = lease_fence l + 1)"
proof (rule acquire_consumer_lease_available)
  show "mono (\<lambda>_ :: nat. 60 :: int)" by (rule monoI) simp
  show "consumer_ids_ok ''ws'' ''tasks'' '' b ''" by code_simp
  show "(60 :: int) < 60 + 1000 * milliseconds (bounded_consumer_lease_ttl 0)" by code_simp
qed (auto simp: sample_table_def sample_lease_def lease_active_def max_fence_def)

text \<open>The shape of every stored row.\<close>

definition consumer_table_wf :: "consumer_leases \<Rightarrow> bool" where
  "consumer_table_wf s \<longleftrightarrow> (\<forall>w c l. s (w, c) = Some l \<longrightarrow>
    lease_workspace l = w \<and> lease_key l = c \<and> w \<noteq> [] \<and> c \<noteq> [] \<and> lease_owner l \<noteq> [] \<and>
    trim_space (lease_owner l) = lease_owner l \<and> 0 < lease_fence l \<and> lease_fence l \<le> max_fence)"

lemma consumer_table_wf_upd:
  "consumer_table_wf s \<Longrightarrow> lease_workspace l = w \<Longrightarrow> lease_key l = c \<Longrightarrow> w \<noteq> [] \<Longrightarrow> c \<noteq> [] \<Longrightarrow>
    lease_owner l \<noteq> [] \<Longrightarrow> trim_space (lease_owner l) = lease_owner l \<Longrightarrow>
    0 < lease_fence l \<Longrightarrow> lease_fence l \<le> max_fence \<Longrightarrow> consumer_table_wf (s((w, c) \<mapsto> l))"
  by (simp add: consumer_table_wf_def)

lemma consumer_table_wfD:
  "consumer_table_wf s \<Longrightarrow> s (w, c) = Some l \<Longrightarrow>
    lease_workspace l = w \<and> lease_key l = c \<and> w \<noteq> [] \<and> c \<noteq> [] \<and> lease_owner l \<noteq> [] \<and>
    trim_space (lease_owner l) = lease_owner l \<and> 0 < lease_fence l \<and> lease_fence l \<le> max_fence"
  by (simp add: consumer_table_wf_def)

lemma acquire_consumer_wf:
  assumes "acquire_consumer_lease clk w c own ttl s = (r, t)" and wf: "consumer_table_wf s"
  shows "consumer_table_wf t"
  using assms(1) unfolding acquire_consumer_lease_def
proof (cases rule: in_tx_cases)
  case (2 x)
  have ids: "consumer_ids_ok w c own" using 2(2) by (rule acquire_consumer_ids)
  from 2(2) show ?thesis
  proof (cases rule: acquire_consumer_Inr)
    case (reused l)
    with wf show ?thesis by simp
  next
    case (takeover l)
    with wf ids consumer_table_wfD [OF wf takeover(1)] show ?thesis
      by (auto intro!: consumer_table_wf_upd simp: consumer_takeover_def consumer_ids_ok_def)
  next
    case (fresh f i)
    with wf ids show ?thesis
      by (auto intro!: consumer_table_wf_upd simp: consumer_grant_def consumer_ids_ok_def max_fence_def)
  qed
qed (use wf in simp)

lemma renew_consumer_wf:
  assumes "renew_consumer_lease clk l ttl s = (r, t)" and wf: "consumer_table_wf s"
  shows "consumer_table_wf t"
  using assms(1) unfolding renew_consumer_lease_def
proof (cases rule: in_tx_cases)
  case (2 x)
  from 2(2) show ?thesis
    by (cases rule: renew_consumer_Inr)
      (use wf in \<open>auto intro!: consumer_table_wf_upd dest: consumer_table_wfD [OF wf]\<close>)
qed (use wf in simp)

lemma release_consumer_wf:
  assumes "release_consumer_lease clk l s = (r, t)" and wf: "consumer_table_wf s"
  shows "consumer_table_wf t"
  using assms(1) unfolding release_consumer_lease_def
proof (cases rule: in_tx_cases)
  case (2 x)
  then have "release_consumer_lease_tx clk l s = Inr (x, t)" by simp
  then show ?thesis
    by (cases rule: release_consumer_Inr)
      (use wf in \<open>auto intro!: consumer_table_wf_upd dest: consumer_table_wfD [OF wf]\<close>)
qed (use wf in simp)

text \<open>
  every history of the lease operations, started on an empty table, leaves rows stored under
  their own workspace and consumer, with a non-blank trimmed owner and an epoch from 1 to the
  largest value the BIGINT column holds: no sequence of takeovers overflows the epoch.
\<close>

theorem consumer_table_invariant:
  assumes "consumer_step\<^sup>*\<^sup>* (n, \<lambda>_. None) (m, t)"
  shows "consumer_table_wf t"
proof -
  have "consumer_table_wf (snd b)" if "consumer_step\<^sup>*\<^sup>* a b" "consumer_table_wf (snd a)" for a b
    using that
  proof (induction rule: rtranclp_induct)
    case (step b c)
    from step.hyps(2) show ?case
      by (cases rule: consumer_step.cases)
        (use step.IH step.prems in
          \<open>auto dest: acquire_consumer_wf renew_consumer_wf release_consumer_wf\<close>)
  qed
  from this [OF assms] show ?thesis by (simp add: consumer_table_wf_def)
qed

lemma consumer_table_invariant_witness:
  "consumer_table_wf (snd (acquire_consumer_lease (\<lambda>_. 60) ''ws'' ''tasks'' ''b'' 0 (\<lambda>_. None)))"
proof -
  have "mono (\<lambda>_ :: nat. 60 :: int)" by (rule monoI) simp
  then have "consumer_step (10, \<lambda>_. None)
      (90, snd (acquire_consumer_lease (\<lambda>_. 60) ''ws'' ''tasks'' ''b'' 0 (\<lambda>_. None)))"
    by (rule consumer_step.acquire) (auto simp: prod_eq_iff)
  then show ?thesis by (rule consumer_table_invariant [OF r_into_rtranclp])
qed

end
