(* ===== verification/Projection.thy ===== *)
theory Projection
  imports Event_Store Consumer_Lease
begin

text \<open>
  \<open>internal/projection/runtime.go\<close>: the runner that applies committed events to a derived
  view, one bounded batch per transaction, under a consumer lease.

  A database holds the event tables, the consumer leases and the tables \<open>'v\<close> the projection
  owns.  The Go interface \<open>Subscriber\<close> is the record \<open>subscriber\<close>; what the code relies on
  of its implementations is the locale \<open>derived_view\<close>: \<open>Apply\<close> reads and writes the rows of the
  event's workspace only, and \<open>Reset\<close> clears exactly one workspace.  \<open>clk\<close> gives the clock
  readings of the lease checks of a transaction.  A result that accompanies an error is not
  modelled, nor are durations.
\<close>

section \<open>State and interface\<close>

record ('x, 'v) projection_db = "'x control_db" +
  lease_rows :: consumer_leases
  derived :: 'v

record apply_result =
  ap_handled :: bool
  ap_applied :: bool
  ap_duplicate :: bool

record 'v subscriber =
  sub_name :: string
  sub_consumer :: string
  sub_batch :: int
  sub_apply :: "event \<Rightarrow> 'v \<Rightarrow> string + apply_result \<times> 'v"
  sub_reset :: "string \<Rightarrow> 'v \<Rightarrow> string + 'v"

record 'v runner =
  rn_subscriber :: "'v subscriber"
  rn_owner :: string
  rn_ttl :: duration

datatype runner_error =
  RunnerInvalid string
| LeaseFailed consumer_error
| StoreFailed store_error
| ApplyFailed int string
| ResetFailed string
| HookFailed string

record batch_result =
  br_events_read :: int
  br_events_applied :: int
  br_events_duplicate :: int
  br_before :: int
  br_after :: int
  br_fence :: int
  br_has_more :: bool

definition default_batch_size :: int where
  "default_batch_size = 100"

definition max_batch_size :: int where
  "max_batch_size = 1000"

definition bounded_batch_size :: "int \<Rightarrow> int" where
  "bounded_batch_size n =
    (if n \<le> 0 then default_batch_size else if n > max_batch_size then max_batch_size else n)"

definition new_runner_with_owner ::
    "'v subscriber \<Rightarrow> string \<Rightarrow> duration \<Rightarrow> runner_error + 'v runner" where
  "new_runner_with_owner sub owner0 ttl0 =
    bindE (guardE (trim_space (sub_consumer sub) \<noteq> [])
      (RunnerInvalid ''subscriber consumer ID is required'')) (\<lambda>_.
    bindE (guardE (trim_space (sub_name sub) \<noteq> []) (RunnerInvalid ''subscriber name is required'')) (\<lambda>_.
    bindE (guardE (trim_space owner0 \<noteq> []) (RunnerInvalid ''consumer owner ID is required'')) (\<lambda>_.
    let ttl = (if ttl0 \<le> 0 then default_consumer_lease_ttl else ttl0) in
    Inr \<lparr>rn_subscriber = sub, rn_owner = trim_space owner0,
         rn_ttl = (if ttl > max_consumer_lease_ttl then max_consumer_lease_ttl else ttl)\<rparr>)))"

definition validate_runner_lease :: "'v runner \<Rightarrow> consumer_lease \<Rightarrow> runner_error + unit" where
  "validate_runner_lease R l =
    bindE (liftE LeaseFailed (validate_consumer_lease_identity (lease_workspace l) (lease_key l) (lease_owner l))) (\<lambda>_.
    bindE (guardE (lease_key l = sub_consumer (rn_subscriber R))
      (RunnerInvalid ''consumer lease consumer_id does not match subscriber'')) (\<lambda>_.
    bindE (guardE (lease_owner l = rn_owner R)
      (RunnerInvalid ''consumer lease owner_id does not match runner owner'')) (\<lambda>_.
    guardE (lease_fence l \<noteq> 0) (RunnerInvalid ''consumer lease fence is required''))))"

section \<open>One batch\<close>

definition advance_checkpoint_at_tx_with_lease ::
    "time \<Rightarrow> consumer_lease \<Rightarrow> int \<Rightarrow> int \<Rightarrow> ('x, 'v, 'z) projection_db_scheme \<Rightarrow>
      runner_error + unit \<times> ('x, 'v, 'z) projection_db_scheme" where
  "advance_checkpoint_at_tx_with_lease now l current sequence db =
    bindE (liftE LeaseFailed (validate_consumer_lease_tx now l (lease_rows db))) (\<lambda>_.
    liftE StoreFailed (advance_checkpoint_at_tx (lease_workspace l) (lease_key l) current sequence db))"

text \<open>The loop over the events of a batch, with its two counters.\<close>

fun apply_batch ::
    "(event \<Rightarrow> 'v \<Rightarrow> string + apply_result \<times> 'v) \<Rightarrow> event list \<Rightarrow> int \<Rightarrow> int \<Rightarrow> 'v \<Rightarrow>
      runner_error + (int \<times> int) \<times> 'v" where
  "apply_batch f [] applied duplicate v = Inr ((applied, duplicate), v)"
| "apply_batch f (e # es) applied duplicate v =
    bindE (liftE (ApplyFailed (ev_sequence e)) (f e v)) (\<lambda>(o', v').
    apply_batch f es (if ap_applied o' then applied + 1 else applied)
      (if ap_duplicate o' then duplicate + 1 else duplicate) v')"

definition run_batch_tx ::
    "'x event_env \<Rightarrow> 'v runner \<Rightarrow> (nat \<Rightarrow> time) \<Rightarrow> consumer_lease \<Rightarrow> (batch_result \<Rightarrow> string option) \<Rightarrow>
      ('x, 'v, 'z) projection_db_scheme \<Rightarrow>
      runner_error + batch_result \<times> ('x, 'v, 'z) projection_db_scheme" where
  "run_batch_tx E R clk l hook db =
    (let sub = rn_subscriber R; workspace = trim_space (lease_workspace l) in
    bindE (liftE LeaseFailed (validate_consumer_lease_tx (clk 0) l (lease_rows db))) (\<lambda>_.
    bindE (liftE StoreFailed (ensure_checkpoint_tx workspace (sub_consumer sub) db)) (\<lambda>(before, db1).
    let size = bounded_batch_size (sub_batch sub) in
    bindE (liftE StoreFailed (read_after_sequence E workspace before (size + 1) db1)) (\<lambda>found.
    let more = len found > size; events = (if more then take (nat size) found else found) in
    bindE (apply_batch (sub_apply sub) events 0 0 (derived db1)) (\<lambda>((applied, duplicate), v).
    let db2 = db1\<lparr>derived := v\<rparr>;
        after = (if events \<noteq> [] then ev_sequence (last events) else before) in
    bindE (if events \<noteq> [] then advance_checkpoint_at_tx_with_lease (clk 1) l before after db2
           else Inr ((), db2)) (\<lambda>(_, db3).
    let result = \<lparr>br_events_read = len events, br_events_applied = applied,
      br_events_duplicate = duplicate, br_before = before, br_after = after,
      br_fence = lease_fence l, br_has_more = more\<rparr> in
    case hook result of Some msg \<Rightarrow> Inl (HookFailed msg) | None \<Rightarrow> Inr (result, db3)))))))"

definition run_batch_with_lease_hook ::
    "'x event_env \<Rightarrow> 'v runner \<Rightarrow> (nat \<Rightarrow> time) \<Rightarrow> consumer_lease \<Rightarrow> (batch_result \<Rightarrow> string option) \<Rightarrow>
      ('x, 'v, 'z) projection_db_scheme \<Rightarrow>
      (runner_error + batch_result) \<times> ('x, 'v, 'z) projection_db_scheme" where
  "run_batch_with_lease_hook E R clk l hook db =
    (case validate_runner_lease R l of
      Inl e \<Rightarrow> (Inl e, db)
    | Inr _ \<Rightarrow> in_tx (run_batch_tx E R clk l hook) db)"

definition run_batch_with_lease ::
    "'x event_env \<Rightarrow> 'v runner \<Rightarrow> (nat \<Rightarrow> time) \<Rightarrow> consumer_lease \<Rightarrow>
      ('x, 'v, 'z) projection_db_scheme \<Rightarrow>
      (runner_error + batch_result) \<times> ('x, 'v, 'z) projection_db_scheme" where
  "run_batch_with_lease E R clk l db =
    (case validate_runner_lease R l of
      Inl e \<Rightarrow> (Inl e, db)
    | Inr _ \<Rightarrow> run_batch_with_lease_hook E R clk l (\<lambda>_. None) db)"

text \<open>\<open>AcquireLease\<close> commits before the batch starts; \<open>clk\<close> continues after its four statements.\<close>

definition acquire_runner_lease ::
    "'v runner \<Rightarrow> (nat \<Rightarrow> time) \<Rightarrow> string \<Rightarrow> ('x, 'v, 'z) projection_db_scheme \<Rightarrow>
      (runner_error + consumer_lease_result) \<times> ('x, 'v, 'z) projection_db_scheme" where
  "acquire_runner_lease R clk workspace db =
    (let (r, t) = acquire_consumer_lease clk workspace (sub_consumer (rn_subscriber R)) (rn_owner R)
       (rn_ttl R) (lease_rows db) in
     (liftE LeaseFailed r, db\<lparr>lease_rows := t\<rparr>))"

definition run_batch ::
    "'x event_env \<Rightarrow> 'v runner \<Rightarrow> (nat \<Rightarrow> time) \<Rightarrow> string \<Rightarrow> (batch_result \<Rightarrow> string option) \<Rightarrow>
      ('x, 'v, 'z) projection_db_scheme \<Rightarrow>
      (runner_error + batch_result) \<times> ('x, 'v, 'z) projection_db_scheme" where
  "run_batch E R clk workspace hook db =
    (case acquire_runner_lease R clk workspace db of
      (Inl e, db1) \<Rightarrow> (Inl e, db1)
    | (Inr a, db1) \<Rightarrow> run_batch_with_lease_hook E R (\<lambda>i. clk (i + 4)) (clr_lease a) hook db1)"

section \<open>Rebuild\<close>

definition reset_tx ::
    "'v runner \<Rightarrow> time \<Rightarrow> consumer_lease \<Rightarrow> string \<Rightarrow> ('x, 'v, 'z) projection_db_scheme \<Rightarrow>
      runner_error + unit \<times> ('x, 'v, 'z) projection_db_scheme" where
  "reset_tx R now l workspace db =
    (let sub = rn_subscriber R in
    bindE (liftE LeaseFailed (validate_consumer_lease_tx now l (lease_rows db))) (\<lambda>_.
    bindE (liftE StoreFailed (ensure_checkpoint_tx workspace (sub_consumer sub) db)) (\<lambda>(_, db1).
    bindE (liftE ResetFailed (sub_reset sub workspace (derived db1))) (\<lambda>v.
    liftE StoreFailed (reset_checkpoint_tx workspace (sub_consumer sub) (db1\<lparr>derived := v\<rparr>))))))"

record rebuild_result =
  rb_batches :: int
  rb_events_read :: int
  rb_events_applied :: int
  rb_events_duplicate :: int
  rb_checkpoint :: int
  rb_fence :: int

text \<open>
  The catch-up loop, with fuel for its unbounded \<open>for\<close>; \<open>None\<close> is a loop that has not
  ended.  \<open>clk n\<close> are the clock readings of the n-th batch from the end of the fuel.
\<close>

fun rebuild_loop ::
    "nat \<Rightarrow> 'x event_env \<Rightarrow> 'v runner \<Rightarrow> (nat \<Rightarrow> nat \<Rightarrow> time) \<Rightarrow> consumer_lease \<Rightarrow> rebuild_result \<Rightarrow>
      ('x, 'v, 'z) projection_db_scheme \<Rightarrow>
      ((runner_error + rebuild_result) \<times> ('x, 'v, 'z) projection_db_scheme) option" where
  "rebuild_loop 0 E R clk l acc db = None"
| "rebuild_loop (Suc n) E R clk l acc db =
    (case run_batch_with_lease_hook E R (clk n) l (\<lambda>_. None) db of
      (Inl e, db1) \<Rightarrow> Some (Inl e, db1)
    | (Inr b, db1) \<Rightarrow>
        let acc1 = acc\<lparr>rb_batches := rb_batches acc + 1,
          rb_events_read := rb_events_read acc + br_events_read b,
          rb_events_applied := rb_events_applied acc + br_events_applied b,
          rb_events_duplicate := rb_events_duplicate acc + br_events_duplicate b,
          rb_checkpoint := br_after b\<rparr>
        in if \<not> br_has_more b then Some (Inr acc1, db1) else rebuild_loop n E R clk l acc1 db1)"

definition rebuild ::
    "nat \<Rightarrow> 'x event_env \<Rightarrow> 'v runner \<Rightarrow> (nat \<Rightarrow> time) \<Rightarrow> (nat \<Rightarrow> nat \<Rightarrow> time) \<Rightarrow> string \<Rightarrow>
      ('x, 'v, 'z) projection_db_scheme \<Rightarrow>
      ((runner_error + rebuild_result) \<times> ('x, 'v, 'z) projection_db_scheme) option" where
  "rebuild fuel E R clk clks workspace0 db =
    (let workspace = trim_space workspace0 in
    if workspace = [] then Some (Inl (RunnerInvalid ''workspace_id is required''), db)
    else case acquire_runner_lease R clk workspace db of
      (Inl e, db1) \<Rightarrow> Some (Inl e, db1)
    | (Inr a, db1) \<Rightarrow>
        (case in_tx (reset_tx R (clk 4) (clr_lease a) workspace) db1 of
          (Inl e, db2) \<Rightarrow> Some (Inl e, db2)
        | (Inr _, db2) \<Rightarrow>
            rebuild_loop fuel E R clks (clr_lease a)
              \<lparr>rb_batches = 0, rb_events_read = 0, rb_events_applied = 0, rb_events_duplicate = 0,
               rb_checkpoint = 0, rb_fence = lease_fence (clr_lease a)\<rparr> db2))"

section \<open>What a projection promises\<close>

fun apply_all :: "(event \<Rightarrow> 'v \<Rightarrow> string + apply_result \<times> 'v) \<Rightarrow> event list \<Rightarrow> 'v \<Rightarrow> string + 'v" where
  "apply_all f [] v = Inr v"
| "apply_all f (e # es) v = bindE (f e v) (\<lambda>(_, v'). apply_all f es v')"

lemma apply_batch_all: "apply_batch f es a d v = Inr (r, v') \<Longrightarrow> apply_all f es v = Inr v'"
  by (induction es arbitrary: a d v) (fastforce simp: results)+

lemma apply_all_append: "apply_all f (es @ fs) v = bindE (apply_all f es v) (apply_all f fs)"
  by (induction es arbitrary: v) (auto simp: bindE_def split: sum.splits prod.splits)

definition event_workspace :: "event \<Rightarrow> string" where
  "event_workspace e = sc_workspace (ev_scope e)"

text \<open>\<open>v\<close> is what the projection derives for one workspace from \<open>es\<close>, starting blank.\<close>

definition replay_of ::
    "(event \<Rightarrow> 'v \<Rightarrow> string + apply_result \<times> 'v) \<Rightarrow> (string \<Rightarrow> 'v \<Rightarrow> 'w) \<Rightarrow> 'w \<Rightarrow> string \<Rightarrow>
      event list \<Rightarrow> 'w \<Rightarrow> bool" where
  "replay_of f view blank w es v \<longleftrightarrow>
    (\<exists>s s'. view w s = blank \<and> apply_all f es s = Inr s' \<and> view w s' = v)"

locale derived_view =
  fixes app :: "event \<Rightarrow> 'v \<Rightarrow> string + apply_result \<times> 'v"
    and rst :: "string \<Rightarrow> 'v \<Rightarrow> string + 'v"
    and view :: "string \<Rightarrow> 'v \<Rightarrow> 'w" and blank :: 'w
  assumes app_local: "app e s = Inr (r, s') \<Longrightarrow>
      trim_space (event_workspace e) = event_workspace e \<Longrightarrow> view (event_workspace e) s = view (event_workspace e) t \<Longrightarrow>
      \<exists>t'. app e t = Inr (r, t') \<and> view (event_workspace e) t' = view (event_workspace e) s'"
    and app_frame: "app e s = Inr (r, s') \<Longrightarrow>
      trim_space (event_workspace e) = event_workspace e \<Longrightarrow> w \<noteq> event_workspace e \<Longrightarrow> view w s' = view w s"
    and rst_blank: "rst w s = Inr s' \<Longrightarrow> view (trim_space w) s' = blank"
    and rst_frame: "rst w s = Inr s' \<Longrightarrow> w' \<noteq> trim_space w \<Longrightarrow> view w' s' = view w' s"
begin

lemma apply_all_local:
  assumes "apply_all app es s = Inr s'" and "\<forall>e \<in> set es. event_workspace e = w"
    and "view w s = view w t" and w: "trim_space w = w"
  shows "\<exists>t'. apply_all app es t = Inr t' \<and> view w t' = view w s'"
  using assms(1-3)
proof (induction es arbitrary: s t)
  case Nil
  then show ?case by auto
next
  case (Cons e es)
  then obtain r s1 where s1: "app e s = Inr (r, s1)" "apply_all app es s1 = Inr s'"
    by (auto simp: results)
  with Cons.prems obtain t1 where t1: "app e t = Inr (r, t1)" "view w t1 = view w s1"
    using app_local [OF s1(1), of t] w by auto
  from Cons.IH [OF s1(2) _ t1(2) [symmetric]] Cons.prems(2) t1(1) show ?case by simp
qed

lemma apply_all_frame:
  "apply_all app es s = Inr s' \<Longrightarrow> \<forall>e \<in> set es. event_workspace e = w' \<Longrightarrow> trim_space w' = w' \<Longrightarrow>
    w \<noteq> w' \<Longrightarrow> view w s' = view w s"
proof (induction es arbitrary: s)
  case (Cons e es)
  then obtain r s1 where "app e s = Inr (r, s1)" "apply_all app es s1 = Inr s'"
    by (auto simp: results)
  with Cons show ?case using app_frame [of e s r s1 w] by auto
qed simp

text \<open>A replay has one result, and going on from it is the longer replay.\<close>

lemma replay_unique:
  assumes "replay_of app view blank w es v" and "replay_of app view blank w es v'"
    and "\<forall>e \<in> set es. event_workspace e = w" and "trim_space w = w"
  shows "v = v'"
proof -
  from assms(1,2) obtain a a' b b' where "view w a = blank" "apply_all app es a = Inr a'" "view w a' = v"
    and "view w b = blank" "apply_all app es b = Inr b'" "view w b' = v'"
    by (auto simp: replay_of_def)
  with apply_all_local [of es a a' w b] assms(3,4) show ?thesis by auto
qed

lemma replay_Nil: "view w s = blank \<Longrightarrow> replay_of app view blank w [] (view w s)"
  by (auto simp: replay_of_def)

lemma replay_extend:
  assumes "replay_of app view blank w es (view w s)" and "apply_all app fs s = Inr s'"
    and "\<forall>e \<in> set fs. event_workspace e = w" and "trim_space w = w"
  shows "replay_of app view blank w (es @ fs) (view w s')"
proof -
  from assms(1) obtain b b' where b: "view w b = blank" "apply_all app es b = Inr b'"
    "view w b' = view w s"
    by (auto simp: replay_of_def)
  with apply_all_local [OF assms(2,3), of b'] assms(4) show ?thesis
    by (auto simp: replay_of_def apply_all_append)
qed

end

section \<open>The events of a workspace\<close>

definition workspace_events :: "string \<Rightarrow> ('x, 'z) control_db_scheme \<Rightarrow> event list" where
  "workspace_events w db =
    sort_key ev_sequence (filter (\<lambda>e. event_workspace e = w) (map row_event (control_events db)))"

definition events_upto :: "string \<Rightarrow> int \<Rightarrow> ('x, 'z) control_db_scheme \<Rightarrow> event list" where
  "events_upto w q db = filter (\<lambda>e. ev_sequence e \<le> q) (workspace_events w db)"

definition events_after :: "string \<Rightarrow> int \<Rightarrow> ('x, 'z) control_db_scheme \<Rightarrow> event list" where
  "events_after w q db = filter (\<lambda>e. q < ev_sequence e) (workspace_events w db)"

definition cursor :: "string \<Rightarrow> string \<Rightarrow> ('x, 'z) control_db_scheme \<Rightarrow> int" where
  "cursor w c db = (case control_checkpoints db (w, c) of None \<Rightarrow> 0 | Some q \<Rightarrow> q)"

lemma workspace_events_cong:
  "control_events db' = control_events db \<Longrightarrow> workspace_events w db' = workspace_events w db"
  by (simp add: workspace_events_def)

lemma workspace_events_ws: "e \<in> set (workspace_events w db) \<Longrightarrow> event_workspace e = w"
  by (auto simp: workspace_events_def)

lemma page_ws: "e \<in> set (take n (events_after w q db)) \<Longrightarrow> event_workspace e = w"
  by (auto simp: events_after_def dest!: in_set_takeD workspace_events_ws)

lemma workspace_events_sorted:
  assumes "event_db_wf db"
  shows "sorted_wrt (\<lambda>a b. ev_sequence a < ev_sequence b) (workspace_events w db)"
proof -
  have "distinct (map ev_sequence (map row_event (control_events db)))"
    using assms by (simp add: event_db_wf_def row_seq_def [abs_def] comp_def)
  then have "distinct (map ev_sequence (filter (\<lambda>e. event_workspace e = w) (map row_event (control_events db))))"
    by (simp only: distinct_map_filter)
  then have "distinct (map ev_sequence (workspace_events w db))"
    by (simp add: distinct_map workspace_events_def)
  then show ?thesis
    by (rule sorted_wrt_less_key [rotated]) (simp add: workspace_events_def)
qed

lemma read_after_sequence_events:
  assumes "trim_space w = w" and "w \<noteq> []" and "0 < n" and "n \<le> 5000"
  shows "read_after_sequence E w q n db = Inr (take (nat n) (events_after w q db))"
proof -
  have "bounded_read_limit n = n"
    using assms(3,4) by (simp add: bounded_read_limit_def default_event_read_limit_def max_event_read_limit_def)
  moreover have "filter (read_matches E \<lparr>rr_workspace = w, rr_after = q, rr_to = 0, rr_event_type = [],
      rr_run_id = [], rr_task_id = [], rr_session_id = [], rr_limit = n\<rparr>) (map row_event (control_events db))
    = filter (\<lambda>e. q < ev_sequence e) (filter (\<lambda>e. event_workspace e = w) (map row_event (control_events db)))"
    using assms(1) by (auto simp: read_matches_def opt_filter_def event_workspace_def filter_filter intro!: filter_cong)
  ultimately show ?thesis using assms
    by (simp add: read_after_sequence_def read_after_def events_after_def workspace_events_def filter_sort
        del: filter_filter filter_map)
qed

text \<open>A page after the cursor, added to what lies before it, is what lies before its last event.\<close>

lemma sorted_split:
  "sorted_wrt (\<lambda>a b. f a < (f b :: int)) xs \<Longrightarrow>
    filter (\<lambda>x. f x \<le> q) xs @ filter (\<lambda>x. q < f x) xs = xs"
proof (induction xs)
  case (Cons a xs)
  show ?case
  proof (cases "f a \<le> q")
    case False
    with Cons.prems have "\<forall>x \<in> set xs. q < f x" by auto
    then have "filter (\<lambda>x. f x \<le> q) xs = []" "filter (\<lambda>x. q < f x) xs = xs"
      by (auto simp: filter_empty_conv filter_id_conv)
    with False show ?thesis by simp
  qed (use Cons in auto)
qed simp

lemma sorted_prefix_filter:
  assumes "sorted_wrt (\<lambda>a b. f a < (f b :: int)) (ps @ xs)" and "ps \<noteq> []"
  shows "filter (\<lambda>x. f x \<le> f (last ps)) (ps @ xs) = ps"
proof -
  have split: "ps = butlast ps @ [last ps]" using assms(2) by simp
  have less: "\<forall>x \<in> set xs. f (last ps) < f x" and "sorted_wrt (\<lambda>a b. f a < f b) (butlast ps @ [last ps])"
    using assms last_in_set [OF assms(2)] by (auto simp: sorted_wrt_append)
  then have "\<forall>x \<in> set (butlast ps @ [last ps]). f x \<le> f (last ps)"
    unfolding sorted_wrt_append by force
  then have "\<forall>x \<in> set ps. f x \<le> f (last ps)" using split by metis
  with less show ?thesis by (simp add: filter_id_conv filter_empty_conv not_le)
qed

lemma events_page:
  assumes "event_db_wf db" and "take n (events_after w q db) \<noteq> []"
  shows "events_upto w (ev_sequence (last (take n (events_after w q db)))) db =
    events_upto w q db @ take n (events_after w q db)"
proof -
  let ?p = "take n (events_after w q db)" and ?r = "drop n (events_after w q db)"
  have "events_upto w q db @ events_after w q db = workspace_events w db"
    unfolding events_upto_def events_after_def by (rule sorted_split [OF workspace_events_sorted [OF assms(1)]])
  then have all: "(events_upto w q db @ ?p) @ ?r = workspace_events w db" by simp
  have "filter (\<lambda>e. ev_sequence e \<le> ev_sequence (last (events_upto w q db @ ?p)))
      ((events_upto w q db @ ?p) @ ?r) = events_upto w q db @ ?p"
    by (rule sorted_prefix_filter) (use assms workspace_events_sorted all in simp_all)
  then show ?thesis using assms(2) unfolding all by (simp add: events_upto_def)
qed

lemma events_after_page:
  assumes "event_db_wf db" and "take n (events_after w q db) \<noteq> []"
  shows "events_after w (ev_sequence (last (take n (events_after w q db)))) db = drop n (events_after w q db)"
proof -
  let ?q = "ev_sequence (last (take n (events_after w q db)))"
  have all: "events_upto w p db @ events_after w p db = workspace_events w db" for p
    unfolding events_upto_def events_after_def by (rule sorted_split [OF workspace_events_sorted [OF assms(1)]])
  have "events_upto w ?q db @ events_after w ?q db =
      events_upto w ?q db @ drop n (events_after w q db)"
    using all [of ?q] all [of q] events_page [OF assms] by simp
  then show ?thesis by simp
qed

section \<open>What one batch does\<close>

lemma bounded_batch_size_range: "1 \<le> bounded_batch_size n \<and> bounded_batch_size n \<le> 1000"
  by (simp add: bounded_batch_size_def default_batch_size_def max_batch_size_def)

definition runner_consumer :: "'v runner \<Rightarrow> string" where
  "runner_consumer R = trim_space (sub_consumer (rn_subscriber R))"

definition runner_batch :: "'v runner \<Rightarrow> nat" where
  "runner_batch R = nat (bounded_batch_size (sub_batch (rn_subscriber R)))"

lemma runner_batch_pos: "0 < runner_batch R"
  using bounded_batch_size_range [of "sub_batch (rn_subscriber R)"] by (simp add: runner_batch_def)

lemma ensure_checkpoint_cursor:
  assumes "ensure_checkpoint_tx w c db = Inr (q, db')"
  shows "q = cursor (trim_space w) (trim_space c) db" and "cursor w' c' db' = cursor w' c' db"
proof -
  note e = ensure_checkpoint_Inr [OF assms]
  show "q = cursor (trim_space w) (trim_space c) db" using e(4) by (auto simp: cursor_def)
  show "cursor w' c' db' = cursor w' c' db" using e(4) by (auto simp: cursor_def)
qed

lemma ensure_checkpoint_db:
  assumes "ensure_checkpoint_tx w c (db :: ('x, 'v, 'z) projection_db_scheme) = Inr (q, db')"
  shows "lease_rows db' = lease_rows db" and "derived db' = derived db"
  using assms by (auto simp: ensure_checkpoint_tx_def Let_def split: if_splits option.splits)

lemma advance_checkpoint_at_db:
  assumes "advance_checkpoint_at_tx w c p q (db :: ('x, 'v, 'z) projection_db_scheme) = Inr (u, db')"
  shows "lease_rows db' = lease_rows db" and "derived db' = derived db"
  using advance_checkpoint_at_Inr(2) [OF assms] by auto

lemma advance_checkpoint_at_cursor:
  assumes "advance_checkpoint_at_tx w c p q db = Inr (u, db')" and "p = cursor (trim_space w) (trim_space c) db"
  shows "cursor (trim_space w) (trim_space c) db' = q"
  using advance_checkpoint_at_Inr(2) [OF assms(1)] assms(2) by (auto simp: cursor_def)

lemma cursor_derived [simp]: "cursor w c (db\<lparr>derived := v\<rparr>) = cursor w c db"
  by (simp add: cursor_def)

lemma page_take:
  fixes xs :: "'a list"
  assumes "0 < n" and "ys = take (Suc n) xs"
  shows "(if len ys > int n then take n ys else ys) = take n xs"
    and "len ys > int n \<longleftrightarrow> drop n xs \<noteq> []"
  using assms by (auto simp: len_def min_def)

lemma run_batch_tx_spec:
  assumes run: "run_batch_tx E R clk l hook db = Inr (res, db')"
    and key: "lease_key l = sub_consumer (rn_subscriber R)"
  defines "w \<equiv> trim_space (lease_workspace l)" and "c \<equiv> runner_consumer R"
  defines "q \<equiv> cursor w c db"
  defines "es \<equiv> take (runner_batch R) (events_after w q db)"
  shows "apply_all (sub_apply (rn_subscriber R)) es (derived db) = Inr (derived db')"
    and "cursor w c db' = (if es = [] then q else ev_sequence (last es))"
    and "br_after res = cursor w c db'" and "br_events_read res = len es" and "br_before res = q"
    and "br_has_more res \<longleftrightarrow> drop (runner_batch R) (events_after w q db) \<noteq> []"
    and "control_events db' = control_events db" and "lease_rows db' = lease_rows db"
    and "\<exists>r. validate_consumer_lease_tx (clk 0) l (lease_rows db) = Inr r" and "hook res = None"
    and "es \<noteq> [] \<Longrightarrow> \<exists>r. validate_consumer_lease_tx (clk 1) l (lease_rows db) = Inr r"
    and "event_db_wf db \<Longrightarrow> event_db_wf db'"
proof -
  let ?sub = "rn_subscriber R" and ?n = "bounded_batch_size (sub_batch (rn_subscriber R))"
  have n: "nat (?n + 1) = Suc (runner_batch R)" "int (runner_batch R) = ?n" "0 < ?n + 1" "?n + 1 \<le> 5000"
    "nat ?n = runner_batch R"
    using bounded_batch_size_range [of "sub_batch ?sub"] by (simp_all add: runner_batch_def nat_add_distrib)
  from run obtain cur before db1 found applied duplicate v u where
    lease: "validate_consumer_lease_tx (clk 0) l (lease_rows db) = Inr cur"
    and ens: "ensure_checkpoint_tx w (sub_consumer ?sub) db = Inr (before, db1)"
    and found: "read_after_sequence E w before (?n + 1) db1 = Inr found"
    and app: "apply_batch (sub_apply ?sub) (if len found > ?n then take (nat ?n) found else found) 0 0 (derived db1)
      = Inr ((applied, duplicate), v)"
    and adv: "(if (if len found > ?n then take (nat ?n) found else found) \<noteq> []
      then advance_checkpoint_at_tx_with_lease (clk 1) l before
        (ev_sequence (last (if len found > ?n then take (nat ?n) found else found))) (db1\<lparr>derived := v\<rparr>)
      else Inr ((), db1\<lparr>derived := v\<rparr>)) = Inr (u, db')"
    and res: "br_events_read res = len (if len found > ?n then take (nat ?n) found else found)"
      "br_before res = before" "br_has_more res = (len found > ?n)" "hook res = None"
      "br_after res = (if (if len found > ?n then take (nat ?n) found else found) \<noteq> []
        then ev_sequence (last (if len found > ?n then take (nat ?n) found else found)) else before)"
    unfolding run_batch_tx_def Let_def w_def
    by (auto simp: results simp del: if_split split: option.splits)
      (fastforce split: if_splits)
  have w: "trim_space w = w" "w \<noteq> []" using lease by (auto simp: w_def results)
  have tk: "trim_space (sub_consumer ?sub) = c" by (simp add: c_def runner_consumer_def)
  have q: "before = q" using ensure_checkpoint_cursor(1) [OF ens] w tk by (simp add: q_def)
  have ev1: "control_events db1 = control_events db" using ensure_checkpoint_frame [OF ens] by simp
  have "found = take (Suc (runner_batch R)) (events_after w q db)"
    using found w n q by (simp add: read_after_sequence_events events_after_def workspace_events_cong [OF ev1])
  from page_take [OF runner_batch_pos this]
  have page: "(if len found > ?n then take (nat ?n) found else found) = es"
    and more: "len found > ?n \<longleftrightarrow> drop (runner_batch R) (events_after w q db) \<noteq> []"
    unfolding n(2,5) es_def by simp_all
  note ensd = ensure_checkpoint_db [OF ens] and ensc = ensure_checkpoint_cursor(2) [OF ens]
  show "apply_all (sub_apply ?sub) es (derived db) = Inr (derived db')"
    using apply_batch_all [OF app] adv ensd advance_checkpoint_at_db(2) unfolding page
    by (auto simp: advance_checkpoint_at_tx_with_lease_def results split: if_splits dest!: advance_checkpoint_at_db)
  have key': "trim_space (lease_key l) = c" using key tk by simp
  show cur: "cursor w c db' = (if es = [] then q else ev_sequence (last es))"
  proof (cases "es = []")
    case True
    then have "db' = db1\<lparr>derived := v\<rparr>" using adv unfolding page by simp
    then show ?thesis using True ensc by (simp add: q_def)
  next
    case False
    with adv obtain u' where a: "advance_checkpoint_at_tx (lease_workspace l) (lease_key l) before
        (ev_sequence (last es)) (db1\<lparr>derived := v\<rparr>) = Inr (u', db')"
      unfolding page by (auto simp: advance_checkpoint_at_tx_with_lease_def results)
    have "before = cursor w c (db1\<lparr>derived := v\<rparr>)" using q ensc by (simp add: q_def)
    with advance_checkpoint_at_cursor [OF a] key' False show ?thesis by (simp add: w_def)
  qed
  show "br_after res = cursor w c db'" using res(5) cur q unfolding page by simp
  show "br_events_read res = len es" "br_before res = q" "hook res = None"
    using res q unfolding page by simp_all
  show "br_has_more res \<longleftrightarrow> drop (runner_batch R) (events_after w q db) \<noteq> []" using res(3) more by simp
  show "\<exists>r. validate_consumer_lease_tx (clk 0) l (lease_rows db) = Inr r" using lease by blast
  have fr: "control_events db' = control_events db1 \<and> lease_rows db' = lease_rows db1"
    using adv by (auto simp: advance_checkpoint_at_tx_with_lease_def results split: if_splits
        dest: advance_checkpoint_at_frame advance_checkpoint_at_db)
  show "control_events db' = control_events db" "lease_rows db' = lease_rows db"
    using fr ev1 ensd by simp_all
  show "\<exists>r. validate_consumer_lease_tx (clk 1) l (lease_rows db) = Inr r" if "es \<noteq> []"
    using adv that ensd(1) unfolding page by (auto simp: advance_checkpoint_at_tx_with_lease_def results)
  show "event_db_wf db'" if wf: "event_db_wf db"
  proof -
    have "event_db_wf (db1\<lparr>derived := v\<rparr>)"
      using ensure_checkpoint_wf [OF ens wf] by (simp add: event_db_wf_def)
    then show ?thesis using adv advance_checkpoint_at_wf
      by (auto simp: advance_checkpoint_at_tx_with_lease_def results split: if_splits)
  qed
qed

section \<open>Batches and rebuilds replay the log\<close>

definition projected ::
    "(event \<Rightarrow> 'v \<Rightarrow> string + apply_result \<times> 'v) \<Rightarrow> (string \<Rightarrow> 'v \<Rightarrow> 'w) \<Rightarrow> 'w \<Rightarrow> string \<Rightarrow> string \<Rightarrow>
      ('x, 'v, 'z) projection_db_scheme \<Rightarrow> bool" where
  "projected f view blank w c db \<longleftrightarrow>
    replay_of f view blank w (events_upto w (cursor w c db) db) (view w (derived db))"

lemma events_cong:
  "control_events db' = control_events db \<Longrightarrow> events_upto w q db' = events_upto w q db"
  "control_events db' = control_events db \<Longrightarrow> events_after w q db' = events_after w q db"
  by (simp_all add: events_upto_def events_after_def workspace_events_def)

lemma events_upto_last:
  assumes "event_db_wf db" and "events_after w q db = []"
  shows "events_upto w q db = workspace_events w db"
  using sorted_split [OF workspace_events_sorted [OF assms(1), of w], of q] assms(2)
  by (simp add: events_upto_def events_after_def)

lemma workspace_events_pos:
  assumes "event_db_wf db" and "e \<in> set (workspace_events w db)"
  shows "0 < ev_sequence e"
proof -
  from assms(2) obtain r where "r \<in> set (control_events db)" "e = row_event r"
    by (auto simp: workspace_events_def)
  with assms(1) show ?thesis by (simp add: event_db_wf_def row_seq_def)
qed

lemma events_upto_0: "event_db_wf db \<Longrightarrow> events_upto w 0 db = []"
  using workspace_events_pos by (auto simp: events_upto_def filter_empty_conv not_le)

lemma events_after_0: "event_db_wf db \<Longrightarrow> events_after w 0 db = workspace_events w db"
  using workspace_events_pos by (auto simp: events_after_def filter_id_conv)

text \<open>The events still to be read after a batch.\<close>

lemma run_batch_tx_rest:
  assumes run: "run_batch_tx E R clk l hook db = Inr (res, db')"
    and key: "lease_key l = sub_consumer (rn_subscriber R)" and wf: "event_db_wf db"
  defines "w \<equiv> trim_space (lease_workspace l)" and "c \<equiv> runner_consumer R"
  shows "events_after w (cursor w c db') db' = drop (runner_batch R) (events_after w (cursor w c db) db)"
proof -
  note spec = run_batch_tx_spec [OF run key, folded w_def c_def]
  show ?thesis
  proof (cases "take (runner_batch R) (events_after w (cursor w c db) db) = []")
    case True
    then show ?thesis using spec(2) runner_batch_pos [of R] by (simp add: events_cong [OF spec(7)])
  next
    case False
    with events_after_page [OF wf False] spec(2) show ?thesis by (simp add: events_cong [OF spec(7)])
  qed
qed

context derived_view begin

lemma batch_projected:
  assumes run: "run_batch_tx E R clk l hook db = Inr (res, db')"
    and key: "lease_key l = sub_consumer (rn_subscriber R)"
    and app: "sub_apply (rn_subscriber R) = app" and wf: "event_db_wf db"
    and proj: "projected app view blank (trim_space (lease_workspace l)) (runner_consumer R) db"
  shows "projected app view blank (trim_space (lease_workspace l)) (runner_consumer R) db'"
proof -
  let ?w = "trim_space (lease_workspace l)" and ?c = "runner_consumer R"
  let ?es = "take (runner_batch R) (events_after ?w (cursor ?w ?c db) db)"
  note spec = run_batch_tx_spec [OF run key]
  have ws: "\<forall>e \<in> set ?es. event_workspace e = ?w"
    using page_ws by blast
  have "events_upto ?w (cursor ?w ?c db') db' = events_upto ?w (cursor ?w ?c db) db @ ?es"
    using spec(2) events_page [OF wf, of "runner_batch R" ?w "cursor ?w ?c db"]
    by (cases "?es = []") (simp_all add: events_cong [OF spec(7)])
  with replay_extend [OF proj [unfolded projected_def] spec(1) [unfolded app] ws] show ?thesis
    by (simp add: projected_def)
qed

lemma batch_frame:
  assumes run: "run_batch_tx E R clk l hook db = Inr (res, db')"
    and key: "lease_key l = sub_consumer (rn_subscriber R)"
    and app: "sub_apply (rn_subscriber R) = app" and w: "w \<noteq> trim_space (lease_workspace l)"
  shows "view w (derived db') = view w (derived db)"
proof (rule apply_all_frame [OF run_batch_tx_spec(1) [OF run key, unfolded app]])
  show "\<forall>e \<in> set (take (runner_batch R) (events_after (trim_space (lease_workspace l))
      (cursor (trim_space (lease_workspace l)) (runner_consumer R) db) db)).
      event_workspace e = trim_space (lease_workspace l)"
    using page_ws by blast
qed (use w in simp_all)

lemma loop_projected:
  assumes "rebuild_loop n E R clk l acc db = Some (Inr r, db')"
    and app: "sub_apply (rn_subscriber R) = app" and "event_db_wf db"
    and "projected app view blank (trim_space (lease_workspace l)) (runner_consumer R) db"
  defines "w \<equiv> trim_space (lease_workspace l)" and "c \<equiv> runner_consumer R"
  shows "projected app view blank w c db' \<and> event_db_wf db' \<and> control_events db' = control_events db \<and>
    events_after w (cursor w c db') db' = [] \<and> rb_checkpoint r = cursor w c db'"
  using assms(1,3,4)
proof (induction n arbitrary: acc db)
  case (Suc n)
  obtain b db1 where step: "run_batch_with_lease_hook E R (clk n) l (\<lambda>_. None) db = (Inr b, db1)"
    using Suc.prems(1) by (auto split: prod.splits sum.splits)
  then have key: "lease_key l = sub_consumer (rn_subscriber R)"
    and run: "run_batch_tx E R (clk n) l (\<lambda>_. None) db = Inr (b, db1)"
    by (auto simp: run_batch_with_lease_hook_def validate_runner_lease_def results split: sum.splits
        elim: in_tx_cases)
  note spec = run_batch_tx_spec [OF run key, folded w_def c_def]
  note rest = run_batch_tx_rest [OF run key Suc.prems(2), folded w_def c_def]
  have proj: "projected app view blank w c db1"
    using batch_projected [OF run key app Suc.prems(2,3)] by (simp add: w_def c_def)
  show ?case
  proof (cases "br_has_more b")
    case True
    then have "rebuild_loop n E R clk l (acc\<lparr>rb_batches := rb_batches acc + 1,
          rb_events_read := rb_events_read acc + br_events_read b,
          rb_events_applied := rb_events_applied acc + br_events_applied b,
          rb_events_duplicate := rb_events_duplicate acc + br_events_duplicate b,
          rb_checkpoint := br_after b\<rparr>) db1 = Some (Inr r, db')"
      using Suc.prems(1) step by simp
    from Suc.IH [OF this] proj spec(7,12) Suc.prems(2) show ?thesis by (simp add: w_def c_def)
  next
    case False
    then have "db' = db1" and "rb_checkpoint r = br_after b"
      using Suc.prems(1) step by auto
    with False proj spec(3,6,7,12) Suc.prems(2) rest show ?thesis by simp
  qed
qed simp

end

text \<open>The loop ends once the fuel exceeds the number of events left.\<close>

lemma rebuild_loop_total:
  assumes "event_db_wf db"
    and "length (events_after (trim_space (lease_workspace l))
      (cursor (trim_space (lease_workspace l)) (runner_consumer R) db) db) < n"
  shows "rebuild_loop n E R clk l acc db \<noteq> None"
  using assms
proof (induction n arbitrary: acc db)
  case (Suc n)
  let ?w = "trim_space (lease_workspace l)" and ?c = "runner_consumer R"
  show ?case
  proof (cases "run_batch_with_lease_hook E R (clk n) l (\<lambda>_. None) db")
    case (Pair r db1)
    show ?thesis
    proof (cases r)
      case (Inl e)
      with Pair show ?thesis by simp
    next
      case (Inr b)
      with Pair have key: "lease_key l = sub_consumer (rn_subscriber R)"
        and run: "run_batch_tx E R (clk n) l (\<lambda>_. None) db = Inr (b, db1)"
        by (auto simp: run_batch_with_lease_hook_def validate_runner_lease_def results split: sum.splits
            elim: in_tx_cases)
      note spec = run_batch_tx_spec [OF run key]
      have "rebuild_loop n E R clk l acc1 db1 \<noteq> None" if "br_has_more b" for acc1
      proof (rule Suc.IH)
        show "event_db_wf db1" using spec(12) Suc.prems(1) .
        show "length (events_after ?w (cursor ?w ?c db1) db1) < n"
          using Suc.prems(2) that spec(6) runner_batch_pos [of R]
          by (auto simp: run_batch_tx_rest [OF run key Suc.prems(1)])
      qed
      with Pair Inr show ?thesis by (simp add: Let_def)
    qed
  qed
qed simp

lemma reset_tx_spec:
  assumes "reset_tx R now l w db = Inr (u, db')"
  shows "sub_reset (rn_subscriber R) w (derived db) = Inr (derived db')"
    and "cursor (trim_space w) (runner_consumer R) db' = 0"
    and "control_events db' = control_events db" and "lease_rows db' = lease_rows db"
    and "event_db_wf db \<Longrightarrow> event_db_wf db'"
proof -
  let ?c = "sub_consumer (rn_subscriber R)"
  from assms obtain q db1 v where e: "ensure_checkpoint_tx w ?c db = Inr (q, db1)"
    and v: "sub_reset (rn_subscriber R) w (derived db1) = Inr v"
    and r: "reset_checkpoint_tx w ?c (db1\<lparr>derived := v\<rparr>) = Inr (u, db')"
    by (auto simp: reset_tx_def Let_def results)
  from r obtain q2 db2 where e2: "ensure_checkpoint_tx w ?c (db1\<lparr>derived := v\<rparr>) = Inr (q2, db2)"
    and db': "db' = db2\<lparr>control_checkpoints :=
      (control_checkpoints db2)((trim_space w, trim_space ?c) \<mapsto> 0)\<rparr>"
    unfolding reset_checkpoint_tx_def
    by (auto simp: results update_where_def ensure_checkpoint_Inr(1))
  show "sub_reset (rn_subscriber R) w (derived db) = Inr (derived db')"
    using v ensure_checkpoint_db [OF e] ensure_checkpoint_db [OF e2] db' by simp
  show "cursor (trim_space w) (runner_consumer R) db' = 0"
    by (simp add: db' cursor_def runner_consumer_def)
  show "control_events db' = control_events db" "lease_rows db' = lease_rows db"
    using ensure_checkpoint_frame [OF e] ensure_checkpoint_frame [OF e2]
      ensure_checkpoint_db [OF e] ensure_checkpoint_db [OF e2] db' by simp_all
  show "event_db_wf db'" if "event_db_wf db"
  proof -
    have "event_db_wf (db1\<lparr>derived := v\<rparr>)"
      using ensure_checkpoint_wf [OF e that] by (simp add: event_db_wf_def)
    with r reset_checkpoint_wf show ?thesis by blast
  qed
qed

lemma acquire_runner_lease_spec:
  assumes "acquire_runner_lease R clk w db = (Inr a, db1)"
  shows "control_events db1 = control_events db" and "derived db1 = derived db"
    and "control_checkpoints db1 = control_checkpoints db" and "idempotency_records db1 = idempotency_records db"
    and "acquire_consumer_lease clk w (sub_consumer (rn_subscriber R)) (rn_owner R) (rn_ttl R) (lease_rows db)
      = (Inr a, lease_rows db1)"
  using assms by (auto simp: acquire_runner_lease_def results split: prod.splits)

lemma acquire_lease_keys:
  assumes "acquire_consumer_lease clk w c own ttl s = (Inr r, t)" and "consumer_table_wf s"
  shows "lease_workspace (clr_lease r) = trim_space w" and "lease_key (clr_lease r) = trim_space c"
proof -
  have "acquire_consumer_lease_tx clk w c own ttl s = Inr (r, t)"
    using assms(1) by (auto simp: acquire_consumer_lease_def elim: in_tx_cases)
  then have "lease_workspace (clr_lease r) = trim_space w \<and> lease_key (clr_lease r) = trim_space c"
    by (cases rule: acquire_consumer_Inr)
      (use assms(2) in \<open>auto simp: consumer_takeover_def consumer_grant_def dest: consumer_table_wfD [rotated]\<close>)
  then show "lease_workspace (clr_lease r) = trim_space w" and "lease_key (clr_lease r) = trim_space c"
    by simp_all
qed

context derived_view begin

lemma rebuild_replays:
  assumes run: "rebuild n E R clk clks w0 db = Some (Inr r, db')"
    and sub: "sub_apply (rn_subscriber R) = app" "sub_reset (rn_subscriber R) = rst"
    and wf: "event_db_wf db" "consumer_table_wf (lease_rows db)"
  defines "w \<equiv> trim_space w0"
  shows "replay_of app view blank w (workspace_events w db) (view w (derived db')) \<and>
    control_events db' = control_events db \<and> rb_checkpoint r = cursor w (runner_consumer R) db' \<and>
    events_after w (rb_checkpoint r) db' = []"
proof -
  from run obtain a db1 db2 acc where acq: "acquire_runner_lease R clk w db = (Inr a, db1)"
    and reset: "in_tx (reset_tx R (clk 4) (clr_lease a) w) db1 = (Inr (), db2)"
    and loop: "rebuild_loop n E R clks (clr_lease a) acc db2 = Some (Inr r, db')"
    by (auto simp: rebuild_def Let_def w_def split: if_splits prod.splits sum.splits)
  note acq' = acquire_runner_lease_spec [OF acq]
  have tw: "trim_space (lease_workspace (clr_lease a)) = w"
    using acquire_lease_keys(1) [OF acq'(5) wf(2)] by (simp add: w_def)
  have "event_db_wf db1" using wf(1) acq' by (simp add: event_db_wf_def)
  from reset have reset': "reset_tx R (clk 4) (clr_lease a) w db1 = Inr ((), db2)"
    by (auto elim: in_tx_cases)
  note spec = reset_tx_spec [OF this, unfolded sub]
  have wf2: "event_db_wf db2" using spec(5) \<open>event_db_wf db1\<close> .
  have tww: "trim_space w = w" by (simp add: w_def)
  have "view w (derived db2) = blank" using rst_blank [OF spec(1)] tww by simp
  then have "projected app view blank w (runner_consumer R) db2"
    using spec(2) replay_Nil [of w] tww by (simp add: projected_def events_upto_0 [OF wf2])
  from loop_projected [OF loop sub(1) wf2] this
  have l: "projected app view blank w (runner_consumer R) db'" "event_db_wf db'"
    "control_events db' = control_events db2" "events_after w (cursor w (runner_consumer R) db') db' = []"
    "rb_checkpoint r = cursor w (runner_consumer R) db'"
    by (simp_all add: tw)
  have ev: "control_events db' = control_events db" using l(3) spec(3) acq'(1) by simp
  from l(1) show ?thesis
    using l(2,4,5) ev by (simp add: projected_def events_upto_last workspace_events_cong [OF ev])
qed

end

lemma rebuild_total:
  assumes "event_db_wf db" and "consumer_table_wf (lease_rows db)"
    and "length (workspace_events (trim_space w) db) < n"
  shows "rebuild n E R clk clks w db \<noteq> None"
proof (cases "trim_space w = []")
  case False
  let ?w = "trim_space w"
  show ?thesis
  proof (cases "acquire_runner_lease R clk ?w db")
    case (Pair r db1)
    show ?thesis
    proof (cases r)
      case (Inl e)
      with Pair False show ?thesis by (simp add: rebuild_def Let_def)
    next
      case (Inr a)
      note acq = acquire_runner_lease_spec [OF Pair [unfolded Inr]]
      have tw: "trim_space (lease_workspace (clr_lease a)) = ?w"
        using acquire_lease_keys(1) [OF acq(5) assms(2)] by simp
      have wf1: "event_db_wf db1" using assms(1) acq by (simp add: event_db_wf_def)
      show ?thesis
      proof (cases "in_tx (reset_tx R (clk 4) (clr_lease a) ?w) db1")
        case (Pair u db2)
        show ?thesis
        proof (cases u)
          case (Inl e)
          with Pair \<open>acquire_runner_lease R clk ?w db = (r, db1)\<close> \<open>r = Inr a\<close> False
          show ?thesis by (simp add: rebuild_def Let_def)
        next
          case (Inr v)
          with Pair have reset: "reset_tx R (clk 4) (clr_lease a) ?w db1 = Inr (v, db2)"
            by (auto elim: in_tx_cases)
          note spec = reset_tx_spec [OF reset]
          have wf2: "event_db_wf db2" using spec(5) wf1 .
          have "events_after ?w 0 db2 = workspace_events ?w db"
            using events_after_0 [OF wf2] spec(3) acq(1) by (simp add: workspace_events_def)
          with assms(3) spec(2) tw have "rebuild_loop n E R clks (clr_lease a) acc db2 \<noteq> None" for acc
            by (intro rebuild_loop_total [OF wf2]) simp
          with Pair Inr \<open>acquire_runner_lease R clk ?w db = (r, db1)\<close> \<open>r = Inr a\<close> False
          show ?thesis by (simp add: rebuild_def Let_def)
        qed
      qed
    qed
  qed
qed (simp add: rebuild_def Let_def)

end
