(* ===== verification/Task_Projection.thy ===== *)
theory Task_Projection
  imports Projection
begin

text \<open>
  \<open>internal/projection/task.go\<close>: the derived task view.

  The table \<open>task_state_projections\<close> is a map from (workspace, task).  \<open>digest\<close> stands for
  SHA-256 of the marshalled hash input and \<open>marshal\<close> for the canonical JSON of a value that is
  neither null nor a string; both are arguments.  \<open>task_projection\<close> is the subscriber built from
  these operations, and the interpretation at the end shows that it keeps the contract
  \<open>derived_view\<close> of the runner.
\<close>

section \<open>State\<close>

record task_state =
  ts_workspace :: string
  ts_task :: string
  ts_status :: string
  ts_result :: string
  ts_session :: string
  ts_last_event :: string
  ts_last_sequence :: int
  ts_count :: int
  ts_hash :: string

type_synonym task_view = "string \<times> string \<Rightarrow> task_state option"
type_synonym state_digest = "string \<Rightarrow> string \<Rightarrow> string \<Rightarrow> string \<Rightarrow> string"

definition task_state_hash :: "state_digest \<Rightarrow> task_state \<Rightarrow> string" where
  "task_state_hash digest s = digest (ts_task s) (ts_status s) (ts_result s) (ts_session s)"

definition task_event_status :: "string \<Rightarrow> string option" where
  "task_event_status t0 =
    (let t = trim_space t0 in
      if t = ''task.created'' then Some ''pending''
      else if t = ''task.claimed'' then Some ''claimed''
      else if t = ''task.retry_scheduled'' then Some ''pending''
      else if t = ''task.completed'' then Some ''done''
      else if t = ''task.failed'' then Some ''failed''
      else if t = ''task.deadlettered'' then Some ''deadletter''
      else if t = ''task.cancelled'' then Some ''cancelled''
      else if t = ''task.progressed'' then Some ''in_progress''
      else None)"

definition read_task_state ::
    "state_digest \<Rightarrow> string \<Rightarrow> string \<Rightarrow> task_view \<Rightarrow> string + task_state option" where
  "read_task_state digest workspace task v =
    (case v (workspace, task) of
      None \<Rightarrow> Inr None
    | Some row \<Rightarrow>
        if ts_last_sequence row \<le> 0 \<or> ts_count row \<le> 0
        then Inl ''task projection contains invalid counters''
        else
          let s = row\<lparr>ts_workspace := workspace, ts_task := task\<rparr> in
          if ts_hash s \<noteq> task_state_hash digest s then Inl ''task projection state hash mismatch''
          else Inr (Some s))"

section \<open>The deltas of an event\<close>

record task_delta =
  td_status :: string
  td_result :: string
  td_result_present :: bool
  td_session :: string
  td_session_present :: bool

definition decode_task_result :: "(string \<Rightarrow> string) \<Rightarrow> string \<Rightarrow> string + string" where
  "decode_task_result marshal raw =
    (if raw = [] \<or> \<not> json_valid raw then Inl ''task result delta must be valid JSON''
     else case json_top raw of
       JsonNull \<Rightarrow> Inr []
     | JsonString s \<Rightarrow> Inr s
     | JsonOther \<Rightarrow> Inr (marshal raw))"

definition task_path :: "string \<Rightarrow> string \<Rightarrow> string" where
  "task_path task leaf = ''/tasks/'' @ task @ ''/'' @ leaf"

fun task_delta_loop ::
    "(string \<Rightarrow> string) \<Rightarrow> string \<Rightarrow> string \<Rightarrow> state_delta list \<Rightarrow> bool \<Rightarrow> task_delta \<Rightarrow>
      string + bool \<times> task_delta" where
  "task_delta_loop marshal expected task [] found acc = Inr (found, acc)"
| "task_delta_loop marshal expected task (d # ds) found acc =
    (let path = sd_path d; next_delta = task_delta_loop marshal expected task ds in
    if path \<noteq> task_path task ''status'' \<and> path \<noteq> task_path task ''result'' \<and>
       path \<noteq> task_path task ''assigned_session''
    then next_delta found acc
    else if sd_op d \<noteq> ''set'' then Inl ''task projection only accepts set deltas''
    else if path = task_path task ''status'' then
      (case json_unmarshal_string (sd_value d) of
        None \<Rightarrow> Inl ''task status delta must be a JSON string''
      | Some raw \<Rightarrow>
          let status = trim_space raw in
          if status = [] then Inl ''task status delta must be a JSON string''
          else if status \<noteq> expected then Inl ''task status delta does not match event type status''
          else if found \<and> td_status acc \<noteq> status
          then Inl ''task event contains conflicting status deltas''
          else next_delta True (acc\<lparr>td_status := status\<rparr>))
    else if path = task_path task ''assigned_session'' then
      bindE (decode_task_result marshal (sd_value d)) (\<lambda>x.
      next_delta found (acc\<lparr>td_session := x, td_session_present := True\<rparr>))
    else
      bindE (decode_task_result marshal (sd_value d)) (\<lambda>x.
      next_delta found (acc\<lparr>td_result := x, td_result_present := True\<rparr>)))"

definition task_delta_state ::
    "(string \<Rightarrow> string) \<Rightarrow> event \<Rightarrow> string \<Rightarrow> string \<Rightarrow> string + task_delta" where
  "task_delta_state marshal e expected task =
    bindE (task_delta_loop marshal expected task (ev_deltas e) False
      \<lparr>td_status = [], td_result = [], td_result_present = False, td_session = [],
       td_session_present = False\<rparr>) (\<lambda>(found, acc).
    if \<not> found then Inl ''event requires a task status delta'' else Inr acc)"

section \<open>Apply and reset\<close>

text \<open>The session a state carries after an event: the delta, else the reference, else unchanged.\<close>

definition next_session ::
    "string \<Rightarrow> event \<Rightarrow> task_delta \<Rightarrow> string \<Rightarrow> string + string" where
  "next_session workspace e d current =
    (if td_session_present d then Inr (td_session d)
     else case ev_session e of
       None \<Rightarrow> Inr current
     | Some r \<Rightarrow>
         if er_kind r \<noteq> [] \<and> er_kind r \<noteq> ''session''
         then Inl ''task projection session reference kind must be session''
         else if er_workspace r \<noteq> [] \<and> trim_space (er_workspace r) \<noteq> workspace
         then Inl ''session reference workspace does not match event workspace''
         else Inr (trim_space (er_id r)))"

definition handled_only :: apply_result where
  "handled_only = \<lparr>ap_handled = True, ap_applied = False, ap_duplicate = False\<rparr>"

definition not_handled :: apply_result where
  "not_handled = \<lparr>ap_handled = False, ap_applied = False, ap_duplicate = False\<rparr>"

definition task_apply ::
    "state_digest \<Rightarrow> (string \<Rightarrow> string) \<Rightarrow> event \<Rightarrow> task_view \<Rightarrow> string + apply_result \<times> task_view" where
  "task_apply digest marshal e v =
    (if ev_type e = ''task.lease_renewed'' then Inr (handled_only, v)
     else case task_event_status (ev_type e) of
       None \<Rightarrow> Inr (not_handled, v)
     | Some status \<Rightarrow>
    if ev_sequence e = 0 then Inl ''task projection event sequence is required''
    else if trim_space (sc_workspace (ev_scope e)) = []
    then Inl ''task projection event workspace_id is required''
    else case ev_task e of
      None \<Rightarrow> Inl ''event requires a task reference''
    | Some ref \<Rightarrow>
    if trim_space (er_id ref) = [] then Inl ''event requires a task reference''
    else if er_kind ref \<noteq> [] \<and> er_kind ref \<noteq> ''task''
    then Inl ''task projection task reference kind must be task''
    else
      let workspace = trim_space (sc_workspace (ev_scope e)); task = trim_space (er_id ref) in
      if er_workspace ref \<noteq> [] \<and> trim_space (er_workspace ref) \<noteq> workspace
      then Inl ''task reference workspace does not match event workspace''
      else bindE (read_task_state digest workspace task v) (\<lambda>current.
      if (case current of None \<Rightarrow> False | Some s \<Rightarrow> ts_last_sequence s \<ge> ev_sequence e)
      then Inr (\<lparr>ap_handled = True, ap_applied = False, ap_duplicate = True\<rparr>, v)
      else bindE (task_delta_state marshal e status task) (\<lambda>d.
      let base = (case current of
          None \<Rightarrow> \<lparr>ts_workspace = workspace, ts_task = task, ts_status = td_status d,
            ts_result = td_result d, ts_session = [], ts_last_event = [], ts_last_sequence = 0,
            ts_count = 0, ts_hash = []\<rparr>
        | Some s \<Rightarrow> s\<lparr>ts_status := td_status d,
            ts_result := (if td_result_present d then td_result d else ts_result s)\<rparr>) in
      bindE (next_session workspace e d (ts_session base)) (\<lambda>session.
      let s1 = base\<lparr>ts_session := session, ts_last_event := ev_id e, ts_last_sequence := ev_sequence e,
            ts_count := (case current of None \<Rightarrow> 1 | Some s \<Rightarrow> ts_count s + 1)\<rparr>;
          s2 = s1\<lparr>ts_hash := task_state_hash digest s1\<rparr>
      in Inr (\<lparr>ap_handled = True, ap_applied = True, ap_duplicate = False\<rparr>,
              v((workspace, task) \<mapsto> s2))))))"

definition task_reset :: "string \<Rightarrow> task_view \<Rightarrow> string + task_view" where
  "task_reset workspace0 v =
    (let workspace = trim_space workspace0 in
      if workspace = [] then Inl ''workspace_id is required''
      else Inr (\<lambda>(w, t). if w = workspace then None else v (w, t)))"

definition default_task_consumer_id :: string where
  "default_task_consumer_id = ''projection.task_state.v1''"

definition task_projection ::
    "state_digest \<Rightarrow> (string \<Rightarrow> string) \<Rightarrow> string \<Rightarrow> int \<Rightarrow> task_view subscriber" where
  "task_projection digest marshal consumer batch =
    \<lparr>sub_name = ''task-state-v1'',
     sub_consumer = (if trim_space consumer = [] then default_task_consumer_id else trim_space consumer),
     sub_batch = bounded_batch_size batch, sub_apply = task_apply digest marshal, sub_reset = task_reset\<rparr>"

definition read_task_state_tx ::
    "state_digest \<Rightarrow> string \<Rightarrow> string \<Rightarrow> task_view \<Rightarrow> string + task_state option" where
  "read_task_state_tx digest workspace0 task0 v =
    (let workspace = trim_space workspace0; task = trim_space task0 in
      if workspace = [] \<or> task = [] then Inl ''workspace_id and task_id are required''
      else read_task_state digest workspace task v)"

section \<open>How an event is applied\<close>

definition task_view_of :: "string \<Rightarrow> task_view \<Rightarrow> string \<Rightarrow> task_state option" where
  "task_view_of w v = (\<lambda>t. v (w, t))"

lemma read_task_state_cong:
  "v (w, t) = v' (w, t) \<Longrightarrow> read_task_state digest w t v = read_task_state digest w t v'"
  by (simp add: read_task_state_def)

text \<open>The part of \<open>task_apply\<close> after its guards: it depends on one row and writes one row.\<close>

definition task_write ::
    "state_digest \<Rightarrow> (string \<Rightarrow> string) \<Rightarrow> event \<Rightarrow> string \<Rightarrow> string \<Rightarrow> string \<Rightarrow>
      task_state option \<Rightarrow> string + apply_result \<times> task_state option" where
  "task_write digest marshal e status workspace task current =
    (if (case current of None \<Rightarrow> False | Some s \<Rightarrow> ts_last_sequence s \<ge> ev_sequence e)
     then Inr (\<lparr>ap_handled = True, ap_applied = False, ap_duplicate = True\<rparr>, None)
     else bindE (task_delta_state marshal e status task) (\<lambda>d.
      let base = (case current of
          None \<Rightarrow> \<lparr>ts_workspace = workspace, ts_task = task, ts_status = td_status d,
            ts_result = td_result d, ts_session = [], ts_last_event = [], ts_last_sequence = 0,
            ts_count = 0, ts_hash = []\<rparr>
        | Some s \<Rightarrow> s\<lparr>ts_status := td_status d,
            ts_result := (if td_result_present d then td_result d else ts_result s)\<rparr>) in
      bindE (next_session workspace e d (ts_session base)) (\<lambda>session.
      let s1 = base\<lparr>ts_session := session, ts_last_event := ev_id e, ts_last_sequence := ev_sequence e,
            ts_count := (case current of None \<Rightarrow> 1 | Some s \<Rightarrow> ts_count s + 1)\<rparr>
      in Inr (\<lparr>ap_handled = True, ap_applied = True, ap_duplicate = False\<rparr>,
              Some (s1\<lparr>ts_hash := task_state_hash digest s1\<rparr>)))))"

definition task_event_ok :: "event \<Rightarrow> string + (string \<times> string \<times> string)" where
  "task_event_ok e =
    (case task_event_status (ev_type e) of None \<Rightarrow> Inl [] | Some status \<Rightarrow>
     case ev_task e of None \<Rightarrow> Inl ''event requires a task reference'' | Some ref \<Rightarrow>
     Inr (status, trim_space (sc_workspace (ev_scope e)), trim_space (er_id ref)))"

lemma task_apply_cases:
  assumes "task_apply digest marshal e v = Inr (r, v')"
  obtains (ignored) "v' = v" and "\<And>u. task_apply digest marshal e u = Inr (r, u)"
      and "task_event_status (ev_type e) = None \<or> ev_type e = ''task.lease_renewed''"
  | (written) status w t current out where "w = trim_space (sc_workspace (ev_scope e))" and "t \<noteq> []"
      and "task_event_status (ev_type e) = Some status" and "ev_sequence e \<noteq> 0" and "w \<noteq> []"
      and "read_task_state digest w t v = Inr current"
      and "task_write digest marshal e status w t current = Inr (r, out)"
      and "v' = (case out of None \<Rightarrow> v | Some s \<Rightarrow> v((w, t) \<mapsto> s))"
      and "\<And>u. task_apply digest marshal e u = bindE (read_task_state digest w t u) (\<lambda>c.
        bindE (task_write digest marshal e status w t c) (\<lambda>(r, out).
        Inr (r, case out of None \<Rightarrow> u | Some s \<Rightarrow> u((w, t) \<mapsto> s))))"
      and "\<exists>ref. ev_task e = Some ref \<and> t = trim_space (er_id ref)"
proof (cases "ev_type e = ''task.lease_renewed'' \<or> task_event_status (ev_type e) = None")
  case True
  have "task_apply digest marshal e u = Inr (if ev_type e = ''task.lease_renewed'' then handled_only else not_handled, u)" for u
    using True by (auto simp: task_apply_def)
  with assms True ignored show ?thesis by auto
next
  case False
  then obtain status where st: "task_event_status (ev_type e) = Some status" by blast
  with assms False obtain ref where ref: "ev_task e = Some ref"
    by (auto simp: task_apply_def split: if_splits option.splits)
  let ?w = "trim_space (sc_workspace (ev_scope e))" and ?t = "trim_space (er_id ref)"
  have guards: "ev_sequence e \<noteq> 0" "?w \<noteq> []" "?t \<noteq> []" "er_kind ref = [] \<or> er_kind ref = ''task''"
    "er_workspace ref = [] \<or> trim_space (er_workspace ref) = ?w"
    using assms False st ref by (auto simp: task_apply_def Let_def split: if_splits)
  have all: "task_apply digest marshal e u = bindE (read_task_state digest ?w ?t u) (\<lambda>c.
      bindE (task_write digest marshal e status ?w ?t c) (\<lambda>(r, out).
      Inr (r, case out of None \<Rightarrow> u | Some s \<Rightarrow> u((?w, ?t) \<mapsto> s))))" for u
    using False st ref guards
    by (auto simp: task_apply_def task_write_def Let_def bindE_def split: sum.splits option.splits if_splits)
  from assms all [of v] obtain current out where
    "read_task_state digest ?w ?t v = Inr current"
    "task_write digest marshal e status ?w ?t current = Inr (r, out)"
    "v' = (case out of None \<Rightarrow> v | Some s \<Rightarrow> v((?w, ?t) \<mapsto> s))"
    by (auto simp: results)
  with all guards st ref show ?thesis by (intro written) auto
qed

lemma task_apply_local:
  assumes "task_apply digest marshal e s = Inr (r, s')"
    and tw: "trim_space (event_workspace e) = event_workspace e"
    and eq: "task_view_of (event_workspace e) s = task_view_of (event_workspace e) t"
  shows "\<exists>t'. task_apply digest marshal e t = Inr (r, t') \<and>
    task_view_of (event_workspace e) t' = task_view_of (event_workspace e) s'"
  using assms(1)
proof (cases rule: task_apply_cases)
  case ignored
  with eq show ?thesis by auto
next
  case (written status w k current out)
  then have w: "w = event_workspace e" using tw by (simp add: event_workspace_def)
  have "s (w, k) = t (w, k)" using eq w by (metis task_view_of_def)
  then have "read_task_state digest w k t = Inr current"
    using written(6) by (metis read_task_state_cong)
  with written(7) written(9) [of t]
  have "task_apply digest marshal e t = Inr (r, case out of None \<Rightarrow> t | Some x \<Rightarrow> t((w, k) \<mapsto> x))"
    by simp
  moreover have "task_view_of w (case out of None \<Rightarrow> t | Some x \<Rightarrow> t((w, k) \<mapsto> x)) = task_view_of w s'"
    using eq w written(8) by (auto simp: task_view_of_def fun_eq_iff split: option.splits)
  ultimately show ?thesis using w by blast
qed

lemma task_apply_frame:
  assumes "task_apply digest marshal e s = Inr (r, s')"
    and "trim_space (event_workspace e) = event_workspace e" and "w \<noteq> event_workspace e"
  shows "task_view_of w s' = task_view_of w s"
  using assms(1)
proof (cases rule: task_apply_cases)
  case (written status w' k current out)
  with assms(2,3) show ?thesis
    by (auto simp: task_view_of_def event_workspace_def split: option.splits)
qed simp

interpretation task_proj: derived_view "task_apply digest marshal" task_reset task_view_of "\<lambda>_. None"
  for digest marshal
proof unfold_locales
  fix e s r s' t
  assume "task_apply digest marshal e s = Inr (r, s')" "trim_space (event_workspace e) = event_workspace e"
    "task_view_of (event_workspace e) s = task_view_of (event_workspace e) t"
  then show "\<exists>t'. task_apply digest marshal e t = Inr (r, t') \<and>
      task_view_of (event_workspace e) t' = task_view_of (event_workspace e) s'"
    by (rule task_apply_local)
next
  fix e s r s' w
  assume "task_apply digest marshal e s = Inr (r, s')" "trim_space (event_workspace e) = event_workspace e"
    "w \<noteq> event_workspace e"
  then show "task_view_of w s' = task_view_of w s" by (rule task_apply_frame)
next
  fix w s s'
  assume "task_reset w s = Inr s'"
  then show "task_view_of (trim_space w) s' = (\<lambda>_. None)"
    by (auto simp: task_reset_def Let_def task_view_of_def split: if_splits)
next
  fix w s s' w'
  assume "task_reset w s = Inr s'" "w' \<noteq> trim_space w"
  then show "task_view_of w' s' = task_view_of w' s"
    by (auto simp: task_reset_def Let_def task_view_of_def split: if_splits)
qed

section \<open>Well-formed rows\<close>

definition task_statuses :: "string list" where
  "task_statuses =
    [''pending'', ''claimed'', ''in_progress'', ''done'', ''failed'', ''deadletter'', ''cancelled'']"

definition task_row_ok :: "state_digest \<Rightarrow> string \<times> string \<Rightarrow> task_state \<Rightarrow> bool" where
  "task_row_ok digest k s \<longleftrightarrow>
    (ts_workspace s, ts_task s) = k \<and> 0 < ts_last_sequence s \<and> 0 < ts_count s \<and>
    ts_hash s = task_state_hash digest s \<and>
    ts_status s \<in> set task_statuses"

definition task_view_wf :: "state_digest \<Rightarrow> task_view \<Rightarrow> bool" where
  "task_view_wf digest v \<longleftrightarrow> (\<forall>k s. v k = Some s \<longrightarrow> task_row_ok digest k s)"

lemma read_task_state_wf:
  assumes "task_view_wf digest v"
  shows "read_task_state digest w t v = Inr (v (w, t))"
proof (cases "v (w, t)")
  case (Some s)
  with assms have "task_row_ok digest (w, t) s" by (auto simp: task_view_wf_def)
  then have "s\<lparr>ts_workspace := w, ts_task := t\<rparr> = s"
    by (cases s) (auto simp add: task_row_ok_def simp del: split_paired_All)
  with Some \<open>task_row_ok digest (w, t) s\<close> show ?thesis
    by (simp add: read_task_state_def task_row_ok_def task_state_hash_def Let_def)
qed (simp add: read_task_state_def)

lemma task_event_status_known:
  "task_event_status t = Some s \<Longrightarrow>
    s \<in> set task_statuses"
  by (auto simp: task_event_status_def task_statuses_def Let_def split: if_splits)

lemma task_delta_loop_status:
  "task_delta_loop marshal st task ds f acc = Inr (f', d) \<Longrightarrow> f \<longrightarrow> td_status acc = st \<Longrightarrow>
    f' \<longrightarrow> td_status d = st"
  by (induction marshal st task ds f acc rule: task_delta_loop.induct)
    (auto simp: Let_def results split: if_splits option.splits)

lemma task_delta_state_status: "task_delta_state marshal e st task = Inr d \<Longrightarrow> td_status d = st"
  using task_delta_loop_status by (fastforce simp: task_delta_state_def results split: if_splits)

lemma task_write_Some:
  assumes "task_write digest marshal e st w t current = Inr (r, Some s)"
  shows "ts_status s = st" and "ts_last_sequence s = ev_sequence e" and "ts_last_event s = ev_id e"
    and "ts_hash s = task_state_hash digest s"
    and "ts_count s = (case current of None \<Rightarrow> 1 | Some c \<Rightarrow> ts_count c + 1)"
    and "(ts_workspace s, ts_task s) = (case current of None \<Rightarrow> (w, t) | Some c \<Rightarrow> (ts_workspace c, ts_task c))"
    and "\<forall>c. current = Some c \<longrightarrow> ts_last_sequence c < ev_sequence e"
  using assms task_delta_state_status
  by (auto simp: task_write_def Let_def results task_state_hash_def split: if_splits option.splits)

lemma task_apply_wf:
  assumes "task_apply digest marshal e v = Inr (r, v')" and wf: "task_view_wf digest v"
    and "0 \<le> ev_sequence e"
  shows "task_view_wf digest v'"
  using assms(1)
proof (cases rule: task_apply_cases)
  case ignored
  with wf show ?thesis by simp
next
  case (written status w t current out)
  have cur: "current = v (w, t)" using written(6) read_task_state_wf [OF wf] by simp
  show ?thesis
  proof (cases out)
    case None
    with written(8) wf show ?thesis by simp
  next
    case (Some s)
    note s = task_write_Some [OF written(7) [unfolded Some]]
    have "task_row_ok digest (w, t) s"
    proof (cases "v (w, t)")
      case None
      with s cur assms(3) written(4) task_event_status_known [OF written(3)] show ?thesis
        by (simp add: task_row_ok_def)
    next
      case (Some c)
      then have "task_row_ok digest (w, t) c" using wf by (auto simp: task_view_wf_def)
      with Some s cur assms(3) written(4) task_event_status_known [OF written(3)] show ?thesis
        by (simp add: task_row_ok_def)
    qed
    with Some written(8) wf show ?thesis by (auto simp: task_view_wf_def)
  qed
qed

section \<open>Properties\<close>

definition task_projected ::
    "state_digest \<Rightarrow> (string \<Rightarrow> string) \<Rightarrow> string \<Rightarrow> string \<Rightarrow> ('x, task_view, 'z) projection_db_scheme \<Rightarrow> bool" where
  "task_projected digest marshal w c db =
    projected (task_apply digest marshal) task_view_of (\<lambda>_. None) w c db"

definition task_runner ::
    "state_digest \<Rightarrow> (string \<Rightarrow> string) \<Rightarrow> string \<Rightarrow> int \<Rightarrow> string \<Rightarrow> duration \<Rightarrow> task_view runner" where
  "task_runner digest marshal consumer batch owner ttl =
    \<lparr>rn_subscriber = task_projection digest marshal consumer batch, rn_owner = owner, rn_ttl = ttl\<rparr>"

lemma task_runner_simps [simp]:
  "sub_apply (rn_subscriber (task_runner digest marshal c b own ttl)) = task_apply digest marshal"
  "sub_reset (rn_subscriber (task_runner digest marshal c b own ttl)) = task_reset"
  by (simp_all add: task_runner_def task_projection_def)

lemma run_batch_with_lease_hook_Inr:
  assumes "run_batch_with_lease_hook E R clk l hook db = (Inr res, db')"
  shows "run_batch_tx E R clk l hook db = Inr (res, db')"
    and "lease_key l = sub_consumer (rn_subscriber R)"
  using assms by (auto simp: run_batch_with_lease_hook_def validate_runner_lease_def results
      split: sum.splits elim: in_tx_cases)

lemma run_batch_with_lease_hook_Inl:
  "run_batch_with_lease_hook E R clk l hook db = (Inl e, db') \<Longrightarrow> db' = db"
  by (auto simp: run_batch_with_lease_hook_def split: sum.splits elim: in_tx_cases)

lemma task_batch_projected:
  assumes "run_batch_with_lease_hook E (task_runner digest marshal c b own ttl) clk l hook db = (r, db')"
    and "event_db_wf db"
    and "task_projected digest marshal (trim_space (lease_workspace l))
      (runner_consumer (task_runner digest marshal c b own ttl)) db"
  shows "task_projected digest marshal (trim_space (lease_workspace l))
      (runner_consumer (task_runner digest marshal c b own ttl)) db'"
    and "event_db_wf db'" and "control_events db' = control_events db" and "r = Inl e \<Longrightarrow> db' = db"
proof -
  have "task_projected digest marshal (trim_space (lease_workspace l))
      (runner_consumer (task_runner digest marshal c b own ttl)) db' \<and> event_db_wf db' \<and>
    control_events db' = control_events db \<and> (\<forall>e. r = Inl e \<longrightarrow> db' = db)"
  proof (cases r)
    case (Inl e)
    then show ?thesis using assms run_batch_with_lease_hook_Inl by blast
  next
    case (Inr res)
    note run = run_batch_with_lease_hook_Inr [OF assms(1) [unfolded Inr]]
    show ?thesis
      using run_batch_tx_spec(7,12) [OF run] assms(2,3) Inr
        task_proj.batch_projected [OF run _ assms(2)] unfolding task_projected_def by simp
  qed
  then show "task_projected digest marshal (trim_space (lease_workspace l))
      (runner_consumer (task_runner digest marshal c b own ttl)) db'"
    and "event_db_wf db'" and "control_events db' = control_events db" and "r = Inl e \<Longrightarrow> db' = db"
    by blast+
qed

definition sample_digest :: state_digest where
  "sample_digest a b c d = a @ b @ c @ d"

definition sample_runner :: "task_view runner" where
  "sample_runner = task_runner sample_digest (\<lambda>s. s) [] 10 ''a'' 0"

definition runner_lease :: consumer_lease where
  "runner_lease = \<lparr>lease_workspace = ''default'', lease_key = default_task_consumer_id,
    lease_owner = ''a'', lease_fence = 4, lease_until = 50, lease_acquired = 10, lease_renewed = 10,
    lease_released = None\<rparr>"

definition sample_pdb :: "(unit, task_view) projection_db" where
  "sample_pdb = \<lparr>control_events = control_events sample_db,
    idempotency_records = idempotency_records sample_db,
    control_checkpoints = control_checkpoints sample_db, evidence_tables = (),
    lease_rows = [(''default'', default_task_consumer_id) \<mapsto> runner_lease], derived = (\<lambda>_. None)\<rparr>"

definition sample_pdb1 :: "(unit, task_view) projection_db" where
  "sample_pdb1 = snd (run_batch_with_lease_hook sample_env sample_runner (\<lambda>_. 20) runner_lease (\<lambda>_. None) sample_pdb)"

lemma sample_batch:
  "run_batch_with_lease_hook sample_env sample_runner (\<lambda>_. 20) runner_lease (\<lambda>_. None) sample_pdb =
    (Inr \<lparr>br_events_read = 1, br_events_applied = 1, br_events_duplicate = 0, br_before = 0,
       br_after = 1, br_fence = 4, br_has_more = False\<rparr>, sample_pdb1)"
proof -
  have "fst (run_batch_with_lease_hook sample_env sample_runner (\<lambda>_. 20) runner_lease (\<lambda>_. None) sample_pdb) =
    Inr \<lparr>br_events_read = 1, br_events_applied = 1, br_events_duplicate = 0, br_before = 0,
       br_after = 1, br_fence = 4, br_has_more = False\<rparr>" by code_simp
  then show ?thesis by (simp add: sample_pdb1_def prod_eq_iff)
qed

lemma sample_pdb_wf: "event_db_wf sample_pdb"
  using sample_db_wf by (simp add: event_db_wf_def sample_pdb_def)

lemma sample_pdb_projected:
  "task_projected sample_digest (\<lambda>s. s) (trim_space (lease_workspace runner_lease))
    (runner_consumer (task_runner sample_digest (\<lambda>s. s) [] 10 ''a'' 0)) sample_pdb"
proof -
  have "cursor (trim_space (lease_workspace runner_lease))
    (runner_consumer (task_runner sample_digest (\<lambda>s. s) [] 10 ''a'' 0)) sample_pdb = 0" by code_simp
  then show ?thesis
    using task_proj.replay_Nil [of "trim_space (lease_workspace runner_lease)" "\<lambda>_. None"]
    by (simp add: task_projected_def projected_def events_upto_0 [OF sample_pdb_wf])
      (simp add: sample_pdb_def task_view_of_def)
qed

text \<open>
  C5: a batch keeps the task view equal to a replay of the log up to its checkpoint. If before a
  batch the view of the workspace is what replaying all events up to the consumer's checkpoint
  derives, it is so after the batch, with the checkpoint moved to the last event of the page; a
  failed batch (bad lease, refused event, failing hook) changes neither.
\<close>

theorem task_batch_replays:
  assumes "run_batch_with_lease_hook E (task_runner digest marshal c b own ttl) clk l hook db = (r, db')"
    and "event_db_wf db"
    and "task_projected digest marshal (trim_space (lease_workspace l))
      (runner_consumer (task_runner digest marshal c b own ttl)) db"
  shows "task_projected digest marshal (trim_space (lease_workspace l))
      (runner_consumer (task_runner digest marshal c b own ttl)) db' \<and> event_db_wf db' \<and>
    control_events db' = control_events db \<and> (\<forall>e. r = Inl e \<longrightarrow> db' = db)"
  using task_batch_projected [OF assms] by blast

lemma task_batch_replays_witness:
  "task_projected sample_digest (\<lambda>s. s) (trim_space (lease_workspace runner_lease))
      (runner_consumer (task_runner sample_digest (\<lambda>s. s) [] 10 ''a'' 0)) sample_pdb1 \<and>
    event_db_wf sample_pdb1 \<and> control_events sample_pdb1 = control_events sample_pdb"
  using task_batch_replays [OF sample_batch [unfolded sample_runner_def] sample_pdb_wf sample_pdb_projected]
  by blast

text \<open>
  C32: rebuilding gives the incremental view. If the view of a workspace was derived incrementally
  and had caught up with the log, then a successful rebuild ends with exactly the same rows for
  the workspace, the same log and a checkpoint behind which nothing is left to read.
\<close>

theorem task_rebuild_matches_incremental:
  assumes "rebuild fuel E (task_runner digest marshal c b own ttl) clk clks w db = Some (Inr r, db')"
    and "event_db_wf db" and "consumer_table_wf (lease_rows db)"
    and "task_projected digest marshal (trim_space w) (runner_consumer (task_runner digest marshal c b own ttl)) db"
    and "events_after (trim_space w) (cursor (trim_space w)
      (runner_consumer (task_runner digest marshal c b own ttl)) db) db = []"
  shows "task_view_of (trim_space w) (derived db') = task_view_of (trim_space w) (derived db) \<and>
    control_events db' = control_events db \<and>
    events_after (trim_space w) (rb_checkpoint r) db' = []"
proof -
  note rb = task_proj.rebuild_replays [OF assms(1) task_runner_simps assms(2,3)]
  have "replay_of (task_apply digest marshal) task_view_of (\<lambda>_. None) (trim_space w)
      (workspace_events (trim_space w) db) (task_view_of (trim_space w) (derived db))"
    using assms(4) events_upto_last [OF assms(2,5)] by (simp add: task_projected_def projected_def)
  then have "task_view_of (trim_space w) (derived db') = task_view_of (trim_space w) (derived db)"
    using rb workspace_events_ws by (intro task_proj.replay_unique) auto
  with rb show ?thesis by blast
qed

lemma sample_pdb1_projected:
  "task_projected sample_digest (\<lambda>s. s) (trim_space '' default'')
    (runner_consumer (task_runner sample_digest (\<lambda>s. s) [] 10 ''a'' 0)) sample_pdb1"
  "event_db_wf sample_pdb1"
proof -
  have "trim_space '' default'' = trim_space (lease_workspace runner_lease)" by code_simp
  with task_batch_projected(1,2) [OF sample_batch [unfolded sample_runner_def] sample_pdb_wf sample_pdb_projected]
  show "task_projected sample_digest (\<lambda>s. s) (trim_space '' default'')
      (runner_consumer (task_runner sample_digest (\<lambda>s. s) [] 10 ''a'' 0)) sample_pdb1"
    "event_db_wf sample_pdb1" by simp_all
qed

lemma sample_pdb1_leases: "consumer_table_wf (lease_rows sample_pdb1)"
proof -
  have "lease_rows sample_pdb1 = lease_rows sample_pdb"
    using run_batch_tx_spec(8) [OF run_batch_with_lease_hook_Inr [OF sample_batch]] .
  moreover have "trim_space (lease_owner runner_lease) = lease_owner runner_lease" by code_simp
  ultimately show ?thesis
    by (simp add: consumer_table_wf_def sample_pdb_def)
      (simp add: runner_lease_def default_task_consumer_id_def max_fence_def)
qed

definition sample_rebuild ::
    "(runner_error + rebuild_result) \<times> (unit, task_view) projection_db" where
  "sample_rebuild = the (rebuild 2 sample_env sample_runner (\<lambda>_. 20) (\<lambda>_ _. 21) '' default'' sample_pdb1)"

lemma sample_rebuild_run:
  "rebuild 2 sample_env sample_runner (\<lambda>_. 20) (\<lambda>_ _. 21) '' default'' sample_pdb1 =
    Some (Inr \<lparr>rb_batches = 1, rb_events_read = 1, rb_events_applied = 1, rb_events_duplicate = 0,
      rb_checkpoint = 1, rb_fence = 4\<rparr>, snd sample_rebuild)"
proof -
  have "map_option fst (rebuild 2 sample_env sample_runner (\<lambda>_. 20) (\<lambda>_ _. 21) '' default'' sample_pdb1) =
    Some (Inr \<lparr>rb_batches = 1, rb_events_read = 1, rb_events_applied = 1, rb_events_duplicate = 0,
      rb_checkpoint = 1, rb_fence = 4\<rparr>)" by code_simp
  then show ?thesis by (auto simp: sample_rebuild_def prod_eq_iff)
qed

lemma task_rebuild_matches_incremental_witness:
  "task_view_of (trim_space '' default'') (derived (snd sample_rebuild)) =
      task_view_of (trim_space '' default'') (derived sample_pdb1) \<and>
    control_events (snd sample_rebuild) = control_events sample_pdb1 \<and>
    events_after (trim_space '' default'') (rb_checkpoint \<lparr>rb_batches = 1, rb_events_read = 1,
      rb_events_applied = 1, rb_events_duplicate = 0, rb_checkpoint = 1, rb_fence = 4\<rparr>)
      (snd sample_rebuild) = []"
proof (rule task_rebuild_matches_incremental [OF sample_rebuild_run [unfolded sample_runner_def]
      sample_pdb1_projected(2) sample_pdb1_leases sample_pdb1_projected(1)])
  show "events_after (trim_space '' default'') (cursor (trim_space '' default'')
      (runner_consumer (task_runner sample_digest (\<lambda>s. s) [] 10 ''a'' 0)) sample_pdb1) sample_pdb1 = []"
    by code_simp
qed

text \<open>
  C33: the rebuild loop ends. With more fuel than the workspace has events the loop returns, with a
  result or an error, for every subscriber: each batch that reports more events has moved the
  checkpoint past at least one.
\<close>

theorem rebuild_terminates:
  assumes "event_db_wf db" and "consumer_table_wf (lease_rows db)"
    and "length (workspace_events (trim_space w) db) < fuel"
  shows "\<exists>r db'. rebuild fuel E R clk clks w db = Some (r, db')"
  using rebuild_total [OF assms] by fast

lemma rebuild_terminates_witness:
  "\<exists>r db'. rebuild 2 sample_env sample_runner (\<lambda>_. 20) (\<lambda>_ _. 21) '' default'' sample_pdb1 = Some (r, db')"
proof (rule rebuild_terminates [OF sample_pdb1_projected(2) sample_pdb1_leases])
  show "length (workspace_events (trim_space '' default'') sample_pdb1) < 2" by code_simp
qed

text \<open>
  C34: a runner that lost its lease can not write. After another owner has taken the consumer's
  lease over, a batch run with the old lease (or any of its epoch or below) fails in every later
  state of the lease table and leaves the view, the checkpoint and the log untouched.
\<close>

theorem stale_runner_refused:
  assumes "acquire_consumer_lease aclk w c own ttl s = (Inr a, t)" and "clr_takeover a"
    and "s (trim_space w, trim_space c) = Some old"
    and "consumer_step\<^sup>*\<^sup>* (n, t) (m, lease_rows db)"
    and "trim_space (lease_workspace l) = trim_space w" and "trim_space (lease_key l) = trim_space c"
    and "lease_fence l \<le> lease_fence old"
  shows "\<exists>e. run_batch_with_lease_hook E R clk l hook db = (Inl e, db)"
proof (cases "run_batch_with_lease_hook E R clk l hook db")
  case (Pair r db')
  show ?thesis
  proof (cases r)
    case (Inl e)
    with Pair run_batch_with_lease_hook_Inl [of E R clk l hook db e db'] show ?thesis by simp
  next
    case (Inr res)
    note run = run_batch_with_lease_hook_Inr [OF Pair [unfolded Inr]]
    obtain q where "validate_consumer_lease_tx (clk 0) l (lease_rows db) = Inr q"
      using run_batch_tx_spec(9) [OF run] by blast
    then have "consumer_token_ok (clk 0) (lease_rows db) (trim_space w, trim_space c)
        (trim_space (lease_owner l)) (lease_fence l)"
      using assms(5,6) by (metis token_ok_intro)
    moreover obtain l' where "t (trim_space w, trim_space c) = Some l'" "lease_fence l' = lease_fence old + 1"
      using acquire_takeover_fence [OF assms(1-3)] by blast
    ultimately show ?thesis using consumer.stale_refused [OF assms(4)] assms(7) by fastforce
  qed
qed

definition stolen_pdb :: "(unit, task_view) projection_db" where
  "stolen_pdb = sample_pdb\<lparr>lease_rows := sample_table((''ws'', ''tasks'') \<mapsto> sample_taken)\<rparr>"

lemma stale_runner_refused_witness:
  "\<exists>e. run_batch_with_lease_hook sample_env sample_runner (\<lambda>_. 70) sample_lease (\<lambda>_. None) stolen_pdb =
    (Inl e, stolen_pdb)"
  by (rule stale_runner_refused [OF sample_acquire, where old = sample_lease and n = 70 and m = 80])
    (simp_all add: sample_table_def sample_lease_def stolen_pdb_def consumer_step.wait r_into_rtranclp)

text \<open>
  Redelivery has no effect. Once an event has been applied, applying it again, or any event of
  the same task with a sequence that is not larger, reports a duplicate and leaves the view as it
  is; so at-least-once delivery gives exactly-once effects.
\<close>

theorem task_apply_redelivered:
  assumes "task_apply digest marshal e v = Inr (r, v')" and "ap_applied r"
    and "task_view_wf digest v" and "0 \<le> ev_sequence e"
    and "ev_sequence e' \<le> ev_sequence e" and "ev_sequence e' \<noteq> 0"
    and "ev_type e' = ev_type e" and "ev_task e' = ev_task e" and "ev_scope e' = ev_scope e"
  shows "task_apply digest marshal e' v' =
    Inr (\<lparr>ap_handled = True, ap_applied = False, ap_duplicate = True\<rparr>, v')"
  using assms(1)
proof (cases rule: task_apply_cases)
  case ignored
  have "ev_type e \<noteq> ''task.lease_renewed'' \<and> task_event_status (ev_type e) \<noteq> None"
    using assms(1,2) by (auto simp: task_apply_def handled_only_def not_handled_def split: if_splits option.splits)
  with ignored(3) show ?thesis by simp
next
  case (written status w t current out)
  obtain s where s: "out = Some s"
    using written(7) assms(2) by (auto simp: task_write_def Let_def results split: if_splits)
  note row = task_write_Some [OF written(7) [unfolded s]]
  have v': "v' (w, t) = Some s" using written(8) s by simp
  have wf: "task_view_wf digest v'" using task_apply_wf [OF assms(1,3,4)] .
  obtain ref where ref: "ev_task e = Some ref" "t = trim_space (er_id ref)" using written(10) by blast
  have guards: "ev_type e \<noteq> ''task.lease_renewed''" "er_kind ref = [] \<or> er_kind ref = ''task''"
    "er_workspace ref = [] \<or> trim_space (er_workspace ref) = w"
    using assms(1,2) written(1,3) ref
    by (auto simp: task_apply_def Let_def handled_only_def not_handled_def split: if_splits option.splits)
  have dup: "ev_sequence e' \<le> ts_last_sequence s" using row(2) assms(5) by simp
  show ?thesis
    using assms(6-9) guards written(1-5) ref dup v' read_task_state_wf [OF wf, of w t]
    by (auto simp: task_apply_def Let_def)
qed


lemma task_apply_redelivered_witness:
  "task_apply sample_digest (\<lambda>s. s) (sample_stored\<lparr>ev_id := ''evt_other''\<rparr>)
      (case task_apply sample_digest (\<lambda>s. s) sample_stored (\<lambda>_. None) of Inr (_, v) \<Rightarrow> v | _ \<Rightarrow> \<lambda>_. None) =
    Inr (\<lparr>ap_handled = True, ap_applied = False, ap_duplicate = True\<rparr>,
      case task_apply sample_digest (\<lambda>s. s) sample_stored (\<lambda>_. None) of Inr (_, v) \<Rightarrow> v | _ \<Rightarrow> \<lambda>_. None)"
proof -
  have "map_sum (\<lambda>e. e) fst (task_apply sample_digest (\<lambda>s. s) sample_stored (\<lambda>_. None)) =
    Inr \<lparr>ap_handled = True, ap_applied = True, ap_duplicate = False\<rparr>" by code_simp
  then obtain v where v: "task_apply sample_digest (\<lambda>s. s) sample_stored (\<lambda>_. None) =
    Inr (\<lparr>ap_handled = True, ap_applied = True, ap_duplicate = False\<rparr>, v)"
    by (cases "task_apply sample_digest (\<lambda>s. s) sample_stored (\<lambda>_. None)") auto
  have "task_apply sample_digest (\<lambda>s. s) (sample_stored\<lparr>ev_id := ''evt_other''\<rparr>) v =
    Inr (\<lparr>ap_handled = True, ap_applied = False, ap_duplicate = True\<rparr>, v)"
    by (rule task_apply_redelivered [OF v])
      (simp_all add: task_view_wf_def sample_stored_def sample_event'_def)
  then show ?thesis by (simp add: v)
qed

end
