(* ===== verification/Task_Store.thy ===== *)
theory Task_Store
  imports Event_Store Fencing
begin

text \<open>
  \<open>internal/contracts/tasks.go\<close> and \<open>internal/store/tasks.go\<close>: the task store, the only
  mutation boundary of task execution.

  \<open>task_db\<close> adds the tables tasks, task_dependencies, task_execution_leases and sessions to the
  event tables.  \<open>tasks\<close> is a list because a claim selects by an order over the rows.  Each public
  operation runs in one transaction (\<open>in_tx\<close>): its event, its row changes and the lease change
  commit together or not at all.  \<open>task_in\<close> holds what one call draws from outside: the clock
  reading of each statement, the identities and sequence values of the events it appends, the id
  of a new task row, and which task rows other transactions have locked (\<open>SKIP LOCKED\<close>).
  \<open>task_env\<close> adds to the environment of the event store the rendering of an instant in JSON and
  the digest of a task creation.  The test seam \<open>beforeCommit\<close> and a failing commit are not
  modelled, nor are deleted rows (no code deletes a task or a session here).
\<close>

section \<open>Contract\<close>

datatype task_error =
  ErrTaskNotFound
| ErrTaskNoReady
| ErrTaskLeaseMissing
| ErrTaskLeaseHeld
| ErrTaskLeaseOwned
| ErrTaskLeaseFenced
| ErrTaskLeaseExpired
| ErrTaskLeaseReleased
| ErrTaskNotClaimed
| ErrTaskTerminal
| ErrTaskDependencyMissing int
| ErrTaskInvalidStatus
| ErrTaskSessionBusy
| ErrTaskFenceExhausted
| TaskIdempotencyConflict
| TaskIncompleteIdempotency
| TaskInvalid string
| TaskEventFailed store_error

type_synonym task_lease = "int lease"

definition default_task_lease_ttl :: duration where
  "default_task_lease_ttl = 30 * second"

definition max_task_lease_ttl :: duration where
  "max_task_lease_ttl = 600 * second"

definition default_task_attempts :: int where
  "default_task_attempts = 3"

definition max_task_attempts :: int where
  "max_task_attempts = 20"

definition max_task_retry_backoff :: duration where
  "max_task_retry_backoff = 300 * second"

definition validate_task_lease_identity :: "string \<Rightarrow> string \<Rightarrow> int \<Rightarrow> task_error + unit" where
  "validate_task_lease_identity workspace owner task =
    bindE (guardE (trim_space workspace \<noteq> []) (TaskInvalid ''workspace_id is required'')) (\<lambda>_.
    bindE (guardE (task > 0) (TaskInvalid ''task_id must be positive'')) (\<lambda>_.
    guardE (trim_space owner \<noteq> []) (TaskInvalid ''owner_id is required'')))"

definition terminal_statuses :: "string list" where
  "terminal_statuses = [''done'', ''failed'', ''cancelled'', ''deadletter'']"

definition is_task_terminal :: "string \<Rightarrow> bool" where
  "is_task_terminal status \<longleftrightarrow> trim_space status \<in> set terminal_statuses"

definition failure_classes :: "string list" where
  "failure_classes = [''transient'', ''timeout'', ''rate_limited'', ''permanent'', ''dependency'', ''unknown'']"

definition is_failure_class :: "string \<Rightarrow> bool" where
  "is_failure_class v \<longleftrightarrow> trim_space v \<in> set failure_classes"

section \<open>Tables\<close>

record task =
  tk_id :: int
  tk_workspace :: string
  tk_title :: string
  tk_brief :: string
  tk_capabilities :: "string list"
  tk_assigned :: "string option"
  tk_status :: string
  tk_result :: "string option"
  tk_created_by :: string
  tk_origin :: string
  tk_attempts :: int
  tk_max_attempts :: int
  tk_next_attempt :: time
  tk_last_error :: string
  tk_failure_class :: string
  tk_retryable :: "bool option"
  tk_fence :: int
  tk_created_at :: time
  tk_claimed_at :: "time option"
  tk_completed_at :: "time option"
  tk_cancelled_at :: "time option"
  tk_create_key :: "string option"
  tk_create_hash :: "string option"

record session =
  ses_capabilities :: "string list"
  ses_status :: string
  ses_current :: "int option"
  ses_heartbeat :: time

record 'x task_db = "'x control_db" +
  tasks :: "task list"
  task_deps :: "(string \<times> int \<times> int) list"
  task_leases :: "int lease_table"
  sessions :: "string \<times> string \<Rightarrow> session option"

record task_create_content =
  tc_workspace :: string
  tc_title :: string
  tc_brief :: string
  tc_capabilities :: "string list"
  tc_created_by :: string
  tc_max_attempts :: int
  tc_depends_on :: "int list"
  tc_payload :: string

record 'x task_env =
  te_events :: "'x event_env"
  te_time :: "time \<Rightarrow> string"
  te_digest :: "task_create_content \<Rightarrow> string"

record task_in =
  ti_clock :: "nat \<Rightarrow> time"
  ti_io :: "nat \<Rightarrow> io"
  ti_locked :: "int \<Rightarrow> bool"
  ti_new_task :: int

definition find_task :: "string \<Rightarrow> int \<Rightarrow> ('x, 'z) task_db_scheme \<Rightarrow> task option" where
  "find_task workspace tid db = find (\<lambda>t. tk_workspace t = workspace \<and> tk_id t = tid) (tasks db)"

definition update_task ::
    "string \<Rightarrow> int \<Rightarrow> (task \<Rightarrow> task) \<Rightarrow> ('x, 'z) task_db_scheme \<Rightarrow> ('x, 'z) task_db_scheme" where
  "update_task workspace tid f db =
    db\<lparr>tasks := map (\<lambda>t. if tk_workspace t = workspace \<and> tk_id t = tid then f t else t) (tasks db)\<rparr>"

definition update_lease ::
    "string \<Rightarrow> int \<Rightarrow> (task_lease \<Rightarrow> bool) \<Rightarrow> (task_lease \<Rightarrow> task_lease) \<Rightarrow>
      ('x, 'z) task_db_scheme \<Rightarrow> ('x, 'z) task_db_scheme" where
  "update_lease workspace tid P f db =
    db\<lparr>task_leases := update_where (workspace, tid) P f (task_leases db)\<rparr>"

definition update_session ::
    "string \<Rightarrow> string \<Rightarrow> (session \<Rightarrow> bool) \<Rightarrow> (session \<Rightarrow> session) \<Rightarrow>
      ('x, 'z) task_db_scheme \<Rightarrow> ('x, 'z) task_db_scheme" where
  "update_session workspace sid P f db =
    db\<lparr>sessions := update_where (workspace, sid) P f (sessions db)\<rparr>"

section \<open>Normalisation of inputs\<close>

definition normalize_workspace :: "string \<Rightarrow> string" where
  "normalize_workspace w = (let w = trim_space w in if w = [] then default_workspace_id else w)"

definition normalize_max_attempts :: "int \<Rightarrow> task_error + int" where
  "normalize_max_attempts v =
    (if v = 0 then Inr default_task_attempts
     else if v < 1 \<or> v > max_task_attempts then Inl (TaskInvalid ''max_attempts'') else Inr v)"

definition bounded_task_lease_ttl :: "duration \<Rightarrow> duration" where
  "bounded_task_lease_ttl ttl =
    (if ttl \<le> 0 then default_task_lease_ttl
     else if ttl > max_task_lease_ttl then max_task_lease_ttl else ttl)"

text \<open>The doubling loop \<open>for i := 1; i < attempt && delay < max; i++\<close>.\<close>

function retry_loop :: "int \<Rightarrow> int \<Rightarrow> duration \<Rightarrow> duration" where
  "retry_loop i attempt delay =
    (if i < attempt \<and> delay < max_task_retry_backoff then retry_loop (i + 1) attempt (2 * delay) else delay)"
  by pat_completeness auto
termination by (relation "measure (\<lambda>(i, a, d). nat (a - i))") auto

declare retry_loop.simps [simp del]

definition retry_delay :: "int \<Rightarrow> duration option \<Rightarrow> duration" where
  "retry_delay attempt0 requested =
    (case requested of
      Some r \<Rightarrow> if r < 0 then 0 else if r > max_task_retry_backoff then max_task_retry_backoff else r
    | None \<Rightarrow>
        let attempt = (if attempt0 < 1 then 1 else attempt0);
            delay = retry_loop 1 attempt (100 * millisecond)
        in if delay > max_task_retry_backoff then max_task_retry_backoff else delay)"

definition normalize_task_ids :: "int list \<Rightarrow> int list" where
  "normalize_task_ids vs = sort (remdups (filter (\<lambda>v. 0 < v) vs))"

definition clean_capabilities :: "string list \<Rightarrow> string list" where
  "clean_capabilities vs = sort (dedup_trim [] vs)"

definition deref :: "string option \<Rightarrow> string" where
  "deref v = (case v of None \<Rightarrow> [] | Some s \<Rightarrow> s)"

section \<open>Events of the task life cycle\<close>

definition task_string_delta :: "int \<Rightarrow> string \<Rightarrow> string \<Rightarrow> state_delta" where
  "task_string_delta tid field v =
    \<lparr>sd_op = ''set'', sd_path = ''/tasks/'' @ show_int tid @ ''/'' @ field, sd_value = json_string v,
     sd_evidence = []\<rparr>"

definition task_status_delta :: "int \<Rightarrow> string \<Rightarrow> state_delta" where
  "task_status_delta tid status = task_string_delta tid ''status'' status"

definition new_task_event ::
    "io \<Rightarrow> string \<Rightarrow> string option \<Rightarrow> string \<Rightarrow> int \<Rightarrow> string \<Rightarrow> string \<Rightarrow> state_delta list \<Rightarrow>
      task_error + event" where
  "new_task_event i etype payload workspace tid sid actor deltas =
    bindE (liftE (TaskEventFailed \<circ> EventRejected) (new_event (io_new_id i) (io_now i) etype payload)) (\<lambda>e.
    let w = normalize_workspace workspace; s = trim_space sid; a = trim_space actor in
    Inr (e\<lparr>ev_scope := (ev_scope e)\<lparr>sc_workspace := w\<rparr>,
           ev_task := Some \<lparr>er_id = show_int tid, er_kind = ''task'', er_workspace = w\<rparr>,
           ev_session := (if s \<noteq> [] then Some \<lparr>er_id = s, er_kind = ''session'', er_workspace = w\<rparr> else ev_session e),
           ev_actor := (if a \<noteq> [] then \<lparr>ac_id = a, ac_kind = (if a = s then ''session'' else ''principal''),
             ac_name = [], ac_workspace = workspace\<rparr> else ev_actor e),
           ev_deltas := deltas\<rparr>))"

text \<open>\<open>outcomeEvent\<close> only replaces a nil payload, which no caller passes.\<close>

definition outcome_event ::
    "io \<Rightarrow> string \<Rightarrow> string option \<Rightarrow> string \<Rightarrow> int \<Rightarrow> string \<Rightarrow> string \<Rightarrow> state_delta list \<Rightarrow>
      task_error + event" where
  "outcome_event = new_task_event"

section \<open>Reads\<close>

text \<open>\<open>scan_task\<close> reads a row; the column check is the model of \<open>scanTaskRow\<close>.\<close>

definition scan_task :: "task \<Rightarrow> task_error + task" where
  "scan_task t = (if tk_fence t < 0 then Inl (TaskInvalid ''task execution fence is negative'') else Inr t)"

definition read_task_tx :: "string \<Rightarrow> int \<Rightarrow> ('x, 'z) task_db_scheme \<Rightarrow> task_error + task" where
  "read_task_tx workspace tid db =
    (case find_task workspace tid db of
      None \<Rightarrow> Inl ErrTaskNotFound
    | Some t \<Rightarrow> scan_task t)"

text \<open>\<open>None\<close> is the missing row, otherwise the row and its activity.\<close>

definition read_task_lease_tx ::
    "time \<Rightarrow> string \<Rightarrow> int \<Rightarrow> ('x, 'z) task_db_scheme \<Rightarrow> task_error + (task_lease \<times> bool) option" where
  "read_task_lease_tx now workspace tid db =
    (case task_leases db (workspace, tid) of
      None \<Rightarrow> Inr None
    | Some l \<Rightarrow>
        if lease_fence l \<le> 0 then Inl (TaskInvalid ''task execution lease fence is invalid'')
        else Inr (Some (l, lease_active now l)))"

definition get_task :: "string \<Rightarrow> int \<Rightarrow> ('x, 'z) task_db_scheme \<Rightarrow> task_error + task" where
  "get_task workspace tid db = read_task_tx (normalize_workspace workspace) tid db"

text \<open>The database parses the lower bound \<open>since\<close>: \<open>parse\<close> is None on text it refuses.\<close>

definition list_tasks ::
    "(string \<Rightarrow> time option) \<Rightarrow> string \<Rightarrow> string \<Rightarrow> string \<Rightarrow> string \<Rightarrow> int \<Rightarrow> ('x, 'z) task_db_scheme \<Rightarrow>
      task_error + task list" where
  "list_tasks parse workspace0 status assigned since limit0 db =
    (let workspace = normalize_workspace workspace0;
         limit = (if limit0 \<le> 0 \<or> limit0 > 500 then 200 else limit0) in
    if trim_space since \<noteq> [] \<and> parse since = None then Inl (TaskInvalid ''list tasks'')
    else mapE scan_task (take (nat limit) (rev (sort_key tk_created_at (sort_key tk_id (filter (\<lambda>t.
      tk_workspace t = workspace \<and>
      (trim_space status \<noteq> [] \<longrightarrow> tk_status t = trim_space status) \<and>
      (trim_space assigned \<noteq> [] \<longrightarrow> tk_assigned t = Some (trim_space assigned)) \<and>
      (trim_space since \<noteq> [] \<longrightarrow> tk_created_at t > the (parse since))) (tasks db)))))))"

definition dependencies_done :: "task \<Rightarrow> ('x, 'z) task_db_scheme \<Rightarrow> bool" where
  "dependencies_done t db \<longleftrightarrow>
    list_all (\<lambda>(w, a, b). w = tk_workspace t \<and> a = tk_id t \<longrightarrow>
      list_all (\<lambda>d. tk_workspace d = w \<and> tk_id d = b \<longrightarrow> tk_status d = ''done'') (tasks db)) (task_deps db)"

text \<open>The \<open>WHERE\<close> clause of \<open>selectClaimableTaskTx\<close>.\<close>

definition claimable ::
    "time \<Rightarrow> string \<Rightarrow> string list \<Rightarrow> int \<Rightarrow> ('x, 'z) task_db_scheme \<Rightarrow> task \<Rightarrow> bool" where
  "claimable now workspace capabilities wanted db t \<longleftrightarrow>
    tk_workspace t = workspace \<and>
    (tk_status t = ''pending'' \<and> tk_next_attempt t \<le> now \<or>
     (tk_status t = ''claimed'' \<or> tk_status t = ''in_progress'') \<and>
     (case task_leases db (tk_workspace t, tk_id t) of
        None \<Rightarrow> False | Some l \<Rightarrow> lease_released l = None \<and> lease_until l \<le> now)) \<and>
    (tk_capabilities t = [] \<or> list_all (\<lambda>c. c \<in> set capabilities) (tk_capabilities t)) \<and>
    dependencies_done t db \<and> (wanted > 0 \<longrightarrow> tk_id t = wanted)"

definition select_claimable_task_tx ::
    "time \<Rightarrow> (int \<Rightarrow> bool) \<Rightarrow> string \<Rightarrow> string list \<Rightarrow> int \<Rightarrow> ('x, 'z) task_db_scheme \<Rightarrow> task option" where
  "select_claimable_task_tx now locked workspace capabilities wanted db =
    (case sort_key (\<lambda>t. tk_created_at t) (sort_key tk_id
        (filter (\<lambda>t. claimable now workspace capabilities wanted db t \<and> \<not> locked (tk_id t)) (tasks db))) of
      [] \<Rightarrow> None | t # _ \<Rightarrow> Some t)"

definition authorize_task_lease_tx ::
    "time \<Rightarrow> task \<Rightarrow> string \<Rightarrow> int \<Rightarrow> ('x, 'z) task_db_scheme \<Rightarrow> task_error + task_lease" where
  "authorize_task_lease_tx now t owner0 fence db =
    (let owner = trim_space owner0 in
    if owner = [] \<or> fence = 0 then Inl ErrTaskNotClaimed
    else bindE (read_task_lease_tx now (tk_workspace t) (tk_id t) db) (\<lambda>found.
      case found of
        None \<Rightarrow> Inl ErrTaskLeaseMissing
      | Some (l, active) \<Rightarrow>
          if lease_fence l \<noteq> fence then Inl ErrTaskLeaseFenced
          else if lease_owner l \<noteq> owner then Inl ErrTaskLeaseOwned
          else if (case tk_assigned t of None \<Rightarrow> True | Some a \<Rightarrow> trim_space a \<noteq> owner)
          then Inl ErrTaskLeaseOwned
          else if lease_released l \<noteq> None then Inl ErrTaskLeaseReleased
          else if \<not> active then Inl ErrTaskLeaseExpired
          else Inr l))"

definition authorize_task_mutation ::
    "time \<Rightarrow> task \<Rightarrow> string \<Rightarrow> int \<Rightarrow> bool \<Rightarrow> ('x, 'z) task_db_scheme \<Rightarrow> task_error + unit" where
  "authorize_task_mutation now t owner fence allow_unclaimed db =
    (if allow_unclaimed \<and> tk_assigned t = None \<and> tk_status t = ''pending'' \<and> trim_space owner = [] \<and> fence = 0
     then Inr ()
     else bindE (authorize_task_lease_tx now t owner fence db) (\<lambda>_. Inr ()))"

section \<open>Idempotency\<close>

definition resolve_existing_idempotency_tx ::
    "'x event_env \<Rightarrow> string \<Rightarrow> string \<Rightarrow> event \<Rightarrow> ('x, 'z) task_db_scheme \<Rightarrow> task_error + event option" where
  "resolve_existing_idempotency_tx E workspace key0 candidate db =
    (let key = trim_space key0 in
    if key = [] then Inr None
    else case idempotency_records db (workspace, key) of
      None \<Rightarrow> Inr None
    | Some r \<Rightarrow>
        (case ir_sequence r of
          None \<Rightarrow> Inl TaskIncompleteIdempotency
        | Some q \<Rightarrow>
            if q \<le> 0 then Inl TaskIncompleteIdempotency
            else if request_hash (env_digest E) candidate \<noteq> ir_hash r then Inl TaskIdempotencyConflict
            else case read_event_by_sequence_tx workspace q db of
              None \<Rightarrow> Inl (TaskInvalid ''read duplicate task event'')
            | Some e \<Rightarrow> Inr (Some e)))"

definition existing_idempotency_event_tx ::
    "string \<Rightarrow> string \<Rightarrow> ('x, 'z) task_db_scheme \<Rightarrow> task_error + event option" where
  "existing_idempotency_event_tx workspace key0 db =
    (let key = trim_space key0 in
    if key = [] then Inr None
    else case idempotency_records db (workspace, key) of
      None \<Rightarrow> Inr None
    | Some r \<Rightarrow>
        (case ir_sequence r of
          None \<Rightarrow> Inl TaskIncompleteIdempotency
        | Some q \<Rightarrow>
            if q \<le> 0 then Inl TaskIncompleteIdempotency
            else case read_event_by_sequence_tx workspace q db of
              None \<Rightarrow> Inl (TaskInvalid ''read existing task event'')
            | Some e \<Rightarrow> Inr (Some e)))"

text \<open>The key is not trimmed in this query.\<close>

definition latest_event_for_idempotency_or_event ::
    "string \<Rightarrow> string \<Rightarrow> event \<Rightarrow> ('x, 'z) task_db_scheme \<Rightarrow> task_error + event" where
  "latest_event_for_idempotency_or_event workspace key e db =
    (if trim_space key \<noteq> [] then
      (case idempotency_records db (workspace, key) of
        None \<Rightarrow> Inl (TaskInvalid ''read committed task event'')
      | Some r \<Rightarrow>
          (case ir_sequence r of
            Some q \<Rightarrow>
              if q > 0 then
                (case read_event_by_sequence_tx workspace q db of
                  None \<Rightarrow> Inl (TaskInvalid ''read committed task event'')
                | Some x \<Rightarrow> Inr x)
              else Inr e
          | None \<Rightarrow> Inr e))
     else Inr e)"

definition append_task_event ::
    "'x event_env \<Rightarrow> io \<Rightarrow> event \<Rightarrow> ('x, 'z) task_db_scheme \<Rightarrow> task_error + event \<times> ('x, 'z) task_db_scheme" where
  "append_task_event E i e db =
    bindE (liftE TaskEventFailed (append_tx E i e db)) (\<lambda>((x, _), db'). Inr (x, db'))"

section \<open>Create\<close>

record task_create =
  cr_workspace :: string
  cr_key :: string
  cr_title :: string
  cr_brief :: string
  cr_capabilities :: "string list"
  cr_created_by :: string
  cr_origin :: string
  cr_max_attempts :: int
  cr_depends_on :: "int list"
  cr_payload :: "string option"

definition create_content ::
    "task_create \<Rightarrow> string \<Rightarrow> int \<Rightarrow> int list \<Rightarrow> string \<Rightarrow> task_error + task_create_content" where
  "create_content c workspace attempts deps payload =
    (if \<not> json_valid payload then Inl (TaskInvalid ''canonicalize task payload'')
     else Inr \<lparr>tc_workspace = workspace, tc_title = cr_title c, tc_brief = cr_brief c,
       tc_capabilities = clean_capabilities (cr_capabilities c), tc_created_by = cr_created_by c,
       tc_max_attempts = attempts, tc_depends_on = deps, tc_payload = json_compact payload\<rparr>)"

text \<open>The row of \<open>INSERT INTO tasks\<close>; the other columns take their defaults.\<close>

definition new_task_row ::
    "task_in \<Rightarrow> task_create \<Rightarrow> string \<Rightarrow> int \<Rightarrow> (string \<times> string) option \<Rightarrow> task" where
  "new_task_row i c workspace attempts key =
    \<lparr>tk_id = ti_new_task i, tk_workspace = workspace, tk_title = cr_title c, tk_brief = cr_brief c,
     tk_capabilities = clean_capabilities (cr_capabilities c), tk_assigned = None,
     tk_status = ''pending'', tk_result = None, tk_created_by = cr_created_by c,
     tk_origin = trim_space (cr_origin c), tk_attempts = 0, tk_max_attempts = attempts,
     tk_next_attempt = ti_clock i 0, tk_last_error = [], tk_failure_class = [], tk_retryable = None,
     tk_fence = 0, tk_created_at = ti_clock i 0, tk_claimed_at = None, tk_completed_at = None,
     tk_cancelled_at = None, tk_create_key = map_option fst key, tk_create_hash = map_option snd key\<rparr>"

fun insert_dependencies ::
    "string \<Rightarrow> int \<Rightarrow> int list \<Rightarrow> ('x, 'z) task_db_scheme \<Rightarrow> task_error + ('x, 'z) task_db_scheme" where
  "insert_dependencies workspace tid [] db = Inr db"
| "insert_dependencies workspace tid (d # ds) db =
    (if find_task workspace d db = None then Inl (ErrTaskDependencyMissing d)
     else if d = tid then Inl (TaskInvalid ''insert task dependency'')
     else insert_dependencies workspace tid ds
       (db\<lparr>task_deps := task_deps db @ [(workspace, tid, d)]\<rparr>))"

definition read_existing_task_create_tx ::
    "string \<Rightarrow> int \<Rightarrow> string \<Rightarrow> ('x, 'z) task_db_scheme \<Rightarrow> task_error + task \<times> event" where
  "read_existing_task_create_tx workspace tid key db =
    bindE (read_task_tx workspace tid db) (\<lambda>t.
    case idempotency_records db (workspace, key) of
      None \<Rightarrow> Inl (TaskInvalid ''read duplicate task event'')
    | Some r \<Rightarrow>
        (case ir_sequence r of
          None \<Rightarrow> Inl TaskIncompleteIdempotency
        | Some q \<Rightarrow>
            if q \<le> 0 then Inl TaskIncompleteIdempotency
            else case read_event_by_sequence_tx workspace q db of
              None \<Rightarrow> Inl (TaskInvalid ''read duplicate task event sequence'')
            | Some e \<Rightarrow>
                if ev_type e \<noteq> ''task.created'' \<or> ev_idempotency e \<noteq> key
                then Inl TaskIdempotencyConflict else Inr (t, e)))"

definition create_tx ::
    "'x task_env \<Rightarrow> task_in \<Rightarrow> task_create \<Rightarrow> ('x, 'z) task_db_scheme \<Rightarrow>
      task_error + (task \<times> event) \<times> ('x, 'z) task_db_scheme" where
  "create_tx E i c0 db =
    (let workspace = normalize_workspace (cr_workspace c0); key = trim_space (cr_key c0);
         c = c0\<lparr>cr_title := trim_space (cr_title c0), cr_brief := trim_space (cr_brief c0),
                cr_created_by := trim_space (cr_created_by c0)\<rparr>;
         deps = normalize_task_ids (cr_depends_on c0);
         payload = (case cr_payload c0 of None \<Rightarrow> ''{}'' | Some p \<Rightarrow> p) in
    if len key > max_idempotency_length then Inl (TaskInvalid ''idempotency_key is too long'')
    else if cr_title c = [] \<or> cr_brief c = [] \<or> cr_created_by c = []
    then Inl (TaskInvalid ''title, brief, and created_by are required'')
    else bindE (normalize_max_attempts (cr_max_attempts c0)) (\<lambda>attempts.
    bindE (create_content c workspace attempts deps payload) (\<lambda>content.
    let hash = te_digest E content;
        existing = (if key = [] then None
          else find (\<lambda>t. tk_workspace t = workspace \<and> tk_create_key t = Some key) (tasks db)) in
    case existing of
      Some t \<Rightarrow>
        if tk_create_hash t \<noteq> Some hash then Inl TaskIdempotencyConflict
        else bindE (read_existing_task_create_tx workspace (tk_id t) key db) (\<lambda>r. Inr (r, db))
    | None \<Rightarrow>
        if list_ex (\<lambda>t. tk_id t = ti_new_task i) (tasks db) then Inl (TaskInvalid ''insert task'')
        else
          let db1 = db\<lparr>tasks := tasks db @
            [new_task_row i c workspace attempts (if key = [] then None else Some (key, hash))]\<rparr> in
          bindE (insert_dependencies workspace (ti_new_task i) deps db1) (\<lambda>db2.
          bindE (new_task_event (ti_io i 0) ''task.created'' (json_marshal_raw payload) workspace
            (ti_new_task i) [] [] [task_status_delta (ti_new_task i) ''pending'']) (\<lambda>e0.
          let e = e0\<lparr>ev_actor := \<lparr>ac_id = cr_created_by c, ac_kind = ''principal'', ac_name = [],
                ac_workspace = workspace\<rparr>, ev_idempotency := key\<rparr> in
          bindE (append_task_event (te_events E) (ti_io i 0) e db2) (\<lambda>(x, db3).
          bindE (read_task_tx workspace (ti_new_task i) db3) (\<lambda>t. Inr ((t, x), db3))))))))"

definition create_task ::
    "'x task_env \<Rightarrow> task_in \<Rightarrow> task_create \<Rightarrow> ('x, 'z) task_db_scheme \<Rightarrow>
      (task_error + task \<times> event) \<times> ('x, 'z) task_db_scheme" where
  "create_task E i c = in_tx (create_tx E i c)"

section \<open>Claim\<close>

record task_claim =
  cl_workspace :: string
  cl_session :: string
  cl_actor :: string
  cl_task :: int
  cl_ttl :: duration

record task_claim_result =
  cm_task :: task
  cm_lease :: task_lease
  cm_event :: event
  cm_takeover :: bool

definition transition_dead_letter_tx ::
    "'x task_env \<Rightarrow> io \<Rightarrow> (nat \<Rightarrow> time) \<Rightarrow> task \<Rightarrow> string \<Rightarrow> ('x, 'z) task_db_scheme \<Rightarrow>
      task_error + ('x, 'z) task_db_scheme" where
  "transition_dead_letter_tx E i clk t reason db =
    bindE (outcome_event i ''task.deadlettered''
      (Some (json_object [(''error'', json_string reason), (''task_id'', show_int (tk_id t))]))
      (tk_workspace t) (tk_id t) (deref (tk_assigned t)) ''system''
      [task_status_delta (tk_id t) ''deadletter'', task_string_delta (tk_id t) ''result'' reason,
       task_string_delta (tk_id t) ''assigned_session'' []]) (\<lambda>e.
    let db1 = update_task (tk_workspace t) (tk_id t) (\<lambda>r. r\<lparr>tk_status := ''deadletter'',
          tk_result := Some reason, tk_completed_at := Some (clk 0), tk_assigned := None,
          tk_next_attempt := clk 0, tk_last_error := reason, tk_failure_class := ''permanent'',
          tk_retryable := Some False\<rparr>) db;
        db2 = update_lease (tk_workspace t) (tk_id t) (\<lambda>l. lease_released l = None)
          (\<lambda>l. l\<lparr>lease_until := clk 1, lease_released := Some (clk 1), lease_renewed := clk 1\<rparr>) db1;
        db3 = (case tk_assigned t of
            None \<Rightarrow> db2
          | Some sid \<Rightarrow> update_session (tk_workspace t) sid (\<lambda>s. ses_current s = Some (tk_id t))
              (\<lambda>s. s\<lparr>ses_status := ''idle'', ses_current := None, ses_heartbeat := clk 2\<rparr>) db2) in
    bindE (append_task_event (te_events E) i e db3) (\<lambda>(_, db4). Inr db4))"

text \<open>The lease grant of one claim: take over the old row or insert the first one.\<close>

definition grant_task_lease ::
    "(nat \<Rightarrow> time) \<Rightarrow> string \<Rightarrow> duration \<Rightarrow> task \<Rightarrow> task_lease option \<Rightarrow> ('x, 'z) task_db_scheme \<Rightarrow>
      ('x, 'z) task_db_scheme" where
  "grant_task_lease clk sid ttl t old db =
    (case old of
      Some o' \<Rightarrow> update_lease (tk_workspace t) (tk_id t) (\<lambda>l. lease_fence l = lease_fence o')
        (\<lambda>l. l\<lparr>lease_owner := sid, lease_fence := lease_fence o' + 1,
               lease_until := add_millis (clk 2) (milliseconds ttl), lease_acquired := clk 2,
               lease_renewed := clk 2, lease_released := None\<rparr>) db
    | None \<Rightarrow> db\<lparr>task_leases := (task_leases db)((tk_workspace t, tk_id t) \<mapsto>
        \<lparr>lease_workspace = tk_workspace t, lease_key = tk_id t, lease_owner = sid, lease_fence = 1,
         lease_until = add_millis (clk 2) (milliseconds ttl), lease_acquired = clk 2,
         lease_renewed = clk 2, lease_released = None\<rparr>)\<rparr>)"

text \<open>After the lease is granted: the task row, the session row and the claim event.\<close>

definition record_claim_tx ::
    "'x task_env \<Rightarrow> io \<Rightarrow> (nat \<Rightarrow> time) \<Rightarrow> task_claim \<Rightarrow> string \<Rightarrow> string \<Rightarrow> task \<Rightarrow> int \<Rightarrow> bool \<Rightarrow>
      task_lease \<Rightarrow> ('x, 'z) task_db_scheme \<Rightarrow> task_error + task_claim_result \<times> ('x, 'z) task_db_scheme" where
  "record_claim_tx E i clk c workspace sid t fence takeover l db1 =
    (let db2 = update_task workspace (tk_id t) (\<lambda>r. r\<lparr>tk_status := ''claimed'',
          tk_assigned := Some sid, tk_claimed_at := Some (clk 4),
          tk_attempts := tk_attempts r + 1, tk_fence := fence, tk_next_attempt := clk 4,
          tk_completed_at := None, tk_cancelled_at := None\<rparr>) db1;
        db3 = update_session workspace sid (\<lambda>_. True)
          (\<lambda>s. s\<lparr>ses_status := ''busy'', ses_current := Some (tk_id t), ses_heartbeat := clk 5\<rparr>) db2;
        actor = (if trim_space (cl_actor c) = [] then sid else trim_space (cl_actor c)) in
    bindE (new_task_event i ''task.claimed''
      (Some (json_object [(''fence'', show_int fence), (''session_id'', json_string sid),
        (''takeover'', json_bool takeover), (''task_id'', show_int (tk_id t))]))
      workspace (tk_id t) sid actor
      [task_status_delta (tk_id t) ''claimed'', task_string_delta (tk_id t) ''assigned_session'' sid]) (\<lambda>e.
    bindE (append_task_event (te_events E) i e db3) (\<lambda>(x, db4).
    bindE (read_task_tx workspace (tk_id t) db4) (\<lambda>t'.
    Inr (\<lparr>cm_task = t', cm_lease = l, cm_event = x, cm_takeover = takeover\<rparr>, db4)))))"

text \<open>One selected task with attempts left: its lease, then the claim.\<close>

definition claim_selected_tx ::
    "'x task_env \<Rightarrow> io \<Rightarrow> (nat \<Rightarrow> time) \<Rightarrow> task_claim \<Rightarrow> string \<Rightarrow> string \<Rightarrow> task \<Rightarrow>
      ('x, 'z) task_db_scheme \<Rightarrow> task_error + task_claim_result \<times> ('x, 'z) task_db_scheme" where
  "claim_selected_tx E i clk c workspace sid t db =
    bindE (read_task_lease_tx (clk 1) workspace (tk_id t) db) (\<lambda>found.
    if (case found of Some (_, active) \<Rightarrow> active | None \<Rightarrow> False) then Inl ErrTaskLeaseHeld
    else if (case found of Some (l, _) \<Rightarrow> lease_fence l \<ge> max_fence | None \<Rightarrow> False)
    then Inl ErrTaskFenceExhausted
    else
      let old = map_option fst found;
          fence = (case old of None \<Rightarrow> 1 | Some l \<Rightarrow> lease_fence l + 1);
          db1 = grant_task_lease clk sid (bounded_task_lease_ttl (cl_ttl c)) t old db in
      bindE (read_task_lease_tx (clk 3) workspace (tk_id t) db1) (\<lambda>granted.
      case granted of
        None \<Rightarrow> Inl ErrTaskLeaseExpired
      | Some (l, active) \<Rightarrow>
          if \<not> active then Inl ErrTaskLeaseExpired
          else record_claim_tx E i clk c workspace sid t fence (old \<noteq> None) l db1))"

text \<open>
  The scan: up to \<open>n\<close> more tasks are examined; a task without attempts left is dead-lettered and
  the scan goes on.  \<open>None\<close> is the committed "no ready task".  Iteration \<open>k\<close> reads the clock at
  the statements from \<open>6 * k + 1\<close>.
\<close>

fun claim_scan ::
    "nat \<Rightarrow> nat \<Rightarrow> 'x task_env \<Rightarrow> task_in \<Rightarrow> task_claim \<Rightarrow> string \<Rightarrow> string \<Rightarrow> string list \<Rightarrow>
      ('x, 'z) task_db_scheme \<Rightarrow> task_error + task_claim_result option \<times> ('x, 'z) task_db_scheme" where
  "claim_scan 0 k E i c workspace sid caps db = Inr (None, db)"
| "claim_scan (Suc n) k E i c workspace sid caps db =
    (let clk = (\<lambda>j. ti_clock i (6 * k + 1 + j)) in
    case select_claimable_task_tx (clk 0) (ti_locked i) workspace caps (cl_task c) db of
      None \<Rightarrow> Inr (None, db)
    | Some t \<Rightarrow>
        if tk_attempts t \<ge> tk_max_attempts t then
          bindE (transition_dead_letter_tx E (ti_io i k) (\<lambda>j. clk (Suc j)) t ''retry budget exhausted'' db) (\<lambda>db1.
          claim_scan n (Suc k) E i c workspace sid caps db1)
        else bindE (claim_selected_tx E (ti_io i k) clk c workspace sid t db) (\<lambda>(r, db1). Inr (Some r, db1)))"

definition claim_next_tx ::
    "'x task_env \<Rightarrow> task_in \<Rightarrow> task_claim \<Rightarrow> ('x, 'z) task_db_scheme \<Rightarrow>
      task_error + task_claim_result option \<times> ('x, 'z) task_db_scheme" where
  "claim_next_tx E i c db =
    (let workspace = normalize_workspace (cl_workspace c); sid = trim_space (cl_session c) in
    if workspace = [] \<or> sid = [] then Inl (TaskInvalid ''workspace_id and session_id are required'')
    else case sessions db (workspace, sid) of
      None \<Rightarrow> Inl ErrTaskNotFound
    | Some s \<Rightarrow>
        if ses_current s \<noteq> None \<and> (ses_status s = ''busy'' \<or> ses_status s = ''working'')
        then Inl ErrTaskSessionBusy
        else claim_scan 100 0 E i c workspace sid (ses_capabilities s) db)"

definition claim_next ::
    "'x task_env \<Rightarrow> task_in \<Rightarrow> task_claim \<Rightarrow> ('x, 'z) task_db_scheme \<Rightarrow>
      (task_error + task_claim_result) \<times> ('x, 'z) task_db_scheme" where
  "claim_next E i c db =
    (case in_tx (claim_next_tx E i c) db of
      (Inl e, db') \<Rightarrow> (Inl e, db')
    | (Inr None, db') \<Rightarrow> (Inl ErrTaskNoReady, db')
    | (Inr (Some r), db') \<Rightarrow> (Inr r, db'))"

section \<open>Renew\<close>

text \<open>The owner is trimmed for the authorisation and not for the update.\<close>

definition renew_task_tx ::
    "'x task_env \<Rightarrow> task_in \<Rightarrow> string \<Rightarrow> int \<Rightarrow> string \<Rightarrow> int \<Rightarrow> duration \<Rightarrow> string \<Rightarrow>
      ('x, 'z) task_db_scheme \<Rightarrow> task_error + (task_lease \<times> event) \<times> ('x, 'z) task_db_scheme" where
  "renew_task_tx E i workspace0 tid owner fence ttl0 actor0 db =
    (let workspace = normalize_workspace workspace0; clk = ti_clock i in
    bindE (validate_task_lease_identity workspace owner tid) (\<lambda>_.
    if fence = 0 then Inl ErrTaskLeaseFenced
    else bindE (read_task_tx workspace tid db) (\<lambda>t.
    bindE (authorize_task_lease_tx (clk 0) t owner fence db) (\<lambda>_.
    let ttl = bounded_task_lease_ttl ttl0;
        db1 = update_lease workspace tid (\<lambda>l. lease_owner l = owner \<and> lease_fence l = fence)
          (\<lambda>l. l\<lparr>lease_until := add_millis (clk 1) (milliseconds ttl), lease_renewed := clk 1\<rparr>) db in
    bindE (read_task_lease_tx (clk 2) workspace tid db1) (\<lambda>found.
    case found of
      None \<Rightarrow> Inl ErrTaskLeaseExpired
    | Some (l, active) \<Rightarrow>
        if \<not> active then Inl ErrTaskLeaseExpired
        else
          let actor = (if trim_space actor0 = [] then owner else actor0) in
          bindE (new_task_event (ti_io i 0) ''task.lease_renewed''
            (Some (json_object [(''fence'', show_int fence), (''lease_until'', te_time E (lease_until l)),
              (''owner_id'', json_string owner), (''task_id'', show_int tid)]))
            workspace tid owner actor []) (\<lambda>e.
          bindE (append_task_event (te_events E) (ti_io i 0) e db1) (\<lambda>(x, db2). Inr ((l, x), db2))))))))"

definition renew_task ::
    "'x task_env \<Rightarrow> task_in \<Rightarrow> string \<Rightarrow> int \<Rightarrow> string \<Rightarrow> int \<Rightarrow> duration \<Rightarrow> string \<Rightarrow>
      ('x, 'z) task_db_scheme \<Rightarrow> (task_error + task_lease \<times> event) \<times> ('x, 'z) task_db_scheme" where
  "renew_task E i workspace tid owner fence ttl actor = in_tx (renew_task_tx E i workspace tid owner fence ttl actor)"

section \<open>Outcomes\<close>

record task_outcome =
  oc_workspace :: string
  oc_task :: int
  oc_owner :: string
  oc_fence :: int
  oc_result :: string
  oc_status :: string
  oc_key :: string
  oc_actor :: string
  oc_payload :: string

record task_mutation =
  mt_task :: task
  mt_event :: event
  mt_deduped :: bool
  mt_retry_scheduled :: bool

definition release_task_lease_and_session_tx ::
    "(nat \<Rightarrow> time) \<Rightarrow> task \<Rightarrow> string \<Rightarrow> ('x, 'z) task_db_scheme \<Rightarrow> ('x, 'z) task_db_scheme" where
  "release_task_lease_and_session_tx clk t owner db =
    (let db1 = update_lease (tk_workspace t) (tk_id t)
          (\<lambda>l. lease_owner l = trim_space owner \<and> lease_fence l = tk_fence t \<and> lease_released l = None)
          (\<lambda>l. l\<lparr>lease_until := clk 0, lease_released := Some (clk 0), lease_renewed := clk 0\<rparr>) db in
      case tk_assigned t of
        None \<Rightarrow> db1
      | Some sid \<Rightarrow> update_session (tk_workspace t) sid (\<lambda>s. ses_current s = Some (tk_id t))
          (\<lambda>s. s\<lparr>ses_status := ''idle'', ses_current := None, ses_heartbeat := clk 1\<rparr>) db1)"

definition complete_or_progress_tx ::
    "'x task_env \<Rightarrow> task_in \<Rightarrow> task_outcome \<Rightarrow> string \<Rightarrow> ('x, 'z) task_db_scheme \<Rightarrow>
      task_error + task_mutation \<times> ('x, 'z) task_db_scheme" where
  "complete_or_progress_tx E i o' status db =
    (let workspace = normalize_workspace (oc_workspace o'); clk = ti_clock i in
    bindE (read_task_tx workspace (oc_task o') db) (\<lambda>t.
    let assigned = (if status = ''in_progress'' then trim_space (oc_owner o') else []);
        etype = (if status = ''done'' then ''task.completed'' else ''task.progressed'') in
    bindE (outcome_event (ti_io i 0) etype (json_marshal_raw (oc_payload o')) workspace (tk_id t)
      (oc_owner o') (oc_actor o')
      [task_status_delta (tk_id t) status, task_string_delta (tk_id t) ''result'' (oc_result o'),
       task_string_delta (tk_id t) ''assigned_session'' assigned]) (\<lambda>e0.
    let e = e0\<lparr>ev_idempotency := trim_space (oc_key o')\<rparr> in
    bindE (resolve_existing_idempotency_tx (te_events E) workspace (oc_key o') e db) (\<lambda>duplicate.
    case duplicate of
      Some x \<Rightarrow> Inr (\<lparr>mt_task = t, mt_event = x, mt_deduped = True, mt_retry_scheduled = False\<rparr>, db)
    | None \<Rightarrow>
        if status = ''done'' \<and> is_task_terminal (tk_status t) then Inl ErrTaskTerminal
        else bindE (authorize_task_mutation (clk 0) t (oc_owner o') (oc_fence o') (status = ''done'') db) (\<lambda>_.
        bindE (append_task_event (te_events E) (ti_io i 0) e db) (\<lambda>(x, db1).
        let db2 = update_task workspace (oc_task o') (\<lambda>r. r\<lparr>tk_status := status,
              tk_result := Some (oc_result o'),
              tk_completed_at := (if status = ''done'' then Some (clk 1) else None),
              tk_assigned := (if status = ''done'' then None else Some assigned),
              tk_next_attempt := clk 1, tk_last_error := [], tk_failure_class := [],
              tk_retryable := None\<rparr>) db1;
            db3 = (if status = ''done''
              then release_task_lease_and_session_tx (\<lambda>j. clk (2 + j)) t (oc_owner o') db2 else db2) in
        bindE (latest_event_for_idempotency_or_event workspace (oc_key o') x db3) (\<lambda>stored.
        bindE (read_task_tx workspace (oc_task o') db3) (\<lambda>updated.
        Inr (\<lparr>mt_task = updated, mt_event = stored, mt_deduped = False, mt_retry_scheduled = False\<rparr>,
             db3)))))))))"

definition complete_task ::
    "'x task_env \<Rightarrow> task_in \<Rightarrow> task_outcome \<Rightarrow> ('x, 'z) task_db_scheme \<Rightarrow>
      (task_error + task_mutation) \<times> ('x, 'z) task_db_scheme" where
  "complete_task E i o' db =
    (let s = trim_space (oc_status o'); status = (if s = [] then ''done'' else s) in
      if status \<noteq> ''done'' \<and> status \<noteq> ''in_progress'' then (Inl ErrTaskInvalidStatus, db)
      else in_tx (complete_or_progress_tx E i o' status) db)"

record task_failure =
  tf_workspace :: string
  tf_task :: int
  tf_owner :: string
  tf_fence :: int
  tf_error :: string
  tf_class :: string
  tf_retryable :: "bool option"
  tf_retry_after :: "duration option"
  tf_key :: string
  tf_actor :: string
  tf_payload :: string

definition failure_retryable :: "string \<Rightarrow> bool option \<Rightarrow> bool" where
  "failure_retryable class given =
    (case given of
      Some b \<Rightarrow> b
    | None \<Rightarrow> class = ''transient'' \<or> class = ''timeout'' \<or> class = ''rate_limited'')"

definition fail_task_tx ::
    "'x task_env \<Rightarrow> task_in \<Rightarrow> task_failure \<Rightarrow> string \<Rightarrow> ('x, 'z) task_db_scheme \<Rightarrow>
      task_error + task_mutation \<times> ('x, 'z) task_db_scheme" where
  "fail_task_tx E i f class db =
    (let workspace = normalize_workspace (tf_workspace f); clk = ti_clock i;
         retryable = failure_retryable class (tf_retryable f) in
    bindE (read_task_tx workspace (tf_task f) db) (\<lambda>t.
    let will_retry = (retryable \<and> tk_attempts t < tk_max_attempts t) in
    bindE (existing_idempotency_event_tx workspace (tf_key f) db) (\<lambda>existing.
    let etype = (case existing of
            Some x \<Rightarrow> ev_type x
          | None \<Rightarrow> if will_retry then ''task.retry_scheduled''
              else if retryable then ''task.deadlettered'' else ''task.failed'');
        estatus = (if etype = ''task.retry_scheduled'' then ''pending''
          else if etype = ''task.deadlettered'' then ''deadletter'' else ''failed'');
        payload = (if tf_payload f = []
          then Some (json_object [(''error'', json_string (tf_error f)), (''failure_class'', json_string class),
            (''retryable'', json_bool retryable), (''task_id'', show_int (tf_task f))])
          else json_marshal_raw (tf_payload f)) in
    bindE (outcome_event (ti_io i 0) etype payload workspace (tf_task f) (tf_owner f) (tf_actor f)
      [task_status_delta (tf_task f) estatus, task_string_delta (tf_task f) ''result'' (tf_error f),
       task_string_delta (tf_task f) ''assigned_session'' []]) (\<lambda>e0.
    let e = e0\<lparr>ev_idempotency := trim_space (tf_key f)\<rparr> in
    bindE (resolve_existing_idempotency_tx (te_events E) workspace (tf_key f) e db) (\<lambda>duplicate.
    case duplicate of
      Some x \<Rightarrow> Inr (\<lparr>mt_task = t, mt_event = x, mt_deduped = True,
        mt_retry_scheduled = (ev_type x = ''task.retry_scheduled'')\<rparr>, db)
    | None \<Rightarrow>
        if is_task_terminal (tk_status t) then Inl ErrTaskTerminal
        else bindE (authorize_task_mutation (clk 0) t (tf_owner f) (tf_fence f) True db) (\<lambda>_.
        let status = (if will_retry then ''pending'' else if retryable then ''deadletter'' else ''failed'') in
        bindE (append_task_event (te_events E) (ti_io i 0) e db) (\<lambda>(x, db1).
        let delay = retry_delay (tk_attempts t) (tf_retry_after f);
            db2 = update_task workspace (tf_task f) (\<lambda>r. r\<lparr>tk_status := status,
              tk_result := Some (tf_error f), tk_assigned := None,
              tk_completed_at := (if status = ''failed'' \<or> status = ''deadletter'' then Some (clk 1) else None),
              tk_next_attempt := (if status = ''pending'' then add_millis (clk 1) (milliseconds delay) else clk 1),
              tk_last_error := tf_error f, tk_failure_class := class, tk_retryable := Some retryable\<rparr>) db1;
            db3 = release_task_lease_and_session_tx (\<lambda>j. clk (2 + j)) t (tf_owner f) db2 in
        bindE (latest_event_for_idempotency_or_event workspace (tf_key f) x db3) (\<lambda>stored.
        bindE (read_task_tx workspace (tf_task f) db3) (\<lambda>updated.
        Inr (\<lparr>mt_task = updated, mt_event = stored, mt_deduped = False, mt_retry_scheduled = will_retry\<rparr>,
             db3))))))))))"

definition fail_task ::
    "'x task_env \<Rightarrow> task_in \<Rightarrow> task_failure \<Rightarrow> ('x, 'z) task_db_scheme \<Rightarrow>
      (task_error + task_mutation) \<times> ('x, 'z) task_db_scheme" where
  "fail_task E i f db =
    (let c = trim_space (tf_class f); class = (if c = [] then ''unknown'' else c) in
      if \<not> is_failure_class class then (Inl (TaskInvalid ''unknown failure_class''), db)
      else in_tx (fail_task_tx E i f class) db)"

record task_cancel =
  cn_workspace :: string
  cn_task :: int
  cn_owner :: string
  cn_fence :: int
  cn_reason :: string
  cn_key :: string
  cn_actor :: string
  cn_payload :: string

definition cancel_task_tx ::
    "'x task_env \<Rightarrow> task_in \<Rightarrow> task_cancel \<Rightarrow> ('x, 'z) task_db_scheme \<Rightarrow>
      task_error + task_mutation \<times> ('x, 'z) task_db_scheme" where
  "cancel_task_tx E i c db =
    (let workspace = normalize_workspace (cn_workspace c); clk = ti_clock i in
    bindE (read_task_tx workspace (cn_task c) db) (\<lambda>t.
    let payload = (if cn_payload c = []
          then Some (json_object [(''reason'', json_string (cn_reason c)), (''task_id'', show_int (cn_task c))])
          else json_marshal_raw (cn_payload c)) in
    bindE (outcome_event (ti_io i 0) ''task.cancelled'' payload workspace (cn_task c) (cn_owner c) (cn_actor c)
      [task_status_delta (cn_task c) ''cancelled'', task_string_delta (cn_task c) ''result'' (cn_reason c),
       task_string_delta (cn_task c) ''assigned_session'' []]) (\<lambda>e0.
    let e = e0\<lparr>ev_idempotency := trim_space (cn_key c)\<rparr> in
    bindE (resolve_existing_idempotency_tx (te_events E) workspace (cn_key c) e db) (\<lambda>duplicate.
    case duplicate of
      Some x \<Rightarrow> Inr (\<lparr>mt_task = t, mt_event = x, mt_deduped = True, mt_retry_scheduled = False\<rparr>, db)
    | None \<Rightarrow>
        if is_task_terminal (tk_status t) then Inl ErrTaskTerminal
        else bindE (authorize_task_mutation (clk 0) t (cn_owner c) (cn_fence c) True db) (\<lambda>_.
        bindE (append_task_event (te_events E) (ti_io i 0) e db) (\<lambda>(x, db1).
        let db2 = update_task workspace (cn_task c) (\<lambda>r. r\<lparr>tk_status := ''cancelled'',
              tk_result := Some (cn_reason c), tk_assigned := None, tk_completed_at := Some (clk 1),
              tk_cancelled_at := Some (clk 1), tk_next_attempt := clk 1\<rparr>) db1;
            db3 = release_task_lease_and_session_tx (\<lambda>j. clk (2 + j)) t (cn_owner c) db2 in
        bindE (latest_event_for_idempotency_or_event workspace (cn_key c) x db3) (\<lambda>stored.
        bindE (read_task_tx workspace (cn_task c) db3) (\<lambda>updated.
        Inr (\<lparr>mt_task = updated, mt_event = stored, mt_deduped = False, mt_retry_scheduled = False\<rparr>,
             db3)))))))))"

definition cancel_task ::
    "'x task_env \<Rightarrow> task_in \<Rightarrow> task_cancel \<Rightarrow> ('x, 'z) task_db_scheme \<Rightarrow>
      (task_error + task_mutation) \<times> ('x, 'z) task_db_scheme" where
  "cancel_task E i c = in_tx (cancel_task_tx E i c)"

end
