(* ===== verification/Task_Lifecycle.thy ===== *)
theory Task_Lifecycle
  imports Task_Store
begin

text \<open>
  The life cycle of tasks: what each operation of the task store does to the task rows, the
  leases and the dependency edges, the invariant these tables keep, and the properties that rest
  on it (fencing, terminal states, retry budget, dependencies).

  \<open>core\<close> is the part of the database the life cycle is about.  A history (\<open>task_step\<close>) is a
  sequence of task operations, successful or not, interleaved with arbitrary writes to the other
  tables.
\<close>

section \<open>The core of the database\<close>

record task_core =
  c_tasks :: "task list"
  c_deps :: "(string \<times> int \<times> int) list"
  c_leases :: "int lease_table"

definition core :: "('x, 'z) task_db_scheme \<Rightarrow> task_core" where
  "core db = \<lparr>c_tasks = tasks db, c_deps = task_deps db, c_leases = task_leases db\<rparr>"

lemma core_eq: "core a = core b \<longleftrightarrow> tasks a = tasks b \<and> task_deps a = task_deps b \<and> task_leases a = task_leases b"
  by (simp add: core_def)

lemma append_tx_more:
  assumes "append_tx E i e db = Inr (r, db')"
  shows "control_db.more db' = control_db.more db"
proof -
  obtain x dup where "r = (x, dup)" by fastforce
  with assms have "append_tx E i e db = Inr ((x, dup), db')" by simp
  then show ?thesis by (cases rule: append_tx_Inr) simp_all
qed

lemma append_task_event_frame:
  assumes "append_task_event E i e db = Inr (x, db')"
  shows "tasks db' = tasks db" and "task_deps db' = task_deps db" and "task_leases db' = task_leases db"
    and "sessions db' = sessions db" and "core db' = core db"
proof -
  have "control_db.more db' = control_db.more db"
    using assms by (auto simp: append_task_event_def results dest: append_tx_more)
  then show "tasks db' = tasks db" and "task_deps db' = task_deps db" and "task_leases db' = task_leases db"
    and "sessions db' = sessions db" and "core db' = core db"
    by (cases db; cases db'; simp add: core_def)+
qed

lemma find_task_core: "core a = core b \<Longrightarrow> find_task w t a = find_task w t b"
  by (simp add: find_task_def core_eq)

definition upd_rows :: "string \<Rightarrow> int \<Rightarrow> (task \<Rightarrow> task) \<Rightarrow> task list \<Rightarrow> task list" where
  "upd_rows w tid f ts = map (\<lambda>t. if tk_workspace t = w \<and> tk_id t = tid then f t else t) ts"

lemma core_simps [simp]:
  "core (update_session w s Q f db) = core db"
  "core (update_task w t g db) = (core db)\<lparr>c_tasks := upd_rows w t g (c_tasks (core db))\<rparr>"
  "core (update_lease w t P h db) = (core db)\<lparr>c_leases := update_where (w, t) P h (c_leases (core db))\<rparr>"
  by (simp_all add: core_def update_session_def update_task_def update_lease_def upd_rows_def)

section \<open>Effects of the operations\<close>

text \<open>What a released lease looks like after an outcome at instant \<open>n\<close>.\<close>

definition released_at :: "time \<Rightarrow> task_lease \<Rightarrow> task_lease" where
  "released_at n l = l\<lparr>lease_until := n, lease_released := Some n, lease_renewed := n\<rparr>"

text \<open>
  The effects of one successful transaction on the core.  \<open>dead\<close> and \<open>grant\<close> are the steps of
  a claim, \<open>finish\<close> is an outcome that leaves the task unassigned, \<open>progress\<close> one that keeps it.
\<close>

inductive core_step :: "time \<times> task_core \<Rightarrow> time \<times> task_core \<Rightarrow> bool" where
  insert: "n \<le> m \<Longrightarrow> tk_id r \<notin> tk_id ` set (c_tasks s) \<Longrightarrow> tk_workspace r = w \<Longrightarrow> w \<noteq> [] \<Longrightarrow>
    tk_status r = ''pending'' \<Longrightarrow> tk_assigned r = None \<Longrightarrow> tk_attempts r = 0 \<Longrightarrow> tk_fence r = 0 \<Longrightarrow>
    1 \<le> tk_max_attempts r \<Longrightarrow> tk_max_attempts r \<le> max_task_attempts \<Longrightarrow>
    \<forall>(w', a, b) \<in> set ds. w' = w \<and> a = tk_id r \<and> (\<exists>d \<in> set (c_tasks s). tk_workspace d = w \<and> tk_id d = b) \<Longrightarrow>
    core_step (n, s) (m, s\<lparr>c_tasks := c_tasks s @ [r], c_deps := c_deps s @ ds\<rparr>)"
| dead: "n \<le> k \<Longrightarrow> k \<le> k' \<Longrightarrow> k' \<le> m \<Longrightarrow> t \<in> set (c_tasks s) \<Longrightarrow> tk_status t \<notin> set terminal_statuses \<Longrightarrow>
    tk_max_attempts t \<le> tk_attempts t \<Longrightarrow>
    tk_status t = ''pending'' \<or>
    (\<exists>l. c_leases s (tk_workspace t, tk_id t) = Some l \<and> lease_released l = None \<and> lease_until l \<le> k) \<Longrightarrow>
    core_step (n, s) (m, s\<lparr>
      c_tasks := upd_rows (tk_workspace t) (tk_id t) (\<lambda>r. r\<lparr>tk_status := ''deadletter'',
        tk_result := Some reason, tk_completed_at := Some k, tk_assigned := None, tk_next_attempt := k,
        tk_last_error := reason, tk_failure_class := ''permanent'', tk_retryable := Some False\<rparr>) (c_tasks s),
      c_leases := update_where (tk_workspace t, tk_id t) (\<lambda>l. lease_released l = None) (released_at k') (c_leases s)\<rparr>)"
| grant: "n \<le> j \<Longrightarrow> j \<le> k \<Longrightarrow> k \<le> k' \<Longrightarrow> k' \<le> m \<Longrightarrow> t \<in> set (c_tasks s) \<Longrightarrow>
    tk_status t \<notin> set terminal_statuses \<Longrightarrow> tk_attempts t < tk_max_attempts t \<Longrightarrow> sid \<noteq> [] \<Longrightarrow>
    trim_space sid = sid \<Longrightarrow>
    (\<forall>(w, a, b) \<in> set (c_deps s). w = tk_workspace t \<and> a = tk_id t \<longrightarrow>
      (\<forall>d \<in> set (c_tasks s). tk_workspace d = w \<and> tk_id d = b \<longrightarrow> tk_status d = ''done'')) \<Longrightarrow>
    old = c_leases s (tk_workspace t, tk_id t) \<Longrightarrow>
    (\<forall>l. old = Some l \<longrightarrow> \<not> lease_active j l \<and> 0 < lease_fence l \<and> lease_fence l < max_fence) \<Longrightarrow>
    new = (case old of
      None \<Rightarrow> \<lparr>lease_workspace = tk_workspace t, lease_key = tk_id t, lease_owner = sid, lease_fence = 1,
        lease_until = until, lease_acquired = k, lease_renewed = k, lease_released = None\<rparr>
    | Some l \<Rightarrow> l\<lparr>lease_owner := sid, lease_fence := lease_fence l + 1, lease_until := until,
        lease_acquired := k, lease_renewed := k, lease_released := None\<rparr>) \<Longrightarrow>
    lease_active k' new \<Longrightarrow>
    core_step (n, s) (m, s\<lparr>
      c_tasks := upd_rows (tk_workspace t) (tk_id t) (\<lambda>r. r\<lparr>tk_status := ''claimed'', tk_assigned := Some sid,
        tk_claimed_at := Some ca, tk_attempts := tk_attempts r + 1, tk_fence := lease_fence new,
        tk_next_attempt := ca, tk_completed_at := None, tk_cancelled_at := None\<rparr>) (c_tasks s),
      c_leases := (c_leases s)((tk_workspace t, tk_id t) \<mapsto> new)\<rparr>)"
| extend: "n \<le> k \<Longrightarrow> k \<le> m \<Longrightarrow> c_leases s (w, tid) = Some l \<Longrightarrow> lease_active k l \<Longrightarrow>
    core_step (n, s) (m, s\<lparr>c_leases := update_where (w, tid) P
      (\<lambda>l. l\<lparr>lease_until := until, lease_renewed := k'\<rparr>) (c_leases s)\<rparr>)"
| finish: "n \<le> k \<Longrightarrow> k \<le> k' \<Longrightarrow> k' \<le> m \<Longrightarrow> t \<in> set (c_tasks s) \<Longrightarrow> tk_status t \<notin> set terminal_statuses \<Longrightarrow>
    tk_assigned t = None \<and> tk_status t = ''pending'' \<and> own = [] \<or>
    (\<exists>l. c_leases s (tk_workspace t, tk_id t) = Some l \<and> lease_active k l \<and> lease_owner l = own \<and>
      tk_assigned t \<noteq> None) \<Longrightarrow>
    (\<forall>r. tk_id (f r) = tk_id r \<and> tk_workspace (f r) = tk_workspace r \<and> tk_fence (f r) = tk_fence r \<and>
      tk_attempts (f r) = tk_attempts r \<and> tk_max_attempts (f r) = tk_max_attempts r \<and>
      tk_assigned (f r) = None \<and>
      (tk_status (f r) \<in> set terminal_statuses \<or>
       tk_status (f r) = ''pending'' \<and> tk_attempts t < tk_max_attempts t)) \<Longrightarrow>
    core_step (n, s) (m, s\<lparr>c_tasks := upd_rows (tk_workspace t) (tk_id t) f (c_tasks s),
      c_leases := update_where (tk_workspace t, tk_id t)
        (\<lambda>l. lease_owner l = own \<and> lease_fence l = tk_fence t \<and> lease_released l = None)
        (released_at k') (c_leases s)\<rparr>)"
| progress: "n \<le> k \<Longrightarrow> k \<le> m \<Longrightarrow> t \<in> set (c_tasks s) \<Longrightarrow>
    c_leases s (tk_workspace t, tk_id t) = Some l \<Longrightarrow> lease_active k l \<Longrightarrow> own = lease_owner l \<Longrightarrow>
    own \<noteq> [] \<Longrightarrow> tk_assigned t \<noteq> None \<Longrightarrow>
    (\<forall>r. tk_id (f r) = tk_id r \<and> tk_workspace (f r) = tk_workspace r \<and> tk_fence (f r) = tk_fence r \<and>
      tk_attempts (f r) = tk_attempts r \<and> tk_max_attempts (f r) = tk_max_attempts r \<and>
      tk_assigned (f r) = Some own \<and> tk_status (f r) = ''in_progress'') \<Longrightarrow>
    core_step (n, s) (m, s\<lparr>c_tasks := upd_rows (tk_workspace t) (tk_id t) f (c_tasks s)\<rparr>)"
| idle: "n \<le> m \<Longrightarrow> core_step (n, s) (m, s)"

section \<open>The operations refine the effects\<close>

lemma find_task_Some:
  "find_task w tid db = Some t \<Longrightarrow> t \<in> set (tasks db) \<and> tk_workspace t = w \<and> tk_id t = tid"
  by (auto simp: find_task_def find_Some_iff)

lemma read_task_tx_Inr:
  "read_task_tx w tid db = Inr t \<Longrightarrow> t \<in> set (c_tasks (core db)) \<and> tk_workspace t = w \<and> tk_id t = tid"
  by (auto simp: read_task_tx_def scan_task_def core_def dest: find_task_Some split: option.splits if_splits)

lemma read_task_lease_Some:
  "read_task_lease_tx now w tid db = Inr (Some (l, a)) \<longleftrightarrow>
    c_leases (core db) (w, tid) = Some l \<and> 0 < lease_fence l \<and> a = lease_active now l"
  by (auto simp: read_task_lease_tx_def core_def split: option.splits)

lemma read_task_lease_None:
  "read_task_lease_tx now w tid db = Inr None \<longleftrightarrow> c_leases (core db) (w, tid) = None"
  by (auto simp: read_task_lease_tx_def core_def split: option.splits)

lemma authorize_task_lease_ok:
  "authorize_task_lease_tx now t own f db = Inr l \<longleftrightarrow>
    trim_space own \<noteq> [] \<and> f \<noteq> 0 \<and> c_leases (core db) (tk_workspace t, tk_id t) = Some l \<and>
    0 < lease_fence l \<and> lease_fence l = f \<and> lease_owner l = trim_space own \<and>
    (\<exists>a. tk_assigned t = Some a \<and> trim_space a = trim_space own) \<and> lease_active now l"
proof (cases "task_leases db (tk_workspace t, tk_id t)")
  case None
  then show ?thesis
    by (simp add: authorize_task_lease_tx_def Let_def read_task_lease_tx_def core_def)
next
  case (Some q)
  then show ?thesis
    by (cases "tk_assigned t"; cases "lease_released q")
      (simp_all add: authorize_task_lease_tx_def Let_def read_task_lease_tx_def core_def lease_active_def,
        auto)
qed

lemma authorize_task_mutation_ok:
  "authorize_task_mutation now t own f allow db = Inr () \<longleftrightarrow>
    allow \<and> tk_assigned t = None \<and> tk_status t = ''pending'' \<and> trim_space own = [] \<and> f = 0 \<or>
    (\<exists>l. authorize_task_lease_tx now t own f db = Inr l)"
  by (auto simp: authorize_task_mutation_def results)

lemma select_claimable_Some:
  assumes "select_claimable_task_tx now locked w caps wanted db = Some t"
  shows "t \<in> set (tasks db)" and "claimable now w caps wanted db t" and "\<not> locked (tk_id t)"
proof -
  have "t \<in> set (sort_key tk_created_at (sort_key tk_id
      (filter (\<lambda>t. claimable now w caps wanted db t \<and> \<not> locked (tk_id t)) (tasks db))))"
    using assms by (auto simp: select_claimable_task_tx_def split: list.splits simp del: set_sort)
  then show "t \<in> set (tasks db)" and "claimable now w caps wanted db t" and "\<not> locked (tk_id t)"
    by simp_all
qed

lemma claimable_core:
  assumes "claimable now w caps wanted db t"
  shows "tk_workspace t = w" and "tk_status t \<notin> set terminal_statuses"
    and "\<forall>(w', a, b) \<in> set (c_deps (core db)). w' = tk_workspace t \<and> a = tk_id t \<longrightarrow>
      (\<forall>d \<in> set (c_tasks (core db)). tk_workspace d = w' \<and> tk_id d = b \<longrightarrow> tk_status d = ''done'')"
    and "tk_status t = ''pending'' \<and> tk_next_attempt t \<le> now \<or>
      (\<exists>l. c_leases (core db) (w, tk_id t) = Some l \<and> lease_released l = None \<and> lease_until l \<le> now)"
  using assms
  by (auto simp: claimable_def dependencies_done_def list_all_iff core_def terminal_statuses_def
      split: option.splits)

lemma dead_letter_core:
  assumes run: "transition_dead_letter_tx E i clk t reason db = Inr db'"
    and sel: "select_claimable_task_tx k0 locked w caps wanted db = Some t"
    and bud: "tk_max_attempts t \<le> tk_attempts t"
    and clk: "mono clk" "n \<le> clk 0" "k0 \<le> clk 0" "clk 1 \<le> m"
  shows "core_step (n, core db) (m, core db')"
proof -
  have le: "clk 0 \<le> clk 1" using clk(1) by (simp add: monoD)
  from run have c: "core db' = (core db)\<lparr>
      c_tasks := upd_rows (tk_workspace t) (tk_id t) (\<lambda>r. r\<lparr>tk_status := ''deadletter'',
        tk_result := Some reason, tk_completed_at := Some (clk 0), tk_assigned := None,
        tk_next_attempt := clk 0, tk_last_error := reason, tk_failure_class := ''permanent'',
        tk_retryable := Some False\<rparr>) (c_tasks (core db)),
      c_leases := update_where (tk_workspace t, tk_id t) (\<lambda>l. lease_released l = None)
        (released_at (clk 1)) (c_leases (core db))\<rparr>"
    by (auto simp: transition_dead_letter_tx_def results Let_def released_at_def [abs_def]
        dest!: append_task_event_frame(5) split: option.splits)
  show ?thesis unfolding c
    by (rule core_step.dead [OF clk(2) le clk(4)])
      (use select_claimable_Some [OF sel] claimable_core [of k0 w caps wanted db t] bud clk(3)
        in \<open>force simp: core_def\<close>)+
qed

lemma record_claim_core:
  assumes "record_claim_tx E i clk c w sid t fence takeover l db = Inr (r, db')"
  shows "core db' = core (update_task w (tk_id t) (\<lambda>r. r\<lparr>tk_status := ''claimed'',
        tk_assigned := Some sid, tk_claimed_at := Some (clk 4), tk_attempts := tk_attempts r + 1,
        tk_fence := fence, tk_next_attempt := clk 4, tk_completed_at := None, tk_cancelled_at := None\<rparr>) db) \<and>
    cm_lease r = l \<and> cm_takeover r = takeover"
  using assms unfolding record_claim_tx_def Let_def
  by (elim handler_elims) (auto dest!: append_task_event_frame(5))

lemma claim_selected_Inr:
  assumes "claim_selected_tx E i clk c w sid t db = Inr (r, db')"
  obtains found l where "read_task_lease_tx (clk 1) w (tk_id t) db = Inr found"
    and "\<not> (case found of Some (_, active) \<Rightarrow> active | None \<Rightarrow> False)"
    and "\<not> (case found of Some (l, _) \<Rightarrow> lease_fence l \<ge> max_fence | None \<Rightarrow> False)"
    and "read_task_lease_tx (clk 3) w (tk_id t)
      (grant_task_lease clk sid (bounded_task_lease_ttl (cl_ttl c)) t (map_option fst found) db) = Inr (Some (l, True))"
    and "record_claim_tx E i clk c w sid t
      (case map_option fst found of None \<Rightarrow> 1 | Some l \<Rightarrow> lease_fence l + 1) (map_option fst found \<noteq> None) l
      (grant_task_lease clk sid (bounded_task_lease_ttl (cl_ttl c)) t (map_option fst found) db) = Inr (r, db')"
proof -
  from assms obtain found granted where f: "read_task_lease_tx (clk 1) w (tk_id t) db = Inr found"
      "\<not> (case found of Some (_, active) \<Rightarrow> active | None \<Rightarrow> False)"
      "\<not> (case found of Some (l, _) \<Rightarrow> lease_fence l \<ge> max_fence | None \<Rightarrow> False)"
    and g: "read_task_lease_tx (clk 3) w (tk_id t)
      (grant_task_lease clk sid (bounded_task_lease_ttl (cl_ttl c)) t (map_option fst found) db) = Inr granted"
    and rest: "(case granted of None \<Rightarrow> Inl ErrTaskLeaseExpired
      | Some (l, active) \<Rightarrow> if \<not> active then Inl ErrTaskLeaseExpired
          else record_claim_tx E i clk c w sid t
      (case map_option fst found of None \<Rightarrow> 1 | Some l \<Rightarrow> lease_fence l + 1) (map_option fst found \<noteq> None) l
      (grant_task_lease clk sid (bounded_task_lease_ttl (cl_ttl c)) t (map_option fst found) db)) = Inr (r, db')"
    unfolding claim_selected_tx_def Let_def by (elim handler_elims)
  from rest obtain l where "granted = Some (l, True)" and "record_claim_tx E i clk c w sid t
      (case map_option fst found of None \<Rightarrow> 1 | Some l \<Rightarrow> lease_fence l + 1) (map_option fst found \<noteq> None) l
      (grant_task_lease clk sid (bounded_task_lease_ttl (cl_ttl c)) t (map_option fst found) db) = Inr (r, db')"
    by (cases granted) (auto simp del: not_None_eq split: if_splits)
  with f g show ?thesis by (intro that) simp_all
qed

lemma claim_selected_core:
  assumes run: "claim_selected_tx E i clk c w sid t db = Inr (r, db')"
    and sel: "select_claimable_task_tx k0 locked w caps wanted db = Some t"
    and bud: "tk_attempts t < tk_max_attempts t" and sid: "sid \<noteq> []" "trim_space sid = sid"
    and clk: "mono clk" "n \<le> clk 1" "clk 5 \<le> m"
  shows "core_step (n, core db) (m, core db')"
    and "\<exists>new. c_leases (core db') (w, tk_id t) = Some new \<and> cm_lease r = new \<and> lease_owner new = sid \<and>
      (cm_takeover r \<longrightarrow> (\<exists>l. c_leases (core db) (w, tk_id t) = Some l \<and> lease_fence new = lease_fence l + 1)) \<and>
      lease_active (clk 3) new"
    and "\<forall>q \<in> set (c_tasks (core db')). tk_workspace q = w \<and> tk_id q = tk_id t \<longrightarrow> tk_status q = ''claimed''"
proof -
  note t = select_claimable_Some [OF sel] and cl = claimable_core [OF select_claimable_Some(2) [OF sel]]
  have le: "clk 1 \<le> clk 2" "clk 2 \<le> clk 3" "clk 3 \<le> m"
    using clk(3) monoD [OF clk(1), of 1 2] monoD [OF clk(1), of 2 3] monoD [OF clk(1), of 3 5] by simp_all
  from run obtain found l where found: "read_task_lease_tx (clk 1) w (tk_id t) db = Inr found"
    and inactive: "\<not> (case found of Some (_, active) \<Rightarrow> active | None \<Rightarrow> False)"
    and room: "\<not> (case found of Some (l, _) \<Rightarrow> lease_fence l \<ge> max_fence | None \<Rightarrow> False)"
    and granted: "read_task_lease_tx (clk 3) w (tk_id t)
      (grant_task_lease clk sid (bounded_task_lease_ttl (cl_ttl c)) t (map_option fst found) db) = Inr (Some (l, True))"
    and rec: "record_claim_tx E i clk c w sid t
      (case map_option fst found of None \<Rightarrow> 1 | Some l \<Rightarrow> lease_fence l + 1) (map_option fst found \<noteq> None) l
      (grant_task_lease clk sid (bounded_task_lease_ttl (cl_ttl c)) t (map_option fst found) db) = Inr (r, db')"
    by (rule claim_selected_Inr)
  from record_claim_core [OF rec]
  have core': "core db' = core (update_task w (tk_id t) (\<lambda>r. r\<lparr>tk_status := ''claimed'',
        tk_assigned := Some sid, tk_claimed_at := Some (clk 4), tk_attempts := tk_attempts r + 1,
        tk_fence := (case map_option fst found of None \<Rightarrow> 1 | Some l \<Rightarrow> lease_fence l + 1),
        tk_next_attempt := clk 4, tk_completed_at := None, tk_cancelled_at := None\<rparr>)
      (grant_task_lease clk sid (bounded_task_lease_ttl (cl_ttl c)) t (map_option fst found) db))"
    and r: "cm_lease r = l" "cm_takeover r = (map_option fst found \<noteq> None)" by auto
  let ?ttl = "milliseconds (bounded_task_lease_ttl (cl_ttl c))"
  define old where "old = c_leases (core db) (tk_workspace t, tk_id t)"
  have old: "map_option fst found = old" "\<forall>l. old = Some l \<longrightarrow> \<not> lease_active (clk 1) l \<and> 0 < lease_fence l \<and> lease_fence l < max_fence"
    using found inactive room cl(1)
    by (cases found; auto simp: old_def read_task_lease_Some read_task_lease_None)+
  define new where "new = (case old of
      None \<Rightarrow> \<lparr>lease_workspace = tk_workspace t, lease_key = tk_id t, lease_owner = sid, lease_fence = 1,
        lease_until = add_millis (clk 2) ?ttl, lease_acquired = clk 2, lease_renewed = clk 2, lease_released = None\<rparr>
    | Some l \<Rightarrow> l\<lparr>lease_owner := sid, lease_fence := lease_fence l + 1, lease_until := add_millis (clk 2) ?ttl,
        lease_acquired := clk 2, lease_renewed := clk 2, lease_released := None\<rparr>)"
  have g: "core (grant_task_lease clk sid (bounded_task_lease_ttl (cl_ttl c)) t old db) =
      (core db)\<lparr>c_leases := (c_leases (core db))((tk_workspace t, tk_id t) \<mapsto> new)\<rparr>"
    unfolding grant_task_lease_def new_def
    by (cases old) (simp_all add: update_where_def old_def [symmetric], simp add: core_def)
  have l: "l = new" "lease_active (clk 3) new"
    using granted cl(1) by (auto simp: old(1) g read_task_lease_Some)
  have f: "(case old of None \<Rightarrow> 1 | Some l \<Rightarrow> lease_fence l + 1) = lease_fence new"
    by (simp add: new_def split: option.splits)
  have c: "core db' = (core db)\<lparr>
      c_tasks := upd_rows (tk_workspace t) (tk_id t) (\<lambda>r. r\<lparr>tk_status := ''claimed'', tk_assigned := Some sid,
        tk_claimed_at := Some (clk 4), tk_attempts := tk_attempts r + 1, tk_fence := lease_fence new,
        tk_next_attempt := clk 4, tk_completed_at := None, tk_cancelled_at := None\<rparr>) (c_tasks (core db)),
      c_leases := (c_leases (core db))((tk_workspace t, tk_id t) \<mapsto> new)\<rparr>"
    unfolding core' old(1) f using cl(1) by (simp add: g)
  show "core_step (n, core db) (m, core db')" unfolding c
    by (rule core_step.grant [where old = old, OF clk(2) le(1,2,3) _ cl(2) bud sid cl(3) old_def old(2) new_def l(2)])
      (use t(1) in \<open>simp add: core_def\<close>)
  show "\<exists>new. c_leases (core db') (w, tk_id t) = Some new \<and> cm_lease r = new \<and> lease_owner new = sid \<and>
      (cm_takeover r \<longrightarrow> (\<exists>l. c_leases (core db) (w, tk_id t) = Some l \<and> lease_fence new = lease_fence l + 1)) \<and>
      lease_active (clk 3) new"
    using c l r old(1) cl(1) old_def by (auto simp: new_def split: option.splits)
  show "\<forall>q \<in> set (c_tasks (core db')). tk_workspace q = w \<and> tk_id q = tk_id t \<longrightarrow> tk_status q = ''claimed''"
    using cl(1) by (auto simp: c upd_rows_def)
qed

lemma core_release [simp]:
  "core (release_task_lease_and_session_tx clk t own db) = (core db)\<lparr>c_leases :=
    update_where (tk_workspace t, tk_id t)
      (\<lambda>l. lease_owner l = trim_space own \<and> lease_fence l = tk_fence t \<and> lease_released l = None)
      (released_at (clk 0)) (c_leases (core db))\<rparr>"
  by (simp add: release_task_lease_and_session_tx_def Let_def released_at_def [abs_def] split: option.splits)

definition outcome_row :: "string \<Rightarrow> string \<Rightarrow> string \<Rightarrow> time \<Rightarrow> task \<Rightarrow> task" where
  "outcome_row status result assigned n r = r\<lparr>tk_status := status, tk_result := Some result,
    tk_completed_at := (if status = ''done'' then Some n else None),
    tk_assigned := (if status = ''done'' then None else Some assigned),
    tk_next_attempt := n, tk_last_error := [], tk_failure_class := [], tk_retryable := None\<rparr>"

definition failure_row :: "string \<Rightarrow> string \<Rightarrow> string \<Rightarrow> bool \<Rightarrow> duration \<Rightarrow> time \<Rightarrow> task \<Rightarrow> task" where
  "failure_row status err class retryable delay n r = r\<lparr>tk_status := status, tk_result := Some err,
    tk_assigned := None,
    tk_completed_at := (if status = ''failed'' \<or> status = ''deadletter'' then Some n else None),
    tk_next_attempt := (if status = ''pending'' then add_millis n (milliseconds delay) else n),
    tk_last_error := err, tk_failure_class := class, tk_retryable := Some retryable\<rparr>"

definition cancel_row :: "string \<Rightarrow> time \<Rightarrow> task \<Rightarrow> task" where
  "cancel_row reason n r = r\<lparr>tk_status := ''cancelled'', tk_result := Some reason, tk_assigned := None,
    tk_completed_at := Some n, tk_cancelled_at := Some n, tk_next_attempt := n\<rparr>"

lemma outcome_tail:
  assumes "bindE (append_task_event E i e db) (\<lambda>(x, db1).
      bindE (latest_event_for_idempotency_or_event w key x (F db1)) (\<lambda>stored.
      bindE (read_task_tx w tid (F db1)) (\<lambda>updated. Inr (G x stored updated, F db1)))) = Inr (r, db')"
  obtains x db1 stored updated where "append_task_event E i e db = Inr (x, db1)" and "db' = F db1"
    and "latest_event_for_idempotency_or_event w key x db' = Inr stored"
    and "read_task_tx w tid db' = Inr updated" and "r = G x stored updated"
  using assms by (elim handler_elims) auto

lemma complete_or_progress_Inr:
  assumes "complete_or_progress_tx E i o' status db = Inr (r, db')"
  defines "w \<equiv> normalize_workspace (oc_workspace o')"
  obtains (duplicate) "db' = db" and "mt_deduped r"
  | (applied) t x db1 e where "read_task_tx w (oc_task o') db = Inr t" and "\<not> mt_deduped r"
      and "status = ''done'' \<longrightarrow> \<not> is_task_terminal (tk_status t)"
      and "authorize_task_mutation (ti_clock i 0) t (oc_owner o') (oc_fence o') (status = ''done'') db = Inr ()"
      and "append_task_event (te_events E) (ti_io i 0) e db = Inr (x, db1)"
      and "db' = (let u = update_task w (oc_task o') (outcome_row status (oc_result o')
            (if status = ''in_progress'' then trim_space (oc_owner o') else []) (ti_clock i 1)) db1 in
          if status = ''done'' then release_task_lease_and_session_tx (\<lambda>j. ti_clock i (2 + j)) t (oc_owner o') u else u)"
      and "read_task_tx w (oc_task o') db' = Inr (mt_task r)"
proof -
  let ?as = "if status = ''in_progress'' then trim_space (oc_owner o') else []"
  let ?F = "\<lambda>t db1. (let u = update_task w (oc_task o') (outcome_row status (oc_result o') ?as (ti_clock i 1)) db1 in
          if status = ''done'' then release_task_lease_and_session_tx (\<lambda>j. ti_clock i (2 + j)) t (oc_owner o') u else u)"
  from assms(1) obtain t e duplicate where t: "read_task_tx w (oc_task o') db = Inr t"
    and rest: "(case duplicate of
      Some x \<Rightarrow> Inr (\<lparr>mt_task = t, mt_event = x, mt_deduped = True, mt_retry_scheduled = False\<rparr>, db)
    | None \<Rightarrow>
        if status = ''done'' \<and> is_task_terminal (tk_status t) then Inl ErrTaskTerminal
        else bindE (authorize_task_mutation (ti_clock i 0) t (oc_owner o') (oc_fence o') (status = ''done'') db) (\<lambda>_.
        bindE (append_task_event (te_events E) (ti_io i 0) e db) (\<lambda>(x, db1).
        bindE (latest_event_for_idempotency_or_event w (oc_key o') x (?F t db1)) (\<lambda>stored.
        bindE (read_task_tx w (oc_task o') (?F t db1)) (\<lambda>updated.
        Inr (\<lparr>mt_task = updated, mt_event = stored, mt_deduped = False, mt_retry_scheduled = False\<rparr>,
             ?F t db1)))))) = Inr (r, db')"
    unfolding complete_or_progress_tx_def Let_def w_def outcome_row_def [abs_def]
    by (elim handler_elims)
  show ?thesis
  proof (cases duplicate)
    case (Some x)
    with rest duplicate show ?thesis by auto
  next
    case None
    with rest have guard: "status = ''done'' \<longrightarrow> \<not> is_task_terminal (tk_status t)"
      and A: "bindE (authorize_task_mutation (ti_clock i 0) t (oc_owner o') (oc_fence o') (status = ''done'') db) (\<lambda>_.
        bindE (append_task_event (te_events E) (ti_io i 0) e db) (\<lambda>(x, db1).
        bindE (latest_event_for_idempotency_or_event w (oc_key o') x (?F t db1)) (\<lambda>stored.
        bindE (read_task_tx w (oc_task o') (?F t db1)) (\<lambda>updated.
        Inr (\<lparr>mt_task = updated, mt_event = stored, mt_deduped = False, mt_retry_scheduled = False\<rparr>,
             ?F t db1))))) = Inr (r, db')"
      by (auto split: if_splits simp del: Let_def)
    from A obtain u where au: "authorize_task_mutation (ti_clock i 0) t (oc_owner o') (oc_fence o') (status = ''done'') db = Inr u"
      and B: "bindE (append_task_event (te_events E) (ti_io i 0) e db) (\<lambda>(x, db1).
        bindE (latest_event_for_idempotency_or_event w (oc_key o') x (?F t db1)) (\<lambda>stored.
        bindE (read_task_tx w (oc_task o') (?F t db1)) (\<lambda>updated.
        Inr (\<lparr>mt_task = updated, mt_event = stored, mt_deduped = False, mt_retry_scheduled = False\<rparr>,
             ?F t db1)))) = Inr (r, db')"
      by (rule bindE_InrE)
    from B show ?thesis
      by (rule outcome_tail [where F = "?F t"]) (use t guard au in \<open>intro applied; simp\<close>)
  qed
qed

lemma fail_task_Inr:
  assumes "fail_task_tx E i f class db = Inr (r, db')"
  defines "w \<equiv> normalize_workspace (tf_workspace f)"
    and "retryable \<equiv> failure_retryable class (tf_retryable f)"
  obtains (duplicate) "db' = db" and "mt_deduped r"
  | (applied) t x db1 e status where "read_task_tx w (tf_task f) db = Inr t" and "\<not> mt_deduped r"
      and "\<not> is_task_terminal (tk_status t)"
      and "authorize_task_mutation (ti_clock i 0) t (tf_owner f) (tf_fence f) True db = Inr ()"
      and "append_task_event (te_events E) (ti_io i 0) e db = Inr (x, db1)"
      and "mt_retry_scheduled r = (retryable \<and> tk_attempts t < tk_max_attempts t)"
      and "status = (if mt_retry_scheduled r then ''pending'' else if retryable then ''deadletter'' else ''failed'')"
      and "db' = release_task_lease_and_session_tx (\<lambda>j. ti_clock i (2 + j)) t (tf_owner f)
            (update_task w (tf_task f) (failure_row status (tf_error f) class retryable
              (retry_delay (tk_attempts t) (tf_retry_after f)) (ti_clock i 1)) db1)"
      and "read_task_tx w (tf_task f) db' = Inr (mt_task r)"
proof -
  let ?st = "\<lambda>t. (if retryable \<and> tk_attempts t < tk_max_attempts t then ''pending''
    else if retryable then ''deadletter'' else ''failed'')"
  let ?F = "\<lambda>t db1. release_task_lease_and_session_tx (\<lambda>j. ti_clock i (2 + j)) t (tf_owner f)
            (update_task w (tf_task f) (failure_row (?st t) (tf_error f) class retryable
              (retry_delay (tk_attempts t) (tf_retry_after f)) (ti_clock i 1)) db1)"
  from assms(1) obtain t e duplicate where t: "read_task_tx w (tf_task f) db = Inr t"
    and rest: "(case duplicate of
      Some x \<Rightarrow> Inr (\<lparr>mt_task = t, mt_event = x, mt_deduped = True,
        mt_retry_scheduled = (ev_type x = ''task.retry_scheduled'')\<rparr>, db)
    | None \<Rightarrow>
        if is_task_terminal (tk_status t) then Inl ErrTaskTerminal
        else bindE (authorize_task_mutation (ti_clock i 0) t (tf_owner f) (tf_fence f) True db) (\<lambda>_.
        bindE (append_task_event (te_events E) (ti_io i 0) e db) (\<lambda>(x, db1).
        bindE (latest_event_for_idempotency_or_event w (tf_key f) x (?F t db1)) (\<lambda>stored.
        bindE (read_task_tx w (tf_task f) (?F t db1)) (\<lambda>updated.
        Inr (\<lparr>mt_task = updated, mt_event = stored, mt_deduped = False,
          mt_retry_scheduled = (retryable \<and> tk_attempts t < tk_max_attempts t)\<rparr>, ?F t db1)))))) = Inr (r, db')"
    unfolding fail_task_tx_def Let_def w_def retryable_def failure_row_def [abs_def]
    by (elim handler_elims)
  show ?thesis
  proof (cases duplicate)
    case (Some x)
    with rest duplicate show ?thesis by auto
  next
    case None
    from rest [unfolded None option.case] show ?thesis
      by (elim handler_elims) (rule applied [OF t], auto)
  qed
qed

lemma cancel_task_Inr:
  assumes "cancel_task_tx E i c db = Inr (r, db')"
  defines "w \<equiv> normalize_workspace (cn_workspace c)"
  obtains (duplicate) "db' = db" and "mt_deduped r"
  | (applied) t x db1 e where "read_task_tx w (cn_task c) db = Inr t" and "\<not> mt_deduped r"
      and "\<not> is_task_terminal (tk_status t)"
      and "authorize_task_mutation (ti_clock i 0) t (cn_owner c) (cn_fence c) True db = Inr ()"
      and "append_task_event (te_events E) (ti_io i 0) e db = Inr (x, db1)"
      and "db' = release_task_lease_and_session_tx (\<lambda>j. ti_clock i (2 + j)) t (cn_owner c)
            (update_task w (cn_task c) (cancel_row (cn_reason c) (ti_clock i 1)) db1)"
      and "read_task_tx w (cn_task c) db' = Inr (mt_task r)"
proof -
  let ?F = "\<lambda>t db1. release_task_lease_and_session_tx (\<lambda>j. ti_clock i (2 + j)) t (cn_owner c)
            (update_task w (cn_task c) (cancel_row (cn_reason c) (ti_clock i 1)) db1)"
  from assms(1) obtain t e duplicate where t: "read_task_tx w (cn_task c) db = Inr t"
    and rest: "(case duplicate of
      Some x \<Rightarrow> Inr (\<lparr>mt_task = t, mt_event = x, mt_deduped = True, mt_retry_scheduled = False\<rparr>, db)
    | None \<Rightarrow>
        if is_task_terminal (tk_status t) then Inl ErrTaskTerminal
        else bindE (authorize_task_mutation (ti_clock i 0) t (cn_owner c) (cn_fence c) True db) (\<lambda>_.
        bindE (append_task_event (te_events E) (ti_io i 0) e db) (\<lambda>(x, db1).
        bindE (latest_event_for_idempotency_or_event w (cn_key c) x (?F t db1)) (\<lambda>stored.
        bindE (read_task_tx w (cn_task c) (?F t db1)) (\<lambda>updated.
        Inr (\<lparr>mt_task = updated, mt_event = stored, mt_deduped = False, mt_retry_scheduled = False\<rparr>,
             ?F t db1)))))) = Inr (r, db')"
    unfolding cancel_task_tx_def Let_def w_def cancel_row_def [abs_def]
    by (elim handler_elims)
  show ?thesis
  proof (cases duplicate)
    case (Some x)
    with rest duplicate show ?thesis by auto
  next
    case None
    from rest [unfolded None option.case] show ?thesis
      by (elim handler_elims) (rule applied [OF t], auto)
  qed
qed

lemma renew_task_Inr:
  assumes "renew_task_tx E i w0 tid own fence ttl actor db = Inr ((l, x), db')"
  defines "w \<equiv> normalize_workspace w0"
  obtains t e db1 q where "read_task_tx w tid db = Inr t"
    and "authorize_task_lease_tx (ti_clock i 0) t own fence db = Inr q"
    and "db1 = update_lease w tid (\<lambda>l. lease_owner l = own \<and> lease_fence l = fence)
          (\<lambda>l. l\<lparr>lease_until := add_millis (ti_clock i 1) (milliseconds (bounded_task_lease_ttl ttl)),
            lease_renewed := ti_clock i 1\<rparr>) db"
    and "read_task_lease_tx (ti_clock i 2) w tid db1 = Inr (Some (l, True))"
    and "append_task_event (te_events E) (ti_io i 0) e db1 = Inr (x, db')"
proof -
  let ?d = "update_lease w tid (\<lambda>l. lease_owner l = own \<and> lease_fence l = fence)
          (\<lambda>l. l\<lparr>lease_until := add_millis (ti_clock i 1) (milliseconds (bounded_task_lease_ttl ttl)),
            lease_renewed := ti_clock i 1\<rparr>) db"
  from assms(1) obtain t q found where t: "read_task_tx w tid db = Inr t"
    and q: "authorize_task_lease_tx (ti_clock i 0) t own fence db = Inr q"
    and found: "read_task_lease_tx (ti_clock i 2) w tid ?d = Inr found"
    and rest: "(case found of
      None \<Rightarrow> Inl ErrTaskLeaseExpired
    | Some (l, active) \<Rightarrow>
        if \<not> active then Inl ErrTaskLeaseExpired
        else
          bindE (new_task_event (ti_io i 0) ''task.lease_renewed''
            (Some (json_object [(''fence'', show_int fence), (''lease_until'', te_time E (lease_until l)),
              (''owner_id'', json_string own), (''task_id'', show_int tid)]))
            w tid own (if trim_space actor = [] then own else actor) []) (\<lambda>e.
          bindE (append_task_event (te_events E) (ti_io i 0) e ?d) (\<lambda>(x, db2). Inr ((l, x), db2)))) = Inr ((l, x), db')"
    unfolding renew_task_tx_def Let_def w_def by (elim handler_elims)
  from rest obtain l' e where "found = Some (l', True)" and "append_task_event (te_events E) (ti_io i 0) e ?d = Inr (x, db')"
    and "l' = l"
    by (auto simp: results split: option.splits if_splits)
  with t q found show ?thesis by (intro that [OF t q refl]) auto
qed

lemma insert_dependencies_Inr:
  assumes "insert_dependencies w tid ds db = Inr db'"
  shows "core db' = (core db)\<lparr>c_deps := c_deps (core db) @ map (\<lambda>d. (w, tid, d)) ds\<rparr> \<and>
    (\<forall>d \<in> set ds. d \<noteq> tid \<and> find_task w d db \<noteq> None)"
  using assms
proof (induction ds arbitrary: db)
  case (Cons d ds)
  let ?db = "db\<lparr>task_deps := task_deps db @ [(w, tid, d)]\<rparr>"
  from Cons.prems have "find_task w d db \<noteq> None" "d \<noteq> tid" "insert_dependencies w tid ds ?db = Inr db'"
    by (auto split: if_splits)
  moreover have "find_task w x ?db = find_task w x db" for x by (simp add: find_task_def)
  ultimately show ?case using Cons.IH [of ?db] by (simp add: core_def)
qed (simp add: core_def)

lemma normalize_workspace_nonempty [simp]: "normalize_workspace w \<noteq> []"
  by (simp add: normalize_workspace_def Let_def default_workspace_id_def)

lemma create_tx_Inr:
  assumes "create_tx E i c db = Inr ((t, x), db')"
  obtains (duplicate) old where "db' = db" and "old \<in> set (tasks db)" and "tk_create_key old = Some (trim_space (cr_key c))"
  | (created) r ds where "r = new_task_row i (c\<lparr>cr_title := trim_space (cr_title c), cr_brief := trim_space (cr_brief c),
          cr_created_by := trim_space (cr_created_by c)\<rparr>) (normalize_workspace (cr_workspace c)) (tk_max_attempts r)
          (case (tk_create_key r, tk_create_hash r) of (Some k, Some h) \<Rightarrow> Some (k, h) | _ \<Rightarrow> None)"
      and "1 \<le> tk_max_attempts r" and "tk_max_attempts r \<le> max_task_attempts"
      and "tk_id r \<notin> tk_id ` set (tasks db)"
      and "ds = map (\<lambda>d. (tk_workspace r, tk_id r, d)) (normalize_task_ids (cr_depends_on c))"
      and "\<forall>d \<in> set (normalize_task_ids (cr_depends_on c)). \<exists>q \<in> set (tasks db). tk_workspace q = tk_workspace r \<and> tk_id q = d"
      and "core db' = (core db)\<lparr>c_tasks := tasks db @ [r], c_deps := task_deps db @ ds\<rparr>"
proof -
  let ?w = "normalize_workspace (cr_workspace c)" and ?key = "trim_space (cr_key c)"
    and ?deps = "normalize_task_ids (cr_depends_on c)" and ?tid = "ti_new_task i"
  let ?c = "c\<lparr>cr_title := trim_space (cr_title c), cr_brief := trim_space (cr_brief c),
                cr_created_by := trim_space (cr_created_by c)\<rparr>"
  let ?row = "\<lambda>attempts hash. new_task_row i ?c ?w attempts (if ?key = [] then None else Some (?key, hash))"
  let ?db1 = "\<lambda>attempts hash. db\<lparr>tasks := tasks db @ [?row attempts hash]\<rparr>"
  let ?ex = "if ?key = [] then None else find (\<lambda>t. tk_workspace t = ?w \<and> tk_create_key t = Some ?key) (tasks db)"
  from assms obtain attempts hash pay where att: "normalize_max_attempts (cr_max_attempts c) = Inr attempts"
    and rest: "(case ?ex of
      Some t \<Rightarrow>
        if tk_create_hash t \<noteq> Some hash then Inl TaskIdempotencyConflict
        else bindE (read_existing_task_create_tx ?w (tk_id t) ?key db) (\<lambda>r. Inr (r, db))
    | None \<Rightarrow>
        if list_ex (\<lambda>t. tk_id t = ?tid) (tasks db) then Inl (TaskInvalid ''insert task'')
        else
          bindE (insert_dependencies ?w ?tid ?deps (?db1 attempts hash)) (\<lambda>db2.
          bindE (new_task_event (ti_io i 0) ''task.created'' (json_marshal_raw pay) ?w
            ?tid [] [] [task_status_delta ?tid ''pending'']) (\<lambda>e0.
          bindE (append_task_event (te_events E) (ti_io i 0) (e0\<lparr>ev_actor := \<lparr>ac_id = cr_created_by ?c, ac_kind = ''principal'', ac_name = [],
                ac_workspace = ?w\<rparr>, ev_idempotency := ?key\<rparr>) db2) (\<lambda>(x, db3).
          bindE (read_task_tx ?w ?tid db3) (\<lambda>t. Inr ((t, x), db3)))))) = Inr ((t, x), db')"
    unfolding create_tx_def Let_def by (elim handler_elims)
  from att have bounds: "1 \<le> attempts" "attempts \<le> max_task_attempts"
    by (auto simp: normalize_max_attempts_def max_task_attempts_def default_task_attempts_def split: if_splits)
  show ?thesis
  proof (cases ?ex)
    case (Some old)
    from rest [unfolded Some option.case] have "db' = db" by (elim handler_elims) simp
    with Some show ?thesis by (intro duplicate [of old]) (auto simp: find_Some_iff split: if_splits)
  next
    case None
    from rest [unfolded None option.case] obtain db2 e where
      new: "\<not> list_ex (\<lambda>t. tk_id t = ?tid) (tasks db)"
      and deps: "insert_dependencies ?w ?tid ?deps (?db1 attempts hash) = Inr db2"
      and app: "append_task_event (te_events E) (ti_io i 0) e db2 = Inr (x, db')"
      by (elim handler_elims) auto
    note d = insert_dependencies_Inr [OF deps]
    have "core db' = (core db)\<lparr>c_tasks := tasks db @ [?row attempts hash],
        c_deps := task_deps db @ map (\<lambda>d. (?w, ?tid, d)) ?deps\<rparr>"
      using append_task_event_frame(5) [OF app] d by (simp add: core_def)
    moreover have "\<exists>q \<in> set (tasks db). tk_workspace q = ?w \<and> tk_id q = b" if "b \<in> set ?deps" for b
      using d that by (force simp: find_task_def find_None_iff new_task_row_def)
    ultimately show ?thesis
      by (intro created [of "?row attempts hash" "map (\<lambda>d. (?w, ?tid, d)) ?deps"])
        (use bounds new in \<open>auto simp: new_task_row_def list_ex_iff\<close>)
  qed
qed

text \<open>The clock readings of one call made between the instants \<open>n\<close> and \<open>m\<close>.\<close>

definition clock_within :: "time \<Rightarrow> time \<Rightarrow> (nat \<Rightarrow> time) \<Rightarrow> bool" where
  "clock_within n m clk \<longleftrightarrow> (\<forall>i j. i \<le> j \<longrightarrow> clk i \<le> clk j) \<and> n \<le> clk 0 \<and> (\<forall>i. clk i \<le> m)"

lemma clock_withinD:
  assumes "clock_within n m clk"
  shows "mono clk" and "n \<le> clk i" and "clk i \<le> m" and "n \<le> m" and "i \<le> j \<Longrightarrow> clk i \<le> clk j"
proof -
  have le: "i \<le> j \<Longrightarrow> clk i \<le> clk j" for i j using assms by (simp add: clock_within_def)
  show "mono clk" using le by (simp add: mono_def)
  have "clk 0 \<le> clk i" using le by simp
  moreover have "n \<le> clk 0" using assms by (simp add: clock_within_def)
  ultimately show "n \<le> clk i" by simp
  show "clk i \<le> m" using assms by (simp add: clock_within_def)
  with \<open>n \<le> clk i\<close> show "n \<le> m" by simp
  show "i \<le> j \<Longrightarrow> clk i \<le> clk j" by (rule le)
qed

lemma terminal_is_terminal: "s \<in> set terminal_statuses \<Longrightarrow> is_task_terminal s"
proof -
  have "\<forall>s \<in> set terminal_statuses. trim_space s = s" by code_simp
  then show "s \<in> set terminal_statuses \<Longrightarrow> is_task_terminal s" by (simp add: is_task_terminal_def)
qed

lemma create_core:
  assumes "create_tx E i c db = Inr (r, db')" and "clock_within n m (ti_clock i)"
  shows "core_step (n, core db) (m, core db')"
proof -
  note nm = clock_withinD(4) [OF assms(2)]
  obtain t x where "r = (t, x)" by fastforce
  with assms(1) have "create_tx E i c db = Inr ((t, x), db')" by simp
  then show ?thesis
  proof (cases rule: create_tx_Inr)
    case (duplicate old)
    with nm show ?thesis by (simp add: core_step.idle)
  next
    case (created q ds)
    have f: "tk_workspace q = normalize_workspace (cr_workspace c)" "tk_status q = ''pending''" "tk_assigned q = None"
      "tk_attempts q = 0" "tk_fence q = 0"
      by (subst created(1), simp add: new_task_row_def)+
    have "core_step (n, core db) (m, (core db)\<lparr>c_tasks := c_tasks (core db) @ [q], c_deps := c_deps (core db) @ ds\<rparr>)"
      by (rule core_step.insert [where w = "tk_workspace q"]) (use created nm f in \<open>auto simp: core_def\<close>)
    then show ?thesis using created(7) by (simp add: core_def)
  qed
qed

lemma finish_core:
  assumes t: "read_task_tx w tid db = Inr t" and live: "\<not> is_task_terminal (tk_status t)"
    and auth: "authorize_task_mutation (clk 0) t own fence allow db = Inr ()"
    and app: "append_task_event F io e db = Inr (x, db1)"
    and f: "\<forall>r. tk_id (f r) = tk_id r \<and> tk_workspace (f r) = tk_workspace r \<and> tk_fence (f r) = tk_fence r \<and>
      tk_attempts (f r) = tk_attempts r \<and> tk_max_attempts (f r) = tk_max_attempts r \<and>
      tk_assigned (f r) = None \<and> (tk_status (f r) \<in> set terminal_statuses \<or>
       tk_status (f r) = ''pending'' \<and> tk_attempts t < tk_max_attempts t)"
    and clk: "clock_within n m clk"
  shows "core_step (n, core db) (m, core (release_task_lease_and_session_tx (\<lambda>j. clk (2 + j)) t own (update_task w tid f db1)))"
proof -
  note r = read_task_tx_Inr [OF t]
  have "core_step (n, core db) (m, (core db)\<lparr>c_tasks := upd_rows (tk_workspace t) (tk_id t) f (c_tasks (core db)),
      c_leases := update_where (tk_workspace t, tk_id t)
        (\<lambda>l. lease_owner l = trim_space own \<and> lease_fence l = tk_fence t \<and> lease_released l = None)
        (released_at (clk 2)) (c_leases (core db))\<rparr>)"
    by (rule core_step.finish [OF clock_withinD(2) [OF clk, of 0] clock_withinD(5) [OF clk, of 0 2] clock_withinD(3) [OF clk] _ _ _ f])
      (use r live auth in \<open>auto simp: authorize_task_mutation_ok authorize_task_lease_ok dest: terminal_is_terminal\<close>)
  then show ?thesis using r append_task_event_frame(5) [OF app] by (simp add: numeral_2_eq_2)
qed

lemma complete_core:
  assumes run: "complete_or_progress_tx E i o' status db = Inr (r, db')" and clk: "clock_within n m (ti_clock i)"
    and st: "status = ''done'' \<or> status = ''in_progress''"
  shows "core_step (n, core db) (m, core db')"
  using run
proof (cases rule: complete_or_progress_Inr)
  case duplicate
  then show ?thesis using clock_withinD(4) [OF clk] by (simp add: core_step.idle)
next
  case (applied t x db1 e)
  show ?thesis
  proof (cases "status = ''done''")
    case True
    let ?f = "outcome_row ''done'' (oc_result o') [] (ti_clock i 1)"
    have "core_step (n, core db) (m, core (release_task_lease_and_session_tx (\<lambda>j. ti_clock i (2 + j)) t (oc_owner o')
        (update_task (normalize_workspace (oc_workspace o')) (oc_task o') ?f db1)))"
      by (rule finish_core [OF applied(1) _ applied(4,5) _ clk])
        (use applied(3) True in \<open>auto simp: outcome_row_def terminal_statuses_def\<close>)
    then show ?thesis unfolding applied(6) by (simp only: True Let_def if_True simp_thms list.inject char.inject) simp
  next
    case False
    with st have ip: "status = ''in_progress''" by simp
    note t = read_task_tx_Inr [OF applied(1)]
    from applied(4) ip obtain l where l: "c_leases (core db) (tk_workspace t, tk_id t) = Some l"
      "lease_active (ti_clock i 0) l" "trim_space (oc_owner o') = lease_owner l" "trim_space (oc_owner o') \<noteq> []"
      "tk_assigned t \<noteq> None"
      by (auto simp: authorize_task_mutation_ok authorize_task_lease_ok)
    have "core_step (n, core db) (m, (core db)\<lparr>c_tasks := upd_rows (tk_workspace t) (tk_id t)
        (outcome_row status (oc_result o') (trim_space (oc_owner o')) (ti_clock i 1)) (c_tasks (core db))\<rparr>)"
      by (rule core_step.progress [OF clock_withinD(2) [OF clk] clock_withinD(3) [OF clk] _ l])
        (use t ip in \<open>auto simp: outcome_row_def\<close>)
    then show ?thesis using t append_task_event_frame(5) [OF applied(5)] ip by (simp add: applied(6) Let_def)
  qed
qed

lemma fail_core:
  assumes run: "fail_task_tx E i f class db = Inr (r, db')" and clk: "clock_within n m (ti_clock i)"
  shows "core_step (n, core db) (m, core db')"
  using run
proof (cases rule: fail_task_Inr)
  case duplicate
  then show ?thesis using clock_withinD(4) [OF clk] by (simp add: core_step.idle)
next
  case (applied t x db1 e status)
  show ?thesis unfolding applied(8)
    by (rule finish_core [OF applied(1,3,4,5) _ clk])
      (use applied(6,7) in \<open>auto simp: failure_row_def terminal_statuses_def\<close>)
qed

lemma cancel_core:
  assumes run: "cancel_task_tx E i c db = Inr (r, db')" and clk: "clock_within n m (ti_clock i)"
  shows "core_step (n, core db) (m, core db')"
  using run
proof (cases rule: cancel_task_Inr)
  case duplicate
  then show ?thesis using clock_withinD(4) [OF clk] by (simp add: core_step.idle)
next
  case (applied t x db1 e)
  show ?thesis unfolding applied(6)
    by (rule finish_core [OF applied(1,3,4,5) _ clk]) (auto simp: cancel_row_def terminal_statuses_def)
qed

lemma renew_core:
  assumes run: "renew_task_tx E i w tid own fence ttl actor db = Inr (r, db')" and clk: "clock_within n m (ti_clock i)"
  shows "core_step (n, core db) (m, core db')"
proof -
  obtain l x where "r = (l, x)" by fastforce
  with run have "renew_task_tx E i w tid own fence ttl actor db = Inr ((l, x), db')" by simp
  then show ?thesis
  proof (cases rule: renew_task_Inr)
    case (1 t e db1 q)
    note t = read_task_tx_Inr [OF 1(1)]
    from 1(2) t have "c_leases (core db) (normalize_workspace w, tid) = Some q" "lease_active (ti_clock i 0) q"
      by (auto simp: authorize_task_lease_ok)
    from core_step.extend [OF clock_withinD(2) [OF clk] clock_withinD(3) [OF clk] this]
    show ?thesis using append_task_event_frame(5) [OF 1(5)] by (simp add: 1(3))
  qed
qed

lemma claim_scan_core:
  assumes "claim_scan g k E i c w sid caps db = Inr (r, db')" and clk: "clock_within n0 m (ti_clock i)"
    and sid: "sid \<noteq> []" "trim_space sid = sid" and "n \<le> ti_clock i (6 * k + 1)"
  shows "core_step\<^sup>*\<^sup>* (n, core db) (m, core db')"
  using assms(1,5)
proof (induction g arbitrary: k db n)
  case 0
  then have "core_step (n, core db) (m, core db')"
    using clock_withinD(3) [OF clk, of "6 * k + 1"] by (auto intro: core_step.idle)
  then show ?case by (rule r_into_rtranclp)
next
  case (Suc g)
  let ?clk = "\<lambda>j. ti_clock i (6 * k + 1 + j)"
  have mono: "mono ?clk" using clk by (auto simp: mono_def clock_within_def)
  show ?case
  proof (cases "select_claimable_task_tx (?clk 0) (ti_locked i) w caps (cl_task c) db")
    case None
    with Suc.prems have "db' = db" by (simp add: Let_def)
    moreover have "n \<le> m" using Suc.prems(2) clock_withinD(3) [OF clk, of "6 * k + 1"] by simp
    ultimately show ?thesis by (simp add: core_step.idle r_into_rtranclp)
  next
    case (Some t)
    show ?thesis
    proof (cases "tk_max_attempts t \<le> tk_attempts t")
      case True
      with Suc.prems(1) Some obtain db1 where
        dl: "transition_dead_letter_tx E (ti_io i k) (\<lambda>j. ?clk (Suc j)) t ''retry budget exhausted'' db = Inr db1"
        and scan: "claim_scan g (Suc k) E i c w sid caps db1 = Inr (r, db')"
        by (auto simp: Let_def results)
      have "core_step (n, core db) (ti_clock i (6 * Suc k + 1), core db1)"
        by (rule dead_letter_core [OF dl Some True])
          (use Suc.prems(2) mono clock_withinD(5) [OF clk] in \<open>auto simp: mono_def intro: order_trans\<close>)
      also have "core_step\<^sup>*\<^sup>* (ti_clock i (6 * Suc k + 1), core db1) (m, core db')"
        by (rule Suc.IH [OF scan order_refl])
      finally show ?thesis .
    next
      case False
      with Suc.prems(1) Some obtain q where
        sel: "claim_selected_tx E (ti_io i k) ?clk c w sid t db = Inr (q, db')"
        by (auto simp: Let_def results)
      have "core_step (n, core db) (m, core db')"
        by (rule claim_selected_core(1) [OF sel Some _ sid mono])
          (use False Suc.prems(2) clock_withinD(3,5) [OF clk] in \<open>auto intro: order_trans\<close>)
      then show ?thesis by (rule r_into_rtranclp)
    qed
  qed
qed

lemma claim_next_Inr:
  assumes run: "claim_next_tx E i c db = Inr (r, db')"
  obtains s where "trim_space (cl_session c) \<noteq> []"
    and "sessions db (normalize_workspace (cl_workspace c), trim_space (cl_session c)) = Some s"
    and "\<not> (ses_current s \<noteq> None \<and> (ses_status s = ''busy'' \<or> ses_status s = ''working''))"
    and "claim_scan 100 0 E i c (normalize_workspace (cl_workspace c)) (trim_space (cl_session c))
      (ses_capabilities s) db = Inr (r, db')"
proof -
  let ?w = "normalize_workspace (cl_workspace c)" and ?s = "trim_space (cl_session c)"
  from run have sid: "?s \<noteq> []" and A: "(case sessions db (?w, ?s) of None \<Rightarrow> Inl ErrTaskNotFound
    | Some s \<Rightarrow> if ses_current s \<noteq> None \<and> (ses_status s = ''busy'' \<or> ses_status s = ''working'')
        then Inl ErrTaskSessionBusy
        else claim_scan 100 0 E i c ?w ?s (ses_capabilities s) db) = Inr (r, db')"
    unfolding claim_next_tx_def Let_def by (auto elim!: if_InlE simp del: claim_scan.simps)
  show ?thesis
  proof (cases "sessions db (?w, ?s)")
    case None
    with A show ?thesis by simp
  next
    case (Some s)
    from A [unfolded Some option.case] show ?thesis
      by (rule if_InlE) (rule that [OF sid Some])
  qed
qed

lemma claim_core:
  assumes run: "claim_next_tx E i c db = Inr (r, db')" and clk: "clock_within n m (ti_clock i)"
  shows "core_step\<^sup>*\<^sup>* (n, core db) (m, core db')"
  using run
proof (cases rule: claim_next_Inr)
  case (1 s)
  show ?thesis
    by (rule claim_scan_core [OF 1(4) clk 1(1)]) (use clock_withinD(2) [OF clk] in auto)
qed

section \<open>Histories\<close>

text \<open>
  One step of the system: a call of the task store, or any writes of other components to the other
  tables.  A call that fails leaves the database as it was and only time passes.
\<close>

inductive task_step :: "'x task_env \<Rightarrow> time \<times> 'x task_db \<Rightarrow> time \<times> 'x task_db \<Rightarrow> bool" for E where
  create: "clock_within n m (ti_clock i) \<Longrightarrow> create_task E i c db = (r, db') \<Longrightarrow> task_step E (n, db) (m, db')"
| claim: "clock_within n m (ti_clock i) \<Longrightarrow> claim_next E i cl db = (r', db') \<Longrightarrow> task_step E (n, db) (m, db')"
| renew: "clock_within n m (ti_clock i) \<Longrightarrow> renew_task E i w tid own f ttl actor db = (r'', db') \<Longrightarrow>
    task_step E (n, db) (m, db')"
| complete: "clock_within n m (ti_clock i) \<Longrightarrow> complete_task E i oc db = (r3, db') \<Longrightarrow> task_step E (n, db) (m, db')"
| fail: "clock_within n m (ti_clock i) \<Longrightarrow> fail_task E i fl db = (r3, db') \<Longrightarrow> task_step E (n, db) (m, db')"
| cancel: "clock_within n m (ti_clock i) \<Longrightarrow> cancel_task E i cn db = (r3, db') \<Longrightarrow> task_step E (n, db) (m, db')"
| other: "n \<le> m \<Longrightarrow> core db' = core db \<Longrightarrow> task_step E (n, db) (m, db')"

lemma in_tx_core:
  assumes "in_tx body db = (r, db')" and "n \<le> m"
    and "\<And>x. body db = Inr (x, db') \<Longrightarrow> core_step\<^sup>*\<^sup>* (n, core db) (m, core db')"
  shows "core_step\<^sup>*\<^sup>* (n, core db) (m, core db')"
  using assms(1)
proof (cases rule: in_tx_cases)
  case (1 e)
  then show ?thesis using assms(2) by (simp add: core_step.idle r_into_rtranclp)
next
  case (2 x)
  then show ?thesis by (intro assms(3))
qed

lemma task_step_refines:
  assumes "task_step E (n, db) (m, db')"
  shows "core_step\<^sup>*\<^sup>* (n, core db) (m, core db')"
  using assms
proof (cases rule: task_step.cases)
  case (create i c r)
  from create(2) [unfolded create_task_def] clock_withinD(4) [OF create(1)] show ?thesis
    by (rule in_tx_core) (rule r_into_rtranclp, rule create_core [OF _ create(1)])
next
  case (claim i cl r')
  obtain q where "in_tx (claim_next_tx E i cl) db = (q, db')"
    using claim(2) by (auto simp: claim_next_def split: prod.splits sum.splits option.splits)
  then show ?thesis using clock_withinD(4) [OF claim(1)]
    by (rule in_tx_core) (rule claim_core [OF _ claim(1)])
next
  case (renew i w tid own f ttl actor r'')
  from renew(2) [unfolded renew_task_def] clock_withinD(4) [OF renew(1)] show ?thesis
    by (rule in_tx_core) (rule r_into_rtranclp, rule renew_core [OF _ renew(1)])
next
  case (complete i oc r3)
  define st where "st = (if trim_space (oc_status oc) = [] then ''done'' else trim_space (oc_status oc))"
  have run: "(if st \<noteq> ''done'' \<and> st \<noteq> ''in_progress'' then (Inl ErrTaskInvalidStatus, db)
      else in_tx (complete_or_progress_tx E i oc st) db) = (r3, db')"
    using complete(2) by (simp only: complete_task_def Let_def st_def)
  show ?thesis
  proof (cases "st \<noteq> ''done'' \<and> st \<noteq> ''in_progress''")
    case True
    then have "db' = db" using run by simp
    then show ?thesis using clock_withinD(4) [OF complete(1)] by (simp add: core_step.idle r_into_rtranclp)
  next
    case False
    then have st: "st = ''done'' \<or> st = ''in_progress''" by (simp only: de_Morgan_conj not_not)
    from False have "in_tx (complete_or_progress_tx E i oc st) db = (r3, db')"
      using run by (simp only: if_False)
    then show ?thesis using clock_withinD(4) [OF complete(1)]
      by (rule in_tx_core) (rule r_into_rtranclp, rule complete_core [OF _ complete(1) st])
  qed
next
  case (fail i fl r3)
  show ?thesis
  proof (cases "db' = db")
    case True
    then show ?thesis using clock_withinD(4) [OF fail(1)] by (simp add: core_step.idle r_into_rtranclp)
  next
    case False
    then obtain cls where "in_tx (fail_task_tx E i fl cls) db = (r3, db')"
      using fail(2) by (auto simp: fail_task_def Let_def split: if_splits)
    then show ?thesis using clock_withinD(4) [OF fail(1)]
      by (rule in_tx_core) (rule r_into_rtranclp, rule fail_core [OF _ fail(1)])
  qed
next
  case (cancel i cn r3)
  from cancel(2) [unfolded cancel_task_def] clock_withinD(4) [OF cancel(1)] show ?thesis
    by (rule in_tx_core) (rule r_into_rtranclp, rule cancel_core [OF _ cancel(1)])
next
  case other
  then show ?thesis by (simp add: core_step.idle r_into_rtranclp)
qed

end
