(* ===== verification/Task_Safety.thy ===== *)
theory Task_Safety
  imports Task_Lifecycle
begin

text \<open>
  What the task tables keep over every history of the task store: the invariant \<open>core_wf\<close>
  (one lease per claimed task, fences that agree, the attempt budget, dependencies on earlier
  tasks only), frozen terminal tasks, and the contract of a fenced lease for task leases.
\<close>

section \<open>The invariant\<close>

definition task_key :: "task \<Rightarrow> string \<times> int" where
  "task_key t = (tk_workspace t, tk_id t)"

definition task_keys :: "task_core \<Rightarrow> (string \<times> int) list" where
  "task_keys s = map task_key (c_tasks s)"

text \<open>A task row and its lease row fit together.\<close>

definition row_ok :: "task \<Rightarrow> task_lease option \<Rightarrow> bool" where
  "row_ok t lo \<longleftrightarrow>
    tk_workspace t \<noteq> [] \<and> 0 \<le> tk_attempts t \<and> tk_attempts t \<le> tk_max_attempts t \<and>
    tk_max_attempts t \<le> max_task_attempts \<and>
    (tk_status t = ''pending'' \<longrightarrow> tk_attempts t < tk_max_attempts t) \<and>
    (case lo of
      None \<Rightarrow> tk_fence t = 0 \<and> tk_assigned t = None \<and> (tk_status t = ''pending'' \<or> tk_status t \<in> set terminal_statuses)
    | Some l \<Rightarrow> tk_fence t = lease_fence l \<and> 0 < lease_fence l \<and> lease_fence l \<le> max_fence \<and>
        (if lease_released l = None
         then (tk_status t = ''claimed'' \<or> tk_status t = ''in_progress'') \<and> tk_assigned t = Some (lease_owner l) \<and>
           lease_owner l \<noteq> [] \<and> trim_space (lease_owner l) = lease_owner l \<and> 0 < tk_attempts t
         else tk_assigned t = None \<and> (tk_status t = ''pending'' \<or> tk_status t \<in> set terminal_statuses)))"

definition deps_done :: "task_core \<Rightarrow> task \<Rightarrow> bool" where
  "deps_done s t \<longleftrightarrow> (\<forall>(w, a, b) \<in> set (c_deps s). (w, a) = task_key t \<longrightarrow>
    (\<forall>d \<in> set (c_tasks s). task_key d = (w, b) \<longrightarrow> tk_status d = ''done''))"

text \<open>Dependencies point to tasks created earlier in the same workspace.\<close>

definition deps_ordered :: "(string \<times> int) list \<Rightarrow> (string \<times> int \<times> int) list \<Rightarrow> bool" where
  "deps_ordered ks ds \<longleftrightarrow> (\<forall>(w, a, b) \<in> set ds. \<exists>pre post. ks = pre @ (w, a) # post \<and> (w, b) \<in> set pre)"

definition core_wf :: "task_core \<Rightarrow> bool" where
  "core_wf s \<longleftrightarrow>
    distinct (map tk_id (c_tasks s)) \<and>
    (\<forall>t \<in> set (c_tasks s). row_ok t (c_leases s (task_key t))) \<and>
    (\<forall>k. c_leases s k \<noteq> None \<longrightarrow> k \<in> set (task_keys s)) \<and>
    deps_ordered (task_keys s) (c_deps s) \<and>
    (\<forall>t \<in> set (c_tasks s). 0 < tk_attempts t \<longrightarrow> deps_done s t)"

lemma core_wf_task: "core_wf s \<Longrightarrow> t \<in> set (c_tasks s) \<Longrightarrow> row_ok t (c_leases s (task_key t))"
  by (simp add: core_wf_def)

lemma core_wf_inj:
  assumes "core_wf s" and "t \<in> set (c_tasks s)" and "r \<in> set (c_tasks s)" and "tk_id r = tk_id t"
  shows "r = t"
  using assms by (auto simp: core_wf_def distinct_map dest: inj_onD)

lemma core_wf_lease:
  assumes "core_wf s" and "c_leases s k = Some l"
  obtains t where "t \<in> set (c_tasks s)" and "task_key t = k"
  using assms by (cases k) (force simp: core_wf_def task_keys_def)

lemma core_wf_empty: "c_tasks s = [] \<Longrightarrow> c_deps s = [] \<Longrightarrow> c_leases s = (\<lambda>_. None) \<Longrightarrow> core_wf s"
  by (simp add: core_wf_def deps_ordered_def)

text \<open>In a well-formed core, a row update at a key is an update of that one row.\<close>

lemma set_upd_rows:
  assumes "core_wf s" and "t \<in> set (c_tasks s)"
  shows "set (upd_rows (tk_workspace t) (tk_id t) f (c_tasks s)) = insert (f t) (set (c_tasks s) - {t})"
proof -
  have "tk_workspace r = tk_workspace t \<and> tk_id r = tk_id t \<longleftrightarrow> r = t" if "r \<in> set (c_tasks s)" for r
    using core_wf_inj [OF assms that] by auto
  then show ?thesis using assms(2) by (auto simp: upd_rows_def)
qed

lemma task_key_eq: "task_key r = task_key t \<longleftrightarrow> tk_workspace r = tk_workspace t \<and> tk_id r = tk_id t"
  by (simp add: task_key_def)

lemma core_wf_update:
  assumes wf: "core_wf s" and t: "t \<in> set (c_tasks s)"
    and f: "\<forall>r. tk_id (f r) = tk_id r \<and> tk_workspace (f r) = tk_workspace r"
    and other: "\<And>k. k \<noteq> task_key t \<Longrightarrow> L k = c_leases s k"
    and ok: "row_ok (f t) (L (task_key t))"
    and att: "0 < tk_attempts (f t) \<Longrightarrow> 0 < tk_attempts t \<or> deps_done s t"
    and keep: "tk_status t = ''done'' \<Longrightarrow> tk_status (f t) = ''done''"
  shows "core_wf (s\<lparr>c_tasks := upd_rows (tk_workspace t) (tk_id t) f (c_tasks s), c_leases := L\<rparr>)"
    (is "core_wf ?s")
proof -
  note set = set_upd_rows [OF wf t]
  have ids: "map tk_id (upd_rows (tk_workspace t) (tk_id t) f (c_tasks s)) = map tk_id (c_tasks s)"
    and keys: "map task_key (upd_rows (tk_workspace t) (tk_id t) f (c_tasks s)) = map task_key (c_tasks s)"
    using f by (simp_all add: upd_rows_def task_key_def)
  have ft: "task_key (f t) = task_key t" using f by (simp add: task_key_def)
  have rows: "row_ok r (L (task_key r))" if "r \<in> insert (f t) (set (c_tasks s) - {t})" for r
  proof (cases "r = f t")
    case True
    then show ?thesis using ok ft by simp
  next
    case False
    with that have r: "r \<in> set (c_tasks s)" "r \<noteq> t" by auto
    then have "tk_id r \<noteq> tk_id t" using core_wf_inj [OF wf t r(1)] by auto
    then have "task_key r \<noteq> task_key t" by (simp add: task_key_def)
    then show ?thesis using other core_wf_task [OF wf r(1)] by simp
  qed
  have deps: "deps_done ?s r" if "deps_done s q" "task_key r = task_key q" for r q
    unfolding deps_done_def
  proof clarify
    fix w a b d assume e: "(w, a, b) \<in> set (c_deps ?s)" "(w, a) = task_key r" "d \<in> set (c_tasks ?s)" "task_key d = (w, b)"
    show "tk_status d = ''done''"
    proof (cases "d = f t")
      case True
      then have "tk_status t = ''done''"
        using that e(1,2,4) ft t unfolding deps_done_def by force
      then show ?thesis using keep True by simp
    next
      case False
      with e(3) have "d \<in> set (c_tasks s)" by (auto simp: set)
      then show ?thesis using that e(1,2,4) unfolding deps_done_def by fastforce
    qed
  qed
  show ?thesis
    unfolding core_wf_def task_keys_def
  proof (intro conjI ballI allI impI)
    show "distinct (map tk_id (c_tasks ?s))" using wf ids by (simp add: core_wf_def)
    show "row_ok r (c_leases ?s (task_key r))" if "r \<in> set (c_tasks ?s)" for r
      using that rows by (simp add: set)
    show "k \<in> set (map task_key (c_tasks ?s))" if "c_leases ?s k \<noteq> None" for k
    proof (cases "k = task_key t")
      case True
      then show ?thesis using keys t by simp
    next
      case False
      then show ?thesis using that other [OF False] keys wf by (cases k) (auto simp: core_wf_def task_keys_def)
    qed
    show "deps_ordered (map task_key (c_tasks ?s)) (c_deps ?s)"
      using wf keys by (simp add: core_wf_def task_keys_def)
    show "deps_done ?s r" if r: "r \<in> set (c_tasks ?s)" "0 < tk_attempts r" for r
    proof (cases "r = f t")
      case True
      with r att have "0 < tk_attempts t \<or> deps_done s t" by simp
      then have "deps_done s t" using wf t by (auto simp: core_wf_def)
      then show ?thesis using deps True ft by blast
    next
      case False
      with r have "r \<in> set (c_tasks s)" by (auto simp: set)
      with r wf have "deps_done s r" by (simp add: core_wf_def)
      then show ?thesis using deps by blast
    qed
  qed
qed

lemma core_wf_insert:
  assumes wf: "core_wf s" and new: "tk_id r \<notin> tk_id ` set (c_tasks s)" and w: "tk_workspace r = w" "w \<noteq> []"
    and r: "tk_status r = ''pending''" "tk_assigned r = None" "tk_attempts r = 0" "tk_fence r = 0"
      "1 \<le> tk_max_attempts r" "tk_max_attempts r \<le> max_task_attempts"
    and ds: "\<forall>(w', a, b) \<in> set ds. w' = w \<and> a = tk_id r \<and> (\<exists>d \<in> set (c_tasks s). tk_workspace d = w \<and> tk_id d = b)"
  shows "core_wf (s\<lparr>c_tasks := c_tasks s @ [r], c_deps := c_deps s @ ds\<rparr>)"
    (is "core_wf ?s")
proof -
  have key: "task_key r \<notin> task_key ` set (c_tasks s)" using new by (auto simp: task_key_def)
  then have none: "c_leases s (task_key r) = None"
    using core_wf_lease [OF wf, of "task_key r"] by (metis image_eqI not_None_eq)
  have old: "w' \<noteq> fst (task_key r) \<or> a \<noteq> snd (task_key r) \<and> b \<noteq> snd (task_key r)"
    if "(w', a, b) \<in> set (c_deps s)" for w' a b
  proof -
    from wf that obtain pre post where "task_keys s = pre @ (w', a) # post" "(w', b) \<in> set pre"
      by (force simp: core_wf_def deps_ordered_def)
    then have "(w', a) \<in> set (task_keys s)" "(w', b) \<in> set (task_keys s)" by auto
    with key show ?thesis by (force simp: task_keys_def)
  qed
  have ordered: "deps_ordered (task_keys s @ [task_key r]) (c_deps s @ ds)"
    unfolding deps_ordered_def
  proof clarify
    fix w' a b assume "(w', a, b) \<in> set (c_deps s @ ds)"
    then consider "(w', a, b) \<in> set (c_deps s)" | "(w', a, b) \<in> set ds" by auto
    then show "\<exists>pre post. task_keys s @ [task_key r] = pre @ (w', a) # post \<and> (w', b) \<in> set pre"
    proof cases
      case 1
      then obtain pre post where "task_keys s = pre @ (w', a) # post" "(w', b) \<in> set pre"
        using wf by (force simp: core_wf_def deps_ordered_def)
      then show ?thesis by (intro exI [of _ pre] exI [of _ "post @ [task_key r]"]) simp
    next
      case 2
      with ds obtain d where d: "w' = w" "a = tk_id r" "d \<in> set (c_tasks s)" "tk_workspace d = w" "tk_id d = b"
        by auto
      then have "(w', b) \<in> set (task_keys s)" by (auto simp: task_keys_def task_key_def)
      moreover have "(w', a) = task_key r" using d w by (simp add: task_key_def)
      ultimately show ?thesis by (intro exI [of _ "task_keys s"] exI [of _ "[]"]) simp
    qed
  qed
  have all_done: "deps_done ?s t" if t: "t \<in> set (c_tasks s)" "0 < tk_attempts t" for t
    unfolding deps_done_def
  proof clarify
    fix w' a b d assume e: "(w', a, b) \<in> set (c_deps ?s)" "(w', a) = task_key t" "d \<in> set (c_tasks ?s)"
      "task_key d = (w', b)"
    have "(w', a, b) \<notin> set ds"
    proof
      assume "(w', a, b) \<in> set ds"
      with ds w have "(w', a) = task_key r" by (auto simp: task_key_def)
      with e(2) t key show False by (metis image_eqI)
    qed
    with e(1) have dep: "(w', a, b) \<in> set (c_deps s)" by simp
    moreover have "d \<noteq> r" using old [OF dep] e(4) by auto
    ultimately show "tk_status d = ''done''"
      using wf t e(2,3,4) unfolding core_wf_def deps_done_def by fastforce
  qed
  show ?thesis
    unfolding core_wf_def
  proof (intro conjI ballI allI impI)
    show "distinct (map tk_id (c_tasks ?s))" using wf new by (auto simp: core_wf_def)
    show "row_ok t (c_leases ?s (task_key t))" if "t \<in> set (c_tasks ?s)" for t
      using that wf none r w by (auto simp: core_wf_def row_ok_def [of r])
    show "k \<in> set (task_keys ?s)" if "c_leases ?s k \<noteq> None" for k
      using that wf by (cases k) (auto simp: core_wf_def task_keys_def)
    show "deps_ordered (task_keys ?s) (c_deps ?s)" using ordered by (simp add: task_keys_def)
    show "deps_done ?s t" if "t \<in> set (c_tasks ?s)" "0 < tk_attempts t" for t
      using that r(3) all_done by auto
  qed
qed

lemma core_step_wf:
  assumes "core_step (n, s) (m, s')" and wf: "core_wf s"
  shows "core_wf s'"
  using assms(1)
proof (cases rule: core_step.cases)
  case (insert r w ds)
  then show ?thesis by (simp only:) (rule core_wf_insert [OF wf], simp_all)
next
  case (dead k k' t reason)
  note ok = core_wf_task [OF wf dead(5)]
  show ?thesis unfolding dead(1)
    by (rule core_wf_update [OF wf dead(5)])
      (use ok dead(6) in \<open>auto simp: task_key_def [symmetric] update_where_same row_ok_def terminal_statuses_def
        released_at_def split: option.splits if_splits\<close>)
next
  case (grant j k k' t sid old new until ca)
  note ok = core_wf_task [OF wf grant(6)]
  have "deps_done s t" using grant(11) by (force simp: deps_done_def task_key_def)
  then show ?thesis unfolding grant(1)
    by (intro core_wf_update [OF wf grant(6)])
      (use ok grant(7-10,12-15) in \<open>auto simp: task_key_def [symmetric] row_ok_def terminal_statuses_def
        max_fence_def split: option.splits if_splits\<close>)
next
  case (extend k w tid l P k' until)
  obtain t where t: "t \<in> set (c_tasks s)" "task_key t = (w, tid)"
    using core_wf_lease [OF wf extend(4)] by auto
  note ok = core_wf_task [OF wf t(1)]
  have "core_wf (s\<lparr>c_tasks := upd_rows (tk_workspace t) (tk_id t) (\<lambda>r. r) (c_tasks s),
      c_leases := update_where (w, tid) P (\<lambda>l. l\<lparr>lease_until := until, lease_renewed := k'\<rparr>) (c_leases s)\<rparr>)"
    by (rule core_wf_update [OF wf t(1)])
      (use ok t(2) extend(4) in \<open>auto simp: update_where_same row_ok_def split: if_splits\<close>)
  then show ?thesis by (simp add: extend(1) upd_rows_def)
next
  case (finish k k' t own f)
  note ok = core_wf_task [OF wf finish(5)] and ft = spec [OF finish(8), of t]
  let ?L = "update_where (tk_workspace t, tk_id t)
    (\<lambda>l. lease_owner l = own \<and> lease_fence l = tk_fence t \<and> lease_released l = None) (released_at k') (c_leases s)"
  have row: "row_ok (f t) (?L (task_key t))"
  proof (cases "c_leases s (task_key t)")
    case None
    then show ?thesis using ok ft by (auto simp: update_where_same task_key_def row_ok_def terminal_statuses_def)
  next
    case (Some l)
    then show ?thesis
      using ok ft finish(7)
      by (cases "lease_released l") (auto simp: update_where_same task_key_def row_ok_def released_at_def terminal_statuses_def)
  qed
  show ?thesis unfolding finish(1)
    by (rule core_wf_update [where f = f and L = ?L, OF wf finish(5) _ _ row])
      (use ft finish(6,8) in \<open>auto simp: task_key_def [symmetric] terminal_statuses_def\<close>)
next
  case (progress k t l own f)
  note ok = core_wf_task [OF wf progress(4)] and ft = spec [OF progress(10), of t]
  have row: "row_ok (f t) (c_leases s (task_key t))"
    using ok ft progress(5-9) by (auto simp: task_key_def row_ok_def lease_active_def split: if_splits)
  have live: "tk_status t \<noteq> ''done''"
    using ok progress(5,6) by (auto simp: task_key_def row_ok_def lease_active_def)
  have "core_wf (s\<lparr>c_tasks := upd_rows (tk_workspace t) (tk_id t) f (c_tasks s), c_leases := c_leases s\<rparr>)"
    by (rule core_wf_update [where f = f and L = "c_leases s", OF wf progress(4) _ _ row]) (use ft progress(10) live in auto)
  then show ?thesis unfolding progress(1) by simp
next
  case idle
  then show ?thesis using wf by simp
qed

lemma core_run_wf: "core_step\<^sup>*\<^sup>* a b \<Longrightarrow> core_wf (snd a) \<Longrightarrow> core_wf (snd b)"
  by (induction rule: rtranclp_induct) (auto dest: core_step_wf)

lemma task_run_refines:
  "(task_step E)\<^sup>*\<^sup>* (n, db) (m, db') \<Longrightarrow> core_step\<^sup>*\<^sup>* (n, core db) (m, core db')"
  by (induction rule: rtranclp_induct2) (auto dest: task_step_refines intro: rtranclp_trans)

lemma task_run_wf:
  "(task_step E)\<^sup>*\<^sup>* (n, db) (m, db') \<Longrightarrow> core_wf (core db) \<Longrightarrow> core_wf (core db')"
  using core_run_wf [of "(n, core db)" "(m, core db')"] by (simp add: task_run_refines)

section \<open>Terminal tasks\<close>

lemma core_step_frozen:
  assumes step: "core_step (n, s) (m, s')" and wf: "core_wf s" and r: "r \<in> set (c_tasks s)"
    and fin: "tk_status r \<in> set terminal_statuses"
  shows "r \<in> set (c_tasks s')"
proof -
  have keep: "r \<in> set (upd_rows (tk_workspace t) (tk_id t) f (c_tasks s))"
    if "t \<in> set (c_tasks s)" "tk_status t \<notin> set terminal_statuses" for t f
    using that fin r set_upd_rows [OF wf that(1)] by auto
  from step show ?thesis
  proof (cases rule: core_step.cases)
    case (progress k t l own f)
    have "tk_status t \<notin> set terminal_statuses"
      using core_wf_task [OF wf progress(4)] progress(5,6)
      by (auto simp: task_key_def row_ok_def lease_active_def terminal_statuses_def)
    then show ?thesis using keep [OF progress(4)] by (simp add: progress(1))
  qed (use r keep in auto)
qed

lemma core_run_frozen:
  assumes "core_step\<^sup>*\<^sup>* a b" and "core_wf (snd a)" and "r \<in> set (c_tasks (snd a))"
    and "tk_status r \<in> set terminal_statuses"
  shows "r \<in> set (c_tasks (snd b))"
  using assms
proof (induction rule: rtranclp_induct)
  case (step b c)
  then have "core_wf (snd b)" using core_run_wf by blast
  with step show ?case using core_step_frozen [of "fst b" "snd b" "fst c" "snd c" r] by simp
qed simp

section \<open>Leases\<close>

lemma core_step_time: "core_step (n, s) (m, s') \<Longrightarrow> n \<le> m"
  by (cases rule: core_step.cases) auto

lemma core_step_lease:
  assumes "core_step (n, s) (m, s')" and "c_leases s k = Some l"
  shows "\<exists>l'. c_leases s' k = Some l' \<and> lease_le n l m l'"
proof -
  note nm = core_step_time [OF assms(1)]
  have rel: "lease_le n q m (released_at k' q)" for q k'
    by (simp add: lease_le_dead released_at_def lease_active_def)
  have upd: "\<exists>l'. update_where k0 P f (c_leases s) k = Some l' \<and> lease_le n l m l'"
    if "\<And>q. c_leases s k0 = Some q \<Longrightarrow> lease_le n q m (f q)" for k0 P f
    using assms(2) that lease_le_refl [OF nm] by (cases "k = k0") (auto simp: update_where_same)
  from assms(1) show ?thesis
  proof (cases rule: core_step.cases)
    case (grant j k0 k' t sid old new until ca)
    have "lease_le n q m new" if "c_leases s (tk_workspace t, tk_id t) = Some q" for q
      using grant(12,14) that by (simp add: lease_le_def)
    then show ?thesis using assms(2) lease_le_refl [OF nm]
      by (cases "k = (tk_workspace t, tk_id t)") (auto simp: grant(1))
  next
    case (extend k0 w tid q P k' until)
    show ?thesis unfolding extend(1) select_convs
      by (simp, rule upd) (use extend in \<open>auto intro!: lease_le_live elim: lease_active_antimono\<close>)
  qed (use assms(2) rel lease_le_refl [OF nm] in \<open>auto intro: upd\<close>)
qed

lemma core_run_time: "core_step\<^sup>*\<^sup>* a b \<Longrightarrow> fst a \<le> fst b"
  by (induction rule: rtranclp_induct) (force dest: core_step_time)+

lemma core_run_lease:
  assumes "core_step\<^sup>*\<^sup>* a b" and "c_leases (snd a) k = Some l"
  shows "\<exists>l'. c_leases (snd b) k = Some l' \<and> lease_le (fst a) l (fst b) l'"
  using assms
proof (induction rule: rtranclp_induct)
  case base
  then show ?case by (auto intro: lease_le_refl)
next
  case (step b c)
  then obtain l' where l': "c_leases (snd b) k = Some l'" "lease_le (fst a) l (fst b) l'" by blast
  with step.hyps obtain l'' where "c_leases (snd c) k = Some l''" "lease_le (fst b) l' (fst c) l''"
    by (metis prod.collapse core_step_lease)
  with l' show ?case by (blast intro: lease_le_trans)
qed

text \<open>A worker (a trimmed owner id with a fence) the store would accept for a task at an instant.\<close>

definition task_validates :: "time \<Rightarrow> 'x task_db \<Rightarrow> string \<times> int \<Rightarrow> string \<Rightarrow> int \<Rightarrow> bool" where
  "task_validates now db k own f \<longleftrightarrow>
    (case read_task_tx (fst k) (snd k) db of
      Inl _ \<Rightarrow> False
    | Inr t \<Rightarrow>
        own = trim_space own \<and> (case authorize_task_lease_tx now t own f db of Inl _ \<Rightarrow> False | Inr _ \<Rightarrow> True))"

interpretation task_lease: fenced_lease "task_step E" task_leases task_validates for E
proof unfold_locales
  fix n m s t k l own f
  show "task_step E (n, s) (m, t) \<Longrightarrow> n \<le> m"
    using core_run_time [of "(n, core s)" "(m, core t)"] by (auto dest: task_step_refines)
  show "\<exists>l'. task_leases t k = Some l' \<and> lease_le n l m l'"
    if "task_step E (n, s) (m, t)" and "task_leases s k = Some l"
    using core_run_lease [OF task_step_refines [OF that(1)]] that(2) by (simp add: core_def)
  show "task_validates n s k own f \<Longrightarrow>
    \<exists>l. task_leases s k = Some l \<and> lease_owner l = own \<and> lease_fence l = f \<and> lease_active n l"
    by (auto simp: task_validates_def authorize_task_lease_ok core_def dest!: read_task_tx_Inr
        split: sum.splits)
qed

end
