(* ===== verification/Task_Properties.thy ===== *)
theory Task_Properties
  imports Task_Safety
begin

text \<open>
  The properties of the task store over every history of its operations: the invariant of its
  tables, frozen terminal tasks, fencing of workers, the choice of a claim, acyclic dependencies,
  and the retry schedule.
\<close>

section \<open>Samples\<close>

definition sample_task_env :: "unit task_env" where
  "sample_task_env = \<lparr>te_events = sample_env, te_time = (\<lambda>t. show_int t), te_digest = (\<lambda>c. tc_title c)\<rparr>"

definition empty_task_db :: "unit task_db" where
  "empty_task_db = \<lparr>control_events = [], idempotency_records = (\<lambda>_. None), control_checkpoints = (\<lambda>_. None),
    evidence_tables = (), tasks = [], task_deps = [], task_leases = (\<lambda>_. None),
    sessions = (\<lambda>k. if k = (''w'', ''s1'') \<or> k = (''w'', ''s2'')
      then Some \<lparr>ses_capabilities = [''go''], ses_status = ''idle'', ses_current = None, ses_heartbeat = 0\<rparr> else None)\<rparr>"

definition sample_in :: "string \<Rightarrow> time \<Rightarrow> int \<Rightarrow> task_in" where
  "sample_in eid now q = \<lparr>ti_clock = (\<lambda>_. now), ti_io = (\<lambda>_. sample_io eid q), ti_locked = (\<lambda>_. False), ti_new_task = q\<rparr>"

definition sample_create :: "int list \<Rightarrow> task_create" where
  "sample_create deps = \<lparr>cr_workspace = ''w'', cr_key = [], cr_title = ''t'', cr_brief = ''b'', cr_capabilities = [],
    cr_created_by = ''u'', cr_origin = [], cr_max_attempts = 2, cr_depends_on = deps, cr_payload = None\<rparr>"

definition sample_claim :: "string \<Rightarrow> task_claim" where
  "sample_claim s = \<lparr>cl_workspace = ''w'', cl_session = s, cl_actor = [], cl_task = 0, cl_ttl = second\<rparr>"

definition sample_outcome :: "string \<Rightarrow> int \<Rightarrow> string \<Rightarrow> task_outcome" where
  "sample_outcome own f st = \<lparr>oc_workspace = ''w'', oc_task = 1, oc_owner = own, oc_fence = f, oc_result = ''r'',
    oc_status = st, oc_key = ''k'', oc_actor = [], oc_payload = ''{}''\<rparr>"

text \<open>A task is created, claimed by \<open>s1\<close>, taken over by \<open>s2\<close> after the lease expired, completed.\<close>

definition task_db1 :: "unit task_db" where
  "task_db1 = snd (create_task sample_task_env (sample_in ''e1'' 10 1) (sample_create []) empty_task_db)"

definition task_db2 :: "unit task_db" where
  "task_db2 = snd (claim_next sample_task_env (sample_in ''e2'' 20 2) (sample_claim ''s1'') task_db1)"

definition task_db3 :: "unit task_db" where
  "task_db3 = snd (claim_next sample_task_env (sample_in ''e3'' 3000000 3) (sample_claim ''s2'') task_db2)"

definition task_db4 :: "unit task_db" where
  "task_db4 = snd (complete_task sample_task_env (sample_in ''e4'' 3000010 4) (sample_outcome ''s2'' 2 []) task_db3)"

lemma sample_clock: "clock_within n m (ti_clock (sample_in e t q)) \<longleftrightarrow> n \<le> t \<and> t \<le> m"
  by (auto simp: clock_within_def sample_in_def)

lemma sample_history:
  "(task_step sample_task_env)\<^sup>*\<^sup>* (0, empty_task_db) (20, task_db2)"
  "(task_step sample_task_env)\<^sup>*\<^sup>* (20, task_db2) (3000000, task_db3)"
  "(task_step sample_task_env)\<^sup>*\<^sup>* (3000000, task_db3) (3000010, task_db4)"
  "(task_step sample_task_env)\<^sup>*\<^sup>* (0, empty_task_db) (3000010, task_db4)"
proof -
  have a: "task_step sample_task_env (0, empty_task_db) (10, task_db1)"
    unfolding task_db1_def by (rule task_step.create [OF _ surjective_pairing]) (simp add: sample_clock)
  have b: "task_step sample_task_env (10, task_db1) (20, task_db2)"
    unfolding task_db2_def by (rule task_step.claim [OF _ surjective_pairing]) (simp add: sample_clock)
  have c: "task_step sample_task_env (20, task_db2) (3000000, task_db3)"
    unfolding task_db3_def by (rule task_step.claim [OF _ surjective_pairing]) (simp add: sample_clock)
  have d: "task_step sample_task_env (3000000, task_db3) (3000010, task_db4)"
    unfolding task_db4_def by (rule task_step.complete [OF _ surjective_pairing]) (simp add: sample_clock)
  show ab: "(task_step sample_task_env)\<^sup>*\<^sup>* (0, empty_task_db) (20, task_db2)"
    using a b by (meson rtranclp.simps)
  show cd: "(task_step sample_task_env)\<^sup>*\<^sup>* (20, task_db2) (3000000, task_db3)"
    and dd: "(task_step sample_task_env)\<^sup>*\<^sup>* (3000000, task_db3) (3000010, task_db4)"
    using c d by (meson rtranclp.simps)+
  show "(task_step sample_task_env)\<^sup>*\<^sup>* (0, empty_task_db) (3000010, task_db4)"
    using ab cd dd by (meson rtranclp_trans)
qed

lemma sample_task_rows:
  "map (\<lambda>t. (tk_id t, tk_status t, tk_attempts t, tk_fence t)) (tasks task_db3) = [(1, ''claimed'', 2, 2)]"
  "map (\<lambda>t. (tk_id t, tk_status t, tk_attempts t, tk_fence t)) (tasks task_db4) = [(1, ''done'', 2, 2)]"
  by code_simp+

lemma empty_task_db_wf: "core_wf (core empty_task_db)"
  by (rule core_wf_empty) (simp_all add: core_def empty_task_db_def)

section \<open>Selection and retry schedule\<close>

lemma sorted_key_head:
  assumes "sort_key f (sort_key g xs) = t # ys" and "q \<in> set xs"
  shows "f t < f q \<or> f t = f q \<and> g t \<le> (g q :: 'b :: linorder)"
proof -
  let ?zs = "sort_key g xs"
  have q: "q \<in> set (t # ys)" using assms by (metis set_sort)
  have "sorted (map f (t # ys))" using assms(1) by (metis sorted_sort_key)
  then have le: "f t \<le> f q" using q by auto
  have "filter (\<lambda>x. f x = f t) (t # ys) = filter (\<lambda>x. f x = f t) ?zs"
    using assms(1) sort_key_stable [of f "f t" ?zs] by metis
  moreover have "sorted (map g (filter (\<lambda>x. f x = f t) ?zs))"
    by (metis sorted_filter sorted_sort_key)
  ultimately have "sorted (map g (filter (\<lambda>x. f x = f t) (t # ys)))" by simp
  then have "g t \<le> g q" if "f q = f t" using q that by auto
  with le show ?thesis by force
qed

lemma min_retry_loop:
  assumes "0 < d"
  shows "min (retry_loop i a d) max_task_retry_backoff = min (d * 2 ^ nat (a - i)) max_task_retry_backoff"
  using assms
proof (induction i a d rule: retry_loop.induct)
  case (1 i a d)
  show ?case
  proof (cases "i < a \<and> d < max_task_retry_backoff")
    case True
    then have "nat (a - i) = Suc (nat (a - (i + 1)))" by (simp add: Suc_nat_eq_nat_zadd1)
    moreover have "retry_loop i a d = retry_loop (i + 1) a (2 * d)"
      using True by (simp add: retry_loop.simps [of i])
    ultimately show ?thesis using "1.IH" [OF True] "1.prems" by (simp add: mult.assoc mult.left_commute)
  next
    case False
    then have r: "retry_loop i a d = d" by (simp only: retry_loop.simps [of i a d] if_False)
    have "max_task_retry_backoff \<le> d * 2 ^ nat (a - i)" if "max_task_retry_backoff \<le> d"
    proof -
      have "d * 1 \<le> d * 2 ^ nat (a - i)" using "1.prems" by (intro mult_left_mono) simp_all
      with that show ?thesis by simp
    qed
    with False show ?thesis unfolding r by (cases "i < a") (simp_all add: min_def)
  qed
qed

text \<open>
  Without a requested delay the retry of attempt \<open>n\<close> is scheduled after
  \<open>min(100 ms * 2^(n-1), 5 min)\<close>; a requested delay is clamped to the same range.
\<close>

theorem retry_delay_schedule:
  "retry_delay attempt None = min (100 * millisecond * 2 ^ nat (attempt - 1)) max_task_retry_backoff \<and>
   retry_delay attempt (Some d) = max 0 (min d max_task_retry_backoff)"
proof -
  have "min (retry_loop 1 (max attempt 1) (100 * millisecond)) max_task_retry_backoff =
      min (100 * millisecond * 2 ^ nat (max attempt 1 - 1)) max_task_retry_backoff"
    by (rule min_retry_loop) (simp add: millisecond_def)
  moreover have "nat (max attempt 1 - 1) = nat (attempt - 1)" by simp
  ultimately show ?thesis
    by (auto simp: retry_delay_def Let_def max_task_retry_backoff_def second_def min_def max_def)
qed

text \<open>
  A claim selects, among the unlocked tasks that are claimable (due, or held under an expired
  lease; capabilities covered; dependencies done), the oldest one, ties broken by the smaller id.
\<close>

theorem select_claimable_oldest:
  assumes "select_claimable_task_tx now locked w caps wanted db = Some t"
    and "q \<in> set (tasks db)" and "claimable now w caps wanted db q" and "\<not> locked (tk_id q)"
  shows "claimable now w caps wanted db t \<and> \<not> locked (tk_id t) \<and>
    (tk_created_at t < tk_created_at q \<or> tk_created_at t = tk_created_at q \<and> tk_id t \<le> tk_id q)"
proof -
  note sel = select_claimable_Some [OF assms(1)]
  let ?xs = "filter (\<lambda>t. claimable now w caps wanted db t \<and> \<not> locked (tk_id t)) (tasks db)"
  obtain ys where ys: "sort_key tk_created_at (sort_key tk_id ?xs) = t # ys"
    using assms(1) by (auto simp: select_claimable_task_tx_def split: list.splits)
  have "q \<in> set ?xs" using assms by simp
  from sorted_key_head [OF ys this] sel show ?thesis by auto
qed

section \<open>Safety of histories\<close>

text \<open>
  C10: From tables that satisfy the invariant \<open>core_wf\<close> (unique ids; attempts within the budget of
  at most 20; a task is claimed or in progress exactly while its lease is unreleased, assigned to the
  lease's owner and with the lease's fence; dependencies on earlier tasks of the workspace; a task
  with an attempt has all its dependencies done), every history of task operations, successful or
  not, ends in such tables.
\<close>

theorem task_tables_invariant:
  assumes "(task_step E)\<^sup>*\<^sup>* (n, db) (m, db')" and "core_wf (core db)"
  shows "core_wf (core db')"
  using assms by (rule task_run_wf)

lemma task_tables_invariant_witness:
  "core_wf (core task_db4) \<and> map (\<lambda>t. (tk_id t, tk_status t, tk_attempts t)) (tasks task_db4) = [(1, ''done'', 2)]"
proof
  show "core_wf (core task_db4)"
    by (rule task_tables_invariant [OF sample_history(4) empty_task_db_wf])
  show "map (\<lambda>t. (tk_id t, tk_status t, tk_attempts t)) (tasks task_db4) = [(1, ''done'', 2)]"
    using sample_task_rows(2) by (auto simp: map_eq_Cons_conv)
qed

text \<open>
  C19: A task that is done, failed, cancelled or dead-lettered is never changed again: its row stays
  exactly as it is through every later operation.
\<close>

theorem terminal_task_frozen:
  assumes "(task_step E)\<^sup>*\<^sup>* (n, db) (m, db')" and "core_wf (core db)"
    and "t \<in> set (tasks db)" and "is_task_terminal (tk_status t)"
  shows "t \<in> set (tasks db')"
proof -
  have row: "row_ok t (task_leases db (task_key t))"
    using core_wf_task [OF assms(2), of t] assms(3) by (simp add: core_def)
  have "tk_status t \<in> set terminal_statuses"
  proof -
    have "\<not> is_task_terminal ''pending''" "\<not> is_task_terminal ''claimed''" "\<not> is_task_terminal ''in_progress''"
      by code_simp+
    with row assms(4) show ?thesis by (auto simp: row_ok_def split: option.splits if_splits)
  qed
  then show ?thesis
    using core_run_frozen [OF task_run_refines [OF assms(1)], of t] assms(2,3) by (simp add: core_def)
qed

lemma sample_done_task: "\<exists>t. t \<in> set (tasks task_db4) \<and> is_task_terminal (tk_status t) \<and> tk_id t = 1"
proof -
  obtain t where "tasks task_db4 = [t]" "tk_status t = ''done''" "tk_id t = 1"
    using sample_task_rows(2) by (auto simp: map_eq_Cons_conv)
  moreover have "is_task_terminal ''done''" by code_simp
  ultimately show ?thesis by (metis list.set_intros(1))
qed

lemma terminal_task_frozen_witness:
  "\<exists>t. t \<in> set (tasks (snd (claim_next sample_task_env (sample_in ''e5'' 9000000 5) (sample_claim ''s1'') task_db4)))
    \<and> is_task_terminal (tk_status t) \<and> tk_id t = 1"
proof -
  obtain t where t: "t \<in> set (tasks task_db4)" "is_task_terminal (tk_status t)" "tk_id t = 1"
    using sample_done_task by blast
  have "task_step sample_task_env (3000010, task_db4)
      (9000000, snd (claim_next sample_task_env (sample_in ''e5'' 9000000 5) (sample_claim ''s1'') task_db4))"
    by (rule task_step.claim [OF _ surjective_pairing]) (simp add: sample_clock)
  then have "(task_step sample_task_env)\<^sup>*\<^sup>* (3000010, task_db4)
      (9000000, snd (claim_next sample_task_env (sample_in ''e5'' 9000000 5) (sample_claim ''s1'') task_db4))"
    by (rule r_into_rtranclp)
  from terminal_task_frozen [OF this task_run_wf [OF sample_history(4) empty_task_db_wf] t(1,2)] t
  show ?thesis by blast
qed

lemma stale_authorize:
  assumes "f \<noteq> 0" and "\<And>t l. authorize_task_lease_tx (clk 0) t own f db \<noteq> Inr l"
  shows "authorize_task_mutation (clk 0) t own f allow db \<noteq> Inr ()"
  using assms by (auto simp: authorize_task_mutation_ok)

lemma in_tx_no_effect:
  assumes "\<And>r db'. body db = Inr (r, db') \<Longrightarrow> db' = db"
  shows "snd (in_tx body db) = db"
  using assms by (auto simp: in_tx_def split: sum.splits)

text \<open>
  C2: Once the lease of a task carries a larger fence, a worker that still uses an older fence changes
  nothing in any later state: its completion or progress report, its failure report, its cancellation
  and its renewal all leave the whole database as it is.
\<close>

theorem stale_worker_no_effect:
  assumes run: "(task_step E)\<^sup>*\<^sup>* (n, db) (m, db')"
    and lease: "task_leases db (normalize_workspace w, tid) = Some l" and stale: "f < lease_fence l" "f \<noteq> 0"
    and oc: "oc_workspace oc = w" "oc_task oc = tid" "oc_fence oc = f"
    and fl: "tf_workspace fl = w" "tf_task fl = tid" "tf_fence fl = f"
    and cn: "cn_workspace cn = w" "cn_task cn = tid" "cn_fence cn = f"
  shows "snd (complete_task E i oc db') = db' \<and> snd (fail_task E i fl db') = db' \<and>
    snd (cancel_task E i cn db') = db' \<and> snd (renew_task E i w tid own f ttl actor db') = db'"
proof -
  let ?k = "(normalize_workspace w, tid)"
  have no_lease: "authorize_task_lease_tx now t o' f db' \<noteq> Inr q"
    if "read_task_tx (normalize_workspace w) tid db' = Inr t" for now t o' q
  proof
    assume a: "authorize_task_lease_tx now t o' f db' = Inr q"
    have t: "tk_workspace t = normalize_workspace w" "tk_id t = tid" using read_task_tx_Inr [OF that] by auto
    have "authorize_task_lease_tx now t (trim_space o') f db' = Inr q"
      using a by (simp add: authorize_task_lease_ok)
    then have "task_validates now db' ?k (trim_space o') f" using that by (simp add: task_validates_def)
    then show False using task_lease.stale_refused [OF run lease stale(1)] by blast
  qed
  have no_mut: "authorize_task_mutation now t o' f allow db' \<noteq> Inr u"
    if "read_task_tx (normalize_workspace w) tid db' = Inr t" for now t o' u allow
    using no_lease [OF that] stale(2) by (auto simp: authorize_task_mutation_ok)
  have "snd (complete_task E i oc db') = db'"
    unfolding complete_task_def Let_def
    by (auto intro!: in_tx_no_effect elim!: complete_or_progress_Inr simp: oc dest: no_mut)
  moreover have "snd (fail_task E i fl db') = db'"
    unfolding fail_task_def Let_def
    by (auto intro!: in_tx_no_effect elim!: fail_task_Inr simp: fl dest: no_mut)
  moreover have "snd (cancel_task E i cn db') = db'"
    unfolding cancel_task_def
    by (auto intro!: in_tx_no_effect elim!: cancel_task_Inr simp: cn dest: no_mut)
  moreover have "snd (renew_task E i w tid own f ttl actor db') = db'"
    unfolding renew_task_def
    by (auto intro!: in_tx_no_effect elim!: renew_task_Inr dest: no_lease)
  ultimately show ?thesis by blast
qed

lemma takeWhile_before: "x \<notin> set p \<Longrightarrow> takeWhile (\<lambda>y. y \<noteq> x) (p @ x # q) = p"
  by (induction p) auto

text \<open>
  C36: The dependency edges of every reachable task table form an acyclic graph, so no set of tasks
  can wait for itself.
\<close>

theorem task_dependencies_acyclic:
  assumes "(task_step E)\<^sup>*\<^sup>* (n, db) (m, db')" and "core_wf (core db)"
  shows "acyclic {((w, a), (w, b)) | w a b. (w, a, b) \<in> set (task_deps db')}"
proof -
  let ?s = "core db'" and ?pos = "\<lambda>k. length (takeWhile (\<lambda>x. x \<noteq> k) (task_keys (core db')))"
  have wf: "core_wf ?s" using assms by (rule task_run_wf)
  have dist: "distinct (task_keys ?s)"
  proof -
    have "map snd (task_keys ?s) = map tk_id (c_tasks ?s)" by (simp add: task_keys_def task_key_def)
    with wf have "distinct (map snd (task_keys ?s))" by (simp only: core_wf_def)
    then show ?thesis by (simp add: distinct_map)
  qed
  have less: "?pos (w, b) < ?pos (w, a)" if "(w, a, b) \<in> set (task_deps db')" for w a b
  proof -
    have "deps_ordered (task_keys ?s) (task_deps db')" using wf by (simp add: core_wf_def core_def)
    with that obtain pre post where ks: "task_keys ?s = pre @ (w, a) # post" and b: "(w, b) \<in> set pre"
      unfolding deps_ordered_def by fast
    have "(w, a) \<notin> set pre" using dist ks by auto
    then have "?pos (w, a) = length pre" by (simp add: ks takeWhile_before)
    moreover from b obtain p q where pre: "pre = p @ (w, b) # q" "(w, b) \<notin> set p" by (meson split_list_first)
    then have "?pos (w, b) = length p" by (simp add: ks takeWhile_before)
    ultimately show ?thesis using pre by simp
  qed
  have "acyclic (measure ?pos)" by (rule wf_acyclic) simp
  moreover have "{((w, a), (w, b)) | w a b. (w, a, b) \<in> set (task_deps db')}\<inverse> \<subseteq> measure ?pos"
    using less by auto
  ultimately have "acyclic ({((w, a), (w, b)) | w a b. (w, a, b) \<in> set (task_deps db')}\<inverse>)"
    by (rule acyclic_subset)
  then show ?thesis by (simp only: acyclic_converse)
qed

lemma stale_worker_no_effect_witness:
  "snd (complete_task sample_task_env (sample_in ''e9'' 3000005 9) (sample_outcome ''s1'' 1 []) task_db3) = task_db3"
proof -
  have "task_leases task_db3 (normalize_workspace ''w'', 1) = Some (the (task_leases task_db3 (''w'', 1)))"
    and "1 < lease_fence (the (task_leases task_db3 (''w'', 1)))"
  proof -
    have "(case task_leases task_db3 (''w'', 1) of None \<Rightarrow> 0 | Some l \<Rightarrow> lease_fence l) = 2" by code_simp
    moreover have "normalize_workspace ''w'' = ''w''" by code_simp
    ultimately show "task_leases task_db3 (normalize_workspace ''w'', 1) = Some (the (task_leases task_db3 (''w'', 1)))"
      and "1 < lease_fence (the (task_leases task_db3 (''w'', 1)))"
      by (auto split: option.splits)
  qed
  from stale_worker_no_effect [where E = sample_task_env and n = 0 and db = task_db3 and oc = "sample_outcome ''s1'' 1 []" and
      fl = "\<lparr>tf_workspace = ''w'', tf_task = 1, tf_owner = ''s1'', tf_fence = 1, tf_error = [], tf_class = [],
        tf_retryable = None, tf_retry_after = None, tf_key = [], tf_actor = [], tf_payload = []\<rparr>" and
      cn = "\<lparr>cn_workspace = ''w'', cn_task = 1, cn_owner = ''s1'', cn_fence = 1, cn_reason = [], cn_key = [],
        cn_actor = [], cn_payload = []\<rparr>" and i = "sample_in ''e9'' 3000005 9", OF rtranclp.rtrancl_refl this]
  show ?thesis by (simp add: sample_outcome_def)
qed

lemma two_tasks_deps:
  "task_deps (snd (create_task sample_task_env (sample_in ''e2'' 20 2) (sample_create [1]) task_db1)) = [(''w'', 2, 1)]"
  by code_simp

lemma task_dependencies_acyclic_witness:
  "acyclic {((w, a), (w, b)) | w a b. (w, a, b) \<in> set [(''w'', 2, 1 :: int)]}"
proof -
  have "task_step sample_task_env (10, task_db1)
      (20, snd (create_task sample_task_env (sample_in ''e2'' 20 2) (sample_create [1]) task_db1))"
    by (rule task_step.create [OF _ surjective_pairing]) (simp add: sample_clock)
  moreover have "task_step sample_task_env (0, empty_task_db) (10, task_db1)"
    unfolding task_db1_def by (rule task_step.create [OF _ surjective_pairing]) (simp add: sample_clock)
  ultimately have "(task_step sample_task_env)\<^sup>*\<^sup>* (0, empty_task_db)
      (20, snd (create_task sample_task_env (sample_in ''e2'' 20 2) (sample_create [1]) task_db1))"
    by (rule converse_rtranclp_into_rtranclp [OF _ r_into_rtranclp, rotated])
  from task_dependencies_acyclic [OF this empty_task_db_wf] show ?thesis by (simp only: two_tasks_deps)
qed

section \<open>Claims\<close>

text \<open>A claim that succeeds has selected one task in the state after its dead-letterings.\<close>

lemma claim_scan_Some:
  assumes "claim_scan g k E i c w sid caps db = Inr (Some r, db')" and clk: "clock_within n0 m (ti_clock i)"
    and "n \<le> ti_clock i (6 * k + 1)"
  obtains n' j db0 t where "core_step\<^sup>*\<^sup>* (n, core db) (n', core db0)"
    and "n' \<le> ti_clock i (6 * j + 1)"
    and "select_claimable_task_tx (ti_clock i (6 * j + 1)) (ti_locked i) w caps (cl_task c) db0 = Some t"
    and "tk_attempts t < tk_max_attempts t"
    and "claim_selected_tx E (ti_io i j) (\<lambda>x. ti_clock i (6 * j + 1 + x)) c w sid t db0 = Inr (r, db')"
  using assms(1,3)
proof (induction g arbitrary: k db n thesis)
  case 0
  then show ?case by simp
next
  case (Suc g)
  let ?clk = "\<lambda>j. ti_clock i (6 * k + 1 + j)"
  have mono: "mono ?clk" using clk by (auto simp: mono_def clock_within_def)
  obtain t where sel: "select_claimable_task_tx (?clk 0) (ti_locked i) w caps (cl_task c) db = Some t"
    using Suc.prems(2) by (cases "select_claimable_task_tx (?clk 0) (ti_locked i) w caps (cl_task c) db") auto
  show ?case
  proof (cases "tk_max_attempts t \<le> tk_attempts t")
    case True
    with Suc.prems(2) sel obtain db1 where
      dl: "transition_dead_letter_tx E (ti_io i k) (\<lambda>j. ?clk (Suc j)) t ''retry budget exhausted'' db = Inr db1"
      and scan: "claim_scan g (Suc k) E i c w sid caps db1 = Inr (Some r, db')"
      by (auto simp: Let_def results)
    have first: "core_step (n, core db) (ti_clock i (6 * Suc k + 1), core db1)"
      by (rule dead_letter_core [OF dl sel True])
        (use Suc.prems(3) mono clock_withinD(5) [OF clk] in \<open>auto simp: mono_def intro: order_trans\<close>)
    show ?thesis
      by (rule Suc.IH [OF _ scan order_refl]) (rule Suc.prems(1), use first in \<open>auto intro: converse_rtranclp_into_rtranclp\<close>)
  next
    case False
    with Suc.prems(2) sel have "claim_selected_tx E (ti_io i k) ?clk c w sid t db = Inr (r, db')"
      by (auto simp: Let_def results)
    with False sel show ?thesis by (intro Suc.prems(1) [of n db k t]) (use Suc.prems(3) in auto)
  qed
qed

lemma claim_selected_task:
  assumes "claim_selected_tx E i clk c w sid t db = Inr (r, db')"
  shows "read_task_tx w (tk_id t) db' = Inr (cm_task r)"
  using assms
proof (cases rule: claim_selected_Inr)
  case (1 found l)
  from 1(5) show ?thesis unfolding record_claim_tx_def Let_def by (elim handler_elims) auto
qed

text \<open>
  C35: A successful claim hands out a task that is now claimed by exactly this session, whose
  dependencies are all done, within its attempt budget, with an unreleased lease whose fence is the
  task's fence and larger than the fence of any earlier lease of the task.
\<close>

theorem claim_next_grants:
  assumes run: "claim_next E i c db = (Inr r, db')" and wf: "core_wf (core db)"
    and clk: "clock_within n m (ti_clock i)"
  shows "cm_task r \<in> set (tasks db') \<and> tk_status (cm_task r) = ''claimed'' \<and>
    tk_assigned (cm_task r) = Some (trim_space (cl_session c)) \<and> deps_done (core db') (cm_task r) \<and>
    1 \<le> tk_attempts (cm_task r) \<and> tk_attempts (cm_task r) \<le> tk_max_attempts (cm_task r) \<and>
    task_leases db' (task_key (cm_task r)) = Some (cm_lease r) \<and>
    lease_owner (cm_lease r) = trim_space (cl_session c) \<and> lease_released (cm_lease r) = None \<and>
    tk_fence (cm_task r) = lease_fence (cm_lease r) \<and>
    \<not> (\<exists>old. task_leases db (task_key (cm_task r)) = Some old \<and> lease_fence (cm_lease r) \<le> lease_fence old)"
proof -
  let ?sid = "trim_space (cl_session c)" and ?w = "normalize_workspace (cl_workspace c)"
  have "claim_next_tx E i c db = Inr (Some r, db')"
    using run by (auto simp: claim_next_def in_tx_def split: sum.splits option.splits prod.splits)
  then obtain s :: session where sid: "?sid \<noteq> []"
    and scan: "claim_scan 100 0 E i c ?w ?sid (ses_capabilities s) db = Inr (Some r, db')"
    by (rule claim_next_Inr) blast
  from scan clk obtain n' j db0 t where pre: "core_step\<^sup>*\<^sup>* (n, core db) (n', core db0)"
    and n': "n' \<le> ti_clock i (6 * j + 1)"
    and sel: "select_claimable_task_tx (ti_clock i (6 * j + 1)) (ti_locked i) ?w (ses_capabilities s) (cl_task c) db0 = Some t"
    and bud: "tk_attempts t < tk_max_attempts t"
    and run: "claim_selected_tx E (ti_io i j) (\<lambda>x. ti_clock i (6 * j + 1 + x)) c ?w ?sid t db0 = Inr (r, db')"
    by (rule claim_scan_Some [where n = n]) (use clock_withinD(2) [OF clk] in auto)
  have mono: "mono (\<lambda>x. ti_clock i (6 * j + 1 + x))" using clk by (auto simp: mono_def clock_within_def)
  have clk': "n' \<le> (\<lambda>x. ti_clock i (6 * j + 1 + x)) 1" "(\<lambda>x. ti_clock i (6 * j + 1 + x)) 5 \<le> m"
    using n' clock_withinD(3,5) [OF clk] by (auto intro: order_trans)
  have wf0: "core_wf (core db0)" using core_run_wf [OF pre] wf by simp
  note step = claim_selected_core [OF run sel bud sid trim_space_idem mono clk']
  have wf': "core_wf (core db')" using core_step_wf [OF step(1) wf0] .
  have tw: "tk_workspace t = ?w" using claimable_core(1) [OF select_claimable_Some(2) [OF sel]] .
  from read_task_tx_Inr [OF claim_selected_task [OF run]]
  have row: "cm_task r \<in> set (c_tasks (core db'))" and key: "task_key (cm_task r) = (?w, tk_id t)"
    by (auto simp: task_key_def)
  from step(2) have lease: "c_leases (core db') (?w, tk_id t) = Some (cm_lease r)"
    and own: "lease_owner (cm_lease r) = ?sid" and act: "lease_released (cm_lease r) = None"
    and take: "cm_takeover r \<Longrightarrow> \<exists>l. c_leases (core db0) (?w, tk_id t) = Some l \<and> lease_fence (cm_lease r) = lease_fence l + 1"
    by (auto simp: lease_active_def)
  have ok: "row_ok (cm_task r) (Some (cm_lease r))"
    using core_wf_task [OF wf' row] lease key by simp
  have takeover: "cm_takeover r" if "c_leases (core db0) (?w, tk_id t) \<noteq> None"
    using run that
  proof (cases rule: claim_selected_Inr)
    case (1 found l)
    have "found \<noteq> None"
    proof
      assume "found = None"
      with 1(1) have "c_leases (core db0) (?w, tk_id t) = None" by (simp only: read_task_lease_None)
      with that show False by simp
    qed
    then show ?thesis using record_claim_core [OF 1(5)] by simp
  qed
  have "\<not> (\<exists>old. task_leases db (?w, tk_id t) = Some old \<and> lease_fence (cm_lease r) \<le> lease_fence old)"
  proof
    assume "\<exists>old. task_leases db (?w, tk_id t) = Some old \<and> lease_fence (cm_lease r) \<le> lease_fence old"
    then obtain old where old: "c_leases (core db) (?w, tk_id t) = Some old" "lease_fence (cm_lease r) \<le> lease_fence old"
      by (auto simp: core_def)
    from core_run_lease [OF pre, of "(?w, tk_id t)" old] old(1)
    obtain l where l: "c_leases (core db0) (?w, tk_id t) = Some l" "lease_fence old \<le> lease_fence l"
      by (auto dest: lease_le_fence)
    with take takeover have "lease_fence (cm_lease r) = lease_fence l + 1" by auto
    with l old show False by simp
  qed
  moreover have "deps_done (core db') (cm_task r)"
    using wf' row ok act by (simp add: core_wf_def row_ok_def)
  moreover have "tk_status (cm_task r) = ''claimed''" using step(3) row key by (simp add: task_key_def)
  ultimately show ?thesis using row ok act own lease key by (auto simp: row_ok_def core_def)
qed

lemma sample_claim_run:
  "\<exists>r. claim_next sample_task_env (sample_in ''e3'' 3000000 3) (sample_claim ''s2'') task_db2 = (Inr r, task_db3) \<and> cm_takeover r"
proof -
  have "(case fst (claim_next sample_task_env (sample_in ''e3'' 3000000 3) (sample_claim ''s2'') task_db2) of
      Inl _ \<Rightarrow> False | Inr r \<Rightarrow> cm_takeover r)" by code_simp
  then show ?thesis by (simp add: task_db3_def prod_eq_iff split: sum.splits)
qed

lemma claim_next_grants_witness:
  "\<exists>r :: task_claim_result. cm_task r \<in> set (tasks task_db3) \<and> lease_owner (cm_lease r) = ''s2'' \<and> cm_takeover r"
proof -
  obtain r where r: "claim_next sample_task_env (sample_in ''e3'' 3000000 3) (sample_claim ''s2'') task_db2 = (Inr r, task_db3)"
    and "cm_takeover r" using sample_claim_run by blast
  moreover have "trim_space (cl_session (sample_claim ''s2'')) = ''s2''" by code_simp
  ultimately show ?thesis
    using claim_next_grants [OF r task_run_wf [OF sample_history(1) empty_task_db_wf], of 0 "9000000"]
    by (auto simp: sample_clock)
qed

lemma select_claimable_oldest_witness:
  "\<exists>t. claimable 20 ''w'' [] 0 task_db1 t \<and> tk_id t = 1"
proof -
  have "map_option tk_id (select_claimable_task_tx 20 (\<lambda>_. False) ''w'' [] 0 task_db1) = Some 1" by code_simp
  then obtain t where t: "select_claimable_task_tx 20 (\<lambda>_. False) ''w'' [] 0 task_db1 = Some t" "tk_id t = 1"
    by auto
  from select_claimable_oldest [OF t(1) select_claimable_Some(1,2) [OF t(1)]] t(2) show ?thesis by auto
qed

end
