(* ===== verification/Model_Contract.thy ===== *)
theory Model_Contract
  imports Event_Contract Complex_Main
begin

text \<open>
  \<open>internal/contracts/model.go\<close>: the provider-neutral model contract, its bounds and its
  normalisation.

  Monetary amounts (Go float64) are rational numbers: rounding and the special values of IEEE
  arithmetic are not modelled.  A Go map of metadata is an association list with distinct keys.
  The clones that detach shared slices are identities of a model without sharing.
\<close>

section \<open>Constants\<close>

definition model_schema_version :: int where
  "model_schema_version = 1"

definition default_model_timeout_ms :: int where
  "default_model_timeout_ms = 30000"

definition max_model_timeout :: duration where
  "max_model_timeout = 600 * second"

definition max_model_input_tokens :: int where
  "max_model_input_tokens = 2 ^ 20"

definition default_model_output_tokens :: int where
  "default_model_output_tokens = 8192"

definition max_model_output_tokens :: int where
  "max_model_output_tokens = 8192"

definition max_model_total_tokens :: int where
  "max_model_total_tokens = max_model_input_tokens + max_model_output_tokens"

definition max_model_input_bytes :: int where
  "max_model_input_bytes = 4 * 2 ^ 20"

definition max_model_output_bytes :: int where
  "max_model_output_bytes = 4 * 2 ^ 20"

definition max_model_metadata_entries :: int where
  "max_model_metadata_entries = 64"

section \<open>Data\<close>

datatype model_error = ModelInvalid string

record provider_ref =
  pf_provider :: string
  pf_endpoint :: string
  pf_model :: string

record model_tool_call =
  mc_id :: string
  mc_tool :: string
  mc_arguments :: string

record model_message =
  mm_role :: string
  mm_content :: string
  mm_name :: string
  mm_tool_call :: string
  mm_calls :: "model_tool_call list"

record model_tool_definition =
  md_name :: string
  md_description :: string
  md_parameters :: string

record model_budget =
  mb_input_bytes :: int
  mb_output_bytes :: int
  mb_input_tokens :: int
  mb_output_tokens :: int
  mb_total_tokens :: int
  mb_cost :: rat
  mb_timeout_ms :: int

record retry_policy =
  rp_attempts :: int
  rp_initial_ms :: int
  rp_max_ms :: int
  rp_codes :: "string list"

record model_usage =
  mu_input :: int
  mu_output :: int
  mu_total :: int
  mu_cache_read :: int
  mu_cache_write :: int
  mu_source :: string

record model_cost =
  mk_currency :: string
  mk_input :: rat
  mk_output :: rat
  mk_total :: rat
  mk_source :: string

record model_request =
  mr_schema_version :: int
  mr_request_id :: string
  mr_idempotency :: string
  mr_causation :: string
  mr_correlation :: string
  mr_workspace :: string
  mr_actor :: actor_ref
  mr_task :: "entity_ref option"
  mr_session :: "entity_ref option"
  mr_provider :: provider_ref
  mr_messages :: "model_message list"
  mr_tools :: "model_tool_definition list"
  mr_prompt :: string
  mr_budget :: model_budget
  mr_retry :: retry_policy
  mr_metadata :: "(string \<times> string) list"

record model_response =
  ms_request_id :: string
  ms_provider :: provider_ref
  ms_content :: string
  ms_calls :: "model_tool_call list"
  ms_finish :: string
  ms_usage :: model_usage
  ms_cost :: model_cost
  ms_provider_request :: string
  ms_content_hash :: string

record model_failure =
  mf_code :: string
  mf_message :: string
  mf_provider :: string
  mf_status :: int
  mf_retry_after_ms :: int
  mf_provider_request :: string
  mf_retryable :: bool
  mf_content :: bool

section \<open>Token estimates\<close>

text \<open>The width of the leading rune: 1 for a byte that starts no valid encoding.\<close>

definition cont_byte :: "nat \<Rightarrow> nat \<Rightarrow> char \<Rightarrow> bool" where
  "cont_byte lo hi c \<longleftrightarrow> lo \<le> (of_char c :: nat) \<and> (of_char c :: nat) \<le> hi"

definition rune_continuation :: "nat \<Rightarrow> string \<Rightarrow> nat" where
  "rune_continuation n r =
    (if 0xC2 \<le> n \<and> n \<le> 0xDF
     then (case r of b # _ \<Rightarrow> if cont_byte 0x80 0xBF b then 1 else 0 | _ \<Rightarrow> 0)
     else if 0xE0 \<le> n \<and> n \<le> 0xEF
     then (case r of b # c # _ \<Rightarrow>
         if cont_byte (if n = 0xE0 then 0xA0 else 0x80) (if n = 0xED then 0x9F else 0xBF) b \<and>
            cont_byte 0x80 0xBF c then 2 else 0
       | _ \<Rightarrow> 0)
     else if 0xF0 \<le> n \<and> n \<le> 0xF4
     then (case r of b # c # d # _ \<Rightarrow>
         if cont_byte (if n = 0xF0 then 0x90 else 0x80) (if n = 0xF4 then 0x8F else 0xBF) b \<and>
            cont_byte 0x80 0xBF c \<and> cont_byte 0x80 0xBF d then 3 else 0
       | _ \<Rightarrow> 0)
     else 0)"

definition rune_width :: "string \<Rightarrow> nat" where
  "rune_width s = (case s of [] \<Rightarrow> 0 | a # r \<Rightarrow> 1 + rune_continuation (of_char a) r)"

lemma rune_width_pos: "s \<noteq> [] \<Longrightarrow> 1 \<le> rune_width s"
  by (cases s) (simp_all add: rune_width_def)

function rune_count :: "string \<Rightarrow> int" where
  "rune_count s = (if s = [] then 0 else 1 + rune_count (drop (rune_width s) s))"
  by pat_completeness auto
termination
proof (relation "measure length", goal_cases)
  case (2 s)
  then have "0 < length s" and "0 < rune_width s" using rune_width_pos [of s] by auto
  then show ?case by simp
qed simp

declare rune_count.simps [simp del]

definition estimate_model_tokens :: "string \<Rightarrow> int" where
  "estimate_model_tokens s = (if s = [] then 0 else (rune_count s + 3) div 4)"

section \<open>Normalisation\<close>

definition normalize_tool_definition :: "model_tool_definition \<Rightarrow> model_error + model_tool_definition" where
  "normalize_tool_definition d0 =
    (let d = d0\<lparr>md_name := trim_space (md_name d0), md_description := trim_space (md_description d0),
        md_parameters := (if md_parameters d0 = [] then ''{'' @ json_string ''type'' @ '':'' @ json_string ''object'' @ ''}''
          else md_parameters d0)\<rparr> in
    if md_name d = [] \<or> len (md_name d) > 128 then Inl (ModelInvalid ''tool name is required and must be at most 128 characters'')
    else if \<not> json_valid (md_parameters d) then Inl (ModelInvalid ''tool parameters must be valid JSON'')
    else Inr d)"

definition normalize_tool_call :: "model_tool_call \<Rightarrow> model_error + model_tool_call" where
  "normalize_tool_call c0 =
    (let c = c0\<lparr>mc_id := trim_space (mc_id c0), mc_tool := trim_space (mc_tool c0),
        mc_arguments := (if mc_arguments c0 = [] then ''{}'' else mc_arguments c0)\<rparr> in
    if mc_id c = [] then Inl (ModelInvalid ''tool call id is required'')
    else if mc_tool c = [] then Inl (ModelInvalid ''tool call tool_id is required'')
    else if \<not> json_valid (mc_arguments c) then Inl (ModelInvalid ''tool call arguments must be valid JSON'')
    else Inr c)"

definition normalize_provider_ref :: "provider_ref \<Rightarrow> model_error + provider_ref" where
  "normalize_provider_ref p0 =
    (let p = \<lparr>pf_provider = to_lower (trim_space (pf_provider p0)), pf_endpoint = trim_space (pf_endpoint p0),
        pf_model = trim_space (pf_model p0)\<rparr> in
    if pf_provider p = [] then Inl (ModelInvalid ''provider.provider is required'')
    else if len (pf_provider p) > 128 \<or> len (pf_endpoint p) > 512 \<or> len (pf_model p) > 256
    then Inl (ModelInvalid ''provider reference is too large'')
    else Inr p)"

definition validate_model_entity_ref ::
    "string \<Rightarrow> string \<Rightarrow> entity_ref option \<Rightarrow> model_error + entity_ref option" where
  "validate_model_entity_ref kind workspace ref =
    (case ref of
      None \<Rightarrow> Inr None
    | Some r0 \<Rightarrow>
        let r = \<lparr>er_id = trim_space (er_id r0), er_kind = to_lower (trim_space (er_kind r0)),
            er_workspace = trim_space (er_workspace r0)\<rparr> in
        if er_id r = [] \<or> er_kind r \<noteq> kind then Inl (ModelInvalid ''reference requires kind and id'')
        else if er_workspace r \<noteq> [] \<and> er_workspace r \<noteq> workspace
        then Inl (ModelInvalid ''reference crosses workspace boundary'')
        else Inr (Some (r\<lparr>er_workspace := workspace\<rparr>)))"

text \<open>The product \<open>time.Duration(ms) * time.Millisecond\<close> wraps in 64 bits.\<close>

definition ms_duration :: "int \<Rightarrow> duration" where
  "ms_duration ms = wrap64 (ms * millisecond)"

definition default_if_zero :: "int \<Rightarrow> int \<Rightarrow> int" where
  "default_if_zero d v = (if v = 0 then d else v)"

definition normalize_model_budget :: "model_budget \<Rightarrow> model_error + model_budget" where
  "normalize_model_budget b0 =
    (let inp = default_if_zero max_model_input_tokens (mb_input_tokens b0);
         out = default_if_zero default_model_output_tokens (mb_output_tokens b0);
         b = b0\<lparr>mb_input_bytes := default_if_zero max_model_input_bytes (mb_input_bytes b0),
           mb_output_bytes := default_if_zero max_model_output_bytes (mb_output_bytes b0),
           mb_input_tokens := inp, mb_output_tokens := out,
           mb_total_tokens := default_if_zero (inp + out) (mb_total_tokens b0),
           mb_timeout_ms := default_if_zero default_model_timeout_ms (mb_timeout_ms b0)\<rparr> in
    if mb_input_bytes b < 1 \<or> mb_input_bytes b > max_model_input_bytes then Inl (ModelInvalid ''max_input_bytes'')
    else if mb_output_bytes b < 1 \<or> mb_output_bytes b > max_model_output_bytes then Inl (ModelInvalid ''max_output_bytes'')
    else if inp < 1 \<or> inp > max_model_input_tokens \<or> out < 1 \<or> out > max_model_output_tokens \<or>
      mb_total_tokens b < 1 \<or> mb_total_tokens b > max_model_total_tokens
    then Inl (ModelInvalid ''model token budget is invalid'')
    else if mb_total_tokens b < inp then Inl (ModelInvalid ''max_total_tokens cannot be below max_input_tokens'')
    else if mb_cost b < 0 then Inl (ModelInvalid ''max_cost_usd cannot be negative'')
    else if mb_timeout_ms b < 1 \<or> ms_duration (mb_timeout_ms b) > max_model_timeout then Inl (ModelInvalid ''timeout_ms'')
    else Inr b)"

definition default_retry_policy :: retry_policy where
  "default_retry_policy = \<lparr>rp_attempts = 3, rp_initial_ms = 100, rp_max_ms = 10000,
    rp_codes = [''rate_limit'', ''timeout'', ''transport'', ''provider'']\<rparr>"

text \<open>The loop over the codes: a repeated code is skipped before it is written back.\<close>

fun normalize_codes :: "string list \<Rightarrow> string list \<Rightarrow> model_error + string list" where
  "normalize_codes seen [] = Inr []"
| "normalize_codes seen (c # cs) =
    (let k = trim_space (to_lower c) in
    if k = [] then Inl (ModelInvalid ''retryable_codes is empty'')
    else if k \<in> set seen then bindE (normalize_codes seen cs) (\<lambda>ks. Inr (c # ks))
    else bindE (normalize_codes (k # seen) cs) (\<lambda>ks. Inr (k # ks)))"

definition normalize_retry_policy :: "retry_policy \<Rightarrow> model_error + retry_policy" where
  "normalize_retry_policy p0 =
    (let p = (if rp_attempts p0 = 0 \<and> rp_initial_ms p0 = 0 \<and> rp_max_ms p0 = 0 \<and> rp_codes p0 = []
        then default_retry_policy else p0) in
    if rp_attempts p < 1 \<or> rp_attempts p > 5 \<or> rp_initial_ms p < 0 \<or> rp_max_ms p < rp_initial_ms p \<or> rp_max_ms p > 60000
    then Inl (ModelInvalid ''retry policy is invalid'')
    else bindE (normalize_codes [] (rp_codes p)) (\<lambda>ks. Inr (p\<lparr>rp_codes := ks\<rparr>)))"

definition retry_allows :: "retry_policy \<Rightarrow> string \<Rightarrow> bool" where
  "retry_allows p code \<longleftrightarrow> trim_space (to_lower code) \<in> set (rp_codes p)"

definition normalize_usage :: "model_usage \<Rightarrow> model_error + model_usage" where
  "normalize_usage u0 =
    (if mu_input u0 < 0 \<or> mu_output u0 < 0 \<or> mu_total u0 < 0 \<or> mu_cache_read u0 < 0 \<or> mu_cache_write u0 < 0
     then Inl (ModelInvalid ''model usage cannot be negative'')
     else
      let total = default_if_zero (wrap64 (mu_input u0 + mu_output u0)) (mu_total u0) in
      if total < wrap64 (mu_input u0 + mu_output u0)
      then Inl (ModelInvalid ''total_tokens cannot be below input plus output tokens'')
      else Inr (u0\<lparr>mu_total := total, mu_source := trim_space (mu_source u0)\<rparr>))"

definition upper_char :: "char \<Rightarrow> char" where
  "upper_char c =
    (if 97 \<le> (of_char c :: nat) \<and> (of_char c :: nat) \<le> 122 then char_of (of_char c - 32 :: nat) else c)"

definition normalize_cost :: "model_cost \<Rightarrow> model_error + model_cost" where
  "normalize_cost c0 =
    (let c = c0\<lparr>mk_currency := map upper_char (trim_space (if mk_currency c0 = [] then ''USD'' else mk_currency c0))\<rparr> in
    if mk_input c < 0 \<or> mk_output c < 0 \<or> mk_total c < 0 then Inl (ModelInvalid ''model cost cannot be negative'')
    else Inr (c\<lparr>mk_total := (if mk_total c = 0 then mk_input c + mk_output c else mk_total c),
      mk_source := trim_space (mk_source c)\<rparr>))"

text \<open>\<open>hash\<close> is the digest of the canonical content, finish reason and tool calls.\<close>

definition normalize_response ::
    "(string \<times> string \<times> model_tool_call list \<Rightarrow> string) \<Rightarrow> model_response \<Rightarrow> model_error + model_response" where
  "normalize_response hash r0 =
    (let r = r0\<lparr>ms_request_id := trim_space (ms_request_id r0)\<rparr> in
    if ms_request_id r = [] then Inl (ModelInvalid ''response request_id is required'')
    else bindE (normalize_provider_ref (ms_provider r)) (\<lambda>p.
    bindE (mapE normalize_tool_call (ms_calls r)) (\<lambda>calls.
    let finish = trim_space (ms_finish r) in
    if trim_space (ms_content r) = [] \<and> calls = [] \<and> finish \<noteq> ''tool_calls''
    then Inl (ModelInvalid ''model response content is empty'')
    else bindE (normalize_usage (ms_usage r)) (\<lambda>u.
    bindE (normalize_cost (ms_cost r)) (\<lambda>c.
    Inr (r\<lparr>ms_provider := p, ms_calls := calls, ms_finish := finish,
      ms_provider_request := trim_space (ms_provider_request r), ms_usage := u, ms_cost := c,
      ms_content_hash := hash (ms_content r, finish, calls)\<rparr>))))))"

definition normalize_failure :: "model_failure \<Rightarrow> model_error + model_failure" where
  "normalize_failure f0 =
    (let f = f0\<lparr>mf_code := trim_space (to_lower (mf_code f0)), mf_message := trim_space (mf_message f0),
        mf_provider := trim_space (mf_provider f0), mf_provider_request := trim_space (mf_provider_request f0)\<rparr> in
    if mf_code f = [] \<or> mf_message f = [] then Inl (ModelInvalid ''model failure code and message are required'')
    else if mf_status f < 0 \<or> mf_retry_after_ms f < 0
    then Inl (ModelInvalid ''model failure status and retry delay cannot be negative'')
    else Inr f)"

definition message_roles :: "string list" where
  "message_roles = [''system'', ''user'', ''assistant'', ''tool'']"

definition normalize_message :: "model_message \<Rightarrow> model_error + model_message" where
  "normalize_message m0 =
    (let m = m0\<lparr>mm_role := to_lower (trim_space (mm_role m0)), mm_name := trim_space (mm_name m0)\<rparr> in
    if mm_role m \<notin> set message_roles then Inl (ModelInvalid ''role is unsupported'')
    else if trim_space (mm_content m) = [] then
      if mm_calls m \<noteq> [] \<and> mm_role m = ''assistant''
      then bindE (mapE normalize_tool_call (mm_calls m)) (\<lambda>calls. Inr (m\<lparr>mm_calls := calls\<rparr>))
      else Inl (ModelInvalid ''content is required'')
    else if mm_role m = ''tool'' \<and> mm_tool_call m = [] then Inl (ModelInvalid ''tool_call_id is required'')
    else Inr m)"

definition normalize_model_request :: "string \<Rightarrow> model_request \<Rightarrow> model_error + model_request" where
  "normalize_model_request new_id r0 =
    (let rid = (if trim_space (mr_request_id r0) = [] then new_id else trim_space (mr_request_id r0));
         key = trim_space (mr_idempotency r0); w = trim_space (mr_workspace r0);
         prompt = trim_space (mr_prompt r0) in
    if default_if_zero model_schema_version (mr_schema_version r0) \<noteq> model_schema_version
    then Inl (ModelInvalid ''unsupported model schema_version'')
    else if key = [] then Inl (ModelInvalid ''idempotency_key is required'')
    else if len key > max_idempotency_length then Inl (ModelInvalid ''idempotency_key is too long'')
    else if w = [] then Inl (ModelInvalid ''workspace_id is required'')
    else if len w > 256 then Inl (ModelInvalid ''workspace_id is too large'')
    else bindE (normalize_provider_ref (mr_provider r0)) (\<lambda>p.
    bindE (validate_model_entity_ref ''task'' w (mr_task r0)) (\<lambda>task.
    bindE (validate_model_entity_ref ''session'' w (mr_session r0)) (\<lambda>session.
    if mr_messages r0 = [] \<and> prompt = [] then Inl (ModelInvalid ''prompt or messages are required'')
    else bindE (mapE normalize_message (mr_messages r0)) (\<lambda>messages.
    bindE (mapE normalize_tool_definition (mr_tools r0)) (\<lambda>tools.
    bindE (normalize_model_budget (mr_budget r0)) (\<lambda>budget.
    bindE (normalize_retry_policy (mr_retry r0)) (\<lambda>retry.
    if len (mr_metadata r0) > max_model_metadata_entries then Inl (ModelInvalid ''metadata is too large'')
    else if list_ex (\<lambda>(k, v). trim_space k = [] \<or> len k > 128 \<or> len v > 1024) (mr_metadata r0)
    then Inl (ModelInvalid ''metadata entry is invalid'')
    else Inr (r0\<lparr>mr_schema_version := model_schema_version, mr_request_id := rid, mr_idempotency := key,
      mr_causation := trim_space (mr_causation r0), mr_correlation := trim_space (mr_correlation r0),
      mr_workspace := w, mr_provider := p, mr_task := task, mr_session := session, mr_prompt := prompt,
      mr_messages := messages, mr_tools := tools, mr_budget := budget, mr_retry := retry\<rparr>)))))))))"

definition request_text :: "model_request \<Rightarrow> string" where
  "request_text r = mr_prompt r @ concat (map (\<lambda>m. mm_role m @ mm_name m @ mm_content m) (mr_messages r))"

definition estimated_input_bytes :: "model_request \<Rightarrow> int" where
  "estimated_input_bytes r = len (request_text r)"

definition estimated_input_tokens :: "model_request \<Rightarrow> int" where
  "estimated_input_tokens r = estimate_model_tokens (request_text r)"

text \<open>What \<open>RequestHash\<close> digests: the normalised request without its generated identities.\<close>

definition model_request_content :: "string \<Rightarrow> model_request \<Rightarrow> model_error + model_request" where
  "model_request_content new_id r0 =
    bindE (normalize_model_request new_id r0) (\<lambda>r. Inr (r\<lparr>mr_request_id := [], mr_idempotency := [],
      mr_causation := [], mr_correlation := []\<rparr>))"

section \<open>Facts on the normal forms\<close>

lemma rune_count_bounds: "0 \<le> rune_count s \<and> rune_count s \<le> len s"
proof (induction s rule: rune_count.induct)
  case (1 s)
  show ?case
  proof (cases "s = []")
    case False
    then have "1 \<le> rune_width s" by (rule rune_width_pos)
    with False have "len (drop (rune_width s) s) + 1 \<le> len s" by (cases s) (auto simp: len_def)
    with "1.IH" [OF False] False show ?thesis by (simp add: rune_count.simps [of s])
  qed (simp add: rune_count.simps len_def)
qed

lemma estimate_tokens_nonneg: "0 \<le> estimate_model_tokens s"
  using rune_count_bounds [of s] by (auto simp: estimate_model_tokens_def intro: pos_imp_zdiv_nonneg_iff [THEN iffD2])

lemma normalize_model_budget_bounds:
  assumes "normalize_model_budget b = Inr b'"
  shows "1 \<le> mb_output_tokens b' \<and> mb_output_tokens b' \<le> max_model_output_tokens \<and>
    1 \<le> mb_input_tokens b' \<and> mb_input_tokens b' \<le> mb_total_tokens b' \<and> 1 \<le> mb_timeout_ms b' \<and>
    mb_output_bytes b' \<le> max_model_output_bytes \<and> mb_cost b' = mb_cost b \<and> 0 \<le> mb_cost b'"
  using assms by (auto simp: normalize_model_budget_def Let_def split: if_splits)

lemma normalize_usage_bounds:
  assumes "normalize_usage u = Inr u'" and "mu_input u + mu_output u < 2 ^ 63"
  shows "0 \<le> mu_input u' \<and> 0 \<le> mu_output u' \<and> mu_input u' + mu_output u' \<le> mu_total u'"
  using assms wrap64_id [of "mu_input u + mu_output u"]
  by (auto simp: normalize_usage_def Let_def split: if_splits)

end
