(* ===== verification/Retrieval.thy ===== *)
theory Retrieval
  imports Model_Contract
begin

text \<open>
  \<open>internal/contracts/retrieval.go\<close>, \<open>internal/retrieval/planner.go\<close> and
  \<open>internal/retrieval/compiler.go\<close>: the retrieval request, its staged plan and the compiler
  that packs ranked candidates into a context under hard budgets.

  Scores are rational numbers (the NaN and infinity checks of the code concern values a rational
  does not have).  Digests are parameters.  The stages themselves (SQL of \<open>store.go\<close>) are not
  modelled.
\<close>

section \<open>Request\<close>

record retrieval_request =
  rt_workspace :: string
  rt_request_id :: string
  rt_idempotency :: string
  rt_actor :: actor_ref
  rt_causation :: string
  rt_correlation :: string
  rt_query :: string
  rt_sources :: "string list"
  rt_task :: string
  rt_memo :: string
  rt_repo :: string
  rt_max_items :: int
  rt_max_bytes :: int
  rt_max_tokens :: int
  rt_min_results :: int
  rt_min_score :: rat
  rt_candidates :: int
  rt_graph :: "bool option"
  rt_vector :: "bool option"
  rt_embedding :: "rat list"

datatype retrieval_error = RetrievalInvalid string

definition max_retrieval_items :: int where
  "max_retrieval_items = 100"

definition max_retrieval_bytes :: int where
  "max_retrieval_bytes = 2 ^ 20"

definition max_retrieval_tokens :: int where
  "max_retrieval_tokens = 65536"

definition max_query_embedding_dim :: int where
  "max_query_embedding_dim = 768"

definition normalize_strings :: "string list \<Rightarrow> string list" where
  "normalize_strings vs = sort (dedup_trim [] vs)"

lemma dedup_trim_fixed:
  assumes "distinct vs" and "\<forall>v \<in> set vs. trim_space v = v \<and> v \<noteq> []" and "set vs \<inter> set seen = {}"
  shows "dedup_trim seen vs = vs"
  using assms by (induction vs arbitrary: seen) auto

lemma normalize_strings_idem: "normalize_strings (normalize_strings vs) = normalize_strings vs"
proof -
  have "dedup_trim [] (normalize_strings vs) = normalize_strings vs"
    by (rule dedup_trim_fixed) (auto simp: normalize_strings_def set_dedup_trim)
  then show ?thesis by (simp add: normalize_strings_def sorted_sort_id)
qed

text \<open>The fields after trimming and defaulting; the checks of \<open>Normalize\<close> read them.\<close>

definition retrieval_defaults :: "retrieval_request \<Rightarrow> retrieval_request" where
  "retrieval_defaults r = r\<lparr>rt_workspace := trim_space (rt_workspace r),
    rt_request_id := trim_space (rt_request_id r), rt_idempotency := trim_space (rt_idempotency r),
    rt_query := trim_space (rt_query r), rt_causation := trim_space (rt_causation r),
    rt_correlation := trim_space (rt_correlation r), rt_task := trim_space (rt_task r),
    rt_memo := trim_space (rt_memo r), rt_repo := trim_space (rt_repo r),
    rt_sources := normalize_strings (rt_sources r), rt_max_items := default_if_zero 20 (rt_max_items r),
    rt_max_bytes := default_if_zero (32 * 2 ^ 10) (rt_max_bytes r),
    rt_max_tokens := default_if_zero 8192 (rt_max_tokens r),
    rt_min_results := default_if_zero 1 (rt_min_results r),
    rt_min_score := (if rt_min_score r = 0 then 3 / 4 else rt_min_score r),
    rt_candidates := default_if_zero (wrap64 (default_if_zero 20 (rt_max_items r) * 5)) (rt_candidates r),
    rt_graph := Some (case rt_graph r of None \<Rightarrow> True | Some b \<Rightarrow> b),
    rt_vector := Some (case rt_vector r of None \<Rightarrow> True | Some b \<Rightarrow> b)\<rparr>"

definition normalize_retrieval :: "retrieval_request \<Rightarrow> retrieval_error + retrieval_request" where
  "normalize_retrieval r0 =
    (let r = retrieval_defaults r0 in
    if rt_workspace r = [] then Inl (RetrievalInvalid ''workspace_id is required'')
    else if len (rt_request_id r) > max_event_id_length \<or> len (rt_idempotency r) > max_idempotency_length
    then Inl (RetrievalInvalid ''retrieval request identity is too large'')
    else if rt_max_items r < 1 \<or> rt_max_items r > max_retrieval_items then Inl (RetrievalInvalid ''max_items'')
    else if rt_max_bytes r < 1 \<or> rt_max_bytes r > max_retrieval_bytes then Inl (RetrievalInvalid ''max_bytes'')
    else if rt_max_tokens r < 1 \<or> rt_max_tokens r > max_retrieval_tokens then Inl (RetrievalInvalid ''max_tokens'')
    else if rt_min_results r < 1 \<or> rt_min_results r > rt_max_items r then Inl (RetrievalInvalid ''min_results'')
    else if rt_candidates r < 1 \<or> rt_candidates r > max_retrieval_items * 10 then Inl (RetrievalInvalid ''candidate_limit'')
    else if rt_min_score r < 0 \<or> rt_min_score r > 1 then Inl (RetrievalInvalid ''min_score must be between 0 and 1'')
    else if rt_embedding r \<noteq> [] \<and> len (rt_embedding r) \<noteq> max_query_embedding_dim
    then Inl (RetrievalInvalid ''query_embedding dimensions'')
    else Inr r)"

definition blank_actor :: actor_ref where
  "blank_actor = \<lparr>ac_id = [], ac_kind = [], ac_name = [], ac_workspace = []\<rparr>"

text \<open>What \<open>Hash\<close> digests: the normalised request without its transport identity.\<close>

definition retrieval_content :: "retrieval_request \<Rightarrow> retrieval_error + retrieval_request" where
  "retrieval_content r0 = bindE (normalize_retrieval r0) (\<lambda>r. Inr (r\<lparr>rt_request_id := [], rt_idempotency := [],
    rt_actor := blank_actor, rt_causation := [], rt_correlation := []\<rparr>))"

definition estimate_tokens :: "string \<Rightarrow> int" where
  "estimate_tokens s = (if s = [] then 0 else (rune_count s + 3) div 4)"

section \<open>Plan\<close>

record stage_plan =
  sp_name :: string
  sp_enabled :: bool
  sp_limit :: int
  sp_reason :: string

record retrieval_budget =
  rb_items :: int
  rb_bytes :: int
  rb_tokens :: int

record retrieval_plan =
  pl_policy :: string
  pl_request_hash :: string
  pl_workspace :: string
  pl_budget :: retrieval_budget
  pl_stages :: "stage_plan list"

definition has_structured_constraints :: "retrieval_request \<Rightarrow> bool" where
  "has_structured_constraints r \<longleftrightarrow> rt_sources r \<noteq> [] \<or> rt_task r \<noteq> [] \<or> rt_memo r \<noteq> [] \<or> rt_repo r \<noteq> []"

definition stage_reason :: "retrieval_request \<Rightarrow> stage_plan \<Rightarrow> stage_plan" where
  "stage_reason r s =
    (if sp_enabled s then s
     else s\<lparr>sp_reason :=
      (if sp_name s = ''structured'' then ''no_structured_constraints''
       else if sp_name s = ''lexical'' then ''empty_query''
       else if sp_name s = ''graph'' then ''disabled_by_request''
       else if rt_vector r = Some False then ''disabled_by_request''
       else ''query_embedding_not_supplied'')\<rparr>)"

definition build_plan ::
    "(retrieval_request \<Rightarrow> string) \<Rightarrow> retrieval_request \<Rightarrow> retrieval_error + retrieval_plan \<times> retrieval_request" where
  "build_plan digest r0 =
    bindE (normalize_retrieval r0) (\<lambda>r.
    bindE (retrieval_content r) (\<lambda>content.
    let limit = rt_candidates r;
        stage = (\<lambda>n e l. \<lparr>sp_name = n, sp_enabled = e, sp_limit = l, sp_reason = []\<rparr>);
        stages = [stage ''structured'' (has_structured_constraints r) limit,
          stage ''lexical'' (rt_query r \<noteq> []) limit,
          stage ''graph'' (rt_graph r = Some True) (max 1 (limit div 2)),
          stage ''vector'' (rt_vector r = Some True \<and> rt_embedding r \<noteq> []) limit] in
    Inr (\<lparr>pl_policy = ''retrieval-v1'', pl_request_hash = digest content, pl_workspace = rt_workspace r,
          pl_budget = \<lparr>rb_items = rt_max_items r, rb_bytes = rt_max_bytes r, rb_tokens = rt_max_tokens r\<rparr>,
          pl_stages = map (stage_reason r) stages\<rparr>, r)))"

section \<open>Compiler\<close>

record context_item =
  ci_workspace :: string
  ci_source :: string
  ci_kind :: string
  ci_representation :: string
  ci_text :: string
  ci_evidence :: string
  ci_score :: rat
  ci_stage :: string
  ci_original_bytes :: int
  ci_original_tokens :: int
  ci_truncated :: bool

record context_pack =
  cp_workspace :: string
  cp_request_hash :: string
  cp_items :: "context_item list"
  cp_total_bytes :: int
  cp_total_tokens :: int
  cp_truncated :: bool
  cp_abstained :: bool
  cp_content_hash :: string

definition ranks_before :: "context_item \<Rightarrow> context_item \<Rightarrow> bool" where
  "ranks_before a b \<longleftrightarrow>
    (if ci_score a \<noteq> ci_score b then ci_score a > ci_score b
     else if ci_kind a \<noteq> ci_kind b then ci_kind a < ci_kind b
     else ci_source a < ci_source b)"

text \<open>
  \<open>[]rune(text)\<close>, each rune as the bytes \<open>string\<close> encodes it back to: an invalid byte
  becomes U+FFFD.
\<close>

definition leading_rune :: "string \<Rightarrow> string" where
  "leading_rune s =
    (if rune_width s = 1 \<and> 0x80 \<le> (of_char (hd s) :: nat) then [CHR 0xEF, CHR 0xBF, CHR 0xBD]
     else take (rune_width s) s)"

function runes :: "string \<Rightarrow> string list" where
  "runes s = (if s = [] then [] else leading_rune s # runes (drop (rune_width s) s))"
  by pat_completeness auto
termination
proof (relation "measure length", goal_cases)
  case (2 s)
  then have "0 < length s" and "0 < rune_width s" using rune_width_pos [of s] by auto
  then show ?case by simp
qed simp

declare runes.simps [simp del]

definition fits :: "int \<Rightarrow> int \<Rightarrow> string \<Rightarrow> bool" where
  "fits max_bytes max_tokens s \<longleftrightarrow> len s \<le> max_bytes \<and> estimate_tokens s \<le> max_tokens"

text \<open>The binary search for the largest number of runes that fits.\<close>

function prefix_search :: "(nat \<Rightarrow> bool) \<Rightarrow> nat \<Rightarrow> nat \<Rightarrow> nat" where
  "prefix_search ok low high =
    (if low < high then
      let mid = low + (high - low + 1) div 2 in
      if ok mid then prefix_search ok mid high else prefix_search ok low (mid - 1)
     else low)"
  by pat_completeness auto
termination by (relation "measure (\<lambda>(ok, low, high). high - low)") auto

declare prefix_search.simps [simp del]

definition bounded_prefix :: "string \<Rightarrow> int \<Rightarrow> int \<Rightarrow> string" where
  "bounded_prefix text max_bytes max_tokens =
    (if text = [] \<or> max_bytes \<le> 0 \<or> max_tokens \<le> 0 then []
     else if fits max_bytes max_tokens text then text
     else
      let rs = runes text;
          n = prefix_search (\<lambda>mid. fits max_bytes max_tokens (concat (take mid rs))) 0 (length rs) in
      if n = 0 then [] else concat (take n rs))"

record packing =
  pk_items :: "context_item list"
  pk_bytes :: int
  pk_tokens :: int
  pk_truncated :: bool

text \<open>The body of the loop for a candidate of the workspace while both budgets have room.\<close>

definition pack_candidate :: "retrieval_budget \<Rightarrow> context_item \<Rightarrow> packing \<Rightarrow> packing" where
  "pack_candidate b source p =
    (let text = ci_text source; bytes = len text; tokens = estimate_tokens text;
         rem_bytes = rb_bytes b - pk_bytes p; rem_tokens = rb_tokens b - pk_tokens p;
         item0 = source\<lparr>ci_original_bytes := bytes, ci_original_tokens := tokens\<rparr>;
         over = (bytes > rem_bytes \<or> tokens > rem_tokens);
         cut = bounded_prefix text rem_bytes rem_tokens;
         item = (if over then item0\<lparr>ci_text := cut, ci_truncated := (cut \<noteq> text)\<rparr> else item0);
         p1 = (if over then p\<lparr>pk_truncated := (pk_truncated p \<or> cut \<noteq> text)\<rparr> else p) in
      if ci_text item = [] then p1
      else if len (ci_text item) > rem_bytes \<or> estimate_tokens (ci_text item) > rem_tokens then p1
      else p1\<lparr>pk_items := pk_items p1 @ [item],
          pk_bytes := pk_bytes p1 + len (ci_text item),
          pk_tokens := pk_tokens p1 + estimate_tokens (ci_text item)\<rparr>)"

text \<open>The loop over the ordered candidates; returning \<open>p\<close> early is the \<open>break\<close>.\<close>

fun compile_loop :: "string \<Rightarrow> retrieval_budget \<Rightarrow> context_item list \<Rightarrow> packing \<Rightarrow> packing" where
  "compile_loop workspace b [] p = p"
| "compile_loop workspace b (source # rest) p =
    (if len (pk_items p) \<ge> rb_items b then p
     else if trim_space (ci_workspace source) \<noteq> workspace then compile_loop workspace b rest p
     else if rb_bytes b - pk_bytes p \<le> 0 \<or> rb_tokens b - pk_tokens p \<le> 0 then p
     else compile_loop workspace b rest (pack_candidate b source p))"

definition compile_context ::
    "(string \<times> string \<times> context_item list \<times> retrieval_budget \<Rightarrow> string) \<Rightarrow> string \<Rightarrow> string \<Rightarrow>
      retrieval_budget \<Rightarrow> context_item list \<Rightarrow> context_pack" where
  "compile_context digest rhash workspace b candidates =
    (let p = compile_loop workspace b (sort_by ranks_before candidates)
          \<lparr>pk_items = [], pk_bytes = 0, pk_tokens = 0, pk_truncated = False\<rparr> in
      \<lparr>cp_workspace = workspace, cp_request_hash = rhash, cp_items = pk_items p,
       cp_total_bytes = pk_bytes p, cp_total_tokens = pk_tokens p, cp_truncated = pk_truncated p,
       cp_abstained = (pk_items p = []),
       cp_content_hash = digest (rhash, workspace, pk_items p, b)\<rparr>)"

section \<open>The search and the prefix\<close>

lemma prefix_search_spec:
  assumes "low \<le> high" and "\<forall>i j. i \<le> j \<longrightarrow> ok j \<longrightarrow> ok i" and "ok low"
  shows "ok (prefix_search ok low high) \<and> low \<le> prefix_search ok low high \<and> prefix_search ok low high \<le> high \<and>
    (\<forall>k. prefix_search ok low high < k \<and> k \<le> high \<longrightarrow> \<not> ok k)"
  using assms
proof (induction ok low high rule: prefix_search.induct)
  case (1 ok low high)
  let ?mid = "low + (high - low + 1) div 2"
  show ?case
  proof (cases "low < high")
    case False
    then have "prefix_search ok low high = low" by (simp only: prefix_search.simps [of ok low high] if_False)
    with False "1.prems" show ?thesis by auto
  next
    case True
    then have mid: "low < ?mid" "?mid \<le> high" by auto
    show ?thesis
    proof (cases "ok ?mid")
      case ok: True
      have eq: "prefix_search ok low high = prefix_search ok ?mid high"
        using True ok by (simp add: prefix_search.simps [of ok low high] Let_def)
      show ?thesis unfolding eq
        using "1.IH"(1) [OF True refl ok mid(2) "1.prems"(2) ok] mid(1) less_imp_le le_trans by blast
    next
      case bad: False
      have eq: "prefix_search ok low high = prefix_search ok low (?mid - 1)"
        using True bad by (simp add: prefix_search.simps [of ok low high] Let_def)
      have "low \<le> ?mid - 1" using mid by simp
      note ih = "1.IH"(2) [OF True refl bad this "1.prems"(2) "1.prems"(3)]
      have "\<not> ok k" if "prefix_search ok low (?mid - 1) < k" "k \<le> high" for k
      proof (cases "k \<le> ?mid - 1")
        case False
        then have "?mid \<le> k" by linarith
        then show ?thesis using bad "1.prems"(2) by blast
      qed (use ih that in blast)
      moreover have "?mid - 1 \<le> high" using mid by linarith
      ultimately show ?thesis unfolding eq using ih le_trans by blast
    qed
  qed
qed

lemma rune_width_leading:
  assumes "x \<noteq> []"
  shows "rune_width (leading_rune x @ s) = length (leading_rune x)"
proof -
  obtain a r where x: "x = a # r" using assms by (cases x) auto
  let ?n = "of_char a :: nat"
  consider (bad) "rune_width x = 1" "0x80 \<le> ?n" | (ascii) "?n < 0x80" | (multi) "rune_continuation ?n r \<noteq> 0" "0x80 \<le> ?n"
    by (force simp: rune_width_def x)
  then show ?thesis
  proof cases
    case bad
    then show ?thesis by (simp add: leading_rune_def x rune_width_def rune_continuation_def cont_byte_def)
  next
    case ascii
    then have "rune_continuation ?n t = 0" for t by (simp add: rune_continuation_def)
    with ascii show ?thesis by (simp add: leading_rune_def rune_width_def x)
  next
    case multi
    have w: "leading_rune x = take (rune_width x) x"
      using multi(1) by (simp add: leading_rune_def rune_width_def x)
    have k: "rune_continuation ?n (take (rune_continuation ?n r) r @ s) = rune_continuation ?n r \<and>
        rune_continuation ?n r \<le> length r"
      using multi(1) unfolding rune_continuation_def
      by (cases r; cases "tl r"; cases "tl (tl r)") (simp_all split: if_splits)
    have "leading_rune x = a # take (rune_continuation ?n r) r"
      by (simp add: w) (simp add: rune_width_def x)
    then show ?thesis using k by (simp add: rune_width_def)
  qed
qed

lemma rune_count_append_rune:
  assumes "x \<noteq> []"
  shows "rune_count (leading_rune x @ s) = 1 + rune_count s"
proof -
  have "leading_rune x \<noteq> []"
    using rune_width_pos [OF assms] assms by (auto simp: leading_rune_def)
  then show ?thesis
    using rune_width_leading [OF assms, of s] by (simp add: rune_count.simps [of "leading_rune x @ s"])
qed

lemma runes_from: "r \<in> set (runes s) \<Longrightarrow> \<exists>x. x \<noteq> [] \<and> r = leading_rune x"
  by (induction s rule: runes.induct) (subst (asm) (2) runes.simps, auto split: if_splits)

lemma rune_count_concat:
  "\<forall>r \<in> set rs. \<exists>x. x \<noteq> [] \<and> r = leading_rune x \<Longrightarrow> rune_count (concat rs) = int (length rs)"
proof (induction rs)
  case (Cons r rs)
  then obtain x where "x \<noteq> []" "r = leading_rune x" by auto
  then show ?case using Cons rune_count_append_rune by simp
qed (simp add: rune_count.simps)

lemma context_tokens_nonneg: "0 \<le> estimate_tokens s"
  using rune_count_bounds [of s] by (simp add: estimate_tokens_def pos_imp_zdiv_nonneg_iff)

lemma estimate_tokens_mono:
  assumes "rune_count a \<le> rune_count b" and "b = [] \<Longrightarrow> a = []"
  shows "estimate_tokens a \<le> estimate_tokens b"
proof (cases "a = []")
  case True
  then show ?thesis using context_tokens_nonneg [of b] by (simp add: estimate_tokens_def)
next
  case False
  with assms show ?thesis by (auto simp: estimate_tokens_def zdiv_mono1)
qed

lemma fits_take_mono:
  assumes "fits b t (concat (take j (runes s)))" and "i \<le> j"
  shows "fits b t (concat (take i (runes s)))"
proof -
  have fr: "\<forall>r \<in> set (take k (runes s)). \<exists>x. x \<noteq> [] \<and> r = leading_rune x" for k
    using runes_from by (metis in_set_takeD)
  have "take j (runes s) = take i (runes s) @ drop i (take j (runes s))"
    using assms(2) append_take_drop_id [of i "take j (runes s)"] by (simp add: take_take min_def)
  then have "concat (take j (runes s)) = concat (take i (runes s)) @ concat (drop i (take j (runes s)))"
    by (metis concat_append)
  then have len: "length (concat (take i (runes s))) \<le> length (concat (take j (runes s)))" by simp
  have count: "rune_count (concat (take i (runes s))) \<le> rune_count (concat (take j (runes s)))"
    using assms(2) by (simp add: rune_count_concat [OF fr])
  have "concat (take j (runes s)) = [] \<Longrightarrow> concat (take i (runes s)) = []"
    using len by (metis length_0_conv le_zero_eq list.size(3))
  with count have "estimate_tokens (concat (take i (runes s))) \<le> estimate_tokens (concat (take j (runes s)))"
    by (rule estimate_tokens_mono)
  then show ?thesis using assms(1) len by (simp add: fits_def len_def)
qed

lemma fits_Nil: "0 \<le> b \<Longrightarrow> 0 \<le> t \<Longrightarrow> fits b t []"
  by (simp add: fits_def len_def estimate_tokens_def)

text \<open>
  A text over its bounds is cut to its longest prefix of runes that fits the bytes and the
  estimated tokens: the result fits, and no longer prefix of runes does.
\<close>

theorem bounded_prefix_longest:
  assumes "0 < b" and "0 < t" and "s \<noteq> []"
  shows "fits b t (bounded_prefix s b t) \<and>
    (\<not> fits b t s \<longrightarrow> (\<exists>n. bounded_prefix s b t = concat (take n (runes s)) \<and>
      (\<forall>k. n < k \<and> k \<le> length (runes s) \<longrightarrow> \<not> fits b t (concat (take k (runes s))))))"
proof (cases "fits b t s")
  case True
  then show ?thesis using assms by (simp add: bounded_prefix_def)
next
  case False
  let ?ok = "\<lambda>mid. fits b t (concat (take mid (runes s)))"
  define n where "n = prefix_search ?ok 0 (length (runes s))"
  have mono: "\<forall>i j. i \<le> j \<longrightarrow> ?ok j \<longrightarrow> ?ok i" using fits_take_mono by blast
  have nil: "?ok 0" using assms fits_Nil [of b t] by simp
  have spec: "?ok n" "\<forall>k. n < k \<and> k \<le> length (runes s) \<longrightarrow> \<not> ?ok k"
    using prefix_search_spec [of 0 "length (runes s)" ?ok, OF le0 mono nil] unfolding n_def by blast+
  have "bounded_prefix s b t = concat (take n (runes s))"
    using False assms by (simp add: bounded_prefix_def Let_def n_def [symmetric])
  with spec show ?thesis by auto
qed

lemma bounded_prefix_longest_witness:
  "fits 4 8 (bounded_prefix ''fencing'' 4 8) \<and> bounded_prefix ''fencing'' 4 8 = ''fenc''"
proof (rule conjI)
  show "fits 4 8 (bounded_prefix ''fencing'' 4 8)" using bounded_prefix_longest [of 4 8 "''fencing''"] by simp
qed code_simp

section \<open>Packing\<close>

definition text_bytes :: "context_item list \<Rightarrow> int" where
  "text_bytes is = (\<Sum>i \<leftarrow> is. len (ci_text i))"

definition text_tokens :: "context_item list \<Rightarrow> int" where
  "text_tokens is = (\<Sum>i \<leftarrow> is. estimate_tokens (ci_text i))"

text \<open>A packing that respects a workspace and a budget, its items drawn in order from a list.\<close>

definition well_packed :: "string \<Rightarrow> retrieval_budget \<Rightarrow> packing \<Rightarrow> bool" where
  "well_packed w b p \<longleftrightarrow>
    len (pk_items p) \<le> max 0 (rb_items b) \<and>
    pk_bytes p = text_bytes (pk_items p) \<and> pk_tokens p = text_tokens (pk_items p) \<and>
    pk_bytes p \<le> max 0 (rb_bytes b) \<and> pk_tokens p \<le> max 0 (rb_tokens b) \<and>
    (\<forall>i \<in> set (pk_items p). trim_space (ci_workspace i) = w \<and> ci_text i \<noteq> [])"

lemma well_packed_add:
  assumes "well_packed w b p" and "len (pk_items p) < rb_items b" and "trim_space (ci_workspace i) = w"
    and "ci_text i \<noteq> []" and "len (ci_text i) \<le> rb_bytes b - pk_bytes p"
    and "estimate_tokens (ci_text i) \<le> rb_tokens b - pk_tokens p"
    and "pk_items q = pk_items p @ [i]" and "pk_bytes q = pk_bytes p + len (ci_text i)"
    and "pk_tokens q = pk_tokens p + estimate_tokens (ci_text i)"
  shows "well_packed w b q"
  using assms by (auto simp: well_packed_def text_bytes_def text_tokens_def len_def)

lemma well_packed_truncated [simp]:
  "well_packed w b (p\<lparr>pk_truncated := x\<rparr>) \<longleftrightarrow> well_packed w b p"
  by (simp add: well_packed_def)

lemma pack_candidate_well_packed:
  assumes "well_packed w b p" and "len (pk_items p) < rb_items b" and "trim_space (ci_workspace source) = w"
  shows "well_packed w b (pack_candidate b source p)"
proof -
  define rb where "rb = rb_bytes b - pk_bytes p"
  define rt where "rt = rb_tokens b - pk_tokens p"
  define over where "over \<longleftrightarrow> len (ci_text source) > rb \<or> estimate_tokens (ci_text source) > rt"
  define cut where "cut = bounded_prefix (ci_text source) rb rt"
  define item0 where "item0 = source\<lparr>ci_original_bytes := len (ci_text source),
    ci_original_tokens := estimate_tokens (ci_text source)\<rparr>"
  define item where "item = (if over then item0\<lparr>ci_text := cut, ci_truncated := (cut \<noteq> ci_text source)\<rparr> else item0)"
  define p1 where "p1 = (if over then p\<lparr>pk_truncated := (pk_truncated p \<or> cut \<noteq> ci_text source)\<rparr> else p)"
  have eq: "pack_candidate b source p =
      (if ci_text item = [] then p1
       else if len (ci_text item) > rb \<or> estimate_tokens (ci_text item) > rt then p1
       else p1\<lparr>pk_items := pk_items p1 @ [item], pk_bytes := pk_bytes p1 + len (ci_text item),
         pk_tokens := pk_tokens p1 + estimate_tokens (ci_text item)\<rparr>)"
    by (simp only: pack_candidate_def Let_def p1_def item_def item0_def cut_def over_def rb_def rt_def)
  have "well_packed w b p1" and "trim_space (ci_workspace item) = w" and "len (pk_items p1) < rb_items b"
    and "pk_bytes p1 = pk_bytes p" and "pk_tokens p1 = pk_tokens p"
    using assms by (simp_all add: p1_def item_def item0_def)
  then show ?thesis
    by (cases "ci_text item = [] \<or> len (ci_text item) > rb \<or> estimate_tokens (ci_text item) > rt")
      (simp only: eq if_True if_False de_Morgan_disj split: if_split,
        blast, simp add: eq rb_def rt_def well_packed_add [of w b p1 item])
qed

lemma compile_loop_well_packed: "well_packed w b p \<Longrightarrow> well_packed w b (compile_loop w b cs p)"
proof (induction w b cs p rule: compile_loop.induct)
  case (2 w b source rest p)
  then show ?case by (auto simp: not_le pack_candidate_well_packed)
qed simp

text \<open>
  C17: A compiled context keeps every hard budget, with totals that are the sums over its items,
  and holds no item of another workspace and no empty text.
\<close>

theorem compile_within_budget:
  "let pack = compile_context digest h w b cs; is = cp_items pack in
     len is \<le> max 0 (rb_items b) \<and>
     cp_total_bytes pack = text_bytes is \<and> cp_total_bytes pack \<le> max 0 (rb_bytes b) \<and>
     cp_total_tokens pack = text_tokens is \<and> cp_total_tokens pack \<le> max 0 (rb_tokens b) \<and>
     list_all (\<lambda>i. trim_space (ci_workspace i) = w \<and> ci_text i \<noteq> []) is"
proof -
  have "well_packed w b \<lparr>pk_items = [], pk_bytes = 0, pk_tokens = 0, pk_truncated = False\<rparr>"
    by (simp add: well_packed_def text_bytes_def text_tokens_def len_def)
  from compile_loop_well_packed [OF this, of "sort_by ranks_before cs"] show ?thesis
    by (auto simp: compile_context_def Let_def well_packed_def list_all_iff)
qed

section \<open>Order\<close>

lemma ranks_before_strict_weak: "strict_weak ranks_before"
  unfolding strict_weak_def ranks_before_def by (auto split: if_splits)

text \<open>The stable sort keeps the order of what it does not tell apart, and is determined by it.\<close>

lemma filter_insert_by:
  assumes "\<And>y. P x \<Longrightarrow> P y \<Longrightarrow> \<not> lt y x"
  shows "filter P (insert_by lt x ys) = (if P x then x # filter P ys else filter P ys)"
  using assms by (induction ys) auto

lemma filter_sort_by:
  assumes "\<And>x y. P x \<Longrightarrow> P y \<Longrightarrow> \<not> lt x y"
  shows "filter P (sort_by lt xs) = filter P xs"
  unfolding sort_by_def by (induction xs) (auto simp: filter_insert_by assms)

lemma sorted_filters_unique:
  assumes "sorted_wrt (\<lambda>x y. \<not> lt y x) xs" and "sorted_wrt (\<lambda>x y. \<not> lt y x) ys"
    and "\<And>k. filter (\<lambda>x. key x = k) xs = filter (\<lambda>x. key x = k) ys"
    and "\<And>x y. \<not> lt x y \<Longrightarrow> \<not> lt y x \<Longrightarrow> key x = key y" and "\<And>x. \<not> lt x x"
  shows "xs = ys"
  using assms(1-3)
proof (induction xs arbitrary: ys)
  case Nil
  then have none: "filter (\<lambda>x. key x = k) ys = []" for k by simp
  show ?case
  proof (cases ys)
    case (Cons a as)
    with none [of "key a"] show ?thesis by simp
  qed simp
next
  case (Cons x xs)
  have same: "z \<in> set (x # xs) \<longleftrightarrow> z \<in> set ys" for z
    using arg_cong [OF Cons.prems(3) [of "key z"], of set] by (simp only: set_filter) blast
  then obtain y ys' where ys: "ys = y # ys'" by (cases ys) auto
  have "\<not> lt y x" using same [of y] Cons.prems(1) assms(5) ys by auto
  moreover have "\<not> lt x y" using same [of x] Cons.prems(2) assms(5) ys by auto
  ultimately have "key x = key y" by (intro assms(4))
  then have "x = y" using Cons.prems(3) [of "key x"] ys by simp
  have "xs = ys'"
  proof (rule Cons.IH)
    show "filter (\<lambda>z. key z = k) xs = filter (\<lambda>z. key z = k) ys'" for k
      using Cons.prems(3) [of k] \<open>x = y\<close> ys by (simp split: if_split_asm)
  qed (use Cons.prems(1,2) ys in simp_all)
  with \<open>x = y\<close> ys show ?case by simp
qed

definition ranking_key :: "context_item \<Rightarrow> rat \<times> string \<times> string" where
  "ranking_key i = (ci_score i, ci_kind i, ci_source i)"

lemma ranks_before_key:
  "\<not> ranks_before a b \<Longrightarrow> \<not> ranks_before b a \<Longrightarrow> ranking_key a = ranking_key b"
  "ranking_key a = ranking_key b \<Longrightarrow> \<not> ranks_before a b"
  by (auto simp: ranks_before_def ranking_key_def split: if_splits)

text \<open>
  The compiled context depends on the order in which the stages delivered their candidates only
  through the candidates that agree in score, kind and source: as long as each such group stays in its
  order, every other reordering leaves the context as it is.  (Within a group the sort keeps the
  order of delivery, so reordering a group may change the context.)
\<close>

theorem compile_order_independent:
  assumes "\<And>k. filter (\<lambda>i. ranking_key i = k) cs = filter (\<lambda>i. ranking_key i = k) cs'"
  shows "compile_context digest h w b cs = compile_context digest h w b cs'"
proof -
  have "filter (\<lambda>i. ranking_key i = k) (sort_by ranks_before xs) = filter (\<lambda>i. ranking_key i = k) xs" for k xs
    by (rule filter_sort_by) (simp add: ranks_before_key(2))
  then have kept: "filter (\<lambda>i. ranking_key i = k) (sort_by ranks_before cs) =
      filter (\<lambda>i. ranking_key i = k) (sort_by ranks_before cs')" for k using assms [of k] by simp
  have "sort_by ranks_before cs = sort_by ranks_before cs'"
    by (rule sorted_filters_unique [OF sorted_sort_by [OF ranks_before_strict_weak]
          sorted_sort_by [OF ranks_before_strict_weak] kept ranks_before_key(1) ranks_before_key(2) [OF refl]])
  then show ?thesis by (simp add: compile_context_def)
qed

text \<open>In particular the order is immaterial when no two candidates agree in all three.\<close>

lemma distinct_keys_filters:
  assumes "mset cs = mset cs'" and "distinct (map ranking_key cs)"
  shows "filter (\<lambda>i. ranking_key i = k) cs = filter (\<lambda>i. ranking_key i = k) cs'"
proof -
  have small: "length (filter (\<lambda>i. ranking_key i = k) xs) \<le> 1" if "distinct (map ranking_key xs)" for xs
    using that
  proof (induction xs)
    case (Cons a xs)
    have "filter (\<lambda>i. ranking_key i = ranking_key a) xs = []"
      unfolding filter_empty_conv using Cons.prems by (auto simp: image_iff)
    with Cons show ?case by auto
  qed simp
  have "mset (map ranking_key cs) = mset (map ranking_key cs')" using assms(1) by simp
  then have "distinct (map ranking_key cs')" using assms(2) mset_eq_imp_distinct_iff by metis
  note short = small [OF assms(2)] small [OF this]
  have "mset (filter (\<lambda>i. ranking_key i = k) cs) = mset (filter (\<lambda>i. ranking_key i = k) cs')"
    using assms(1) by simp
  with short show ?thesis
    by (cases "filter (\<lambda>i. ranking_key i = k) cs"; cases "filter (\<lambda>i. ranking_key i = k) cs'") auto
qed

section \<open>Requests\<close>

lemma retrieval_defaults_idem:
  assumes "rt_candidates (retrieval_defaults r) \<noteq> 0"
  shows "retrieval_defaults (retrieval_defaults r) = retrieval_defaults r"
  using assms by (simp add: retrieval_defaults_def default_if_zero_def normalize_strings_idem)

lemma normalize_retrieval_Inr:
  assumes "normalize_retrieval r0 = Inr r"
  shows "r = retrieval_defaults r0 \<and> 1 \<le> rt_candidates r"
  using assms unfolding normalize_retrieval_def Let_def
  by (simp only: not_less sum.inject sum.distinct de_Morgan_disj split: if_split_asm)

text \<open>Normalising a retrieval request is idempotent: a normalised request is its own normal form.\<close>

theorem normalize_retrieval_idempotent:
  assumes "normalize_retrieval r0 = Inr r"
  shows "normalize_retrieval r = Inr r"
proof -
  have "r = retrieval_defaults r0" and "retrieval_defaults r = r"
    using normalize_retrieval_Inr [OF assms] retrieval_defaults_idem [of r0] by auto
  then show ?thesis using assms unfolding normalize_retrieval_def by (simp only: Let_def)
qed

definition sample_retrieval :: retrieval_request where
  "sample_retrieval = \<lparr>rt_workspace = '' ws '', rt_request_id = [], rt_idempotency = [], rt_actor = blank_actor,
    rt_causation = [], rt_correlation = [], rt_query = ''fence '', rt_sources = [''b'', '' a'', ''b''],
    rt_task = [], rt_memo = [], rt_repo = [], rt_max_items = 0, rt_max_bytes = 0, rt_max_tokens = 0,
    rt_min_results = 0, rt_min_score = 0, rt_candidates = 0, rt_graph = None, rt_vector = Some False,
    rt_embedding = []\<rparr>"

lemma sample_retrieval_normal: "normalize_retrieval sample_retrieval = Inr (retrieval_defaults sample_retrieval)"
  by code_simp

lemma normalize_retrieval_idempotent_witness:
  "normalize_retrieval (retrieval_defaults sample_retrieval) = Inr (retrieval_defaults sample_retrieval)"
  by (rule normalize_retrieval_idempotent [OF sample_retrieval_normal])

definition sample_item :: "string \<Rightarrow> rat \<Rightarrow> string \<Rightarrow> context_item" where
  "sample_item source score text = \<lparr>ci_workspace = ''ws'', ci_source = source, ci_kind = ''memo'',
    ci_representation = ''gist'', ci_text = text, ci_evidence = [], ci_score = score, ci_stage = ''lexical'',
    ci_original_bytes = 0, ci_original_tokens = 0, ci_truncated = False\<rparr>"

text \<open>Two of the items tie; they keep their order, the third moves.\<close>

definition sample_ties :: "context_item list" where
  "sample_ties = [sample_item ''a'' (1 / 2) ''lease'', sample_item ''b'' (3 / 4) ''fencing'', sample_item ''a'' (1 / 2) ''task'']"

definition sample_moved :: "context_item list" where
  "sample_moved = [sample_item ''b'' (3 / 4) ''fencing'', sample_item ''a'' (1 / 2) ''lease'', sample_item ''a'' (1 / 2) ''task'']"

lemma compile_order_independent_witness:
  "compile_context (\<lambda>_. ''digest'') ''h'' ''ws'' \<lparr>rb_items = 5, rb_bytes = 9, rb_tokens = 9\<rparr> sample_ties =
    compile_context (\<lambda>_. ''digest'') ''h'' ''ws'' \<lparr>rb_items = 5, rb_bytes = 9, rb_tokens = 9\<rparr> sample_moved \<and>
   map ci_text (cp_items (compile_context (\<lambda>_. ''digest'') ''h'' ''ws'' \<lparr>rb_items = 5, rb_bytes = 9, rb_tokens = 9\<rparr>
     sample_ties)) = [''fencing'', ''le'']"
proof (rule conjI)
  show "compile_context (\<lambda>_. ''digest'') ''h'' ''ws'' \<lparr>rb_items = 5, rb_bytes = 9, rb_tokens = 9\<rparr> sample_ties =
    compile_context (\<lambda>_. ''digest'') ''h'' ''ws'' \<lparr>rb_items = 5, rb_bytes = 9, rb_tokens = 9\<rparr> sample_moved"
    by (rule compile_order_independent)
      (auto simp: sample_ties_def sample_moved_def sample_item_def ranking_key_def)
qed code_simp

text \<open>Delivered the other way round, the tied items do change the context.\<close>

lemma tied_candidates_keep_order:
  "map ci_text (cp_items (compile_context (\<lambda>_. ''digest'') ''h'' ''ws'' \<lparr>rb_items = 5, rb_bytes = 9, rb_tokens = 9\<rparr>
     (rev sample_ties))) = [''fencing'', ''ta'']"
  by code_simp

end
