(* ===== verification/Tool_Contract.thy ===== *)
theory Tool_Contract
  imports Model_Contract
begin

text \<open>
  \<open>internal/contracts/tool.go\<close>: tool definitions, policy rules, requests, results and
  approvals with their normalisation, and the lexical path functions of Go's
  \<open>path/filepath\<close> on Unix they use.

  A Go map of environment values is an association list with distinct keys, in the order its
  iteration delivers them.  Digests are parameters of the functions that take them.
\<close>

section \<open>Paths\<close>

definition is_abs :: "string \<Rightarrow> bool" where
  "is_abs p \<longleftrightarrow> (case p of c # _ \<Rightarrow> c = CHR ''/'' | [] \<Rightarrow> False)"

text \<open>The elements between slashes, empty ones included.\<close>

fun split_slash :: "string \<Rightarrow> string list" where
  "split_slash [] = [[]]"
| "split_slash (c # cs) =
    (if c = CHR ''/'' then [] # split_slash cs
     else case split_slash cs of e # es \<Rightarrow> (c # e) # es | [] \<Rightarrow> [[c]])"

text \<open>\<open>Clean\<close> of an absolute path, as its elements: empty and \<open>.\<close> elements vanish and
  \<open>..\<close> removes the element before it, or nothing at the root.\<close>

fun clean_elements :: "string list \<Rightarrow> string list \<Rightarrow> string list" where
  "clean_elements acc [] = rev acc"
| "clean_elements acc (e # es) =
    (if e = [] \<or> e = ''.'' then clean_elements acc es
     else if e = ''..'' then clean_elements (tl acc) es
     else clean_elements (e # acc) es)"

definition abs_elements :: "string \<Rightarrow> string list" where
  "abs_elements p = clean_elements [] (split_slash p)"

text \<open>\<open>filepath.Abs\<close>: a relative path is joined to the working directory of the process.\<close>

definition abs_path :: "string \<Rightarrow> string \<Rightarrow> string list" where
  "abs_path cwd p = abs_elements (if is_abs p then p else cwd @ ''/'' @ p)"

text \<open>\<open>filepath.Rel\<close> of two clean absolute paths, as elements (the empty list is \<open>.\<close>).\<close>

fun rel_elements :: "string list \<Rightarrow> string list \<Rightarrow> string list" where
  "rel_elements (b # bs) (t # ts) =
    (if b = t then rel_elements bs ts else replicate (length (b # bs)) ''..'' @ t # ts)"
| "rel_elements bs ts = replicate (length bs) ''..'' @ ts"

text \<open>\<open>filepath.Base\<close>: trailing slashes go, then everything up to the last slash.\<close>

definition path_base :: "string \<Rightarrow> string" where
  "path_base p =
    (if p = [] then ''.''
     else
      let q = rev (dropWhile (\<lambda>c. c = CHR ''/'') (rev p)) in
      if q = [] then ''/'' else rev (takeWhile (\<lambda>c. c \<noteq> CHR ''/'') (rev q)))"

section \<open>Sandbox profiles\<close>

datatype tool_error =
  ToolInvalid string
| ToolModelInvalid model_error

definition tool_schema_version :: int where
  "tool_schema_version = 1"

definition default_tool_timeout_ms :: int where
  "default_tool_timeout_ms = 30000"

definition max_tool_timeout :: duration where
  "max_tool_timeout = 600 * second"

definition default_tool_output_bytes :: int where
  "default_tool_output_bytes = 256 * 2 ^ 10"

definition max_tool_output_bytes :: int where
  "max_tool_output_bytes = 4 * 2 ^ 20"

definition default_tool_arg_count :: int where
  "default_tool_arg_count = 64"

definition max_tool_arg_count :: int where
  "max_tool_arg_count = 256"

definition default_tool_arg_bytes :: int where
  "default_tool_arg_bytes = 16 * 2 ^ 10"

definition max_tool_arg_bytes :: int where
  "max_tool_arg_bytes = 64 * 2 ^ 10"

definition default_tool_env_count :: int where
  "default_tool_env_count = 64"

definition max_tool_env_count :: int where
  "max_tool_env_count = 128"

definition default_tool_env_bytes :: int where
  "default_tool_env_bytes = 32 * 2 ^ 10"

definition max_tool_env_bytes :: int where
  "max_tool_env_bytes = 128 * 2 ^ 10"

definition max_tool_evidence_bytes :: int where
  "max_tool_evidence_bytes = 64 * 2 ^ 10"

definition max_tool_workdir_length :: int where
  "max_tool_workdir_length = 4096"

record sandbox_profile =
  sb_backend :: string
  sb_timeout_ms :: int
  sb_stdout :: int
  sb_stderr :: int
  sb_args :: int
  sb_arg_bytes :: int
  sb_env :: int
  sb_env_bytes :: int
  sb_root :: string
  sb_network :: bool
  sb_inherit :: bool
  sb_readonly :: bool

definition default_sandbox_profile :: sandbox_profile where
  "default_sandbox_profile =
    \<lparr>sb_backend = ''local-process'', sb_timeout_ms = default_tool_timeout_ms,
     sb_stdout = default_tool_output_bytes, sb_stderr = default_tool_output_bytes,
     sb_args = default_tool_arg_count, sb_arg_bytes = default_tool_arg_bytes,
     sb_env = default_tool_env_count, sb_env_bytes = default_tool_env_bytes,
     sb_root = [], sb_network = False, sb_inherit = False, sb_readonly = False\<rparr>"

definition sandbox_defaults :: "sandbox_profile \<Rightarrow> sandbox_profile" where
  "sandbox_defaults p = p\<lparr>sb_backend := (if sb_backend p = [] then ''local-process'' else sb_backend p),
    sb_timeout_ms := default_if_zero default_tool_timeout_ms (sb_timeout_ms p),
    sb_stdout := default_if_zero default_tool_output_bytes (sb_stdout p),
    sb_stderr := default_if_zero default_tool_output_bytes (sb_stderr p),
    sb_args := default_if_zero default_tool_arg_count (sb_args p),
    sb_arg_bytes := default_if_zero default_tool_arg_bytes (sb_arg_bytes p),
    sb_env := default_if_zero default_tool_env_count (sb_env p),
    sb_env_bytes := default_if_zero default_tool_env_bytes (sb_env_bytes p),
    sb_root := trim_space (sb_root p)\<rparr>"

definition normalize_sandbox :: "sandbox_profile \<Rightarrow> tool_error + sandbox_profile" where
  "normalize_sandbox p0 =
    (let p = sandbox_defaults p0 in
    if sb_timeout_ms p < 1 \<or> ms_duration (sb_timeout_ms p) > max_tool_timeout then Inl (ToolInvalid ''timeout_ms'')
    else if sb_stdout p < 1 \<or> sb_stdout p > max_tool_output_bytes \<or> sb_stderr p < 1 \<or> sb_stderr p > max_tool_output_bytes
    then Inl (ToolInvalid ''tool output budget exceeds bounds'')
    else if sb_args p < 1 \<or> sb_args p > max_tool_arg_count \<or> sb_arg_bytes p < 1 \<or> sb_arg_bytes p > max_tool_arg_bytes
    then Inl (ToolInvalid ''tool argument budget exceeds bounds'')
    else if sb_env p < 0 \<or> sb_env p > max_tool_env_count \<or> sb_env_bytes p < 0 \<or> sb_env_bytes p > max_tool_env_bytes
    then Inl (ToolInvalid ''tool environment budget exceeds bounds'')
    else if sb_root p \<noteq> [] \<and> \<not> is_abs (sb_root p) then Inl (ToolInvalid ''allowed_workdir_root must be absolute'')
    else if sb_network p then Inl (ToolInvalid ''local-process profile cannot claim network isolation'')
    else if sb_inherit p then Inl (ToolInvalid ''inherited environment is not permitted'')
    else Inr p)"

section \<open>Definitions and rules\<close>

record tool_definition =
  td_id :: string
  td_version :: string
  td_name :: string
  td_capability :: string
  td_description :: string
  td_executable :: string
  td_argv_prefix :: "string list"
  td_path_indexes :: "int list"
  td_env_keys :: "string list"
  td_root :: string
  td_sandbox :: sandbox_profile
  td_enabled :: bool

definition shell_names :: "string list" where
  "shell_names = [''sh'', ''bash'', ''zsh'', ''fish'', ''dash'', ''ksh'', ''cmd'', ''powershell'', ''pwsh'']"

definition is_shell_executable :: "string \<Rightarrow> bool" where
  "is_shell_executable path \<longleftrightarrow> to_lower (path_base path) \<in> set shell_names"

definition unique_sorted :: "string list \<Rightarrow> string list" where
  "unique_sorted vs = sort (dedup_trim [] vs)"

text \<open>The pattern \<open>[A-Za-z_][A-Za-z0-9_]*\<close>, anchored at both ends.\<close>

definition env_start :: "char \<Rightarrow> bool" where
  "env_start c \<longleftrightarrow> (let n = of_char c :: nat in 65 \<le> n \<and> n \<le> 90 \<or> 97 \<le> n \<and> n \<le> 122 \<or> n = 95)"

definition env_key_pattern :: "string \<Rightarrow> bool" where
  "env_key_pattern k \<longleftrightarrow> (case k of [] \<Rightarrow> False
    | c # cs \<Rightarrow> env_start c \<and> list_all (\<lambda>d. env_start d \<or> digit d) cs)"

text \<open>The loop over the keys: each is trimmed and matched.\<close>

fun normalize_env_keys :: "string \<Rightarrow> string list \<Rightarrow> tool_error + string list" where
  "normalize_env_keys err [] = Inr []"
| "normalize_env_keys err (k # ks) =
    (if \<not> env_key_pattern (trim_space k) then Inl (ToolInvalid err)
     else bindE (normalize_env_keys err ks) (\<lambda>r. Inr (trim_space k # r)))"

definition normalize_definition :: "tool_definition \<Rightarrow> tool_error + tool_definition" where
  "normalize_definition d0 =
    (let d = d0\<lparr>td_id := to_lower (trim_space (td_id d0)), td_name := trim_space (td_name d0),
        td_version := trim_space (td_version d0), td_capability := to_lower (trim_space (td_capability d0)),
        td_executable := trim_space (td_executable d0), td_root := trim_space (td_root d0)\<rparr> in
    if td_id d = [] \<or> td_name d = [] \<or> td_version d = [] \<or> td_capability d = []
    then Inl (ToolInvalid ''tool id, name, version, and capability are required'')
    else if \<not> is_abs (td_executable d) then Inl (ToolInvalid ''tool executable must be absolute'')
    else if is_shell_executable (td_executable d) then Inl (ToolInvalid ''shell executables are not permitted'')
    else if len (td_argv_prefix d) > max_tool_arg_count then Inl (ToolInvalid ''tool argv prefix is too large'')
    else if len (td_path_indexes d) > max_tool_arg_count then Inl (ToolInvalid ''tool path argv indexes are too large'')
    else if list_ex (\<lambda>i. i < 0 \<or> i \<ge> max_tool_arg_count) (td_path_indexes d)
    then Inl (ToolInvalid ''tool path argv index is out of bounds'')
    else if list_ex (\<lambda>a. len a > max_tool_arg_bytes) (td_argv_prefix d)
    then Inl (ToolInvalid ''tool argv prefix argument is too large'')
    else if td_root d \<noteq> [] \<and> \<not> is_abs (td_root d) then Inl (ToolInvalid ''tool workdir_root must be absolute'')
    else bindE (normalize_env_keys ''invalid allowed environment key'' (td_env_keys d)) (\<lambda>keys.
    bindE (normalize_sandbox (td_sandbox d)) (\<lambda>sb.
    let sb = (if sb_root sb = [] then sb\<lparr>sb_root := td_root d\<rparr> else sb) in
    if \<not> td_enabled d then Inl (ToolInvalid ''tool is disabled'')
    else Inr (d\<lparr>td_env_keys := unique_sorted keys, td_sandbox := sb\<rparr>))))"

record tool_policy_rule =
  rl_id :: string
  rl_priority :: int
  rl_workspace :: string
  rl_actor :: string
  rl_task :: string
  rl_session :: string
  rl_tool :: string
  rl_capability :: string
  rl_mode :: string
  rl_argv_prefix :: "string list"
  rl_env_keys :: "string list"
  rl_root :: string
  rl_sandbox :: sandbox_profile
  rl_enabled :: bool

definition tool_modes :: "string list" where
  "tool_modes = [''automatic'', ''pre_approved'', ''interactive'', ''denied'']"

definition normalize_rule :: "tool_policy_rule \<Rightarrow> tool_error + tool_policy_rule" where
  "normalize_rule r0 =
    (let r = r0\<lparr>rl_id := trim_space (rl_id r0), rl_workspace := trim_space (rl_workspace r0),
        rl_actor := trim_space (rl_actor r0), rl_task := trim_space (rl_task r0),
        rl_session := trim_space (rl_session r0), rl_tool := to_lower (trim_space (rl_tool r0)),
        rl_capability := to_lower (trim_space (rl_capability r0)), rl_mode := to_lower (trim_space (rl_mode r0)),
        rl_root := trim_space (rl_root r0)\<rparr> in
    if rl_id r = [] \<or> rl_workspace r = [] \<or> rl_tool r = []
    then Inl (ToolInvalid ''policy id, workspace_id, and tool_id are required'')
    else if rl_mode r \<notin> set tool_modes then Inl (ToolInvalid ''unsupported tool policy mode'')
    else if rl_priority r < 0 then Inl (ToolInvalid ''policy priority cannot be negative'')
    else if list_ex (\<lambda>a. len a > max_tool_arg_bytes) (rl_argv_prefix r)
    then Inl (ToolInvalid ''policy argv prefix argument is too large'')
    else bindE (normalize_env_keys ''invalid policy environment key'' (rl_env_keys r)) (\<lambda>keys.
    if rl_root r \<noteq> [] \<and> \<not> is_abs (rl_root r) then Inl (ToolInvalid ''policy workdir_root must be absolute'')
    else bindE (normalize_sandbox (rl_sandbox r)) (\<lambda>sb.
    Inr (r\<lparr>rl_env_keys := unique_sorted keys, rl_sandbox := sb\<rparr>))))"

section \<open>Requests\<close>

record tool_request =
  tq_schema_version :: int
  tq_request_id :: string
  tq_idempotency :: string
  tq_causation :: string
  tq_correlation :: string
  tq_workspace :: string
  tq_actor :: actor_ref
  tq_task :: "entity_ref option"
  tq_session :: "entity_ref option"
  tq_owner :: string
  tq_fence :: int
  tq_tool :: string
  tq_capability :: string
  tq_argv :: "string list"
  tq_env :: "(string \<times> string) list"
  tq_workdir :: string
  tq_mode :: string
  tq_approval :: string
  tq_budget :: sandbox_profile
  tq_metadata :: "(string \<times> string) list"

definition env_entry_bytes :: "(string \<times> string) list \<Rightarrow> int" where
  "env_entry_bytes env = (\<Sum>(k, v) \<leftarrow> env. len k + len v)"

definition normalize_tool_request :: "string \<Rightarrow> tool_request \<Rightarrow> tool_error + tool_request" where
  "normalize_tool_request new_id r0 =
    (let rid = trim_space (tq_request_id r0);
         r = r0\<lparr>tq_schema_version := default_if_zero tool_schema_version (tq_schema_version r0),
           tq_request_id := (if rid = [] then new_id else rid), tq_idempotency := trim_space (tq_idempotency r0),
           tq_causation := trim_space (tq_causation r0), tq_correlation := trim_space (tq_correlation r0),
           tq_workspace := trim_space (tq_workspace r0), tq_tool := to_lower (trim_space (tq_tool r0)),
           tq_capability := to_lower (trim_space (tq_capability r0)), tq_owner := trim_space (tq_owner r0),
           tq_workdir := trim_space (tq_workdir r0),
           tq_mode := to_lower (trim_space (if tq_mode r0 = [] then ''automatic'' else tq_mode r0))\<rparr> in
    if tq_schema_version r \<noteq> tool_schema_version then Inl (ToolInvalid ''unsupported tool schema_version'')
    else if tq_idempotency r = [] then Inl (ToolInvalid ''idempotency_key is required'')
    else if len (tq_idempotency r) > max_idempotency_length then Inl (ToolInvalid ''idempotency_key is too large'')
    else if tq_workspace r = [] \<or> tq_tool r = [] then Inl (ToolInvalid ''workspace_id and tool_id are required'')
    else bindE (liftE ToolModelInvalid (validate_model_entity_ref ''task'' (tq_workspace r) (tq_task r))) (\<lambda>task.
    bindE (liftE ToolModelInvalid (validate_model_entity_ref ''session'' (tq_workspace r) (tq_session r))) (\<lambda>session.
    if tq_argv r = [] then Inl (ToolInvalid ''argv is required'')
    else if len (tq_argv r) > max_tool_arg_count then Inl (ToolInvalid ''argv exceeds arguments'')
    else if list_ex (\<lambda>a. len a > max_tool_arg_bytes) (tq_argv r) then Inl (ToolInvalid ''argv argument exceeds bytes'')
    else if \<not> is_abs (hd (tq_argv r)) \<or> is_shell_executable (hd (tq_argv r))
    then Inl (ToolInvalid ''argv executable must be absolute and not a shell'')
    else if len (tq_workdir r) > max_tool_workdir_length \<or> (tq_workdir r \<noteq> [] \<and> \<not> is_abs (tq_workdir r))
    then Inl (ToolInvalid ''workdir must be an absolute path within its policy'')
    else if tq_mode r \<notin> set tool_modes then Inl (ToolInvalid ''unsupported tool mode'')
    else bindE (normalize_sandbox (tq_budget r)) (\<lambda>budget.
    if len (tq_env r) > sb_env budget then Inl (ToolInvalid ''environment exceeds entry budget'')
    else if list_ex (\<lambda>(k, v). \<not> env_key_pattern k \<or> len k + len v > sb_env_bytes budget) (tq_env r)
    then Inl (ToolInvalid ''environment entry is invalid or too large'')
    else if env_entry_bytes (tq_env r) > sb_env_bytes budget then Inl (ToolInvalid ''environment exceeds byte budget'')
    else if len (tq_metadata r) > 64 then Inl (ToolInvalid ''metadata cannot contain more than 64 entries'')
    else Inr (r\<lparr>tq_task := task, tq_session := session, tq_budget := budget\<rparr>)))))"

text \<open>What \<open>RequestHash\<close> digests, and the evidence with redacted environment values.\<close>

definition tool_request_content :: "tool_request \<Rightarrow> tool_request" where
  "tool_request_content r = r\<lparr>tq_request_id := [], tq_idempotency := [], tq_causation := [],
    tq_correlation := [], tq_mode := [], tq_approval := []\<rparr>"

definition redacted_request :: "tool_request \<Rightarrow> tool_request" where
  "redacted_request r = r\<lparr>tq_env := map (\<lambda>(k, v). (k, ''[REDACTED]'')) (tq_env r)\<rparr>"

section \<open>Results and approvals\<close>

record tool_failure =
  tf_code :: string
  tf_message :: string
  tf_retryable :: bool
  tf_detail :: string

record tool_result =
  tr_request_id :: string
  tr_run_id :: string
  tr_tool :: string
  tr_status :: string
  tr_exit_code :: int
  tr_stdout :: string
  tr_stderr :: string
  tr_started :: time
  tr_finished :: time
  tr_duration_ms :: int
  tr_content_hash :: string
  tr_artifacts :: "artifact_reference list"
  tr_failure :: "tool_failure option"

record approval_request =
  ap_id :: string
  ap_workspace :: string
  ap_request_id :: string
  ap_run_id :: string
  ap_request_hash :: string
  ap_tool :: string
  ap_actor :: actor_ref
  ap_task :: "entity_ref option"
  ap_session :: "entity_ref option"
  ap_status :: string
  ap_reason :: string
  ap_expires :: time
  ap_created :: time
  ap_decided :: "time option"

record approval_decision =
  ad_approval :: string
  ad_workspace :: string
  ad_decision :: string
  ad_actor :: actor_ref
  ad_reason :: string

record tool_run =
  tn_id :: string
  tn_workspace :: string
  tn_request_id :: string
  tn_idempotency :: string
  tn_request_hash :: string
  tn_schema_version :: int
  tn_causation :: string
  tn_correlation :: string
  tn_tool :: string
  tn_capability :: string
  tn_actor :: actor_ref
  tn_task :: "entity_ref option"
  tn_session :: "entity_ref option"
  tn_owner :: string
  tn_fence :: int
  tn_mode :: string
  tn_status :: string
  tn_approval :: string
  tn_attempt :: int
  tn_result :: "tool_result option"
  tn_failure :: "tool_failure option"
  tn_request_evidence :: string
  tn_response_evidence :: string
  tn_stdout_artifact :: "int option"
  tn_stderr_artifact :: "int option"
  tn_result_artifact :: "int option"
  tn_created :: time
  tn_started :: "time option"
  tn_finished :: "time option"
  tn_duration_ms :: int

text \<open>What \<open>ToolResult.Hash\<close> digests.\<close>

definition tool_result_content :: "tool_result \<Rightarrow> string \<times> int \<times> string \<times> string \<times> tool_failure option" where
  "tool_result_content r = (tr_status r, tr_exit_code r, tr_stdout r, tr_stderr r, tr_failure r)"

definition is_tool_terminal :: "string \<Rightarrow> bool" where
  "is_tool_terminal status \<longleftrightarrow> trim_space status \<in> set [''succeeded'', ''failed'', ''denied'', ''cancelled'']"

section \<open>Facts\<close>

lemma rel_elements_parent:
  "rel_elements bs ts = [] \<or> hd (rel_elements bs ts) \<noteq> ''..'' \<longleftrightarrow> take (length bs) ts = bs"
  if "\<forall>t \<in> set ts. t \<noteq> ''..''"
  using that
proof (induction bs arbitrary: ts)
  case Nil
  then show ?case by (cases ts) auto
next
  case (Cons b bs)
  then show ?case by (cases ts) auto
qed

lemma set_tl: "x \<in> set (tl xs) \<Longrightarrow> x \<in> set xs"
  by (cases xs) auto

definition path_element :: "string \<Rightarrow> bool" where
  "path_element e \<longleftrightarrow> e \<noteq> [] \<and> e \<noteq> ''.'' \<and> e \<noteq> ''..''"

lemma clean_elements_plain:
  "list_all path_element acc \<Longrightarrow> list_all path_element (clean_elements acc es)"
proof (induction acc es rule: clean_elements.induct)
  case (1 acc)
  then show ?case by (simp add: list_all_iff)
next
  case (2 acc e es)
  have "list_all path_element (tl acc)" using "2.prems" by (auto simp: list_all_iff dest: set_tl)
  moreover have "list_all path_element (e # acc)" if "\<not> (e = [] \<or> e = ''.'')" "e \<noteq> ''..''"
    using "2.prems" that by (simp add: path_element_def [of e])
  ultimately show ?case using 2 by (simp only: clean_elements.simps split: if_split) blast
qed

lemma abs_path_plain: "list_all path_element (abs_path cwd p)"
  unfolding abs_path_def abs_elements_def by (rule clean_elements_plain) simp

lemma normalize_sandbox_bounds:
  assumes "normalize_sandbox p = Inr q"
  shows "1 \<le> sb_stdout q \<and> sb_stdout q \<le> max_tool_output_bytes \<and> 1 \<le> sb_stderr q \<and>
    sb_stderr q \<le> max_tool_output_bytes \<and> 1 \<le> sb_args q \<and> sb_args q \<le> max_tool_arg_count \<and>
    0 \<le> sb_env q \<and> sb_env q \<le> max_tool_env_count \<and> \<not> sb_network q \<and> \<not> sb_inherit q"
  using assms unfolding normalize_sandbox_def Let_def
  by (simp only: not_less sum.inject sum.distinct de_Morgan_disj split: if_split_asm) blast

end
