(* ===== verification/Tool_Policy.thy ===== *)
theory Tool_Policy
  imports Tool_Contract
begin

text \<open>
  \<open>internal/tool/policy.go\<close>, \<open>internal/tool/registry.go\<close> and the process boundary of
  \<open>internal/tool/executor.go\<close>: the ordered deny-by-default policy, the capability registry, and
  the checks and the output capture of the local executor.

  A policy is its list of rules and a registry its two maps as association lists; their mutexes
  make each operation one step.  What the operating system decides is \<open>tool_world\<close>: the working
  directory of the process, the resolution of symbolic links, and the outcome of a started child
  process with the chunks it wrote.
\<close>

section \<open>Policy\<close>

definition policy_specificity :: "tool_policy_rule \<Rightarrow> nat" where
  "policy_specificity r = length (filter id [rl_actor r \<noteq> [], rl_task r \<noteq> [], rl_session r \<noteq> [],
    rl_capability r \<noteq> [], rl_argv_prefix r \<noteq> [], rl_env_keys r \<noteq> [], rl_root r \<noteq> []])"

definition policy_mode_rank :: "string \<Rightarrow> nat" where
  "policy_mode_rank mode = (if mode = ''denied'' then 2 else 1)"

definition rule_before :: "tool_policy_rule \<Rightarrow> tool_policy_rule \<Rightarrow> bool" where
  "rule_before a b \<longleftrightarrow>
    (if rl_priority a \<noteq> rl_priority b then rl_priority a > rl_priority b
     else if policy_specificity a \<noteq> policy_specificity b then policy_specificity a > policy_specificity b
     else if policy_mode_rank (rl_mode a) \<noteq> policy_mode_rank (rl_mode b)
     then policy_mode_rank (rl_mode a) > policy_mode_rank (rl_mode b)
     else rl_id a < rl_id b)"

definition new_policy :: "tool_policy_rule list \<Rightarrow> tool_error + tool_policy_rule list" where
  "new_policy rules = bindE (mapE normalize_rule rules) (\<lambda>rs. Inr (sort_by rule_before rs))"

definition prefix_matches :: "string list \<Rightarrow> string list \<Rightarrow> bool" where
  "prefix_matches argv pre \<longleftrightarrow> length pre \<le> length argv \<and> take (length pre) argv = pre"

definition first_non_empty :: "string list \<Rightarrow> string" where
  "first_non_empty vs = (case find (\<lambda>v. trim_space v \<noteq> []) vs of Some v \<Rightarrow> v | None \<Rightarrow> [])"

definition within_root :: "string \<Rightarrow> string \<Rightarrow> string \<Rightarrow> bool" where
  "within_root cwd path base \<longleftrightarrow>
    path = [] \<or>
    (case rel_elements (abs_path cwd base) (abs_path cwd path) of [] \<Rightarrow> True | e # _ \<Rightarrow> e \<noteq> ''..'')"

definition rule_matches :: "string \<Rightarrow> tool_policy_rule \<Rightarrow> tool_request \<Rightarrow> tool_definition \<Rightarrow> bool" where
  "rule_matches cwd r q d \<longleftrightarrow>
    (let requested = to_lower (trim_space (tq_capability q)); defined = to_lower (trim_space (td_capability d)) in
    if rl_workspace r \<noteq> tq_workspace q \<or> rl_tool r \<noteq> tq_tool q then False
    else if requested \<noteq> [] \<and> requested \<noteq> defined then False
    else if rl_capability r \<noteq> [] \<and> rl_capability r \<noteq> first_non_empty [requested, defined] then False
    else if rl_actor r \<noteq> [] \<and> rl_actor r \<noteq> trim_space (ac_id (tq_actor q)) then False
    else if rl_task r \<noteq> [] \<and> (case tq_task q of None \<Rightarrow> True | Some t \<Rightarrow> rl_task r \<noteq> er_id t) then False
    else if rl_session r \<noteq> [] \<and> (case tq_session q of None \<Rightarrow> True | Some t \<Rightarrow> rl_session r \<noteq> er_id t) then False
    else if \<not> prefix_matches (tq_argv q) (rl_argv_prefix r) then False
    else if list_ex (\<lambda>(k, v). k \<notin> set (rl_env_keys r)) (tq_env q) then False
    else \<not> (rl_root r \<noteq> [] \<and> \<not> within_root cwd (tq_workdir q) (rl_root r)))"

text \<open>\<open>None\<close> is \<open>ErrUnauthorized\<close>; an absent policy is the empty list.\<close>

definition evaluate_policy ::
    "string \<Rightarrow> tool_policy_rule list \<Rightarrow> tool_request \<Rightarrow> tool_definition \<Rightarrow> tool_policy_rule option" where
  "evaluate_policy cwd rules q d = find (\<lambda>r. rl_enabled r \<and> rule_matches cwd r q d) rules"

definition registered_before :: "tool_policy_rule \<Rightarrow> tool_policy_rule \<Rightarrow> bool" where
  "registered_before a b \<longleftrightarrow>
    (if rl_priority a \<noteq> rl_priority b then rl_priority a > rl_priority b else rl_id a < rl_id b)"

fun replace_rule :: "tool_policy_rule \<Rightarrow> tool_policy_rule list \<Rightarrow> tool_policy_rule list option" where
  "replace_rule r [] = None"
| "replace_rule r (x # xs) =
    (if rl_id x = rl_id r then Some (r # xs) else map_option (\<lambda>ys. x # ys) (replace_rule r xs))"

definition register_workspace_tool ::
    "string \<Rightarrow> string \<Rightarrow> string \<Rightarrow> string \<Rightarrow> tool_policy_rule list \<Rightarrow> tool_error + tool_policy_rule list" where
  "register_workspace_tool workspace0 tool0 capability0 base0 rules =
    (let workspace = trim_space workspace0; tool = trim_space tool0; capability = trim_space capability0;
         base = trim_space base0 in
    if workspace = [] \<or> tool = [] \<or> capability = [] \<or> base = []
    then Inl (ToolInvalid ''workspace_id, tool_id, capability, and root are required'')
    else bindE (normalize_rule
      \<lparr>rl_id = ''workspace-repository-read-'' @ workspace, rl_priority = 200, rl_workspace = workspace,
       rl_actor = [], rl_task = [], rl_session = [], rl_tool = tool, rl_capability = capability,
       rl_mode = ''automatic'', rl_argv_prefix = [], rl_env_keys = [], rl_root = base,
       rl_sandbox = \<lparr>sb_backend = [], sb_timeout_ms = 5000, sb_stdout = 128 * 2 ^ 10,
         sb_stderr = 128 * 2 ^ 10, sb_args = 0, sb_arg_bytes = 0, sb_env = 0, sb_env_bytes = 0, sb_root = [],
         sb_network = False, sb_inherit = False, sb_readonly = True\<rparr>,
       rl_enabled = True\<rparr>) (\<lambda>r.
    case replace_rule r rules of
      Some rs \<Rightarrow> Inr rs
    | None \<Rightarrow> Inr (sort_by registered_before (rules @ [r]))))"

section \<open>Registry\<close>

record tool_registry =
  rg_tools :: "(string \<times> tool_definition) list"
  rg_aliases :: "(string \<times> string) list"

definition new_registry :: tool_registry where
  "new_registry = \<lparr>rg_tools = [], rg_aliases = []\<rparr>"

definition register_tool :: "tool_definition \<Rightarrow> tool_registry \<Rightarrow> tool_error + tool_registry" where
  "register_tool d0 g =
    bindE (normalize_definition d0) (\<lambda>d.
    let key = to_lower (td_id d); name = to_lower (td_name d) in
    if map_of (rg_tools g) key \<noteq> None then Inl (ToolInvalid ''tool is already registered'')
    else if list_ex (\<lambda>a. map_of (rg_aliases g) (to_lower (trim_space a)) \<noteq> None) [td_id d, td_name d]
    then Inl (ToolInvalid ''tool alias already resolves'')
    else Inr \<lparr>rg_tools = (key, d) # rg_tools g, rg_aliases = (name, key) # (key, key) # rg_aliases g\<rparr>)"

definition lookup_tool :: "tool_registry \<Rightarrow> string \<Rightarrow> tool_definition option" where
  "lookup_tool g name =
    (case map_of (rg_aliases g) (to_lower (trim_space name)) of
      None \<Rightarrow> None
    | Some key \<Rightarrow> map_of (rg_tools g) key)"

definition tool_names :: "tool_registry \<Rightarrow> string list" where
  "tool_names g = sort (map fst (rg_tools g))"

section \<open>Admission of a local process\<close>

record process_call =
  pc_executable :: string
  pc_args :: "string list"
  pc_env :: "string list"
  pc_dir :: string
  pc_timeout_ms :: int

text \<open>The outcome of a child process: what it wrote, the state of the contexts, the exit.\<close>

record process_outcome =
  po_stdout :: "string list"
  po_stderr :: "string list"
  po_deadline :: bool
  po_cancelled :: bool
  po_wait :: "int option option"
  po_started :: time
  po_finished :: time
  po_duration_ms :: int

record tool_world =
  tw_cwd :: string
  tw_symlinks :: "string \<Rightarrow> string option"

definition tool_failed :: "string \<Rightarrow> string \<Rightarrow> bool \<Rightarrow> tool_failure" where
  "tool_failed code message retryable =
    \<lparr>tf_code = code, tf_message = message, tf_retryable = retryable, tf_detail = []\<rparr>"

text \<open>\<open>filepath.Join\<close> below an absolute directory.\<close>

definition path_string :: "string list \<Rightarrow> string" where
  "path_string es = (if es = [] then ''/'' else concat (map (\<lambda>e. CHR ''/'' # e) es))"

definition join_path :: "string \<Rightarrow> string \<Rightarrow> string" where
  "join_path dir p = path_string (abs_elements (dir @ ''/'' @ p))"

definition effective_profile :: "tool_definition \<Rightarrow> tool_request \<Rightarrow> sandbox_profile" where
  "effective_profile d q =
    (td_sandbox d)\<lparr>sb_stdout := min (sb_stdout (tq_budget q)) (sb_stdout (td_sandbox d)),
      sb_stderr := min (sb_stderr (tq_budget q)) (sb_stderr (td_sandbox d)),
      sb_timeout_ms := min (sb_timeout_ms (tq_budget q)) (sb_timeout_ms (td_sandbox d))\<rparr>"

text \<open>One path argument of a read-only tool.\<close>

definition path_argument_ok :: "tool_world \<Rightarrow> string \<Rightarrow> string \<Rightarrow> string list \<Rightarrow> int \<Rightarrow> bool" where
  "path_argument_ok W workdir base argv index \<longleftrightarrow>
    \<not> (index \<ge> len argv \<or> is_abs (argv ! nat index)) \<and>
    (let candidate = join_path workdir (argv ! nat index) in
      within_root (tw_cwd W) candidate base \<and>
      (case tw_symlinks W candidate of Some r \<Rightarrow> within_root (tw_cwd W) r base | None \<Rightarrow> True))"

definition workdir_denied :: "string \<Rightarrow> tool_failure" where
  "workdir_denied message = tool_failed ''workdir_denied'' message False"

text \<open>The working directory after both checks, lexical and after resolving links.\<close>

definition resolve_workdir :: "tool_world \<Rightarrow> tool_definition \<Rightarrow> sandbox_profile \<Rightarrow> string \<Rightarrow>
    tool_failure + string \<times> string" where
  "resolve_workdir W d profile requested =
    (let workdir = (if requested = [] then (if td_root d = [] then sb_root profile else td_root d) else requested);
         base = first_non_empty [td_root d, sb_root profile] in
    if workdir \<noteq> [] \<and> \<not> within_root (tw_cwd W) workdir base
    then Inl (workdir_denied ''working directory is outside tool policy'')
    else if base \<noteq> [] \<and> tw_symlinks W base = None
    then Inl (workdir_denied ''tool workdir root cannot be resolved'')
    else
      let canonical_root = (if base = [] then [] else the (tw_symlinks W base)) in
      if workdir = [] then Inr ([], canonical_root)
      else case tw_symlinks W workdir of
        None \<Rightarrow> Inl (workdir_denied ''working directory cannot be resolved'')
      | Some canonical \<Rightarrow>
          if canonical_root \<noteq> [] \<and> \<not> within_root (tw_cwd W) canonical canonical_root
          then Inl (workdir_denied ''working directory resolves outside tool policy'')
          else Inr (canonical, canonical_root))"

definition local_admit ::
    "tool_world \<Rightarrow> tool_definition \<Rightarrow> tool_request \<Rightarrow> tool_failure + process_call" where
  "local_admit W d q =
    (let profile = effective_profile d q; argv = tq_argv q in
    if argv = [] \<or> hd argv \<noteq> td_executable d \<or> \<not> prefix_matches argv (td_executable d # td_argv_prefix d)
    then Inl (tool_failed ''invalid_request'' ''argv does not match registered tool'' False)
    else if len argv > sb_args profile
    then Inl (tool_failed ''argument_limit'' ''argv exceeds tool budget'' False)
    else if list_ex (\<lambda>a. len a > sb_arg_bytes profile) argv
    then Inl (tool_failed ''argument_limit'' ''argv argument exceeds tool budget'' False)
    else bindE (resolve_workdir W d profile (tq_workdir q)) (\<lambda>(workdir, base).
    if sb_readonly profile \<and> td_path_indexes d \<noteq> [] \<and> (workdir = [] \<or> base = [])
    then Inl (workdir_denied ''read-only path arguments require an authorized workdir'')
    else if sb_readonly profile \<and> \<not> list_all (path_argument_ok W workdir base argv) (td_path_indexes d)
    then Inl (workdir_denied ''path argument is outside the authorized workdir'')
    else if list_ex (\<lambda>(k, v). k \<notin> set (td_env_keys d)) (tq_env q)
    then Inl (tool_failed ''environment_limit'' ''environment key is not allow-listed'' False)
    else if len (tq_env q) > sb_env profile
    then Inl (tool_failed ''environment_limit'' ''environment exceeds tool budget'' False)
    else Inr \<lparr>pc_executable = td_executable d, pc_args = tl argv,
      pc_env = map (\<lambda>k. k @ ''='' @ the (map_of (tq_env q) k)) (sort (map fst (tq_env q))),
      pc_dir = workdir, pc_timeout_ms = sb_timeout_ms profile\<rparr>))"

section \<open>Capture and result\<close>

text \<open>\<open>boundedOutput.Write\<close> for each chunk; the error it returns stops the copying.\<close>

fun capture :: "int \<Rightarrow> string list \<Rightarrow> string \<Rightarrow> string \<times> bool" where
  "capture limit [] buffer = (buffer, False)"
| "capture limit (p # ps) buffer =
    (let remaining = limit - len buffer;
         buffer' = (if remaining > 0 then buffer @ take (nat remaining) p else buffer) in
    if len p > remaining then (buffer', True) else capture limit ps buffer')"

text \<open>\<open>strings.ReplaceAll\<close> for a non-empty \<open>old\<close>.\<close>

function replace_all :: "string \<Rightarrow> string \<Rightarrow> string \<Rightarrow> string" where
  "replace_all old new s =
    (if s = [] \<or> old = [] then s
     else if take (length old) s = old then new @ replace_all old new (drop (length old) s)
     else hd s # replace_all old new (tl s))"
  by pat_completeness auto
termination by (relation "measure (\<lambda>(old, new, s). length s)") auto

declare replace_all.simps [simp del]

definition redact_output :: "string \<Rightarrow> (string \<times> string) list \<Rightarrow> string" where
  "redact_output value secrets =
    fold (\<lambda>(k, secret) v. if trim_space secret \<noteq> [] then replace_all secret ''[REDACTED]'' v else v) secrets value"

definition process_result ::
    "(string \<times> int \<times> string \<times> string \<times> tool_failure option \<Rightarrow> string) \<Rightarrow> sandbox_profile \<Rightarrow> tool_request \<Rightarrow>
      process_outcome \<Rightarrow> tool_result" where
  "process_result digest profile q o' =
    (let (out, out_over) = capture (sb_stdout profile) (po_stdout o') [];
         (err, err_over) = capture (sb_stderr profile) (po_stderr o') [];
         r0 = \<lparr>tr_request_id = [], tr_run_id = [], tr_tool = [], tr_status = ''succeeded'', tr_exit_code = 0,
           tr_stdout = redact_output out (tq_env q), tr_stderr = redact_output err (tq_env q),
           tr_started = po_started o', tr_finished = po_finished o', tr_duration_ms = po_duration_ms o',
           tr_content_hash = [], tr_artifacts = [], tr_failure = None\<rparr>;
         r = r0\<lparr>tr_content_hash := digest (tool_result_content r0)\<rparr> in
    if out_over \<or> err_over
    then r\<lparr>tr_status := ''failed'', tr_failure := Some (tool_failed ''output_limit'' ''tool output exceeded budget'' False)\<rparr>
    else if po_deadline o'
    then r\<lparr>tr_status := ''failed'', tr_failure := Some (tool_failed ''timeout'' ''tool execution timed out'' True)\<rparr>
    else if po_cancelled o'
    then r\<lparr>tr_status := ''cancelled'', tr_failure := Some (tool_failed ''cancelled'' ''tool execution cancelled'' False)\<rparr>
    else case po_wait o' of
      None \<Rightarrow> r
    | Some code \<Rightarrow> r\<lparr>tr_status := ''failed'',
        tr_exit_code := (case code of Some c \<Rightarrow> c | None \<Rightarrow> tr_exit_code r),
        tr_failure := Some (tool_failed ''execution'' ''tool exited unsuccessfully'' False)\<rparr>)"

definition merge_sandbox_profiles :: "sandbox_profile \<Rightarrow> sandbox_profile \<Rightarrow> sandbox_profile" where
  "merge_sandbox_profiles d p =
    (let least = (\<lambda>a b :: int. if b > 0 \<and> b < a then b else a) in
    d\<lparr>sb_timeout_ms := least (sb_timeout_ms d) (sb_timeout_ms p), sb_stdout := least (sb_stdout d) (sb_stdout p),
      sb_stderr := least (sb_stderr d) (sb_stderr p), sb_args := least (sb_args d) (sb_args p),
      sb_arg_bytes := least (sb_arg_bytes d) (sb_arg_bytes p), sb_env := least (sb_env d) (sb_env p),
      sb_env_bytes := least (sb_env_bytes d) (sb_env_bytes p)\<rparr>)"

definition intersect_strings :: "string list \<Rightarrow> string list \<Rightarrow> string list" where
  "intersect_strings left right = filter (\<lambda>v. v \<in> set right) left"

text \<open>The definition the executor hands to the process: tightened by the selected rule.\<close>

definition effective_definition :: "tool_definition \<Rightarrow> tool_policy_rule \<Rightarrow> tool_definition" where
  "effective_definition d r =
    (let d1 = d\<lparr>td_sandbox := merge_sandbox_profiles (td_sandbox d) (rl_sandbox r)\<rparr>;
         d2 = (if rl_root r \<noteq> [] then d1\<lparr>td_root := rl_root r, td_sandbox := (td_sandbox d1)\<lparr>sb_root := rl_root r\<rparr>\<rparr>
           else d1) in
    if rl_env_keys r \<noteq> [] then d2\<lparr>td_env_keys := intersect_strings (td_env_keys d) (rl_env_keys r)\<rparr> else d2)"

section \<open>The policy\<close>

lemma rule_before_strict_weak: "strict_weak rule_before"
  unfolding strict_weak_def rule_before_def by (auto split: if_splits)

lemma find_sorted_first:
  assumes "sorted_wrt (\<lambda>x y. \<not> lt y x) rs" and "find P rs = Some r" and "\<And>x. \<not> lt x x"
  shows "r \<in> set rs \<and> P r \<and> (\<forall>x \<in> set rs. P x \<longrightarrow> \<not> lt x r)"
  using assms(1,2) by (induction rs) (auto simp: assms(3) split: if_splits)

text \<open>
  C16: Policy evaluation denies by default and selects the strongest rule: the selected rule is
  enabled and matches, and no enabled matching rule ranks before it by priority, specificity,
  denial and identity.
\<close>

theorem policy_selects_strongest:
  assumes "new_policy rules = Inr rs"
  shows "case evaluate_policy cwd rs q d of
      None \<Rightarrow> filter (\<lambda>r. rl_enabled r \<and> rule_matches cwd r q d) rs = []
    | Some r \<Rightarrow> r \<in> set rs \<and> rl_enabled r \<and> rule_matches cwd r q d \<and>
        filter (\<lambda>x. rl_enabled x \<and> rule_matches cwd x q d \<and> rule_before x r) rs = []"
proof (cases "evaluate_policy cwd rs q d")
  case None
  then have "filter (\<lambda>r. rl_enabled r \<and> rule_matches cwd r q d) rs = []"
    unfolding evaluate_policy_def find_None_iff filter_empty_conv by blast
  then show ?thesis by (simp only: None option.case)
next
  case (Some r)
  from assms obtain us where "rs = sort_by rule_before us" by (auto simp: new_policy_def results)
  then have "sorted_wrt (\<lambda>x y. \<not> rule_before y x) rs"
    by (simp add: sorted_sort_by [OF rule_before_strict_weak])
  from find_sorted_first [OF this Some [unfolded evaluate_policy_def]] show ?thesis
    by (simp add: Some filter_empty_conv rule_before_def)
qed

section \<open>Paths\<close>

lemma within_root_prefix:
  "within_root cwd p r \<longleftrightarrow> p = [] \<or> take (length (abs_path cwd r)) (abs_path cwd p) = abs_path cwd r"
proof -
  have "\<forall>t \<in> set (abs_path cwd p). t \<noteq> ''..''"
    using abs_path_plain [of cwd p] unfolding list_all_iff path_element_def by blast
  from rel_elements_parent [OF this, of "abs_path cwd r"] show ?thesis
    by (cases "rel_elements (abs_path cwd r) (abs_path cwd p)") (simp_all add: within_root_def)
qed

lemma resolve_workdir_within:
  assumes "resolve_workdir W d profile requested = Inr (workdir, base)" and "base \<noteq> []"
  shows "within_root (tw_cwd W) workdir base"
  using assms by (auto simp: resolve_workdir_def Let_def within_root_def split: if_splits option.splits)

lemma local_admit_Inr:
  assumes "local_admit W d q = Inr c"
  obtains base where "resolve_workdir W d (effective_profile d q) (tq_workdir q) = Inr (pc_dir c, base)"
    and "tq_argv q = pc_executable c # pc_args c" and "pc_executable c = td_executable d"
    and "prefix_matches (tq_argv q) (td_executable d # td_argv_prefix d)"
    and "len (tq_argv q) \<le> sb_args (effective_profile d q)"
    and "\<not> list_ex (\<lambda>(k, v). k \<notin> set (td_env_keys d)) (tq_env q)"
    and "pc_timeout_ms c = sb_timeout_ms (effective_profile d q)"
    and "\<not> (sb_readonly (effective_profile d q) \<and>
      \<not> list_all (path_argument_ok W (pc_dir c) base (tq_argv q)) (td_path_indexes d))"
proof -
  from assms obtain a b where r: "resolve_workdir W d (effective_profile d q) (tq_workdir q) = Inr (a, b)"
    and argv: "\<not> (tq_argv q = [] \<or> hd (tq_argv q) \<noteq> td_executable d \<or>
      \<not> prefix_matches (tq_argv q) (td_executable d # td_argv_prefix d))"
    and n: "\<not> len (tq_argv q) > sb_args (effective_profile d q)"
    and env: "\<not> list_ex (\<lambda>(k, v). k \<notin> set (td_env_keys d)) (tq_env q)"
    and ro: "\<not> (sb_readonly (effective_profile d q) \<and>
      \<not> list_all (path_argument_ok W a b (tq_argv q)) (td_path_indexes d))"
    and c: "c = \<lparr>pc_executable = td_executable d, pc_args = tl (tq_argv q),
      pc_env = map (\<lambda>k. k @ ''='' @ the (map_of (tq_env q) k)) (sort (map fst (tq_env q))),
      pc_dir = a, pc_timeout_ms = sb_timeout_ms (effective_profile d q)\<rparr>"
    unfolding local_admit_def Let_def
    by (elim if_InlE bindE_pairE) (simp only: sum.inject, blast)
  have "tq_argv q = td_executable d # tl (tq_argv q)" using argv by (metis list.collapse)
  then show thesis
    by (intro that [of b]) (use r argv n env ro in \<open>simp_all add: c\<close>)
qed

section \<open>Capture\<close>

lemma capture_spec:
  "len b \<le> limit \<Longrightarrow> capture limit ps b = (take (nat limit) (b @ concat ps), limit < len (b @ concat ps))"
proof (induction limit ps b rule: capture.induct)
  case (1 limit b)
  then show ?case by (simp add: len_def)
next
  case (2 limit p ps b)
  show ?case
  proof (cases "len p > limit - len b")
    case True
    then have "limit < len (b @ concat (p # ps))" by (simp add: len_def)
    moreover have "nat limit = length b + nat (limit - len b)" and "nat (limit - len b) \<le> length p"
      using True "2.prems" by (simp_all add: len_def)
    ultimately show ?thesis using True "2.prems" by (auto simp: len_def)
  next
    case False
    then have "take (nat (limit - len b)) p = p" and "len (b @ p) \<le> limit"
      by (simp_all add: len_def)
    then show ?thesis using 2 False by (auto simp: Let_def)
  qed
qed

text \<open>
  The output of a child process is captured up to its limit exactly: the buffer is the longest
  prefix of what was written that fits, and overflow is reported when something was lost.
\<close>

theorem capture_exact:
  assumes "0 \<le> limit"
  shows "capture limit ps [] = (take (nat limit) (concat ps), limit < len (concat ps))"
  using capture_spec [of "[]" limit ps] assms by (simp add: len_def)

lemma resolve_workdir_base:
  "resolve_workdir W d profile requested = Inr (workdir, base) \<Longrightarrow>
    base = (case first_non_empty [td_root d, sb_root profile] of [] \<Rightarrow> [] | c # cs \<Rightarrow> the (tw_symlinks W (c # cs)))"
  by (auto simp: resolve_workdir_def Let_def split: if_splits option.splits list.splits)

text \<open>The directory a request asks for, or else the root of the definition.\<close>

definition asked_workdir :: "tool_definition \<Rightarrow> sandbox_profile \<Rightarrow> string \<Rightarrow> string" where
  "asked_workdir d profile requested =
    (if requested \<noteq> [] then requested else if td_root d \<noteq> [] then td_root d else sb_root profile)"

lemma resolve_workdir_resolves:
  assumes "resolve_workdir W d profile requested = Inr (workdir, base)"
    and "first_non_empty [td_root d, sb_root profile] \<noteq> []"
  shows "asked_workdir d profile requested \<noteq> []" and "tw_symlinks W (asked_workdir d profile requested) = Some workdir"
proof -
  show nonempty: "asked_workdir d profile requested \<noteq> []"
    using assms(2) by (auto simp: asked_workdir_def first_non_empty_def trim_space_def split: if_splits)
  have "(if requested = [] then (if td_root d = [] then sb_root profile else td_root d) else requested)
      = asked_workdir d profile requested" by (simp add: asked_workdir_def)
  with assms(1) nonempty show "tw_symlinks W (asked_workdir d profile requested) = Some workdir"
    unfolding resolve_workdir_def Let_def by (simp split: if_split_asm option.split_asm)
qed

text \<open>
  C37: A process the local executor starts runs the registered executable with the registered
  argument prefix, only allow-listed environment keys, no longer than the definition allows, and
  in a directory of its own: the one the request asks for or, if it asks for none, the root of the
  definition, links resolved, and that directory lies below the resolved root.  It never runs in the
  directory of the server.  (Resolving links never yields an empty path.)
\<close>

theorem local_process_confined:
  assumes "local_admit W d q = Inr c"
    and "first_non_empty [td_root d, sb_root (td_sandbox d)] = base"
    and "base \<noteq> []" and "tw_symlinks W base = Some resolved"
    and links: "\<And>p s. p \<noteq> [] \<Longrightarrow> tw_symlinks W p = Some s \<Longrightarrow> s \<noteq> []"
  shows "pc_executable c = td_executable d \<and>
    tq_argv q = td_executable d # pc_args c \<and> prefix_matches (tq_argv q) (td_executable d # td_argv_prefix d) \<and>
    filter (\<lambda>(k, v). k \<notin> set (td_env_keys d)) (tq_env q) = [] \<and>
    pc_timeout_ms c \<le> sb_timeout_ms (td_sandbox d) \<and>
    pc_dir c \<noteq> [] \<and> tw_symlinks W (asked_workdir d (td_sandbox d) (tq_workdir q)) = Some (pc_dir c) \<and>
    take (length (abs_path (tw_cwd W) resolved)) (abs_path (tw_cwd W) (pc_dir c)) = abs_path (tw_cwd W) resolved"
  using assms(1)
proof (cases rule: local_admit_Inr)
  case (1 b)
  have profile: "sb_root (effective_profile d q) = sb_root (td_sandbox d)" by (simp add: effective_profile_def)
  then have "b = resolved"
    using resolve_workdir_base [OF 1(1)] assms(2-4) by (cases base) auto
  then have within: "within_root (tw_cwd W) (pc_dir c) resolved"
    using resolve_workdir_within [OF 1(1)] links [OF assms(3,4)] by simp
  have "first_non_empty [td_root d, sb_root (effective_profile d q)] \<noteq> []" using assms(2,3) profile by simp
  note resolved = resolve_workdir_resolves [OF 1(1) this]
  have "asked_workdir d (effective_profile d q) (tq_workdir q) = asked_workdir d (td_sandbox d) (tq_workdir q)"
    by (simp add: asked_workdir_def profile)
  then have dir: "tw_symlinks W (asked_workdir d (td_sandbox d) (tq_workdir q)) = Some (pc_dir c)"
    using resolved(2) by simp
  have "pc_dir c \<noteq> []" by (rule links [OF resolved])
  moreover have "sb_timeout_ms (effective_profile d q) \<le> sb_timeout_ms (td_sandbox d)"
    by (simp add: effective_profile_def)
  moreover have "filter (\<lambda>(k, v). k \<notin> set (td_env_keys d)) (tq_env q) = []"
    using 1(6) by (simp only: filter_empty_conv list_ex_iff) blast
  ultimately show ?thesis using 1 dir within by (simp add: within_root_prefix)
qed

section \<open>Registry\<close>

definition registry_wf :: "tool_registry \<Rightarrow> bool" where
  "registry_wf g \<longleftrightarrow> list_all (\<lambda>(a, k). map_of (rg_tools g) k \<noteq> None) (rg_aliases g)"

lemma new_registry_wf: "registry_wf new_registry"
  by (simp add: registry_wf_def new_registry_def)

lemma registry_wf_alias:
  "registry_wf g \<Longrightarrow> map_of (rg_aliases g) a = Some k \<Longrightarrow> map_of (rg_tools g) k \<noteq> None"
  by (force simp: registry_wf_def list_all_iff dest: map_of_SomeD)

text \<open>
  A registered tool is found by its identity and by its name, whatever their case and
  surrounding space; registering changes the answer for no name that already resolved.
\<close>

theorem register_then_lookup:
  assumes "registry_wf g" and "register_tool d0 g = Inr g'" and "normalize_definition d0 = Inr d"
  shows "registry_wf g' \<and> lookup_tool g' (td_id d) = Some d \<and> lookup_tool g' (td_name d) = Some d \<and>
    (lookup_tool g name = None \<or> lookup_tool g' name = lookup_tool g name)"
proof -
  let ?k = "to_lower (td_id d)" and ?n = "to_lower (td_name d)"
  have trim: "trim_space (td_id d) = td_id d" "trim_space (td_name d) = td_name d"
    using assms(3) unfolding normalize_definition_def Let_def
    by (auto simp: results split: if_splits)
  have g': "g' = \<lparr>rg_tools = (?k, d) # rg_tools g, rg_aliases = (?n, ?k) # (?k, ?k) # rg_aliases g\<rparr>"
    and fresh: "map_of (rg_aliases g) ?k = None" "map_of (rg_aliases g) ?n = None" "map_of (rg_tools g) ?k = None"
    using assms(2) by (auto simp: register_tool_def Let_def assms(3) trim split: if_splits)
  have "registry_wf g'" using assms(1) by (auto simp: registry_wf_def g' list_all_iff)
  moreover have "lookup_tool g' name = lookup_tool g name" if "lookup_tool g name \<noteq> None"
    using that fresh registry_wf_alias [OF assms(1), of "to_lower (trim_space name)" ?k]
    by (auto simp: lookup_tool_def g' split: option.splits)
  moreover have "lookup_tool g' (td_id d) = Some d" "lookup_tool g' (td_name d) = Some d"
    using trim by (simp_all add: g' lookup_tool_def)
  ultimately show ?thesis by blast
qed

section \<open>Samples\<close>

definition plain_sandbox :: sandbox_profile where
  "plain_sandbox = \<lparr>sb_backend = [], sb_timeout_ms = 0, sb_stdout = 0, sb_stderr = 0, sb_args = 0,
    sb_arg_bytes = 0, sb_env = 0, sb_env_bytes = 0, sb_root = [], sb_network = False, sb_inherit = False,
    sb_readonly = False\<rparr>"

definition sample_tool :: tool_definition where
  "sample_tool = \<lparr>td_id = '' Grep'', td_version = ''1'', td_name = ''Search'', td_capability = ''repo.read'',
    td_description = [], td_executable = ''/usr/bin/rg'', td_argv_prefix = [''-n''], td_path_indexes = [],
    td_env_keys = [''LANG''], td_root = ''/srv/repo'', td_sandbox = default_sandbox_profile, td_enabled = True\<rparr>"

definition sample_tool_request :: tool_request where
  "sample_tool_request = \<lparr>tq_schema_version = 1, tq_request_id = ''r'', tq_idempotency = ''k'', tq_causation = [],
    tq_correlation = [], tq_workspace = ''ws'', tq_actor = \<lparr>ac_id = ''a'', ac_kind = [], ac_name = [], ac_workspace = []\<rparr>,
    tq_task = None, tq_session = None, tq_owner = [], tq_fence = 0, tq_tool = ''grep'', tq_capability = [],
    tq_argv = [''/usr/bin/rg'', ''-n'', ''x''], tq_env = [(''LANG'', ''C'')], tq_workdir = ''/srv/repo/a/../b'',
    tq_mode = ''automatic'', tq_approval = [], tq_budget = default_sandbox_profile, tq_metadata = []\<rparr>"

definition sample_rule :: "string \<Rightarrow> int \<Rightarrow> string \<Rightarrow> tool_policy_rule" where
  "sample_rule i n mode = \<lparr>rl_id = i, rl_priority = n, rl_workspace = ''ws'', rl_actor = [], rl_task = [],
    rl_session = [], rl_tool = ''grep'', rl_capability = [], rl_mode = mode, rl_argv_prefix = [],
    rl_env_keys = [''LANG''], rl_root = [], rl_sandbox = plain_sandbox, rl_enabled = True\<rparr>"

definition sample_rules :: "tool_policy_rule list" where
  "sample_rules = [sample_rule ''a'' 1 ''automatic'', sample_rule ''b'' 1 ''denied'']"

definition sample_rule_normal :: "string \<Rightarrow> int \<Rightarrow> string \<Rightarrow> tool_policy_rule" where
  "sample_rule_normal i n mode = (sample_rule i n mode)\<lparr>rl_sandbox := default_sandbox_profile\<rparr>"

lemma sample_policy:
  "new_policy sample_rules = Inr [sample_rule_normal ''b'' 1 ''denied'', sample_rule_normal ''a'' 1 ''automatic'']"
  by code_simp

lemma policy_selects_strongest_witness:
  "evaluate_policy ''/'' [sample_rule_normal ''b'' 1 ''denied'', sample_rule_normal ''a'' 1 ''automatic'']
    sample_tool_request sample_tool = Some (sample_rule_normal ''b'' 1 ''denied'') \<and>
   rule_matches ''/'' (sample_rule_normal ''b'' 1 ''denied'') sample_tool_request sample_tool"
proof -
  have e: "evaluate_policy ''/'' [sample_rule_normal ''b'' 1 ''denied'', sample_rule_normal ''a'' 1 ''automatic'']
    sample_tool_request sample_tool = Some (sample_rule_normal ''b'' 1 ''denied'')" by code_simp
  show ?thesis
    using policy_selects_strongest [OF sample_policy, of "''/''" sample_tool_request sample_tool] e
    by (simp only: e option.case)
qed

lemma capture_exact_witness: "capture 3 [''ab'', ''cd'', ''e''] [] = (''abc'', True)"
  using capture_exact [of 3 "[''ab'', ''cd'', ''e'']"] by (simp add: len_def)

definition sample_world :: tool_world where
  "sample_world = \<lparr>tw_cwd = ''/'', tw_symlinks = Some\<rparr>"

definition sample_call :: process_call where
  "sample_call = \<lparr>pc_executable = ''/usr/bin/rg'', pc_args = [''-n'', ''x''], pc_env = [''LANG=C''],
    pc_dir = ''/srv/repo/a/../b'', pc_timeout_ms = 30000\<rparr>"

lemma local_process_confined_witness:
  "take 2 (abs_path ''/'' (pc_dir sample_call)) = [''srv'', ''repo''] \<and> pc_dir sample_call \<noteq> []"
proof -
  have a: "local_admit sample_world sample_tool sample_tool_request = Inr sample_call" by code_simp
  have b: "first_non_empty [td_root sample_tool, sb_root (td_sandbox sample_tool)] = ''/srv/repo''" by code_simp
  have c: "abs_path ''/'' ''/srv/repo'' = [''srv'', ''repo'']" by code_simp
  show ?thesis
    using local_process_confined [OF a b, of "''/srv/repo''"]
    by (simp add: sample_world_def sample_call_def c numeral_2_eq_2)
qed

text \<open>The same for a request that asks for no directory: the process runs in the root.\<close>

lemma default_workdir_is_root:
  "map_sum (\<lambda>_. ()) pc_dir (local_admit sample_world sample_tool (sample_tool_request\<lparr>tq_workdir := []\<rparr>)) = Inr ''/srv/repo''"
  by code_simp

lemma register_then_lookup_witness:
  "\<exists>g d. register_tool sample_tool new_registry = Inr g \<and> lookup_tool g '' GREP'' = Some d \<and> td_id d = ''grep''"
proof -
  define d where "d = sample_tool\<lparr>td_id := ''grep'', td_sandbox := default_sandbox_profile\<lparr>sb_root := ''/srv/repo''\<rparr>\<rparr>"
  have n: "normalize_definition sample_tool = Inr d" unfolding d_def by code_simp
  define g where "g = \<lparr>rg_tools = [(''grep'', d)], rg_aliases = [(''search'', ''grep''), (''grep'', ''grep'')]\<rparr>"
  have r: "register_tool sample_tool new_registry = Inr g" unfolding g_def d_def by code_simp
  have "lookup_tool g (td_id d) = Some d"
    using register_then_lookup [OF new_registry_wf r n] by blast
  moreover have "to_lower (trim_space '' GREP'') = ''grep''" by code_simp
  ultimately show ?thesis using r by (auto simp: d_def lookup_tool_def g_def)
qed

text \<open>
  Registering a workspace tool sorts the rules again, without specificity and denial: the denied
  rule that won the tie before loses it to an automatic rule afterwards.
\<close>

lemma register_workspace_tool_drops_denial:
  "bindE (register_workspace_tool ''other'' ''git'' ''repo.read'' ''/srv'' 
      [sample_rule_normal ''b'' 1 ''denied'', sample_rule_normal ''a'' 1 ''automatic''])
    (\<lambda>rs. Inr (map_option rl_mode (evaluate_policy ''/'' rs sample_tool_request sample_tool))) = Inr (Some ''automatic'')"
  by code_simp

end
