(* ===== verification/Tool_Store.thy ===== *)
theory Tool_Store
  imports Task_Store Tool_Policy
begin

text \<open>
  \<open>internal/store/tool_runs.go\<close>: durable tool runs and approvals.

  \<open>tool_db\<close> adds the tables tool_runs and tool_approvals to the task and event tables; an approval
  row also carries the two columns a decision writes and no read returns.  Each public operation is
  one transaction (\<open>in_tx\<close>).  \<open>tool_in\<close> is what one call draws: the clock of the process and of
  the database, a generated identity and what the event it appends draws.  \<open>tool_env\<close> holds the
  digests, the JSON renderings, the redaction by regular expressions, the database's cast of text
  to BIGINT and, as interfaces, the artifact and the observability stores over the tables
  \<open>'x\<close>.  JSON columns are kept as the values they encode, and an artifact link as the artifact's
  id.
\<close>

section \<open>Tables and environment\<close>

datatype tool_store_error =
  ErrToolRunMissing
| ErrToolApprovalMissing
| ErrToolApprovalConflict
| ToolIdempotencyConflict
| ToolTaskFenced
| ToolTaskCast
| ToolRejected tool_error
| ToolEventFailed store_error
| ToolInsertFailed
| ToolArtifactFailed string
| ToolObserveFailed string
| ToolStoreInvalid string

record approval_row = approval_request +
  aw_decided_by :: actor_ref
  aw_decision_reason :: string

record 'x tool_db = "'x task_db" +
  tool_runs :: "tool_run list"
  tool_approvals :: "approval_row list"

record artifact_put =
  au_workspace :: string
  au_kind :: string
  au_media :: string
  au_raw :: string
  au_gist :: string
  au_metadata :: "(string \<times> string) list"
  au_source_kind :: string
  au_source_id :: string
  au_role :: string
  au_key :: string
  au_causation :: string
  au_correlation :: string
  au_actor :: actor_ref

record artifact_ref =
  rf_artifact :: int
  rf_hash :: string
  rf_role :: string
  rf_media :: string
  rf_bytes :: int

datatype tool_value = ToolText string | ToolInt int | ToolTime time | ToolFail "tool_failure option"

record 'x tool_env =
  xe_events :: "'x event_env"
  xe_digest :: "tool_request \<Rightarrow> string"
  xe_result_digest :: "string \<times> int \<times> string \<times> string \<times> tool_failure option \<Rightarrow> string"
  xe_request_json :: "tool_request \<Rightarrow> string"
  xe_result_json :: "tool_result \<Rightarrow> string"
  xe_payload :: "(string \<times> tool_value) list \<Rightarrow> string"
  xe_redact :: "string \<Rightarrow> string"
  xe_redact_bytes :: "string \<Rightarrow> string"
  xe_bigint :: "string \<Rightarrow> int option"
  xe_artifact :: "artifact_put \<Rightarrow> 'x \<Rightarrow> string + artifact_ref \<times> 'x"
  xe_observe :: "string \<Rightarrow> 'x \<Rightarrow> string + 'x"

record tool_in =
  xi_clock :: "nat \<Rightarrow> time"
  xi_now :: time
  xi_io :: io
  xi_new_id :: string
  xi_new_request :: string

definition update_run ::
    "string \<Rightarrow> string \<Rightarrow> (tool_run \<Rightarrow> bool) \<Rightarrow> (tool_run \<Rightarrow> tool_run) \<Rightarrow>
      ('x, 'z) tool_db_scheme \<Rightarrow> ('x, 'z) tool_db_scheme" where
  "update_run rid workspace P f db =
    db\<lparr>tool_runs := map (\<lambda>r. if tn_id r = rid \<and> tn_workspace r = workspace \<and> P r then f r else r) (tool_runs db)\<rparr>"

definition update_approval ::
    "(approval_row \<Rightarrow> bool) \<Rightarrow> (approval_row \<Rightarrow> approval_row) \<Rightarrow>
      ('x, 'z) tool_db_scheme \<Rightarrow> ('x, 'z) tool_db_scheme" where
  "update_approval P f db = db\<lparr>tool_approvals := map (\<lambda>a. if P a then f a else a) (tool_approvals db)\<rparr>"

section \<open>Reads\<close>

definition read_tool_run_tx :: "string \<Rightarrow> string \<Rightarrow> ('x, 'z) tool_db_scheme \<Rightarrow> tool_store_error + tool_run" where
  "read_tool_run_tx workspace key db =
    (case find (\<lambda>r. tn_workspace r = workspace \<and> tn_idempotency r = key) (tool_runs db) of
      None \<Rightarrow> Inl ErrToolRunMissing
    | Some r \<Rightarrow> Inr r)"

definition get_tool_run :: "string \<Rightarrow> string \<Rightarrow> ('x, 'z) tool_db_scheme \<Rightarrow> tool_store_error + tool_run" where
  "get_tool_run workspace key db = read_tool_run_tx (trim_space workspace) (trim_space key) db"

text \<open>\<open>readApproval\<close> and \<open>readApprovalTx\<close> share one query, whose key is the run.\<close>

definition read_approval :: "string \<Rightarrow> string \<Rightarrow> ('x, 'z) tool_db_scheme \<Rightarrow> tool_store_error + approval_request" where
  "read_approval workspace run_id db =
    (case find (\<lambda>a. ap_workspace a = workspace \<and> ap_run_id a = run_id) (tool_approvals db) of
      None \<Rightarrow> Inl ErrToolApprovalMissing
    | Some a \<Rightarrow> Inr (approval_request.truncate a))"

definition read_approval_by_id ::
    "string \<Rightarrow> string \<Rightarrow> ('x, 'z) tool_db_scheme \<Rightarrow> tool_store_error + approval_request" where
  "read_approval_by_id workspace aid db =
    (case find (\<lambda>a. ap_workspace a = workspace \<and> ap_id a = aid) (tool_approvals db) of
      None \<Rightarrow> Inl ErrToolApprovalMissing
    | Some a \<Rightarrow> Inr (approval_request.truncate a))"

definition get_approval :: "string \<Rightarrow> string \<Rightarrow> ('x, 'z) tool_db_scheme \<Rightarrow> tool_store_error + approval_request" where
  "get_approval workspace aid db = read_approval (trim_space workspace) (trim_space aid) db"

definition validate_tool_fence_tx ::
    "'x tool_env \<Rightarrow> time \<Rightarrow> string \<Rightarrow> entity_ref option \<Rightarrow> string \<Rightarrow> int \<Rightarrow> ('x, 'z) tool_db_scheme \<Rightarrow>
      tool_store_error + unit" where
  "validate_tool_fence_tx E now workspace task owner fence db =
    (case task of
      None \<Rightarrow> Inr ()
    | Some t \<Rightarrow>
        if fence = 0 \<or> trim_space owner = [] then Inl ToolTaskFenced
        else case xe_bigint E (er_id t) of
          None \<Rightarrow> Inl ToolTaskCast
        | Some tid \<Rightarrow>
            (case task_leases db (workspace, tid) of
              None \<Rightarrow> Inl ToolTaskFenced
            | Some l \<Rightarrow>
                if lease_owner l \<noteq> owner \<or> lease_fence l \<noteq> fence \<or> lease_released l \<noteq> None \<or> \<not> lease_active now l
                then Inl ToolTaskFenced else Inr ()))"

section \<open>Events\<close>

definition tool_event ::
    "'x tool_env \<Rightarrow> io \<Rightarrow> string \<Rightarrow> string \<Rightarrow> tool_request \<Rightarrow> string \<Rightarrow> (string \<times> tool_value) list \<Rightarrow>
      tool_store_error + event" where
  "tool_event E i etype workspace q key payload =
    bindE (liftE (ToolEventFailed \<circ> EventRejected)
      (new_event (io_new_id i) (io_now i) etype (Some (xe_payload E payload)))) (\<lambda>e.
    Inr (e\<lparr>ev_scope := (ev_scope e)\<lparr>sc_workspace := workspace\<rparr>, ev_actor := tq_actor q,
      ev_task := map_option (\<lambda>t. t\<lparr>er_workspace := workspace\<rparr>) (tq_task q),
      ev_session := map_option (\<lambda>t. t\<lparr>er_workspace := workspace\<rparr>) (tq_session q),
      ev_causation := tq_causation q, ev_correlation := tq_correlation q, ev_idempotency := key\<rparr>))"

definition append_tool_event ::
    "'x tool_env \<Rightarrow> io \<Rightarrow> string \<Rightarrow> string \<Rightarrow> tool_request \<Rightarrow> string \<Rightarrow> (string \<times> tool_value) list \<Rightarrow>
      ('x, 'z) tool_db_scheme \<Rightarrow> tool_store_error + ('x, 'z) tool_db_scheme" where
  "append_tool_event E i etype workspace q key payload db =
    bindE (tool_event E i etype workspace q key payload) (\<lambda>e.
    bindE (liftE ToolEventFailed (append_tx (xe_events E) i e db)) (\<lambda>(_, db'). Inr db'))"

definition blank_tool_request :: tool_request where
  "blank_tool_request = \<lparr>tq_schema_version = 0, tq_request_id = [], tq_idempotency = [], tq_causation = [],
    tq_correlation = [], tq_workspace = [], tq_actor = \<lparr>ac_id = [], ac_kind = [], ac_name = [], ac_workspace = []\<rparr>,
    tq_task = None, tq_session = None, tq_owner = [], tq_fence = 0, tq_tool = [], tq_capability = [],
    tq_argv = [], tq_env = [], tq_workdir = [], tq_mode = [], tq_approval = [],
    tq_budget = \<lparr>sb_backend = [], sb_timeout_ms = 0, sb_stdout = 0, sb_stderr = 0, sb_args = 0, sb_arg_bytes = 0,
      sb_env = 0, sb_env_bytes = 0, sb_root = [], sb_network = False, sb_inherit = False, sb_readonly = False\<rparr>,
    tq_metadata = []\<rparr>"

definition tool_request_from_run :: "tool_run \<Rightarrow> tool_request" where
  "tool_request_from_run r = blank_tool_request\<lparr>tq_schema_version := tn_schema_version r,
    tq_request_id := tn_request_id r, tq_idempotency := tn_idempotency r, tq_causation := tn_causation r,
    tq_correlation := tn_correlation r, tq_workspace := tn_workspace r, tq_actor := tn_actor r,
    tq_task := tn_task r, tq_session := tn_session r, tq_owner := tn_owner r, tq_fence := tn_fence r,
    tq_tool := tn_tool r, tq_capability := tn_capability r, tq_mode := tn_mode r\<rparr>"

definition tool_request_from_approval :: "approval_request \<Rightarrow> tool_request" where
  "tool_request_from_approval a = blank_tool_request\<lparr>tq_schema_version := tool_schema_version,
    tq_request_id := ap_request_id a, tq_idempotency := ap_request_id a, tq_workspace := ap_workspace a,
    tq_actor := ap_actor a, tq_task := ap_task a, tq_session := ap_session a, tq_tool := ap_tool a\<rparr>"

definition observe_tx ::
    "'x tool_env \<Rightarrow> string \<Rightarrow> ('x, 'z) tool_db_scheme \<Rightarrow> tool_store_error + ('x, 'z) tool_db_scheme" where
  "observe_tx E label db =
    bindE (liftE ToolObserveFailed (xe_observe E label (evidence_tables db))) (\<lambda>ev.
    Inr (db\<lparr>evidence_tables := ev\<rparr>))"

section \<open>Reserve\<close>

definition new_tool_run :: "'x tool_env \<Rightarrow> tool_in \<Rightarrow> tool_request \<Rightarrow> string \<Rightarrow> string \<Rightarrow> tool_run" where
  "new_tool_run E i q hash mode =
    \<lparr>tn_id = xi_new_id i, tn_workspace = tq_workspace q, tn_request_id = tq_request_id q,
     tn_idempotency = tq_idempotency q, tn_request_hash = hash, tn_schema_version = tq_schema_version q,
     tn_causation = tq_causation q, tn_correlation = tq_correlation q, tn_tool = tq_tool q,
     tn_capability = tq_capability q, tn_actor = tq_actor q, tn_task = tq_task q, tn_session = tq_session q,
     tn_owner = tq_owner q, tn_fence = tq_fence q, tn_mode = mode, tn_status = ''pending'', tn_approval = [],
     tn_attempt = 0, tn_result = None, tn_failure = None,
     tn_request_evidence = xe_redact_bytes E (xe_request_json E (redacted_request q)), tn_response_evidence = ''{}'',
     tn_stdout_artifact = None, tn_stderr_artifact = None, tn_result_artifact = None,
     tn_created = xi_clock i 0, tn_started = None, tn_finished = None, tn_duration_ms = 0\<rparr>"

definition reserve_tool_tx ::
    "'x tool_env \<Rightarrow> tool_in \<Rightarrow> tool_request \<Rightarrow> string \<Rightarrow> ('x, 'z) tool_db_scheme \<Rightarrow>
      tool_store_error + (tool_run \<times> bool) \<times> ('x, 'z) tool_db_scheme" where
  "reserve_tool_tx E i q0 mode db =
    bindE (liftE ToolRejected (normalize_tool_request (xi_new_request i) q0)) (\<lambda>q.
    let hash = xe_digest E (tool_request_content q) in
    case find (\<lambda>r. tn_workspace r = tq_workspace q \<and> tn_idempotency r = tq_idempotency q) (tool_runs db) of
      Some _ \<Rightarrow>
        bindE (read_tool_run_tx (tq_workspace q) (tq_idempotency q) db) (\<lambda>run.
        if tn_request_hash run \<noteq> hash then Inl ToolIdempotencyConflict else Inr ((run, True), db))
    | None \<Rightarrow>
        if mode \<notin> set tool_modes \<or> hash = [] \<or> list_ex (\<lambda>r. tn_id r = xi_new_id i) (tool_runs db)
        then Inl ToolInsertFailed
        else
          let db1 = db\<lparr>tool_runs := tool_runs db @ [new_tool_run E i q hash mode]\<rparr> in
          bindE (read_tool_run_tx (tq_workspace q) (tq_idempotency q) db1) (\<lambda>run.
          bindE (append_tool_event E (xi_io i) ''tool.requested'' (tq_workspace q) q
            (''tool-requested:'' @ tn_id run)
            [(''run_id'', ToolText (tn_id run)), (''tool_id'', ToolText (tq_tool q)), (''mode'', ToolText mode),
             (''request_hash'', ToolText hash)] db1) (\<lambda>db2.
          Inr ((run, False), db2))))"

definition reserve_tool ::
    "'x tool_env \<Rightarrow> tool_in \<Rightarrow> tool_request \<Rightarrow> string \<Rightarrow> ('x, 'z) tool_db_scheme \<Rightarrow>
      (tool_store_error + tool_run \<times> bool) \<times> ('x, 'z) tool_db_scheme" where
  "reserve_tool E i q mode = in_tx (reserve_tool_tx E i q mode)"

section \<open>Approvals\<close>

definition bounded_approval_ttl :: "duration \<Rightarrow> duration" where
  "bounded_approval_ttl ttl =
    (if ttl \<le> 0 then 600 * second else if ttl > 86400 * second then 86400 * second else ttl)"

text \<open>An instant of the process clock plus a duration, at the database's resolution.\<close>

definition add_duration :: "time \<Rightarrow> duration \<Rightarrow> time" where
  "add_duration t d = t + d div 1000"

definition new_approval :: "tool_in \<Rightarrow> tool_run \<Rightarrow> tool_request \<Rightarrow> duration \<Rightarrow> approval_row" where
  "new_approval i run q ttl =
    \<lparr>ap_id = xi_new_id i, ap_workspace = tn_workspace run, ap_request_id = tn_request_id run,
     ap_run_id = tn_id run, ap_request_hash = tn_request_hash run, ap_tool = tn_tool run,
     ap_actor = tq_actor q, ap_task = tq_task q, ap_session = tq_session q, ap_status = ''pending'',
     ap_reason = [], ap_expires = add_duration (xi_now i) (bounded_approval_ttl ttl), ap_created = xi_clock i 0,
     ap_decided = None, aw_decided_by = \<lparr>ac_id = [], ac_kind = [], ac_name = [], ac_workspace = []\<rparr>,
     aw_decision_reason = []\<rparr>"

definition create_approval_tx ::
    "'x tool_env \<Rightarrow> tool_in \<Rightarrow> tool_run \<Rightarrow> tool_request \<Rightarrow> duration \<Rightarrow> ('x, 'z) tool_db_scheme \<Rightarrow>
      tool_store_error + approval_request \<times> ('x, 'z) tool_db_scheme" where
  "create_approval_tx E i run q ttl db =
    (if list_ex (\<lambda>a. ap_run_id a = tn_id run) (tool_approvals db)
     then bindE (read_approval (tn_workspace run) (tn_id run) db) (\<lambda>a. Inr (a, db))
     else if list_ex (\<lambda>a. ap_id a = xi_new_id i) (tool_approvals db) \<or>
       \<not> list_ex (\<lambda>r. tn_id r = tn_id run) (tool_runs db)
     then Inl ToolInsertFailed
     else
       let db1 = db\<lparr>tool_approvals := tool_approvals db @ [new_approval i run q ttl]\<rparr>;
           db2 = update_run (tn_id run) (tn_workspace run) (\<lambda>_. True)
             (\<lambda>r. r\<lparr>tn_status := ''awaiting_approval'', tn_approval := xi_new_id i\<rparr>) db1 in
       bindE (read_approval (tn_workspace run) (tn_id run) db2) (\<lambda>a.
       bindE (append_tool_event E (xi_io i) ''tool.approval_requested'' (tq_workspace q) q
         (''tool-approval-requested:'' @ ap_id a)
         [(''run_id'', ToolText (tn_id run)), (''approval_id'', ToolText (ap_id a)),
          (''request_hash'', ToolText (tn_request_hash run)), (''expires_at'', ToolTime (ap_expires a))] db2) (\<lambda>db3.
       bindE (observe_tx E (''approval-observation:'' @ ap_id a) db3) (\<lambda>db4. Inr (a, db4)))))"

definition create_approval ::
    "'x tool_env \<Rightarrow> tool_in \<Rightarrow> tool_run \<Rightarrow> tool_request \<Rightarrow> duration \<Rightarrow> ('x, 'z) tool_db_scheme \<Rightarrow>
      (tool_store_error + approval_request) \<times> ('x, 'z) tool_db_scheme" where
  "create_approval E i run q ttl = in_tx (create_approval_tx E i run q ttl)"

definition set_awaiting_approval :: "tool_run \<Rightarrow> ('x, 'z) tool_db_scheme \<Rightarrow> tool_store_error + tool_run" where
  "set_awaiting_approval run db = get_tool_run (tn_workspace run) (tn_idempotency run) db"

definition decide_approval_tx ::
    "'x tool_env \<Rightarrow> tool_in \<Rightarrow> approval_decision \<Rightarrow> ('x, 'z) tool_db_scheme \<Rightarrow>
      tool_store_error + approval_request \<times> ('x, 'z) tool_db_scheme" where
  "decide_approval_tx E i d db =
    (let workspace = trim_space (ad_workspace d); aid = trim_space (ad_approval d);
         decision = to_lower (trim_space (ad_decision d)) in
    if workspace = [] \<or> aid = [] then Inl (ToolStoreInvalid ''workspace_id and approval_id are required'')
    else if decision \<noteq> ''approved'' \<and> decision \<noteq> ''denied''
    then Inl (ToolStoreInvalid ''decision must be approved or denied'')
    else bindE (read_approval_by_id workspace aid db) (\<lambda>a0.
    let expired = (ap_status a0 = ''pending'' \<and> \<not> ap_expires a0 > xi_now i);
        db1 = (if expired then update_approval (\<lambda>a. ap_id a = ap_id a0)
            (\<lambda>a. a\<lparr>ap_status := ''expired'', ap_decided := Some (xi_clock i 0)\<rparr>) db else db);
        a1 = (if expired then a0\<lparr>ap_status := ''expired''\<rparr> else a0) in
    if ap_status a1 \<noteq> ''pending'' then
      if ap_status a1 = decision then Inr (a1, db1) else Inl ErrToolApprovalConflict
    else
      let reason = trim_space (ad_reason d);
          db2 = update_approval (\<lambda>a. ap_workspace a = workspace \<and> ap_id a = aid)
            (\<lambda>a. a\<lparr>ap_status := decision, ap_decided := Some (xi_now i), aw_decided_by := ad_actor d,
              aw_decision_reason := reason\<rparr>) db1;
          a2 = a1\<lparr>ap_status := decision, ap_decided := Some (xi_now i)\<rparr> in
      bindE (append_tool_event E (xi_io i) ''tool.approval_decided'' workspace (tool_request_from_approval a2)
        (''tool-approval-decision:'' @ ap_id a2)
        [(''approval_id'', ToolText (ap_id a2)), (''decision'', ToolText (ap_status a2)),
         (''reason'', ToolText reason)] db2) (\<lambda>db3.
      bindE (observe_tx E (''approval-decision-observation:'' @ ap_id a2) db3) (\<lambda>db4. Inr (a2, db4)))))"

definition decide_approval ::
    "'x tool_env \<Rightarrow> tool_in \<Rightarrow> approval_decision \<Rightarrow> ('x, 'z) tool_db_scheme \<Rightarrow>
      (tool_store_error + approval_request) \<times> ('x, 'z) tool_db_scheme" where
  "decide_approval E i d = in_tx (decide_approval_tx E i d)"

section \<open>Start and finish\<close>

definition mark_started_tx ::
    "'x tool_env \<Rightarrow> tool_in \<Rightarrow> tool_run \<Rightarrow> ('x, 'z) tool_db_scheme \<Rightarrow>
      tool_store_error + tool_run \<times> ('x, 'z) tool_db_scheme" where
  "mark_started_tx E i run db =
    bindE (read_tool_run_tx (tn_workspace run) (tn_idempotency run) db) (\<lambda>current.
    if is_tool_terminal (tn_status current) then Inr (current, db)
    else bindE (validate_tool_fence_tx E (xi_clock i 0) (tn_workspace current) (tn_task current) (tn_owner current)
      (tn_fence current) db) (\<lambda>_.
    let db1 = update_run (tn_id current) (tn_workspace current)
          (\<lambda>r. tn_status r = ''pending'' \<or> tn_status r = ''awaiting_approval'')
          (\<lambda>r. r\<lparr>tn_status := ''running'', tn_attempt := tn_attempt r + 1,
            tn_started := (case tn_started r of None \<Rightarrow> Some (xi_clock i 1) | Some t \<Rightarrow> Some t)\<rparr>) db in
    bindE (append_tool_event E (xi_io i) ''tool.started'' (tn_workspace current) (tool_request_from_run current)
      (''tool-started:'' @ tn_id current)
      [(''run_id'', ToolText (tn_id current)), (''attempt'', ToolInt (tn_attempt current + 1))] db1) (\<lambda>db2.
    bindE (read_tool_run_tx (tn_workspace current) (tn_idempotency current) db2) (\<lambda>updated. Inr (updated, db2)))))"

definition mark_started ::
    "'x tool_env \<Rightarrow> tool_in \<Rightarrow> tool_run \<Rightarrow> ('x, 'z) tool_db_scheme \<Rightarrow>
      (tool_store_error + tool_run) \<times> ('x, 'z) tool_db_scheme" where
  "mark_started E i run = in_tx (mark_started_tx E i run)"

definition tool_artifact_marker :: "artifact_ref \<Rightarrow> string" where
  "tool_artifact_marker r = ''[fornix-artifact id='' @ show_int (rf_artifact r) @ '' sha256='' @ rf_hash r @
    '' bytes='' @ show_int (rf_bytes r) @ '']''"

definition artifact_reference_from_ref :: "artifact_ref \<Rightarrow> artifact_reference" where
  "artifact_reference_from_ref r = \<lparr>ar_ref = ''artifact:'' @ show_int (rf_artifact r), ar_kind = rf_role r,
    ar_sha256 = rf_hash r, ar_media_type = rf_media r, ar_size_bytes = rf_bytes r\<rparr>"

text \<open>\<open>put\<close> of \<open>artifactizeToolResultTx\<close>; an empty body gives a nil reference, which the
  callers dereference.\<close>

definition put_tool_artifact ::
    "'x tool_env \<Rightarrow> tool_run \<Rightarrow> string \<Rightarrow> string \<Rightarrow> string \<Rightarrow> string \<Rightarrow> 'x \<Rightarrow>
      tool_store_error + artifact_ref \<times> 'x" where
  "put_tool_artifact E run role kind media raw ev =
    (if raw = [] then Inl (ToolStoreInvalid ''nil artifact reference'')
     else liftE ToolArtifactFailed (xe_artifact E \<lparr>au_workspace = tn_workspace run, au_kind = kind, au_media = media,
       au_raw = raw, au_gist = ''redacted tool output'',
       au_metadata = [(''tool_run_id'', tn_id run), (''tool_id'', tn_tool run), (''role'', role)],
       au_source_kind = ''tool_run'', au_source_id = tn_id run, au_role = role,
       au_key = ''tool-output:'' @ tn_id run @ '':'' @ role, au_causation = tn_causation run,
       au_correlation = tn_correlation run, au_actor = tn_actor run\<rparr> ev))"

text \<open>One stream: its stored text and the reference of the artifact that holds it, if any.\<close>

definition artifactize_stream ::
    "'x tool_env \<Rightarrow> tool_run \<Rightarrow> string \<Rightarrow> string \<Rightarrow> string \<Rightarrow> 'x \<Rightarrow>
      tool_store_error + (string \<times> artifact_ref option) \<times> 'x" where
  "artifactize_stream E run role kind text ev =
    (if len text > max_tool_evidence_bytes
     then bindE (put_tool_artifact E run role kind ''text/plain'' (xe_redact E text) ev) (\<lambda>(r, ev').
       Inr ((tool_artifact_marker r, Some r), ev'))
     else Inr ((xe_redact E text, None), ev))"

definition artifactize_tool_result_tx ::
    "'x tool_env \<Rightarrow> tool_run \<Rightarrow> tool_result \<Rightarrow> 'x \<Rightarrow>
      tool_store_error + (tool_result \<times> int option \<times> int option \<times> int option) \<times> 'x" where
  "artifactize_tool_result_tx E run result ev =
    bindE (artifactize_stream E run ''stdout'' ''tool-stdout'' (tr_stdout result) ev) (\<lambda>((out, out_ref), ev1).
    bindE (artifactize_stream E run ''stderr'' ''tool-stderr'' (tr_stderr result) ev1) (\<lambda>((err, err_ref), ev2).
    let refs = map artifact_reference_from_ref ((case out_ref of Some r \<Rightarrow> [r] | None \<Rightarrow> []) @
          (case err_ref of Some r \<Rightarrow> [r] | None \<Rightarrow> []));
        stored = result\<lparr>tr_stdout := out, tr_stderr := err, tr_artifacts := tr_artifacts result @ refs\<rparr> in
    if len (xe_redact E (xe_result_json E result)) > max_tool_evidence_bytes
    then bindE (put_tool_artifact E run ''result'' ''tool-result'' ''application/json''
        (xe_redact E (xe_result_json E stored)) ev2) (\<lambda>(r, ev3).
      Inr ((stored, map_option rf_artifact out_ref, map_option rf_artifact err_ref, Some (rf_artifact r)), ev3))
    else Inr ((stored, map_option rf_artifact out_ref, map_option rf_artifact err_ref, None), ev2)))"

definition finish_status :: "tool_result \<Rightarrow> string" where
  "finish_status r =
    (let status = (if tr_status r = [] then ''failed'' else tr_status r) in
    if status = ''succeeded'' \<and> tr_failure r \<noteq> None then ''failed'' else status)"

definition run_statuses :: "string list" where
  "run_statuses = [''pending'', ''awaiting_approval'', ''running'', ''succeeded'', ''failed'', ''denied'', ''cancelled'']"

definition finish_tool_tx ::
    "'x tool_env \<Rightarrow> tool_in \<Rightarrow> tool_run \<Rightarrow> tool_result \<Rightarrow> ('x, 'z) tool_db_scheme \<Rightarrow>
      tool_store_error + tool_run \<times> ('x, 'z) tool_db_scheme" where
  "finish_tool_tx E i run result0 db =
    bindE (read_tool_run_tx (tn_workspace run) (tn_idempotency run) db) (\<lambda>current.
    if is_tool_terminal (tn_status current) then Inr (current, db)
    else bindE (validate_tool_fence_tx E (xi_clock i 0) (tn_workspace current) (tn_task current) (tn_owner current)
      (tn_fence current) db) (\<lambda>_.
    let status = finish_status result0;
        result1 = result0\<lparr>tr_status := status, tr_run_id := tn_id current, tr_request_id := tn_request_id current,
          tr_tool := tn_tool current\<rparr>;
        result = (if tr_content_hash result1 = []
          then result1\<lparr>tr_content_hash := xe_result_digest E (tool_result_content result1)\<rparr> else result1) in
    bindE (artifactize_tool_result_tx E current result (evidence_tables db)) (\<lambda>((stored, out, err, res), ev).
    let redacted = xe_redact_bytes E (xe_result_json E stored);
        evidence = (if redacted = [] then ''{}''
          else if len redacted > max_tool_evidence_bytes
          then ''{'' @ json_string ''redacted'' @ '':true,'' @ json_string ''truncated'' @ '':true}'' else redacted) in
    if status \<notin> set run_statuses then Inl ToolInsertFailed
    else
      let db1 = update_run (tn_id current) (tn_workspace current) (\<lambda>_. True)
          (\<lambda>r. r\<lparr>tn_status := status, tn_result := Some stored, tn_failure := tr_failure result,
            tn_response_evidence := evidence, tn_stdout_artifact := out, tn_stderr_artifact := err,
            tn_result_artifact := res, tn_finished := Some (xi_clock i 1),
            tn_duration_ms := max 0 ((xi_clock i 1 - (case tn_started r of Some t \<Rightarrow> t | None \<Rightarrow> tn_created r)) div 1000)\<rparr>)
          (db\<lparr>evidence_tables := ev\<rparr>);
          etype = (if status = ''succeeded'' then ''tool.succeeded''
            else if status = ''denied'' then ''tool.denied'' else ''tool.failed'') in
      bindE (append_tool_event E (xi_io i) etype (tn_workspace current) (tool_request_from_run current)
        (''tool-result:'' @ tn_id current)
        [(''run_id'', ToolText (tn_id current)), (''status'', ToolText status),
         (''content_hash'', ToolText (tr_content_hash result)), (''failure'', ToolFail (tr_failure result))] db1) (\<lambda>db2.
      bindE (observe_tx E (''tool-observation:'' @ tn_id current) db2) (\<lambda>db3.
      bindE (observe_tx E (''tool-cost:'' @ tn_id current) db3) (\<lambda>db4.
      bindE (read_tool_run_tx (tn_workspace current) (tn_idempotency current) db4) (\<lambda>updated.
      Inr (updated, db4))))))))"

definition finish_tool ::
    "'x tool_env \<Rightarrow> tool_in \<Rightarrow> tool_run \<Rightarrow> tool_result \<Rightarrow> ('x, 'z) tool_db_scheme \<Rightarrow>
      (tool_store_error + tool_run) \<times> ('x, 'z) tool_db_scheme" where
  "finish_tool E i run result = in_tx (finish_tool_tx E i run result)"

definition validate_tool_task_fence ::
    "'x tool_env \<Rightarrow> time \<Rightarrow> tool_request \<Rightarrow> ('x, 'z) tool_db_scheme \<Rightarrow> tool_store_error + unit" where
  "validate_tool_task_fence E now q db =
    validate_tool_fence_tx E now (tq_workspace q) (tq_task q) (tq_owner q) (tq_fence q) db"

section \<open>Frames\<close>

lemma append_tool_event_frame:
  assumes "append_tool_event E j e w r k p t = Inr t'"
  shows "tool_approvals t' = tool_approvals t \<and> tool_runs t' = tool_runs t \<and> task_leases t' = task_leases t \<and>
    tasks t' = tasks t"
  using assms by (auto simp: append_tool_event_def results elim!: append_tx_Inr)

lemma observe_tx_frame:
  assumes "observe_tx E l t = Inr t'"
  shows "tool_approvals t' = tool_approvals t \<and> tool_runs t' = tool_runs t \<and> task_leases t' = task_leases t \<and>
    tasks t' = tasks t"
  using assms by (auto simp: observe_tx_def results)

end
