(* ===== verification/Tool_Executor.thy ===== *)
theory Tool_Executor
  imports Tool_Store Task_Safety
begin

text \<open>
  \<open>Executor.Execute\<close> of \<open>internal/tool/executor.go\<close>, composed of the registry, the policy, the
  durable store and the local process.

  The calls of one execution are separate transactions.  \<open>ex_between\<close> is what other sessions do
  to the database before the store call of that number, so every theorem holds under arbitrary
  interleaving.  Besides the outcome and the error of the Go function, a run returns the processes
  it started.
\<close>

section \<open>Execution\<close>

datatype exec_error = ExecFailure tool_failure | ExecStore tool_store_error

record tool_outcome =
  oc_run :: "tool_run option"
  oc_result :: "tool_result option"
  oc_approval :: "approval_request option"
  oc_dedup :: bool

record 'x executor =
  ex_env :: "'x tool_env"
  ex_world :: tool_world
  ex_registry :: tool_registry
  ex_policy :: "tool_policy_rule list"
  ex_fence :: bool
  ex_ttl :: duration
  ex_process :: "process_call \<Rightarrow> process_outcome"
  ex_error_text :: "tool_store_error \<Rightarrow> string"

record 'd exec_in =
  ei_draw :: "nat \<Rightarrow> tool_in"
  ei_between :: "nat \<Rightarrow> 'd \<Rightarrow> 'd"

type_synonym 'd exec_result = "(tool_outcome \<times> exec_error option \<times> process_call list) \<times> 'd"

definition no_outcome :: tool_outcome where
  "no_outcome = \<lparr>oc_run = None, oc_result = None, oc_approval = None, oc_dedup = False\<rparr>"

definition approval_ttl :: "duration \<Rightarrow> duration" where
  "approval_ttl ttl = (if ttl \<le> 0 then 600 * second else ttl)"

definition replay_or_conflict :: "tool_run \<Rightarrow> 'd \<Rightarrow> 'd exec_result" where
  "replay_or_conflict run db =
    (if tn_status run \<in> set [''succeeded'', ''failed'', ''denied'', ''cancelled'']
     then ((\<lparr>oc_run = Some run, oc_result = tn_result run, oc_approval = None, oc_dedup = True\<rparr>, None, []), db)
     else ((\<lparr>oc_run = Some run, oc_result = None, oc_approval = None, oc_dedup = True\<rparr>,
       Some (ExecFailure (tool_failed ''in_progress'' ''tool run is already reserved or running'' False)), []), db))"

definition denied_result :: "tool_run \<Rightarrow> tool_failure \<Rightarrow> tool_result" where
  "denied_result run f = \<lparr>tr_request_id = tn_request_id run, tr_run_id = tn_id run, tr_tool = tn_tool run,
    tr_status = ''denied'', tr_exit_code = 0, tr_stdout = [], tr_stderr = [], tr_started = 0, tr_finished = 0,
    tr_duration_ms = 0, tr_content_hash = [], tr_artifacts = [], tr_failure = Some f\<rparr>"

definition finish_denied_run ::
    "'x executor \<Rightarrow> 'x tool_db exec_in \<Rightarrow> nat \<Rightarrow> tool_run \<Rightarrow> string \<Rightarrow> string \<Rightarrow> 'x tool_db \<Rightarrow>
      'x tool_db exec_result" where
  "finish_denied_run X i n run code message db =
    (let f = tool_failed code message False; result = denied_result run f;
         (r, db') = finish_tool (ex_env X) (ei_draw i n) run result (ei_between i n db) in
    case r of
      Inl e \<Rightarrow> ((no_outcome\<lparr>oc_run := Some run, oc_result := Some result\<rparr>, Some (ExecStore e), []), db')
    | Inr finished \<Rightarrow>
        ((no_outcome\<lparr>oc_run := Some finished, oc_result := Some result\<rparr>, Some (ExecFailure f), []), db'))"

definition finish_stale ::
    "'x executor \<Rightarrow> 'x tool_db exec_in \<Rightarrow> nat \<Rightarrow> tool_run \<Rightarrow> tool_store_error \<Rightarrow> 'x tool_db \<Rightarrow>
      'x tool_db exec_result" where
  "finish_stale X i n run e db = finish_denied_run X i n run ''stale_fence'' (ex_error_text X e) db"

definition finish_denied ::
    "'x executor \<Rightarrow> 'x tool_db exec_in \<Rightarrow> tool_request \<Rightarrow> string \<Rightarrow> string \<Rightarrow> 'x tool_db \<Rightarrow>
      'x tool_db exec_result" where
  "finish_denied X i q code message db =
    (let (r, db') = reserve_tool (ex_env X) (ei_draw i 0) q ''denied'' (ei_between i 0 db) in
    case r of
      Inl e \<Rightarrow> ((no_outcome, Some (ExecStore e), []), db')
    | Inr (run, existing) \<Rightarrow>
        if existing then replay_or_conflict run db' else finish_denied_run X i 1 run code message db')"

text \<open>The process and the commit of its result.\<close>

definition run_process ::
    "'x executor \<Rightarrow> tool_definition \<Rightarrow> tool_request \<Rightarrow> (tool_failure + tool_result) \<times> process_call list" where
  "run_process X d q =
    (case local_admit (ex_world X) d q of
      Inl f \<Rightarrow> (Inl f, [])
    | Inr c \<Rightarrow> (Inr (process_result (xe_result_digest (ex_env X)) (effective_profile d q) q (ex_process X c)), [c]))"

definition execute_started ::
    "'x executor \<Rightarrow> 'x tool_db exec_in \<Rightarrow> tool_definition \<Rightarrow> tool_request \<Rightarrow> tool_run \<Rightarrow> 'x tool_db \<Rightarrow>
      'x tool_db exec_result" where
  "execute_started X i d q started db =
    (let (outcome, calls) = run_process X d q in
    case outcome of
      Inl f \<Rightarrow>
        let result = (denied_result started f)\<lparr>tr_status := ''failed''\<rparr>;
            (r, db') = finish_tool (ex_env X) (ei_draw i 5) started result (ei_between i 5 db) in
        (case r of
          Inl e \<Rightarrow> ((no_outcome\<lparr>oc_run := Some started, oc_result := Some result\<rparr>, Some (ExecStore e), calls), db')
        | Inr finished \<Rightarrow>
            ((no_outcome\<lparr>oc_run := Some finished, oc_result := Some result\<rparr>, Some (ExecFailure f), calls), db'))
    | Inr result \<Rightarrow>
        let (r, db') = finish_tool (ex_env X) (ei_draw i 5) started result (ei_between i 5 db) in
        (case r of
          Inl e \<Rightarrow> ((no_outcome\<lparr>oc_run := Some started, oc_result := Some result\<rparr>, Some (ExecStore e), calls), db')
        | Inr finished \<Rightarrow>
            ((no_outcome\<lparr>oc_run := Some finished, oc_result := Some result\<rparr>,
              map_option ExecFailure (tr_failure result), calls), db')))"

text \<open>An interactive run that awaits approval continues when the approval named in the request is
  granted, unexpired and for the same request.\<close>

definition approved_continuation ::
    "tool_in \<Rightarrow> tool_request \<Rightarrow> tool_run \<Rightarrow> 'x tool_db \<Rightarrow> bool" where
  "approved_continuation i q run db \<longleftrightarrow>
    tn_status run = ''awaiting_approval'' \<and> trim_space (tq_approval q) \<noteq> [] \<and>
    (case get_approval (tq_workspace q) (tq_approval q) db of
      Inl _ \<Rightarrow> False
    | Inr a \<Rightarrow> ap_status a = ''approved'' \<and> ap_request_hash a = tn_request_hash run \<and> ap_expires a > xi_now i)"

definition pre_approved_check :: "tool_in \<Rightarrow> tool_request \<Rightarrow> tool_run \<Rightarrow> 'x tool_db \<Rightarrow> (string \<times> string) option" where
  "pre_approved_check i q run db =
    (case get_approval (tq_workspace q) (tq_approval q) db of
      Inl _ \<Rightarrow> Some (''approval_required'', ''approved grant is required'')
    | Inr a \<Rightarrow>
        if ap_status a \<noteq> ''approved'' \<or> ap_request_hash a \<noteq> tn_request_hash run \<or> ap_expires a < xi_now i
        then Some (''approval_denied'', ''approval is missing, expired, or does not match request'') else None)"

text \<open>From the granted admission on: the fence, the start, the process.\<close>

definition execute_admitted ::
    "'x executor \<Rightarrow> 'x tool_db exec_in \<Rightarrow> tool_definition \<Rightarrow> tool_policy_rule \<Rightarrow> tool_request \<Rightarrow> tool_run \<Rightarrow>
      'x tool_db \<Rightarrow> 'x tool_db exec_result" where
  "execute_admitted X i d rule q run db =
    (let db3 = ei_between i 3 db in
    case (if ex_fence X then validate_tool_task_fence (ex_env X) (xi_clock (ei_draw i 3) 0) q db3 else Inr ()) of
      Inl e \<Rightarrow> finish_stale X i 5 run e db3
    | Inr _ \<Rightarrow>
        let (r, db4) = mark_started (ex_env X) (ei_draw i 4) run (ei_between i 4 db3) in
        (case r of
          Inl e \<Rightarrow> finish_stale X i 5 run e db4
        | Inr started \<Rightarrow> execute_started X i (effective_definition d rule) q started db4))"

definition execute_tool ::
    "'x executor \<Rightarrow> 'x tool_db exec_in \<Rightarrow> tool_request \<Rightarrow> 'x tool_db \<Rightarrow> 'x tool_db exec_result" where
  "execute_tool X i q0 db =
    (case normalize_tool_request (xi_new_request (ei_draw i 0)) q0 of
      Inl e \<Rightarrow> ((no_outcome, Some (ExecFailure (tool_failed ''invalid_request'' (ex_error_text X (ToolRejected e)) False)), []), db)
    | Inr q1 \<Rightarrow>
    case lookup_tool (ex_registry X) (tq_tool q1) of
      None \<Rightarrow> ((no_outcome, Some (ExecFailure (tool_failed ''unknown_tool'' ''tool is not registered'' False)), []), db)
    | Some d \<Rightarrow>
    let q = (if tq_capability q1 = [] then q1\<lparr>tq_capability := td_capability d\<rparr> else q1) in
    case evaluate_policy (tw_cwd (ex_world X)) (ex_policy X) q d of
      None \<Rightarrow> finish_denied X i q ''unauthorized'' (''tool unauthorized: no matching policy for tool '' @ tq_tool q) db
    | Some rule \<Rightarrow>
    let (r, db1) = reserve_tool (ex_env X) (ei_draw i 0) q (rl_mode rule) (ei_between i 0 db) in
    case r of
      Inl e \<Rightarrow> ((no_outcome, Some (ExecStore e), []), db1)
    | Inr (run, existing) \<Rightarrow>
    let db1' = ei_between i 1 db1; continued = (existing \<and> approved_continuation (ei_draw i 1) q run db1') in
    if existing \<and> \<not> continued then replay_or_conflict run db1'
    else if rl_mode rule = ''denied''
    then finish_denied_run X i 2 run ''unauthorized'' ''tool policy denied execution'' db1'
    else if rl_mode rule = ''interactive'' \<and> \<not> continued
    then
      let (a, db2) = create_approval (ex_env X) (ei_draw i 2) run q (approval_ttl (ex_ttl X)) (ei_between i 2 db1') in
      (case a of
        Inl e \<Rightarrow> ((no_outcome, Some (ExecStore e), []), db2)
      | Inr approval \<Rightarrow>
          let db3 = ei_between i 3 db2 in
          (case set_awaiting_approval run db3 of
            Inl e \<Rightarrow> ((no_outcome, Some (ExecStore e), []), db3)
          | Inr updated \<Rightarrow>
              ((no_outcome\<lparr>oc_run := Some updated, oc_approval := Some approval\<rparr>,
                Some (ExecFailure (tool_failed ''approval_required'' ''interactive approval is required'' False)), []), db3)))
    else
      let db2 = ei_between i 2 db1' in
      case (if rl_mode rule = ''pre_approved'' then pre_approved_check (ei_draw i 2) q run db2 else None) of
        Some (code, message) \<Rightarrow> finish_denied_run X i 3 run code message db2
      | None \<Rightarrow> execute_admitted X i d rule q run db2)"

section \<open>What a started process presupposes\<close>

definition started_processes :: "'d exec_result \<Rightarrow> process_call list" where
  "started_processes r = snd (snd (fst r))"

lemma started_simps [simp]:
  "started_processes ((x, e, cs), db) = cs"
  "started_processes (replay_or_conflict run db) = []"
  by (simp_all add: started_processes_def replay_or_conflict_def)

lemma started_denied_run [simp]: "started_processes (finish_denied_run X i n run code message db) = []"
  by (simp add: finish_denied_run_def Let_def split: prod.splits sum.splits)

lemma started_stale [simp]: "started_processes (finish_stale X i n run e db) = []"
  by (simp add: finish_stale_def)

lemma started_denied [simp]: "started_processes (finish_denied X i q code message db) = []"
  by (simp add: finish_denied_def Let_def split: prod.splits sum.splits)

lemma started_run_process:
  "c \<in> set (snd (run_process X d q)) \<Longrightarrow> local_admit (ex_world X) d q = Inr c"
  by (auto simp: run_process_def split: sum.splits)

lemma started_execute_started:
  "started_processes (execute_started X i d q started db) = snd (run_process X d q)"
  by (simp add: execute_started_def Let_def split: prod.splits sum.splits)

lemma started_admitted:
  assumes "c \<in> set (started_processes (execute_admitted X i d rule q run db))"
  shows "local_admit (ex_world X) (effective_definition d rule) q = Inr c"
  using assms started_run_process
  by (auto simp: execute_admitted_def Let_def started_execute_started split: prod.splits sum.splits)

lemma find_snoc: "find P xs = None \<Longrightarrow> find P (xs @ [y]) = (if P y then Some y else None)"
  by (induction xs) (auto split: if_splits)

lemma reserve_tool_approvals:
  "tool_approvals (snd (reserve_tool E i q mode db)) = tool_approvals db"
proof -
  have "tool_approvals db' = tool_approvals db" if "reserve_tool_tx E i q mode db = Inr (x, db')" for x db'
    using that by (auto simp: reserve_tool_tx_def Let_def results split: option.splits if_splits
      dest!: append_tool_event_frame)
  then show ?thesis by (cases "reserve_tool_tx E i q mode db") (auto simp: reserve_tool_def in_tx_def)
qed

text \<open>How the executor comes to start a process.\<close>

lemma execute_started_cases:
  assumes "c \<in> set (started_processes (execute_tool X i q0 db))"
  obtains q1 d q rule run existing db1
  where "normalize_tool_request (xi_new_request (ei_draw i 0)) q0 = Inr q1"
    and "lookup_tool (ex_registry X) (tq_tool q1) = Some d"
    and "q = (if tq_capability q1 = [] then q1\<lparr>tq_capability := td_capability d\<rparr> else q1)"
    and "evaluate_policy (tw_cwd (ex_world X)) (ex_policy X) q d = Some rule" and "rl_mode rule \<noteq> ''denied''"
    and "reserve_tool (ex_env X) (ei_draw i 0) q (rl_mode rule) (ei_between i 0 db) = (Inr (run, existing), db1)"
    and "existing \<Longrightarrow> approved_continuation (ei_draw i 1) q run (ei_between i 1 db1)"
    and "rl_mode rule = ''interactive'' \<Longrightarrow> existing"
    and "rl_mode rule = ''pre_approved'' \<Longrightarrow>
      pre_approved_check (ei_draw i 2) q run (ei_between i 2 (ei_between i 1 db1)) = None"
    and "local_admit (ex_world X) (effective_definition d rule) q = Inr c"
proof -
  from assms obtain q1 where q1: "normalize_tool_request (xi_new_request (ei_draw i 0)) q0 = Inr q1"
    by (cases "normalize_tool_request (xi_new_request (ei_draw i 0)) q0") (auto simp: execute_tool_def)
  from assms q1 obtain d where d: "lookup_tool (ex_registry X) (tq_tool q1) = Some d"
    by (cases "lookup_tool (ex_registry X) (tq_tool q1)") (auto simp: execute_tool_def)
  define q where "q = (if tq_capability q1 = [] then q1\<lparr>tq_capability := td_capability d\<rparr> else q1)"
  from assms obtain rule where rule: "evaluate_policy (tw_cwd (ex_world X)) (ex_policy X) q d = Some rule"
    by (cases "evaluate_policy (tw_cwd (ex_world X)) (ex_policy X) q d")
      (auto simp: execute_tool_def q1 d Let_def q_def [symmetric])
  let ?R = "reserve_tool (ex_env X) (ei_draw i 0) q (rl_mode rule) (ei_between i 0 db)"
  from assms obtain run existing db1 where r: "?R = (Inr (run, existing), db1)"
    by (cases ?R; cases "fst ?R") (auto simp: execute_tool_def q1 d Let_def q_def [symmetric] rule)
  define cont where "cont \<longleftrightarrow> existing \<and> approved_continuation (ei_draw i 1) q run (ei_between i 1 db1)"
  note run = assms [unfolded execute_tool_def q1 d Let_def sum.case option.case q_def [symmetric] rule r prod.case
      cont_def [symmetric]]
  have a: "existing \<Longrightarrow> cont" using run by (auto split: if_splits)
  have b: "rl_mode rule \<noteq> ''denied''" using run a by (auto split: if_splits)
  have c: "rl_mode rule = ''interactive'' \<Longrightarrow> existing" using run a b
    by (auto simp: cont_def split: if_splits prod.splits sum.splits)
  have rest: "c \<in> set (started_processes
      (case (if rl_mode rule = ''pre_approved'' then pre_approved_check (ei_draw i 2) q run
          (ei_between i 2 (ei_between i 1 db1)) else None) of
        Some (code, message) \<Rightarrow> finish_denied_run X i 3 run code message (ei_between i 2 (ei_between i 1 db1))
      | None \<Rightarrow> execute_admitted X i d rule q run (ei_between i 2 (ei_between i 1 db1))))"
    using run a b c by (auto simp: cont_def split: if_splits)
  show thesis
  proof (rule that [OF q1 d q_def rule b r])
    show "approved_continuation (ei_draw i 1) q run (ei_between i 1 db1)" if existing
      using a [OF that] by (simp add: cont_def)
    show "pre_approved_check (ei_draw i 2) q run (ei_between i 2 (ei_between i 1 db1)) = None"
      if "rl_mode rule = ''pre_approved''"
      using rest that by (auto split: option.splits)
    show "local_admit (ex_world X) (effective_definition d rule) q = Inr c"
      using rest by (auto split: option.splits if_splits intro: started_admitted)
  qed (rule c)
qed


section \<open>What approvals guard\<close>

text \<open>A run carries the digest of the request it was reserved for.\<close>

lemma reserve_tool_hash:
  assumes "reserve_tool E i q mode db = (Inr (run, existing), db')"
  shows "\<exists>q'. normalize_tool_request (xi_new_request i) q = Inr q' \<and>
    tn_request_hash run = xe_digest E (tool_request_content q')"
proof -
  have new: "tn_request_hash run = h"
    if "find (\<lambda>r. tn_workspace r = w \<and> tn_idempotency r = k) (tool_runs db) = None"
      and "read_tool_run_tx w k (db\<lparr>tool_runs := tool_runs db @ [new_tool_run E i q' h m]\<rparr>) = Inr run" for w k q' h m
    using that by (auto simp: read_tool_run_tx_def find_snoc new_tool_run_def split: option.split_asm if_split_asm)
  from assms have "reserve_tool_tx E i q mode db = Inr ((run, existing), db')"
    unfolding reserve_tool_def by (auto elim: in_tx_cases)
  then show ?thesis
    by (auto simp: reserve_tool_tx_def Let_def results dest: new split: option.split_asm if_split_asm)
qed

lemma reserve_existing:
  assumes "fst (reserve_tool E i q mode db) = Inr (run, True)"
  shows "snd (reserve_tool E i q mode db) = db"
  using assms
  by (auto simp: reserve_tool_def in_tx_def reserve_tool_tx_def Let_def results split: sum.splits option.splits if_splits)

text \<open>A grant for a request: approved, for its digest, in its workspace, and not expired.\<close>

definition grants :: "time \<Rightarrow> string \<Rightarrow> string \<Rightarrow> approval_row \<Rightarrow> bool" where
  "grants now workspace hash a \<longleftrightarrow>
    ap_workspace a = trim_space workspace \<and> ap_status a = ''approved'' \<and> ap_request_hash a = hash \<and>
    now \<le> ap_expires a"

lemma get_approval_row:
  assumes "get_approval w aid db = Inr a"
  obtains x where "x \<in> set (tool_approvals db)" and "ap_run_id x = trim_space aid" and "a = approval_request.truncate x"
    and "ap_workspace x = trim_space w"
  using assms by (auto simp: get_approval_def read_approval_def find_Some_iff split: option.splits) (metis nth_mem)

lemma get_approval_grants:
  assumes "get_approval w aid db = Inr a" and "ap_status a = ''approved''" and "ap_request_hash a = hash"
    and "now \<le> ap_expires a"
  shows "\<exists>x \<in> set (tool_approvals db). grants now w hash x"
proof (rule get_approval_row [OF assms(1)])
  fix x
  assume "x \<in> set (tool_approvals db)" and "a = approval_request.truncate x" and "ap_workspace x = trim_space w"
  with assms(2-4) show ?thesis by (auto simp: grants_def approval_request.defs)
qed


text \<open>
  But the store looks an approval up by the id of the run it gates, the executor by the id of the
  approval: a tool that needs approval never starts, approved or not, as long as no run bears the
  name the request gives for its approval, whatever else the other sessions do.
\<close>

theorem approved_request_never_runs:
  assumes "normalize_tool_request (xi_new_request (ei_draw i 0)) q0 = Inr q1"
    and "lookup_tool (ex_registry X) (tq_tool q1) = Some d"
    and "q = (if tq_capability q1 = [] then q1\<lparr>tq_capability := td_capability d\<rparr> else q1)"
    and "evaluate_policy (tw_cwd (ex_world X)) (ex_policy X) q d = Some rule"
    and "rl_mode rule \<in> {''interactive'', ''pre_approved''}"
    and no_run: "\<And>n s. list_all (\<lambda>a. ap_run_id a \<noteq> trim_space (tq_approval q1)) (tool_approvals s) \<Longrightarrow>
      list_all (\<lambda>a. ap_run_id a \<noteq> trim_space (tq_approval q1)) (tool_approvals (ei_between i n s))"
    and start: "list_all (\<lambda>a. ap_run_id a \<noteq> trim_space (tq_approval q1)) (tool_approvals db)"
  shows "started_processes (execute_tool X i q0 db) = []"
proof (rule ccontr)
  assume "started_processes (execute_tool X i q0 db) \<noteq> []"
  then obtain c where "c \<in> set (started_processes (execute_tool X i q0 db))" by (meson list.set_sel(1))
  then show False
  proof (cases rule: execute_started_cases)
    case (1 q2 d2 q3 rule2 run existing db1)
    have [simp]: "q2 = q1" "d2 = d" using 1(1,2) assms(1,2) by auto
    then have [simp]: "q3 = q" using 1(3) assms(3) by simp
    have [simp]: "rule2 = rule" using 1(4) assms(4) by simp
    have name: "tq_approval q = tq_approval q1" by (simp add: assms(3))
    let ?none = "\<lambda>s. list_all (\<lambda>a. ap_run_id a \<noteq> trim_space (tq_approval q1)) (tool_approvals s)"
    have none: "get_approval w (tq_approval q1) s \<noteq> Inr a" if "?none s" for w a s
      using that by (auto simp: list_all_iff elim: get_approval_row)
    have "?none db1"
      using reserve_tool_approvals [of "ex_env X" "ei_draw i 0" q3 "rl_mode rule2" "ei_between i 0 db"] 1(6)
        no_run [OF start] by simp
    then have later: "?none (ei_between i 1 db1)" "?none (ei_between i 2 (ei_between i 1 db1))"
      by (blast intro: no_run)+
    show False
      using assms(5) 1(7-9) none [OF later(1)] none [OF later(2)]
      by (auto simp: approved_continuation_def pre_approved_check_def name split: sum.splits if_splits)
  qed
qed

section \<open>Fences and decisions\<close>

text \<open>
  C38: Once the lease of a task carries a larger fence, and however the task store evolves after
  that, a worker's tool run made under the older fence can neither start nor record a result.
\<close>

theorem stale_worker_records_no_tool_result:
  assumes run: "(task_step E)\<^sup>*\<^sup>* (n, tdb) (m, tdb')" and lease: "task_leases tdb (tn_workspace current, tid) = Some l"
    and stale: "tn_fence current < lease_fence l" and tables: "task_leases db = task_leases tdb'"
    and current: "read_tool_run_tx (tn_workspace r) (tn_idempotency r) db = Inr current"
    and live: "\<not> is_tool_terminal (tn_status current)"
    and task: "tn_task current = Some t" "xe_bigint T (er_id t) = Some tid"
  shows "finish_tool T i r result db = (Inl ToolTaskFenced, db) \<and> mark_started T i r db = (Inl ToolTaskFenced, db)"
proof -
  obtain l' where l': "task_leases tdb' (tn_workspace current, tid) = Some l'" "lease_le n l m l'"
    using task_lease.run_row [OF run, of "(tn_workspace current, tid)" l] lease by auto
  have "lease_fence l' \<noteq> tn_fence current" using lease_le_fence [OF l'(2)] stale by linarith
  then have "validate_tool_fence_tx T now (tn_workspace current) (tn_task current) (tn_owner current) (tn_fence current) db
      = Inl ToolTaskFenced" for now
    using l'(1) task by (simp add: validate_tool_fence_tx_def tables)
  then show ?thesis
    using current live by (simp add: finish_tool_def mark_started_def in_tx_def finish_tool_tx_def mark_started_tx_def)
qed

lemma find_map_same: "(\<And>x. P (f x) = P x) \<Longrightarrow> find P (map f xs) = map_option f (find P xs)"
  by (induction xs) auto

lemma decide_approval_row:
  assumes "decide_approval E i d db = (Inr a, db')"
  shows "read_approval_by_id (trim_space (ad_workspace d)) (trim_space (ad_approval d)) db' = Inr a \<and>
    ap_status a = to_lower (trim_space (ad_decision d)) \<and> ap_status a \<in> {''approved'', ''denied''} \<and>
    trim_space (ad_workspace d) \<noteq> [] \<and> trim_space (ad_approval d) \<noteq> []"
proof -
  let ?w = "trim_space (ad_workspace d)" and ?i = "trim_space (ad_approval d)"
  let ?k = "to_lower (trim_space (ad_decision d))"
  from assms have body: "decide_approval_tx E i d db = Inr (a, db')"
    unfolding decide_approval_def by (auto elim: in_tx_cases)
  then have ok: "?w \<noteq> []" "?i \<noteq> []" "?k = ''approved'' \<or> ?k = ''denied''"
    by (auto simp: decide_approval_tx_def Let_def split: if_splits)
  from body ok obtain x where x: "find (\<lambda>a. ap_workspace a = ?w \<and> ap_id a = ?i) (tool_approvals db) = Some x"
    by (auto simp: decide_approval_tx_def Let_def results read_approval_by_id_def split: option.splits)
  then have read: "read_approval_by_id ?w ?i db = Inr (approval_request.truncate x)"
    by (simp add: read_approval_by_id_def)
  have trunc: "ap_status (approval_request.truncate x) = ap_status x" "ap_expires (approval_request.truncate x) = ap_expires x"
    by (simp_all add: approval_request.defs)
  show ?thesis
  proof (cases "ap_status x = ''pending''")
    case False
    then have "a = approval_request.truncate x \<and> db' = db \<and> ap_status x = ?k"
      using body ok by (auto simp: decide_approval_tx_def Let_def read trunc split: if_splits)
    then show ?thesis using read trunc ok by simp
  next
    case True
    let ?f = "\<lambda>b. b\<lparr>ap_status := ?k, ap_decided := Some (xi_now i), aw_decided_by := ad_actor d,
        aw_decision_reason := trim_space (ad_reason d)\<rparr>"
    let ?a = "(approval_request.truncate x)\<lparr>ap_status := ?k, ap_decided := Some (xi_now i)\<rparr>"
    from True body ok have "ap_expires x > xi_now i"
      by (auto simp: decide_approval_tx_def Let_def read trunc split: if_splits)
    with True body ok have a: "a = ?a"
      and rows: "tool_approvals db' = tool_approvals (update_approval (\<lambda>a. ap_workspace a = ?w \<and> ap_id a = ?i) ?f db)"
      by (auto simp: decide_approval_tx_def Let_def read trunc results dest!: append_tool_event_frame observe_tx_frame)
    have "read_approval_by_id ?w ?i db' = Inr (approval_request.truncate (?f x))"
      using x find_Some_iff [of "\<lambda>a. ap_workspace a = ?w \<and> ap_id a = ?i" "tool_approvals db" x]
      by (auto simp: read_approval_by_id_def rows update_approval_def find_map_same)
    then show ?thesis using ok a by (simp add: approval_request.defs)
  qed
qed

text \<open>
  A decision is made once: after a decision that succeeded, the same decision returns the same
  approval and every other one conflicts, both without changing the database.
\<close>

theorem approval_decided_once:
  assumes "decide_approval E i d db = (Inr a, db')"
    and "trim_space (ad_workspace d2) = trim_space (ad_workspace d)"
    and "trim_space (ad_approval d2) = trim_space (ad_approval d)"
    and "to_lower (trim_space (ad_decision d2)) \<in> {''approved'', ''denied''}"
  shows "decide_approval E2 i2 d2 db' =
    (if to_lower (trim_space (ad_decision d2)) = to_lower (trim_space (ad_decision d)) then Inr a
     else Inl ErrToolApprovalConflict, db')"
proof -
  note row = decide_approval_row [OF assms(1)]
  have "ap_status a \<noteq> ''pending''" using row by auto
  then show ?thesis
    using row assms(2-4)
    by (auto simp: decide_approval_def in_tx_def decide_approval_tx_def Let_def)
qed

text \<open>
  A pending approval whose time is over can no longer be decided; the attempt conflicts and the
  expiry it noticed is rolled back, so the row stays pending.
\<close>

theorem approval_expiry_not_recorded:
  assumes "read_approval_by_id (trim_space (ad_workspace d)) (trim_space (ad_approval d)) db = Inr a"
    and "ap_status a = ''pending''" and "ap_expires a \<le> xi_now i"
    and "trim_space (ad_workspace d) \<noteq> []" and "trim_space (ad_approval d) \<noteq> []"
    and "to_lower (trim_space (ad_decision d)) \<in> {''approved'', ''denied''}"
  shows "decide_approval E i d db = (Inl ErrToolApprovalConflict, db)"
  using assms by (auto simp: decide_approval_def in_tx_def decide_approval_tx_def Let_def)

section \<open>Samples\<close>

definition sample_tool_env :: "unit tool_env" where
  "sample_tool_env = \<lparr>xe_events = sample_env, xe_digest = (\<lambda>_. ''hash''), xe_result_digest = (\<lambda>_. ''rh''),
    xe_request_json = (\<lambda>_. ''{}''), xe_result_json = (\<lambda>_. ''{}''), xe_payload = (\<lambda>_. ''{}''),
    xe_redact = (\<lambda>s. s), xe_redact_bytes = (\<lambda>s. s), xe_bigint = (\<lambda>s. if s = ''7'' then Some 7 else None),
    xe_artifact = (\<lambda>_ _. Inl ''unused''), xe_observe = (\<lambda>_ ev. Inr ev)\<rparr>"

definition sample_tool_in :: "nat \<Rightarrow> tool_in" where
  "sample_tool_in n = \<lparr>xi_clock = (\<lambda>k. 100 * int n + int k), xi_now = 100 * int n,
    xi_io = sample_io (''e'' @ show_nat n) (int n + 1), xi_new_id = ''id'' @ show_nat n, xi_new_request = ''q''\<rparr>"

definition sample_exec_in :: "unit tool_db exec_in" where
  "sample_exec_in = \<lparr>ei_draw = sample_tool_in, ei_between = (\<lambda>_. id)\<rparr>"

definition empty_tool_db :: "unit tool_db" where
  "empty_tool_db = \<lparr>control_events = [], idempotency_records = (\<lambda>_. None), control_checkpoints = (\<lambda>_. None),
    evidence_tables = (), tasks = [], task_deps = [], task_leases = (\<lambda>_. None), sessions = (\<lambda>_. None),
    tool_runs = [], tool_approvals = []\<rparr>"

definition sample_registered :: tool_definition where
  "sample_registered = sample_tool\<lparr>td_id := ''grep'',
    td_sandbox := default_sandbox_profile\<lparr>sb_root := ''/srv/repo''\<rparr>\<rparr>"

definition sample_executor :: "string \<Rightarrow> unit executor" where
  "sample_executor mode = \<lparr>ex_env = sample_tool_env, ex_world = sample_world,
    ex_registry = \<lparr>rg_tools = [(''grep'', sample_registered)], rg_aliases = [(''search'', ''grep''), (''grep'', ''grep'')]\<rparr>,
    ex_policy = [sample_rule_normal ''a'' 1 mode], ex_fence = True, ex_ttl = 0,
    ex_process = (\<lambda>_. \<lparr>po_stdout = [''ok''], po_stderr = [], po_deadline = False, po_cancelled = False, po_wait = None,
      po_started = 1, po_finished = 2, po_duration_ms = 0\<rparr>), ex_error_text = (\<lambda>_. ''error'')\<rparr>"

text \<open>An automatic run starts the admitted process.\<close>

lemma execute_starts:
  assumes "normalize_tool_request (xi_new_request (ei_draw i 0)) q0 = Inr q" and "tq_capability q \<noteq> []"
    and "lookup_tool (ex_registry X) (tq_tool q) = Some d"
    and "evaluate_policy (tw_cwd (ex_world X)) (ex_policy X) q d = Some rule" and "rl_mode rule = ''automatic''"
    and "fst (reserve_tool (ex_env X) (ei_draw i 0) q ''automatic'' (ei_between i 0 db)) = Inr (run, False)"
    and "tq_task q = None" and "ei_between i 4 = (\<lambda>_. db4)"
    and "fst (mark_started (ex_env X) (ei_draw i 4) run db4) = Inr started"
    and "local_admit (ex_world X) (effective_definition d rule) q = Inr c"
  shows "started_processes (execute_tool X i q0 db) = [c]"
proof -
  obtain db1 where r: "reserve_tool (ex_env X) (ei_draw i 0) q ''automatic'' (ei_between i 0 db) = (Inr (run, False), db1)"
    using assms(6) by (cases "reserve_tool (ex_env X) (ei_draw i 0) q ''automatic'' (ei_between i 0 db)") auto
  obtain db5 where m: "mark_started (ex_env X) (ei_draw i 4) run db4 = (Inr started, db5)"
    using assms(9) by (cases "mark_started (ex_env X) (ei_draw i 4) run db4") auto
  have p: "snd (run_process X (effective_definition d rule) q) = [c]" by (simp add: run_process_def assms(10))
  show ?thesis
    using assms(2,5,7) by (simp add: execute_tool_def assms(1,3,4) r execute_admitted_def Let_def
      validate_tool_task_fence_def validate_tool_fence_tx_def assms(8) m started_execute_started p)
qed

definition admitted_request :: tool_request where
  "admitted_request = sample_tool_request\<lparr>tq_capability := ''repo.read''\<rparr>"

definition admitted_run :: tool_run where
  "admitted_run = new_tool_run sample_tool_env (sample_tool_in 0) admitted_request ''hash'' ''automatic''"

definition admitted_in :: "unit tool_db exec_in" where
  "admitted_in = \<lparr>ei_draw = sample_tool_in,
    ei_between = (\<lambda>n db. if n = 4 then empty_tool_db\<lparr>tool_runs := [admitted_run]\<rparr> else db)\<rparr>"

lemma sample_executes:
  "sample_call \<in> set (started_processes
    (execute_tool (sample_executor ''automatic'') admitted_in admitted_request empty_tool_db))"
proof -
  have "started_processes (execute_tool (sample_executor ''automatic'') admitted_in admitted_request empty_tool_db)
    = [sample_call]"
  proof (rule execute_starts)
    show "normalize_tool_request (xi_new_request (ei_draw admitted_in 0)) admitted_request = Inr admitted_request"
      by code_simp
    show "lookup_tool (ex_registry (sample_executor ''automatic'')) (tq_tool admitted_request) = Some sample_registered"
      by code_simp
    show "evaluate_policy (tw_cwd (ex_world (sample_executor ''automatic'')))
        (ex_policy (sample_executor ''automatic'')) admitted_request sample_registered
      = Some (sample_rule_normal ''a'' 1 ''automatic'')" by code_simp
    show "fst (reserve_tool (ex_env (sample_executor ''automatic'')) (ei_draw admitted_in 0) admitted_request ''automatic''
        (ei_between admitted_in 0 empty_tool_db)) = Inr (admitted_run, False)" by code_simp
    show "fst (mark_started (ex_env (sample_executor ''automatic'')) (ei_draw admitted_in 4) admitted_run
        (empty_tool_db\<lparr>tool_runs := [admitted_run]\<rparr>))
      = Inr (admitted_run\<lparr>tn_status := ''running'', tn_attempt := 1, tn_started := Some 401\<rparr>)" by code_simp
    show "local_admit (ex_world (sample_executor ''automatic''))
        (effective_definition sample_registered (sample_rule_normal ''a'' 1 ''automatic'')) admitted_request
      = Inr sample_call" by code_simp
  qed (simp_all add: admitted_request_def sample_tool_request_def sample_rule_normal_def sample_rule_def admitted_in_def fun_eq_iff)
  then show ?thesis by simp
qed


definition approved_request :: tool_request where
  "approved_request = sample_tool_request\<lparr>tq_capability := ''repo.read'', tq_approval := ''approval''\<rparr>"

definition approved_run :: tool_run where
  "approved_run = (new_tool_run sample_tool_env (sample_tool_in 0) approved_request ''hash'' ''interactive'')
    \<lparr>tn_status := ''awaiting_approval'', tn_approval := ''approval''\<rparr>"

definition sample_approval :: "string \<Rightarrow> approval_row" where
  "sample_approval status = (new_approval (sample_tool_in 0) approved_run approved_request 0)
    \<lparr>ap_id := ''approval'', ap_status := status\<rparr>"

definition approved_db :: "string \<Rightarrow> unit tool_db" where
  "approved_db status = empty_tool_db\<lparr>tool_runs := [approved_run], tool_approvals := [sample_approval status]\<rparr>"

lemma approved_request_never_runs_witness:
  "started_processes (execute_tool (sample_executor ''interactive'') sample_exec_in approved_request
    (approved_db ''approved'')) = []"
proof (rule approved_request_never_runs [OF _ _ refl])
  show "normalize_tool_request (xi_new_request (ei_draw sample_exec_in 0)) approved_request = Inr approved_request"
    by code_simp
  show "lookup_tool (ex_registry (sample_executor ''interactive'')) (tq_tool approved_request) = Some sample_registered"
    by code_simp
  show "evaluate_policy (tw_cwd (ex_world (sample_executor ''interactive'')))
      (ex_policy (sample_executor ''interactive'')) (if tq_capability approved_request = []
        then approved_request\<lparr>tq_capability := td_capability sample_registered\<rparr> else approved_request) sample_registered
    = Some (sample_rule_normal ''a'' 1 ''interactive'')" by code_simp
  show "list_all (\<lambda>a. ap_run_id a \<noteq> trim_space (tq_approval approved_request)) (tool_approvals (approved_db ''approved''))"
    by code_simp
qed (simp_all add: approved_request_def sample_rule_normal_def sample_rule_def sample_exec_in_def)

text \<open>The same request under the id of its run: the store finds the approval and the process starts.\<close>

lemma execute_continues:
  assumes "normalize_tool_request (xi_new_request (ei_draw i 0)) q0 = Inr q" and "tq_capability q \<noteq> []"
    and "lookup_tool (ex_registry X) (tq_tool q) = Some d"
    and "evaluate_policy (tw_cwd (ex_world X)) (ex_policy X) q d = Some rule" and "rl_mode rule = ''interactive''"
    and "reserve_tool (ex_env X) (ei_draw i 0) q ''interactive'' (ei_between i 0 db) = (Inr (run, True), db1)"
    and "approved_continuation (ei_draw i 1) q run (ei_between i 1 db1)"
    and "tq_task q = None" and "ei_between i 4 = (\<lambda>_. db4)"
    and "fst (mark_started (ex_env X) (ei_draw i 4) run db4) = Inr started"
    and "local_admit (ex_world X) (effective_definition d rule) q = Inr c"
  shows "started_processes (execute_tool X i q0 db) = [c]"
proof -
  obtain db5 where m: "mark_started (ex_env X) (ei_draw i 4) run db4 = (Inr started, db5)"
    using assms(10) by (cases "mark_started (ex_env X) (ei_draw i 4) run db4") auto
  have p: "snd (run_process X (effective_definition d rule) q) = [c]" by (simp add: run_process_def assms(11))
  show ?thesis
    using assms(2,5,7,8) by (simp add: execute_tool_def assms(1,3,4,6) execute_admitted_def Let_def
      validate_tool_task_fence_def validate_tool_fence_tx_def assms(9) m started_execute_started p)
qed

definition granted_request :: tool_request where
  "granted_request = sample_tool_request\<lparr>tq_capability := ''repo.read'', tq_approval := tn_id approved_run\<rparr>"

definition granted_in :: "unit tool_db exec_in" where
  "granted_in = \<lparr>ei_draw = sample_tool_in,
    ei_between = (\<lambda>n db. if n = 4 then approved_db ''approved'' else db)\<rparr>"

lemma granted_in_between: "ei_between granted_in 0 db = db"
  by (simp add: granted_in_def)

lemma sample_continues:
  "started_processes (execute_tool (sample_executor ''interactive'') granted_in granted_request (approved_db ''approved''))
    = [sample_call]"
proof (rule execute_continues)
  let ?X = "sample_executor ''interactive''"
  show "normalize_tool_request (xi_new_request (ei_draw granted_in 0)) granted_request = Inr granted_request"
    by code_simp
  show "lookup_tool (ex_registry ?X) (tq_tool granted_request) = Some sample_registered" by code_simp
  show "evaluate_policy (tw_cwd (ex_world ?X)) (ex_policy ?X) granted_request sample_registered
      = Some (sample_rule_normal ''a'' 1 ''interactive'')" by code_simp
  have "fst (reserve_tool (ex_env ?X) (ei_draw granted_in 0) granted_request ''interactive''
      (ei_between granted_in 0 (approved_db ''approved''))) = Inr (approved_run, True)" by code_simp
  from this reserve_existing [OF this] show "reserve_tool (ex_env ?X) (ei_draw granted_in 0) granted_request ''interactive''
      (ei_between granted_in 0 (approved_db ''approved'')) = (Inr (approved_run, True), approved_db ''approved'')"
    by (metis (no_types, lifting) prod.collapse granted_in_between)
  show "approved_continuation (ei_draw granted_in 1) granted_request approved_run
      (ei_between granted_in 1 (approved_db ''approved''))" by code_simp
  show "fst (mark_started (ex_env ?X) (ei_draw granted_in 4) approved_run (approved_db ''approved''))
      = Inr (approved_run\<lparr>tn_status := ''running'', tn_attempt := 1, tn_started := Some 401\<rparr>)" by code_simp
  show "local_admit (ex_world ?X) (effective_definition sample_registered (sample_rule_normal ''a'' 1 ''interactive''))
      granted_request = Inr sample_call" by code_simp
qed (simp_all add: granted_request_def sample_tool_request_def sample_rule_normal_def sample_rule_def granted_in_def fun_eq_iff)

lemma sample_policy_mode:
  "evaluate_policy cwd (ex_policy (sample_executor mode)) q d = Some rule \<Longrightarrow> rl_mode rule = mode"
  by (auto simp: evaluate_policy_def sample_executor_def sample_rule_normal_def sample_rule_def split: if_split_asm)


definition fenced_request :: tool_request where
  "fenced_request = approved_request\<lparr>tq_task := Some \<lparr>er_id = ''7'', er_kind = ''task'', er_workspace = ''ws''\<rparr>,
    tq_owner := ''w1'', tq_fence := 1\<rparr>"

definition fenced_run :: tool_run where
  "fenced_run = new_tool_run sample_tool_env (sample_tool_in 0) fenced_request ''hash'' ''automatic''"

definition fenced_lease_row :: "int lease" where
  "fenced_lease_row = \<lparr>lease_workspace = ''ws'', lease_key = 7, lease_owner = ''w2'', lease_fence = 2,
    lease_until = 1000000, lease_acquired = 0, lease_renewed = 0, lease_released = None\<rparr>"

definition fenced_db :: "unit tool_db" where
  "fenced_db = empty_tool_db\<lparr>tool_runs := [fenced_run], task_leases := [(''ws'', 7) \<mapsto> fenced_lease_row]\<rparr>"

lemma stale_worker_records_no_tool_result_witness:
  "finish_tool sample_tool_env (sample_tool_in 3) fenced_run (denied_result fenced_run (tool_failed ''x'' ''y'' False))
    fenced_db = (Inl ToolTaskFenced, fenced_db)"
proof -
  let ?T = "task_step undefined :: time \<times> unit task_db \<Rightarrow> time \<times> unit task_db \<Rightarrow> bool"
  have w: "tn_workspace fenced_run = ''ws''" "tn_fence fenced_run = 1" "tn_status fenced_run = ''pending''"
    "tn_task fenced_run = Some \<lparr>er_id = ''7'', er_kind = ''task'', er_workspace = ''ws''\<rparr>"
    by (simp_all add: fenced_run_def new_tool_run_def fenced_request_def approved_request_def sample_tool_request_def)
  have r: "read_tool_run_tx (tn_workspace fenced_run) (tn_idempotency fenced_run) fenced_db = Inr fenced_run"
    by (simp add: read_tool_run_tx_def fenced_db_def)
  have t: "task_leases fenced_db = task_leases (task_db.truncate fenced_db)" by (simp add: task_db.defs)
  have l: "task_leases (task_db.truncate fenced_db) (tn_workspace fenced_run, 7) = Some fenced_lease_row"
    by (simp add: w task_db.defs fenced_db_def)
  have live: "\<not> is_tool_terminal (tn_status fenced_run)" unfolding w by code_simp
  have "xe_bigint sample_tool_env (er_id \<lparr>er_id = ''7'', er_kind = ''task'', er_workspace = ''ws''\<rparr>) = Some 7"
    by (simp add: sample_tool_env_def)
  moreover have "tn_fence fenced_run < lease_fence fenced_lease_row" by (simp add: w fenced_lease_row_def)
  ultimately show ?thesis
    using stale_worker_records_no_tool_result [OF rtranclp.rtrancl_refl [of ?T "(0, task_db.truncate fenced_db)"] l
        _ t r live w(4)] by blast
qed

definition sample_decision :: "string \<Rightarrow> approval_decision" where
  "sample_decision v = \<lparr>ad_approval = ''approval'', ad_workspace = ''ws'', ad_decision = v,
    ad_actor = \<lparr>ac_id = ''op'', ac_kind = [], ac_name = [], ac_workspace = []\<rparr>, ad_reason = ''fine''\<rparr>"

definition sample_decided :: approval_request where
  "sample_decided = (approval_request.truncate (sample_approval ''approved''))\<lparr>ap_decided := Some 400\<rparr>"

lemma sample_decides:
  "fst (decide_approval sample_tool_env (sample_tool_in 4) (sample_decision '' Approved'') (approved_db ''pending''))
    = Inr sample_decided"
  by code_simp

lemma approval_decided_once_witness:
  "fst (decide_approval sample_tool_env (sample_tool_in 5) (sample_decision ''denied'')
    (snd (decide_approval sample_tool_env (sample_tool_in 4) (sample_decision '' Approved'') (approved_db ''pending''))))
    = Inl ErrToolApprovalConflict"
proof -
  let ?r = "decide_approval sample_tool_env (sample_tool_in 4) (sample_decision '' Approved'') (approved_db ''pending'')"
  have "?r = (Inr sample_decided, snd ?r)" by (rule prod_eqI) (simp_all add: sample_decides)
  moreover have "to_lower (trim_space (ad_decision (sample_decision ''denied''))) = ''denied''"
    "to_lower (trim_space (ad_decision (sample_decision '' Approved''))) = ''approved''" by code_simp+
  ultimately show ?thesis
    using approval_decided_once [of sample_tool_env "sample_tool_in 4" "sample_decision '' Approved''" "approved_db ''pending''"
        sample_decided "snd ?r" "sample_decision ''denied''" sample_tool_env "sample_tool_in 5"]
    by (simp add: sample_decision_def)
qed

lemma approval_expiry_not_recorded_witness:
  "decide_approval sample_tool_env ((sample_tool_in 4)\<lparr>xi_now := 10 ^ 12\<rparr>) (sample_decision ''approved'')
    (approved_db ''pending'') = (Inl ErrToolApprovalConflict, approved_db ''pending'')"
proof (rule approval_expiry_not_recorded)
  show "read_approval_by_id (trim_space (ad_workspace (sample_decision ''approved'')))
      (trim_space (ad_approval (sample_decision ''approved''))) (approved_db ''pending'')
    = Inr (approval_request.truncate (sample_approval ''pending''))" by code_simp
  show "ap_expires (approval_request.truncate (sample_approval ''pending''))
    \<le> xi_now ((sample_tool_in 4)\<lparr>xi_now := 10 ^ 12\<rparr>)" by code_simp
  show "ap_status (approval_request.truncate (sample_approval ''pending'')) = ''pending''" by code_simp
  show "to_lower (trim_space (ad_decision (sample_decision ''approved''))) \<in> {''approved'', ''denied''}" by code_simp
  show "trim_space (ad_workspace (sample_decision ''approved'')) \<noteq> []" by code_simp
  show "trim_space (ad_approval (sample_decision ''approved'')) \<noteq> []" by code_simp
qed

end
