(* ===== verification/Agent_Contract.thy ===== *)
theory Agent_Contract
  imports Tool_Contract Retrieval Fencing
begin

text \<open>
  \<open>internal/contracts/agent.go\<close> and \<open>internal/contracts/scheduler.go\<close>: agent runs, their
  budgets, the request that reserves one, checkpoints, and the worker lease of a run.

  The digests of marshalled values are functions on those values; the snapshot drops the same
  fields the code's anonymous structs drop.  \<open>'a option\<close> is a pointer.
\<close>

section \<open>Budgets\<close>

datatype agent_contract_error =
  AgentInvalid string
| AgentModelInvalid model_error
| AgentRetrievalInvalid retrieval_error

definition agent_schema_version :: int where
  "agent_schema_version = 1"

definition max_agent_goal_bytes :: int where
  "max_agent_goal_bytes = 64 * 2 ^ 10"

definition max_agent_history_messages :: int where
  "max_agent_history_messages = 256"

definition max_agent_history_bytes :: int where
  "max_agent_history_bytes = 4 * 2 ^ 20"

definition max_agent_pending_tools :: int where
  "max_agent_pending_tools = 64"

record agent_budget =
  ab_turns :: int
  ab_model_steps :: int
  ab_tool_calls :: int
  ab_context_bytes :: int
  ab_output_tokens :: int
  ab_wall_ms :: int
  ab_cost :: rat
  ab_tool_attempts :: int

definition default_agent_budget :: agent_budget where
  "default_agent_budget = \<lparr>ab_turns = 8, ab_model_steps = 32, ab_tool_calls = 64, ab_context_bytes = 4 * 2 ^ 20,
    ab_output_tokens = 32768, ab_wall_ms = 1800000, ab_cost = 10, ab_tool_attempts = 3\<rparr>"

definition agent_budget_defaults :: "agent_budget \<Rightarrow> agent_budget" where
  "agent_budget_defaults b =
    \<lparr>ab_turns = default_if_zero (ab_turns default_agent_budget) (ab_turns b),
     ab_model_steps = default_if_zero (ab_model_steps default_agent_budget) (ab_model_steps b),
     ab_tool_calls = default_if_zero (ab_tool_calls default_agent_budget) (ab_tool_calls b),
     ab_context_bytes = default_if_zero (ab_context_bytes default_agent_budget) (ab_context_bytes b),
     ab_output_tokens = default_if_zero (ab_output_tokens default_agent_budget) (ab_output_tokens b),
     ab_wall_ms = default_if_zero (ab_wall_ms default_agent_budget) (ab_wall_ms b),
     ab_cost = (if ab_cost b = 0 then ab_cost default_agent_budget else ab_cost b),
     ab_tool_attempts = default_if_zero (ab_tool_attempts default_agent_budget) (ab_tool_attempts b)\<rparr>"

definition agent_budget_bounded :: "agent_budget \<Rightarrow> bool" where
  "agent_budget_bounded b \<longleftrightarrow>
    \<not> (ab_turns b < 1 \<or> ab_turns b > 100 \<or> ab_model_steps b < 1 \<or> ab_model_steps b > 500 \<or>
      ab_tool_calls b < 1 \<or> ab_tool_calls b > 1000 \<or>
      ab_context_bytes b < 1 \<or> ab_context_bytes b > max_agent_history_bytes \<or>
      ab_output_tokens b < 1 \<or> ab_output_tokens b > 2 ^ 20 \<or>
      ab_wall_ms b < 1 \<or> ms_duration (ab_wall_ms b) > 86400 * second \<or>
      ab_cost b < 0 \<or> ab_cost b > 1000000 \<or> ab_tool_attempts b < 1 \<or> ab_tool_attempts b > 10)"

definition normalize_agent_budget :: "agent_budget \<Rightarrow> agent_contract_error + agent_budget" where
  "normalize_agent_budget b0 =
    (let b = agent_budget_defaults b0 in
      if \<not> agent_budget_bounded b then Inl (AgentInvalid ''agent budget is outside supported bounds'') else Inr b)"

section \<open>Requests\<close>

record agent_run_request =
  aq_schema_version :: int
  aq_run_id :: string
  aq_request_id :: string
  aq_idempotency :: string
  aq_causation :: string
  aq_correlation :: string
  aq_workspace :: string
  aq_actor :: actor_ref
  aq_task :: "entity_ref option"
  aq_session :: "entity_ref option"
  aq_task_owner :: string
  aq_task_fence :: int
  aq_goal :: string
  aq_provider :: provider_ref
  aq_tools :: "model_tool_definition list"
  aq_retrieval :: "retrieval_request option"
  aq_budget :: agent_budget
  aq_metadata :: "(string \<times> string) list"

definition normalize_agent_provider :: "provider_ref \<Rightarrow> agent_contract_error + provider_ref" where
  "normalize_agent_provider p0 =
    (let p = \<lparr>pf_provider = to_lower (trim_space (pf_provider p0)), pf_endpoint = trim_space (pf_endpoint p0),
        pf_model = trim_space (pf_model p0)\<rparr> in
      if pf_provider p = [] then Inl (AgentInvalid ''provider.provider is required'') else Inr p)"

definition normalize_agent_retrieval ::
    "string \<Rightarrow> retrieval_request option \<Rightarrow> agent_contract_error + retrieval_request option" where
  "normalize_agent_retrieval workspace r =
    (case r of
      None \<Rightarrow> Inr None
    | Some q0 \<Rightarrow> bindE (liftE AgentRetrievalInvalid (normalize_retrieval q0)) (\<lambda>q.
        if rt_workspace q \<noteq> workspace then Inl (AgentInvalid ''retrieval workspace_id must match agent workspace_id'')
        else Inr (Some q)))"

definition agent_request_defaults :: "string \<Rightarrow> string \<Rightarrow> agent_run_request \<Rightarrow> agent_run_request" where
  "agent_request_defaults new_run new_request r0 =
    (let rid = trim_space (aq_run_id r0); qid = trim_space (aq_request_id r0) in
    r0\<lparr>aq_schema_version := default_if_zero agent_schema_version (aq_schema_version r0),
      aq_run_id := (if rid = [] then new_run else rid), aq_request_id := (if qid = [] then new_request else qid),
      aq_idempotency := trim_space (aq_idempotency r0), aq_workspace := trim_space (aq_workspace r0),
      aq_goal := trim_space (aq_goal r0)\<rparr>)"

definition normalize_agent_request ::
    "string \<Rightarrow> string \<Rightarrow> agent_run_request \<Rightarrow> agent_contract_error + agent_run_request" where
  "normalize_agent_request new_run new_request r0 =
    (let r = agent_request_defaults new_run new_request r0 in
    if aq_schema_version r \<noteq> agent_schema_version then Inl (AgentInvalid ''unsupported agent schema_version'')
    else if aq_idempotency r = [] then Inl (AgentInvalid ''idempotency_key is required'')
    else if len (aq_idempotency r) > max_idempotency_length then Inl (AgentInvalid ''idempotency_key is too large'')
    else if aq_workspace r = [] then Inl (AgentInvalid ''workspace_id is required'')
    else if aq_goal r0 = [] \<or> len (aq_goal r0) > max_agent_goal_bytes then Inl (AgentInvalid ''goal bounds'')
    else if aq_goal r = [] then Inl (AgentInvalid ''goal is required'')
    else bindE (normalize_agent_provider (aq_provider r)) (\<lambda>p.
    bindE (liftE AgentModelInvalid (validate_model_entity_ref ''task'' (aq_workspace r) (aq_task r))) (\<lambda>task.
    bindE (liftE AgentModelInvalid (validate_model_entity_ref ''session'' (aq_workspace r) (aq_session r))) (\<lambda>session.
    if task \<noteq> None \<and> (trim_space (aq_task_owner r) = [] \<or> aq_task_fence r = 0)
    then Inl (AgentInvalid ''task-bound runs require task_owner_id and task_fence'')
    else bindE (normalize_agent_budget (aq_budget r)) (\<lambda>budget.
    bindE (liftE AgentModelInvalid (mapE normalize_tool_definition (aq_tools r))) (\<lambda>tools.
    if len tools > max_agent_pending_tools then Inl (AgentInvalid ''too many agent tools'')
    else bindE (normalize_agent_retrieval (aq_workspace r) (aq_retrieval r)) (\<lambda>retrieval.
    if len (aq_metadata r) > max_model_metadata_entries then Inl (AgentInvalid ''metadata is too large'')
    else Inr (r\<lparr>aq_provider := p, aq_task := task, aq_session := session, aq_budget := budget, aq_tools := tools,
      aq_retrieval := retrieval\<rparr>))))))))"

text \<open>What \<open>RequestHash\<close> digests.\<close>

definition agent_request_content :: "agent_run_request \<Rightarrow> agent_run_request" where
  "agent_request_content r = r\<lparr>aq_run_id := [], aq_request_id := [], aq_idempotency := [], aq_causation := [],
    aq_correlation := []\<rparr>"

section \<open>Runs\<close>

record loop_failure =
  lf_code :: string
  lf_message :: string
  lf_phase :: string
  lf_retryable :: bool
  lf_content :: bool
  lf_attempt :: int

definition normalize_loop_failure :: "loop_failure \<Rightarrow> agent_contract_error + loop_failure" where
  "normalize_loop_failure f0 =
    (let f = f0\<lparr>lf_code := trim_space (lf_code f0), lf_message := trim_space (lf_message f0),
        lf_phase := trim_space (lf_phase f0)\<rparr> in
      if lf_code f = [] \<or> lf_message f = [] then Inl (AgentInvalid ''loop failure code and message are required'')
      else Inr f)"

record pending_tool_call =
  pt_id :: string
  pt_tool :: string
  pt_arguments :: string
  pt_attempt :: int
  pt_approval :: string
  pt_failure :: "loop_failure option"

record model_step =
  st_id :: string
  st_request_id :: string
  st_idempotency :: string
  st_attempt :: int
  st_provider :: provider_ref
  st_response :: "model_response option"
  st_usage :: model_usage
  st_cost :: model_cost
  st_content :: bool
  st_started :: time
  st_finished :: time

record tool_step =
  ts_id :: string
  ts_tool :: string
  ts_request_id :: string
  ts_idempotency :: string
  ts_attempt :: int
  ts_status :: string
  ts_approval :: string
  ts_result :: "tool_result option"
  ts_started :: time
  ts_finished :: time

record agent_run =
  ag_id :: string
  ag_workspace :: string
  ag_request_id :: string
  ag_idempotency :: string
  ag_request_hash :: string
  ag_schema_version :: int
  ag_causation :: string
  ag_correlation :: string
  ag_actor :: actor_ref
  ag_task :: "entity_ref option"
  ag_session :: "entity_ref option"
  ag_task_owner :: string
  ag_task_fence :: int
  ag_goal :: string
  ag_provider :: provider_ref
  ag_tools :: "model_tool_definition list"
  ag_retrieval :: "retrieval_request option"
  ag_metadata :: "(string \<times> string) list"
  ag_budget :: agent_budget
  ag_context_hash :: string
  ag_state :: string
  ag_phase :: string
  ag_turn :: int
  ag_step :: int
  ag_model_attempts :: int
  ag_model_calls :: int
  ag_tool_calls :: int
  ag_input_tokens :: int
  ag_output_tokens :: int
  ag_total_tokens :: int
  ag_context_bytes :: int
  ag_cost :: model_cost
  ag_history :: "model_message list"
  ag_pending :: "pending_tool_call list"
  ag_last_output :: string
  ag_output_artifact :: "int option"
  ag_history_artifact :: "int option"
  ag_last_failure :: "loop_failure option"
  ag_termination :: string
  ag_next_retry :: "time option"
  ag_version :: int
  ag_sequence :: int
  ag_state_hash :: string
  ag_created :: time
  ag_updated :: time
  ag_started :: "time option"
  ag_finished :: "time option"

record agent_run_summary =
  as_id :: string
  as_workspace :: string
  as_state :: string
  as_phase :: string
  as_turn :: int
  as_step :: int
  as_context_hash :: string
  as_termination :: string
  as_state_hash :: string
  as_created :: time
  as_updated :: time
  as_finished :: "time option"

record loop_state =
  ls_run :: string
  ls_workspace :: string
  ls_state :: string
  ls_phase :: string
  ls_turn :: int
  ls_step :: int
  ls_context_hash :: string
  ls_pending :: "pending_tool_call list"
  ls_termination :: string
  ls_next_retry :: "time option"

record loop_checkpoint =
  lc_run :: string
  lc_version :: int
  lc_sequence :: int
  lc_state :: loop_state
  lc_state_hash :: string
  lc_history_hash :: string
  lc_committed :: time

record agent_state_content =
  ac_state :: loop_state
  ac_history :: "model_message list"
  ac_output :: string
  ac_tokens :: int
  ac_cost :: model_cost

definition state_snapshot :: "agent_run \<Rightarrow> loop_state" where
  "state_snapshot r = \<lparr>ls_run = ag_id r, ls_workspace = ag_workspace r, ls_state = ag_state r,
    ls_phase = ag_phase r, ls_turn = ag_turn r, ls_step = ag_step r, ls_context_hash = ag_context_hash r,
    ls_pending = ag_pending r, ls_termination = ag_termination r, ls_next_retry = ag_next_retry r\<rparr>"

text \<open>What \<open>ComputeStateHash\<close> digests: the snapshot without the retry instant, and the rest.\<close>

definition state_content :: "agent_run \<Rightarrow> agent_state_content" where
  "state_content r = \<lparr>ac_state = (state_snapshot r)\<lparr>ls_next_retry := None\<rparr>, ac_history = ag_history r,
    ac_output = ag_last_output r, ac_tokens = ag_total_tokens r, ac_cost = ag_cost r\<rparr>"

definition run_checkpoint :: "(model_message list \<Rightarrow> string) \<Rightarrow> agent_run \<Rightarrow> loop_checkpoint" where
  "run_checkpoint history_hash r = \<lparr>lc_run = ag_id r, lc_version = ag_version r, lc_sequence = ag_sequence r,
    lc_state = state_snapshot r, lc_state_hash = ag_state_hash r, lc_history_hash = history_hash (ag_history r),
    lc_committed = ag_updated r\<rparr>"

definition terminal_run_states :: "string list" where
  "terminal_run_states = [''succeeded'', ''failed'', ''cancelled'', ''deadletter'']"

definition is_agent_terminal :: "string \<Rightarrow> bool" where
  "is_agent_terminal state \<longleftrightarrow> trim_space state \<in> set terminal_run_states"

section \<open>Worker leases\<close>

text \<open>A lease handed to a worker: the row and its renewal hint.\<close>

record agent_run_lease = "string lease" +
  arl_ttl_ms :: int

record agent_run_claim =
  acl_run :: agent_run
  acl_lease :: agent_run_lease
  acl_takeover :: bool

definition default_agent_run_lease_ttl :: duration where
  "default_agent_run_lease_ttl = 30 * second"

definition max_agent_run_lease_ttl :: duration where
  "max_agent_run_lease_ttl = 600 * second"

definition normalize_agent_run_lease_ttl :: "duration \<Rightarrow> duration" where
  "normalize_agent_run_lease_ttl ttl0 =
    (let ttl1 = (if ttl0 \<le> 0 then default_agent_run_lease_ttl else ttl0);
         ttl2 = (if ttl1 > max_agent_run_lease_ttl then max_agent_run_lease_ttl else ttl1)
     in if ttl2 < millisecond then millisecond else ttl2)"

definition validate_agent_run_lease_identity :: "string \<Rightarrow> string \<Rightarrow> string \<Rightarrow> agent_contract_error + unit" where
  "validate_agent_run_lease_identity workspace run owner =
    bindE (guardE (trim_space workspace \<noteq> []) (AgentInvalid ''workspace_id is required'')) (\<lambda>_.
    bindE (guardE (trim_space run \<noteq> []) (AgentInvalid ''run_id is required'')) (\<lambda>_.
    guardE (trim_space owner \<noteq> []) (AgentInvalid ''owner_id is required'')))"

definition agent_run_lease_active_at :: "agent_run_lease \<Rightarrow> time \<Rightarrow> bool" where
  "agent_run_lease_active_at l now \<longleftrightarrow>
    trim_space (lease_workspace l) \<noteq> [] \<and> trim_space (lease_key l) \<noteq> [] \<and> trim_space (lease_owner l) \<noteq> [] \<and>
    lease_fence l > 0 \<and> lease_released l = None \<and> lease_until l > now"

section \<open>Facts\<close>

lemma agent_lease_ttl_range:
  "millisecond \<le> normalize_agent_run_lease_ttl ttl \<and> normalize_agent_run_lease_ttl ttl \<le> max_agent_run_lease_ttl"
  by (simp add: normalize_agent_run_lease_ttl_def Let_def default_agent_run_lease_ttl_def
      max_agent_run_lease_ttl_def millisecond_def second_def)

lemma agent_identity_ok [results]:
  "validate_agent_run_lease_identity w r own = Inr u \<longleftrightarrow>
    trim_space w \<noteq> [] \<and> trim_space r \<noteq> [] \<and> trim_space own \<noteq> []"
  by (auto simp: validate_agent_run_lease_identity_def results)

lemma normalize_agent_request_ids:
  assumes "normalize_agent_request nr nq q = Inr q'" and "trim_space nr = nr"
  shows "trim_space (aq_run_id q') = aq_run_id q'" and "trim_space (aq_workspace q') = aq_workspace q'"
proof -
  have "aq_run_id q' = aq_run_id (agent_request_defaults nr nq q) \<and>
      aq_workspace q' = aq_workspace (agent_request_defaults nr nq q)"
    using assms(1) unfolding normalize_agent_request_def Let_def
    by (elim if_InlE bindE_InrE) (simp only: sum.inject, hypsubst, simp)
  then show "trim_space (aq_run_id q') = aq_run_id q'" and "trim_space (aq_workspace q') = aq_workspace q'"
    using assms(2) by (simp_all add: agent_request_defaults_def Let_def)
qed

lemma normalize_agent_budget_bounds:
  assumes "normalize_agent_budget b0 = Inr b"
  shows "agent_budget_bounded b"
  using assms by (auto simp: normalize_agent_budget_def Let_def split: if_splits)

text \<open>The wall-clock product wraps: a budget of \<open>2^58\<close> milliseconds counts as no time at all
  and passes the bound of 24 hours.\<close>

lemma agent_budget_wall_overflow:
  "normalize_agent_budget (default_agent_budget\<lparr>ab_wall_ms := 2 ^ 58\<rparr>) = Inr (default_agent_budget\<lparr>ab_wall_ms := 2 ^ 58\<rparr>)"
  by code_simp

end
