(* ===== verification/Agent_Store.thy ===== *)
theory Agent_Store
  imports Agent_Contract Tool_Store
begin

text \<open>
  \<open>internal/store/agent_runs.go\<close> and \<open>internal/store/agent_run_scheduler.go\<close>: the durable
  checkpoints of the agent loop and the worker leases of runs.

  \<open>agent_db\<close> adds the tables agent_runs and agent_run_worker_leases.  An \<open>agent_row\<close> holds the
  columns a read returns and the four the scheduler uses; a history or an output moved to an
  artifact leaves its inline column without it, and \<open>hydrate_agent_run\<close> reads it back.  Each public
  operation is one transaction; the task fence that \<open>commit\<close> also checks before its transaction
  sees the same state.  \<open>agent_env\<close> adds to the environment of the tool store the digests and JSON
  codecs of runs, and the reference and the verified bytes of an artifact.  The test seams are not modelled.
\<close>

section \<open>Tables and environment\<close>

datatype agent_error =
  ErrAgentRunMissing
| ErrAgentRunConflict
| ErrAgentRunTerminal
| ErrAgentRunStale
| AgentNoRows
| AgentFenceQueryFailed
| AgentRejected agent_contract_error
| AgentIdempotencyConflict
| AgentEventFailed store_error
| AgentStoreInvalid string
| AgentInsertFailed
| AgentUpdateFailed
| AgentArtifactFailed string
| AgentObserveFailed string
| ErrAgentRunLeaseMissing
| ErrAgentRunLeaseOwned
| ErrAgentRunLeaseFenced
| ErrAgentRunLeaseExpired
| ErrAgentRunLeaseReleased
| ErrAgentRunFenceExhausted
| AgentAcquisitionFailed

record agent_row =
  ro_run :: agent_run
  ro_priority :: int
  ro_scheduled :: time
  ro_attempts :: int
  ro_worker :: string

record 'x agent_db = "'x tool_db" +
  agent_rows :: "agent_row list"
  run_leases :: "string lease_table"

datatype agent_value =
  AgText string
| AgInt int
| AgFlag bool
| AgProvider provider_ref
| AgFailure loop_failure
| AgCalls "model_tool_call list"
| AgModelStep model_step
| AgToolStep tool_step

type_synonym agent_payload = "(string \<times> agent_value) list"

record 'x agent_env =
  ae_tools :: "'x tool_env"
  ae_request_digest :: "agent_run_request \<Rightarrow> string"
  ae_state_digest :: "agent_state_content \<Rightarrow> string"
  ae_history_digest :: "model_message list \<Rightarrow> string"
  ae_history_json :: "model_message list \<Rightarrow> string"
  ae_history_decode :: "string \<Rightarrow> model_message list option"
  ae_pending_json :: "pending_tool_call list \<Rightarrow> string"
  ae_payload :: "agent_run \<Rightarrow> loop_checkpoint \<Rightarrow> agent_payload \<Rightarrow> string"
  ae_payload_run :: "string \<Rightarrow> string option"
  ae_payload_checkpoint :: "string \<Rightarrow> (string \<times> loop_checkpoint) option"
  ae_artifact_text :: "string \<Rightarrow> int \<Rightarrow> string \<Rightarrow> 'x \<Rightarrow> string + string"
  ae_artifact_link :: "string \<Rightarrow> int \<Rightarrow> string \<Rightarrow> 'x \<Rightarrow> string + unit"

record agent_in =
  ai_now :: time
  ai_clock :: "nat \<Rightarrow> time"
  ai_io :: io
  ai_new_run :: string
  ai_new_request :: string
  ai_locked :: "string \<times> string \<Rightarrow> bool"

definition compute_state_hash :: "'x agent_env \<Rightarrow> agent_run \<Rightarrow> string" where
  "compute_state_hash E r = ae_state_digest E (state_content r)"

definition checkpoint_of :: "'x agent_env \<Rightarrow> agent_run \<Rightarrow> loop_checkpoint" where
  "checkpoint_of E r = run_checkpoint (ae_history_digest E) r"

definition update_agent_row ::
    "string \<Rightarrow> string \<Rightarrow> (agent_row \<Rightarrow> agent_row) \<Rightarrow> ('x, 'z) agent_db_scheme \<Rightarrow> ('x, 'z) agent_db_scheme" where
  "update_agent_row workspace rid f db =
    db\<lparr>agent_rows := map (\<lambda>r. if ag_workspace (ro_run r) = workspace \<and> ag_id (ro_run r) = rid then f r else r)
      (agent_rows db)\<rparr>"

section \<open>Reads\<close>

definition scan_agent_run :: "agent_row \<Rightarrow> agent_error + agent_run" where
  "scan_agent_run row =
    (if ag_task_fence (ro_run row) < 0 \<or> ag_sequence (ro_run row) < 0
     then Inl (AgentStoreInvalid ''agent run numeric state is invalid'') else Inr (ro_run row))"

definition hydrate_agent_run :: "'x agent_env \<Rightarrow> 'x \<Rightarrow> agent_run \<Rightarrow> agent_error + agent_run" where
  "hydrate_agent_run E ev r =
    bindE (case ag_output_artifact r of
        None \<Rightarrow> Inr r
      | Some a \<Rightarrow> bindE (liftE AgentArtifactFailed (ae_artifact_text E (ag_workspace r) a ''last_output'' ev)) (\<lambda>raw.
          Inr (r\<lparr>ag_last_output := raw\<rparr>))) (\<lambda>r1.
    case ag_history_artifact r1 of
      None \<Rightarrow> Inr r1
    | Some a \<Rightarrow> bindE (liftE AgentArtifactFailed (ae_artifact_text E (ag_workspace r1) a ''history'' ev)) (\<lambda>raw.
        case ae_history_decode E raw of
          None \<Rightarrow> Inl (AgentStoreInvalid ''decode agent history artifact'')
        | Some h \<Rightarrow> Inr (r1\<lparr>ag_history := h\<rparr>)))"

definition find_agent_row :: "string \<Rightarrow> string \<Rightarrow> ('x, 'z) agent_db_scheme \<Rightarrow> agent_row option" where
  "find_agent_row workspace rid db =
    find (\<lambda>r. ag_workspace (ro_run r) = workspace \<and> ag_id (ro_run r) = rid) (agent_rows db)"

definition read_agent_run ::
    "'x agent_env \<Rightarrow> string \<Rightarrow> string \<Rightarrow> ('x, 'z) agent_db_scheme \<Rightarrow> agent_error + agent_run" where
  "read_agent_run E workspace rid db =
    (case find_agent_row workspace rid db of
      None \<Rightarrow> Inl AgentNoRows
    | Some row \<Rightarrow> bindE (scan_agent_run row) (hydrate_agent_run E (evidence_tables db)))"

definition read_agent_run_by_idempotency_tx ::
    "'x agent_env \<Rightarrow> string \<Rightarrow> string \<Rightarrow> ('x, 'z) agent_db_scheme \<Rightarrow> agent_error + agent_run" where
  "read_agent_run_by_idempotency_tx E workspace key db =
    (case find (\<lambda>r. ag_workspace (ro_run r) = workspace \<and> ag_idempotency (ro_run r) = key) (agent_rows db) of
      None \<Rightarrow> Inl AgentNoRows
    | Some row \<Rightarrow> bindE (scan_agent_run row) (hydrate_agent_run E (evidence_tables db)))"

definition get_agent_run ::
    "'x agent_env \<Rightarrow> string \<Rightarrow> string \<Rightarrow> ('x, 'z) agent_db_scheme \<Rightarrow> agent_error + agent_run" where
  "get_agent_run E workspace rid db =
    (case read_agent_run E (trim_space workspace) (trim_space rid) db of
      Inl AgentNoRows \<Rightarrow> Inl ErrAgentRunMissing
    | r \<Rightarrow> r)"

definition summary_of :: "agent_run \<Rightarrow> agent_run_summary" where
  "summary_of r = \<lparr>as_id = ag_id r, as_workspace = ag_workspace r, as_state = ag_state r, as_phase = ag_phase r,
    as_turn = ag_turn r, as_step = ag_step r, as_context_hash = ag_context_hash r,
    as_termination = ag_termination r, as_state_hash = ag_state_hash r, as_created = ag_created r,
    as_updated = ag_updated r, as_finished = ag_finished r\<rparr>"

definition list_agent_runs ::
    "string \<Rightarrow> int \<Rightarrow> ('x, 'z) agent_db_scheme \<Rightarrow> agent_error + agent_run_summary list" where
  "list_agent_runs workspace0 limit0 db =
    (let workspace = trim_space workspace0; limit = (if limit0 \<le> 0 \<or> limit0 > 500 then 200 else limit0) in
    if workspace = [] then Inl (AgentStoreInvalid ''agent run workspace is required'')
    else Inr (take (nat limit) (rev (sort_key as_created (sort_key as_id (map summary_of
      (filter (\<lambda>r. ag_workspace r = workspace) (map ro_run (agent_rows db)))))))))"

section \<open>Task fences\<close>

text \<open>The join of the unreleased, unexpired lease with its task: owner, fence and assignee.\<close>

definition live_task_lease ::
    "time \<Rightarrow> string \<Rightarrow> int \<Rightarrow> ('x, 'z) task_db_scheme \<Rightarrow> (string \<times> int \<times> string option) option" where
  "live_task_lease now workspace tid db =
    (case task_leases db (workspace, tid) of
      None \<Rightarrow> None
    | Some l \<Rightarrow>
        if \<not> lease_active now l then None
        else map_option (\<lambda>t. (lease_owner l, lease_fence l, tk_assigned t)) (find_task workspace tid db))"

definition validate_task_fence ::
    "time \<Rightarrow> agent_run \<Rightarrow> ('x, 'z) task_db_scheme \<Rightarrow> agent_error + unit" where
  "validate_task_fence now r db =
    (case ag_task r of
      None \<Rightarrow> Inr ()
    | Some t \<Rightarrow>
        if trim_space (ag_task_owner r) = [] \<or> ag_task_fence r = 0 then Inl ErrAgentRunStale
        else case parse_int64 (trim_space (er_id t)) of
          None \<Rightarrow> Inl ErrAgentRunStale
        | Some tid \<Rightarrow>
            (case live_task_lease now (ag_workspace r) tid db of
              None \<Rightarrow> Inl ErrAgentRunStale
            | Some (owner, fence, assigned) \<Rightarrow>
                if fence \<le> 0 \<or> fence \<noteq> ag_task_fence r \<or> owner \<noteq> trim_space (ag_task_owner r) \<or>
                  assigned \<noteq> Some (trim_space (ag_task_owner r))
                then Inl ErrAgentRunStale else Inr ()))"

text \<open>Inside the transaction a missing row is reported as a failed query.\<close>

definition validate_run_task_fence_tx ::
    "time \<Rightarrow> agent_run \<Rightarrow> ('x, 'z) task_db_scheme \<Rightarrow> agent_error + unit" where
  "validate_run_task_fence_tx now r db =
    (case ag_task r of
      None \<Rightarrow> Inr ()
    | Some t \<Rightarrow>
        (case parse_int64 (trim_space (er_id t)) of
          None \<Rightarrow> Inl ErrAgentRunStale
        | Some tid \<Rightarrow>
            (case live_task_lease now (ag_workspace r) tid db of
              None \<Rightarrow> Inl AgentFenceQueryFailed
            | Some (owner, fence, assigned) \<Rightarrow>
                if fence \<noteq> ag_task_fence r \<or> owner \<noteq> ag_task_owner r \<or> assigned \<noteq> Some (ag_task_owner r)
                then Inl ErrAgentRunStale else Inr ())))"

section \<open>Events\<close>

definition agent_event ::
    "'x agent_env \<Rightarrow> io \<Rightarrow> string \<Rightarrow> agent_run \<Rightarrow> agent_payload \<Rightarrow> agent_error + event" where
  "agent_event E i etype r payload =
    bindE (liftE (AgentEventFailed \<circ> EventRejected)
      (new_event (io_new_id i) (io_now i) etype (Some (ae_payload E r (checkpoint_of E r) payload)))) (\<lambda>e.
    let delta = (\<lambda>field v. \<lparr>sd_op = ''set'', sd_path = ''/agent_runs/'' @ ag_id r @ ''/'' @ field,
        sd_value = json_quote v, sd_evidence = []\<rparr>) in
    Inr (e\<lparr>ev_scope := (ev_scope e)\<lparr>sc_workspace := ag_workspace r\<rparr>, ev_actor := ag_actor r, ev_task := ag_task r,
      ev_session := ag_session r, ev_causation := ag_causation r, ev_correlation := ag_correlation r,
      ev_idempotency := ''agent:'' @ ag_id r @ '':v:'' @ show_int (ag_version r),
      ev_deltas := [delta ''state'' (ag_state r), delta ''phase'' (ag_phase r)]\<rparr>))"

definition append_agent_event ::
    "'x agent_env \<Rightarrow> io \<Rightarrow> string \<Rightarrow> agent_run \<Rightarrow> agent_payload \<Rightarrow> ('x, 'z) agent_db_scheme \<Rightarrow>
      agent_error + event \<times> ('x, 'z) agent_db_scheme" where
  "append_agent_event E i etype r payload db =
    bindE (agent_event E i etype r payload) (\<lambda>e.
    bindE (liftE AgentEventFailed (append_tx (xe_events (ae_tools E)) i e db)) (\<lambda>((x, _), db'). Inr (x, db')))"

definition observe_agent_tx ::
    "'x agent_env \<Rightarrow> string \<Rightarrow> ('x, 'z) agent_db_scheme \<Rightarrow> agent_error + ('x, 'z) agent_db_scheme" where
  "observe_agent_tx E label db =
    bindE (liftE AgentObserveFailed (xe_observe (ae_tools E) label (evidence_tables db))) (\<lambda>ev.
    Inr (db\<lparr>evidence_tables := ev\<rparr>))"

section \<open>Reserve\<close>

definition no_cost :: model_cost where
  "no_cost = \<lparr>mk_currency = [], mk_input = 0, mk_output = 0, mk_total = 0, mk_source = []\<rparr>"

definition user_message :: "string \<Rightarrow> model_message" where
  "user_message goal = \<lparr>mm_role = ''user'', mm_content = goal, mm_name = [], mm_tool_call = [], mm_calls = []\<rparr>"

definition new_agent_run :: "'x agent_env \<Rightarrow> time \<Rightarrow> agent_run_request \<Rightarrow> string \<Rightarrow> agent_run" where
  "new_agent_run E now q hash =
    (let r = \<lparr>ag_id = aq_run_id q, ag_workspace = aq_workspace q, ag_request_id = aq_request_id q,
       ag_idempotency = aq_idempotency q, ag_request_hash = hash, ag_schema_version = aq_schema_version q,
       ag_causation = aq_causation q, ag_correlation = aq_correlation q, ag_actor = aq_actor q,
       ag_task = aq_task q, ag_session = aq_session q, ag_task_owner = aq_task_owner q,
       ag_task_fence = aq_task_fence q, ag_goal = aq_goal q, ag_provider = aq_provider q, ag_tools = aq_tools q,
       ag_retrieval = aq_retrieval q, ag_metadata = aq_metadata q, ag_budget = aq_budget q,
       ag_context_hash = [], ag_state = ''pending'', ag_phase = ''model'', ag_turn = 0, ag_step = 0,
       ag_model_attempts = 0, ag_model_calls = 0, ag_tool_calls = 0, ag_input_tokens = 0, ag_output_tokens = 0,
       ag_total_tokens = 0, ag_context_bytes = 0, ag_cost = no_cost, ag_history = [user_message (aq_goal q)],
       ag_pending = [], ag_last_output = [], ag_output_artifact = None, ag_history_artifact = None,
       ag_last_failure = None, ag_termination = [], ag_next_retry = None, ag_version = 1, ag_sequence = 0,
       ag_state_hash = [], ag_created = now, ag_updated = now, ag_started = None, ag_finished = None\<rparr> in
    r\<lparr>ag_state_hash := compute_state_hash E r\<rparr>)"

text \<open>The inserted row: its instants are the database's, its other columns default.\<close>

definition new_agent_row :: "agent_in \<Rightarrow> agent_run \<Rightarrow> agent_row" where
  "new_agent_row i r = \<lparr>ro_run = r\<lparr>ag_created := ai_clock i 0, ag_updated := ai_clock i 0\<rparr>,
    ro_priority = 0, ro_scheduled = ai_clock i 0, ro_attempts = 0, ro_worker = []\<rparr>"

definition reserve_agent_tx ::
    "'x agent_env \<Rightarrow> agent_in \<Rightarrow> agent_run_request \<Rightarrow> ('x, 'z) agent_db_scheme \<Rightarrow>
      agent_error + (agent_run \<times> bool) \<times> ('x, 'z) agent_db_scheme" where
  "reserve_agent_tx E i q0 db =
    bindE (liftE AgentRejected (normalize_agent_request (ai_new_run i) (ai_new_request i) q0)) (\<lambda>q.
    let hash = ae_request_digest E (agent_request_content q); run = new_agent_run E (ai_now i) q hash in
    if list_ex (\<lambda>r. ag_workspace (ro_run r) = aq_workspace q \<and> ag_idempotency (ro_run r) = aq_idempotency q)
      (agent_rows db)
    then bindE (read_agent_run_by_idempotency_tx E (aq_workspace q) (aq_idempotency q) db) (\<lambda>existing.
      if ag_request_hash existing \<noteq> hash then Inl AgentIdempotencyConflict else Inr ((existing, True), db))
    else if hash = [] \<or> list_ex (\<lambda>r. ag_id (ro_run r) = ag_id run) (agent_rows db) then Inl AgentInsertFailed
    else
      let db1 = db\<lparr>agent_rows := agent_rows db @ [new_agent_row i run]\<rparr> in
      bindE (append_agent_event E (ai_io i) ''agent.created'' run
        [(''run_id'', AgText (ag_id run)), (''goal'', AgText (ag_goal run)), (''provider'', AgProvider (ag_provider run)),
         (''state'', AgText (ag_state run))] db1) (\<lambda>(e, db2).
      Inr ((run\<lparr>ag_sequence := ev_sequence e\<rparr>, False),
        update_agent_row (ag_workspace run) (ag_id run)
          (\<lambda>r. r\<lparr>ro_run := (ro_run r)\<lparr>ag_sequence := ev_sequence e, ag_updated := ai_clock i 0\<rparr>\<rparr>) db2)))"

definition reserve_agent ::
    "'x agent_env \<Rightarrow> agent_in \<Rightarrow> agent_run_request \<Rightarrow> ('x, 'z) agent_db_scheme \<Rightarrow>
      (agent_error + agent_run \<times> bool) \<times> ('x, 'z) agent_db_scheme" where
  "reserve_agent E i q = in_tx (reserve_agent_tx E i q)"

section \<open>Worker leases\<close>

definition read_agent_run_lease_tx ::
    "time \<Rightarrow> string \<Rightarrow> string \<Rightarrow> ('x, 'z) agent_db_scheme \<Rightarrow> agent_error + string lease \<times> bool" where
  "read_agent_run_lease_tx now workspace rid db =
    (case run_leases db (trim_space workspace, trim_space rid) of
      None \<Rightarrow> Inl ErrAgentRunLeaseMissing
    | Some l \<Rightarrow>
        if lease_fence l \<le> 0 then Inl (AgentStoreInvalid ''agent run worker lease has invalid fence'')
        else Inr (l, lease_active now l))"

text \<open>The read outside a transaction takes its identities as they are.\<close>

definition read_agent_run_lease ::
    "time \<Rightarrow> string \<Rightarrow> string \<Rightarrow> ('x, 'z) agent_db_scheme \<Rightarrow> agent_error + string lease \<times> bool" where
  "read_agent_run_lease now workspace rid db =
    (case run_leases db (workspace, rid) of
      None \<Rightarrow> Inl ErrAgentRunLeaseMissing
    | Some l \<Rightarrow>
        if lease_fence l \<le> 0 then Inl (AgentStoreInvalid ''agent run worker lease has invalid fence'')
        else Inr (l, lease_active now l))"

definition check_lease_row ::
    "(string, 'a) lease_scheme \<Rightarrow> string lease \<times> bool \<Rightarrow> agent_error + string lease" where
  "check_lease_row l found =
    (let (current, active) = found in
    if lease_fence current \<noteq> lease_fence l then Inl ErrAgentRunLeaseFenced
    else if lease_owner current \<noteq> lease_owner l then Inl ErrAgentRunLeaseOwned
    else if lease_released current \<noteq> None then Inl ErrAgentRunLeaseReleased
    else if \<not> active then Inl ErrAgentRunLeaseExpired
    else Inr current)"

definition validate_agent_run_lease_tx ::
    "time \<Rightarrow> (string, 'a) lease_scheme \<Rightarrow> ('x, 'z) agent_db_scheme \<Rightarrow> agent_error + string lease" where
  "validate_agent_run_lease_tx now l db =
    bindE (liftE AgentRejected (validate_agent_run_lease_identity (lease_workspace l) (lease_key l) (lease_owner l))) (\<lambda>_.
    if lease_fence l = 0 \<or> lease_fence l > max_fence then Inl ErrAgentRunLeaseFenced
    else bindE (read_agent_run_lease_tx now (lease_workspace l) (lease_key l) db) (check_lease_row l))"

definition validate_agent_run_lease ::
    "time \<Rightarrow> agent_run \<Rightarrow> (string, 'a) lease_scheme \<Rightarrow> ('x, 'z) agent_db_scheme \<Rightarrow> agent_error + unit" where
  "validate_agent_run_lease now r l db =
    (if ag_workspace r \<noteq> lease_workspace l \<or> ag_id r \<noteq> lease_key l then Inl ErrAgentRunLeaseFenced
     else bindE (liftE AgentRejected (validate_agent_run_lease_identity (lease_workspace l) (lease_key l) (lease_owner l))) (\<lambda>_.
     bindE (read_agent_run_lease now (lease_workspace l) (lease_key l) db) (\<lambda>found.
     bindE (check_lease_row l found) (\<lambda>_. Inr ()))))"

definition get_agent_run_lease ::
    "time \<Rightarrow> string \<Rightarrow> string \<Rightarrow> ('x, 'z) agent_db_scheme \<Rightarrow> agent_error + (string lease \<times> bool) option" where
  "get_agent_run_lease now workspace0 rid0 db =
    (let workspace = trim_space workspace0; rid = trim_space rid0 in
    bindE (liftE AgentRejected (validate_agent_run_lease_identity workspace rid ''read'')) (\<lambda>_.
    case read_agent_run_lease now workspace rid db of
      Inr found \<Rightarrow> Inr (Some found)
    | Inl e \<Rightarrow> if e = ErrAgentRunLeaseMissing then Inr None else Inl e))"

text \<open>The \<open>UPDATE ... WHERE workspace_id AND run_id AND owner_id AND fence\<close> of a live lease.\<close>

definition update_run_lease ::
    "(string, 'a) lease_scheme \<Rightarrow> (string lease \<Rightarrow> string lease) \<Rightarrow> ('x, 'z) agent_db_scheme \<Rightarrow>
      ('x, 'z) agent_db_scheme" where
  "update_run_lease l f db =
    db\<lparr>run_leases := update_where (lease_workspace l, lease_key l)
      (\<lambda>r. lease_owner r = lease_owner l \<and> lease_fence r = lease_fence l) f (run_leases db)\<rparr>"

definition renewed_run_lease :: "time \<Rightarrow> duration \<Rightarrow> string lease \<Rightarrow> string lease" where
  "renewed_run_lease now ttl r = r\<lparr>lease_until := add_millis now (milliseconds ttl), lease_renewed := now\<rparr>"

definition handed_lease :: "string lease \<Rightarrow> duration \<Rightarrow> agent_run_lease" where
  "handed_lease l ttl = lease.extend l (agent_run_lease.fields (milliseconds ttl))"

definition renew_agent_run_lease_tx ::
    "'x agent_env \<Rightarrow> agent_in \<Rightarrow> agent_run_lease \<Rightarrow> duration \<Rightarrow> ('x, 'z) agent_db_scheme \<Rightarrow>
      agent_error + agent_run_lease \<times> ('x, 'z) agent_db_scheme" where
  "renew_agent_run_lease_tx E i l ttl0 db =
    bindE (liftE AgentRejected (validate_agent_run_lease_identity (lease_workspace l) (lease_key l) (lease_owner l))) (\<lambda>_.
    let ttl = normalize_agent_run_lease_ttl ttl0 in
    bindE (validate_agent_run_lease_tx (ai_clock i 0) l db) (\<lambda>_.
    let db1 = update_run_lease l (renewed_run_lease (ai_clock i 1) ttl) db in
    bindE (read_agent_run_lease_tx (ai_clock i 2) (lease_workspace l) (lease_key l) db1) (\<lambda>(updated, active).
    if \<not> active then Inl ErrAgentRunLeaseExpired
    else bindE (observe_agent_tx E (''scheduler-renew-observation:'' @ lease_key l @ '':'' @ show_int (lease_fence l)) db1) (\<lambda>db2.
    Inr (handed_lease updated ttl, db2)))))"

definition renew_agent_run_lease ::
    "'x agent_env \<Rightarrow> agent_in \<Rightarrow> agent_run_lease \<Rightarrow> duration \<Rightarrow> ('x, 'z) agent_db_scheme \<Rightarrow>
      (agent_error + agent_run_lease) \<times> ('x, 'z) agent_db_scheme" where
  "renew_agent_run_lease E i l ttl = in_tx (renew_agent_run_lease_tx E i l ttl)"

definition release_agent_run_lease_tx ::
    "'x agent_env \<Rightarrow> agent_in \<Rightarrow> agent_run_lease \<Rightarrow> ('x, 'z) agent_db_scheme \<Rightarrow>
      agent_error + unit \<times> ('x, 'z) agent_db_scheme" where
  "release_agent_run_lease_tx E i l db =
    bindE (validate_agent_run_lease_tx (ai_clock i 0) l db) (\<lambda>_.
    bindE (observe_agent_tx E (''scheduler-release-observation:'' @ lease_key l @ '':'' @ show_int (lease_fence l))
      (update_run_lease l (\<lambda>r. r\<lparr>lease_until := ai_clock i 1, lease_released := Some (ai_clock i 1),
        lease_renewed := ai_clock i 1\<rparr>) db)) (\<lambda>db1.
    Inr ((), db1)))"

definition release_agent_run_lease ::
    "'x agent_env \<Rightarrow> agent_in \<Rightarrow> agent_run_lease \<Rightarrow> ('x, 'z) agent_db_scheme \<Rightarrow>
      (agent_error + unit) \<times> ('x, 'z) agent_db_scheme" where
  "release_agent_run_lease E i l = in_tx (release_agent_run_lease_tx E i l)"

section \<open>Claim\<close>

definition claimable_states :: "string list" where
  "claimable_states = [''pending'', ''running'', ''awaiting_retry'', ''awaiting_approval'']"

text \<open>\<open>COALESCE(next_retry_at, next_scheduled_at, created_at)\<close>; the second column is never null.\<close>

definition due_at :: "agent_row \<Rightarrow> time" where
  "due_at row = (case ag_next_retry (ro_run row) of Some t \<Rightarrow> t | None \<Rightarrow> ro_scheduled row)"

text \<open>The approval of the first pending tool; \<open>approval_id\<close> is absent from the JSON when empty.\<close>

definition first_approval_granted :: "agent_run \<Rightarrow> ('x, 'z) tool_db_scheme \<Rightarrow> bool" where
  "first_approval_granted r db \<longleftrightarrow>
    (case ag_pending r of
      [] \<Rightarrow> False
    | p # _ \<Rightarrow> pt_approval p \<noteq> [] \<and> list_ex (\<lambda>a. ap_workspace a = ag_workspace r \<and> ap_id a = pt_approval p \<and>
        ap_status a = ''approved'') (tool_approvals db))"

definition run_claimable :: "time \<Rightarrow> string \<Rightarrow> ('x, 'z) agent_db_scheme \<Rightarrow> agent_row \<Rightarrow> bool" where
  "run_claimable now workspace db row \<longleftrightarrow>
    (let r = ro_run row in
    (workspace = [] \<or> ag_workspace r = workspace) \<and> ag_state r \<in> set claimable_states \<and> due_at row \<le> now \<and>
    (ag_state r \<noteq> ''awaiting_retry'' \<or> (case ag_next_retry r of None \<Rightarrow> True | Some t \<Rightarrow> t \<le> now)) \<and>
    (ag_state r \<noteq> ''awaiting_approval'' \<or> first_approval_granted r db) \<and>
    (case run_leases db (ag_workspace r, ag_id r) of None \<Rightarrow> True | Some l \<Rightarrow> \<not> lease_active now l))"

definition claim_before :: "agent_row \<Rightarrow> agent_row \<Rightarrow> bool" where
  "claim_before a b \<longleftrightarrow>
    (if ro_priority a \<noteq> ro_priority b then ro_priority b < ro_priority a
     else if due_at a \<noteq> due_at b then due_at a < due_at b
     else if ag_created (ro_run a) \<noteq> ag_created (ro_run b) then ag_created (ro_run a) < ag_created (ro_run b)
     else if ag_workspace (ro_run a) \<noteq> ag_workspace (ro_run b)
     then ag_workspace (ro_run a) < ag_workspace (ro_run b)
     else ag_id (ro_run a) < ag_id (ro_run b))"

text \<open>\<open>FOR UPDATE OF ar SKIP LOCKED LIMIT 1\<close>.\<close>

definition select_next_run ::
    "time \<Rightarrow> (string \<times> string \<Rightarrow> bool) \<Rightarrow> string \<Rightarrow> ('x, 'z) agent_db_scheme \<Rightarrow> agent_row option" where
  "select_next_run now locked workspace db =
    (case sort_by claim_before (filter (\<lambda>row. run_claimable now workspace db row \<and>
        \<not> locked (ag_workspace (ro_run row), ag_id (ro_run row))) (agent_rows db)) of
      [] \<Rightarrow> None
    | row # _ \<Rightarrow> Some row)"

definition first_run_lease :: "time \<Rightarrow> string \<Rightarrow> string \<Rightarrow> string \<Rightarrow> duration \<Rightarrow> string lease" where
  "first_run_lease now workspace rid owner ttl = \<lparr>lease_workspace = workspace, lease_key = rid, lease_owner = owner,
    lease_fence = 1, lease_until = add_millis now (milliseconds ttl), lease_acquired = now, lease_renewed = now,
    lease_released = None\<rparr>"

definition taken_run_lease :: "time \<Rightarrow> string \<Rightarrow> duration \<Rightarrow> string lease \<Rightarrow> string lease" where
  "taken_run_lease now owner ttl l = l\<lparr>lease_owner := owner, lease_fence := lease_fence l + 1,
    lease_until := add_millis now (milliseconds ttl), lease_acquired := now, lease_renewed := now,
    lease_released := None\<rparr>"

definition grant_run_lease ::
    "time \<Rightarrow> string \<Rightarrow> string \<Rightarrow> string \<Rightarrow> duration \<Rightarrow> string lease option \<Rightarrow> ('x, 'z) agent_db_scheme \<Rightarrow>
      agent_error + ('x, 'z) agent_db_scheme" where
  "grant_run_lease now workspace rid owner ttl found db =
    (case found of
      None \<Rightarrow>
        let (inserted, table) = insert_new (workspace, rid) (first_run_lease now workspace rid owner ttl) (run_leases db) in
        if inserted then Inr (db\<lparr>run_leases := table\<rparr>) else Inl AgentInsertFailed
    | Some l \<Rightarrow>
        if lease_fence l \<ge> max_fence then Inl ErrAgentRunFenceExhausted
        else Inr (db\<lparr>run_leases := update_where (workspace, rid) (\<lambda>r. lease_fence r = lease_fence l)
          (taken_run_lease now owner ttl) (run_leases db)\<rparr>))"

definition claim_row_tx ::
    "'x agent_env \<Rightarrow> agent_in \<Rightarrow> string \<Rightarrow> duration \<Rightarrow> agent_row \<Rightarrow> ('x, 'z) agent_db_scheme \<Rightarrow>
      agent_error + agent_run_claim option \<times> ('x, 'z) agent_db_scheme" where
  "claim_row_tx E i owner ttl row db =
    (let workspace = ag_workspace (ro_run row); rid = ag_id (ro_run row) in
    bindE (read_agent_run E workspace rid db) (\<lambda>r.
    bindE (case read_agent_run_lease_tx (ai_clock i 1) workspace rid db of
        Inr (l, active) \<Rightarrow> Inr (Some l, active)
      | Inl e \<Rightarrow> if e = ErrAgentRunLeaseMissing then Inr (None, False) else Inl e) (\<lambda>(found, active).
    if active then Inr (None, db)
    else bindE (grant_run_lease (ai_clock i 2) workspace rid owner ttl found db) (\<lambda>db1.
    bindE (read_agent_run_lease_tx (ai_clock i 3) workspace rid db1) (\<lambda>(l, live).
    if \<not> live \<or> lease_owner l \<noteq> owner \<or> lease_fence l = 0 then Inl AgentAcquisitionFailed
    else bindE (observe_agent_tx E (''scheduler-observation:'' @ rid @ '':'' @ show_int (lease_fence l))
      (update_agent_row workspace rid (\<lambda>q. q\<lparr>ro_attempts := ro_attempts q + 1, ro_worker := owner\<rparr>) db1)) (\<lambda>db2.
    Inr (Some \<lparr>acl_run = r, acl_lease = handed_lease l ttl, acl_takeover = (found \<noteq> None)\<rparr>, db2)))))))"

definition claim_next_agent_run_tx ::
    "'x agent_env \<Rightarrow> agent_in \<Rightarrow> string \<Rightarrow> string \<Rightarrow> duration \<Rightarrow> ('x, 'z) agent_db_scheme \<Rightarrow>
      agent_error + agent_run_claim option \<times> ('x, 'z) agent_db_scheme" where
  "claim_next_agent_run_tx E i workspace owner0 ttl db =
    (let owner = trim_space owner0 in
    if owner = [] then Inl (AgentStoreInvalid ''owner_id is required'')
    else case select_next_run (ai_clock i 0) (ai_locked i) (trim_space workspace) db of
      None \<Rightarrow> Inr (None, db)
    | Some row \<Rightarrow> claim_row_tx E i owner (normalize_agent_run_lease_ttl ttl) row db)"

definition claim_next_agent_run ::
    "'x agent_env \<Rightarrow> agent_in \<Rightarrow> string \<Rightarrow> string \<Rightarrow> duration \<Rightarrow> ('x, 'z) agent_db_scheme \<Rightarrow>
      (agent_error + agent_run_claim option) \<times> ('x, 'z) agent_db_scheme" where
  "claim_next_agent_run E i workspace owner ttl = in_tx (claim_next_agent_run_tx E i workspace owner ttl)"

end
