(* ===== verification/Agent_Commit.thy ===== *)
theory Agent_Commit
  imports Agent_Store
begin

text \<open>
  The transitions of \<open>internal/store/agent_runs.go\<close> (\<open>Commit\<close>, \<open>CommitOwned\<close>, \<open>Cancel\<close>, \<open>Replay\<close>,
  \<open>ReplayCheckpoint\<close>) and the claim of \<open>internal/store/agent_run_scheduler.go\<close>.

  \<open>commit_tx\<close> is the whole of \<open>commit\<close>: admission, the task fence, the redacted candidate, and
  then, against the locked row, the version, the fence, the artifacts, the owned lease, the event
  and the columns of the checkpoint.  \<open>ai_clock i 0\<close> is read by the check before the transaction,
  \<open>1\<close> to \<open>3\<close> inside it.  A version does not reach \<open>2 ^ 63\<close>.
\<close>

section \<open>Admission and candidate\<close>

definition check_owned_lease :: "agent_run \<Rightarrow> agent_run_lease option \<Rightarrow> agent_error + unit" where
  "check_owned_lease current owned =
    (case owned of
      None \<Rightarrow> Inr ()
    | Some l \<Rightarrow>
        bindE (liftE AgentRejected
          (validate_agent_run_lease_identity (lease_workspace l) (lease_key l) (lease_owner l))) (\<lambda>_.
        guardE (lease_workspace l = ag_workspace current \<and> lease_key l = ag_id current) ErrAgentRunLeaseFenced))"

definition commit_admit :: "agent_run \<Rightarrow> agent_run \<Rightarrow> agent_run_lease option \<Rightarrow> agent_error + unit" where
  "commit_admit current next owned =
    bindE (guardE (trim_space (ag_id current) \<noteq> [] \<and> trim_space (ag_workspace current) \<noteq> [])
      (AgentStoreInvalid ''current agent run identity is required'')) (\<lambda>_.
    bindE (guardE (trim_space (ag_id next) = ag_id current \<and> trim_space (ag_workspace next) = ag_workspace current)
      (AgentStoreInvalid ''agent run transition crosses identity boundary'')) (\<lambda>_.
    bindE (check_owned_lease current owned) (\<lambda>_.
    guardE (\<not> (is_agent_terminal (ag_state current) \<and> ag_state current \<noteq> ag_state next)) ErrAgentRunTerminal)))"

definition open_run_states :: "string list" where
  "open_run_states = [''pending'', ''running'', ''awaiting_approval'', ''awaiting_retry'', ''awaiting_external'']"

definition agent_phases :: "string list" where
  "agent_phases = [''model'', ''tool'']"

definition normalize_run_for_commit :: "agent_run \<Rightarrow> agent_error + agent_run" where
  "normalize_run_for_commit r =
    (if trim_space (ag_id r) = [] \<or> trim_space (ag_workspace r) = []
     then Inl (AgentStoreInvalid ''agent run identity is required'')
     else if \<not> is_agent_terminal (ag_state r) \<and> ag_state r \<notin> set open_run_states
     then Inl (AgentStoreInvalid ''invalid agent run state'')
     else if ag_phase r \<notin> set agent_phases then Inl (AgentStoreInvalid ''invalid agent run phase'')
     else bindE (liftE AgentRejected (normalize_agent_budget (ag_budget r))) (\<lambda>budget.
       if len (ag_history r) > max_agent_history_messages
       then Inl (AgentStoreInvalid ''agent history exceeds message budget'')
       else if len (ag_pending r) > max_agent_pending_tools
       then Inl (AgentStoreInvalid ''agent pending tools exceed budget'')
       else if list_ex (\<lambda>m. mm_role m = []) (ag_history r)
       then Inl (AgentStoreInvalid ''agent history message role is required'')
       else Inr (r\<lparr>ag_budget := budget\<rparr>)))"

definition redact_agent_output :: "'x agent_env \<Rightarrow> agent_run \<Rightarrow> agent_error + agent_run" where
  "redact_agent_output E r =
    (case ae_history_decode E (xe_redact (ae_tools E) (ae_history_json E (ag_history r))) of
      None \<Rightarrow> Inl (AgentStoreInvalid ''redact agent history'')
    | Some h \<Rightarrow> Inr (r\<lparr>ag_history := h, ag_last_output := xe_redact (ae_tools E) (ag_last_output r)\<rparr>))"

definition same_agent_history :: "'x agent_env \<Rightarrow> model_message list \<Rightarrow> model_message list \<Rightarrow> bool" where
  "same_agent_history E a b \<longleftrightarrow> ae_history_json E a = ae_history_json E b"

text \<open>The fields \<open>commit\<close> itself assigns.\<close>

definition stamp_commit :: "'x agent_env \<Rightarrow> time \<Rightarrow> agent_run \<Rightarrow> agent_run \<Rightarrow> agent_run" where
  "stamp_commit E now current r0 =
    (let r = r0\<lparr>ag_output_artifact :=
          (if ag_last_output current = ag_last_output r0 then ag_output_artifact current else None),
        ag_history_artifact :=
          (if same_agent_history E (ag_history current) (ag_history r0) then ag_history_artifact current else None),
        ag_version := ag_version current + 1, ag_sequence := ag_sequence current\<rparr> in
    r\<lparr>ag_state_hash := compute_state_hash E r, ag_updated := now,
      ag_started := (if ag_started r = None \<and> ag_state r \<noteq> ''pending'' then Some now else ag_started r),
      ag_finished := (if is_agent_terminal (ag_state r) then Some now else ag_finished r)\<rparr>)"

definition prepare_commit ::
    "'x agent_env \<Rightarrow> time \<Rightarrow> agent_run \<Rightarrow> agent_run \<Rightarrow> agent_error + agent_run" where
  "prepare_commit E now current next0 =
    bindE (normalize_run_for_commit next0) (\<lambda>n1.
    bindE (redact_agent_output E n1) (\<lambda>n2.
    let r = stamp_commit E now current n2 in
    if len (ae_pending_json E (ag_pending r)) > max_agent_history_bytes
    then Inl (AgentStoreInvalid ''agent pending tools exceed durable bound'') else Inr r))"

section \<open>Artifacts\<close>

definition put_agent_artifact ::
    "'x agent_env \<Rightarrow> agent_run \<Rightarrow> string \<Rightarrow> string \<Rightarrow> string \<Rightarrow> string \<Rightarrow> 'x \<Rightarrow>
      agent_error + artifact_ref \<times> 'x" where
  "put_agent_artifact E r role kind media raw ev =
    (let source = ag_id r @ '':v:'' @ show_int (ag_version r) in
    liftE AgentArtifactFailed (xe_artifact (ae_tools E) \<lparr>au_workspace = ag_workspace r, au_kind = kind,
      au_media = media, au_raw = raw, au_gist = ''redacted agent output'',
      au_metadata = [(''agent_run_id'', ag_id r), (''role'', role), (''state_version'', show_int (ag_version r))],
      au_source_kind = ''agent_run'', au_source_id = source, au_role = role,
      au_key = ''agent-output:'' @ source @ '':'' @ role, au_causation = ag_causation r,
      au_correlation = ag_correlation r, au_actor = ag_actor r\<rparr> ev))"

text \<open>What the columns hold: history, output and the two artifact links.  A moved history leaves a
  JSON object in its column, which a read takes for no history.\<close>

record stored_output =
  so_history :: "model_message list"
  so_output :: string
  so_output_artifact :: "int option"
  so_history_artifact :: "int option"

definition artifactize_output ::
    "'x agent_env \<Rightarrow> agent_run \<Rightarrow> 'x \<Rightarrow> agent_error + (string \<times> int option) \<times> 'x" where
  "artifactize_output E r ev =
    (if len (ag_last_output r) > max_tool_evidence_bytes \<and> ag_output_artifact r = None
     then bindE (put_agent_artifact E r ''last_output'' ''agent-output'' ''text/plain''
         (xe_redact (ae_tools E) (ag_last_output r)) ev) (\<lambda>(f, ev').
       Inr ((tool_artifact_marker f, Some (rf_artifact f)), ev'))
     else Inr ((ag_last_output r, ag_output_artifact r), ev))"

definition artifactize_history ::
    "'x agent_env \<Rightarrow> agent_run \<Rightarrow> 'x \<Rightarrow> agent_error + (model_message list \<times> int option) \<times> 'x" where
  "artifactize_history E r ev =
    (let json = ae_history_json E (ag_history r) in
    if len json > max_agent_history_bytes \<and> ag_history_artifact r = None
    then bindE (put_agent_artifact E r ''history'' ''agent-history'' ''application/json''
        (xe_redact (ae_tools E) json) ev) (\<lambda>(f, ev').
      Inr (([], Some (rf_artifact f)), ev'))
    else Inr ((ag_history r, ag_history_artifact r), ev))"

definition artifactize_agent_outputs_tx ::
    "'x agent_env \<Rightarrow> agent_run \<Rightarrow> 'x \<Rightarrow> agent_error + stored_output \<times> 'x" where
  "artifactize_agent_outputs_tx E r ev =
    bindE (artifactize_output E r ev) (\<lambda>((out, out_id), ev1).
    bindE (artifactize_history E r ev1) (\<lambda>((history, history_id), ev2).
    Inr (\<lparr>so_history = history, so_output = out, so_output_artifact = out_id,
      so_history_artifact = history_id\<rparr>, ev2)))"

definition read_artifact_link ::
    "'x agent_env \<Rightarrow> string \<Rightarrow> string \<Rightarrow> int option \<Rightarrow> 'x \<Rightarrow> agent_error + unit" where
  "read_artifact_link E workspace role a ev =
    (case a of
      None \<Rightarrow> Inr ()
    | Some x \<Rightarrow> liftE AgentArtifactFailed (ae_artifact_link E workspace x role ev))"

section \<open>The checkpoint\<close>

definition same_entity_ref :: "entity_ref option \<Rightarrow> entity_ref option \<Rightarrow> bool" where
  "same_entity_ref a b \<longleftrightarrow>
    (case (a, b) of
      (Some x, Some y) \<Rightarrow> er_id x = er_id y \<and> er_kind x = er_kind y \<and> er_workspace x = er_workspace y
    | (None, None) \<Rightarrow> True
    | _ \<Rightarrow> False)"

definition renew_owned_lease ::
    "agent_in \<Rightarrow> agent_run_lease option \<Rightarrow> ('x, 'z) agent_db_scheme \<Rightarrow> agent_error + ('x, 'z) agent_db_scheme" where
  "renew_owned_lease i owned db =
    (case owned of
      None \<Rightarrow> Inr db
    | Some l \<Rightarrow>
        bindE (validate_agent_run_lease_tx (ai_clock i 2) l db) (\<lambda>_.
        Inr (update_run_lease l (renewed_run_lease (ai_clock i 3)
          (normalize_agent_run_lease_ttl (ms_duration (arl_ttl_ms l)))) db)))"

text \<open>The INTEGER columns, and the CHECK constraints on the columns the update assigns.\<close>

definition int4 :: "int \<Rightarrow> bool" where
  "int4 n \<longleftrightarrow> - (2 ^ 31) \<le> n \<and> n < 2 ^ 31"

definition run_columns_fit :: "agent_run \<Rightarrow> bool" where
  "run_columns_fit r \<longleftrightarrow> list_all int4 [ag_turn r, ag_step r, ag_model_attempts r, ag_model_calls r, ag_tool_calls r,
    ag_input_tokens r, ag_output_tokens r, ag_total_tokens r, ag_context_bytes r]"

definition run_checks :: "agent_run \<Rightarrow> bool" where
  "run_checks r \<longleftrightarrow> ag_state r \<in> set (terminal_run_states @ open_run_states) \<and> ag_phase r \<in> set agent_phases \<and>
    rune_count (ag_context_hash r) \<le> 128 \<and> 0 \<le> ag_task_fence r \<and> 0 < ag_version r"

text \<open>The columns the update does not assign keep their values.\<close>

definition checkpoint_columns :: "agent_run \<Rightarrow> stored_output \<Rightarrow> agent_run \<Rightarrow> agent_run" where
  "checkpoint_columns next s old =
    next\<lparr>ag_id := ag_id old, ag_workspace := ag_workspace old, ag_request_id := ag_request_id old,
      ag_idempotency := ag_idempotency old, ag_request_hash := ag_request_hash old,
      ag_schema_version := ag_schema_version old, ag_causation := ag_causation old,
      ag_correlation := ag_correlation old, ag_goal := ag_goal old, ag_created := ag_created old,
      ag_history := so_history s, ag_last_output := so_output s,
      ag_output_artifact := so_output_artifact s, ag_history_artifact := so_history_artifact s\<rparr>"

definition write_checkpoint ::
    "int \<Rightarrow> agent_run \<Rightarrow> stored_output \<Rightarrow> ('x, 'z) agent_db_scheme \<Rightarrow> agent_error + ('x, 'z) agent_db_scheme" where
  "write_checkpoint version next s db =
    (let hit = (\<lambda>row. ag_workspace (ro_run row) = ag_workspace next \<and> ag_id (ro_run row) = ag_id next \<and>
        ag_version (ro_run row) = version) in
    if \<not> run_columns_fit next then Inl AgentUpdateFailed
    else if \<not> list_ex hit (agent_rows db) then Inl ErrAgentRunConflict
    else if \<not> run_checks next then Inl AgentUpdateFailed
    else Inr (db\<lparr>agent_rows := map (\<lambda>row. if hit row
      then row\<lparr>ro_run := checkpoint_columns next s (ro_run row)\<rparr> else row) (agent_rows db)\<rparr>))"

definition observe_transition ::
    "'x agent_env \<Rightarrow> agent_run \<Rightarrow> ('x, 'z) agent_db_scheme \<Rightarrow> agent_error + ('x, 'z) agent_db_scheme" where
  "observe_transition E r db =
    (let suffix = ag_id r @ '':'' @ show_int (ag_version r) in
    bindE (observe_agent_tx E (''agent-transition:'' @ suffix) db) (\<lambda>db1.
    if ag_state r = ''awaiting_retry''
    then bindE (observe_agent_tx E (''agent-retry-cost:'' @ suffix) db1) (\<lambda>db2.
      observe_agent_tx E (''agent-schedule-observation:'' @ suffix) db2)
    else if ag_state r = ''awaiting_approval'' then observe_agent_tx E (''agent-wait-observation:'' @ suffix) db1
    else Inr db1))"

definition commit_tx ::
    "'x agent_env \<Rightarrow> agent_in \<Rightarrow> agent_run \<Rightarrow> agent_run \<Rightarrow> string \<Rightarrow> agent_payload \<Rightarrow> agent_run_lease option \<Rightarrow>
      ('x, 'z) agent_db_scheme \<Rightarrow> agent_error + agent_run \<times> ('x, 'z) agent_db_scheme" where
  "commit_tx E i current next0 etype payload owned db =
    bindE (commit_admit current next0 owned) (\<lambda>_.
    bindE (validate_task_fence (ai_clock i 0) current db) (\<lambda>_.
    bindE (prepare_commit E (ai_now i) current next0) (\<lambda>next.
    bindE (read_agent_run E (ag_workspace current) (ag_id current) db) (\<lambda>locked.
    if ag_version locked \<noteq> ag_version current then Inl ErrAgentRunConflict
    else if ag_task_owner locked \<noteq> ag_task_owner next \<or> ag_task_fence locked \<noteq> ag_task_fence next \<or>
      \<not> same_entity_ref (ag_task locked) (ag_task next) then Inl ErrAgentRunStale
    else bindE (validate_run_task_fence_tx (ai_clock i 1) locked db) (\<lambda>_.
    bindE (artifactize_agent_outputs_tx E next (evidence_tables db)) (\<lambda>(stored, ev).
    bindE (read_artifact_link E (ag_workspace next) ''last_output'' (so_output_artifact stored) ev) (\<lambda>_.
    bindE (read_artifact_link E (ag_workspace next) ''history'' (so_history_artifact stored) ev) (\<lambda>_.
    let linked = next\<lparr>ag_output_artifact := so_output_artifact stored, ag_history_artifact := so_history_artifact stored\<rparr> in
    bindE (renew_owned_lease i owned (db\<lparr>evidence_tables := ev\<rparr>)) (\<lambda>db1.
    bindE (append_agent_event E (ai_io i) etype linked payload db1) (\<lambda>(e, db2).
    let committed = linked\<lparr>ag_sequence := ev_sequence e\<rparr> in
    bindE (write_checkpoint (ag_version current) committed stored db2) (\<lambda>db3.
    bindE (observe_transition E committed db3) (\<lambda>db4.
    Inr (committed, db4)))))))))))))"

definition commit_agent ::
    "'x agent_env \<Rightarrow> agent_in \<Rightarrow> agent_run \<Rightarrow> agent_run \<Rightarrow> string \<Rightarrow> agent_payload \<Rightarrow> agent_run_lease option \<Rightarrow>
      ('x, 'z) agent_db_scheme \<Rightarrow> (agent_error + agent_run) \<times> ('x, 'z) agent_db_scheme" where
  "commit_agent E i current next etype payload owned = in_tx (commit_tx E i current next etype payload owned)"

definition cancelled_candidate :: "agent_run \<Rightarrow> string \<Rightarrow> agent_run" where
  "cancelled_candidate r reason =
    (let message = trim_space reason in
    r\<lparr>ag_state := ''cancelled'', ag_phase := ''model'', ag_termination := ''cancelled'',
      ag_last_failure := Some \<lparr>lf_code = ''cancelled'',
        lf_message = (if message = [] then ''run cancelled'' else message), lf_phase = ag_phase r,
        lf_retryable = False, lf_content = False, lf_attempt = 0\<rparr>\<rparr>)"

definition cancel_agent ::
    "'x agent_env \<Rightarrow> agent_in \<Rightarrow> agent_run \<Rightarrow> string \<Rightarrow> ('x, 'z) agent_db_scheme \<Rightarrow>
      (agent_error + agent_run) \<times> ('x, 'z) agent_db_scheme" where
  "cancel_agent E i r reason db =
    (let next = cancelled_candidate r reason;
         message = (case ag_last_failure next of Some f \<Rightarrow> lf_message f | None \<Rightarrow> []) in
    commit_agent E i r next ''agent.cancelled'' [(''run_id'', AgText (ag_id r)), (''reason'', AgText message)] None db)"

section \<open>Replay\<close>

definition replay_agent ::
    "'x agent_env \<Rightarrow> string \<Rightarrow> string \<Rightarrow> int \<Rightarrow> int \<Rightarrow> ('x, 'z) agent_db_scheme \<Rightarrow> agent_error + event list" where
  "replay_agent E workspace0 rid0 from_seq limit0 db =
    (let workspace = trim_space workspace0; rid = trim_space rid0 in
    if workspace = [] \<or> rid = [] then Inl (AgentStoreInvalid ''workspace_id and run_id are required'')
    else bindE (get_agent_run E workspace rid db) (\<lambda>_.
    let limit = (if limit0 \<le> 0 \<or> limit0 > 1000 then 1000 else limit0) in
    bindE (liftE AgentEventFailed (read_after (xe_events (ae_tools E))
      \<lparr>rr_workspace = workspace, rr_after = from_seq, rr_to = 0, rr_event_type = [], rr_run_id = rid,
       rr_task_id = [], rr_session_id = [], rr_limit = limit\<rparr> db)) (\<lambda>es.
    Inr (filter (\<lambda>e. has_prefix (ev_type e) ''agent.'' \<and> ae_payload_run E (ev_payload e) = Some rid) es))))"

fun last_checkpoint ::
    "'x agent_env \<Rightarrow> string \<Rightarrow> loop_checkpoint option \<Rightarrow> event list \<Rightarrow> agent_error + loop_checkpoint option" where
  "last_checkpoint E rid acc [] = Inr acc"
| "last_checkpoint E rid acc (e # es) =
    (case ae_payload_checkpoint E (ev_payload e) of
      None \<Rightarrow> Inl (AgentStoreInvalid ''decode agent replay checkpoint'')
    | Some (rn, c) \<Rightarrow>
        if rn \<noteq> rid \<or> lc_run c \<noteq> rid \<or> lc_state_hash c = []
        then Inl (AgentStoreInvalid ''agent replay event has no canonical checkpoint'')
        else last_checkpoint E rid (Some (c\<lparr>lc_sequence := ev_sequence e\<rparr>)) es)"

definition replay_checkpoint ::
    "'x agent_env \<Rightarrow> string \<Rightarrow> string \<Rightarrow> int \<Rightarrow> int \<Rightarrow> ('x, 'z) agent_db_scheme \<Rightarrow> agent_error + loop_checkpoint" where
  "replay_checkpoint E workspace rid from_seq limit db =
    bindE (replay_agent E workspace rid from_seq limit db) (\<lambda>es.
    bindE (last_checkpoint E rid None es) (\<lambda>found.
    case found of
      None \<Rightarrow> Inl (AgentStoreInvalid ''no agent checkpoint found'')
    | Some c \<Rightarrow> Inr c))"

end
