(* ===== verification/Agent_Loop.thy ===== *)
theory Agent_Loop
  imports Agent_Commit Tool_Executor
begin

text \<open>
  \<open>internal/agentloop/loop.go\<close>: the orchestrator that advances a run phase by phase.

  An orchestrator is the record of its interfaces.  The model gateway, the tool executor and the
  retriever act on the tables and may fail; whatever they write is part of the state they return.
  One \<open>Advance\<close> draws a \<open>loop_in\<close>: \<open>li_now i 0\<close> is the instant of the wall-clock check, \<open>1\<close> that
  of the retry check, \<open>2\<close> the start and \<open>3\<close> the end of the external call; \<open>li_between i n\<close> is what
  other processes do to the tables before the read (\<open>0\<close>), the lease check (\<open>1\<close>) and the commit (\<open>2\<close>).
  Cloning is the identity on values.
\<close>

section \<open>Decisions\<close>

datatype loop_error =
  ErrLoopNotConfigured
| ErrLoopWaiting
| ErrLoopLease
| LoopStore agent_error
| LoopTool exec_error
| LoopInvalid string

record loop_decision =
  ld_action :: string
  ld_run :: agent_run
  ld_checkpoint :: loop_checkpoint
  ld_model :: "model_step option"
  ld_tool :: "tool_step option"
  ld_failure :: "loop_failure option"

record tool_arguments =
  ta_argv :: "string list"
  ta_env :: "(string \<times> string) list"
  ta_workdir :: string

record loop_codec =
  lx_sha256 :: "string \<Rightarrow> string"
  lx_tools_json :: "model_tool_definition list \<Rightarrow> string"
  lx_result_json :: "string \<times> int \<times> string \<times> string \<times> tool_failure option \<Rightarrow> string"
  lx_items_json :: "string \<times> context_item list \<Rightarrow> string"
  lx_arguments :: "string \<Rightarrow> string + tool_arguments"

record 'x orchestrator =
  or_env :: "'x agent_env"
  or_codec :: loop_codec
  or_configured :: bool
  or_owned_store :: bool
  or_complete :: "model_request \<Rightarrow> 'x agent_db \<Rightarrow> (model_failure option + model_response) \<times> 'x agent_db"
  or_execute :: "tool_request \<Rightarrow> 'x agent_db \<Rightarrow> (tool_outcome \<times> exec_error option) \<times> 'x agent_db"
  or_definition :: "string \<Rightarrow> tool_definition option"
  or_approvals :: "(string \<Rightarrow> string \<Rightarrow> 'x agent_db \<Rightarrow> approval_request option) option"
  or_retrieve :: "(retrieval_request \<Rightarrow> 'x agent_db \<Rightarrow> (string + context_pack) \<times> 'x agent_db) option"

record 'x loop_in =
  li_commit :: agent_in
  li_now :: "nat \<Rightarrow> time"
  li_clock :: time
  li_between :: "nat \<Rightarrow> 'x agent_db \<Rightarrow> 'x agent_db"

type_synonym 'x loop_result = "(loop_error + loop_decision) \<times> 'x agent_db"

definition decision :: "'x orchestrator \<Rightarrow> string \<Rightarrow> agent_run \<Rightarrow> loop_failure option \<Rightarrow> loop_decision" where
  "decision W action r f = \<lparr>ld_action = action, ld_run = r, ld_checkpoint = checkpoint_of (or_env W) r,
    ld_model = None, ld_tool = None, ld_failure = f\<rparr>"

definition terminal_decision :: "'x orchestrator \<Rightarrow> agent_run \<Rightarrow> loop_decision" where
  "terminal_decision W r = decision W ''terminal'' r (ag_last_failure r)"

definition terminal_decision_with_failure :: "'x orchestrator \<Rightarrow> agent_run \<Rightarrow> loop_failure \<Rightarrow> loop_decision" where
  "terminal_decision_with_failure W r f = (terminal_decision W r)\<lparr>ld_failure := Some f\<rparr>"

definition waiting_decision :: "'x orchestrator \<Rightarrow> agent_run \<Rightarrow> loop_decision" where
  "waiting_decision W r = decision W ''waiting'' r (ag_last_failure r)"

section \<open>Lease, commit and failure\<close>

definition validate_worker_lease ::
    "'x orchestrator \<Rightarrow> 'x loop_in \<Rightarrow> agent_run_lease option \<Rightarrow> agent_run \<Rightarrow> 'x agent_db \<Rightarrow> loop_error + unit" where
  "validate_worker_lease W i owned r db =
    (case owned of
      None \<Rightarrow> liftE LoopStore (validate_task_fence (li_clock i) r db)
    | Some l \<Rightarrow>
        if \<not> or_owned_store W then Inl ErrLoopLease
        else liftE LoopStore (validate_agent_run_lease (li_clock i) r l db))"

text \<open>The commit of a transition and the decision made of the committed run.\<close>

definition loop_commit ::
    "'x orchestrator \<Rightarrow> 'x loop_in \<Rightarrow> agent_run_lease option \<Rightarrow> agent_run \<Rightarrow> agent_run \<Rightarrow> string \<Rightarrow> agent_payload \<Rightarrow>
      (agent_run \<Rightarrow> loop_decision) \<Rightarrow> 'x agent_db \<Rightarrow> 'x loop_result" where
  "loop_commit W i owned current next etype payload decide db0 =
    (let db = li_between i 2 db0 in
    if owned \<noteq> None \<and> \<not> or_owned_store W then (Inl ErrLoopLease, db)
    else
      let (r, db') = commit_agent (or_env W) (li_commit i) current next etype payload owned db in
      (case r of Inl e \<Rightarrow> Inl (LoopStore e) | Inr c \<Rightarrow> Inr (decide c), db'))"

definition loop_failed :: "string \<Rightarrow> string \<Rightarrow> string \<Rightarrow> loop_failure" where
  "loop_failed code message phase = \<lparr>lf_code = code, lf_message = message, lf_phase = phase, lf_retryable = False,
    lf_content = False, lf_attempt = 0\<rparr>"

definition fail_with_attempt ::
    "'x orchestrator \<Rightarrow> 'x loop_in \<Rightarrow> agent_run_lease option \<Rightarrow> agent_run \<Rightarrow> loop_failure \<Rightarrow> string \<Rightarrow> int \<Rightarrow>
      'x agent_db \<Rightarrow> 'x loop_result" where
  "fail_with_attempt W i owned r f termination attempt =
    loop_commit W i owned r (r\<lparr>ag_state := ''failed'', ag_termination := termination, ag_phase := ag_phase r,
        ag_last_failure := Some f, ag_pending := [], ag_model_attempts := max (ag_model_attempts r) attempt\<rparr>)
      ''agent.failed'' [(''run_id'', AgText (ag_id r)), (''failure'', AgFailure f), (''termination'', AgText termination)]
      (\<lambda>c. terminal_decision_with_failure W c f)"

definition fail ::
    "'x orchestrator \<Rightarrow> 'x loop_in \<Rightarrow> agent_run_lease option \<Rightarrow> agent_run \<Rightarrow> loop_failure \<Rightarrow> string \<Rightarrow>
      'x agent_db \<Rightarrow> 'x loop_result" where
  "fail W i owned r f termination = fail_with_attempt W i owned r f termination (lf_attempt f)"

definition fail_with_tool ::
    "'x orchestrator \<Rightarrow> 'x loop_in \<Rightarrow> agent_run_lease option \<Rightarrow> agent_run \<Rightarrow> loop_failure \<Rightarrow> string \<Rightarrow>
      'x agent_db \<Rightarrow> 'x loop_result" where
  "fail_with_tool W i owned r f termination =
    loop_commit W i owned r (r\<lparr>ag_state := ''failed'', ag_termination := termination, ag_phase := ''tool'',
        ag_last_failure := Some f, ag_pending := [], ag_tool_calls := max (ag_tool_calls r) (ag_tool_calls r)\<rparr>)
      ''agent.failed'' [(''run_id'', AgText (ag_id r)), (''failure'', AgFailure f), (''termination'', AgText termination)]
      (\<lambda>c. terminal_decision_with_failure W c f)"

text \<open>Go's zero \<open>time.Time\<close>, the first instant of year 1, in microseconds.\<close>

definition go_zero_time :: time where
  "go_zero_time = - 62135596800 * 1000000"

definition past_deadline :: "time \<Rightarrow> agent_run \<Rightarrow> bool" where
  "past_deadline now r \<longleftrightarrow>
    ag_created r \<noteq> go_zero_time \<and> 1000 * ag_created r + ms_duration (ab_wall_ms (ag_budget r)) < 1000 * now"

fun retry_delay_loop :: "nat \<Rightarrow> duration \<Rightarrow> duration" where
  "retry_delay_loop 0 delay = (if delay > 10 * second then 10 * second else delay)"
| "retry_delay_loop (Suc n) delay =
    (if delay \<ge> 10 * second then 10 * second else retry_delay_loop n (2 * delay))"

definition loop_retry_delay :: "int \<Rightarrow> duration" where
  "loop_retry_delay attempt = retry_delay_loop (nat (attempt - 1)) (100 * millisecond)"

definition add_duration :: "time \<Rightarrow> duration \<Rightarrow> time" where
  "add_duration t d = t + d div 1000"

definition stable_id :: "loop_codec \<Rightarrow> string \<Rightarrow> string list \<Rightarrow> string" where
  "stable_id X prefix parts =
    prefix @ ''_'' @ take 32 (lx_sha256 X (prefix @ concat (map (\<lambda>p. CHR 0x00 # p) parts)))"

definition add_cost :: "model_cost \<Rightarrow> model_cost \<Rightarrow> model_cost" where
  "add_cost a b = \<lparr>mk_currency = ''USD'', mk_input = mk_input a + mk_input b, mk_output = mk_output a + mk_output b,
    mk_total = mk_total a + mk_total b, mk_source = ''agent-aggregate''\<rparr>"

definition loop_message :: "string \<Rightarrow> string \<Rightarrow> string \<Rightarrow> model_tool_call list \<Rightarrow> model_message" where
  "loop_message role content call calls = \<lparr>mm_role = role, mm_content = content, mm_name = [], mm_tool_call = call,
    mm_calls = calls\<rparr>"

section \<open>The context phase\<close>

definition loop_retrieval_request :: "agent_run \<Rightarrow> retrieval_request" where
  "loop_retrieval_request r =
    (case ag_retrieval r of
      Some q \<Rightarrow> q
    | None \<Rightarrow> \<lparr>rt_workspace = ag_workspace r, rt_request_id = [], rt_idempotency = [],
        rt_actor = \<lparr>ac_id = [], ac_kind = [], ac_name = [], ac_workspace = []\<rparr>, rt_causation = [], rt_correlation = [],
        rt_query = ag_goal r, rt_sources = [], rt_task = [], rt_memo = [], rt_repo = [], rt_max_items = 0,
        rt_max_bytes = min (ab_context_bytes (ag_budget r)) max_retrieval_bytes,
        rt_max_tokens = min (ab_output_tokens (ag_budget r)) max_retrieval_tokens, rt_min_results = 0,
        rt_min_score = 0, rt_candidates = 0, rt_graph = None, rt_vector = None, rt_embedding = []\<rparr>)"

definition stable_context_content :: "loop_codec \<Rightarrow> context_pack \<Rightarrow> string" where
  "stable_context_content X pack = ''fornix_context'' @ [CHR 0x0A] @ lx_items_json X (cp_content_hash pack, cp_items pack)"

definition compile_run_context ::
    "'x orchestrator \<Rightarrow> 'x loop_in \<Rightarrow> agent_run_lease option \<Rightarrow> agent_run \<Rightarrow>
      (retrieval_request \<Rightarrow> 'x agent_db \<Rightarrow> (string + context_pack) \<times> 'x agent_db) \<Rightarrow> 'x agent_db \<Rightarrow> 'x loop_result" where
  "compile_run_context W i owned r retrieve db =
    (let (found, db1) = retrieve (loop_retrieval_request r) db in
    case found of
      Inl e \<Rightarrow> fail W i owned r (loop_failed ''abstained'' (''context compilation failed: '' @ e) ''model'') ''abstained'' db1
    | Inr pack \<Rightarrow>
        if cp_workspace pack \<noteq> ag_workspace r \<or> cp_content_hash pack = []
        then fail W i owned r (loop_failed ''workspace_isolation''
          ''context compiler returned an invalid workspace or content hash'' ''model'') ''abstained'' db1
        else
          let next = r\<lparr>ag_context_hash := cp_content_hash pack, ag_context_bytes := cp_total_bytes pack,
            ag_history := (if cp_items pack = [] then ag_history r
              else ag_history r @ [loop_message ''system'' (stable_context_content (or_codec W) pack) [] []])\<rparr> in
          loop_commit W i owned r next ''agent.context_compiled''
            [(''run_id'', AgText (ag_id r)), (''content_hash'', AgText (cp_content_hash pack)),
             (''items'', AgInt (len (cp_items pack))), (''bytes'', AgInt (cp_total_bytes pack)),
             (''tokens'', AgInt (cp_total_tokens pack)), (''abstained'', AgFlag (cp_abstained pack))]
            (\<lambda>c. decision W ''advanced'' c None) db1)"

section \<open>The model phase\<close>

definition remaining_output :: "agent_run \<Rightarrow> int" where
  "remaining_output r = ab_output_tokens (ag_budget r) - ag_output_tokens r"

definition loop_input_bytes :: "'x orchestrator \<Rightarrow> agent_run \<Rightarrow> int" where
  "loop_input_bytes W r = len (ae_history_json (or_env W) (ag_history r)) + len (lx_tools_json (or_codec W) (ag_tools r))"

definition loop_model_budget :: "agent_run \<Rightarrow> model_budget" where
  "loop_model_budget r =
    (let b = ag_budget r; out = min max_model_output_tokens (remaining_output r) in
    \<lparr>mb_input_bytes = ab_context_bytes b, mb_output_bytes = 0, mb_input_tokens = 0, mb_output_tokens = out,
     mb_total_tokens = max_model_input_tokens + out, mb_cost = max 0 (ab_cost b - mk_total (ag_cost r)),
     mb_timeout_ms = min (max_model_timeout div millisecond) (ab_wall_ms b)\<rparr>)"

definition loop_model_request :: "loop_codec \<Rightarrow> agent_run \<Rightarrow> model_request" where
  "loop_model_request X r =
    (let parts = [ag_id r, show_int (ag_turn r + 1), show_int (ag_step r + 1), show_int (ag_model_attempts r + 1)] in
    \<lparr>mr_schema_version = model_schema_version, mr_request_id = stable_id X ''agent-model-request'' parts,
     mr_idempotency = stable_id X ''agent-model'' parts, mr_causation = ag_causation r,
     mr_correlation = ag_correlation r, mr_workspace = ag_workspace r, mr_actor = ag_actor r, mr_task = ag_task r,
     mr_session = ag_session r, mr_provider = ag_provider r, mr_messages = ag_history r, mr_tools = ag_tools r,
     mr_prompt = [], mr_budget = loop_model_budget r, mr_retry = default_retry_policy,
     mr_metadata = ag_metadata r\<rparr>)"

definition model_timeout_default :: "model_request \<Rightarrow> model_request" where
  "model_timeout_default q =
    (if mb_timeout_ms (mr_budget q) < 1
     then q\<lparr>mr_budget := (mr_budget q)\<lparr>mb_timeout_ms := default_model_timeout_ms\<rparr>\<rparr> else q)"

definition loop_failure_from_model_error :: "model_failure option \<Rightarrow> string \<Rightarrow> int \<Rightarrow> loop_failure" where
  "loop_failure_from_model_error e phase attempt =
    (let f = (loop_failed ''model_failure'' ''model execution failed'' phase)\<lparr>lf_attempt := attempt\<rparr> in
    case e of
      None \<Rightarrow> f
    | Some m \<Rightarrow> f\<lparr>lf_code := mf_code m, lf_message := mf_message m, lf_retryable := mf_retryable m,
        lf_content := mf_content m\<rparr>)"

definition model_call_failed ::
    "'x orchestrator \<Rightarrow> 'x loop_in \<Rightarrow> agent_run_lease option \<Rightarrow> agent_run \<Rightarrow> int \<Rightarrow> model_failure option \<Rightarrow>
      'x agent_db \<Rightarrow> 'x loop_result" where
  "model_call_failed W i owned r attempt e db =
    (let f = loop_failure_from_model_error e (ag_phase r) attempt in
    if lf_retryable f \<and> \<not> lf_content f \<and> attempt < ab_model_steps (ag_budget r)
    then loop_commit W i owned r (r\<lparr>ag_model_attempts := attempt, ag_last_failure := Some f,
        ag_state := ''awaiting_retry'', ag_next_retry := Some (add_duration (li_now i 2) (loop_retry_delay attempt))\<rparr>)
      ''agent.retry_waiting'' [(''run_id'', AgText (ag_id r)), (''phase'', AgText ''model''), (''attempt'', AgInt attempt),
        (''failure'', AgFailure f)] (\<lambda>c. decision W ''waiting'' c (Some f)) db
    else fail_with_attempt W i owned r f ''model_failure'' attempt db)"

definition exceeds_budget :: "agent_run \<Rightarrow> model_response \<Rightarrow> bool" where
  "exceeds_budget r p \<longleftrightarrow>
    mu_output (ms_usage p) > remaining_output r \<or>
    mu_total (ms_usage p) + ag_total_tokens r > ab_output_tokens (ag_budget r) + ag_input_tokens r \<or>
    mk_total (ag_cost r) + mk_total (ms_cost p) > ab_cost (ag_budget r)"

definition model_answered :: "int \<Rightarrow> int \<Rightarrow> model_response \<Rightarrow> agent_run \<Rightarrow> agent_run" where
  "model_answered input_bytes attempt p r =
    r\<lparr>ag_state := ''running'', ag_phase := ''model'', ag_turn := ag_turn r + 1, ag_step := ag_step r + 1,
      ag_model_attempts := attempt, ag_model_calls := ag_model_calls r + 1,
      ag_input_tokens := ag_input_tokens r + mu_input (ms_usage p),
      ag_output_tokens := ag_output_tokens r + mu_output (ms_usage p),
      ag_total_tokens := ag_total_tokens r + mu_total (ms_usage p), ag_context_bytes := input_bytes,
      ag_cost := add_cost (ag_cost r) (ms_cost p), ag_last_failure := None, ag_next_retry := None,
      ag_history := ag_history r @ [loop_message ''assistant'' (ms_content p) [] (ms_calls p)]\<rparr>"

definition loop_model_step ::
    "'x orchestrator \<Rightarrow> 'x loop_in \<Rightarrow> agent_run \<Rightarrow> model_request \<Rightarrow> int \<Rightarrow> model_response \<Rightarrow> model_step" where
  "loop_model_step W i r q attempt p =
    \<lparr>st_id = stable_id (or_codec W) ''model-step'' [ag_id r, show_int (ag_step r + 1)], st_request_id = mr_request_id q,
     st_idempotency = mr_idempotency q, st_attempt = attempt, st_provider = ms_provider p, st_response = Some p,
     st_usage = ms_usage p, st_cost = ms_cost p, st_content = (ms_content p \<noteq> []), st_started = li_now i 2,
     st_finished = li_now i 3\<rparr>"

definition pending_call :: "model_tool_call \<Rightarrow> pending_tool_call" where
  "pending_call c = \<lparr>pt_id = mc_id c, pt_tool = mc_tool c, pt_arguments = mc_arguments c, pt_attempt = 0,
    pt_approval = [], pt_failure = None\<rparr>"

definition model_completed ::
    "'x orchestrator \<Rightarrow> 'x loop_in \<Rightarrow> agent_run_lease option \<Rightarrow> agent_run \<Rightarrow> model_request \<Rightarrow> int \<Rightarrow> model_response \<Rightarrow>
      'x agent_db \<Rightarrow> 'x loop_result" where
  "model_completed W i owned r q attempt p0 db =
    (if exceeds_budget r p0
     then fail_with_attempt W i owned r ((loop_failed ''budget'' ''model response exceeded cumulative budget'' ''model'')
       \<lparr>lf_attempt := attempt\<rparr>) ''budget_exceeded'' attempt db
     else
       let p = p0\<lparr>ms_request_id := mr_request_id q\<rparr>; next = model_answered (loop_input_bytes W r) attempt p r;
           step = loop_model_step W i r q attempt p; calls = len (ms_calls p) in
       if ms_calls p \<noteq> []
       then if ag_tool_calls r + calls > ab_tool_calls (ag_budget r) \<or> calls > max_agent_pending_tools
         then fail_with_attempt W i owned r ((loop_failed ''budget'' ''tool-call budget exceeded'' ''tool'')
           \<lparr>lf_attempt := attempt\<rparr>) ''budget_exceeded'' attempt db
         else loop_commit W i owned r (next\<lparr>ag_phase := ''tool'', ag_pending := map pending_call (ms_calls p),
             ag_tool_calls := ag_tool_calls r + calls\<rparr>) ''agent.model_completed''
           [(''run_id'', AgText (ag_id r)), (''step'', AgInt (ag_step next)), (''model_step'', AgModelStep step),
            (''tool_calls'', AgCalls (ms_calls p))]
           (\<lambda>c. (decision W ''advanced'' c None)\<lparr>ld_model := Some step\<rparr>) db
       else loop_commit W i owned r (next\<lparr>ag_state := ''succeeded'', ag_termination := ''completed'',
           ag_last_output := ms_content p\<rparr>) ''agent.completed''
         [(''run_id'', AgText (ag_id r)), (''step'', AgInt (ag_step next)), (''output'', AgText (ms_content p)),
          (''model_step'', AgModelStep step)]
         (\<lambda>c. (decision W ''terminal'' c None)\<lparr>ld_model := Some step\<rparr>) db)"

definition call_model ::
    "'x orchestrator \<Rightarrow> 'x loop_in \<Rightarrow> agent_run_lease option \<Rightarrow> agent_run \<Rightarrow> 'x agent_db \<Rightarrow> 'x loop_result" where
  "call_model W i owned r db =
    (let b = ag_budget r in
    if ag_turn r \<ge> ab_turns b \<or> ag_model_attempts r \<ge> ab_model_steps b
    then fail W i owned r (loop_failed ''budget'' ''model turn or step budget exceeded'' ''model'') ''budget_exceeded'' db
    else if loop_input_bytes W r > ab_context_bytes b
    then fail W i owned r (loop_failed ''budget'' ''context byte budget exceeded'' ''model'') ''abstained'' db
    else
      let attempt = ag_model_attempts r + 1; q = loop_model_request (or_codec W) r in
      if mb_output_tokens (mr_budget q) < 1
      then fail W i owned r (loop_failed ''budget'' ''output token budget exhausted'' ''model'') ''budget_exceeded'' db
      else
        let (answer, db1) = or_complete W (model_timeout_default q) db in
        case answer of
          Inl e \<Rightarrow> model_call_failed W i owned r attempt e db1
        | Inr p \<Rightarrow> model_completed W i owned r (model_timeout_default q) attempt p db1)"

definition advance_model ::
    "'x orchestrator \<Rightarrow> 'x loop_in \<Rightarrow> agent_run_lease option \<Rightarrow> agent_run \<Rightarrow> 'x agent_db \<Rightarrow> 'x loop_result" where
  "advance_model W i owned r db =
    (case or_retrieve W of
      None \<Rightarrow> call_model W i owned r db
    | Some retrieve \<Rightarrow>
        if ag_context_hash r = [] then compile_run_context W i owned r retrieve db else call_model W i owned r db)"

section \<open>The tool phase\<close>

definition no_sandbox_profile :: sandbox_profile where
  "no_sandbox_profile = \<lparr>sb_backend = [], sb_timeout_ms = 0, sb_stdout = 0, sb_stderr = 0, sb_args = 0, sb_arg_bytes = 0,
    sb_env = 0, sb_env_bytes = 0, sb_root = [], sb_network = False, sb_inherit = False, sb_readonly = False\<rparr>"

definition decode_tool_arguments :: "loop_codec \<Rightarrow> string \<Rightarrow> string + tool_arguments" where
  "decode_tool_arguments X raw =
    (case lx_arguments X (if raw = [] then ''{}'' else raw) of
      Inl e \<Rightarrow> Inl (''tool arguments must be a JSON object: '' @ e)
    | Inr a \<Rightarrow> if ta_argv a = [] then Inl ''tool arguments require argv'' else Inr a)"

definition stable_tool_result_content :: "loop_codec \<Rightarrow> tool_result \<Rightarrow> string" where
  "stable_tool_result_content X p =
    lx_result_json X (tr_status p, tr_exit_code p, tr_stdout p, tr_stderr p, tr_failure p)"

definition agent_tool_failure_code :: "string \<Rightarrow> string" where
  "agent_tool_failure_code code = ''tool:'' @ trim_space code"

text \<open>The automatic request; an approved call repeats it interactively with its approval.\<close>

definition loop_tool_request ::
    "loop_codec \<Rightarrow> agent_run \<Rightarrow> pending_tool_call \<Rightarrow> tool_definition \<Rightarrow> tool_arguments \<Rightarrow> tool_request" where
  "loop_tool_request X r call d a =
    (let parts = [ag_id r, pt_id call, show_int (pt_attempt call + 1)];
         q = \<lparr>tq_schema_version = tool_schema_version, tq_request_id = stable_id X ''agent-tool-request'' parts,
           tq_idempotency = stable_id X ''agent-tool'' parts, tq_causation = ag_causation r,
           tq_correlation = ag_correlation r, tq_workspace = ag_workspace r, tq_actor = ag_actor r,
           tq_task = ag_task r, tq_session = ag_session r, tq_owner = ag_task_owner r, tq_fence = ag_task_fence r,
           tq_tool = td_id d, tq_capability = td_capability d, tq_argv = td_executable d # ta_argv a,
           tq_env = ta_env a, tq_workdir = ta_workdir a, tq_mode = ''automatic'', tq_approval = [],
           tq_budget = no_sandbox_profile\<lparr>sb_timeout_ms := min (sb_timeout_ms (td_sandbox d)) (ab_wall_ms (ag_budget r))\<rparr>,
           tq_metadata = ag_metadata r\<rparr> in
    if ag_state r = ''awaiting_approval'' then q\<lparr>tq_mode := ''interactive'', tq_approval := pt_approval call\<rparr> else q)"

definition outcome_approval :: "tool_outcome \<Rightarrow> string" where
  "outcome_approval o1 = (case oc_run o1 of None \<Rightarrow> [] | Some n \<Rightarrow> tn_approval n)"

definition outcome_status :: "tool_outcome \<Rightarrow> string" where
  "outcome_status o1 = (case oc_run o1 of None \<Rightarrow> [] | Some n \<Rightarrow> tn_status n)"

definition awaits_approval :: "tool_outcome \<Rightarrow> tool_failure \<Rightarrow> bool" where
  "awaits_approval o1 f \<longleftrightarrow> tf_code f = ''approval_required'' \<or>
    (case oc_approval o1 of None \<Rightarrow> False | Some a \<Rightarrow> ap_status a = ''pending'')"

definition tool_call_failed ::
    "'x orchestrator \<Rightarrow> 'x loop_in \<Rightarrow> agent_run_lease option \<Rightarrow> agent_run \<Rightarrow> pending_tool_call \<Rightarrow> pending_tool_call list \<Rightarrow>
      tool_outcome \<Rightarrow> tool_failure \<Rightarrow> 'x agent_db \<Rightarrow> 'x loop_result" where
  "tool_call_failed W i owned r call rest o1 tf db =
    (let attempt = pt_attempt call + 1 in
    if awaits_approval o1 tf
    then let f = loop_failed ''approval_required'' (tf_message tf) ''tool'' in
      loop_commit W i owned r (r\<lparr>ag_state := ''awaiting_approval'', ag_phase := ''tool'',
          ag_pending := call\<lparr>pt_approval := outcome_approval o1\<rparr> # rest, ag_last_failure := Some f\<rparr>)
        ''agent.approval_waiting'' [(''run_id'', AgText (ag_id r)), (''tool_id'', AgText (pt_tool call)),
          (''approval_id'', AgText (outcome_approval o1))]
        (\<lambda>c. decision W ''waiting'' c (Some f)) db
    else if tf_code tf = ''in_progress'' then (Inl ErrLoopWaiting, db)
    else
      let f = (loop_failed (agent_tool_failure_code (tf_code tf)) (tf_message tf) ''tool'')
        \<lparr>lf_retryable := tool_failure.tf_retryable tf, lf_attempt := attempt\<rparr> in
      if lf_retryable f \<and> attempt < ab_tool_attempts (ag_budget r)
      then loop_commit W i owned r (r\<lparr>ag_last_failure := Some f,
          ag_pending := call\<lparr>pt_attempt := attempt, pt_failure := Some f\<rparr> # rest, ag_state := ''awaiting_retry'',
          ag_next_retry := Some (add_duration (li_now i 2) (loop_retry_delay attempt))\<rparr>)
        ''agent.retry_waiting'' [(''run_id'', AgText (ag_id r)), (''phase'', AgText ''tool''),
          (''tool_id'', AgText (pt_tool call)), (''attempt'', AgInt attempt), (''failure'', AgFailure f)]
        (\<lambda>c. decision W ''waiting'' c (Some f)) db
      else fail_with_tool W i owned r f ''tool_failure'' db)"

definition tool_call_completed ::
    "'x orchestrator \<Rightarrow> 'x loop_in \<Rightarrow> agent_run_lease option \<Rightarrow> agent_run \<Rightarrow> pending_tool_call \<Rightarrow> pending_tool_call list \<Rightarrow>
      tool_request \<Rightarrow> tool_outcome \<Rightarrow> tool_result \<Rightarrow> 'x agent_db \<Rightarrow> 'x loop_result" where
  "tool_call_completed W i owned r call rest q o1 p db =
    (let content = stable_tool_result_content (or_codec W) p;
         step = \<lparr>ts_id = pt_id call, ts_tool = pt_tool call, ts_request_id = tq_request_id q,
           ts_idempotency = tq_idempotency q, ts_attempt = pt_attempt call + 1, ts_status = outcome_status o1,
           ts_approval = tq_approval q, ts_result = Some p, ts_started = li_now i 2, ts_finished = li_now i 3\<rparr> in
    loop_commit W i owned r (r\<lparr>ag_state := ''running'', ag_phase := ''model'', ag_last_failure := None,
        ag_next_retry := None, ag_pending := rest,
        ag_history := ag_history r @ [loop_message ''tool'' content (pt_id call) []]\<rparr>)
      ''agent.tool_completed'' [(''run_id'', AgText (ag_id r)), (''tool_step'', AgToolStep step),
        (''tool_result'', AgText content)]
      (\<lambda>c. (decision W ''advanced'' c None)\<lparr>ld_tool := Some step\<rparr>) db)"

text \<open>\<open>advanceTool\<close> on the first pending call; the callers check that there is one.\<close>

definition advance_tool ::
    "'x orchestrator \<Rightarrow> 'x loop_in \<Rightarrow> agent_run_lease option \<Rightarrow> agent_run \<Rightarrow> pending_tool_call \<Rightarrow> pending_tool_call list \<Rightarrow>
      'x agent_db \<Rightarrow> 'x loop_result" where
  "advance_tool W i owned r call rest db =
    (case or_definition W (pt_tool call) of
      None \<Rightarrow> fail W i owned r (loop_failed ''tool_failure'' ''model requested an unregistered tool'' ''tool'')
        ''tool_failure'' db
    | Some d \<Rightarrow>
        if pt_attempt call \<ge> ab_tool_attempts (ag_budget r)
        then fail W i owned r ((loop_failed ''tool_failure'' ''tool retry budget exhausted'' ''tool'')
          \<lparr>lf_attempt := pt_attempt call\<rparr>) ''tool_failure'' db
        else case decode_tool_arguments (or_codec W) (pt_arguments call) of
          Inl e \<Rightarrow> fail W i owned r (loop_failed ''tool_failure'' e ''tool'') ''tool_failure'' db
        | Inr a \<Rightarrow>
            let q = loop_tool_request (or_codec W) r call d a; ((o1, e), db1) = or_execute W q db in
            case e of
              Some (ExecFailure tf) \<Rightarrow> tool_call_failed W i owned r call rest o1 tf db1
            | Some e' \<Rightarrow> (Inl (LoopTool e'), db1)
            | None \<Rightarrow>
                (case oc_result o1 of
                  None \<Rightarrow> (Inl (LoopInvalid ''tool outcome has no result''), db1)
                | Some p \<Rightarrow> tool_call_completed W i owned r call rest q o1 p db1))"

definition advance_approval ::
    "'x orchestrator \<Rightarrow> 'x loop_in \<Rightarrow> agent_run_lease option \<Rightarrow> agent_run \<Rightarrow> 'x agent_db \<Rightarrow> 'x loop_result" where
  "advance_approval W i owned r db =
    (case ag_pending r of
      [] \<Rightarrow> fail W i owned r (loop_failed ''approval_required'' ''approval state has no pending tool'' ''tool'') ''abstained'' db
    | call # rest \<Rightarrow>
        (case or_approvals W of
          None \<Rightarrow> (Inr (waiting_decision W r), db)
        | Some approval_of \<Rightarrow>
            if pt_approval call = [] then (Inr (waiting_decision W r), db)
            else case approval_of (ag_workspace r) (pt_approval call) db of
              None \<Rightarrow> (Inr (waiting_decision W r), db)
            | Some a \<Rightarrow>
                if ap_status a = ''denied'' \<or> ap_status a = ''expired''
                then fail W i owned r (loop_failed ''approval_required'' ''tool approval was not granted'' ''tool'')
                  ''tool_failure'' db
                else if ap_status a = ''approved'' then advance_tool W i owned r call rest db
                else (Inr (waiting_decision W r), db)))"

section \<open>Advance and Run\<close>

definition retry_due ::
    "'x orchestrator \<Rightarrow> 'x loop_in \<Rightarrow> agent_run_lease option \<Rightarrow> agent_run \<Rightarrow> 'x agent_db \<Rightarrow> 'x loop_result" where
  "retry_due W i owned r db =
    (if (case ag_next_retry r of None \<Rightarrow> False | Some t \<Rightarrow> t > li_now i 1) then (Inr (waiting_decision W r), db)
     else loop_commit W i owned r (r\<lparr>ag_state := ''running'', ag_last_failure := None, ag_next_retry := None\<rparr>)
       ''agent.checkpointed'' [(''run_id'', AgText (ag_id r)), (''reason'', AgText ''retry_due'')]
       (\<lambda>c. decision W ''advanced'' c None) db)"

definition advance_phase ::
    "'x orchestrator \<Rightarrow> 'x loop_in \<Rightarrow> agent_run_lease option \<Rightarrow> agent_run \<Rightarrow> 'x agent_db \<Rightarrow> 'x loop_result" where
  "advance_phase W i owned r db =
    (if past_deadline (li_now i 0) r
     then fail W i owned r (loop_failed ''budget'' ''agent loop budget exceeded'' (ag_phase r)) ''budget_exceeded'' db
     else if ag_state r = ''awaiting_external'' then (Inr (waiting_decision W r), db)
     else if ag_state r = ''awaiting_approval'' then advance_approval W i owned r db
     else if ag_state r = ''awaiting_retry'' then retry_due W i owned r db
     else case ag_pending r of
       call # rest \<Rightarrow> advance_tool W i owned r call rest db
     | [] \<Rightarrow> advance_model W i owned r db)"

text \<open>The read of the run and the worker's lease, which every operation starts with.\<close>

definition loop_read ::
    "'x orchestrator \<Rightarrow> 'x loop_in \<Rightarrow> string \<Rightarrow> string \<Rightarrow> 'x agent_db \<Rightarrow> loop_error + agent_run" where
  "loop_read W i workspace rid db = liftE LoopStore (get_agent_run (or_env W) workspace rid db)"

definition advance ::
    "'x orchestrator \<Rightarrow> 'x loop_in \<Rightarrow> agent_run_lease option \<Rightarrow> string \<Rightarrow> string \<Rightarrow> 'x agent_db \<Rightarrow> 'x loop_result" where
  "advance W i owned workspace rid db0 =
    (if \<not> or_configured W then (Inl ErrLoopNotConfigured, db0)
     else
       let db = li_between i 0 db0 in
       case loop_read W i workspace rid db of
         Inl e \<Rightarrow> (Inl e, db)
       | Inr r \<Rightarrow>
           if is_agent_terminal (ag_state r) then (Inr (terminal_decision W r), db)
           else
             let db1 = li_between i 1 db in
             case validate_worker_lease W i owned r db1 of
               Inl e \<Rightarrow> (Inl e, db1)
             | Inr _ \<Rightarrow> advance_phase W i owned r db1)"

text \<open>The phases of \<open>Run\<close>: \<open>Inl\<close> is what a phase made \<open>Run\<close> return, \<open>Inr\<close> the run of the last
  decision and the tables when the phases are used up.\<close>

fun run_phases ::
    "'x orchestrator \<Rightarrow> (nat \<Rightarrow> 'x loop_in) \<Rightarrow> agent_run_lease option \<Rightarrow> string \<Rightarrow> string \<Rightarrow> nat \<Rightarrow> agent_run \<Rightarrow>
      'x agent_db \<Rightarrow> 'x loop_result + agent_run \<times> 'x agent_db" where
  "run_phases W ins owned workspace rid 0 r db = Inr (r, db)"
| "run_phases W ins owned workspace rid (Suc n) r db =
    (case advance W (ins (Suc n)) owned workspace rid db of
      (Inl e, db') \<Rightarrow> Inl (Inl e, db')
    | (Inr d, db') \<Rightarrow>
        if ld_action d \<noteq> ''advanced'' then Inl (Inr d, db')
        else run_phases W ins owned workspace rid n (ld_run d) db')"

definition max_phases :: "agent_budget \<Rightarrow> nat" where
  "max_phases b =
    (let n = ab_model_steps b + ab_tool_calls b + ab_turns b + 4 in nat (if n < 4 then 4 else n))"

text \<open>\<open>ins 0\<close> serves the read of \<open>Run\<close> and its failures, \<open>ins (Suc n)\<close> the phase with \<open>n\<close> to follow.\<close>

definition run_loop ::
    "'x orchestrator \<Rightarrow> (nat \<Rightarrow> 'x loop_in) \<Rightarrow> agent_run_lease option \<Rightarrow> string \<Rightarrow> string \<Rightarrow> 'x agent_db \<Rightarrow> 'x loop_result" where
  "run_loop W ins owned workspace rid db0 =
    (if \<not> or_configured W then (Inl ErrLoopNotConfigured, db0)
     else
       let db = li_between (ins 0) 0 db0 in
       case loop_read W (ins 0) workspace rid db of
         Inl e \<Rightarrow> (Inl e, db)
       | Inr r \<Rightarrow>
           if past_deadline (li_now (ins 0) 0) r \<and> \<not> is_agent_terminal (ag_state r)
           then fail W (ins 0) owned r (loop_failed ''budget'' ''agent wall-clock budget exceeded'' (ag_phase r))
             ''budget_exceeded'' db
           else
             (case run_phases W ins owned workspace rid (max_phases (ag_budget r)) r db of
               Inl result \<Rightarrow> result
             | Inr (r1, db') \<Rightarrow>
                 fail W (ins 0) owned r1 (loop_failed ''budget'' ''agent phase budget exceeded'' (ag_phase r1))
                   ''budget_exceeded'' db'))"

section \<open>Cancellation and external completion\<close>

text \<open>The common start of \<open>Cancel\<close>, \<open>WaitExternal\<close> and \<open>CompleteExternal\<close>: they differ in what they
  require of the run (\<open>pre\<close>) before the lease is checked.\<close>

definition with_open_run ::
    "'x orchestrator \<Rightarrow> 'x loop_in \<Rightarrow> agent_run_lease option \<Rightarrow> string \<Rightarrow> string \<Rightarrow> (agent_run \<Rightarrow> loop_error + unit) \<Rightarrow>
      (agent_run \<Rightarrow> 'x agent_db \<Rightarrow> 'x loop_result) \<Rightarrow> 'x agent_db \<Rightarrow> 'x loop_result" where
  "with_open_run W i owned workspace rid pre act db0 =
    (let db = li_between i 0 db0 in
    case loop_read W i workspace rid db of
      Inl e \<Rightarrow> (Inl e, db)
    | Inr r \<Rightarrow>
        if is_agent_terminal (ag_state r) then (Inr (terminal_decision W r), db)
        else
          let db1 = li_between i 1 db in
          case bindE (pre r) (\<lambda>_. validate_worker_lease W i owned r db1) of
            Inl e \<Rightarrow> (Inl e, db1)
          | Inr _ \<Rightarrow> act r db1)"

definition non_blank :: "string \<Rightarrow> string \<Rightarrow> string" where
  "non_blank fallback s = (if trim_space s = [] then fallback else trim_space s)"

definition cancel_loop ::
    "'x orchestrator \<Rightarrow> 'x loop_in \<Rightarrow> agent_run_lease option \<Rightarrow> string \<Rightarrow> string \<Rightarrow> string \<Rightarrow> 'x agent_db \<Rightarrow> 'x loop_result" where
  "cancel_loop W i owned workspace rid reason =
    with_open_run W i owned workspace rid (\<lambda>_. Inr ()) (\<lambda>r.
      let message = non_blank ''agent run cancelled'' reason in
      loop_commit W i owned r (r\<lparr>ag_state := ''cancelled'', ag_phase := ''model'', ag_termination := ''cancelled'',
          ag_pending := [], ag_last_failure := Some (loop_failed ''cancelled'' message (ag_phase r))\<rparr>)
        ''agent.cancelled'' [(''run_id'', AgText (ag_id r)), (''reason'', AgText message)] (terminal_decision W))"

definition wait_external ::
    "'x orchestrator \<Rightarrow> 'x loop_in \<Rightarrow> agent_run_lease option \<Rightarrow> string \<Rightarrow> string \<Rightarrow> string \<Rightarrow> 'x agent_db \<Rightarrow> 'x loop_result" where
  "wait_external W i owned workspace rid reason =
    with_open_run W i owned workspace rid (\<lambda>_. Inr ()) (\<lambda>r.
      let message = non_blank ''external completion is required'' reason in
      loop_commit W i owned r (r\<lparr>ag_state := ''awaiting_external'',
          ag_last_failure := Some (loop_failed ''external_completion'' message (ag_phase r)), ag_next_retry := None\<rparr>)
        ''agent.external_waiting'' [(''run_id'', AgText (ag_id r)), (''reason'', AgText message)] (waiting_decision W))"

definition externally_completed :: "string \<Rightarrow> agent_run \<Rightarrow> agent_run" where
  "externally_completed output r =
    r\<lparr>ag_state := ''succeeded'', ag_phase := ''model'', ag_termination := ''completed'', ag_last_failure := None,
      ag_next_retry := None, ag_last_output := output, ag_turn := ag_turn r + 1, ag_step := ag_step r + 1,
      ag_output_tokens := ag_output_tokens r + estimate_model_tokens output,
      ag_total_tokens := ag_total_tokens r + estimate_model_tokens output,
      ag_history := ag_history r @ [loop_message ''assistant'' output [] []]\<rparr>"

definition complete_external ::
    "'x orchestrator \<Rightarrow> 'x loop_in \<Rightarrow> agent_run_lease option \<Rightarrow> string \<Rightarrow> string \<Rightarrow> string \<Rightarrow> 'x agent_db \<Rightarrow> 'x loop_result" where
  "complete_external W i owned workspace rid output0 =
    with_open_run W i owned workspace rid
      (\<lambda>r. guardE (ag_state r = ''awaiting_external'') (LoopInvalid ''agent run is not awaiting external completion''))
      (\<lambda>r db.
        let output = trim_space output0 in
        if output = [] then (Inl (LoopInvalid ''external completion output is required''), db)
        else if estimate_model_tokens output > remaining_output r \<or> len output > ab_context_bytes (ag_budget r)
        then fail W i owned r (loop_failed ''budget'' ''external completion exceeds run budget'' (ag_phase r))
          ''budget_exceeded'' db
        else loop_commit W i owned r (externally_completed output r) ''agent.external_completed''
          [(''run_id'', AgText (ag_id r)), (''output'', AgText output)] (terminal_decision W) db)"

end
