(* ===== verification/Agent_Safety.thy ===== *)
theory Agent_Safety
  imports Agent_Commit Task_Lifecycle
begin

text \<open>
  Histories of agent runs.

  The system state is the database and the list of runs handed to callers: \<open>commit\<close> trusts the run its
  caller read, so its steps take that run from the list.  \<open>agent_step\<close> has one rule per operation of
  the store and a rule for whatever leaves the two tables alone.  A row only moves to a later
  version (\<open>run_le\<close>), and the third lease table meets the contract of \<open>Fencing\<close>.
\<close>

section \<open>Frames\<close>

lemma append_agent_event_frame:
  assumes "append_agent_event E j et r p db = Inr (e, db')"
  shows "agent_rows db' = agent_rows db" and "run_leases db' = run_leases db"
  using assms by (auto simp: append_agent_event_def results elim!: append_tx_Inr)

lemma observe_agent_tx_frame:
  assumes "observe_agent_tx E l db = Inr db'"
  shows "agent_rows db' = agent_rows db" and "run_leases db' = run_leases db"
  using assms by (auto simp: observe_agent_tx_def results)

lemma observe_transition_frame:
  assumes "observe_transition E r db = Inr db'"
  shows "agent_rows db' = agent_rows db" and "run_leases db' = run_leases db"
  using assms
  by (auto simp: observe_transition_def Let_def results observe_agent_tx_frame split: if_split_asm)

section \<open>Effects\<close>

lemma find_agent_row_Some:
  "find_agent_row w rid db = Some row \<Longrightarrow>
    row \<in> set (agent_rows db) \<and> ag_workspace (ro_run row) = w \<and> ag_id (ro_run row) = rid"
  by (auto simp: find_agent_row_def find_Some_iff)

text \<open>Hydration replaces the history and the output only.\<close>

definition same_identity :: "agent_run \<Rightarrow> agent_run \<Rightarrow> bool" where
  "same_identity a b \<longleftrightarrow> ag_id a = ag_id b \<and> ag_workspace a = ag_workspace b \<and> ag_version a = ag_version b \<and>
    ag_state a = ag_state b"

lemma hydrate_Inr:
  assumes "hydrate_agent_run E ev r = Inr r'"
  obtains h out where "r' = r\<lparr>ag_history := h, ag_last_output := out\<rparr>"
proof -
  from assms obtain r1 where r1: "(case ag_output_artifact r of
        None \<Rightarrow> Inr r
      | Some a \<Rightarrow> bindE (liftE AgentArtifactFailed (ae_artifact_text E (ag_workspace r) a ''last_output'' ev)) (\<lambda>raw.
          Inr (r\<lparr>ag_last_output := raw\<rparr>))) = Inr r1"
    and r': "(case ag_history_artifact r1 of
      None \<Rightarrow> Inr r1
    | Some a \<Rightarrow> bindE (liftE AgentArtifactFailed (ae_artifact_text E (ag_workspace r1) a ''history'' ev)) (\<lambda>raw.
        case ae_history_decode E raw of
          None \<Rightarrow> Inl (AgentStoreInvalid ''decode agent history artifact'')
        | Some h \<Rightarrow> Inr (r1\<lparr>ag_history := h\<rparr>))) = Inr r'"
    unfolding hydrate_agent_run_def by (rule bindE_InrE)
  from r1 have "r1 = r\<lparr>ag_last_output := ag_last_output r1\<rparr>"
    by (cases "ag_output_artifact r") (auto simp: results elim: bindE_InrE)
  moreover from r' have "r' = r1\<lparr>ag_history := ag_history r'\<rparr>"
    by (cases "ag_history_artifact r1") (auto simp: results split: option.split_asm)
  ultimately obtain out h where "r1 = r\<lparr>ag_last_output := out\<rparr>" and "r' = r1\<lparr>ag_history := h\<rparr>" by blast
  then show thesis using that [where h = h and out = out] by simp
qed

lemma hydrate_fields: "hydrate_agent_run E ev r = Inr r' \<Longrightarrow> same_identity r' r"
  by (erule hydrate_Inr) (simp add: same_identity_def)

lemma read_agent_run_Inr:
  assumes "read_agent_run E w rid db = Inr r"
  obtains row where "find_agent_row w rid db = Some row" and "same_identity r (ro_run row)"
  using assms
  by (auto simp: read_agent_run_def scan_agent_run_def results dest!: hydrate_fields split: option.split_asm if_split_asm)

text \<open>The run a commit returns, from its candidate, the stored texts and the event's sequence.\<close>

abbreviation committed_run :: "agent_run \<Rightarrow> stored_output \<Rightarrow> event \<Rightarrow> agent_run" where
  "committed_run next stored e \<equiv> next\<lparr>ag_output_artifact := so_output_artifact stored,
    ag_history_artifact := so_history_artifact stored, ag_sequence := ev_sequence e\<rparr>"

lemma commit_tx_Inr:
  assumes "commit_tx E i current next0 etype payload owned db = Inr (r, db')"
  obtains u nx locked stored ev e db1 db2 db3 db4 where "commit_admit current next0 owned = Inr u"
    and "prepare_commit E (ai_now i) current next0 = Inr nx"
    and "read_agent_run E (ag_workspace current) (ag_id current) db = Inr locked"
    and "\<not> ag_version locked \<noteq> ag_version current"
    and "renew_owned_lease i owned (db\<lparr>evidence_tables := ev\<rparr>) = Inr db1"
    and "append_agent_event E (ai_io i) etype (nx\<lparr>ag_output_artifact := so_output_artifact stored,
      ag_history_artifact := so_history_artifact stored\<rparr>) payload db1 = Inr (e, db2)"
    and "write_checkpoint (ag_version current) (committed_run nx stored e) stored db2 = Inr db3"
    and "observe_transition E (committed_run nx stored e) db3 = Inr db4"
    and "Inr (committed_run nx stored e, db4) = (Inr (r, db') :: agent_error + _)"
  using assms unfolding commit_tx_def Let_def
  by (elim handler_elims) (rule that)

lemma normalize_run_Inr:
  assumes "normalize_run_for_commit r = Inr r'"
  obtains b where "normalize_agent_budget (ag_budget r) = Inr b" and "r' = r\<lparr>ag_budget := b\<rparr>"
  using assms unfolding normalize_run_for_commit_def
  by (elim if_InlE bindE_InrE) (auto simp: results intro: that)

lemma redact_output_Inr:
  assumes "redact_agent_output E r = Inr r'"
  obtains h out where "r' = r\<lparr>ag_history := h, ag_last_output := out\<rparr>"
  using assms by (auto simp: redact_agent_output_def split: option.split_asm)

lemma prepare_commit_parts:
  assumes "prepare_commit E now current next0 = Inr nx"
  obtains b h out where "normalize_agent_budget (ag_budget next0) = Inr b"
    and "nx = stamp_commit E now current (next0\<lparr>ag_budget := b, ag_history := h, ag_last_output := out\<rparr>)"
proof -
  from assms obtain n1 n2 where n1: "normalize_run_for_commit next0 = Inr n1" and n2: "redact_agent_output E n1 = Inr n2"
    and nx: "nx = stamp_commit E now current n2"
    unfolding prepare_commit_def Let_def by (elim bindE_InrE if_InlE) simp
  from n1 obtain b where "normalize_agent_budget (ag_budget next0) = Inr b" "n1 = next0\<lparr>ag_budget := b\<rparr>"
    by (rule normalize_run_Inr)
  with n2 nx that show thesis by (auto elim: redact_output_Inr)
qed

lemma prepare_commit_Inr:
  assumes "prepare_commit E now current next0 = Inr nx"
  shows "ag_id nx = ag_id next0" and "ag_workspace nx = ag_workspace next0" and "ag_state nx = ag_state next0"
    and "ag_version nx = ag_version current + 1" and "ag_sequence nx = ag_sequence current"
  using assms by (auto elim!: prepare_commit_parts simp: stamp_commit_def Let_def)

lemma commit_admit_ok [results]:
  "commit_admit current nx owned = Inr u \<longleftrightarrow>
    trim_space (ag_id current) \<noteq> [] \<and> trim_space (ag_workspace current) \<noteq> [] \<and>
    trim_space (ag_id nx) = ag_id current \<and> trim_space (ag_workspace nx) = ag_workspace current \<and>
    check_owned_lease current owned = Inr () \<and>
    (is_agent_terminal (ag_state current) \<longrightarrow> ag_state current = ag_state nx)"
  by (auto simp: commit_admit_def results)

lemma write_checkpoint_ok [results]:
  "write_checkpoint v nx s db = Inr db' \<longleftrightarrow>
    run_columns_fit nx \<and> run_checks nx \<and>
    list_ex (\<lambda>row. ag_workspace (ro_run row) = ag_workspace nx \<and> ag_id (ro_run row) = ag_id nx \<and>
      ag_version (ro_run row) = v) (agent_rows db) \<and>
    db' = db\<lparr>agent_rows := map (\<lambda>row. if ag_workspace (ro_run row) = ag_workspace nx \<and>
        ag_id (ro_run row) = ag_id nx \<and> ag_version (ro_run row) = v
      then row\<lparr>ro_run := checkpoint_columns nx s (ro_run row)\<rparr> else row) (agent_rows db)\<rparr>"
  by (auto simp: write_checkpoint_def Let_def)

lemma validate_run_lease_ok:
  "validate_agent_run_lease_tx now l db = Inr q \<longleftrightarrow>
    trim_space (lease_workspace l) \<noteq> [] \<and> trim_space (lease_key l) \<noteq> [] \<and> trim_space (lease_owner l) \<noteq> [] \<and>
    lease_fence l \<noteq> 0 \<and> lease_fence l \<le> max_fence \<and>
    run_leases db (trim_space (lease_workspace l), trim_space (lease_key l)) = Some q \<and> 0 < lease_fence q \<and>
    lease_fence q = lease_fence l \<and> lease_owner q = lease_owner l \<and> lease_active now q"
  by (auto simp: validate_agent_run_lease_tx_def read_agent_run_lease_tx_def check_lease_row_def Let_def lease_active_def
      results split: option.splits if_split_asm)

lemma commit_tx_effect:
  assumes "commit_tx E i current next0 etype payload owned db = Inr (r, db')"
  obtains row stored where "find_agent_row (ag_workspace current) (ag_id current) db = Some row"
    and "ag_version (ro_run row) = ag_version current"
    and "trim_space (ag_id r) = ag_id current" and "trim_space (ag_workspace r) = ag_workspace current"
    and "ag_version r = ag_version current + 1" and "run_checks r"
    and "is_agent_terminal (ag_state current) \<longrightarrow> ag_state current = ag_state r"
    and "agent_rows db' = map (\<lambda>q. if ag_workspace (ro_run q) = ag_workspace r \<and> ag_id (ro_run q) = ag_id r \<and>
        ag_version (ro_run q) = ag_version current
      then q\<lparr>ro_run := checkpoint_columns r stored (ro_run q)\<rparr> else q) (agent_rows db)"
    and "list_ex (\<lambda>q. ag_workspace (ro_run q) = ag_workspace r \<and> ag_id (ro_run q) = ag_id r \<and>
        ag_version (ro_run q) = ag_version current) (agent_rows db)"
    and "check_owned_lease current owned = Inr ()"
    and "case owned of None \<Rightarrow> run_leases db' = run_leases db
      | Some l \<Rightarrow> (\<exists>q ttl. validate_agent_run_lease_tx (ai_clock i 2) l db = Inr q \<and>
          run_leases db' = run_leases (update_run_lease l (renewed_run_lease (ai_clock i 3) ttl) db))"
  using assms
proof (cases rule: commit_tx_Inr)
  case (1 u nx locked stored ev e db1 db2 db3 db4)
  note p = prepare_commit_Inr [OF 1(2)]
  have r: "r = committed_run nx stored e" "db4 = db'" using 1(9) by simp_all
  from read_agent_run_Inr [OF 1(3)] obtain row where
    row: "find_agent_row (ag_workspace current) (ag_id current) db = Some row" "same_identity locked (ro_run row)" .
  have l: "case owned of None \<Rightarrow> run_leases db1 = run_leases db
      | Some l \<Rightarrow> (\<exists>q ttl. validate_agent_run_lease_tx (ai_clock i 2) l db = Inr q \<and>
          run_leases db1 = run_leases (update_run_lease l (renewed_run_lease (ai_clock i 3) ttl) db))"
    and a: "agent_rows db1 = agent_rows db"
    using 1(5) by (auto simp: renew_owned_lease_def update_run_lease_def validate_run_lease_ok results split: option.splits)
  note f = append_agent_event_frame [OF 1(6)] observe_transition_frame [OF 1(8)]
  have w: "run_checks r" "agent_rows db3 = map (\<lambda>q. if ag_workspace (ro_run q) = ag_workspace r \<and> ag_id (ro_run q) = ag_id r \<and>
        ag_version (ro_run q) = ag_version current
      then q\<lparr>ro_run := checkpoint_columns r stored (ro_run q)\<rparr> else q) (agent_rows db)"
    "list_ex (\<lambda>q. ag_workspace (ro_run q) = ag_workspace r \<and> ag_id (ro_run q) = ag_id r \<and>
        ag_version (ro_run q) = ag_version current) (agent_rows db)"
    "run_leases db3 = run_leases db2"
    using 1(7) f a by (simp_all add: write_checkpoint_ok r)
  show thesis
    by (rule that [OF row(1)])
      (use 1(1,4) row p w f l a in \<open>auto simp: same_identity_def r commit_admit_ok split: option.splits\<close>)
qed

lemma renew_run_lease_effect:
  assumes "renew_agent_run_lease_tx E i l ttl0 db = Inr (r, db')"
  obtains q ttl where "validate_agent_run_lease_tx (ai_clock i 0) l db = Inr q"
    and "run_leases db' = run_leases (update_run_lease l (renewed_run_lease (ai_clock i 1) ttl) db)"
    and "agent_rows db' = agent_rows db"
  using assms unfolding renew_agent_run_lease_tx_def Let_def
  by (elim handler_elims) (fastforce intro: that simp: update_run_lease_def dest: observe_agent_tx_frame)

definition released_run_lease :: "time \<Rightarrow> string lease \<Rightarrow> string lease" where
  "released_run_lease now r = r\<lparr>lease_until := now, lease_released := Some now, lease_renewed := now\<rparr>"

lemma release_run_lease_effect:
  assumes "release_agent_run_lease_tx E i l db = Inr (r, db')"
  obtains q where "validate_agent_run_lease_tx (ai_clock i 0) l db = Inr q"
    and "run_leases db' = run_leases (update_run_lease l (released_run_lease (ai_clock i 1)) db)"
    and "agent_rows db' = agent_rows db"
  using assms unfolding release_agent_run_lease_tx_def
  by (elim handler_elims)
    (fastforce intro: that simp: update_run_lease_def released_run_lease_def [abs_def] dest: observe_agent_tx_frame)

text \<open>The lease row a claim writes.\<close>

definition granted_run_lease ::
    "time \<Rightarrow> string \<Rightarrow> string \<Rightarrow> string \<Rightarrow> duration \<Rightarrow> string lease option \<Rightarrow> string lease" where
  "granted_run_lease now w rid owner ttl found =
    (case found of None \<Rightarrow> first_run_lease now w rid owner ttl | Some l \<Rightarrow> taken_run_lease now owner ttl l)"

lemma read_run_lease_cases:
  "read_agent_run_lease_tx now w rid db =
    (case run_leases db (trim_space w, trim_space rid) of
      None \<Rightarrow> Inl ErrAgentRunLeaseMissing
    | Some l \<Rightarrow> if lease_fence l \<le> 0 then Inl (AgentStoreInvalid ''agent run worker lease has invalid fence'')
        else Inr (l, lease_active now l))"
  by (simp add: read_agent_run_lease_tx_def)

lemma grant_run_lease_Inr:
  assumes "grant_run_lease now w rid owner ttl (run_leases db (w, rid)) db = Inr db1"
  shows "db1 = db\<lparr>run_leases := (run_leases db)((w, rid) \<mapsto>
      granted_run_lease now w rid owner ttl (run_leases db (w, rid)))\<rparr>"
    and "\<And>l. run_leases db (w, rid) = Some l \<Longrightarrow> lease_fence l < max_fence"
  using assms
  by (auto simp: grant_run_lease_def granted_run_lease_def insert_new_def update_where_def split: option.splits if_splits)

lemma claim_row_Inr:
  assumes "claim_row_tx E i owner ttl row db = Inr (Some c, db')"
    and "trim_space (ag_workspace (ro_run row)) = ag_workspace (ro_run row)"
    and "trim_space (ag_id (ro_run row)) = ag_id (ro_run row)"
  obtains g where "read_agent_run E (ag_workspace (ro_run row)) (ag_id (ro_run row)) db = Inr (acl_run c)"
    and "\<And>l. run_leases db (ag_workspace (ro_run row), ag_id (ro_run row)) = Some l \<Longrightarrow>
      0 < lease_fence l \<and> lease_fence l < max_fence \<and> \<not> lease_active (ai_clock i 1) l"
    and "g = granted_run_lease (ai_clock i 2) (ag_workspace (ro_run row)) (ag_id (ro_run row)) owner ttl
      (run_leases db (ag_workspace (ro_run row), ag_id (ro_run row)))"
    and "lease_active (ai_clock i 3) g" and "lease_owner g = owner" and "0 < lease_fence g"
    and "acl_lease c = handed_lease g ttl"
    and "acl_takeover c \<longleftrightarrow> run_leases db (ag_workspace (ro_run row), ag_id (ro_run row)) \<noteq> None"
    and "run_leases db' = (run_leases db)((ag_workspace (ro_run row), ag_id (ro_run row)) \<mapsto> g)"
    and "agent_rows db' = agent_rows (update_agent_row (ag_workspace (ro_run row)) (ag_id (ro_run row))
      (\<lambda>q. q\<lparr>ro_attempts := ro_attempts q + 1, ro_worker := owner\<rparr>) db)"
proof -
  let ?w = "ag_workspace (ro_run row)" and ?k = "ag_id (ro_run row)"
  let ?found = "run_leases db (?w, ?k)"
  from assms(1) obtain r found active db1 l live db2 where
    r: "read_agent_run E ?w ?k db = Inr r"
    and f: "(case read_agent_run_lease_tx (ai_clock i 1) ?w ?k db of
        Inr (l, active) \<Rightarrow> Inr (Some l, active)
      | Inl e \<Rightarrow> if e = ErrAgentRunLeaseMissing then Inr (None, False) else Inl e) = Inr (found, active)"
    and na: "\<not> active"
    and g: "grant_run_lease (ai_clock i 2) ?w ?k owner ttl found db = Inr db1"
    and l: "read_agent_run_lease_tx (ai_clock i 3) ?w ?k db1 = Inr (l, live)"
    and ok: "\<not> (\<not> live \<or> lease_owner l \<noteq> owner \<or> lease_fence l = 0)"
    and o': "observe_agent_tx E (''scheduler-observation:'' @ ?k @ '':'' @ show_int (lease_fence l))
      (update_agent_row ?w ?k (\<lambda>q. q\<lparr>ro_attempts := ro_attempts q + 1, ro_worker := owner\<rparr>) db1) = Inr db2"
    and c: "c = \<lparr>acl_run = r, acl_lease = handed_lease l ttl, acl_takeover = (found \<noteq> None)\<rparr>" "db' = db2"
    unfolding claim_row_tx_def Let_def
    by (auto simp: results split: if_split_asm)
  have found: "found = ?found" "\<And>l. ?found = Some l \<Longrightarrow> 0 < lease_fence l \<and> \<not> lease_active (ai_clock i 1) l"
    using f na assms(2,3) by (auto simp: read_run_lease_cases split: option.splits if_splits)
  note gr = grant_run_lease_Inr [OF g [unfolded found(1)]]
  have lr: "l = granted_run_lease (ai_clock i 2) ?w ?k owner ttl ?found" "live = lease_active (ai_clock i 3) l" "0 < lease_fence l"
    using l assms(2,3) by (auto simp: read_run_lease_cases gr(1) split: if_splits)
  show thesis
    by (rule that [of l]) (use r found gr lr ok c observe_agent_tx_frame [OF o'] in \<open>auto simp: update_agent_row_def\<close>)
qed

section \<open>Steps\<close>

type_synonym 'x agent_sys = "'x agent_db \<times> agent_run list"

inductive agent_step :: "'x agent_env \<Rightarrow> time \<times> 'x agent_sys \<Rightarrow> time \<times> 'x agent_sys \<Rightarrow> bool" for E where
  get: "n \<le> m \<Longrightarrow> get_agent_run E w rid s = Inr r \<Longrightarrow> agent_step E (n, s, h) (m, s, r # h)"
| reserve: "clock_within n m (ai_clock i) \<Longrightarrow> trim_space (ai_new_run i) = ai_new_run i \<Longrightarrow>
    reserve_agent_tx E i q s = Inr ((r, dup), t) \<Longrightarrow> agent_step E (n, s, h) (m, t, r # h)"
| commit: "clock_within n m (ai_clock i) \<Longrightarrow> current \<in> set h \<Longrightarrow>
    commit_tx E i current nx etype payload owned s = Inr (r, t) \<Longrightarrow> agent_step E (n, s, h) (m, t, r # h)"
| claim: "clock_within n m (ai_clock i) \<Longrightarrow> claim_next_agent_run_tx E i w own ttl s = Inr (Some c, t) \<Longrightarrow>
    agent_step E (n, s, h) (m, t, acl_run c # h)"
| renew: "clock_within n m (ai_clock i) \<Longrightarrow> renew_agent_run_lease_tx E i l ttl s = Inr (l', t) \<Longrightarrow>
    agent_step E (n, s, h) (m, t, h)"
| release: "clock_within n m (ai_clock i) \<Longrightarrow> release_agent_run_lease_tx E i l s = Inr (u, t) \<Longrightarrow>
    agent_step E (n, s, h) (m, t, h)"
| other: "n \<le> m \<Longrightarrow> agent_rows t = agent_rows s \<Longrightarrow> run_leases t = run_leases s \<Longrightarrow> agent_step E (n, s, h) (m, t, h)"

section \<open>The lease contract\<close>

definition run_lease_row :: "'x agent_sys \<Rightarrow> string \<times> string \<Rightarrow> string lease option" where
  "run_lease_row s k = run_leases (fst s) (trim_space (fst k), trim_space (snd k))"

definition run_token_ok :: "time \<Rightarrow> 'x agent_sys \<Rightarrow> string \<times> string \<Rightarrow> string \<Rightarrow> int \<Rightarrow> bool" where
  "run_token_ok now s k own f \<longleftrightarrow>
    (case validate_agent_run_lease_tx now \<lparr>lease_workspace = fst k, lease_key = snd k, lease_owner = own,
        lease_fence = f, lease_until = 0, lease_acquired = 0, lease_renewed = 0, lease_released = None\<rparr> (fst s) of
      Inl _ \<Rightarrow> False
    | Inr _ \<Rightarrow> True)"

lemma run_token_ok_alt:
  "run_token_ok now s k own f \<longleftrightarrow> (\<exists>q. validate_agent_run_lease_tx now
    \<lparr>lease_workspace = fst k, lease_key = snd k, lease_owner = own, lease_fence = f, lease_until = 0,
      lease_acquired = 0, lease_renewed = 0, lease_released = None\<rparr> (fst s) = Inr q)"
  by (simp add: run_token_ok_def split: sum.split)

lemma run_token_ok_iff:
  "run_token_ok now s (lease_workspace l, lease_key l) (lease_owner l) (lease_fence l) \<longleftrightarrow>
    (\<exists>q. validate_agent_run_lease_tx now l (fst s) = Inr q)"
  by (simp add: run_token_ok_alt validate_run_lease_ok)

lemma run_token_ok_row:
  "run_token_ok now s k own f \<Longrightarrow>
    \<exists>l. run_lease_row s k = Some l \<and> lease_owner l = own \<and> lease_fence l = f \<and> lease_active now l"
  by (auto simp: run_token_ok_alt run_lease_row_def validate_run_lease_ok)

text \<open>A renewal or a release of a live token.\<close>

lemma update_run_lease_le:
  assumes "validate_agent_run_lease_tx n l s = Inr q" and "n0 \<le> n" and "n0 \<le> m"
    and "run_leases s (w, k) = Some a" and "trim_space w = w" and "trim_space k = k"
    and "\<And>r. lease_owner (f r) = lease_owner r \<and> lease_fence (f r) = lease_fence r"
  shows "\<exists>b. run_leases (update_run_lease l f s) (w, k) = Some b \<and> lease_le n0 a m b"
proof (cases "(w, k) = (lease_workspace l, lease_key l)")
  case True
  with assms(1,4,5,6) have "a = q" "lease_active n q" by (auto simp: validate_run_lease_ok)
  with assms(2) have "lease_active n0 a" by (blast intro: lease_active_antimono)
  with True assms(4,7) show ?thesis
    by (auto simp: update_run_lease_def update_where_same lease_le_refl [OF assms(3)] intro!: lease_le_live)
next
  case False
  with assms(3,4) show ?thesis by (auto simp: update_run_lease_def lease_le_refl)
qed

lemma claim_row_leases:
  assumes "claim_row_tx E i owner ttl row db = Inr (c, db')" and "k \<noteq> (ag_workspace (ro_run row), ag_id (ro_run row))"
  shows "run_leases db' k = run_leases db k"
  using assms unfolding claim_row_tx_def Let_def
  by (auto simp: results grant_run_lease_def insert_new_def update_agent_row_def observe_agent_tx_frame
      split: if_split_asm option.split_asm)

lemma claim_next_run_Inr:
  assumes "claim_next_agent_run_tx E i w own ttl s = Inr (Some c, t)"
  obtains row where "select_next_run (ai_clock i 0) (ai_locked i) (trim_space w) s = Some row"
    and "trim_space own \<noteq> []"
    and "claim_row_tx E i (trim_space own) (normalize_agent_run_lease_ttl ttl) row s = Inr (Some c, t)"
  using assms by (auto simp: claim_next_agent_run_tx_def Let_def split: if_split_asm option.split_asm)

lemma reserve_agent_tx_leases:
  assumes "reserve_agent_tx E i q s = Inr (r, t)"
  shows "run_leases t = run_leases s"
  using assms unfolding reserve_agent_tx_def Let_def
  by (auto simp: results update_agent_row_def append_agent_event_frame split: if_split_asm)

lemma agent_step_time: "agent_step E (n, s) (m, t) \<Longrightarrow> n \<le> m"
  by (erule agent_step.cases) (auto dest: clock_withinD(4))

lemma agent_step_lease:
  assumes "agent_step E (n, s) (m, t)" and "run_lease_row s k = Some l"
  shows "\<exists>l'. run_lease_row t k = Some l' \<and> lease_le n l m l'"
proof -
  define w where "w = trim_space (fst k)"
  define d where "d = trim_space (snd k)"
  have wd: "trim_space w = w" "trim_space d = d" by (simp_all add: w_def d_def)
  have l: "run_leases (fst s) (w, d) = Some l" using assms(2) by (simp add: run_lease_row_def w_def d_def)
  have nm: "n \<le> m" by (rule agent_step_time [OF assms(1)])
  have same: "run_leases db' = run_leases (fst s) \<Longrightarrow> \<exists>l'. run_leases db' (w, d) = Some l' \<and> lease_le n l m l'" for db'
    using l lease_le_refl [OF nm] by auto
  have upd: "\<exists>l'. run_leases db' (w, d) = Some l' \<and> lease_le n l m l'"
    if "validate_agent_run_lease_tx c tok (fst s) = Inr q" "n \<le> c" "run_leases db' = run_leases (update_run_lease tok f (fst s))"
      and "\<And>r. lease_owner (f r) = lease_owner r \<and> lease_fence (f r) = lease_fence r" for db' c tok q f
    using update_run_lease_le [OF that(1,2) nm l wd that(4)] that(3) by simp
  from assms(1) have "\<exists>l'. run_leases (fst t) (w, d) = Some l' \<and> lease_le n l m l'"
  proof cases
    case (commit i current h nx etype payload owned db r db')
    from commit(5) show ?thesis
    proof (cases rule: commit_tx_effect)
      case (1 row stored)
      show ?thesis
      proof (cases owned)
        case None
        with 1(11) commit show ?thesis by (auto intro: same)
      next
        case (Some tok)
        with 1(11) obtain q ttl' where "validate_agent_run_lease_tx (ai_clock i 2) tok db = Inr q"
          "run_leases db' = run_leases (update_run_lease tok (renewed_run_lease (ai_clock i 3) ttl') db)" by auto
        with commit(1,2) show ?thesis
          by (auto intro!: upd [OF _ clock_withinD(2) [OF commit(3)]] simp: renewed_run_lease_def)
      qed
    qed
  next
    case (claim i w' own ttl db c db' h)
    from claim(4) obtain row where row: "claim_row_tx E i (trim_space own) (normalize_agent_run_lease_ttl ttl) row db = Inr (Some c, db')"
      by (rule claim_next_run_Inr)
    show ?thesis
    proof (cases "(w, d) = (ag_workspace (ro_run row), ag_id (ro_run row))")
      case False
      from claim_row_leases [OF row False] l nm claim(1,2) show ?thesis by (auto intro: lease_le_refl)
    next
      case True
      with wd have "trim_space (ag_workspace (ro_run row)) = ag_workspace (ro_run row)"
        "trim_space (ag_id (ro_run row)) = ag_id (ro_run row)" by auto
      from row this show ?thesis
        by (rule claim_row_Inr)
          (use True l claim(1,2) in \<open>auto simp: granted_run_lease_def taken_run_lease_def lease_le_def\<close>)
    qed
  next
    case (renew i tok ttl db l' db' h)
    from renew(4) show ?thesis
      by (rule renew_run_lease_effect)
        (use renew(1,2) in \<open>auto intro!: upd [OF _ clock_withinD(2) [OF renew(3)]] simp: renewed_run_lease_def\<close>)
  next
    case (release i tok db u db' h)
    from release(4) show ?thesis
      by (rule release_run_lease_effect)
        (use release(1,2) in \<open>auto intro!: upd [OF _ clock_withinD(2) [OF release(3)]] simp: released_run_lease_def\<close>)
  qed (auto intro!: same dest: reserve_agent_tx_leases)
  then show ?thesis by (simp add: run_lease_row_def w_def d_def)
qed

interpretation arl: fenced_lease "agent_step E" run_lease_row run_token_ok for E
  by unfold_locales (auto intro: agent_step_lease run_token_ok_row dest: agent_step_time)

section \<open>Rows\<close>

definition agent_tables_wf :: "('x, 'z) agent_db_scheme \<Rightarrow> bool" where
  "agent_tables_wf s \<longleftrightarrow> distinct (map (ag_id \<circ> ro_run) (agent_rows s)) \<and>
    (\<forall>row \<in> set (agent_rows s). trim_space (ag_id (ro_run row)) = ag_id (ro_run row) \<and>
      trim_space (ag_workspace (ro_run row)) = ag_workspace (ro_run row) \<and> 0 < ag_version (ro_run row))"

text \<open>What a caller may know of a run: a version the row has passed, or the row's own state.\<close>

definition run_known :: "('x, 'z) agent_db_scheme \<Rightarrow> agent_run \<Rightarrow> bool" where
  "run_known s r \<longleftrightarrow>
    (\<exists>row. find_agent_row (ag_workspace r) (ag_id r) s = Some row \<and> ag_version r \<le> ag_version (ro_run row) \<and>
      (ag_version r = ag_version (ro_run row) \<longrightarrow> ag_state r = ag_state (ro_run row)))"

definition agent_sys_wf :: "'x agent_sys \<Rightarrow> bool" where
  "agent_sys_wf x \<longleftrightarrow> agent_tables_wf (fst x) \<and> (\<forall>r \<in> set (snd x). run_known (fst x) r)"

text \<open>How a row may change: a later version of the same run, or the same checkpoint; a terminal
  state is kept.\<close>

definition run_le :: "agent_run \<Rightarrow> agent_run \<Rightarrow> bool" where
  "run_le r r' \<longleftrightarrow> ag_id r' = ag_id r \<and> ag_workspace r' = ag_workspace r \<and> ag_request_hash r' = ag_request_hash r \<and>
    ag_goal r' = ag_goal r \<and> ag_created r' = ag_created r \<and> ag_version r \<le> ag_version r' \<and>
    (ag_version r' = ag_version r \<longrightarrow> r' = r) \<and>
    (is_agent_terminal (ag_state r) \<longrightarrow> ag_state r' = ag_state r)"

definition rows_le :: "('x, 'z) agent_db_scheme \<Rightarrow> ('x, 'z) agent_db_scheme \<Rightarrow> bool" where
  "rows_le s t \<longleftrightarrow> (\<forall>w k row. find_agent_row w k s = Some row \<longrightarrow>
    (\<exists>row'. find_agent_row w k t = Some row' \<and> run_le (ro_run row) (ro_run row')))"

lemma run_le_refl [simp]: "run_le r r"
  by (simp add: run_le_def)

lemma run_le_trans: "run_le a b \<Longrightarrow> run_le b c \<Longrightarrow> run_le a c"
  by (auto simp: run_le_def)

lemma rows_le_refl [simp]: "rows_le s s"
  by (simp add: rows_le_def)

lemma rows_le_same: "agent_rows t = agent_rows s \<Longrightarrow> rows_le s t"
  by (simp add: rows_le_def find_agent_row_def)

lemma rows_le_trans: "rows_le a b \<Longrightarrow> rows_le b c \<Longrightarrow> rows_le a c"
  unfolding rows_le_def by (meson run_le_trans)

lemma find_keep: "(\<And>x. P (f x) = P x) \<Longrightarrow> find P (map f xs) = map_option f (find P xs)"
  by (induction xs) auto

lemma find_agent_row_map:
  assumes "agent_rows t = map f (agent_rows s)"
    and "\<And>row. ag_workspace (ro_run (f row)) = ag_workspace (ro_run row) \<and> ag_id (ro_run (f row)) = ag_id (ro_run row)"
  shows "find_agent_row w k t = map_option f (find_agent_row w k s)"
  by (simp add: find_agent_row_def assms find_keep)

lemma rows_le_map:
  assumes "agent_rows t = map f (agent_rows s)" and "\<And>row. row \<in> set (agent_rows s) \<Longrightarrow> run_le (ro_run row) (ro_run (f row))"
    and "\<And>row. ag_workspace (ro_run (f row)) = ag_workspace (ro_run row) \<and> ag_id (ro_run (f row)) = ag_id (ro_run row)"
  shows "rows_le s t"
  by (auto simp: rows_le_def find_agent_row_map [OF assms(1,3)] assms(2) dest: find_agent_row_Some)

lemma find_app: "find P (xs @ ys) = (case find P xs of None \<Rightarrow> find P ys | Some x \<Rightarrow> Some x)"
  by (induction xs) auto

lemma rows_le_append: "agent_rows t = agent_rows s @ xs \<Longrightarrow> rows_le s t"
  by (auto simp: rows_le_def find_agent_row_def find_app)

lemma run_known_le:
  assumes "rows_le s t" and "run_known s r"
  shows "run_known t r"
proof -
  from assms(2) obtain row where row: "find_agent_row (ag_workspace r) (ag_id r) s = Some row"
    "ag_version r \<le> ag_version (ro_run row)" "ag_version r = ag_version (ro_run row) \<longrightarrow> ag_state r = ag_state (ro_run row)"
    by (auto simp: run_known_def)
  with assms(1) obtain row' where row': "find_agent_row (ag_workspace r) (ag_id r) t = Some row'"
    "run_le (ro_run row) (ro_run row')" unfolding rows_le_def by blast
  then have "ag_version (ro_run row) \<le> ag_version (ro_run row')"
    "ag_version (ro_run row') = ag_version (ro_run row) \<longrightarrow> ro_run row' = ro_run row" by (simp_all add: run_le_def)
  with row row'(1) show ?thesis by (auto simp: run_known_def)
qed

lemma agent_tables_wf_map:
  assumes "agent_rows t = map f (agent_rows s)" and "agent_tables_wf s"
    and "\<And>row. ag_workspace (ro_run (f row)) = ag_workspace (ro_run row) \<and> ag_id (ro_run (f row)) = ag_id (ro_run row)"
    and "\<And>row. row \<in> set (agent_rows s) \<Longrightarrow> ag_version (ro_run row) \<le> ag_version (ro_run (f row))"
  shows "agent_tables_wf t"
proof -
  have "map (ag_id \<circ> ro_run) (agent_rows t) = map (ag_id \<circ> ro_run) (agent_rows s)" by (simp add: assms(1,3))
  with assms show ?thesis unfolding agent_tables_wf_def by (fastforce simp del: map_map)
qed

lemma find_agent_row_in:
  assumes "agent_tables_wf s" and "row \<in> set (agent_rows s)"
  shows "find_agent_row (ag_workspace (ro_run row)) (ag_id (ro_run row)) s = Some row"
proof -
  have "find_agent_row (ag_workspace (ro_run row)) (ag_id (ro_run row)) s \<noteq> None"
    using assms(2) by (auto simp: find_agent_row_def find_None_iff)
  then obtain q where q: "find_agent_row (ag_workspace (ro_run row)) (ag_id (ro_run row)) s = Some q" by blast
  from find_agent_row_Some [OF this] assms have "q = row"
    by (auto simp: agent_tables_wf_def distinct_map inj_on_def)
  with q show ?thesis by simp
qed

lemma reserve_agent_tx_Inr:
  assumes "reserve_agent_tx E i q0 s = Inr ((r, dup), t)" and "trim_space (ai_new_run i) = ai_new_run i"
  obtains (old) row where "t = s" and "row \<in> set (agent_rows s)" and "same_identity r (ro_run row)"
  | (new) row where "agent_rows t = agent_rows s @ [row]" and "same_identity r (ro_run row)"
    and "ag_id (ro_run row) \<notin> (ag_id \<circ> ro_run) ` set (agent_rows s)" and "ag_version (ro_run row) = 1"
    and "trim_space (ag_id (ro_run row)) = ag_id (ro_run row)"
    and "trim_space (ag_workspace (ro_run row)) = ag_workspace (ro_run row)"
proof -
  from assms(1) obtain q where q: "normalize_agent_request (ai_new_run i) (ai_new_request i) q0 = Inr q"
    by (auto simp: reserve_agent_tx_def results)
  note ids = normalize_agent_request_ids [OF q assms(2)]
  let ?hash = "ae_request_digest E (agent_request_content q)"
  let ?run = "new_agent_run E (ai_now i) q ?hash"
  have run: "ag_id ?run = aq_run_id q" "ag_workspace ?run = aq_workspace q" "ag_version ?run = 1" "ag_state ?run = ''pending''"
    by (simp_all add: new_agent_run_def Let_def)
  show thesis
  proof (cases "list_ex (\<lambda>r. ag_workspace (ro_run r) = aq_workspace q \<and> ag_idempotency (ro_run r) = aq_idempotency q)
      (agent_rows s)")
    case True
    with assms(1) q have "t = s" "read_agent_run_by_idempotency_tx E (aq_workspace q) (aq_idempotency q) s = Inr r"
      by (auto simp: reserve_agent_tx_def Let_def results split: if_split_asm)
    then show thesis
      by (auto simp: read_agent_run_by_idempotency_tx_def scan_agent_run_def results find_Some_iff
          dest!: hydrate_fields split: option.split_asm if_split_asm intro!: old)
  next
    case False
    with assms(1) q obtain e db2 p where fresh: "\<not> list_ex (\<lambda>r. ag_id (ro_run r) = ag_id ?run) (agent_rows s)"
      and ev: "append_agent_event E (ai_io i) ''agent.created'' ?run p
        (s\<lparr>agent_rows := agent_rows s @ [new_agent_row i ?run]\<rparr>) = Inr (e, db2)"
      and r: "r = ?run\<lparr>ag_sequence := ev_sequence e\<rparr>"
      and t: "t = update_agent_row (ag_workspace ?run) (ag_id ?run)
          (\<lambda>r. r\<lparr>ro_run := (ro_run r)\<lparr>ag_sequence := ev_sequence e, ag_updated := ai_clock i 0\<rparr>\<rparr>) db2"
      by (auto simp: reserve_agent_tx_def Let_def results split: if_split_asm)
    have app: "agent_rows db2 = agent_rows s @ [new_agent_row i ?run]"
      using append_agent_event_frame(1) [OF ev] by simp
    let ?row = "(new_agent_row i ?run)\<lparr>ro_run := (ro_run (new_agent_row i ?run))\<lparr>ag_sequence := ev_sequence e, ag_updated := ai_clock i 0\<rparr>\<rparr>"
    have n: "ag_id (ro_run (new_agent_row i ?run)) = ag_id ?run" "ag_workspace (ro_run (new_agent_row i ?run)) = ag_workspace ?run"
      "ag_version (ro_run (new_agent_row i ?run)) = 1" "ag_state (ro_run (new_agent_row i ?run)) = ''pending''"
      using run by (simp_all add: new_agent_row_def)
    have "agent_rows t = agent_rows s @ [?row]"
      using fresh unfolding t update_agent_row_def
      by (simp add: app n list_ex_iff) (rule map_idI, auto)
    then show thesis
      by (rule new) (use fresh run n ids in \<open>auto simp: r same_identity_def list_ex_iff\<close>)
  qed
qed

lemma checkpoint_columns_simps [simp]:
  "ag_id (checkpoint_columns nx st old) = ag_id old" "ag_workspace (checkpoint_columns nx st old) = ag_workspace old"
  "ag_request_hash (checkpoint_columns nx st old) = ag_request_hash old"
  "ag_goal (checkpoint_columns nx st old) = ag_goal old" "ag_created (checkpoint_columns nx st old) = ag_created old"
  "ag_version (checkpoint_columns nx st old) = ag_version nx" "ag_state (checkpoint_columns nx st old) = ag_state nx"
  by (simp_all add: checkpoint_columns_def)

text \<open>A commit whose caller knows the run moves exactly that row on.\<close>

lemma commit_tx_rows:
  assumes run: "commit_tx E i current nx etype payload owned s = Inr (r, t)" and wf: "agent_tables_wf s"
    and known: "run_known s current"
  shows "agent_tables_wf t \<and> rows_le s t \<and> run_known t r \<and> ag_id r = ag_id current \<and>
    ag_workspace r = ag_workspace current \<and> ag_version r = ag_version current + 1"
  using run
proof (cases rule: commit_tx_effect)
  case (1 row stored)
  let ?hit = "\<lambda>q. ag_workspace (ro_run q) = ag_workspace r \<and> ag_id (ro_run q) = ag_id r \<and>
        ag_version (ro_run q) = ag_version current"
  let ?f = "\<lambda>q. if ?hit q then q\<lparr>ro_run := checkpoint_columns r stored (ro_run q)\<rparr> else q"
  from 1(9) obtain q where q: "q \<in> set (agent_rows s)" "?hit q" by (auto simp: list_ex_iff)
  with wf have "trim_space (ag_id r) = ag_id r" "trim_space (ag_workspace r) = ag_workspace r"
    by (auto simp: agent_tables_wf_def)
  with 1(3,4) have ids: "ag_id r = ag_id current" "ag_workspace r = ag_workspace current" by simp_all
  have keys: "ag_workspace (ro_run (?f q)) = ag_workspace (ro_run q) \<and> ag_id (ro_run (?f q)) = ag_id (ro_run q)" for q
    by simp
  have only: "q = row" if "q \<in> set (agent_rows s)" "?hit q" for q
    using find_agent_row_in [OF wf that(1)] that(2) 1(1) ids by simp
  from known 1(1,2) have state: "ag_state current = ag_state (ro_run row)" by (auto simp: run_known_def)
  have le: "run_le (ro_run q) (ro_run (?f q))" if "q \<in> set (agent_rows s)" for q
  proof (cases "?hit q")
    case True
    with only [OF that True] 1(2,5,7) state show ?thesis by (auto simp: run_le_def)
  next
    case False
    then show ?thesis by (simp only: if_False run_le_refl)
  qed
  have t1: "agent_tables_wf t"
    by (rule agent_tables_wf_map [OF 1(8) wf keys]) (use 1(5) in auto)
  have t2: "rows_le s t" by (rule rows_le_map [OF 1(8) le keys])
  have "find_agent_row (ag_workspace r) (ag_id r) t = Some (?f row)"
    using find_agent_row_map [OF 1(8) keys, of "ag_workspace r" "ag_id r"] 1(1) ids by simp
  moreover have "?hit row" using find_agent_row_Some [OF 1(1)] 1(2) ids by simp
  ultimately have "run_known t r" by (simp add: run_known_def)
  with t1 t2 ids 1(5) show ?thesis by simp
qed

lemma get_agent_run_read:
  "get_agent_run E w rid s = Inr r \<Longrightarrow> read_agent_run E (trim_space w) (trim_space rid) s = Inr r"
  by (auto simp: get_agent_run_def split: sum.split_asm agent_error.split_asm)

lemma read_agent_run_known:
  assumes "read_agent_run E w rid s = Inr r"
  shows "run_known s r"
  using assms
proof (cases rule: read_agent_run_Inr)
  case (1 row)
  then show ?thesis using find_agent_row_Some [OF 1(1)] by (auto simp: run_known_def same_identity_def)
qed

lemma select_next_run_Some:
  assumes "select_next_run now locked w s = Some row"
  shows "row \<in> set (agent_rows s)" and "run_claimable now w s row"
    and "\<not> locked (ag_workspace (ro_run row), ag_id (ro_run row))"
proof -
  let ?cs = "filter (\<lambda>row. run_claimable now w s row \<and> \<not> locked (ag_workspace (ro_run row), ag_id (ro_run row))) (agent_rows s)"
  from assms obtain rest where "sort_by claim_before ?cs = row # rest"
    by (auto simp: select_next_run_def split: list.split_asm)
  then have "row \<in> set (sort_by claim_before ?cs)" by (metis list.set_intros(1))
  then show "row \<in> set (agent_rows s)" and "run_claimable now w s row"
    and "\<not> locked (ag_workspace (ro_run row), ag_id (ro_run row))" by auto
qed

lemma agent_step_rows:
  assumes "agent_step E (n, x) (m, y)" and "agent_sys_wf x"
  shows "agent_sys_wf y \<and> rows_le (fst x) (fst y)"
proof -
  have wf: "agent_tables_wf (fst x)" and known: "\<And>r. r \<in> set (snd x) \<Longrightarrow> run_known (fst x) r"
    using assms(2) by (auto simp: agent_sys_wf_def)
  have keep: "agent_sys_wf (t, h) \<and> rows_le (fst x) t"
    if "agent_tables_wf t" "rows_le (fst x) t" "\<And>r. r \<in> set h \<Longrightarrow> r \<in> set (snd x) \<or> run_known t r" for t h
    using that known by (auto simp: agent_sys_wf_def intro: run_known_le)
  have same: "agent_tables_wf t \<and> rows_le (fst x) t" if "agent_rows t = agent_rows (fst x)" for t
    using that wf by (simp add: agent_tables_wf_def rows_le_same)
  from assms(1) show ?thesis
  proof cases
    case (get w rid s r h)
    then have "run_known s r" by (blast dest: get_agent_run_read read_agent_run_known)
    with get show ?thesis using keep [of s "r # h"] wf by auto
  next
    case (reserve i q s r dup t h)
    from reserve(5,4) have "agent_tables_wf t \<and> rows_le s t \<and> run_known t r"
    proof (cases rule: reserve_agent_tx_Inr)
      case (old row)
      with find_agent_row_in [OF _ old(2)] wf reserve show ?thesis
        by (auto simp: same_identity_def run_known_def)
    next
      case (new row)
      have "agent_tables_wf t" using wf reserve(1) new by (auto simp: agent_tables_wf_def)
      with find_agent_row_in [OF this, of row] new show ?thesis
        by (auto simp: same_identity_def run_known_def intro: rows_le_append)
    qed
    with reserve show ?thesis using keep [of t "r # h"] by auto
  next
    case (commit i current h nx etype payload owned s r t)
    from commit_tx_rows [OF commit(5)] wf known [of current] commit
    show ?thesis using keep [of t "r # h"] by auto
  next
    case (claim i w own ttl s c t h)
    from claim(4) obtain row where row: "select_next_run (ai_clock i 0) (ai_locked i) (trim_space w) s = Some row"
      "claim_row_tx E i (trim_space own) (normalize_agent_run_lease_ttl ttl) row s = Inr (Some c, t)"
      by (rule claim_next_run_Inr)
    from select_next_run_Some(1) [OF row(1)] wf claim have tr: "trim_space (ag_workspace (ro_run row)) = ag_workspace (ro_run row)"
      "trim_space (ag_id (ro_run row)) = ag_id (ro_run row)" by (auto simp: agent_tables_wf_def)
    let ?f = "\<lambda>r. if ag_workspace (ro_run r) = ag_workspace (ro_run row) \<and> ag_id (ro_run r) = ag_id (ro_run row)
      then r\<lparr>ro_attempts := ro_attempts r + 1, ro_worker := trim_space own\<rparr> else r"
    from row(2) tr have "read_agent_run E (ag_workspace (ro_run row)) (ag_id (ro_run row)) s = Inr (acl_run c) \<and>
        agent_rows t = map ?f (agent_rows s)"
      by (rule claim_row_Inr) (simp add: update_agent_row_def)
    then have read: "run_known s (acl_run c)" and t: "agent_rows t = map ?f (agent_rows s)"
      by (auto dest: read_agent_run_known)
    have "agent_tables_wf t" "rows_le s t"
      using agent_tables_wf_map [OF t] rows_le_map [OF t] wf claim by auto
    with claim read show ?thesis using keep [of t "acl_run c # h"] by (auto intro: run_known_le)
  next
    case (renew i l ttl s l' t h)
    from renew(4) have "agent_rows t = agent_rows s" by (rule renew_run_lease_effect)
    with renew same keep show ?thesis by auto
  next
    case (release i l s u t h)
    from release(4) have "agent_rows t = agent_rows s" by (rule release_run_lease_effect)
    with release same keep show ?thesis by auto
  next
    case (other t s h)
    with same keep show ?thesis by auto
  qed
qed

lemma agent_run_rows:
  assumes "(agent_step E)\<^sup>*\<^sup>* a b" and "agent_sys_wf (snd a)"
  shows "agent_sys_wf (snd b) \<and> rows_le (fst (snd a)) (fst (snd b))"
  using assms
proof (induction rule: rtranclp_induct)
  case base
  then show ?case by simp
next
  case (step b c)
  then show ?case using agent_step_rows [of E "fst b" "snd b" "fst c" "snd c"] by (auto intro: rows_le_trans)
qed

end
