(* ===== verification/Agent_Transitions.thy ===== *)
theory Agent_Transitions
  imports Agent_Loop Agent_Safety
begin

text \<open>
  The state machine behind the agent loop.  \<open>loop_next\<close> is its specification: which candidate may
  follow a run and with which action, whatever the model, the tools and the other processes do.
  The lemmas show that every operation of \<open>Agent_Loop\<close> commits at most one such transition
  (\<open>loop_effect\<close>), that transitions stay within the budget of the run and that the transitions a
  \<open>Run\<close> goes on after lower \<open>loop_rank\<close>.
\<close>

section \<open>Transitions\<close>

inductive loop_next :: "agent_run \<Rightarrow> string \<Rightarrow> agent_run \<Rightarrow> bool" where
  context_compiled: "ag_context_hash r = [] \<Longrightarrow> hash \<noteq> [] \<Longrightarrow>
    loop_next r ''advanced'' (r\<lparr>ag_context_hash := hash, ag_context_bytes := bytes, ag_history := history\<rparr>)"
| tools_requested: "ag_turn r < ab_turns (ag_budget r) \<Longrightarrow> ag_model_attempts r < ab_model_steps (ag_budget r) \<Longrightarrow>
    \<not> exceeds_budget r p \<Longrightarrow> ag_pending r = [] \<Longrightarrow> ms_calls p \<noteq> [] \<Longrightarrow>
    ag_tool_calls r + len (ms_calls p) \<le> ab_tool_calls (ag_budget r) \<Longrightarrow>
    loop_next r ''advanced'' ((model_answered bytes (ag_model_attempts r + 1) p r)
      \<lparr>ag_phase := ''tool'', ag_pending := map pending_call (ms_calls p),
       ag_tool_calls := ag_tool_calls r + len (ms_calls p)\<rparr>)"
| completed: "ag_turn r < ab_turns (ag_budget r) \<Longrightarrow> ag_model_attempts r < ab_model_steps (ag_budget r) \<Longrightarrow>
    \<not> exceeds_budget r p \<Longrightarrow> ag_pending r = [] \<Longrightarrow> ms_calls p = [] \<Longrightarrow>
    loop_next r ''terminal'' ((model_answered bytes (ag_model_attempts r + 1) p r)
      \<lparr>ag_state := ''succeeded'', ag_termination := ''completed'', ag_last_output := ms_content p\<rparr>)"
| model_retried: "ag_model_attempts r + 1 < ab_model_steps (ag_budget r) \<Longrightarrow>
    loop_next r ''waiting'' (r\<lparr>ag_model_attempts := ag_model_attempts r + 1, ag_last_failure := Some f,
      ag_state := ''awaiting_retry'', ag_next_retry := Some due\<rparr>)"
| tool_completed: "ag_pending r = call # rest \<Longrightarrow>
    loop_next r ''advanced'' (r\<lparr>ag_state := ''running'', ag_phase := ''model'', ag_last_failure := None,
      ag_next_retry := None, ag_pending := rest, ag_history := history\<rparr>)"
| approval_awaited: "ag_pending r = call # rest \<Longrightarrow>
    loop_next r ''waiting'' (r\<lparr>ag_state := ''awaiting_approval'', ag_phase := ''tool'',
      ag_pending := call\<lparr>pt_approval := a\<rparr> # rest, ag_last_failure := Some f\<rparr>)"
| tool_retried: "ag_pending r = call # rest \<Longrightarrow> pt_attempt call + 1 < ab_tool_attempts (ag_budget r) \<Longrightarrow>
    loop_next r ''waiting'' (r\<lparr>ag_last_failure := Some f,
      ag_pending := call\<lparr>pt_attempt := pt_attempt call + 1, pt_failure := Some f\<rparr> # rest,
      ag_state := ''awaiting_retry'', ag_next_retry := Some due\<rparr>)"
| retry_became_due: "ag_state r = ''awaiting_retry'' \<Longrightarrow>
    loop_next r ''advanced'' (r\<lparr>ag_state := ''running'', ag_last_failure := None, ag_next_retry := None\<rparr>)"
| failed: "attempt \<le> 0 \<or> attempt \<le> ab_model_steps (ag_budget r) \<or>
      (\<exists>call rest. ag_pending r = call # rest \<and> ab_tool_attempts (ag_budget r) \<le> pt_attempt call) \<Longrightarrow>
    loop_next r ''terminal'' (r\<lparr>ag_state := ''failed'', ag_termination := termination, ag_phase := phase,
      ag_last_failure := Some f, ag_pending := [], ag_model_attempts := max (ag_model_attempts r) attempt\<rparr>)"
| tool_failed: "ag_pending r \<noteq> [] \<Longrightarrow>
    loop_next r ''terminal'' (r\<lparr>ag_state := ''failed'', ag_termination := termination, ag_phase := ''tool'',
      ag_last_failure := Some f, ag_pending := []\<rparr>)"
| loop_cancelled: "loop_next r ''terminal'' (r\<lparr>ag_state := ''cancelled'', ag_phase := ''model'',
    ag_termination := ''cancelled'', ag_pending := [], ag_last_failure := Some f\<rparr>)"
| external_awaited: "loop_next r ''waiting'' (r\<lparr>ag_state := ''awaiting_external'', ag_last_failure := Some f,
    ag_next_retry := None\<rparr>)"

text \<open>The completion by an external system may also add a turn, which it does not check against the budget.\<close>

inductive external_next :: "agent_run \<Rightarrow> string \<Rightarrow> agent_run \<Rightarrow> bool" where
  external_completed: "estimate_model_tokens output \<le> remaining_output r \<Longrightarrow> ag_state r = ''awaiting_external'' \<Longrightarrow>
    external_next r ''terminal'' (externally_completed output r)"
| as_the_loop: "loop_next r a nx \<Longrightarrow> external_next r a nx"

section \<open>What the environment may do\<close>

text \<open>\<open>env_respects R W i\<close>: other processes and the external calls move the tables along \<open>R\<close>.\<close>

definition env_respects ::
    "('x agent_db \<Rightarrow> 'x agent_db \<Rightarrow> bool) \<Rightarrow> 'x orchestrator \<Rightarrow> 'x loop_in \<Rightarrow> bool" where
  "env_respects R W i \<longleftrightarrow>
    (\<forall>n db. R db (li_between i n db)) \<and> (\<forall>q db. R db (snd (or_complete W q db))) \<and>
    (\<forall>q db. R db (snd (or_execute W q db))) \<and> (\<forall>f q db. or_retrieve W = Some f \<longrightarrow> R db (snd (f q db)))"

lemma env_respectsD:
  assumes "env_respects R W i"
  shows "R db (li_between i n db)" and "or_complete W q db = (a, db1) \<Longrightarrow> R db db1"
    and "or_execute W tq db = (b, db1) \<Longrightarrow> R db db1"
    and "or_retrieve W = Some f \<Longrightarrow> f rq db = (c, db1) \<Longrightarrow> R db db1"
  using assms unfolding env_respects_def by (metis snd_conv)+

text \<open>What an operation on a run does: nothing but \<open>R\<close>, or one commit of a transition.\<close>

inductive loop_effect ::
    "('x agent_db \<Rightarrow> 'x agent_db \<Rightarrow> bool) \<Rightarrow> (agent_run \<Rightarrow> string \<Rightarrow> agent_run \<Rightarrow> bool) \<Rightarrow> 'x orchestrator \<Rightarrow>
      agent_run_lease option \<Rightarrow> agent_run \<Rightarrow> 'x agent_db \<Rightarrow> 'x loop_result \<Rightarrow> bool" for R N W owned r where
  no_commit: "R s t \<Longrightarrow> (\<And>d. res = Inr d \<Longrightarrow> ld_action d = ''waiting'' \<and> ld_run d = r) \<Longrightarrow>
    loop_effect R N W owned r s (res, t)"
| one_commit: "R s s1 \<Longrightarrow> commit_tx (or_env W) i r nx etype payload owned s1 = Inr (c, t) \<Longrightarrow>
    N r (ld_action d) nx \<Longrightarrow> ld_run d = c \<Longrightarrow> loop_effect R N W owned r s (Inr d, t)"

text \<open>The transitions of a smaller machine are transitions of a larger one.\<close>

lemma loop_effect_mono:
  assumes "loop_effect R N W owned r s x" and "\<And>a nx. N r a nx \<Longrightarrow> N' r a nx"
  shows "loop_effect R N' W owned r s x"
  using assms(1) by cases (auto intro: loop_effect.intros assms(2))

text \<open>An operation reads a run in a state the environment has led to; it leaves a terminal run alone
  and acts on an open one.\<close>

inductive loop_operation ::
    "('x agent_db \<Rightarrow> 'x agent_db \<Rightarrow> bool) \<Rightarrow> (agent_run \<Rightarrow> string \<Rightarrow> agent_run \<Rightarrow> bool) \<Rightarrow> 'x orchestrator \<Rightarrow>
      'x loop_in \<Rightarrow> agent_run_lease option \<Rightarrow> string \<Rightarrow> string \<Rightarrow> 'x agent_db \<Rightarrow> 'x loop_result \<Rightarrow> bool"
    for R N W i owned w rid s where
  stopped: "R s t \<Longrightarrow> loop_operation R N W i owned w rid s (Inl e, t)"
| finished: "R s t \<Longrightarrow> loop_read W i w rid t = Inr r \<Longrightarrow> is_agent_terminal (ag_state r) \<Longrightarrow>
    loop_operation R N W i owned w rid s (Inr (terminal_decision W r), t)"
| acted: "R s s1 \<Longrightarrow> loop_read W i w rid s1 = Inr r \<Longrightarrow> \<not> is_agent_terminal (ag_state r) \<Longrightarrow>
    loop_effect R N W owned r s1 x \<Longrightarrow> loop_operation R N W i owned w rid s x"

lemma decision_simps [simp]:
  "ld_action (decision W a r f) = a" "ld_run (decision W a r f) = r"
  "ld_action (terminal_decision W r) = ''terminal''" "ld_run (terminal_decision W r) = r"
  "ld_action (terminal_decision_with_failure W r g) = ''terminal''" "ld_run (terminal_decision_with_failure W r g) = r"
  "ld_action (waiting_decision W r) = ''waiting''" "ld_run (waiting_decision W r) = r"
  by (simp_all add: decision_def terminal_decision_def terminal_decision_with_failure_def waiting_decision_def)

text \<open>The laws the environment's relation obeys; the loop's effects follow from them alone.\<close>

locale environment_order =
  fixes R :: "'x agent_db \<Rightarrow> 'x agent_db \<Rightarrow> bool"
  assumes refl_R: "R s s" and trans_R: "R s t \<Longrightarrow> R t u \<Longrightarrow> R s u"
begin

lemma effect_start:
  assumes "loop_effect R N W owned r s1 x" and "R s s1"
  shows "loop_effect R N W owned r s x"
  using assms(1)
proof cases
  case (no_commit t res)
  with assms(2) show ?thesis by (auto intro: loop_effect.no_commit trans_R)
next
  case (one_commit s2 i nx etype payload c t d)
  with assms(2) show ?thesis by (metis loop_effect.one_commit trans_R)
qed

lemma effect_stop:
  assumes "\<And>d. res = Inr d \<Longrightarrow> ld_action d = ''waiting'' \<and> ld_run d = r"
  shows "loop_effect R N W owned r s (res, s)"
  using assms by (auto intro: loop_effect.no_commit refl_R)

lemma commit_effect:
  assumes env: "env_respects R W i" and next_run: "N r action nx"
    and dec: "\<And>c. ld_action (decide c) = action \<and> ld_run (decide c) = c"
  shows "loop_effect R N W owned r s (loop_commit W i owned r nx etype payload decide s)"
proof -
  let ?s = "li_between i 2 s"
  have Rs: "R s ?s" by (rule env_respectsD(1) [OF env])
  show ?thesis
  proof (cases "(owned \<noteq> None \<and> \<not> or_owned_store W) \<or>
      (\<exists>e. commit_tx (or_env W) (li_commit i) r nx etype payload owned ?s = Inl e)")
    case True
    with Rs show ?thesis
      by (auto simp: loop_commit_def Let_def commit_agent_def in_tx_def intro: loop_effect.no_commit)
  next
    case False
    then obtain c t where ct: "commit_tx (or_env W) (li_commit i) r nx etype payload owned ?s = Inr (c, t)"
      by (metis old.prod.exhaust sum.exhaust)
    have "loop_effect R N W owned r s (Inr (decide c), t)"
      using Rs ct next_run dec by (auto intro: loop_effect.one_commit)
    with False ct show ?thesis by (auto simp: loop_commit_def Let_def commit_agent_def in_tx_def)
  qed
qed

lemma fail_with_attempt_effect:
  assumes "env_respects R W i"
    and "attempt \<le> 0 \<or> attempt \<le> ab_model_steps (ag_budget r) \<or>
      (\<exists>call rest. ag_pending r = call # rest \<and> ab_tool_attempts (ag_budget r) \<le> pt_attempt call)"
  shows "loop_effect R loop_next W owned r s (fail_with_attempt W i owned r f termination attempt s)"
  unfolding fail_with_attempt_def by (rule commit_effect [OF assms(1)], rule loop_next.failed, rule assms(2)) simp

lemma fail_effect:
  assumes "env_respects R W i"
    and "lf_attempt f \<le> 0 \<or> (\<exists>call rest. ag_pending r = call # rest \<and> ab_tool_attempts (ag_budget r) \<le> pt_attempt call)"
  shows "loop_effect R loop_next W owned r s (fail W i owned r f termination s)"
  unfolding fail_def by (rule fail_with_attempt_effect [OF assms(1)]) (use assms(2) in blast)

lemma fail_with_tool_effect:
  assumes "env_respects R W i" and "ag_pending r \<noteq> []"
  shows "loop_effect R loop_next W owned r s (fail_with_tool W i owned r f termination s)"
proof -
  have "r\<lparr>ag_state := ''failed'', ag_termination := termination, ag_phase := ''tool'', ag_last_failure := Some f,
      ag_pending := [], ag_tool_calls := max (ag_tool_calls r) (ag_tool_calls r)\<rparr> =
    r\<lparr>ag_state := ''failed'', ag_termination := termination, ag_phase := ''tool'', ag_last_failure := Some f,
      ag_pending := []\<rparr>" by simp
  then show ?thesis
    unfolding fail_with_tool_def using assms
    by (auto intro!: commit_effect loop_next.tool_failed simp del: agent_run.update_convs)
qed

lemma loop_failed_attempt [simp]: "lf_attempt (loop_failed c m p) = 0"
  by (simp add: loop_failed_def)

lemma compile_run_context_effect:
  assumes env: "env_respects R W i" and "or_retrieve W = Some f" and "ag_context_hash r = []"
  shows "loop_effect R loop_next W owned r s (compile_run_context W i owned r f s)"
proof -
  obtain a s1 where f: "f (loop_retrieval_request r) s = (a, s1)" by fastforce
  have "R s s1" by (rule env_respectsD(4) [OF env assms(2) f])
  moreover have "loop_effect R loop_next W owned r s1 (compile_run_context W i owned r f s)"
    using assms f loop_next.context_compiled [where r = r and history = "ag_history r"] unfolding compile_run_context_def
    by (auto simp: Let_def intro!: fail_effect commit_effect loop_next.context_compiled split: sum.split)
  ultimately show ?thesis by (blast intro: effect_start)
qed

lemma model_call_failed_effect:
  assumes env: "env_respects R W i" and "ag_model_attempts r < ab_model_steps (ag_budget r)"
  shows "loop_effect R loop_next W owned r s (model_call_failed W i owned r (ag_model_attempts r + 1) e s)"
  using assms unfolding model_call_failed_def
  by (auto simp: Let_def intro!: fail_with_attempt_effect commit_effect loop_next.model_retried)

lemma model_completed_effect:
  assumes env: "env_respects R W i" and "ag_model_attempts r < ab_model_steps (ag_budget r)"
    and "ag_turn r < ab_turns (ag_budget r)" and "ag_pending r = []"
  shows "loop_effect R loop_next W owned r s (model_completed W i owned r q (ag_model_attempts r + 1) p s)"
proof -
  have same: "exceeds_budget r (p\<lparr>ms_request_id := x\<rparr>) = exceeds_budget r p" for x by (simp add: exceeds_budget_def)
  show ?thesis
  proof (cases "exceeds_budget r p")
    case True
    with assms show ?thesis by (simp add: model_completed_def fail_with_attempt_effect)
  next
    case False
    let ?p = "p\<lparr>ms_request_id := mr_request_id q\<rparr>"
    from False assms show ?thesis
      using loop_next.tools_requested [of r ?p] loop_next.completed [of r ?p] same
      by (auto simp: model_completed_def Let_def not_less intro!: fail_with_attempt_effect commit_effect)
  qed
qed

lemma call_model_effect:
  assumes env: "env_respects R W i" and "ag_pending r = []"
  shows "loop_effect R loop_next W owned r s (call_model W i owned r s)"
proof -
  let ?q = "model_timeout_default (loop_model_request (or_codec W) r)"
  obtain a s1 where f: "or_complete W ?q s = (a, s1)" by fastforce
  have R: "R s s1" by (rule env_respectsD(2) [OF env f])
  note answered = effect_start [OF model_call_failed_effect [OF env] R] effect_start [OF model_completed_effect [OF env] R]
  from assms f show ?thesis
    unfolding call_model_def by (auto simp: Let_def not_le split: sum.split intro!: fail_effect answered)
qed

lemma advance_model_effect:
  assumes "env_respects R W i" and "ag_pending r = []"
  shows "loop_effect R loop_next W owned r s (advance_model W i owned r s)"
  using assms by (auto simp: advance_model_def intro: compile_run_context_effect call_model_effect split: option.split)

lemma tool_call_failed_effect:
  assumes env: "env_respects R W i" and "ag_pending r = call # rest"
  shows "loop_effect R loop_next W owned r s (tool_call_failed W i owned r call rest o1 tf s)"
  using assms unfolding tool_call_failed_def
  by (auto simp: Let_def intro!: commit_effect fail_with_tool_effect effect_stop loop_next.approval_awaited
      loop_next.tool_retried)

lemma tool_call_completed_effect:
  assumes "env_respects R W i" and "ag_pending r = call # rest"
  shows "loop_effect R loop_next W owned r s (tool_call_completed W i owned r call rest q o1 p s)"
  using assms unfolding tool_call_completed_def
  by (auto simp: Let_def intro!: commit_effect loop_next.tool_completed)

lemma advance_tool_effect:
  assumes env: "env_respects R W i" and "ag_pending r = call # rest"
  shows "loop_effect R loop_next W owned r s (advance_tool W i owned r call rest s)"
proof (cases "or_definition W (pt_tool call)")
  case None
  with assms show ?thesis by (simp add: advance_tool_def fail_effect)
next
  case (Some d)
  show ?thesis
  proof (cases "decode_tool_arguments (or_codec W) (pt_arguments call)")
    case (Inl e)
    with Some assms show ?thesis by (simp add: advance_tool_def fail_effect)
  next
    case (Inr a)
    obtain o1 e s1 where f: "or_execute W (loop_tool_request (or_codec W) r call d a) s = ((o1, e), s1)"
      by (metis surj_pair)
    have R: "R s s1" by (rule env_respectsD(3) [OF env f])
    note answered = effect_start [OF tool_call_failed_effect [OF assms] R]
      effect_start [OF tool_call_completed_effect [OF assms] R] loop_effect.no_commit [of R, OF R]
    from Some Inr assms f show ?thesis
      unfolding advance_tool_def
      by (auto simp: Let_def split: option.split exec_error.split intro!: fail_effect answered)
  qed
qed

lemma advance_approval_effect:
  assumes "env_respects R W i"
  shows "loop_effect R loop_next W owned r s (advance_approval W i owned r s)"
  using assms unfolding advance_approval_def
  by (auto intro!: fail_effect effect_stop advance_tool_effect split: list.split option.split)

lemma retry_due_effect:
  assumes "env_respects R W i" and "ag_state r = ''awaiting_retry''"
  shows "loop_effect R loop_next W owned r s (retry_due W i owned r s)"
  using assms unfolding retry_due_def by (auto intro!: effect_stop commit_effect loop_next.retry_became_due)

lemma advance_phase_effect:
  assumes "env_respects R W i"
  shows "loop_effect R loop_next W owned r s (advance_phase W i owned r s)"
  using assms unfolding advance_phase_def
  by (auto intro!: fail_effect effect_stop advance_approval_effect retry_due_effect advance_tool_effect
      advance_model_effect split: list.split)

lemma advance_operation:
  assumes "env_respects R W i"
  shows "loop_operation R loop_next W i owned w rid s (advance W i owned w rid s)"
proof -
  let ?s1 = "li_between i 0 s" and ?s2 = "li_between i 1 (li_between i 0 s)"
  have R: "R s ?s1" "R ?s1 ?s2" by (rule env_respectsD(1) [OF assms])+
  show ?thesis
  proof (cases "\<not> or_configured W \<or> (\<exists>e. loop_read W i w rid ?s1 = Inl e)")
    case True
    with R(1) show ?thesis by (auto simp: advance_def intro: loop_operation.stopped refl_R)
  next
    case False
    then obtain r where r: "or_configured W" "loop_read W i w rid ?s1 = Inr r" by (cases "loop_read W i w rid ?s1") auto
    show ?thesis
    proof (cases "is_agent_terminal (ag_state r)")
      case True
      with r R(1) show ?thesis by (auto simp: advance_def intro: loop_operation.finished)
    next
      case False
      have "loop_effect R loop_next W owned r ?s1 (advance W i owned w rid s)"
        using False r R by (auto simp: advance_def Let_def split: sum.split
            intro!: effect_start [OF advance_phase_effect [OF assms]] loop_effect.no_commit)
      with R(1) False r(2) show ?thesis by (blast intro: loop_operation.acted)
    qed
  qed
qed

lemma open_run_operation:
  assumes "env_respects R W i" and "\<And>r s. pre r = Inr () \<Longrightarrow> loop_effect R N W owned r s (act r s)"
  shows "loop_operation R N W i owned w rid s (with_open_run W i owned w rid pre act s)"
proof -
  let ?s1 = "li_between i 0 s" and ?s2 = "li_between i 1 (li_between i 0 s)"
  have R: "R s ?s1" "R ?s1 ?s2" by (rule env_respectsD(1) [OF assms(1)])+
  show ?thesis
  proof (cases "loop_read W i w rid ?s1")
    case (Inl e)
    with R(1) show ?thesis by (auto simp: with_open_run_def intro: loop_operation.stopped)
  next
    case (Inr r)
    show ?thesis
    proof (cases "is_agent_terminal (ag_state r)")
      case True
      with Inr R(1) show ?thesis by (auto simp: with_open_run_def intro: loop_operation.finished)
    next
      case False
      have "loop_effect R N W owned r ?s1 (with_open_run W i owned w rid pre act s)"
        using False Inr R by (auto simp: with_open_run_def Let_def results split: sum.split
            intro!: effect_start [OF assms(2)] loop_effect.no_commit)
      with R(1) False Inr show ?thesis by (blast intro: loop_operation.acted)
    qed
  qed
qed

lemma cancel_loop_operation:
  assumes "env_respects R W i"
  shows "loop_operation R loop_next W i owned w rid s (cancel_loop W i owned w rid reason s)"
  unfolding cancel_loop_def
  by (rule open_run_operation [OF assms]) (auto simp: Let_def intro!: commit_effect assms loop_next.loop_cancelled)

lemma wait_external_operation:
  assumes "env_respects R W i"
  shows "loop_operation R loop_next W i owned w rid s (wait_external W i owned w rid reason s)"
  unfolding wait_external_def
  by (rule open_run_operation [OF assms]) (auto simp: Let_def intro!: commit_effect assms loop_next.external_awaited)

lemma complete_external_operation:
  assumes "env_respects R W i"
  shows "loop_operation R external_next W i owned w rid s (complete_external W i owned w rid output s)"
  unfolding complete_external_def
  by (rule open_run_operation [OF assms])
    (auto simp: Let_def results not_less intro!: commit_effect effect_stop assms external_next.external_completed
      loop_effect_mono [OF fail_effect [OF assms] external_next.as_the_loop])

end

end
