(* ===== verification/Agent_Properties.thy ===== *)
theory Agent_Properties
  imports Agent_Safety Tool_Executor
begin

text \<open>
  What the agent-run store guarantees: one commit per version, terminal states, the fences of the
  worker lease and of the task lease, the choice of the scheduler, and the replay of a commit.
\<close>

section \<open>Commits\<close>

lemma commit_agent_Inr: "commit_agent E i c nx et p o' s = (Inr r, t) \<Longrightarrow> commit_tx E i c nx et p o' s = Inr (r, t)"
  unfolding commit_agent_def by (auto elim: in_tx_cases)

lemma in_tx_Inl: "(\<And>r t. f s \<noteq> Inr (r, t)) \<Longrightarrow> \<exists>e. in_tx f s = (Inl e, s)"
  by (cases "f s") (auto simp: in_tx_def)

text \<open>
  C3: Once a commit from a version of a run has gone through, every later commit of a caller that
  still holds that version, or an older one, fails and changes nothing, whatever happened between.
\<close>

theorem agent_commit_exclusive:
  assumes "commit_agent E i current nx et p owned s = (Inr r, s1)"
    and "agent_sys_wf (s, h)" and "current \<in> set h"
    and "(agent_step E)\<^sup>*\<^sup>* (n, s1, r # h) (m, t, h')"
    and "ag_workspace stale = ag_workspace current" and "ag_id stale = ag_id current"
    and "ag_version stale \<le> ag_version current"
  shows "\<exists>e. commit_agent E' i' stale nx' et' p' owned' t = (Inl e, t)"
proof -
  have tx: "commit_tx E i current nx et p owned s = Inr (r, s1)" using assms(1) by (rule commit_agent_Inr)
  have known: "run_known s x" if "x \<in> set h" for x using assms(2) that by (auto simp: agent_sys_wf_def)
  note c = commit_tx_rows [OF tx _ known [OF assms(3)]]
  have wf: "agent_tables_wf s" using assms(2) by (simp add: agent_sys_wf_def)
  have "agent_sys_wf (s1, r # h)" using c [OF wf] known by (auto simp: agent_sys_wf_def intro: run_known_le)
  with agent_run_rows [OF assms(4)] have "rows_le s1 t" by simp
  with c [OF wf] have "run_known t r" by (blast intro: run_known_le)
  then obtain row where row: "find_agent_row (ag_workspace current) (ag_id current) t = Some row"
    "ag_version current < ag_version (ro_run row)" using c [OF wf] by (auto simp: run_known_def)
  show ?thesis unfolding commit_agent_def
  proof (rule in_tx_Inl)
    fix r' t' show "commit_tx E' i' stale nx' et' p' owned' t \<noteq> Inr (r', t')"
    proof
      assume "commit_tx E' i' stale nx' et' p' owned' t = Inr (r', t')"
      then show False
      proof (cases rule: commit_tx_effect)
        case (1 row' stored)
        with row assms(5-7) show False by simp
      qed
    qed
  qed
qed

text \<open>
  C20: A run that has reached a terminal state stays in it, with its goal and request, and no
  scheduler claims it again.
\<close>

theorem agent_terminal_frozen:
  assumes "(agent_step E)\<^sup>*\<^sup>* (n, s, h) (m, t, h')" and "agent_sys_wf (s, h)"
    and "find_agent_row w k s = Some row" and "is_agent_terminal (ag_state (ro_run row))"
  shows "\<exists>row'. find_agent_row w k t = Some row' \<and> ag_state (ro_run row') = ag_state (ro_run row) \<and>
    ag_goal (ro_run row') = ag_goal (ro_run row) \<and> ag_request_hash (ro_run row') = ag_request_hash (ro_run row) \<and>
    \<not> run_claimable now w' t row'"
proof -
  from agent_run_rows [OF assms(1)] assms(2) have "rows_le s t" by simp
  with assms(3) obtain row' where row': "find_agent_row w k t = Some row'" "run_le (ro_run row) (ro_run row')"
    unfolding rows_le_def by blast
  have "\<forall>x \<in> set claimable_states. \<not> is_agent_terminal x" by code_simp
  with row' assms(4) show ?thesis by (auto simp: run_le_def run_claimable_def Let_def)
qed

section \<open>Fences\<close>

text \<open>
  C9: A worker whose lease was taken over, was released or has expired can never again commit a
  transition of the run, renew the lease or release it, and its attempts change nothing.
\<close>

theorem stale_agent_worker_no_effect:
  assumes "(agent_step E)\<^sup>*\<^sup>* (n, x) (m, t, h)"
    and "run_lease_row x (lease_workspace tok, lease_key tok) = Some l"
    and "lease_fence tok < lease_fence l \<or> lease_fence tok = lease_fence l \<and> \<not> lease_active n l"
    and "\<forall>j. m \<le> ai_clock i j"
  shows "\<exists>e1 e2 e3. commit_agent E' i current nx et p (Some tok) t = (Inl e1, t) \<and>
    renew_agent_run_lease E' i tok ttl t = (Inl e2, t) \<and> release_agent_run_lease E' i tok t = (Inl e3, t)"
proof -
  have refused: "validate_agent_run_lease_tx (ai_clock i j) tok t \<noteq> Inr q" for j q
  proof
    assume "validate_agent_run_lease_tx (ai_clock i j) tok t = Inr q"
    then have "run_token_ok (ai_clock i j) (t, h) (lease_workspace tok, lease_key tok) (lease_owner tok) (lease_fence tok)"
      by (auto simp: run_token_ok_iff)
    moreover have "m \<le> ai_clock i j" using assms(4) by blast
    ultimately show False
      using assms(3) arl.stale_refused [OF assms(1,2)] arl.dead_refused [OF assms(1,2)] by metis
  qed
  have "\<exists>e. commit_agent E' i current nx et p (Some tok) t = (Inl e, t)"
    unfolding commit_agent_def
    by (rule in_tx_Inl) (auto elim!: commit_tx_effect simp: refused)
  moreover have "\<exists>e. renew_agent_run_lease E' i tok ttl t = (Inl e, t)"
    unfolding renew_agent_run_lease_def by (rule in_tx_Inl) (auto elim!: renew_run_lease_effect simp: refused)
  moreover have "\<exists>e. release_agent_run_lease E' i tok t = (Inl e, t)"
    unfolding release_agent_run_lease_def by (rule in_tx_Inl) (auto elim!: release_run_lease_effect simp: refused)
  ultimately show ?thesis by blast
qed

text \<open>
  C18: Once the lease of the task an agent run is bound to carries a larger fence, however the task
  store evolves after that, the run bound to the older fence commits nothing more.
\<close>

theorem stale_task_run_cannot_commit:
  assumes "(task_step T)\<^sup>*\<^sup>* (n, tdb) (m, tdb')" and "task_leases tdb (ag_workspace current, tid) = Some l"
    and "ag_task_fence current < lease_fence l" and "task_leases db = task_leases tdb'"
    and "ag_task current = Some ref" and "parse_int64 (trim_space (er_id ref)) = Some tid"
  shows "\<exists>e1 e2. commit_agent E i current nx et p owned db = (Inl e1, db) \<and>
    cancel_agent E' i' current reason db = (Inl e2, db)"
proof -
  obtain l' where l': "task_leases tdb' (ag_workspace current, tid) = Some l'" "lease_le n l m l'"
    using task_lease.run_row [OF assms(1), of "(ag_workspace current, tid)" l] assms(2) by auto
  have "lease_fence l' \<noteq> ag_task_fence current" using lease_le_fence [OF l'(2)] assms(3) by linarith
  then have f: "validate_task_fence now current db = Inl ErrAgentRunStale" for now
    using l'(1) assms(4,5,6) by (auto simp: validate_task_fence_def live_task_lease_def split: option.splits)
  have "\<exists>e. commit_agent F j current y et' p' o' db = (Inl e, db)" for F j y et' p' o'
    unfolding commit_agent_def by (rule in_tx_Inl) (auto simp: commit_tx_def f results)
  then show ?thesis by (simp add: cancel_agent_def Let_def)
qed

section \<open>Scheduling\<close>

lemma claim_before_strict_weak: "strict_weak claim_before"
  unfolding strict_weak_def claim_before_def by (auto split: if_splits)

lemma select_next_run_first:
  assumes "select_next_run now locked w s = Some row"
  shows "list_all (\<lambda>q. \<not> (claim_before q row \<and> run_claimable now w s q \<and>
    \<not> locked (ag_workspace (ro_run q), ag_id (ro_run q)))) (agent_rows s)"
proof -
  let ?cs = "filter (\<lambda>row. run_claimable now w s row \<and> \<not> locked (ag_workspace (ro_run row), ag_id (ro_run row))) (agent_rows s)"
  from assms obtain rest where "sort_by claim_before ?cs = row # rest"
    by (auto simp: select_next_run_def split: list.split_asm)
  with sorted_sort_by [OF claim_before_strict_weak, of ?cs] have "\<not> claim_before q row" if "q \<in> set rest" for q
    using that by simp
  moreover have "\<not> claim_before row row" by (simp add: claim_before_def)
  moreover have "set ?cs = set (row # rest)"
    using set_sort_by [of claim_before ?cs] \<open>sort_by claim_before ?cs = row # rest\<close> by simp
  ultimately have "\<not> claim_before q row" if "q \<in> set ?cs" for q using that by auto
  then show ?thesis by (auto simp: list_all_iff)
qed

text \<open>
  C11: A claim hands out the most urgent due run that no live lease and no other claimer holds: its
  lease carries the claimer's name, a fence one above the last one, and is live when it is handed out.
\<close>

theorem claim_grants_best_run:
  assumes "claim_next_agent_run E i w own ttl s = (Inr (Some c), t)" and "agent_tables_wf s"
  shows "\<exists>row g. row \<in> set (agent_rows s) \<and> run_claimable (ai_clock i 0) (trim_space w) s row \<and>
    list_all (\<lambda>q. \<not> (claim_before q row \<and> run_claimable (ai_clock i 0) (trim_space w) s q \<and>
      \<not> ai_locked i (ag_workspace (ro_run q), ag_id (ro_run q)))) (agent_rows s) \<and>
    same_identity (acl_run c) (ro_run row) \<and> acl_lease c = handed_lease g (normalize_agent_run_lease_ttl ttl) \<and>
    (let k = (ag_workspace (ro_run row), ag_id (ro_run row)) in
      run_leases t = (run_leases s)(k \<mapsto> g) \<and> lease_owner g = trim_space own \<and> lease_active (ai_clock i 3) g \<and>
      (case run_leases s k of None \<Rightarrow> lease_fence g = 1
        | Some l \<Rightarrow> lease_fence g = lease_fence l + 1 \<and> \<not> lease_active (ai_clock i 1) l))"
proof -
  from assms(1) have "claim_next_agent_run_tx E i w own ttl s = Inr (Some c, t)"
    unfolding claim_next_agent_run_def by (auto elim: in_tx_cases)
  then obtain row where row: "select_next_run (ai_clock i 0) (ai_locked i) (trim_space w) s = Some row"
    "claim_row_tx E i (trim_space own) (normalize_agent_run_lease_ttl ttl) row s = Inr (Some c, t)"
    by (rule claim_next_run_Inr)
  note sel = select_next_run_Some [OF row(1)]
  from sel(1) assms(2) have tr: "trim_space (ag_workspace (ro_run row)) = ag_workspace (ro_run row)"
      "trim_space (ag_id (ro_run row)) = ag_id (ro_run row)" by (auto simp: agent_tables_wf_def)
  from row(2) tr show ?thesis
  proof (cases rule: claim_row_Inr)
    case (1 g)
    from 1(1) obtain q where "find_agent_row (ag_workspace (ro_run row)) (ag_id (ro_run row)) s = Some q"
      "same_identity (acl_run c) (ro_run q)" by (rule read_agent_run_Inr)
    with find_agent_row_in [OF assms(2) sel(1)] have "same_identity (acl_run c) (ro_run row)" by simp
    moreover have "case run_leases s (ag_workspace (ro_run row), ag_id (ro_run row)) of None \<Rightarrow> lease_fence g = 1
        | Some l \<Rightarrow> lease_fence g = lease_fence l + 1 \<and> \<not> lease_active (ai_clock i 1) l"
      using 1(2,3) by (auto simp: granted_run_lease_def first_run_lease_def taken_run_lease_def split: option.splits)
    ultimately show ?thesis using sel select_next_run_first [OF row(1)] 1(4,5,7,9)
      by (intro exI [of _ row] exI [of _ g]) simp
  qed
qed

section \<open>Replay\<close>

text \<open>The event of a commit: payload, scope and key.\<close>

lemma agent_event_fields:
  assumes "agent_event E j et r p = Inr e" and "ae_payload E r (checkpoint_of E r) p \<noteq> []"
  shows "ev_payload e = ae_payload E r (checkpoint_of E r) p" and "sc_workspace (ev_scope e) = ag_workspace r"
    and "ev_type e = to_lower (trim_space et)"
    and "ev_idempotency e = ''agent:'' @ ag_id r @ '':v:'' @ show_int (ag_version r)"
  using assms by (auto simp: agent_event_def Let_def results new_event_def elim!: normalize_event_Inr)

lemma append_agent_event_row:
  assumes "append_agent_event E j et r p db = Inr (e, db')"
    and raw: "ae_payload E r (checkpoint_of E r) p \<noteq> []"
    and ws: "trim_space (ag_workspace r) = ag_workspace r" "ag_workspace r \<noteq> []"
    and new: "idempotency_records db (ag_workspace r, trim_space (''agent:'' @ ag_id r @ '':v:'' @ show_int (ag_version r))) = None"
  obtains row where "control_events db' = control_events db @ [row]" and "row_seq row = io_seq j"
    and "ev_sequence e = io_seq j" and "0 < io_seq j" and "row_workspace row = ag_workspace r"
    and "ev_payload (row_event row) = ae_payload E r (checkpoint_of E r) p"
    and "ev_type (row_event row) = to_lower (trim_space et)"
proof -
  from assms(1) obtain e0 dup where e0: "agent_event E j et r p = Inr e0"
    "append_tx (xe_events (ae_tools E)) j e0 db = Inr ((e, dup), db')"
    by (auto simp: append_agent_event_def results)
  note f = agent_event_fields [OF e0(1) raw]
  have norm: "ev_payload e1 = ev_payload e0 \<and> ev_type e1 = ev_type e0 \<and> sc_workspace (ev_scope e1) = ag_workspace r \<and>
      ev_idempotency e1 = trim_space (ev_idempotency e0)"
    if "normalize_event (io_new_id j) (io_now j) e0 = Inr e1" for e1
    using that raw f ws by (auto simp: normalize_scope_def Let_def elim!: normalize_event_Inr)
  from e0(2) show thesis
  proof (cases rule: append_tx_Inr)
    case (duplicate e1 q s)
    with norm [OF duplicate(1)] new f(4) show thesis by simp
  next
    case (fresh e1 ev)
    with norm [OF fresh(1)] f show thesis
      by (intro that [where row = "\<lparr>row_event = store_form (xe_events (ae_tools E)) j e1,
          row_hash = request_hash (env_digest (xe_events (ae_tools E))) e1\<rparr>"])
        (simp_all add: row_seq_def row_workspace_def store_form_def)
  qed
qed

lemma observe_agent_tx_events:
  assumes "observe_agent_tx E l db = Inr db'"
  shows "control_events db' = control_events db" and "idempotency_records db' = idempotency_records db"
  using assms by (auto simp: observe_agent_tx_def results)

lemma observe_transition_events:
  assumes "observe_transition E r db = Inr db'"
  shows "control_events db' = control_events db"
  using assms
  by (auto simp: observe_transition_def Let_def results observe_agent_tx_events split: if_split_asm)

text \<open>The candidate a commit hashed is its result before the event gave it a sequence.\<close>

lemma commit_tx_event:
  fixes s :: "('x, 'z) agent_db_scheme"
  assumes "commit_tx E i current nx et p owned s = Inr (r, t)"
  obtains e and db1 db2 :: "('x, 'z) agent_db_scheme" where "append_agent_event E (ai_io i) et (r\<lparr>ag_sequence := ag_sequence current\<rparr>) p db1 = Inr (e, db2)"
    and "control_events db1 = control_events s" and "idempotency_records db1 = idempotency_records s"
    and "control_events t = control_events db2" and "ag_sequence r = ev_sequence e"
  using assms
proof (cases rule: commit_tx_Inr)
  case (1 u nx' locked stored ev e db1 db2 db3 db4)
  have r: "r = committed_run nx' stored e" "db4 = t" using 1(9) by simp_all
  have "r\<lparr>ag_sequence := ag_sequence current\<rparr> =
      nx'\<lparr>ag_output_artifact := so_output_artifact stored, ag_history_artifact := so_history_artifact stored\<rparr>"
    using prepare_commit_Inr(5) [OF 1(2)] by (simp add: r)
  with 1(6) have app: "append_agent_event E (ai_io i) et (r\<lparr>ag_sequence := ag_sequence current\<rparr>) p db1 = Inr (e, db2)"
    by simp
  have "control_events db1 = control_events s" "idempotency_records db1 = idempotency_records s"
    using 1(5) by (auto simp: renew_owned_lease_def update_run_lease_def results split: option.splits)
  moreover have "control_events t = control_events db2"
    using 1(7) observe_transition_events [OF 1(8)] by (simp add: write_checkpoint_ok r)
  ultimately show thesis using that [OF app] by (simp add: r)
qed

lemma replay_last:
  assumes rows: "control_events t = control_events s @ [x]"
    and old: "list_all (\<lambda>y. row_seq y < row_seq x) (control_events s)"
    and ids: "trim_space w = w" "w \<noteq> []" "trim_space k = k" "k \<noteq> []"
    and get: "get_agent_run E w k t = Inr r0"
    and x: "row_workspace x = w" "env_field (xe_events (ae_tools E)) (ev_payload (row_event x)) ''run_id'' = Some k"
      "has_prefix (ev_type (row_event x)) ''agent.''"
      "ae_payload_run E (ev_payload (row_event x)) = Some k"
  shows "replay_agent E w k (row_seq x - 1) limit t = Inr [row_event x]"
proof -
  let ?q = "\<lparr>rr_workspace = w, rr_after = row_seq x - 1, rr_to = 0, rr_event_type = [], rr_run_id = k,
       rr_task_id = [], rr_session_id = [], rr_limit = (if limit \<le> 0 \<or> limit > 1000 then 1000 else limit)\<rparr>"
  have "filter (read_matches (xe_events (ae_tools E)) ?q) (map row_event (control_events s)) = []"
    using old by (fastforce simp: filter_empty_conv list_all_iff read_matches_def row_seq_def)
  moreover have "read_matches (xe_events (ae_tools E)) ?q (row_event x)"
    using x ids by (simp add: read_matches_def row_seq_def row_workspace_def opt_filter_def)
  ultimately have "read_after (xe_events (ae_tools E)) ?q t = Inr [row_event x]"
    using ids by (simp add: read_after_def rows bounded_read_limit_def default_event_read_limit_def
        max_event_read_limit_def take_Cons')
  then show ?thesis
    using x ids get by (simp add: replay_agent_def Let_def)
qed

text \<open>What the event of a commit carries.\<close>

definition candidate_of :: "agent_run \<Rightarrow> agent_run \<Rightarrow> agent_run" where
  "candidate_of current r = r\<lparr>ag_sequence := ag_sequence current\<rparr>"

definition commit_payload :: "'x agent_env \<Rightarrow> agent_run \<Rightarrow> agent_run \<Rightarrow> agent_payload \<Rightarrow> string" where
  "commit_payload E current r p = ae_payload E (candidate_of current r) (checkpoint_of E (candidate_of current r)) p"

text \<open>
  C12: A commit appends one event, and replaying the log from there gives back exactly the
  checkpoint of the run the commit returned, when the payload codec returns what it encoded and
  the event's sequence is above those already in the log.
\<close>

theorem commit_replays:
  assumes "commit_agent E i current nx et p owned s = (Inr r, t)" and "agent_tables_wf s" and "run_known s current"
    and "commit_payload E current r p \<noteq> []" and "ae_payload_run E (commit_payload E current r p) = Some (ag_id r)"
    and "ae_payload_checkpoint E (commit_payload E current r p) = Some (ag_id r, checkpoint_of E (candidate_of current r))"
    and "env_field (xe_events (ae_tools E)) (commit_payload E current r p) ''run_id'' = Some (ag_id r)"
    and "has_prefix (to_lower (trim_space et)) ''agent.''" and "ag_state_hash r \<noteq> []"
    and "list_all (\<lambda>x. row_seq x < io_seq (ai_io i)) (control_events s)"
    and "idempotency_records s (ag_workspace r, trim_space (''agent:'' @ ag_id r @ '':v:'' @ show_int (ag_version r))) = None"
    and "get_agent_run E (ag_workspace r) (ag_id r) t = Inr r0"
  shows "\<exists>x. control_events t = control_events s @ [x] \<and> row_seq x = ag_sequence r \<and>
    replay_checkpoint E (ag_workspace r) (ag_id r) (ag_sequence r - 1) limit t = Inr (checkpoint_of E r)"
proof -
  let ?c = "candidate_of current r"
  have tx: "commit_tx E i current nx et p owned s = Inr (r, t)" using assms(1) by (rule commit_agent_Inr)
  note rows = commit_tx_rows [OF tx assms(2,3)]
  then obtain row where row: "find_agent_row (ag_workspace r) (ag_id r) t = Some row" by (auto simp: run_known_def)
  from tx have "trim_space (ag_id current) \<noteq> []" "trim_space (ag_workspace current) \<noteq> []"
    by (auto simp: commit_tx_def commit_admit_ok results)
  moreover have "trim_space (ag_id r) = ag_id r" "trim_space (ag_workspace r) = ag_workspace r"
    using rows find_agent_row_Some [OF row] by (auto simp: agent_tables_wf_def)
  ultimately have ids: "trim_space (ag_id r) = ag_id r" "ag_id r \<noteq> []" "trim_space (ag_workspace r) = ag_workspace r"
    "ag_workspace r \<noteq> []" using rows by auto
  from tx show ?thesis
  proof (cases rule: commit_tx_event)
    case (1 e db1 db2)
    from 1(1) [folded candidate_of_def] show ?thesis
    proof (rule append_agent_event_row)
      show "ae_payload E ?c (checkpoint_of E ?c) p \<noteq> []" using assms(4) by (simp add: commit_payload_def)
      fix x assume x: "control_events db2 = control_events db1 @ [x]" "row_seq x = io_seq (ai_io i)"
        "ev_sequence e = io_seq (ai_io i)" "row_workspace x = ag_workspace ?c"
        "ev_payload (row_event x) = ae_payload E ?c (checkpoint_of E ?c) p"
        "ev_type (row_event x) = to_lower (trim_space et)"
      have log: "control_events t = control_events s @ [x]" using x(1) 1(2,4) by simp
      have seq: "row_seq x = ag_sequence r" using x(2,3) 1(5) by simp
      have ev: "ev_payload (row_event x) = commit_payload E current r p" using x(5) by (simp add: commit_payload_def)
      have "replay_agent E (ag_workspace r) (ag_id r) (row_seq x - 1) limit t = Inr [row_event x]"
        by (rule replay_last [OF log _ ids(3,4,1,2) assms(12)]) (use assms(5,7,8,10) x ev in \<open>simp_all add: candidate_of_def\<close>)
      moreover have "(checkpoint_of E ?c)\<lparr>lc_sequence := ag_sequence r\<rparr> = checkpoint_of E r"
        by (simp add: candidate_of_def checkpoint_of_def run_checkpoint_def state_snapshot_def)
      moreover have "lc_run (checkpoint_of E ?c) = ag_id r" "lc_state_hash (checkpoint_of E ?c) = ag_state_hash r"
        by (simp_all add: candidate_of_def checkpoint_of_def run_checkpoint_def)
      ultimately show ?thesis
        using log seq ev assms(6,9) by (simp add: replay_checkpoint_def row_seq_def)
    qed (use ids assms(11) 1(3) in \<open>simp_all add: candidate_of_def\<close>)
  qed
qed

section \<open>Samples\<close>

definition sample_agent_request :: agent_run_request where
  "sample_agent_request = \<lparr>aq_schema_version = 1, aq_run_id = ''run1'', aq_request_id = ''q1'', aq_idempotency = ''k'',
    aq_causation = [], aq_correlation = [], aq_workspace = ''ws'',
    aq_actor = \<lparr>ac_id = ''u'', ac_kind = ''user'', ac_name = [], ac_workspace = []\<rparr>, aq_task = None, aq_session = None,
    aq_task_owner = [], aq_task_fence = 0, aq_goal = ''fix it'',
    aq_provider = \<lparr>pf_provider = ''p'', pf_endpoint = [], pf_model = ''m''\<rparr>, aq_tools = [], aq_retrieval = None,
    aq_budget = default_agent_budget, aq_metadata = []\<rparr>"

definition codec_env :: "(string \<times> loop_checkpoint) option \<Rightarrow> unit agent_env" where
  "codec_env c = \<lparr>ae_tools = sample_tool_env\<lparr>xe_events := sample_env\<lparr>env_field := (\<lambda>_ _. Some ''run1'')\<rparr>\<rparr>,
    ae_request_digest = (\<lambda>_. ''rq''), ae_state_digest = (\<lambda>_. ''sh''), ae_history_digest = (\<lambda>_. ''hh''),
    ae_history_json = (\<lambda>_. ''[]''), ae_history_decode = (\<lambda>_. Some [user_message ''fix it'']),
    ae_pending_json = (\<lambda>_. ''[]''), ae_payload = (\<lambda>_ _ _. ''{}''), ae_payload_run = (\<lambda>_. Some ''run1''),
    ae_payload_checkpoint = (\<lambda>_. c), ae_artifact_text = (\<lambda>_ _ _ _. Inl ''unused''),
    ae_artifact_link = (\<lambda>_ _ _ _. Inl ''unused'')\<rparr>"

definition agent_run0 :: agent_run where
  "agent_run0 = new_agent_run (codec_env None) 5 sample_agent_request ''rq''"

definition sample_agent_in :: "nat \<Rightarrow> agent_in" where
  "sample_agent_in n = \<lparr>ai_now = 100 * int n, ai_clock = (\<lambda>k. 100 * int n + int k),
    ai_io = sample_io (''e'' @ show_nat n) (int n), ai_new_run = ''r'', ai_new_request = ''q'', ai_locked = (\<lambda>_. False)\<rparr>"

definition agent_db_of :: "agent_run \<Rightarrow> unit agent_db" where
  "agent_db_of r = tool_db.extend empty_tool_db
    (agent_db.fields [\<lparr>ro_run = r, ro_priority = 0, ro_scheduled = 0, ro_attempts = 0, ro_worker = []\<rparr>] (\<lambda>_. None))"

definition agent_run1 :: agent_run where
  "agent_run1 = agent_run0\<lparr>ag_state := ''running'', ag_version := 2, ag_sequence := 3, ag_updated := 300,
    ag_started := Some 300\<rparr>"

definition agent_env1 :: "unit agent_env" where
  "agent_env1 = codec_env (Some (''run1'', checkpoint_of (codec_env None) (candidate_of agent_run0 agent_run1)))"

definition sample_commit :: "(agent_error + agent_run) \<times> unit agent_db" where
  "sample_commit = commit_agent agent_env1 (sample_agent_in 3) agent_run0 (agent_run0\<lparr>ag_state := ''running''\<rparr>)
    ''agent.checkpointed'' [] None (agent_db_of agent_run0)"

lemma sample_commit_run: "fst sample_commit = Inr agent_run1"
  by code_simp

lemma sample_commit_result:
  "commit_agent agent_env1 (sample_agent_in 3) agent_run0 (agent_run0\<lparr>ag_state := ''running''\<rparr>)
    ''agent.checkpointed'' [] None (agent_db_of agent_run0) = (Inr agent_run1, snd sample_commit)"
  by (metis sample_commit_run sample_commit_def prod.collapse)

lemma agent_db_of_simps [simp]:
  "agent_rows (agent_db_of r) = [\<lparr>ro_run = r, ro_priority = 0, ro_scheduled = 0, ro_attempts = 0, ro_worker = []\<rparr>]"
  "run_leases (agent_db_of r) = (\<lambda>_. None)" "control_events (agent_db_of r) = []"
  "idempotency_records (agent_db_of r) = (\<lambda>_. None)"
  by (simp_all add: agent_db_of_def tool_db.defs agent_db.defs empty_tool_db_def)

lemma agent_run0_simps [simp]:
  "ag_id agent_run0 = ''run1''" "ag_workspace agent_run0 = ''ws''" "ag_version agent_run0 = 1"
  "ag_state agent_run0 = ''pending''" "ag_goal agent_run0 = ''fix it''" "ag_state_hash agent_run0 = ''sh''"
  "ag_task_fence agent_run0 = 0"
  by (simp_all add: agent_run0_def new_agent_run_def Let_def sample_agent_request_def compute_state_hash_def codec_env_def)

lemma trim_agent_samples: "trim_space ''run1'' = ''run1''" "trim_space ''ws'' = ''ws''"
  by code_simp+

lemma sample_agent_wf: "agent_sys_wf (agent_db_of agent_run0, [agent_run0])"
  by (simp add: agent_sys_wf_def agent_tables_wf_def run_known_def find_agent_row_def trim_agent_samples)

lemma agent_commit_exclusive_witness:
  "\<exists>e. commit_agent agent_env1 (sample_agent_in 4) agent_run0 (agent_run0\<lparr>ag_state := ''failed''\<rparr>) ''agent.failed'' []
    None (snd sample_commit) = (Inl e, snd sample_commit)"
  by (rule agent_commit_exclusive [OF sample_commit_result sample_agent_wf _ rtranclp.rtrancl_refl [of "agent_step agent_env1" "(0, snd sample_commit, [agent_run1, agent_run0])"]])
    simp_all

definition done_run :: agent_run where
  "done_run = agent_run0\<lparr>ag_state := ''succeeded''\<rparr>"

lemma agent_terminal_frozen_witness:
  "\<exists>row'. find_agent_row ''ws'' ''run1'' (agent_db_of done_run) = Some row' \<and>
    ag_state (ro_run row') = ''succeeded'' \<and> \<not> run_claimable 9 ''ws'' (agent_db_of done_run) row'"
proof -
  let ?row = "\<lparr>ro_run = done_run, ro_priority = 0, ro_scheduled = 0, ro_attempts = 0, ro_worker = []\<rparr>"
  have f: "find_agent_row ''ws'' ''run1'' (agent_db_of done_run) = Some ?row"
    by (simp add: find_agent_row_def done_run_def)
  have wf: "agent_sys_wf (agent_db_of done_run, [])"
    by (simp add: agent_sys_wf_def agent_tables_wf_def trim_agent_samples done_run_def)
  have "is_agent_terminal ''succeeded''" by code_simp
  then have "is_agent_terminal (ag_state (ro_run ?row))" by (simp add: done_run_def)
  from agent_terminal_frozen [OF rtranclp.rtrancl_refl [of "agent_step agent_env1" "(0, agent_db_of done_run, [])"] wf f this]
  show ?thesis by (auto simp: done_run_def)
qed

definition held_lease :: "string lease" where
  "held_lease = \<lparr>lease_workspace = ''ws'', lease_key = ''run1'', lease_owner = ''w2'', lease_fence = 2,
    lease_until = 1000, lease_acquired = 0, lease_renewed = 0, lease_released = None\<rparr>"

definition old_token :: agent_run_lease where
  "old_token = handed_lease (held_lease\<lparr>lease_owner := ''w1'', lease_fence := 1\<rparr>) (5 * second)"

lemma stale_agent_worker_no_effect_witness:
  "let t = (agent_db_of agent_run0)\<lparr>run_leases := [(''ws'', ''run1'') \<mapsto> held_lease]\<rparr> in
    \<exists>e1 e2 e3. commit_agent agent_env1 (sample_agent_in 4) agent_run0 agent_run1 ''agent.checkpointed'' []
      (Some old_token) t = (Inl e1, t) \<and>
    renew_agent_run_lease agent_env1 (sample_agent_in 4) old_token second t = (Inl e2, t) \<and>
    release_agent_run_lease agent_env1 (sample_agent_in 4) old_token t = (Inl e3, t)"
proof -
  let ?t = "(agent_db_of agent_run0)\<lparr>run_leases := [(''ws'', ''run1'') \<mapsto> held_lease]\<rparr>"
  have k: "lease_workspace old_token = ''ws''" "lease_key old_token = ''run1''" "lease_fence old_token = 1"
    by (simp_all add: old_token_def handed_lease_def held_lease_def lease.defs)
  have l: "run_lease_row (?t, []) (lease_workspace old_token, lease_key old_token) = Some held_lease"
    by (simp add: run_lease_row_def k trim_agent_samples)
  show ?thesis unfolding Let_def
    by (rule stale_agent_worker_no_effect [OF rtranclp.rtrancl_refl [of "agent_step agent_env1" "(0, ?t, [])"] l])
      (simp_all add: k held_lease_def sample_agent_in_def)
qed

definition bound_run :: agent_run where
  "bound_run = agent_run0\<lparr>ag_task := Some \<lparr>er_id = ''7'', er_kind = ''task'', er_workspace = ''ws''\<rparr>,
    ag_task_owner := ''w1'', ag_task_fence := 1\<rparr>"

lemma stale_task_run_cannot_commit_witness:
  "let t = (agent_db_of bound_run)\<lparr>task_leases := [(''ws'', 7) \<mapsto> fenced_lease_row]\<rparr> in
    \<exists>e1 e2. commit_agent agent_env1 (sample_agent_in 4) bound_run agent_run1 ''agent.checkpointed'' [] None t = (Inl e1, t) \<and>
      cancel_agent agent_env1 (sample_agent_in 4) bound_run ''stop'' t = (Inl e2, t)"
proof -
  let ?t = "(agent_db_of bound_run)\<lparr>task_leases := [(''ws'', 7) \<mapsto> fenced_lease_row]\<rparr>"
  let ?T = "task_step undefined :: time \<times> unit task_db \<Rightarrow> time \<times> unit task_db \<Rightarrow> bool"
  have l: "task_leases (task_db.truncate ?t) (ag_workspace bound_run, 7) = Some fenced_lease_row"
    by (simp add: bound_run_def task_db.defs)
  have ref: "ag_task bound_run = Some \<lparr>er_id = ''7'', er_kind = ''task'', er_workspace = ''ws''\<rparr>"
    "ag_task_fence bound_run < lease_fence fenced_lease_row"
    by (simp_all add: bound_run_def fenced_lease_row_def)
  have parse: "parse_int64 (trim_space (er_id \<lparr>er_id = ''7'', er_kind = ''task'', er_workspace = ''ws''\<rparr>)) = Some 7"
    by code_simp
  have t: "task_leases ?t = task_leases (task_db.truncate ?t)" by (simp add: task_db.defs)
  show ?thesis unfolding Let_def
    by (rule stale_task_run_cannot_commit [OF rtranclp.rtrancl_refl [of ?T "(0, task_db.truncate ?t)"] l ref(2) t ref(1) parse])
qed

lemma claim_grants_best_run_witness:
  "\<exists>c t g. claim_next_agent_run agent_env1 (sample_agent_in 1) ''ws'' ''w1'' second (agent_db_of agent_run0) = (Inr (Some c), t) \<and>
    run_leases t (''ws'', ''run1'') = Some g \<and> lease_owner g = ''w1'' \<and> lease_fence g = 1"
proof -
  let ?claim = "claim_next_agent_run agent_env1 (sample_agent_in 1) ''ws'' ''w1'' second (agent_db_of agent_run0)"
  have "case fst ?claim of Inr (Some _) \<Rightarrow> True | _ \<Rightarrow> False" by code_simp
  then obtain c where "fst ?claim = Inr (Some c)" by (auto split: sum.splits option.splits)
  then obtain t where c: "?claim = (Inr (Some c), t)" by (metis prod.collapse)
  have wf: "agent_tables_wf (agent_db_of agent_run0)" using sample_agent_wf by (simp add: agent_sys_wf_def)
  have "trim_space ''w1'' = ''w1''" by code_simp
  with claim_grants_best_run [OF c wf] obtain g where "run_leases t = [(''ws'', ''run1'') \<mapsto> g]"
    "lease_owner g = ''w1''" "lease_fence g = 1" by (auto simp: Let_def)
  with c show ?thesis by (intro exI [of _ c] exI [of _ t] exI [of _ g]) simp
qed

lemma commit_replays_witness:
  "\<exists>x. control_events (snd sample_commit) = [x] \<and> row_seq x = 3 \<and>
    replay_checkpoint agent_env1 ''ws'' ''run1'' 2 10 (snd sample_commit) = Inr (checkpoint_of agent_env1 agent_run1)"
proof -
  have r: "ag_id agent_run1 = ''run1''" "ag_workspace agent_run1 = ''ws''" "ag_sequence agent_run1 = 3" "ag_state_hash agent_run1 = ''sh''"
    by (simp_all add: agent_run1_def)
  have "case get_agent_run agent_env1 (ag_workspace agent_run1) (ag_id agent_run1) (snd sample_commit) of Inr _ \<Rightarrow> True | _ \<Rightarrow> False"
    by code_simp
  then obtain r0 where r0: "get_agent_run agent_env1 (ag_workspace agent_run1) (ag_id agent_run1) (snd sample_commit) = Inr r0"
    by (auto split: sum.splits)
  have wf: "agent_tables_wf (agent_db_of agent_run0)" "run_known (agent_db_of agent_run0) agent_run0"
    using sample_agent_wf by (simp_all add: agent_sys_wf_def)
  have pre: "has_prefix (to_lower (trim_space ''agent.checkpointed'')) ''agent.''" by code_simp
  have codec: "ae_payload_checkpoint agent_env1 (commit_payload agent_env1 agent_run0 agent_run1 []) =
      Some (ag_id agent_run1, checkpoint_of agent_env1 (candidate_of agent_run0 agent_run1))"
    by (simp add: r agent_env1_def codec_env_def checkpoint_of_def)
  have "\<exists>x. control_events (snd sample_commit) = control_events (agent_db_of agent_run0) @ [x] \<and>
      row_seq x = ag_sequence agent_run1 \<and> replay_checkpoint agent_env1 (ag_workspace agent_run1) (ag_id agent_run1)
        (ag_sequence agent_run1 - 1) 10 (snd sample_commit) = Inr (checkpoint_of agent_env1 agent_run1)"
    by (rule commit_replays [OF sample_commit_result wf _ _ codec _ pre _ _ _ r0])
      (simp_all add: r commit_payload_def agent_env1_def codec_env_def sample_agent_in_def sample_io_def)
  then show ?thesis by (simp add: r)
qed

end
