(* ===== verification/Agent_Loop_Properties.thy ===== *)
theory Agent_Loop_Properties
  imports Agent_Transitions Agent_Properties
begin

text \<open>
  What the agent loop guarantees: its commits are transitions of \<open>loop_next\<close>, the budget of a run
  is kept by every operation of the loop, and \<open>Run\<close> reaches a stop before its phases are used up.
\<close>

section \<open>The columns the loop decides on\<close>

definition loop_view :: "agent_run \<Rightarrow> agent_budget \<times> string \<times> string \<times> int \<times> int \<times> int \<times> pending_tool_call list \<times> int \<times> rat" where
  "loop_view r = (ag_budget r, ag_context_hash r, ag_state r, ag_turn r, ag_model_attempts r, ag_tool_calls r,
    ag_pending r, ag_output_tokens r, mk_total (ag_cost r))"

lemma checkpoint_view [simp]: "loop_view (checkpoint_columns nx s old) = loop_view nx"
  by (simp add: loop_view_def checkpoint_columns_def)

lemma hydrate_view: "hydrate_agent_run E ev r = Inr r' \<Longrightarrow> loop_view r' = loop_view r"
  by (erule hydrate_Inr) (simp add: loop_view_def)

lemma loop_read_row:
  assumes "loop_read W i w rid s = Inr r"
  obtains row where "find_agent_row (trim_space w) (trim_space rid) s = Some row" and "loop_view r = loop_view (ro_run row)"
    and "same_identity r (ro_run row)" and "ag_workspace r = trim_space w" and "ag_id r = trim_space rid"
proof -
  from assms have read: "read_agent_run (or_env W) (trim_space w) (trim_space rid) s = Inr r"
    by (auto simp: loop_read_def results dest: get_agent_run_read)
  then obtain row where row: "find_agent_row (trim_space w) (trim_space rid) s = Some row"
    and r: "hydrate_agent_run (or_env W) (evidence_tables s) (ro_run row) = Inr r"
    by (auto simp: read_agent_run_def scan_agent_run_def results split: option.split_asm if_split_asm)
  from hydrate_fields [OF r] find_agent_row_Some [OF row]
  show thesis by (intro that [OF row hydrate_view [OF r]]) (simp_all add: same_identity_def)
qed

text \<open>A budget that normalisation leaves alone, and a commit of a candidate that has one.\<close>

definition budget_normal :: "agent_budget \<Rightarrow> bool" where
  "budget_normal b \<longleftrightarrow> normalize_agent_budget b = Inr b"

lemma prepare_commit_view:
  assumes "prepare_commit E now current nx0 = Inr nx" and "budget_normal (ag_budget nx0)"
  shows "loop_view nx = loop_view nx0"
  using assms(1)
proof (rule prepare_commit_parts)
  fix b h out
  assume b: "normalize_agent_budget (ag_budget nx0) = Inr b"
    and nx: "nx = stamp_commit E now current (nx0\<lparr>ag_budget := b, ag_history := h, ag_last_output := out\<rparr>)"
  from b assms(2) have "b = ag_budget nx0" by (simp add: budget_normal_def)
  with nx show ?thesis by (simp add: loop_view_def stamp_commit_def Let_def)
qed

lemma commit_tx_view:
  assumes "commit_tx E i current nx etype payload owned s = Inr (c, t)" and "budget_normal (ag_budget nx)"
  shows "loop_view c = loop_view nx" and "ag_id c = ag_id nx" and "ag_workspace c = ag_workspace nx"
proof -
  from assms(1) obtain nx1 stored e where "prepare_commit E (ai_now i) current nx = Inr nx1"
    and "c = committed_run nx1 stored e"
    by (cases rule: commit_tx_Inr) auto
  with prepare_commit_view [OF _ assms(2)] prepare_commit_Inr
  show "loop_view c = loop_view nx" and "ag_id c = ag_id nx" and "ag_workspace c = ag_workspace nx"
    by (auto simp: loop_view_def)
qed

lemma commit_tx_row:
  assumes commit: "commit_tx E i r nx etype payload owned s = Inr (c, t)" and normal: "budget_normal (ag_budget nx)"
    and ids: "ag_id nx = ag_id r" "ag_workspace nx = ag_workspace r"
  obtains row row' where "find_agent_row (ag_workspace r) (ag_id r) s = Some row"
    and "find_agent_row (ag_workspace r) (ag_id r) t = Some row'" and "loop_view (ro_run row') = loop_view nx"
    and "ag_version (ro_run row) = ag_version r" and "ag_version (ro_run row') = ag_version r + 1"
    and "list_all2 (\<lambda>a b. b = a \<or> (ag_workspace (ro_run a) = ag_workspace r \<and> ag_id (ro_run a) = ag_id r \<and>
      ag_version (ro_run a) = ag_version r \<and> loop_view (ro_run b) = loop_view nx \<and>
      ag_workspace (ro_run b) = ag_workspace nx \<and> ag_id (ro_run b) = ag_id nx)) (agent_rows s) (agent_rows t)"
  using commit
proof (cases rule: commit_tx_effect)
  case (1 row stored)
  note c = commit_tx_view [OF commit normal]
  let ?f = "\<lambda>q. if ag_workspace (ro_run q) = ag_workspace c \<and> ag_id (ro_run q) = ag_id c \<and>
      ag_version (ro_run q) = ag_version r then q\<lparr>ro_run := checkpoint_columns c stored (ro_run q)\<rparr> else q"
  have "find_agent_row (ag_workspace r) (ag_id r) t = map_option ?f (find_agent_row (ag_workspace r) (ag_id r) s)"
    by (rule find_agent_row_map [OF 1(8)]) simp
  moreover have "list_all2 (\<lambda>a b. b = a \<or> (ag_workspace (ro_run a) = ag_workspace r \<and> ag_id (ro_run a) = ag_id r \<and>
      ag_version (ro_run a) = ag_version r \<and> loop_view (ro_run b) = loop_view nx \<and>
      ag_workspace (ro_run b) = ag_workspace nx \<and> ag_id (ro_run b) = ag_id nx)) (agent_rows s) (agent_rows t)"
    by (simp add: 1(8) list_all2_conv_all_nth c ids)
  ultimately show thesis
    using that [of row "?f row"] 1 c ids find_agent_row_Some [OF 1(1)] by simp
qed

section \<open>Budgets\<close>

text \<open>What a run may cost, with \<open>extra\<close> turns above its turn budget.\<close>

definition within_budget :: "int \<Rightarrow> agent_run \<Rightarrow> bool" where
  "within_budget extra r \<longleftrightarrow>
    (let b = ag_budget r in
    budget_normal b \<and> 0 \<le> ag_turn r \<and> ag_turn r \<le> ab_turns b + extra \<and>
    0 \<le> ag_model_attempts r \<and> ag_model_attempts r \<le> ab_model_steps b \<and>
    len (ag_pending r) \<le> ag_tool_calls r \<and> ag_tool_calls r \<le> ab_tool_calls b \<and>
    ag_output_tokens r \<le> ab_output_tokens b \<and> mk_total (ag_cost r) \<le> ab_cost b \<and>
    list_all (\<lambda>p. 0 \<le> pt_attempt p \<and> pt_attempt p < ab_tool_attempts b) (ag_pending r))"

text \<open>The loop keeps \<open>within_budget 0\<close>.  \<open>CompleteExternal\<close> counts a turn without a look at the turn
  budget, so among the runs of \<open>X\<close>, those it completed, a succeeded one may stand one turn above:
  that is the one way past a budget (\<open>external_completion_exceeds_turns\<close> below).  What only
  needs the weaker of the two bounds for every run asks for \<open>run_within_budget\<close>.\<close>

definition within_budget_but :: "(string \<times> string) set \<Rightarrow> agent_run \<Rightarrow> bool" where
  "within_budget_but X r \<longleftrightarrow>
    within_budget (if ag_state r = ''succeeded'' \<and> (ag_workspace r, ag_id r) \<in> X then 1 else 0) r"

definition run_within_budget :: "agent_run \<Rightarrow> bool" where
  "run_within_budget r \<longleftrightarrow> within_budget (if ag_state r = ''succeeded'' then 1 else 0) r"

lemma within_budget_mono: "within_budget m r \<Longrightarrow> m \<le> n \<Longrightarrow> within_budget n r"
  by (auto simp: within_budget_def Let_def)

lemma within_budget_but_mono: "within_budget_but X r \<Longrightarrow> X \<subseteq> Y \<Longrightarrow> within_budget_but Y r"
  by (auto simp: within_budget_but_def intro: within_budget_mono split: if_splits)

lemma within_budget_but_UNIV [simp]: "within_budget_but UNIV r = run_within_budget r"
  by (simp add: within_budget_but_def run_within_budget_def)

lemma within_budget_but_weak: "within_budget_but X r \<Longrightarrow> run_within_budget r"
  using within_budget_but_mono [of X r UNIV] by simp

lemma strictly_within [intro]: "within_budget 0 r \<Longrightarrow> within_budget_but X r" "within_budget 0 r \<Longrightarrow> run_within_budget r"
  by (auto simp: within_budget_but_def run_within_budget_def intro: within_budget_mono)

lemma within_budget_normal: "within_budget n r \<Longrightarrow> budget_normal (ag_budget r)"
  by (simp add: within_budget_def Let_def)

lemma open_within_budget:
  assumes "run_within_budget r" and "\<not> is_agent_terminal (ag_state r)"
  shows "within_budget 0 r"
proof -
  have "is_agent_terminal ''succeeded''" by code_simp
  with assms show ?thesis by (auto simp: run_within_budget_def split: if_split_asm)
qed

lemma within_view0: "loop_view a = loop_view b \<Longrightarrow> within_budget n a = within_budget n b"
  by (simp add: loop_view_def within_budget_def)

lemma within_view: "loop_view a = loop_view b \<Longrightarrow> run_within_budget a = run_within_budget b"
  using within_view0 [of a b] by (simp add: run_within_budget_def loop_view_def)

lemma within_view_but:
  "loop_view a = loop_view b \<Longrightarrow> ag_workspace a = ag_workspace b \<Longrightarrow> ag_id a = ag_id b \<Longrightarrow>
    within_budget_but X a = within_budget_but X b"
  using within_view0 [of a b] by (simp add: within_budget_but_def loop_view_def)

lemma budget_normal_attempts: "budget_normal b \<Longrightarrow> 1 \<le> ab_tool_attempts b"
  by (auto simp: budget_normal_def agent_budget_bounded_def dest: normalize_agent_budget_bounds)

lemma model_answered_simps [simp]:
  "ag_budget (model_answered bytes n p r) = ag_budget r" "ag_turn (model_answered bytes n p r) = ag_turn r + 1"
  "ag_model_attempts (model_answered bytes n p r) = n" "ag_tool_calls (model_answered bytes n p r) = ag_tool_calls r"
  "ag_pending (model_answered bytes n p r) = ag_pending r" "ag_state (model_answered bytes n p r) = ''running''"
  "ag_context_hash (model_answered bytes n p r) = ag_context_hash r" "ag_id (model_answered bytes n p r) = ag_id r"
  "ag_workspace (model_answered bytes n p r) = ag_workspace r"
  "ag_output_tokens (model_answered bytes n p r) = ag_output_tokens r + mu_output (ms_usage p)"
  "mk_total (ag_cost (model_answered bytes n p r)) = mk_total (ag_cost r) + mk_total (ms_cost p)"
  by (simp_all add: model_answered_def add_cost_def)

lemma loop_next_identity:
  assumes "loop_next r a nx"
  shows "ag_id nx = ag_id r" and "ag_workspace nx = ag_workspace r" and "ag_budget nx = ag_budget r"
  using assms by (auto elim!: loop_next.cases)

lemma loop_next_within:
  assumes "loop_next r a nx" and "run_within_budget r" and "\<not> is_agent_terminal (ag_state r)"
  shows "within_budget 0 nx"
proof -
  note r = open_within_budget [OF assms(2,3)]
  from assms(1) show ?thesis
  proof cases
    case (tools_requested p bytes)
    with r budget_normal_attempts [of "ag_budget r"] show ?thesis
      by (auto simp: within_budget_def Let_def exceeds_budget_def remaining_output_def pending_call_def
          len_def list_all_iff)
  next
    case (failed attempt tm phase f)
    with r show ?thesis by (auto simp: within_budget_def Let_def len_def)
  qed (use r in \<open>auto simp: within_budget_def Let_def exceeds_budget_def remaining_output_def len_def\<close>)
qed

lemma external_next_identity:
  assumes "external_next r a nx"
  shows "ag_id nx = ag_id r" and "ag_workspace nx = ag_workspace r" and "ag_budget nx = ag_budget r"
  using assms loop_next_identity by (auto simp: externally_completed_def elim!: external_next.cases)

lemma external_next_within:
  assumes "external_next r a nx" and "run_within_budget r" and "\<not> is_agent_terminal (ag_state r)"
  shows "within_budget_but {(ag_workspace r, ag_id r)} nx"
  using assms(1)
proof cases
  case (external_completed answer)
  with open_within_budget [OF assms(2,3)] show ?thesis
    by (auto simp: within_budget_but_def within_budget_def Let_def externally_completed_def remaining_output_def)
next
  case as_the_loop
  from loop_next_within [OF this assms(2,3)] show ?thesis ..
qed

section \<open>Progress\<close>

text \<open>The phases a run may still go on for: one for a due retry, one for the context, a turn each,
  and a tool call each, pending or not yet requested.\<close>

definition loop_rank :: "agent_run \<Rightarrow> nat" where
  "loop_rank r = (if ag_state r = ''awaiting_retry'' then 1 else 0) + (if ag_context_hash r = [] then 1 else 0) +
    nat (ab_turns (ag_budget r) - ag_turn r) + nat (ab_tool_calls (ag_budget r) - ag_tool_calls r) + length (ag_pending r)"

lemma rank_view: "loop_view a = loop_view b \<Longrightarrow> loop_rank a = loop_rank b"
  by (simp add: loop_view_def loop_rank_def)

lemma loop_next_rank:
  assumes "loop_next r a nx" and "a = ''advanced''"
  shows "loop_rank nx < loop_rank r"
  using assms by cases (simp_all add: loop_rank_def len_def)

lemma loop_rank_bound:
  assumes "run_within_budget r"
  shows "loop_rank r < max_phases (ag_budget r)"
proof -
  have "int (length (ag_pending r)) \<le> ag_tool_calls r" "ag_tool_calls r \<le> ab_tool_calls (ag_budget r)"
    "0 \<le> ag_turn r" "ag_turn r \<le> ab_turns (ag_budget r) + 1" "0 \<le> ab_model_steps (ag_budget r)"
    using assms by (auto simp: run_within_budget_def within_budget_def Let_def len_def split: if_split_asm)
  then show ?thesis by (auto simp: loop_rank_def max_phases_def Let_def)
qed

section \<open>The loop as a transition system\<close>

text \<open>Two environments: one that does not touch the tables of runs, and one that may write them but
  not the row of the given run.\<close>

interpretation tables_kept: environment_order "\<lambda>s t. agent_rows t = agent_rows (s :: 'x agent_db)"
  by unfold_locales auto

definition run_row_kept :: "string \<Rightarrow> string \<Rightarrow> 'x agent_db \<Rightarrow> 'x agent_db \<Rightarrow> bool" where
  "run_row_kept w rid s t \<longleftrightarrow>
    find_agent_row (trim_space w) (trim_space rid) t = find_agent_row (trim_space w) (trim_space rid) s"

interpretation row_kept: environment_order "run_row_kept w rid" for w rid
  by unfold_locales (auto simp: run_row_kept_def)

definition rows_within_budget :: "'x agent_db \<Rightarrow> bool" where
  "rows_within_budget s \<longleftrightarrow> list_all (\<lambda>row. run_within_budget (ro_run row)) (agent_rows s)"

definition rows_within_budget_but :: "(string \<times> string) set \<Rightarrow> 'x agent_db \<Rightarrow> bool" where
  "rows_within_budget_but X s \<longleftrightarrow> list_all (\<lambda>row. within_budget_but X (ro_run row)) (agent_rows s)"

definition budgets_kept :: "(string \<times> string) set \<Rightarrow> 'x agent_db \<Rightarrow> 'x agent_db \<Rightarrow> bool" where
  "budgets_kept X s t \<longleftrightarrow> (rows_within_budget_but X s \<longrightarrow> rows_within_budget_but X t)"

interpretation budgets: environment_order "budgets_kept X" for X
  by unfold_locales (auto simp: budgets_kept_def)

lemma rows_within_budget_but_weak: "rows_within_budget_but X s \<Longrightarrow> rows_within_budget s"
  by (auto simp: rows_within_budget_def rows_within_budget_but_def list_all_iff intro: within_budget_but_weak)

lemma rows_within_budget_but_mono: "rows_within_budget_but X s \<Longrightarrow> X \<subseteq> Y \<Longrightarrow> rows_within_budget_but Y s"
  by (auto simp: rows_within_budget_but_def list_all_iff intro: within_budget_but_mono)

lemma loop_read_within:
  assumes "loop_read W i w rid s = Inr r" and "rows_within_budget s"
  shows "run_within_budget r"
  using assms(1)
proof (cases rule: loop_read_row)
  case (1 row)
  from find_agent_row_Some [OF 1(1)] assms(2) have "run_within_budget (ro_run row)"
    by (auto simp: rows_within_budget_def list_all_iff)
  with within_view [OF 1(2)] show ?thesis by simp
qed

lemma list_all2_carry:
  assumes "list_all2 P xs ys" and "list_all Q xs" and "\<And>x y. P x y \<Longrightarrow> Q x \<Longrightarrow> Q y"
  shows "list_all Q ys"
  using assms by (induction rule: list_all2_induct) auto

text \<open>A decision to go on hands an open run within its budget to the next phase.\<close>

definition goes_on_within :: "loop_error + loop_decision \<Rightarrow> bool" where
  "goes_on_within res \<longleftrightarrow>
    (case res of Inl _ \<Rightarrow> True | Inr d \<Rightarrow> ld_action d \<noteq> ''advanced'' \<or>
      (run_within_budget (ld_run d) \<and> \<not> is_agent_terminal (ag_state (ld_run d))))"

lemma advanced_is_open:
  assumes "loop_next r a nx" and "a = ''advanced''" and "\<not> is_agent_terminal (ag_state r)"
  shows "\<not> is_agent_terminal (ag_state nx)"
proof -
  have "\<not> is_agent_terminal ''running''" by code_simp
  with assms show ?thesis by cases simp_all
qed

text \<open>A machine \<open>N\<close> that leads open runs to runs within budget, but for those of \<open>Y\<close>.\<close>

definition machine_within :: "(agent_run \<Rightarrow> string \<Rightarrow> agent_run \<Rightarrow> bool) \<Rightarrow> agent_run \<Rightarrow> (string \<times> string) set \<Rightarrow> bool" where
  "machine_within N r Y \<longleftrightarrow>
    (\<forall>a nx. N r a nx \<longrightarrow> within_budget_but Y nx \<and> ag_id nx = ag_id r \<and> ag_workspace nx = ag_workspace r)"

lemma machine_withinD:
  assumes "machine_within N r Y" and "N r a nx"
  shows "within_budget_but Y nx" and "ag_id nx = ag_id r" and "ag_workspace nx = ag_workspace r"
    and "budget_normal (ag_budget nx)"
proof -
  show nx: "within_budget_but Y nx" and "ag_id nx = ag_id r" and "ag_workspace nx = ag_workspace r"
    using assms by (auto simp: machine_within_def)
  from nx show "budget_normal (ag_budget nx)" unfolding within_budget_but_def by (rule within_budget_normal)
qed

lemma loop_machine_within:
  "run_within_budget r \<Longrightarrow> \<not> is_agent_terminal (ag_state r) \<Longrightarrow> machine_within loop_next r X"
  by (auto simp: machine_within_def loop_next_identity intro: loop_next_within)

lemma external_machine_within:
  "run_within_budget r \<Longrightarrow> \<not> is_agent_terminal (ag_state r) \<Longrightarrow>
    machine_within external_next r (insert (ag_workspace r, ag_id r) X)"
  by (auto simp: machine_within_def external_next_identity
      intro: within_budget_but_mono [OF external_next_within])

lemma loop_effect_keeps_rows:
  assumes "loop_effect (budgets_kept X) N W owned r s (res, t)" and "rows_within_budget_but X s"
    and "machine_within N r Y" and "X \<subseteq> Y"
  shows "rows_within_budget_but Y t"
  using assms(1)
proof cases
  case no_commit
  with assms(2) show ?thesis by (auto simp: budgets_kept_def intro: rows_within_budget_but_mono [OF _ assms(4)])
next
  case (one_commit s1 i nx etype payload c d)
  note nx = machine_withinD [OF assms(3) one_commit(4)]
  have s1: "rows_within_budget_but Y s1"
    using one_commit(2) assms(2) by (auto simp: budgets_kept_def intro: rows_within_budget_but_mono [OF _ assms(4)])
  show ?thesis
  proof (rule commit_tx_row [OF one_commit(3) nx(4,2,3)])
    fix row row'
    assume "list_all2 (\<lambda>a b. b = a \<or> (ag_workspace (ro_run a) = ag_workspace r \<and> ag_id (ro_run a) = ag_id r \<and>
      ag_version (ro_run a) = ag_version r \<and> loop_view (ro_run b) = loop_view nx \<and>
      ag_workspace (ro_run b) = ag_workspace nx \<and> ag_id (ro_run b) = ag_id nx)) (agent_rows s1) (agent_rows t)"
    then show ?thesis
      unfolding rows_within_budget_but_def
      by (rule list_all2_carry [OF _ s1 [unfolded rows_within_budget_but_def]])
        (use nx(1) within_view_but [of _ nx] in blast)
  qed
qed

lemma loop_effect_goes_on:
  assumes "loop_effect R loop_next W owned r s (res, t)" and "run_within_budget r"
    and "\<not> is_agent_terminal (ag_state r)"
  shows "goes_on_within res"
  using assms(1)
proof cases
  case no_commit
  then show ?thesis by (auto simp: goes_on_within_def split: sum.split)
next
  case (one_commit s1 i nx etype payload c d)
  have nx: "within_budget 0 nx" by (rule loop_next_within [OF one_commit(4) assms(2,3)])
  note view = commit_tx_view(1) [OF one_commit(3) within_budget_normal [OF nx]]
  have "ag_state c = ag_state nx" using view by (simp add: loop_view_def)
  then show ?thesis
    using one_commit(1,5) within_view [OF view] strictly_within(2) [OF nx] advanced_is_open [OF one_commit(4) _ assms(3)]
    by (auto simp: goes_on_within_def)
qed

lemma loop_operation_keeps_rows:
  assumes "loop_operation (budgets_kept X) N W i owned w rid s (res, t)" and "rows_within_budget_but X s"
    and "X \<subseteq> Y"
    and "\<And>r. ag_workspace r = trim_space w \<Longrightarrow> ag_id r = trim_space rid \<Longrightarrow> run_within_budget r \<Longrightarrow>
      \<not> is_agent_terminal (ag_state r) \<Longrightarrow> machine_within N r Y"
  shows "rows_within_budget_but Y t"
  using assms(1)
proof cases
  case (stopped e)
  with assms(2) show ?thesis by (auto simp: budgets_kept_def intro: rows_within_budget_but_mono [OF _ assms(3)])
next
  case (finished r)
  with assms(2) show ?thesis by (auto simp: budgets_kept_def intro: rows_within_budget_but_mono [OF _ assms(3)])
next
  case (acted s1 r)
  with assms(2) have s1: "rows_within_budget_but X s1" by (simp add: budgets_kept_def)
  from loop_read_within [OF acted(2) rows_within_budget_but_weak [OF s1]] loop_read_row [OF acted(2)]
  have "machine_within N r Y" using acted(3) assms(4) by metis
  from loop_effect_keeps_rows [OF acted(4) s1 this assms(3)] show ?thesis .
qed

lemma loop_operation_within:
  assumes "loop_operation (budgets_kept X) loop_next W i owned w rid s (res, t)" and "rows_within_budget_but X s"
  shows "rows_within_budget_but X t" and "goes_on_within res"
proof -
  show "rows_within_budget_but X t"
    by (rule loop_operation_keeps_rows [OF assms subset_refl]) (rule loop_machine_within)
  show "goes_on_within res"
    using assms(1)
  proof cases
    case (acted s1 r)
    with assms(2) have "rows_within_budget s1" by (auto simp: budgets_kept_def intro: rows_within_budget_but_weak)
    from loop_effect_goes_on [OF acted(4) loop_read_within [OF acted(2) this] acted(3)] show ?thesis .
  qed (simp_all add: goes_on_within_def)
qed

definition phases_within :: "(string \<times> string) set \<Rightarrow> 'x loop_result + agent_run \<times> 'x agent_db \<Rightarrow> bool" where
  "phases_within X x \<longleftrightarrow>
    (case x of
      Inl (res, t) \<Rightarrow> rows_within_budget_but X t
    | Inr (r, t) \<Rightarrow> rows_within_budget_but X t \<and> run_within_budget r \<and> \<not> is_agent_terminal (ag_state r))"

lemma run_phases_within:
  assumes "\<And>n. env_respects (budgets_kept X) W (ins n)" and "rows_within_budget_but X s" and "run_within_budget r"
    and "0 < n \<or> \<not> is_agent_terminal (ag_state r)"
  shows "phases_within X (run_phases W ins owned w rid n r s)"
  using assms(2-4)
proof (induction n arbitrary: r s)
  case (Suc n)
  obtain res t where adv: "advance W (ins (Suc n)) owned w rid s = (res, t)" by fastforce
  have "loop_operation (budgets_kept X) loop_next W (ins (Suc n)) owned w rid s (res, t)"
    using budgets.advance_operation [OF assms(1), of "Suc n" owned w rid s] adv by simp
  from loop_operation_within [OF this Suc.prems(1)] Suc.IH [of t] adv show ?case
    by (cases res) (auto simp: goes_on_within_def phases_within_def)
qed (simp add: phases_within_def)

lemma fail_within:
  assumes "env_respects (budgets_kept X) W i" and "rows_within_budget_but X s" and "run_within_budget r"
    and "\<not> is_agent_terminal (ag_state r)" and "lf_attempt f \<le> 0"
  shows "rows_within_budget_but X (snd (fail W i owned r f tm s))"
proof -
  obtain res t where x: "fail W i owned r f tm s = (res, t)" by fastforce
  have "loop_effect (budgets_kept X) loop_next W owned r s (res, t)"
    using budgets.fail_effect [OF assms(1), of f r owned s tm] assms(5) x by simp
  from loop_effect_keeps_rows [OF this assms(2) loop_machine_within [OF assms(3,4)] subset_refl] x show ?thesis by simp
qed

text \<open>A decision to stop, and what a phase does to the rank when it goes on.\<close>

definition stops :: "loop_error + loop_decision \<Rightarrow> bool" where
  "stops res \<longleftrightarrow> (case res of Inl _ \<Rightarrow> True | Inr d \<Rightarrow> ld_action d = ''waiting'' \<or> ld_action d = ''terminal'')"

lemma loop_next_action:
  "loop_next r a nx \<Longrightarrow> a = ''advanced'' \<or> a = ''waiting'' \<or> a = ''terminal''"
  by (erule loop_next.cases) simp_all

lemma phase_progress:
  assumes "env_respects (run_row_kept w rid) W i" and "advance W i owned w rid s = (res, t)"
    and "find_agent_row (trim_space w) (trim_space rid) s = Some row" and "run_within_budget (ro_run row)"
  shows "stops res \<or> (\<exists>d row'. res = Inr d \<and> ld_action d = ''advanced'' \<and>
    find_agent_row (trim_space w) (trim_space rid) t = Some row' \<and> run_within_budget (ro_run row') \<and>
    loop_rank (ro_run row') < loop_rank (ro_run row))"
proof -
  have "loop_operation (run_row_kept w rid) loop_next W i owned w rid s (res, t)"
    using row_kept.advance_operation [OF assms(1), of owned w rid s] assms(2) by simp
  then show ?thesis
  proof cases
    case (acted s1 r)
    from acted(2) obtain row1 where row1: "find_agent_row (trim_space w) (trim_space rid) s1 = Some row1"
      "loop_view r = loop_view (ro_run row1)" "ag_workspace r = trim_space w" "ag_id r = trim_space rid"
      by (cases rule: loop_read_row)
    with acted(1) assms(3) have view: "loop_view r = loop_view (ro_run row)" by (simp add: run_row_kept_def)
    have r: "run_within_budget r" "loop_rank r = loop_rank (ro_run row)"
      using within_view [OF view] rank_view [OF view] assms(4) by simp_all
    from acted(4) show ?thesis
    proof cases
      case no_commit
      then show ?thesis by (auto simp: stops_def split: sum.split)
    next
      case (one_commit s2 j nx etype payload c d)
      note ids = loop_next_identity [OF one_commit(4)]
      have strict: "within_budget 0 nx" by (rule loop_next_within [OF one_commit(4) r(1) acted(3)])
      note nx = strictly_within(2) [OF strict] and normal = within_budget_normal [OF strict]
      show ?thesis
      proof (rule commit_tx_row [OF one_commit(3) normal ids(1,2)])
        fix a row'
        assume row': "find_agent_row (ag_workspace r) (ag_id r) t = Some row'" "loop_view (ro_run row') = loop_view nx"
        from loop_next_action [OF one_commit(4)] show ?thesis
          using one_commit(1) row' row1(3,4) within_view [OF row'(2)] rank_view [OF row'(2)] nx r(2)
            loop_next_rank [OF one_commit(4)]
          by (auto simp: stops_def)
      qed
    qed
  qed (simp_all add: stops_def)
qed

lemma run_phases_stop:
  assumes "\<And>n. env_respects (run_row_kept w rid) W (ins n)"
    and "find_agent_row (trim_space w) (trim_space rid) s = Some row" and "run_within_budget (ro_run row)"
    and "loop_rank (ro_run row) < n"
  shows "\<exists>result. run_phases W ins owned w rid n r s = Inl result \<and> stops (fst result)"
  using assms(2-4)
proof (induction n arbitrary: r s row)
  case (Suc n)
  obtain res t where adv: "advance W (ins (Suc n)) owned w rid s = (res, t)" by fastforce
  have ne: "''advanced'' \<noteq> ''waiting''" "''advanced'' \<noteq> ''terminal''" by simp_all
  from phase_progress [OF assms(1) adv Suc.prems(1,2)] show ?case
  proof
    assume "stops res"
    with adv ne show ?thesis by (auto simp: stops_def split: sum.splits)
  next
    assume "\<exists>d row'. res = Inr d \<and> ld_action d = ''advanced'' \<and>
      find_agent_row (trim_space w) (trim_space rid) t = Some row' \<and> run_within_budget (ro_run row') \<and>
      loop_rank (ro_run row') < loop_rank (ro_run row)"
    then obtain d row' where d: "res = Inr d" "ld_action d = ''advanced''"
      "find_agent_row (trim_space w) (trim_space rid) t = Some row'" "run_within_budget (ro_run row')"
      "loop_rank (ro_run row') < loop_rank (ro_run row)" by blast
    with Suc.prems(3) have "loop_rank (ro_run row') < n" by simp
    from Suc.IH [OF d(3,4) this] adv d(1,2) show ?thesis by simp
  qed
qed simp

text \<open>A decision on a run whose action agrees with the state it committed or found: \<open>terminal\<close> for
  a run at an end, \<open>waiting\<close> or \<open>advanced\<close> for an open one.\<close>

definition decided :: "string \<Rightarrow> string \<Rightarrow> loop_decision \<Rightarrow> bool" where
  "decided w rid d \<longleftrightarrow>
    ag_workspace (ld_run d) = w \<and> ag_id (ld_run d) = rid \<and>
    (if is_agent_terminal (ag_state (ld_run d)) then ld_action d = ''terminal''
     else ld_action d = ''waiting'' \<or> ld_action d = ''advanced'')"

interpretation any_environment: environment_order "\<lambda>_ _. True"
  by unfold_locales auto

lemma env_respects_any [simp]: "env_respects (\<lambda>_ _. True) W i"
  by (simp add: env_respects_def)

lemma loop_next_decides:
  assumes "loop_next r a nx" and "\<not> is_agent_terminal (ag_state r)"
  shows "if is_agent_terminal (ag_state nx) then a = ''terminal'' else a = ''waiting'' \<or> a = ''advanced''"
proof -
  have "is_agent_terminal ''succeeded'' \<and> is_agent_terminal ''failed'' \<and> is_agent_terminal ''cancelled'' \<and>
    \<not> is_agent_terminal ''running'' \<and> \<not> is_agent_terminal ''awaiting_retry'' \<and>
    \<not> is_agent_terminal ''awaiting_approval'' \<and> \<not> is_agent_terminal ''awaiting_external''" by code_simp
  with assms show ?thesis by cases simp_all
qed

lemma commit_tx_state:
  assumes "commit_tx E i current nx etype payload owned s = Inr (c, t)"
  shows "ag_state c = ag_state nx" and "ag_id c = ag_id nx" and "ag_workspace c = ag_workspace nx"
proof -
  from assms obtain nx1 stored e where "prepare_commit E (ai_now i) current nx = Inr nx1"
    and "c = committed_run nx1 stored e"
    by (cases rule: commit_tx_Inr) auto
  with prepare_commit_Inr show "ag_state c = ag_state nx" and "ag_id c = ag_id nx" and "ag_workspace c = ag_workspace nx"
    by auto
qed

lemma loop_effect_decides:
  assumes "loop_effect R loop_next W owned r s (Inr d, t)" and "\<not> is_agent_terminal (ag_state r)"
  shows "decided (ag_workspace r) (ag_id r) d"
  using assms(1)
proof cases
  case no_commit
  with assms(2) show ?thesis by (simp add: decided_def)
next
  case (one_commit s1 i nx etype payload c)
  from loop_next_decides [OF one_commit(3) assms(2)] show ?thesis
    by (simp add: decided_def one_commit(4) commit_tx_state [OF one_commit(2)] loop_next_identity [OF one_commit(3)])
qed

lemma advance_decides:
  assumes "advance W i owned w rid s = (Inr d, t)"
  shows "decided (trim_space w) (trim_space rid) d"
proof -
  have "loop_operation (\<lambda>_ _. True) loop_next W i owned w rid s (Inr d, t)"
    using any_environment.advance_operation [OF env_respects_any, of W i owned w rid s] assms by simp
  then show ?thesis
  proof cases
    case (finished r)
    with loop_read_row [OF finished(3)] show ?thesis by (auto simp: decided_def)
  next
    case (acted s1 r)
    from loop_effect_decides [OF acted(4,3)] loop_read_row [OF acted(2)] show ?thesis by metis
  qed
qed

lemma fail_decides:
  assumes "fail W i owned r f tm s = (Inr d, t)" and "lf_attempt f \<le> 0"
    and "\<not> is_agent_terminal (ag_state r)"
  shows "decided (ag_workspace r) (ag_id r) d" and "ld_action d = ''terminal''"
proof -
  show "decided (ag_workspace r) (ag_id r) d"
    using any_environment.fail_effect [OF env_respects_any [of W i], of f r owned s tm] assms
    by (auto intro: loop_effect_decides)
  show "ld_action d = ''terminal''"
    using assms(1) by (auto simp: fail_def fail_with_attempt_def loop_commit_def Let_def split: prod.split_asm sum.split_asm if_split_asm)
qed

lemma run_phases_decide:
  assumes "0 < n"
  shows "case run_phases W ins owned w rid n r s of
      Inl (res, _) \<Rightarrow> (\<forall>d. res = Inr d \<longrightarrow> decided (trim_space w) (trim_space rid) d \<and> ld_action d \<noteq> ''advanced'')
    | Inr (r', _) \<Rightarrow> ag_workspace r' = trim_space w \<and> ag_id r' = trim_space rid \<and> \<not> is_agent_terminal (ag_state r')"
  using assms
proof (induction n arbitrary: r s)
  case (Suc n)
  obtain res t where adv: "advance W (ins (Suc n)) owned w rid s = (res, t)" by fastforce
  show ?case
  proof (cases res)
    case (Inr d)
    have d: "decided (trim_space w) (trim_space rid) d" by (rule advance_decides [OF adv [unfolded Inr]])
    show ?thesis
    proof (cases "ld_action d = ''advanced'' \<and> 0 < n")
      case True
      with Suc.IH [of "ld_run d" t] show ?thesis by (simp add: adv Inr)
    next
      case False
      then have "run_phases W ins owned w rid (Suc n) r s =
          (if ld_action d = ''advanced'' then Inr (ld_run d, t) else Inl (Inr d, t))" by (auto simp: adv Inr)
      with d show ?thesis by (auto simp: decided_def)
    qed
  qed (simp add: adv)
qed simp

text \<open>\<open>Run\<close> never returns a decision to go on: it has brought the run to an end or to a wait.\<close>

definition at_rest :: "string \<Rightarrow> string \<Rightarrow> loop_decision \<Rightarrow> bool" where
  "at_rest w rid d \<longleftrightarrow>
    ag_workspace (ld_run d) = w \<and> ag_id (ld_run d) = rid \<and>
    ld_action d = (if is_agent_terminal (ag_state (ld_run d)) then ''terminal'' else ''waiting'')"

lemma decided_at_rest: "decided w rid d \<Longrightarrow> ld_action d \<noteq> ''advanced'' \<Longrightarrow> at_rest w rid d"
  by (auto simp: decided_def at_rest_def split: if_split_asm)

lemma run_loop_at_rest:
  assumes "run_loop W ins owned w rid s = (Inr d, t)"
  shows "at_rest (trim_space w) (trim_space rid) d"
proof -
  let ?s = "li_between (ins 0) 0 s"
  from assms obtain r where r: "loop_read W (ins 0) w rid ?s = Inr r"
    by (auto simp: run_loop_def Let_def split: if_split_asm sum.split_asm)
  then have ids: "ag_workspace r = trim_space w" "ag_id r = trim_space rid" by (auto elim: loop_read_row)
  show ?thesis
  proof (cases "past_deadline (li_now (ins 0) 0) r \<and> \<not> is_agent_terminal (ag_state r)")
    case True
    with assms r have "fail W (ins 0) owned r (loop_failed ''budget'' ''agent wall-clock budget exceeded'' (ag_phase r))
        ''budget_exceeded'' ?s = (Inr d, t)" by (simp add: run_loop_def Let_def split: if_split_asm)
    from fail_decides [OF this] True ids decided_at_rest show ?thesis by simp
  next
    case False
    have "0 < max_phases (ag_budget r)" by (simp add: max_phases_def Let_def)
    note phases = run_phases_decide [OF this, where W = W and ins = ins and owned = owned and w = w and rid = rid and
        r = r and s = ?s]
    show ?thesis
    proof (cases "run_phases W ins owned w rid (max_phases (ag_budget r)) r ?s")
      case (Inl result)
      with assms r False phases show ?thesis
        by (auto simp: run_loop_def Let_def decided_at_rest split: if_split_asm)
    next
      case (Inr rt)
      then obtain r1 t1 where rt: "run_phases W ins owned w rid (max_phases (ag_budget r)) r ?s = Inr (r1, t1)"
        by (cases rt) simp
      with assms r False have "fail W (ins 0) owned r1 (loop_failed ''budget'' ''agent phase budget exceeded'' (ag_phase r1))
          ''budget_exceeded'' t1 = (Inr d, t)" by (simp add: run_loop_def Let_def split: if_split_asm)
      from fail_decides [OF this] rt phases decided_at_rest show ?thesis by simp
    qed
  qed
qed

text \<open>One transition of the row of a run, every other row of the table kept.\<close>

definition table_step :: "string \<Rightarrow> string \<Rightarrow> string \<Rightarrow> 'x agent_db \<Rightarrow> 'x agent_db \<Rightarrow> bool" where
  "table_step w rid action s t \<longleftrightarrow>
    (\<exists>row row' r nx. find_agent_row w rid s = Some row \<and> find_agent_row w rid t = Some row' \<and>
      loop_view r = loop_view (ro_run row) \<and> \<not> is_agent_terminal (ag_state r) \<and> loop_next r action nx \<and>
      loop_view (ro_run row') = loop_view nx \<and> ag_version (ro_run row') = ag_version (ro_run row) + 1 \<and>
      list_all2 (\<lambda>a b. b = a \<or> (ag_workspace (ro_run a) = w \<and> ag_id (ro_run a) = rid)) (agent_rows s) (agent_rows t))"

section \<open>Properties\<close>

text \<open>C7: However the model, the tools and the retriever answer, and as long as the other processes do the
  same: advancing, running, cancelling and suspending runs leaves every run within its budget of turns,
  model attempts, tool calls, tool attempts, output tokens and cost, strictly, except that runs of \<open>X\<close> (those
  completed externally before) may have succeeded with one turn above the turn budget.  Completing a
  run externally keeps the same, but for adding that run to \<open>X\<close>: the code counts its turn unchecked.\<close>

theorem loop_keeps_budget:
  assumes "\<And>n. env_respects (budgets_kept X) W (ins n)" and "rows_within_budget_but X s"
  shows "rows_within_budget_but X (snd (run_loop W ins owned w rid s)) \<and>
    rows_within_budget_but X (snd (advance W (ins 0) owned w rid s)) \<and>
    rows_within_budget_but X (snd (cancel_loop W (ins 0) owned w rid reason s)) \<and>
    rows_within_budget_but X (snd (wait_external W (ins 0) owned w rid reason s)) \<and>
    rows_within_budget_but (insert (trim_space w, trim_space rid) X) (snd (complete_external W (ins 0) owned w rid reason s))"
proof (intro conjI)
  let ?s = "li_between (ins 0) 0 s"
  have s: "rows_within_budget_but X ?s"
    using env_respectsD(1) [OF assms(1), of s 0 0] assms(2) by (simp add: budgets_kept_def)
  show "rows_within_budget_but X (snd (run_loop W ins owned w rid s))"
  proof (cases "loop_read W (ins 0) w rid ?s")
    case (Inl e)
    with s assms(2) show ?thesis by (simp add: run_loop_def)
  next
    case (Inr r)
    have r: "run_within_budget r" by (rule loop_read_within [OF Inr rows_within_budget_but_weak [OF s]])
    have "0 < max_phases (ag_budget r)" by (simp add: max_phases_def Let_def)
    then have "phases_within X (run_phases W ins owned w rid (max_phases (ag_budget r)) r ?s)"
      by (intro run_phases_within assms(1) s r) blast
    with r s Inr assms(2) show ?thesis
      by (auto simp: run_loop_def Let_def phases_within_def intro!: fail_within assms(1) split: sum.splits)
  qed
  obtain res t where ext: "complete_external W (ins 0) owned w rid reason s = (res, t)" by fastforce
  have "rows_within_budget_but (insert (trim_space w, trim_space rid) X) t"
    by (rule loop_operation_keeps_rows [OF budgets.complete_external_operation
          [OF assms(1), of 0 owned w rid s reason, unfolded ext] assms(2) subset_insertI])
      (metis external_machine_within)
  then show "rows_within_budget_but (insert (trim_space w, trim_space rid) X)
      (snd (complete_external W (ins 0) owned w rid reason s))" by (simp add: ext)
qed (metis loop_operation_within(1) assms prod.collapse budgets.advance_operation budgets.cancel_loop_operation
    budgets.wait_external_operation)+


text \<open>C8: A \<open>Run\<close> on a run within its budget always comes to a stop by itself: as long as no other process
  moves the row of the run, some phase errs, waits or ends the run before the phases allotted to it are
  used up, and that is the result; the failure \<open>agent phase budget exceeded\<close> is never recorded.\<close>

theorem run_stops_in_time:
  assumes "\<And>n. env_respects (run_row_kept w rid) W (ins n)" and "or_configured W"
    and "loop_read W (ins 0) w rid (li_between (ins 0) 0 s) = Inr r" and "run_within_budget r"
    and "\<not> past_deadline (li_now (ins 0) 0) r"
  shows "\<exists>result. run_phases W ins owned w rid (max_phases (ag_budget r)) r (li_between (ins 0) 0 s) = Inl result \<and>
    run_loop W ins owned w rid s = result \<and> stops (fst result)"
proof -
  obtain row where row: "find_agent_row (trim_space w) (trim_space rid) (li_between (ins 0) 0 s) = Some row"
    "loop_view r = loop_view (ro_run row)"
    using assms(3) by (rule loop_read_row)
  have "run_within_budget (ro_run row)" "loop_rank (ro_run row) < max_phases (ag_budget r)"
    using within_view [OF row(2)] rank_view [OF row(2)] assms(4) loop_rank_bound [OF assms(4)] by simp_all
  then have "\<exists>result. run_phases W ins owned w rid (max_phases (ag_budget r)) r (li_between (ins 0) 0 s) = Inl result \<and>
      stops (fst result)"
    by (intro run_phases_stop [OF _ row(1)] assms(1))
  with assms(2,3,5) show ?thesis by (auto simp: run_loop_def Let_def)
qed

section \<open>Witnesses\<close>

text \<open>A model that asks for one tool call and then answers; nothing else touches the tables.\<close>

definition loop_env :: "unit agent_env" where
  "loop_env = (codec_env None)\<lparr>ae_history_json := map (\<lambda>_. CHR ''m''),
    ae_history_decode := (\<lambda>s. Some (map (\<lambda>_. user_message ''fix it'') s))\<rparr>"

definition sample_answer :: "model_tool_call list \<Rightarrow> model_response" where
  "sample_answer calls = \<lparr>ms_request_id = [], ms_provider = \<lparr>pf_provider = ''p'', pf_endpoint = [], pf_model = ''m''\<rparr>,
    ms_content = ''ok'', ms_calls = calls, ms_finish = ''stop'',
    ms_usage = \<lparr>mu_input = 5, mu_output = 7, mu_total = 12, mu_cache_read = 0, mu_cache_write = 0, mu_source = ''p''\<rparr>,
    ms_cost = \<lparr>mk_currency = ''USD'', mk_input = 0, mk_output = 1 / 10, mk_total = 1 / 10, mk_source = ''p''\<rparr>,
    ms_provider_request = [], ms_content_hash = ''c''\<rparr>"

definition sample_tool_answer :: tool_outcome where
  "sample_tool_answer = no_outcome\<lparr>oc_result := Some \<lparr>tr_request_id = [], tr_run_id = [], tr_tool = ''grep'',
    tr_status = ''succeeded'', tr_exit_code = 0, tr_stdout = ''found'', tr_stderr = [], tr_started = 1, tr_finished = 2,
    tr_duration_ms = 0, tr_content_hash = ''c'', tr_artifacts = [], tr_failure = None\<rparr>\<rparr>"

definition sample_loop :: "unit orchestrator" where
  "sample_loop = \<lparr>or_env = loop_env,
    or_codec = \<lparr>lx_sha256 = id, lx_tools_json = (\<lambda>_. ''[]''), lx_result_json = (\<lambda>_. ''{}''), lx_items_json = (\<lambda>_. ''{}''),
      lx_arguments = (\<lambda>_. Inr \<lparr>ta_argv = [''x''], ta_env = [], ta_workdir = []\<rparr>)\<rparr>,
    or_configured = True, or_owned_store = True,
    or_complete = (\<lambda>q db. (Inr (sample_answer (if length (mr_messages q) = 1
      then [\<lparr>mc_id = ''c1'', mc_tool = ''grep'', mc_arguments = ''{}''\<rparr>] else [])), db)),
    or_execute = (\<lambda>_ db. ((sample_tool_answer, None), db)),
    or_definition = (\<lambda>_. Some sample_registered), or_approvals = None, or_retrieve = None\<rparr>"

definition sample_loop_in :: "nat \<Rightarrow> unit loop_in" where
  "sample_loop_in n = \<lparr>li_commit = sample_agent_in (200 - n), li_now = (\<lambda>_. 50), li_clock = 50, li_between = (\<lambda>_ db. db)\<rparr>"

lemma sample_env_respects: "(\<And>s. R s s) \<Longrightarrow> env_respects R sample_loop (sample_loop_in n)"
  by (simp add: env_respects_def sample_loop_def sample_loop_in_def)

lemma sample_rows_within: "rows_within_budget (agent_db_of agent_run0)"
  by code_simp

lemma sample_rows_strict: "rows_within_budget_but {} (agent_db_of agent_run0)"
  by code_simp

lemma sample_loop_runs:
  "(case fst (run_loop sample_loop sample_loop_in None ''ws'' ''run1'' (agent_db_of agent_run0)) of
    Inl _ \<Rightarrow> False
  | Inr d \<Rightarrow> ld_action d = ''terminal'' \<and> ag_state (ld_run d) = ''succeeded'' \<and> ag_turn (ld_run d) = 2 \<and>
      ag_tool_calls (ld_run d) = 1 \<and> ag_version (ld_run d) = 4)"
  by code_simp

lemma loop_keeps_budget_witness:
  "rows_within_budget_but {} (snd (run_loop sample_loop sample_loop_in None ''ws'' ''run1'' (agent_db_of agent_run0)))"
  using loop_keeps_budget [of "{}" sample_loop sample_loop_in "agent_db_of agent_run0" None "''ws''" "''run1''" "[]"]
    sample_rows_strict sample_env_respects [of "budgets_kept {}"] by (simp add: budgets_kept_def)

definition sample_advance :: "unit loop_result" where
  "sample_advance = advance sample_loop (sample_loop_in 1) None ''ws'' ''run1'' (agent_db_of agent_run0)"

lemma sample_advances:
  "case fst sample_advance of Inl _ \<Rightarrow> False | Inr d \<Rightarrow> ld_action d = ''advanced''"
  by code_simp


lemma run_stops_in_time_witness:
  "\<exists>result. run_loop sample_loop sample_loop_in None ''ws'' ''run1'' (agent_db_of agent_run0) = result \<and> stops (fst result)"
proof -
  let ?s = "li_between (sample_loop_in 0) 0 (agent_db_of agent_run0)"
  have "loop_read sample_loop (sample_loop_in 0) ''ws'' ''run1'' ?s = Inr agent_run0" by code_simp
  moreover have "run_within_budget agent_run0 \<and> or_configured sample_loop \<and>
      \<not> past_deadline (li_now (sample_loop_in 0) 0) agent_run0" by code_simp
  moreover have "env_respects (run_row_kept ''ws'' ''run1'') sample_loop (sample_loop_in n)" for n
    by (rule sample_env_respects) (simp add: run_row_kept_def)
  ultimately show ?thesis
    using run_stops_in_time [of "''ws''" "''run1''" sample_loop sample_loop_in "agent_db_of agent_run0" agent_run0 None]
    by blast
qed

section \<open>The turn an external completion adds\<close>

definition spent_run :: agent_run where
  "spent_run = agent_run0\<lparr>ag_state := ''awaiting_external'', ag_turn := 8\<rparr>"

text \<open>A run that has used all of its 8 turns is completed with a ninth.\<close>

lemma external_completion_exceeds_turns:
  "(case fst (complete_external sample_loop (sample_loop_in 1) None ''ws'' ''run1'' ''done'' (agent_db_of spent_run)) of
    Inl _ \<Rightarrow> False
  | Inr d \<Rightarrow> ag_state (ld_run d) = ''succeeded'' \<and> ag_turn (ld_run d) = 9 \<and> ab_turns (ag_budget (ld_run d)) = 8)"
  by code_simp

lemma external_completion_breaks_budget:
  "rows_within_budget_but {} (agent_db_of spent_run) \<and>
    \<not> rows_within_budget_but {} (snd (complete_external sample_loop (sample_loop_in 1) None ''ws'' ''run1'' ''done''
      (agent_db_of spent_run)))"
  by code_simp

end
