(* ===== verification/Agent_Worker.thy ===== *)
theory Agent_Worker
  imports Agent_Loop_Properties
begin

text \<open>
  \<open>internal/scheduler/worker.go\<close>: one round of a pull worker, from the claim of a due run over the
  agent loop to the release of its lease.

  The heartbeat is a concurrent process: its renewals are part of what \<open>li_between\<close> of the loop's
  draws does to the tables, and \<open>wi_heartbeat\<close> is the error it reported, if any.  The cancellation of
  the context that follows such an error only makes further calls fail and is not modelled.  The
  polling \<open>Run\<close> is a timer around \<open>RunOnce\<close>.
\<close>

datatype worker_error =
  ErrWorkerNotConfigured
| WorkerStore agent_error
| WorkerLoop loop_error
| WorkerHeartbeat agent_error
| WorkerRelease agent_error

record worker_result =
  wr_claimed :: bool
  wr_lease :: "agent_run_lease option"
  wr_run :: "agent_run option"
  wr_decision :: "loop_decision option"
  wr_takeover :: bool

record 'x worker =
  wk_loop :: "'x orchestrator"
  wk_configured :: bool
  wk_owner :: string
  wk_ttl :: duration

record 'x worker_in =
  wi_claim :: agent_in
  wi_loop :: "nat \<Rightarrow> 'x loop_in"
  wi_release :: agent_in
  wi_heartbeat :: "agent_error option"

definition no_worker_result :: worker_result where
  "no_worker_result = \<lparr>wr_claimed = False, wr_lease = None, wr_run = None, wr_decision = None, wr_takeover = False\<rparr>"

definition heartbeat_interval :: "duration \<Rightarrow> duration \<Rightarrow> duration" where
  "heartbeat_interval configured ttl =
    (let interval = (if configured \<le> 0 \<or> configured \<ge> ttl then ttl div 3 else configured)
     in if interval < millisecond then millisecond else interval)"

text \<open>The run of the decision replaces the claimed one, unless the decision is the zero value.\<close>

definition run_claimed ::
    "'x worker \<Rightarrow> 'x worker_in \<Rightarrow> agent_run_claim \<Rightarrow> 'x agent_db \<Rightarrow> (worker_result \<times> worker_error option) \<times> 'x agent_db" where
  "run_claimed K i c db =
    (let l = acl_lease c;
         (r, db1) = run_loop (wk_loop K) (wi_loop i) (Some l) (ag_workspace (acl_run c)) (ag_id (acl_run c)) db;
         run_err = (case r of Inl e \<Rightarrow> Some (WorkerLoop e) | Inr _ \<Rightarrow> map_option WorkerHeartbeat (wi_heartbeat i));
         result = \<lparr>wr_claimed = True, wr_lease = Some l,
           wr_run = (case r of Inr d \<Rightarrow> if ag_id (ld_run d) \<noteq> [] then Some (ld_run d) else Some (acl_run c)
             | Inl _ \<Rightarrow> Some (acl_run c)),
           wr_decision = (case r of Inl _ \<Rightarrow> None | Inr d \<Rightarrow> Some d), wr_takeover = acl_takeover c\<rparr>;
         (released, db2) = release_agent_run_lease (or_env (wk_loop K)) (wi_release i) l db1 in
    ((result, if run_err \<noteq> None then run_err
      else case released of Inl e \<Rightarrow> Some (WorkerRelease e) | Inr _ \<Rightarrow> None), db2))"

definition run_once ::
    "'x worker \<Rightarrow> 'x worker_in \<Rightarrow> string \<Rightarrow> 'x agent_db \<Rightarrow> (worker_result \<times> worker_error option) \<times> 'x agent_db" where
  "run_once K i workspace db =
    (if \<not> wk_configured K \<or> trim_space (wk_owner K) = [] then ((no_worker_result, Some ErrWorkerNotConfigured), db)
     else
       let (claim, db1) = claim_next_agent_run (or_env (wk_loop K)) (wi_claim i) (trim_space workspace) (wk_owner K)
         (normalize_agent_run_lease_ttl (wk_ttl K)) db in
       case claim of
         Inl e \<Rightarrow> ((no_worker_result, Some (WorkerStore e)), db1)
       | Inr None \<Rightarrow> ((no_worker_result, None), db1)
       | Inr (Some c) \<Rightarrow> run_claimed K i c db1)"

section \<open>The lease after a round\<close>

lemma heartbeat_interval_below:
  assumes "millisecond \<le> ttl"
  shows "millisecond \<le> heartbeat_interval c ttl \<and> heartbeat_interval c ttl \<le> ttl"
  using assms by (auto simp: heartbeat_interval_def Let_def millisecond_def)

definition run_lease_keys :: "'x agent_db \<Rightarrow> bool" where
  "run_lease_keys s \<longleftrightarrow> (\<forall>w k l. run_leases s (w, k) = Some l \<longrightarrow> lease_workspace l = w \<and> lease_key l = k)"

lemma granted_lease_keys:
  "(\<And>l. found = Some l \<Longrightarrow> lease_workspace l = w \<and> lease_key l = rid) \<Longrightarrow>
    lease_workspace (granted_run_lease now w rid own ttl found) = w \<and>
    lease_key (granted_run_lease now w rid own ttl found) = rid"
  by (cases found) (simp_all add: granted_run_lease_def first_run_lease_def taken_run_lease_def)

lemma handed_lease_simps [simp]:
  "lease_workspace (handed_lease g ttl) = lease_workspace g" "lease_key (handed_lease g ttl) = lease_key g"
  "lease_owner (handed_lease g ttl) = lease_owner g" "lease_fence (handed_lease g ttl) = lease_fence g"
  by (simp_all add: handed_lease_def lease.defs)

lemma claim_lease_keys:
  assumes "claim_next_agent_run E i w own ttl s = (Inr (Some c), t)" and "agent_tables_wf s" and "run_lease_keys s"
  shows "trim_space (lease_workspace (acl_lease c)) = lease_workspace (acl_lease c)"
    and "trim_space (lease_key (acl_lease c)) = lease_key (acl_lease c)"
    and "lease_owner (acl_lease c) = trim_space own"
    and "lease_workspace (acl_lease c) = trim_space (ag_workspace (acl_run c))"
    and "lease_key (acl_lease c) = trim_space (ag_id (acl_run c))"
proof -
  from assms(1) have "claim_next_agent_run_tx E i w own ttl s = Inr (Some c, t)"
    unfolding claim_next_agent_run_def by (auto elim: in_tx_cases)
  then obtain row where row: "select_next_run (ai_clock i 0) (ai_locked i) (trim_space w) s = Some row"
    "claim_row_tx E i (trim_space own) (normalize_agent_run_lease_ttl ttl) row s = Inr (Some c, t)"
    by (rule claim_next_run_Inr)
  from select_next_run_Some(1) [OF row(1)] assms(2)
  have tr: "trim_space (ag_workspace (ro_run row)) = ag_workspace (ro_run row)"
      "trim_space (ag_id (ro_run row)) = ag_id (ro_run row)" by (auto simp: agent_tables_wf_def)
  have "lease_workspace (acl_lease c) = ag_workspace (ro_run row) \<and> lease_key (acl_lease c) = ag_id (ro_run row) \<and>
      lease_owner (acl_lease c) = trim_space own \<and>
      ag_workspace (acl_run c) = ag_workspace (ro_run row) \<and> ag_id (acl_run c) = ag_id (ro_run row)"
    using row(2) tr
  proof (cases rule: claim_row_Inr)
    case (1 g)
    from read_agent_run_Inr [OF 1(1)] obtain row' where
      "find_agent_row (ag_workspace (ro_run row)) (ag_id (ro_run row)) s = Some row'"
      "same_identity (acl_run c) (ro_run row')" .
    then have "ag_workspace (acl_run c) = ag_workspace (ro_run row) \<and> ag_id (acl_run c) = ag_id (ro_run row)"
      by (auto simp: same_identity_def dest: find_agent_row_Some)
    moreover
    have "lease_workspace g = ag_workspace (ro_run row) \<and> lease_key g = ag_id (ro_run row)"
      unfolding 1(3) by (rule granted_lease_keys) (use assms(3) in \<open>simp add: run_lease_keys_def\<close>)
    ultimately show ?thesis using 1(5,7) by simp
  qed
  with tr show "trim_space (lease_workspace (acl_lease c)) = lease_workspace (acl_lease c)"
    and "trim_space (lease_key (acl_lease c)) = lease_key (acl_lease c)" and "lease_owner (acl_lease c) = trim_space own"
    and "lease_workspace (acl_lease c) = trim_space (ag_workspace (acl_run c))"
    and "lease_key (acl_lease c) = trim_space (ag_id (acl_run c))"
    by simp_all
qed

lemma release_releases:
  assumes "release_agent_run_lease E i l s = (Inr u, t)" and "trim_space (lease_workspace l) = lease_workspace l"
    and "trim_space (lease_key l) = lease_key l"
  obtains q where "run_leases t (lease_workspace l, lease_key l) = Some q" and "lease_released q = Some (ai_clock i 1)"
    and "lease_owner q = lease_owner l" and "lease_fence q = lease_fence l" and "agent_rows t = agent_rows s"
proof -
  from assms(1) have "release_agent_run_lease_tx E i l s = Inr (u, t)"
    unfolding release_agent_run_lease_def by (auto elim: in_tx_cases)
  then show thesis
  proof (cases rule: release_run_lease_effect)
    case (1 q)
    with assms(2,3) show thesis
      by (intro that [of "released_run_lease (ai_clock i 1) q"])
        (auto simp: validate_run_lease_ok update_run_lease_def update_where_same released_run_lease_def)
  qed
qed

section \<open>Properties\<close>

text \<open>C39: A round of a worker that claimed a run and reports no error has brought that run to rest and given
  its lease back.  Its decision is about the claimed run and is never one to go on: it says \<open>terminal\<close>
  exactly when the run is at an end, and \<open>waiting\<close> otherwise.  The lease row carries the claimed owner
  and fence and is released, so it is live at no instant and the next claim need not wait for it to
  expire.\<close>

theorem worker_round_releases:
  assumes "run_once K i w s = ((res, None), t)" and "wr_claimed res"
    and "agent_tables_wf s" and "run_lease_keys s"
  shows "\<exists>l q d. wr_lease res = Some l \<and> wr_decision res = Some d \<and>
    at_rest (lease_workspace l) (lease_key l) d \<and>
    run_leases t (lease_workspace l, lease_key l) = Some q \<and> lease_owner q = trim_space (wk_owner K) \<and>
    lease_owner l = lease_owner q \<and> lease_fence q = lease_fence l \<and> \<not> lease_active now q"
proof -
  obtain claim s1 where cl: "claim_next_agent_run (or_env (wk_loop K)) (wi_claim i) (trim_space w) (wk_owner K)
      (normalize_agent_run_lease_ttl (wk_ttl K)) s = (claim, s1)" by fastforce
  with assms(1,2) obtain c where c: "claim = Inr (Some c)" and run: "run_claimed K i c s1 = ((res, None), t)"
    by (auto simp: run_once_def no_worker_result_def Let_def split: if_split_asm sum.split_asm option.split_asm)
  note claimed = cl [unfolded c]
  obtain r s2 where r: "run_loop (wk_loop K) (wi_loop i) (Some (acl_lease c)) (ag_workspace (acl_run c))
      (ag_id (acl_run c)) s1 = (r, s2)" by fastforce
  obtain u t' where rel: "release_agent_run_lease (or_env (wk_loop K)) (wi_release i) (acl_lease c) s2 = (u, t')"
    by fastforce
  from run r rel obtain d v where d: "r = Inr d" "u = Inr v" "t' = t" "wr_lease res = Some (acl_lease c)"
    "wr_decision res = Some d"
    by (auto simp: run_claimed_def Let_def split: sum.split_asm if_split_asm)
  have "at_rest (lease_workspace (acl_lease c)) (lease_key (acl_lease c)) d"
    using run_loop_at_rest [OF r [unfolded d(1)]] claim_lease_keys(4,5) [OF claimed assms(3,4)] by simp
  with d release_releases [OF rel [unfolded \<open>u = Inr v\<close>] claim_lease_keys(1,2) [OF claimed assms(3,4)]]
    claim_lease_keys(3) [OF claimed assms(3,4)] show ?thesis
    by (metis lease_active_def option.distinct(1))
qed

section \<open>Witness\<close>

definition sample_worker :: "unit worker" where
  "sample_worker = \<lparr>wk_loop = sample_loop\<lparr>or_complete := (\<lambda>q db. (Inr (sample_answer []), db))\<rparr>, wk_configured = True, wk_owner = '' w1'', wk_ttl = second\<rparr>"

definition sample_worker_in :: "unit worker_in" where
  "sample_worker_in = \<lparr>wi_claim = sample_agent_in 1, wi_loop = sample_loop_in, wi_release = sample_agent_in 300,
    wi_heartbeat = None\<rparr>"

definition sample_round :: "(worker_result \<times> worker_error option) \<times> unit agent_db" where
  "sample_round = run_once sample_worker sample_worker_in ''ws'' (agent_db_of agent_run0)"

lemma sample_round_runs:
  "case sample_round of ((res, err), _) \<Rightarrow> err = None \<and> wr_claimed res \<and>
    (case wr_run res of None \<Rightarrow> False | Some r \<Rightarrow> ag_state r = ''succeeded'')"
  by code_simp

lemma worker_round_releases_witness:
  "\<exists>l q d. wr_lease (fst (fst sample_round)) = Some l \<and> wr_decision (fst (fst sample_round)) = Some d \<and>
    at_rest (lease_workspace l) (lease_key l) d \<and>
    run_leases (snd sample_round) (lease_workspace l, lease_key l) = Some q \<and>
    lease_owner q = trim_space (wk_owner sample_worker) \<and> lease_owner l = lease_owner q \<and>
    lease_fence q = lease_fence l \<and> \<not> lease_active 200 q"
proof (rule worker_round_releases)
  obtain res db where eq: "sample_round = ((res, None), db)" and claimed: "wr_claimed res"
    using sample_round_runs by (cases sample_round) (auto split: prod.splits)
  show "run_once sample_worker sample_worker_in ''ws'' (agent_db_of agent_run0) =
      ((fst (fst sample_round), None), snd sample_round)"
    using eq by (simp add: sample_round_def)
  show "wr_claimed (fst (fst sample_round))" using claimed by (simp add: eq)
  show "agent_tables_wf (agent_db_of agent_run0)" using sample_agent_wf by (simp add: agent_sys_wf_def)
  show "run_lease_keys (agent_db_of agent_run0)" by (simp add: run_lease_keys_def)
qed

end
