(* ===== verification/Policy_Contract.thy ===== *)
theory Policy_Contract
  imports Event_Contract
begin

text \<open>
  \<open>internal/contracts/policy.go\<close> and the validator references and budgets of
  \<open>internal/contracts/validation.go\<close> and \<open>internal/contracts/change.go\<close>: declarative
  validation policy packs, their canonical document and hash, and the requests of the policy
  authority with their normalisation.

  A pack's identity is the SHA-256 digest \<open>sha\<close> (an argument) of its canonical JSON document
  \<open>policy_document\<close>, which is written out field by field as \<open>encoding/json\<close> marshals the
  structs.  An empty rule list is a nil slice, which marshals as \<open>null\<close>.
\<close>

section \<open>Validators and budgets\<close>

datatype policy_error = PolicyInvalid string

record validator_ref =
  vr_id :: string
  vr_version :: string

definition validator_before :: "validator_ref \<Rightarrow> validator_ref \<Rightarrow> bool" where
  "validator_before a b \<longleftrightarrow>
    (if vr_id a \<noteq> vr_id b then vr_id a < vr_id b else vr_version a < vr_version b)"

definition default_validator_refs :: "validator_ref list" where
  "default_validator_refs = map (\<lambda>i. \<lparr>vr_id = i, vr_version = ''1''\<rparr>)
    [''change.preconditions'', ''change.files'', ''change.safety'', ''change.tree'', ''change.reindex'']"

record validation_budget =
  vb_validators :: int
  vb_files :: int
  vb_bytes :: int
  vb_output_bytes :: int
  vb_wall_ms :: int
  vb_sql_queries :: int
  vb_retries :: int
  vb_report_bytes :: int

definition default_validation_budget :: validation_budget where
  "default_validation_budget = \<lparr>vb_validators = 16, vb_files = 10000, vb_bytes = 536870912,
    vb_output_bytes = 1048576, vb_wall_ms = 900000, vb_sql_queries = 512, vb_retries = 2,
    vb_report_bytes = 65536\<rparr>"

definition max_validation_budget :: validation_budget where
  "max_validation_budget = \<lparr>vb_validators = 64, vb_files = 100000, vb_bytes = 1073741824,
    vb_output_bytes = 16777216, vb_wall_ms = 86400000, vb_sql_queries = 10000, vb_retries = 10,
    vb_report_bytes = 1048576\<rparr>"

definition max_validation_wall_time :: duration where
  "max_validation_wall_time = 86400 * second"

definition if_zero :: "int \<Rightarrow> int \<Rightarrow> int" where
  "if_zero d x = (if x = 0 then d else x)"

definition validation_budget_defaults :: "validation_budget \<Rightarrow> validation_budget" where
  "validation_budget_defaults b =
    (let d = default_validation_budget in
    \<lparr>vb_validators = if_zero (vb_validators d) (vb_validators b), vb_files = if_zero (vb_files d) (vb_files b),
     vb_bytes = if_zero (vb_bytes d) (vb_bytes b), vb_output_bytes = if_zero (vb_output_bytes d) (vb_output_bytes b),
     vb_wall_ms = if_zero (vb_wall_ms d) (vb_wall_ms b), vb_sql_queries = if_zero (vb_sql_queries d) (vb_sql_queries b),
     vb_retries = if_zero (vb_retries d) (vb_retries b), vb_report_bytes = if_zero (vb_report_bytes d) (vb_report_bytes b)\<rparr>)"

definition out_of :: "int \<Rightarrow> int \<Rightarrow> int \<Rightarrow> bool" where
  "out_of lo hi x \<longleftrightarrow> x < lo \<or> x > hi"

text \<open>\<open>time.Duration(ms) * time.Millisecond\<close> is a 64-bit product.\<close>

definition normalize_validation_budget :: "validation_budget \<Rightarrow> policy_error + validation_budget" where
  "normalize_validation_budget b0 =
    (let b = validation_budget_defaults b0; m = max_validation_budget in
    if out_of 1 (vb_validators m) (vb_validators b) \<or> out_of 1 (vb_files m) (vb_files b) \<or>
       out_of 1 (vb_bytes m) (vb_bytes b) \<or> out_of 1 (vb_output_bytes m) (vb_output_bytes b) \<or>
       vb_wall_ms b < 1 \<or> wrap64 (vb_wall_ms b * millisecond) > max_validation_wall_time \<or>
       out_of 1 (vb_sql_queries m) (vb_sql_queries b) \<or> out_of 0 (vb_retries m) (vb_retries b) \<or>
       out_of 1 (vb_report_bytes m) (vb_report_bytes b)
    then Inl (PolicyInvalid ''validation budget is outside supported bounds'') else Inr b)"

record change_budgets =
  cb_operations :: int
  cb_file_bytes :: int
  cb_total_bytes :: int

definition default_change_budgets :: change_budgets where
  "default_change_budgets = \<lparr>cb_operations = 32, cb_file_bytes = 4194304, cb_total_bytes = 16777216\<rparr>"

definition max_change_budgets :: change_budgets where
  "max_change_budgets = \<lparr>cb_operations = 128, cb_file_bytes = 67108864, cb_total_bytes = 268435456\<rparr>"

record policy_budget =
  pb_change :: change_budgets
  pb_validation :: validation_budget

definition change_budget_defaults :: "change_budgets \<Rightarrow> change_budgets" where
  "change_budget_defaults c =
    (let d = default_change_budgets in
    \<lparr>cb_operations = if_zero (cb_operations d) (cb_operations c),
     cb_file_bytes = if_zero (cb_file_bytes d) (cb_file_bytes c),
     cb_total_bytes = if_zero (cb_total_bytes d) (cb_total_bytes c)\<rparr>)"

definition normalize_policy_budget :: "policy_budget \<Rightarrow> policy_error + policy_budget" where
  "normalize_policy_budget b =
    (let c = change_budget_defaults (pb_change b); m = max_change_budgets in
    if out_of 1 (cb_operations m) (cb_operations c) \<or> out_of 1 (cb_file_bytes m) (cb_file_bytes c) \<or>
       out_of 1 (cb_total_bytes m) (cb_total_bytes c)
    then Inl (PolicyInvalid ''policy change budget exceeds global limits'')
    else bindE (normalize_validation_budget (pb_validation b)) (\<lambda>v.
      Inr \<lparr>pb_change = c, pb_validation = v\<rparr>))"

section \<open>Packs\<close>

record approval_config =
  pa_mode :: string
  pa_require_for :: "string list"

record safety_floors =
  sf_workspace_isolation :: bool
  sf_actor_propagation :: bool
  sf_task_fencing :: bool
  sf_evidence_integrity :: bool
  sf_append_only_history :: bool
  sf_replay_safety :: bool

record policy_rule =
  ru_validator :: validator_ref
  ru_required :: bool

record policy_pack =
  pk_schema_version :: int
  pk_workspace :: string
  pk_policy_id :: string
  pk_version :: string
  pk_policy_hash :: string
  pk_rules :: "policy_rule list"
  pk_budget :: policy_budget
  pk_approval :: approval_config
  pk_require_reindex :: bool
  pk_require_task_fence :: bool
  pk_floors :: safety_floors

definition max_policy_id_length :: int where
  "max_policy_id_length = 128"

definition max_policy_version_length :: int where
  "max_policy_version_length = 64"

definition approval_modes :: "string list" where
  "approval_modes = [''automatic'', ''required'', ''denied'']"

text \<open>The loop over scopes: trimmed, blanks dropped, first occurrences kept, then sorted.\<close>

definition clean_scopes :: "string \<Rightarrow> string list \<Rightarrow> policy_error + string list" where
  "clean_scopes what vs =
    (if list_ex (\<lambda>v. len (trim_space v) > max_policy_id_length) vs then Inl (PolicyInvalid what)
     else Inr (sort (dedup_trim [] vs)))"

definition normalize_approval_config :: "approval_config \<Rightarrow> policy_error + approval_config" where
  "normalize_approval_config p =
    (let m = to_lower (trim_space (pa_mode p)); mode = (if m = [] then ''required'' else m) in
    if mode \<notin> set approval_modes then Inl (PolicyInvalid ''unsupported policy approval mode'')
    else if len (pa_require_for p) > 64 then Inl (PolicyInvalid ''too many policy approval scopes'')
    else bindE (clean_scopes ''policy approval scope is too large'' (pa_require_for p)) (\<lambda>scopes.
      Inr \<lparr>pa_mode = mode, pa_require_for = scopes\<rparr>))"

definition trim_ref :: "validator_ref \<Rightarrow> validator_ref" where
  "trim_ref v = \<lparr>vr_id = trim_space (vr_id v), vr_version = trim_space (vr_version v)\<rparr>"

text \<open>
  The loops that trim and check the validator references of the rules, and the requested ones.
  The key \<open>id + NUL + version\<close> of the map \<open>seen\<close> is compared as a string.
\<close>

definition ref_key :: "validator_ref \<Rightarrow> string" where
  "ref_key v = vr_id v @ [CHR 0x00] @ vr_version v"

fun check_refs :: "string list \<Rightarrow> validator_ref list \<Rightarrow> policy_error + validator_ref list" where
  "check_refs seen [] = Inr []"
| "check_refs seen (v0 # vs) =
    (let v = trim_ref v0 in
    if vr_id v = [] \<or> vr_version v = [] then Inl (PolicyInvalid ''incomplete validator reference'')
    else if len (vr_id v) > max_policy_id_length \<or> len (vr_version v) > max_policy_version_length
    then Inl (PolicyInvalid ''validator reference is too large'')
    else if ref_key v \<in> set seen then Inl (PolicyInvalid ''duplicate validator'')
    else bindE (check_refs (ref_key v # seen) vs) (\<lambda>ws. Inr (v # ws)))"

definition rule_order :: "policy_rule \<Rightarrow> policy_rule \<Rightarrow> bool" where
  "rule_order a b \<longleftrightarrow> validator_before (ru_validator a) (ru_validator b)"

definition normalize_rules :: "policy_rule list \<Rightarrow> policy_error + policy_rule list" where
  "normalize_rules rs =
    bindE (check_refs [] (map ru_validator rs)) (\<lambda>vs.
      Inr (sort_by rule_order (map2 (\<lambda>r v. r\<lparr>ru_validator := v\<rparr>) rs vs)))"

section \<open>The canonical document\<close>

definition omit_zero :: "string \<Rightarrow> int \<Rightarrow> (string \<times> string) list" where
  "omit_zero k i = (if i = 0 then [] else [(k, show_int i)])"

definition omit_blank :: "string \<Rightarrow> string \<Rightarrow> (string \<times> string) list" where
  "omit_blank k s = (if s = [] then [] else [(k, json_string s)])"

fun json_elements :: "string list \<Rightarrow> string" where
  "json_elements [] = []"
| "json_elements [v] = v"
| "json_elements (v # vs) = v @ [CHR 0x2C] @ json_elements vs"

definition json_array :: "string list \<Rightarrow> string" where
  "json_array vs = CHR 0x5B # json_elements vs @ [CHR 0x5D]"

definition budget_document :: "policy_budget \<Rightarrow> string" where
  "budget_document b =
    (let c = pb_change b; v = pb_validation b in
    json_object
     [(''change'', json_object (omit_zero ''max_operations'' (cb_operations c) @
        omit_zero ''max_file_bytes'' (cb_file_bytes c) @ omit_zero ''max_total_bytes'' (cb_total_bytes c))),
      (''validation'', json_object
        [(''max_validators'', show_int (vb_validators v)), (''max_files'', show_int (vb_files v)),
         (''max_bytes'', show_int (vb_bytes v)), (''max_output_bytes'', show_int (vb_output_bytes v)),
         (''max_wall_time_ms'', show_int (vb_wall_ms v)), (''max_sql_queries'', show_int (vb_sql_queries v)),
         (''max_retries'', show_int (vb_retries v)), (''max_report_bytes'', show_int (vb_report_bytes v))])])"

definition rules_document :: "policy_rule list \<Rightarrow> string" where
  "rules_document rs =
    (if rs = [] then ''null''
     else json_array (map (\<lambda>r. json_object
       [(''validator'', json_object [(''id'', json_string (vr_id (ru_validator r))),
                                     (''version'', json_string (vr_version (ru_validator r)))]),
        (''required'', json_bool (ru_required r))]) rs))"

definition approval_document :: "approval_config \<Rightarrow> string" where
  "approval_document a = json_object ((''mode'', json_string (pa_mode a)) #
    (if pa_require_for a = [] then [] else [(''require_for'', json_array (map json_string (pa_require_for a)))]))"

definition floors_document :: "safety_floors \<Rightarrow> string" where
  "floors_document f = json_object
    [(''workspace_isolation'', json_bool (sf_workspace_isolation f)),
     (''actor_propagation'', json_bool (sf_actor_propagation f)), (''task_fencing'', json_bool (sf_task_fencing f)),
     (''evidence_integrity'', json_bool (sf_evidence_integrity f)),
     (''append_only_history'', json_bool (sf_append_only_history f)),
     (''replay_safety'', json_bool (sf_replay_safety f))]"

definition policy_document :: "policy_pack \<Rightarrow> string" where
  "policy_document p = json_object
    ([(''schema_version'', show_int (pk_schema_version p)), (''workspace_id'', json_string (pk_workspace p)),
      (''policy_id'', json_string (pk_policy_id p)), (''version'', json_string (pk_version p))] @
     omit_blank ''policy_hash'' (pk_policy_hash p) @
     [(''rules'', rules_document (pk_rules p)), (''budget'', budget_document (pk_budget p)),
      (''approval'', approval_document (pk_approval p)), (''require_reindex'', json_bool (pk_require_reindex p)),
      (''require_task_fence'', json_bool (pk_require_task_fence p)), (''safety_floors'', floors_document (pk_floors p))])"

definition canonical_pack :: "policy_pack \<Rightarrow> policy_pack" where
  "canonical_pack p = p\<lparr>pk_policy_hash := [],
    pk_rules := sort_by rule_order (map (\<lambda>r. r\<lparr>ru_validator := trim_ref (ru_validator r)\<rparr>) (pk_rules p)),
    pk_approval := (pk_approval p)\<lparr>pa_require_for := sort (map trim_space (pa_require_for (pk_approval p)))\<rparr>\<rparr>"

definition compute_policy_hash :: "(string \<Rightarrow> string) \<Rightarrow> policy_pack \<Rightarrow> string" where
  "compute_policy_hash sha p = sha (policy_document (canonical_pack p))"

definition all_floors :: safety_floors where
  "all_floors = \<lparr>sf_workspace_isolation = True, sf_actor_propagation = True, sf_task_fencing = True,
    sf_evidence_integrity = True, sf_append_only_history = True, sf_replay_safety = True\<rparr>"

definition max_policy_document_bytes :: int where
  "max_policy_document_bytes = 65536"

definition normalize_pack :: "(string \<Rightarrow> string) \<Rightarrow> policy_pack \<Rightarrow> policy_error + policy_pack" where
  "normalize_pack sha p =
    (let v = if_zero 1 (pk_schema_version p); ws = trim_space (pk_workspace p); pid = trim_space (pk_policy_id p);
         ver = trim_space (pk_version p); supplied = to_lower (trim_space (pk_policy_hash p)) in
    if v \<noteq> 1 then Inl (PolicyInvalid ''unsupported policy schema_version'')
    else if ws = [] \<or> pid = [] \<or> ver = []
    then Inl (PolicyInvalid ''policy workspace_id, policy_id, and version are required'')
    else if len pid > max_policy_id_length \<or> len ver > max_policy_version_length \<or> len (pk_rules p) > 64
    then Inl (PolicyInvalid ''policy identity or rule count exceeds bounds'')
    else bindE (normalize_policy_budget (pk_budget p)) (\<lambda>budget.
    bindE (normalize_approval_config (pk_approval p)) (\<lambda>approval.
    bindE (normalize_rules (pk_rules p)) (\<lambda>rules.
    let q = p\<lparr>pk_schema_version := v, pk_workspace := ws, pk_policy_id := pid, pk_version := ver,
              pk_rules := rules, pk_budget := budget, pk_approval := approval,
              pk_require_task_fence := True, pk_floors := all_floors\<rparr>;
        hash = compute_policy_hash sha q; q' = q\<lparr>pk_policy_hash := hash\<rparr> in
    if supplied \<noteq> [] \<and> supplied \<noteq> hash
    then Inl (PolicyInvalid ''policy_hash does not match normalized policy body'')
    else if len (policy_document q') > max_policy_document_bytes
    then Inl (PolicyInvalid ''policy document exceeds its bound'')
    else Inr q'))))"

definition pack_ref :: "policy_pack \<Rightarrow> policy_ref" where
  "pack_ref p = \<lparr>pr_schema_version = pk_schema_version p, pr_workspace = pk_workspace p,
    pr_policy_id = pk_policy_id p, pr_version = pk_version p, pr_policy_hash = pk_policy_hash p\<rparr>"

section \<open>Requests\<close>

definition policy_ref_checked :: "policy_ref \<Rightarrow> policy_error + policy_ref" where
  "policy_ref_checked r = liftE (\<lambda>e. case e of EventInvalid s \<Rightarrow> PolicyInvalid s) (normalize_policy_ref r)"

definition bind_workspace :: "string \<Rightarrow> actor_ref \<Rightarrow> policy_error + actor_ref" where
  "bind_workspace ws a =
    (let a' = (if ac_workspace a = [] then a\<lparr>ac_workspace := ws\<rparr> else a) in
    if ac_workspace a' \<noteq> ws then Inl (PolicyInvalid ''actor crosses workspace boundary'') else Inr a')"

definition policy_within :: "string \<Rightarrow> policy_ref \<Rightarrow> policy_error + policy_ref" where
  "policy_within ws r0 = bindE (policy_ref_checked r0) (\<lambda>r.
    if pr_workspace r \<noteq> ws then Inl (PolicyInvalid ''policy crosses workspace boundary'') else Inr r)"

record policy_evaluation =
  pq_schema_version :: int
  pq_workspace :: string
  pq_policy :: "policy_ref option"
  pq_validators :: "validator_ref list"
  pq_budget :: policy_budget
  pq_approval_mode :: string
  pq_operation :: string
  pq_operation_types :: "string list"
  pq_require_reindex :: bool
  pq_require_task_fence :: bool
  pq_actor :: actor_ref
  pq_request_id :: string
  pq_idempotency :: string
  pq_causation :: string
  pq_correlation :: string

definition normalize_requested_validators :: "validator_ref list \<Rightarrow> policy_error + validator_ref list" where
  "normalize_requested_validators vs =
    (if len vs > vb_validators max_validation_budget then Inl (PolicyInvalid ''too many requested validators'')
     else check_refs [] vs)"

definition validate_requested_budget :: "policy_budget \<Rightarrow> policy_error + unit" where
  "validate_requested_budget b =
    (let c = pb_change b; v = pb_validation b; mc = max_change_budgets; mv = max_validation_budget in
    if cb_operations c < 0 \<or> cb_file_bytes c < 0 \<or> cb_total_bytes c < 0 \<or> vb_validators v < 0 \<or> vb_files v < 0 \<or>
       vb_bytes v < 0 \<or> vb_output_bytes v < 0 \<or> vb_wall_ms v < 0 \<or> vb_sql_queries v < 0 \<or> vb_retries v < 0 \<or>
       vb_report_bytes v < 0
    then Inl (PolicyInvalid ''requested policy budget contains a negative value'')
    else if cb_operations c > cb_operations mc \<or> cb_file_bytes c > cb_file_bytes mc \<or>
       cb_total_bytes c > cb_total_bytes mc
    then Inl (PolicyInvalid ''requested change budget exceeds global limits'')
    else if vb_validators v > vb_validators mv \<or> vb_files v > vb_files mv \<or> vb_bytes v > vb_bytes mv \<or>
       vb_output_bytes v > vb_output_bytes mv \<or> vb_wall_ms v > milliseconds max_validation_wall_time \<or>
       vb_sql_queries v > vb_sql_queries mv \<or> vb_retries v > vb_retries mv \<or>
       vb_report_bytes v > vb_report_bytes mv
    then Inl (PolicyInvalid ''requested validation budget exceeds global limits'')
    else Inr ())"

definition normalize_evaluation :: "policy_evaluation \<Rightarrow> policy_error + policy_evaluation" where
  "normalize_evaluation r =
    (let v = if_zero 1 (pq_schema_version r); ws = trim_space (pq_workspace r);
         rid = trim_space (pq_request_id r); key = trim_space (pq_idempotency r);
         operation = trim_space (pq_operation r); mode = to_lower (trim_space (pq_approval_mode r)) in
    if v \<noteq> 1 then Inl (PolicyInvalid ''unsupported policy schema_version'')
    else if ws = [] then Inl (PolicyInvalid ''workspace_id is required'')
    else if len rid > max_event_id_length \<or> len key > max_idempotency_length \<or> len operation > max_policy_id_length
    then Inl (PolicyInvalid ''policy evaluation identity is too large'')
    else bindE (bind_workspace ws (pq_actor r)) (\<lambda>actor.
    bindE (case pq_policy r of None \<Rightarrow> Inr None | Some p \<Rightarrow> bindE (policy_within ws p) (\<lambda>q. Inr (Some q))) (\<lambda>policy.
    bindE (normalize_requested_validators (pq_validators r)) (\<lambda>vs.
    bindE (validate_requested_budget (pq_budget r)) (\<lambda>_.
    if mode \<noteq> [] \<and> mode \<notin> set approval_modes then Inl (PolicyInvalid ''unsupported requested approval mode'')
    else if len (pq_operation_types r) > 64 then Inl (PolicyInvalid ''too many policy operation types'')
    else bindE (clean_scopes ''policy operation type is too large'' (pq_operation_types r)) (\<lambda>ops.
    Inr (r\<lparr>pq_schema_version := v, pq_workspace := ws, pq_policy := policy,
          pq_validators := sort_by validator_before vs, pq_approval_mode := mode, pq_operation := operation,
          pq_operation_types := ops, pq_actor := actor, pq_request_id := rid, pq_idempotency := key\<rparr>)))))))"

record policy_create =
  pn_schema_version :: int
  pn_request_id :: string
  pn_idempotency :: string
  pn_workspace :: string
  pn_actor :: actor_ref
  pn_pack :: policy_pack

definition normalize_policy_create ::
    "(string \<Rightarrow> string) \<Rightarrow> string \<Rightarrow> policy_create \<Rightarrow> policy_error + policy_create" where
  "normalize_policy_create sha new_id r =
    (let v = if_zero 1 (pn_schema_version r); ws = trim_space (pn_workspace r);
         rid = trim_space (pn_request_id r); key = trim_space (pn_idempotency r) in
    if v \<noteq> 1 then Inl (PolicyInvalid ''unsupported policy schema_version'')
    else if ws = [] \<or> key = [] then Inl (PolicyInvalid ''workspace_id and idempotency_key are required'')
    else bindE (bind_workspace ws (pn_actor r)) (\<lambda>actor.
    if pk_workspace (pn_pack r) \<noteq> [] \<and> trim_space (pk_workspace (pn_pack r)) \<noteq> ws
    then Inl (PolicyInvalid ''policy pack crosses workspace boundary'')
    else bindE (normalize_pack sha ((pn_pack r)\<lparr>pk_workspace := ws\<rparr>)) (\<lambda>pack.
    Inr \<lparr>pn_schema_version = v, pn_request_id = (if rid = [] then new_id else rid), pn_idempotency = key,
         pn_workspace = ws, pn_actor = actor, pn_pack = pack\<rparr>)))"

record policy_lifecycle =
  pg_schema_version :: int
  pg_request_id :: string
  pg_idempotency :: string
  pg_workspace :: string
  pg_policy :: policy_ref
  pg_actor :: actor_ref
  pg_reason :: string

definition normalize_lifecycle :: "string \<Rightarrow> policy_lifecycle \<Rightarrow> policy_error + policy_lifecycle" where
  "normalize_lifecycle new_id r =
    (let v = if_zero 1 (pg_schema_version r); ws = trim_space (pg_workspace r);
         rid = trim_space (pg_request_id r); key = trim_space (pg_idempotency r); reason = trim_space (pg_reason r) in
    if v \<noteq> 1 then Inl (PolicyInvalid ''unsupported policy schema_version'')
    else if ws = [] \<or> key = [] then Inl (PolicyInvalid ''workspace_id and idempotency_key are required'')
    else bindE (bind_workspace ws (pg_actor r)) (\<lambda>actor.
    bindE (policy_within ws (pg_policy r)) (\<lambda>p.
    if len reason > 4096 then Inl (PolicyInvalid ''policy reason is too large'')
    else Inr \<lparr>pg_schema_version = v, pg_request_id = (if rid = [] then new_id else rid), pg_idempotency = key,
      pg_workspace = ws, pg_policy = p, pg_actor = actor, pg_reason = reason\<rparr>)))"

text \<open>The contents the request hashes cover: delivery metadata is cleared.\<close>

definition no_actor :: actor_ref where
  "no_actor = \<lparr>ac_id = [], ac_kind = [], ac_name = [], ac_workspace = []\<rparr>"

definition lifecycle_content :: "policy_lifecycle \<Rightarrow> policy_lifecycle" where
  "lifecycle_content r = r\<lparr>pg_schema_version := 1, pg_request_id := [], pg_idempotency := [],
    pg_actor := no_actor, pg_reason := []\<rparr>"

definition policy_create_content :: "policy_create \<Rightarrow> policy_create" where
  "policy_create_content r = r\<lparr>pn_request_id := [], pn_idempotency := [], pn_actor := no_actor\<rparr>"

record policy_compare =
  pm_workspace :: string
  pm_left :: policy_ref
  pm_right :: policy_ref

definition normalize_compare :: "policy_compare \<Rightarrow> policy_error + policy_compare" where
  "normalize_compare r =
    (let ws = trim_space (pm_workspace r) in
    if ws = [] then Inl (PolicyInvalid ''workspace_id is required'')
    else bindE (policy_ref_checked (pm_left r)) (\<lambda>l.
    bindE (policy_ref_checked (pm_right r)) (\<lambda>q.
    if pr_workspace l \<noteq> ws \<or> pr_workspace q \<noteq> ws
    then Inl (PolicyInvalid ''policy comparison crosses workspace boundary'')
    else Inr \<lparr>pm_workspace = ws, pm_left = l, pm_right = q\<rparr>)))"

end
