(* ===== verification/Policy_Resolver.thy ===== *)
theory Policy_Resolver
  imports Policy_Contract
begin

text \<open>
  \<open>internal/policy/resolver.go\<close>: the pure admission engine.  The process' validator registry is
  the argument \<open>look\<close>, absent when the resolver has none; \<open>sha\<close> is the digest of a pack's
  document and \<open>digest\<close> that of a marshalled resolution.
\<close>

record policy_resolution =
  rs_workspace :: string
  rs_selected :: bool
  rs_ref :: "policy_ref option"
  rs_snapshot :: "policy_pack option"
  rs_validators :: "validator_ref list"
  rs_budget :: policy_budget
  rs_approval_mode :: string
  rs_require_reindex :: bool
  rs_require_task_fence :: bool
  rs_hash :: string

record policy_engine =
  pe_lookup :: "(validator_ref \<Rightarrow> bool) option"
  pe_sha :: "string \<Rightarrow> string"
  pe_digest :: "policy_resolution \<Rightarrow> string"

definition validate_pack :: "policy_engine \<Rightarrow> policy_pack \<Rightarrow> policy_error + policy_pack" where
  "validate_pack R p0 =
    bindE (normalize_pack (pe_sha R) p0) (\<lambda>p.
    case pe_lookup R of
      None \<Rightarrow> Inl (PolicyInvalid ''policy validator registry is not configured'')
    | Some look \<Rightarrow>
        if list_all (\<lambda>r. look (ru_validator r)) (pk_rules p) then Inr p
        else Inl (PolicyInvalid ''policy validator is not registered''))"

text \<open>The closure \<open>add\<close>: \<open>seen\<close> holds the keys of the validators already listed.\<close>

definition add_validator ::
    "(validator_ref \<Rightarrow> bool) \<Rightarrow> validator_ref list \<Rightarrow> validator_ref \<Rightarrow> policy_error + validator_ref list" where
  "add_validator look vs v0 =
    (let v = trim_ref v0 in
    if vr_id v = [] \<or> vr_version v = [] then Inl (PolicyInvalid ''validator reference is incomplete'')
    else if ref_key v \<in> ref_key ` set vs then Inr vs
    else if \<not> look v then Inl (PolicyInvalid ''policy validator is not registered'')
    else Inr (vs @ [v]))"

fun add_validators ::
    "(validator_ref \<Rightarrow> bool) \<Rightarrow> validator_ref list \<Rightarrow> validator_ref list \<Rightarrow> policy_error + validator_ref list" where
  "add_validators look vs [] = Inr vs"
| "add_validators look vs (u # us) = bindE (add_validator look vs u) (\<lambda>vs'. add_validators look vs' us)"

definition mandatory_validators :: "validator_ref list" where
  "mandatory_validators = map (\<lambda>i. \<lparr>vr_id = i, vr_version = ''1''\<rparr>)
    [''change.preconditions'', ''change.files'', ''change.safety'', ''change.tree'']"

definition reindex_validator :: validator_ref where
  "reindex_validator = \<lparr>vr_id = ''change.reindex'', vr_version = ''1''\<rparr>"

definition pick :: "int \<Rightarrow> int \<Rightarrow> int" where
  "pick requested base = (if requested > 0 then requested else base)"

definition apply_requested :: "policy_budget \<Rightarrow> policy_budget \<Rightarrow> policy_budget" where
  "apply_requested base q =
    (let c = pb_change base; v = pb_validation base; rc = pb_change q; rv = pb_validation q in
    \<lparr>pb_change = \<lparr>cb_operations = pick (cb_operations rc) (cb_operations c),
       cb_file_bytes = pick (cb_file_bytes rc) (cb_file_bytes c),
       cb_total_bytes = pick (cb_total_bytes rc) (cb_total_bytes c)\<rparr>,
     pb_validation = \<lparr>vb_validators = pick (vb_validators rv) (vb_validators v),
       vb_files = pick (vb_files rv) (vb_files v), vb_bytes = pick (vb_bytes rv) (vb_bytes v),
       vb_output_bytes = pick (vb_output_bytes rv) (vb_output_bytes v),
       vb_wall_ms = pick (vb_wall_ms rv) (vb_wall_ms v),
       vb_sql_queries = pick (vb_sql_queries rv) (vb_sql_queries v),
       vb_retries = pick (vb_retries rv) (vb_retries v),
       vb_report_bytes = pick (vb_report_bytes rv) (vb_report_bytes v)\<rparr>\<rparr>)"

definition compatibility_budget :: "policy_budget \<Rightarrow> policy_budget" where
  "compatibility_budget q =
    apply_requested \<lparr>pb_change = default_change_budgets, pb_validation = default_validation_budget\<rparr> q"

definition tighten_budget :: "policy_budget \<Rightarrow> policy_budget \<Rightarrow> policy_error + policy_budget" where
  "tighten_budget p q =
    (let c = pb_change p; v = pb_validation p; rc = pb_change q; rv = pb_validation q in
    if cb_operations rc > cb_operations c \<or> cb_file_bytes rc > cb_file_bytes c \<or> cb_total_bytes rc > cb_total_bytes c
    then Inl (PolicyInvalid ''requested change budget widens policy'')
    else if vb_validators rv > vb_validators v \<or> vb_files rv > vb_files v \<or> vb_bytes rv > vb_bytes v \<or>
      vb_output_bytes rv > vb_output_bytes v \<or> vb_wall_ms rv > vb_wall_ms v \<or>
      vb_sql_queries rv > vb_sql_queries v \<or> vb_retries rv > vb_retries v \<or> vb_report_bytes rv > vb_report_bytes v
    then Inl (PolicyInvalid ''requested validation budget widens policy'')
    else Inr (apply_requested p q))"

definition approval_required_for :: "string list \<Rightarrow> string \<Rightarrow> string list \<Rightarrow> bool" where
  "approval_required_for scopes operation types =
    (if scopes = [] then False
     else if trim_space operation = [] \<and> types = [] then True
     else list_ex (\<lambda>s. trim_space s = trim_space operation \<or>
       list_ex (\<lambda>t. trim_space s = trim_space t) types) scopes)"

text \<open>The stricter of the policy's mode, raised when a scope of it matches, and the requested mode.\<close>

definition combine_approval :: "string \<Rightarrow> string \<Rightarrow> bool \<Rightarrow> string" where
  "combine_approval policy0 requested scoped =
    (if policy0 = ''denied'' \<or> requested = ''denied'' then ''denied''
     else
      let policy = (if policy0 = ''automatic'' \<and> scoped then ''required'' else policy0) in
      if requested = [] then policy
      else if policy = ''required'' \<or> requested = ''required'' then ''required''
      else ''automatic'')"

definition effective_approval ::
    "approval_config \<Rightarrow> string \<Rightarrow> string \<Rightarrow> string list \<Rightarrow> policy_error + string" where
  "effective_approval config requested0 operation types =
    (let mode = to_lower (trim_space (pa_mode config)); requested = to_lower (trim_space requested0) in
    if requested \<noteq> [] \<and> requested \<notin> set approval_modes
    then Inl (PolicyInvalid ''unsupported requested approval mode'')
    else Inr (combine_approval (if mode = [] then ''required'' else mode) requested
      (approval_required_for (pa_require_for config) operation types)))"

definition with_resolution_hash :: "policy_engine \<Rightarrow> policy_resolution \<Rightarrow> policy_resolution" where
  "with_resolution_hash R x = x\<lparr>rs_hash := pe_digest R (x\<lparr>rs_hash := []\<rparr>)\<rparr>"

definition resolve_compatibility :: "policy_engine \<Rightarrow> policy_evaluation \<Rightarrow> policy_error + policy_resolution" where
  "resolve_compatibility R q =
    (case pe_lookup R of
      None \<Rightarrow> Inl (PolicyInvalid ''policy validator registry is not configured'')
    | Some look \<Rightarrow>
        let vs = (if pq_validators q = [] then default_validator_refs else pq_validators q) in
        if \<not> list_all look vs then Inl (PolicyInvalid ''validator is not registered'')
        else bindE (effective_approval \<lparr>pa_mode = ''required'', pa_require_for = []\<rparr> (pq_approval_mode q)
          (pq_operation q) (pq_operation_types q)) (\<lambda>approval.
        if approval = ''denied'' then Inl (PolicyInvalid ''admission is denied'')
        else Inr (with_resolution_hash R
          \<lparr>rs_workspace = pq_workspace q, rs_selected = False, rs_ref = None, rs_snapshot = None,
           rs_validators = vs, rs_budget = compatibility_budget (pq_budget q), rs_approval_mode = approval,
           rs_require_reindex = pq_require_reindex q, rs_require_task_fence = True, rs_hash = []\<rparr>)))"

definition check_requested_policy :: "policy_ref option \<Rightarrow> policy_pack \<Rightarrow> policy_error + unit" where
  "check_requested_policy r p =
    (case r of
      None \<Rightarrow> Inr ()
    | Some ref \<Rightarrow>
        if pr_policy_hash ref \<noteq> [] \<and> pr_policy_hash ref \<noteq> pk_policy_hash p
        then Inl (PolicyInvalid ''policy hash does not match immutable policy body'')
        else if pr_policy_id ref \<noteq> pk_policy_id p \<or> pr_version ref \<noteq> pk_version p
        then Inl (PolicyInvalid ''policy reference does not match immutable policy body'')
        else Inr ())"

definition resolve_pack :: "policy_engine \<Rightarrow> policy_pack \<Rightarrow> policy_evaluation \<Rightarrow> policy_error + policy_resolution" where
  "resolve_pack R pack q =
    bindE (validate_pack R pack) (\<lambda>p.
    bindE (check_requested_policy (pq_policy q) p) (\<lambda>_.
    let look = (case pe_lookup R of None \<Rightarrow> \<lambda>_. False | Some f \<Rightarrow> f) in
    bindE (add_validators look [] (map ru_validator (pk_rules p))) (\<lambda>v1.
    bindE (add_validators look v1 mandatory_validators) (\<lambda>v2.
    bindE (add_validators look v2 (pq_validators q)) (\<lambda>v3.
    bindE (if pk_require_reindex p then add_validator look v3 reindex_validator else Inr v3) (\<lambda>v4.
    let vs = sort_by validator_before v4 in
    if len vs > vb_validators (pb_validation (pk_budget p))
    then Inl (PolicyInvalid ''policy validator set exceeds policy budget'')
    else bindE (tighten_budget (pk_budget p) (pq_budget q)) (\<lambda>budget.
    bindE (effective_approval (pk_approval p) (pq_approval_mode q) (pq_operation q) (pq_operation_types q)) (\<lambda>approval.
    if approval = ''denied'' then Inl (PolicyInvalid ''policy denies admission'')
    else Inr (with_resolution_hash R
      \<lparr>rs_workspace = pq_workspace q, rs_selected = True, rs_ref = Some ((pack_ref p)\<lparr>pr_schema_version := 1\<rparr>),
       rs_snapshot = Some p, rs_validators = vs, rs_budget = budget, rs_approval_mode = approval,
       rs_require_reindex = (pk_require_reindex p \<or> pq_require_reindex q), rs_require_task_fence = True,
       rs_hash = []\<rparr>)))))))))"

definition resolve_policy ::
    "policy_engine \<Rightarrow> policy_pack option \<Rightarrow> policy_evaluation \<Rightarrow> policy_error + policy_resolution" where
  "resolve_policy R pack q0 =
    bindE (normalize_evaluation q0) (\<lambda>q.
    case pack of None \<Rightarrow> resolve_compatibility R q | Some p \<Rightarrow> resolve_pack R p q)"

end
