(* ===== verification/Policy_Facts.thy ===== *)
theory Policy_Facts
  imports Policy_Resolver
begin

text \<open>
  Facts about policy packs and their resolution: a normalised pack is a fixed point of
  normalisation, its hash does not depend on the order its rules were written in, and an
  admission can only tighten the pack it is resolved against.
\<close>

section \<open>References\<close>

lemma trim_ref_idem [simp]: "trim_ref (trim_ref v) = trim_ref v"
  by (simp add: trim_ref_def)

definition ref_ok :: "validator_ref \<Rightarrow> bool" where
  "ref_ok v \<longleftrightarrow> trim_ref v = v \<and> vr_id v \<noteq> [] \<and> vr_version v \<noteq> [] \<and>
    len (vr_id v) \<le> max_policy_id_length \<and> len (vr_version v) \<le> max_policy_version_length"

lemma check_refs_Inr:
  "check_refs seen vs = Inr ws \<longleftrightarrow>
    ws = map trim_ref vs \<and> list_all ref_ok ws \<and> distinct (map ref_key ws) \<and> (\<forall>w \<in> set ws. ref_key w \<notin> set seen)"
proof (induction vs arbitrary: seen ws)
  case (Cons v0 vs)
  let ?v = "trim_ref v0" and ?k = "ref_key (trim_ref v0)"
  have step: "check_refs seen (v0 # vs) = Inr ws \<longleftrightarrow>
      ref_ok ?v \<and> ?k \<notin> set seen \<and> (\<exists>us. check_refs (?k # seen) vs = Inr us \<and> ws = ?v # us)"
    by (auto simp: Let_def results if_cases_Inr ref_ok_def not_less)
  show ?case
    unfolding step Cons.IH by (auto simp: image_iff; metis)
qed auto

lemma check_refs_fix:
  assumes "list_all ref_ok vs" and "distinct (map ref_key vs)"
  shows "check_refs [] vs = Inr vs"
proof -
  have "map trim_ref vs = vs" using assms(1) by (intro map_idI) (auto simp: list_all_iff ref_ok_def)
  with assms show ?thesis by (simp add: check_refs_Inr)
qed

lemma validator_before_strict_weak: "strict_weak validator_before"
  unfolding strict_weak_def validator_before_def by (auto split: if_splits)

lemma validator_before_total: "\<not> validator_before a b \<Longrightarrow> \<not> validator_before b a \<Longrightarrow> a = b"
  by (cases a; cases b) (auto simp: validator_before_def split: if_splits)

lemma rule_order_strict_weak: "strict_weak rule_order"
  using validator_before_strict_weak unfolding strict_weak_def rule_order_def by blast

lemma distinct_key_inj:
  assumes "distinct (map ref_key (map ru_validator rs))" and "a \<in> set rs" and "b \<in> set rs"
    and "\<not> rule_order a b" and "\<not> rule_order b a"
  shows "a = b"
proof -
  have "ru_validator a = ru_validator b" using assms(4,5) validator_before_total by (auto simp: rule_order_def)
  then show ?thesis
    using assms(1-3) inj_onD [of "ref_key \<circ> ru_validator" "set rs" a b] by (simp add: distinct_map)
qed

lemma sort_rules_mset:
  assumes "distinct (map ref_key (map ru_validator rs))" and "mset rs = mset rs'"
  shows "sort_by rule_order rs = sort_by rule_order rs'"
  by (rule sort_by_unique [OF rule_order_strict_weak assms(2)]) (rule distinct_key_inj [OF assms(1)])

lemma sort_rules_idem:
  assumes "distinct (map ref_key (map ru_validator rs))"
  shows "sort_by rule_order (sort_by rule_order rs) = sort_by rule_order rs"
  by (rule sort_rules_mset [symmetric]) (use assms in simp_all)

section \<open>Rules\<close>

abbreviation trim_rule :: "policy_rule \<Rightarrow> policy_rule" where
  "trim_rule r \<equiv> r\<lparr>ru_validator := trim_ref (ru_validator r)\<rparr>"

definition rules_ok :: "policy_rule list \<Rightarrow> bool" where
  "rules_ok rs \<longleftrightarrow> list_all ref_ok (map ru_validator rs) \<and> distinct (map ref_key (map ru_validator rs))"

lemma map2_validators: "map2 (\<lambda>r v. r\<lparr>ru_validator := v\<rparr>) rs (map trim_ref (map ru_validator rs)) = map trim_rule rs"
  by (induction rs) auto

lemma normalize_rules_Inr:
  "normalize_rules rs = Inr qs \<longleftrightarrow> rules_ok (map trim_rule rs) \<and> qs = sort_by rule_order (map trim_rule rs)"
proof -
  have "map ru_validator (map trim_rule rs) = map trim_ref (map ru_validator rs)" by simp
  then show ?thesis
    unfolding normalize_rules_def rules_ok_def
    by (auto simp: results check_refs_Inr map2_validators [unfolded map_map comp_def] comp_def)
qed

lemma rules_ok_trim: "rules_ok rs \<Longrightarrow> map trim_rule rs = rs"
  by (intro map_idI) (auto simp: rules_ok_def list_all_iff ref_ok_def)

lemma mset_map_distinct: "mset xs = mset ys \<Longrightarrow> distinct (map f xs) = distinct (map f ys)"
  by (metis mset_eq_imp_distinct_iff mset_map)

lemma rules_ok_mset:
  assumes "mset rs = mset rs'"
  shows "rules_ok rs = rules_ok rs'"
proof -
  have "set rs = set rs'" using assms by (metis set_mset_mset)
  then show ?thesis
    using mset_map_distinct [OF assms, of "ref_key \<circ> ru_validator"]
    by (simp add: rules_ok_def list_all_iff comp_def)
qed

lemma normalize_rules_mset:
  assumes "normalize_rules rs = Inr qs" and "mset rs' = mset rs"
  shows "normalize_rules rs' = Inr qs"
proof -
  have m: "mset (map trim_rule rs) = mset (map trim_rule rs')" using assms(2) by simp
  have ok: "rules_ok (map trim_rule rs)" and "qs = sort_by rule_order (map trim_rule rs)"
    using assms(1) by (auto simp: normalize_rules_Inr)
  then have "qs = sort_by rule_order (map trim_rule rs')"
    using sort_rules_mset [OF _ m] by (simp add: rules_ok_def)
  with ok rules_ok_mset [OF m] show ?thesis by (simp add: normalize_rules_Inr)
qed

lemma normalize_rules_fix:
  assumes "normalize_rules rs = Inr qs"
  shows "normalize_rules qs = Inr qs" and "rules_ok qs" and "sort_by rule_order qs = qs" and "map trim_rule qs = qs"
proof -
  have ok: "rules_ok (map trim_rule rs)" and qs: "qs = sort_by rule_order (map trim_rule rs)"
    using assms by (auto simp: normalize_rules_Inr)
  have "rules_ok qs" using ok rules_ok_mset [of qs "map trim_rule rs"] by (simp add: qs)
  moreover have "sort_by rule_order qs = qs"
    unfolding qs by (rule sort_rules_idem) (use ok in \<open>simp add: rules_ok_def\<close>)
  ultimately show "rules_ok qs" "sort_by rule_order qs = qs" "map trim_rule qs = qs" "normalize_rules qs = Inr qs"
    using rules_ok_trim [of qs] by (simp_all add: normalize_rules_Inr)
qed

section \<open>Budgets\<close>

definition validation_within :: "validation_budget \<Rightarrow> validation_budget \<Rightarrow> bool" where
  "validation_within b m \<longleftrightarrow> vb_validators b \<le> vb_validators m \<and> vb_files b \<le> vb_files m \<and>
    vb_bytes b \<le> vb_bytes m \<and> vb_output_bytes b \<le> vb_output_bytes m \<and> vb_wall_ms b \<le> vb_wall_ms m \<and>
    vb_sql_queries b \<le> vb_sql_queries m \<and> vb_retries b \<le> vb_retries m \<and> vb_report_bytes b \<le> vb_report_bytes m"

definition change_within :: "change_budgets \<Rightarrow> change_budgets \<Rightarrow> bool" where
  "change_within c m \<longleftrightarrow> cb_operations c \<le> cb_operations m \<and> cb_file_bytes c \<le> cb_file_bytes m \<and>
    cb_total_bytes c \<le> cb_total_bytes m"

definition budget_within :: "policy_budget \<Rightarrow> policy_budget \<Rightarrow> bool" where
  "budget_within b m \<longleftrightarrow> change_within (pb_change b) (pb_change m) \<and> validation_within (pb_validation b) (pb_validation m)"

lemma if_zero_idem [simp]: "d \<noteq> 0 \<Longrightarrow> if_zero d (if_zero d x) = if_zero d x"
  by (simp add: if_zero_def)

lemma validation_defaults_idem [simp]:
  "validation_budget_defaults (validation_budget_defaults b) = validation_budget_defaults b"
  by (simp add: validation_budget_defaults_def Let_def default_validation_budget_def)

lemma change_defaults_idem [simp]: "change_budget_defaults (change_budget_defaults c) = change_budget_defaults c"
  by (simp add: change_budget_defaults_def Let_def default_change_budgets_def)

lemma normalize_validation_budget_Inr:
  assumes "normalize_validation_budget b = Inr v"
  shows "v = validation_budget_defaults b" and "normalize_validation_budget v = Inr v"
proof -
  from assms show v: "v = validation_budget_defaults b"
    unfolding normalize_validation_budget_def Let_def by (elim if_InlE) simp
  have "normalize_validation_budget v = normalize_validation_budget b"
    unfolding normalize_validation_budget_def v by simp
  with assms show "normalize_validation_budget v = Inr v" by simp
qed

lemma normalize_policy_budget_fix:
  assumes "normalize_policy_budget b = Inr v"
  shows "normalize_policy_budget v = Inr v"
proof -
  from assms obtain w where "normalize_validation_budget (pb_validation b) = Inr w"
    and "v = \<lparr>pb_change = change_budget_defaults (pb_change b), pb_validation = w\<rparr>"
    unfolding normalize_policy_budget_def Let_def by (elim if_InlE bindE_InrE) simp
  moreover from this have "normalize_validation_budget w = Inr w"
    using normalize_validation_budget_Inr(2) by blast
  ultimately have "normalize_policy_budget v = normalize_policy_budget b"
    unfolding normalize_policy_budget_def Let_def by simp
  with assms show ?thesis by simp
qed

text \<open>The product of milliseconds wraps, so a limit beyond the supported wall time can pass.\<close>

lemma validation_wall_time_overflow:
  "normalize_validation_budget (default_validation_budget\<lparr>vb_wall_ms := 18446744073710\<rparr>) =
    Inr (default_validation_budget\<lparr>vb_wall_ms := 18446744073710\<rparr>)"
  by code_simp

section \<open>Approval and packs\<close>

lemma clean_scopes_fix:
  assumes "clean_scopes w vs = Inr us"
  shows "clean_scopes w us = Inr us" and "map trim_space us = us" and "sort us = us" and "length us \<le> length vs"
proof -
  have small: "\<not> list_ex (\<lambda>v. len (trim_space v) > max_policy_id_length) vs" and us: "us = sort (dedup_trim [] vs)"
    using assms by (auto simp: clean_scopes_def split: if_splits)
  have elems: "trim_space u = u" "u \<noteq> []" "u \<in> trim_space ` set vs" if "u \<in> set us" for u
    using that by (auto simp: us set_dedup_trim)
  then have "\<not> list_ex (\<lambda>v. len (trim_space v) > max_policy_id_length) us"
    using small by (fastforce simp: list_ex_iff)
  moreover have "dedup_trim [] us = us"
    by (rule dedup_trim_fix) (use elems in \<open>auto simp: us\<close>)
  moreover show "sort us = us" using sorted_sort_id [OF sorted_sort] by (simp add: us)
  ultimately show "clean_scopes w us = Inr us" by (simp add: clean_scopes_def)
  show "map trim_space us = us" by (rule map_idI) (rule elems(1))
  have "length (dedup_trim seen vs) \<le> length vs" for seen
    by (induction vs arbitrary: seen) (auto simp: Let_def le_SucI)
  then show "length us \<le> length vs" by (simp add: us)
qed

lemma normalize_approval_parts:
  assumes "normalize_approval_config a = Inr b"
  shows "pa_mode b \<in> set approval_modes" and "map trim_space (pa_require_for b) = pa_require_for b"
    and "sort (pa_require_for b) = pa_require_for b" and "normalize_approval_config b = Inr b"
proof -
  let ?m = "to_lower (trim_space (pa_mode a))"
  define mode where "mode = (if ?m = [] then ''required'' else ?m)"
  from assms obtain scopes where mode: "mode \<in> set approval_modes" and few: "len (pa_require_for a) \<le> 64"
    and scopes: "clean_scopes ''policy approval scope is too large'' (pa_require_for a) = Inr scopes"
    and b: "b = \<lparr>pa_mode = mode, pa_require_for = scopes\<rparr>"
    unfolding normalize_approval_config_def Let_def mode_def by (elim if_InlE bindE_InrE) auto
  note fx = clean_scopes_fix [OF scopes]
  have "\<forall>m \<in> set approval_modes. to_lower (trim_space m) = m \<and> m \<noteq> []" by code_simp
  then have "to_lower (trim_space mode) = mode" and "mode \<noteq> []" using mode by blast+
  moreover have "len scopes \<le> 64" using fx(4) few by (simp add: len_def)
  ultimately show "normalize_approval_config b = Inr b"
    using fx(1) mode by (simp add: normalize_approval_config_def b)
  show "pa_mode b \<in> set approval_modes" "map trim_space (pa_require_for b) = pa_require_for b"
    "sort (pa_require_for b) = pa_require_for b"
    using mode fx by (simp_all add: b)
qed

lemma visible_range:
  "33 \<le> (of_char (Char b0 b1 b2 b3 b4 b5 b6 b7) :: nat) \<Longrightarrow>
    (of_char (Char b0 b1 b2 b3 b4 b5 b6 b7) :: nat) \<le> 126 \<Longrightarrow> visible (Char b0 b1 b2 b3 b4 b5 b6 b7)"
  by (cases b0; cases b1; cases b2; cases b3; cases b4; cases b5; cases b6; cases b7) simp_all

lemma sha_trimmed:
  assumes "valid_sha256 h"
  shows "to_lower (trim_space h) = h" and "h \<noteq> []"
proof -
  have ok: "visible c \<and> lower_char c = c" if "c \<in> set h" for c
  proof -
    have "digit c \<or> (CHR ''a'' \<le> c \<and> c \<le> CHR ''f'')"
      using assms that by (auto simp: valid_sha256_def list_all_iff)
    then have "48 \<le> (of_char c :: nat) \<and> (of_char c :: nat) \<le> 57 \<or> 97 \<le> (of_char c :: nat) \<and> (of_char c :: nat) \<le> 102"
      by (auto simp: digit_def less_eq_char_def)
    then have "33 \<le> (of_char c :: nat)" "(of_char c :: nat) \<le> 126" "lower_char c = c"
      by (auto simp: lower_char_def)
    then show ?thesis by (cases c) (simp only: visible_range simp_thms)
  qed
  show "h \<noteq> []" using assms by (auto simp: valid_sha256_def len_def)
  then have "trim_space h = h" using ok by (simp add: trim_space_code)
  moreover have "to_lower h = h" using ok by (simp add: to_lower_def map_idI)
  ultimately show "to_lower (trim_space h) = h" by simp
qed

lemma canonical_pack_fix:
  assumes "map trim_rule (pk_rules q) = pk_rules q" and "sort_by rule_order (pk_rules q) = pk_rules q"
    and "map trim_space (pa_require_for (pk_approval q)) = pa_require_for (pk_approval q)"
    and "sort (pa_require_for (pk_approval q)) = pa_require_for (pk_approval q)"
  shows "canonical_pack q = q\<lparr>pk_policy_hash := []\<rparr>"
  using assms by (simp add: canonical_pack_def)

definition pack_body :: "policy_pack \<Rightarrow> policy_budget \<Rightarrow> approval_config \<Rightarrow> policy_rule list \<Rightarrow> policy_pack" where
  "pack_body p budget approval rules = p\<lparr>pk_schema_version := 1, pk_workspace := trim_space (pk_workspace p),
    pk_policy_id := trim_space (pk_policy_id p), pk_version := trim_space (pk_version p), pk_rules := rules,
    pk_budget := budget, pk_approval := approval, pk_require_task_fence := True, pk_floors := all_floors\<rparr>"

lemma normalize_pack_Inr:
  assumes "normalize_pack sha p = Inr q"
  obtains budget approval rules where
    "if_zero 1 (pk_schema_version p) = 1" and
    "trim_space (pk_workspace p) \<noteq> []" "trim_space (pk_policy_id p) \<noteq> []" "trim_space (pk_version p) \<noteq> []"
    "len (trim_space (pk_policy_id p)) \<le> max_policy_id_length"
    "len (trim_space (pk_version p)) \<le> max_policy_version_length" "len (pk_rules p) \<le> 64"
    and "normalize_policy_budget (pk_budget p) = Inr budget"
    and "normalize_approval_config (pk_approval p) = Inr approval"
    and "normalize_rules (pk_rules p) = Inr rules"
    and "to_lower (trim_space (pk_policy_hash p)) = [] \<or>
      to_lower (trim_space (pk_policy_hash p)) = compute_policy_hash sha (pack_body p budget approval rules)"
    and "q = (pack_body p budget approval rules)
      \<lparr>pk_policy_hash := compute_policy_hash sha (pack_body p budget approval rules)\<rparr>"
    and "len (policy_document q) \<le> max_policy_document_bytes"
  using assms unfolding normalize_pack_def Let_def pack_body_def
  by (elim if_InlE bindE_InrE) (simp add: not_less)

lemma normalize_pack_intro:
  assumes "if_zero 1 (pk_schema_version p) = 1"
    "trim_space (pk_workspace p) \<noteq> []" "trim_space (pk_policy_id p) \<noteq> []" "trim_space (pk_version p) \<noteq> []"
    "len (trim_space (pk_policy_id p)) \<le> max_policy_id_length"
    "len (trim_space (pk_version p)) \<le> max_policy_version_length" "len (pk_rules p) \<le> 64"
    "normalize_policy_budget (pk_budget p) = Inr budget"
    "normalize_approval_config (pk_approval p) = Inr approval"
    "normalize_rules (pk_rules p) = Inr rules"
    "to_lower (trim_space (pk_policy_hash p)) = [] \<or>
      to_lower (trim_space (pk_policy_hash p)) = compute_policy_hash sha (pack_body p budget approval rules)"
    "q = (pack_body p budget approval rules)
      \<lparr>pk_policy_hash := compute_policy_hash sha (pack_body p budget approval rules)\<rparr>"
    "len (policy_document q) \<le> max_policy_document_bytes"
  shows "normalize_pack sha p = Inr q"
  unfolding normalize_pack_def Let_def
  using assms by (auto simp: pack_body_def)

lemma normalize_pack_hash:
  assumes "normalize_pack sha p = Inr q"
  shows "compute_policy_hash sha q = pk_policy_hash q"
proof -
  from assms obtain budget approval rules where q: "q = (pack_body p budget approval rules)
      \<lparr>pk_policy_hash := compute_policy_hash sha (pack_body p budget approval rules)\<rparr>"
    by (elim normalize_pack_Inr)
  then have "canonical_pack q = canonical_pack (pack_body p budget approval rules)"
    by (simp add: canonical_pack_def)
  then show ?thesis by (simp add: compute_policy_hash_def q)
qed

lemma normalize_pack_fix:
  assumes norm: "normalize_pack sha p = Inr q" and sha: "\<And>s. valid_sha256 (sha s)"
  shows "normalize_pack sha q = Inr q"
proof -
  from norm obtain budget approval rules where
    head: "trim_space (pk_workspace p) \<noteq> []" "trim_space (pk_policy_id p) \<noteq> []" "trim_space (pk_version p) \<noteq> []"
      "len (trim_space (pk_policy_id p)) \<le> max_policy_id_length"
      "len (trim_space (pk_version p)) \<le> max_policy_version_length" "len (pk_rules p) \<le> 64"
    and budget: "normalize_policy_budget (pk_budget p) = Inr budget"
    and approval: "normalize_approval_config (pk_approval p) = Inr approval"
    and rules: "normalize_rules (pk_rules p) = Inr rules"
    and q: "q = (pack_body p budget approval rules)
      \<lparr>pk_policy_hash := compute_policy_hash sha (pack_body p budget approval rules)\<rparr>"
    and size: "len (policy_document q) \<le> max_policy_document_bytes"
    by (elim normalize_pack_Inr)
  have body: "pack_body q budget approval rules = q" by (simp add: q pack_body_def)
  have hash: "compute_policy_hash sha q = pk_policy_hash q" by (rule normalize_pack_hash) (rule norm)
  have few: "len (pk_rules q) \<le> 64"
    using rules head(6) by (auto simp: normalize_rules_Inr q pack_body_def len_def)
  show ?thesis
  proof (rule normalize_pack_intro [where budget = budget and approval = approval and rules = rules])
    show "normalize_policy_budget (pk_budget q) = Inr budget"
      using normalize_policy_budget_fix [OF budget] by (simp add: q pack_body_def)
    show "normalize_approval_config (pk_approval q) = Inr approval"
      using normalize_approval_parts(4) [OF approval] by (simp add: q pack_body_def)
    show "normalize_rules (pk_rules q) = Inr rules"
      using normalize_rules_fix(1) [OF rules] by (simp add: q pack_body_def)
    have "valid_sha256 (pk_policy_hash q)" using sha by (simp add: q compute_policy_hash_def)
    then show "to_lower (trim_space (pk_policy_hash q)) = [] \<or> to_lower (trim_space (pk_policy_hash q)) =
        compute_policy_hash sha (pack_body q budget approval rules)"
      using sha_trimmed(1) hash by (simp add: body)
    show "q = pack_body q budget approval rules\<lparr>pk_policy_hash := compute_policy_hash sha (pack_body q budget approval rules)\<rparr>"
      using hash by (simp add: body)
  qed (use head few size in \<open>simp_all add: q pack_body_def if_zero_def\<close>)
qed

end
