(* ===== verification/Policy_Store.thy ===== *)
theory Policy_Store
  imports Policy_Facts Event_Store
begin

text \<open>
  \<open>internal/store/policies.go\<close> with the constraints of migrations 031 and 032: the authority
  over policy versions.  Bodies are immutable, the lifecycle status moves between \<open>draft\<close>,
  \<open>active\<close> and \<open>retired\<close>, a workspace may bind one version as its default, and every change
  appends a transition, an audit row and an event in the same transaction.

  \<open>policy_db\<close> extends the event store's tables.  \<open>policy_env\<close> collects what is not code of the
  repository or comes from the process: the environment of the event store, the resolver with
  whether it is attached, the request digests, the database's text order and the value checks of
  its columns.  The digest of a comparison is left out, and the failure hook of the tests with it.
\<close>

section \<open>State\<close>

datatype policy_store_error =
  PolicyRejected policy_error
| ErrPolicyNotFound
| ErrPolicyConflict
| ErrPolicyRetired
| ErrPolicyInvalidTransition
| ErrPolicyDefaultMissing
| PolicyEventFailed store_error
| PolicyStoreInvalid string

record policy_version =
  vw_workspace :: string
  vw_policy_id :: string
  vw_version :: string
  vw_hash :: string
  vw_pack :: policy_pack
  vw_status :: string
  vw_actor :: actor_ref
  vw_created :: time
  vw_updated :: time
  vw_activated :: "time option"
  vw_retired :: "time option"

record policy_rule_row =
  pu_key :: "string \<times> string \<times> string"
  pu_ordinal :: nat
  pu_rule :: policy_rule

record policy_default =
  pd_policy_id :: string
  pd_version :: string
  pd_hash :: string
  pd_actor :: actor_ref

record policy_idem =
  pi_hash :: string
  pi_operation :: string
  pi_policy_id :: string
  pi_version :: string
  pi_policy_hash :: string

record policy_audit =
  px_id :: int
  px_workspace :: string
  px_policy_id :: string
  px_version :: string
  px_hash :: string
  px_operation :: string
  px_from :: string
  px_to :: string
  px_actor :: actor_ref
  px_request_id :: string
  px_idempotency :: string
  px_allowed :: bool
  px_reason :: string
  px_created :: time

record 'x policy_db = "'x control_db" +
  policy_identities :: "(string \<times> string) list"
  policy_versions :: "policy_version list"
  policy_rule_rows :: "policy_rule_row list"
  policy_defaults :: "string \<rightharpoonup> policy_default"
  policy_transitions :: "policy_audit list"
  policy_audits :: "policy_audit list"
  policy_idempotency :: "string \<times> string \<rightharpoonup> policy_idem"

record 'x policy_env =
  le_events :: "'x event_env"
  le_engine :: policy_engine
  le_attached :: bool
  le_create_hash :: "policy_create \<Rightarrow> string"
  le_lifecycle_hash :: "policy_lifecycle \<Rightarrow> string"
  le_accepts :: "policy_version \<Rightarrow> bool"
  le_accepts_actor :: "actor_ref \<Rightarrow> bool"
  le_before :: "string \<Rightarrow> string \<Rightarrow> bool"

text \<open>What one call draws from outside: identities, the event's, the row number and the clock.\<close>

record policy_in =
  ly_request_id :: string
  ly_event :: io
  ly_row :: int
  ly_clk :: "nat \<Rightarrow> time"

definition version_key :: "policy_version \<Rightarrow> string \<times> string \<times> string" where
  "version_key v = (vw_workspace v, vw_policy_id v, vw_version v)"

text \<open>The \<open>WHERE\<close> clause of an update, on the rows in order.\<close>

definition update_versions ::
    "(policy_version \<Rightarrow> bool) \<Rightarrow> (policy_version \<Rightarrow> policy_version) \<Rightarrow> ('x, 'z) policy_db_scheme \<Rightarrow> ('x, 'z) policy_db_scheme" where
  "update_versions P f db = db\<lparr>policy_versions := map (\<lambda>v. if P v then f v else v) (policy_versions db)\<rparr>"

section \<open>Reads\<close>

definition read_policy_version_tx ::
    "string \<Rightarrow> string \<Rightarrow> string \<Rightarrow> ('x, 'z) policy_db_scheme \<Rightarrow> policy_store_error + policy_version" where
  "read_policy_version_tx ws pid ver db =
    (case find (\<lambda>v. version_key v = (ws, pid, ver)) (policy_versions db) of
      None \<Rightarrow> Inl ErrPolicyNotFound
    | Some v \<Rightarrow> Inr (v\<lparr>vw_pack := (vw_pack v)\<lparr>pk_policy_hash := vw_hash v\<rparr>\<rparr>))"

definition get_policy ::
    "string \<Rightarrow> string \<Rightarrow> string \<Rightarrow> ('x, 'z) policy_db_scheme \<Rightarrow> policy_store_error + policy_version" where
  "get_policy ws pid ver db = read_policy_version_tx (trim_space ws) (trim_space pid) (trim_space ver) db"

definition default_policy :: "string \<Rightarrow> ('x, 'z) policy_db_scheme \<Rightarrow> policy_store_error + policy_version" where
  "default_policy ws db =
    (case policy_defaults db (trim_space ws) of
      None \<Rightarrow> Inl ErrPolicyDefaultMissing
    | Some d \<Rightarrow> bindE (get_policy ws (pd_policy_id d) (pd_version d) db) (\<lambda>v.
        if vw_status v \<noteq> ''active'' then Inl ErrPolicyRetired else Inr v))"

definition policy_page_limit :: "int \<Rightarrow> int" where
  "policy_page_limit limit = (let l = (if limit \<le> 0 then 50 else limit) in if l > 100 then 100 else l)"

text \<open>\<open>ORDER BY created_at DESC, policy_id, version\<close>, and the row comparison of the cursor.\<close>

definition list_before :: "(string \<Rightarrow> string \<Rightarrow> bool) \<Rightarrow> policy_version \<Rightarrow> policy_version \<Rightarrow> bool" where
  "list_before lt a b \<longleftrightarrow>
    (if vw_created a \<noteq> vw_created b then vw_created a > vw_created b
     else if vw_policy_id a \<noteq> vw_policy_id b then lt (vw_policy_id a) (vw_policy_id b)
     else lt (vw_version a) (vw_version b))"

definition row_less :: "(string \<Rightarrow> string \<Rightarrow> bool) \<Rightarrow> policy_version \<Rightarrow> policy_version \<Rightarrow> bool" where
  "row_less lt a b \<longleftrightarrow>
    (if vw_created a \<noteq> vw_created b then vw_created a < vw_created b
     else if vw_policy_id a \<noteq> vw_policy_id b then lt (vw_policy_id a) (vw_policy_id b)
     else lt (vw_version a) (vw_version b))"

text \<open>\<open>strings.SplitN(cursor, NUL, 2)\<close>.\<close>

definition split_cursor :: "string \<Rightarrow> (string \<times> string) option" where
  "split_cursor c =
    (let p = takeWhile (\<lambda>x. x \<noteq> CHR 0x00) c in if p = c then None else Some (p, drop (length p + 1) c))"

definition list_policies ::
    "'x policy_env \<Rightarrow> string \<Rightarrow> int \<Rightarrow> string \<Rightarrow> ('x, 'z) policy_db_scheme \<Rightarrow>
      policy_store_error + policy_version list \<times> string" where
  "list_policies E ws0 limit0 cursor db =
    (let limit = policy_page_limit limit0; ws = trim_space ws0;
         rows = filter (\<lambda>v. vw_workspace v = ws) (policy_versions db);
         selected = (if cursor = [] then Some rows else map_option (\<lambda>(pid, ver).
           case find (\<lambda>v. version_key v = (ws, pid, ver)) (policy_versions db) of
             None \<Rightarrow> []
           | Some c \<Rightarrow> filter (\<lambda>v. row_less (le_before E) v c) rows) (split_cursor cursor)) in
    case selected of
      None \<Rightarrow> Inl (PolicyStoreInvalid ''invalid policy cursor'')
    | Some sel \<Rightarrow>
        bindE (mapE (\<lambda>v. get_policy ws (vw_policy_id v) (vw_version v) db)
          (take (nat (limit + 1)) (sort_by (list_before (le_before E)) sel))) (\<lambda>items.
        if len items > limit then
          let last_item = items ! nat (limit - 1) in
          Inr (take (nat limit) items, vw_policy_id last_item @ [CHR 0x00] @ vw_version last_item)
        else Inr (items, [])))"

definition audit_policies ::
    "string \<Rightarrow> string \<Rightarrow> string \<Rightarrow> int \<Rightarrow> string \<Rightarrow> ('x, 'z) policy_db_scheme \<Rightarrow>
      policy_store_error + policy_audit list \<times> string" where
  "audit_policies ws0 pid0 ver0 limit0 cursor db =
    (let limit = policy_page_limit limit0; ws = trim_space ws0; pid = trim_space pid0; ver = trim_space ver0;
         start = (if cursor = [] then Some 0 else case parse_int64 cursor of
           None \<Rightarrow> None | Some i \<Rightarrow> if i < 1 then None else Some i) in
    case start of
      None \<Rightarrow> Inl (PolicyStoreInvalid ''invalid policy audit cursor'')
    | Some id0 \<Rightarrow>
        let items = take (nat (limit + 1)) (sort_key px_id (filter (\<lambda>a. px_workspace a = ws \<and>
              (pid = [] \<or> px_policy_id a = pid) \<and> (ver = [] \<or> px_version a = ver) \<and>
              (cursor = [] \<or> px_id a > id0)) (policy_audits db))) in
        if len items > limit then Inr (take (nat limit) items, show_int (px_id (items ! nat (limit - 1))))
        else Inr (items, []))"

text \<open>\<open>strings.Join\<close> with a NUL byte.\<close>

fun join_nul :: "string list \<Rightarrow> string" where
  "join_nul [] = []"
| "join_nul [s] = s"
| "join_nul (s # ss) = s @ [CHR 0x00] @ join_nul ss"

definition compare_fields :: "(string \<Rightarrow> string) \<Rightarrow> policy_pack \<Rightarrow> policy_pack \<Rightarrow> string list" where
  "compare_fields sha l r =
    (if sha (rules_document (pk_rules l)) \<noteq> sha (rules_document (pk_rules r)) then [''rules''] else []) @
    (if pk_budget l \<noteq> pk_budget r then [''budget''] else []) @
    (if pa_mode (pk_approval l) \<noteq> pa_mode (pk_approval r) then [''approval.mode''] else []) @
    (if join_nul (pa_require_for (pk_approval l)) \<noteq> join_nul (pa_require_for (pk_approval r)) then [''approval.require_for''] else []) @
    (if pk_require_reindex l \<noteq> pk_require_reindex r then [''require_reindex''] else []) @
    (if pk_require_task_fence l \<noteq> pk_require_task_fence r then [''require_task_fence''] else []) @
    (if pk_floors l \<noteq> pk_floors r then [''safety_floors''] else [])"

definition compare_policies ::
    "'x policy_env \<Rightarrow> policy_compare \<Rightarrow> ('x, 'z) policy_db_scheme \<Rightarrow>
      policy_store_error + (policy_ref \<times> policy_ref \<times> string list)" where
  "compare_policies E c0 db =
    bindE (liftE PolicyRejected (normalize_compare c0)) (\<lambda>c.
    bindE (get_policy (pm_workspace c) (pr_policy_id (pm_left c)) (pr_version (pm_left c)) db) (\<lambda>l.
    bindE (get_policy (pm_workspace c) (pr_policy_id (pm_right c)) (pr_version (pm_right c)) db) (\<lambda>r.
    if pr_policy_hash (pm_left c) \<noteq> [] \<and> pr_policy_hash (pm_left c) \<noteq> vw_hash l \<or>
       pr_policy_hash (pm_right c) \<noteq> [] \<and> pr_policy_hash (pm_right c) \<noteq> vw_hash r
    then Inl ErrPolicyConflict
    else Inr (pack_ref (vw_pack l), pack_ref (vw_pack r),
      compare_fields (pe_sha (le_engine E)) (vw_pack l) (vw_pack r)))))"

section \<open>Creation\<close>

definition policy_payload :: "(string \<times> string) list \<Rightarrow> string" where
  "policy_payload ms = json_object (map (\<lambda>(k, v). (k, json_string v)) ms)"

text \<open>A transition and its audit row differ in the table only; the audit row also has the hash.\<close>

definition audit_row ::
    "policy_in \<Rightarrow> nat \<Rightarrow> policy_version \<Rightarrow> string \<Rightarrow> string \<Rightarrow> string \<Rightarrow> actor_ref \<Rightarrow> string \<Rightarrow> string \<Rightarrow> string \<Rightarrow> policy_audit" where
  "audit_row i k v operation from_status to_status actor rid key reason =
    \<lparr>px_id = ly_row i, px_workspace = vw_workspace v, px_policy_id = vw_policy_id v, px_version = vw_version v,
     px_hash = vw_hash v, px_operation = operation, px_from = from_status, px_to = to_status, px_actor = actor,
     px_request_id = rid, px_idempotency = key, px_allowed = True, px_reason = reason, px_created = ly_clk i k\<rparr>"

definition append_policy_event ::
    "'x policy_env \<Rightarrow> policy_in \<Rightarrow> string \<Rightarrow> (string \<times> string) list \<Rightarrow> string \<Rightarrow> actor_ref \<Rightarrow> policy_version \<Rightarrow>
      string \<Rightarrow> string \<Rightarrow> ('x, 'z) policy_db_scheme \<Rightarrow> policy_store_error + ('x, 'z) policy_db_scheme" where
  "append_policy_event E i etype payload ws actor v rid key db =
    bindE (liftE (PolicyEventFailed \<circ> EventRejected) (new_event (io_new_id (ly_event i)) (io_now (ly_event i)) etype
      (Some (policy_payload payload)))) (\<lambda>e0.
    let e = e0\<lparr>ev_scope := \<lparr>sc_workspace = ws, sc_visibility = [], sc_subject = vw_policy_id v\<rparr>, ev_actor := actor,
      ev_policy := Some (pack_ref (vw_pack v)), ev_causation := rid, ev_correlation := rid, ev_idempotency := key\<rparr> in
    bindE (liftE PolicyEventFailed (append_tx (le_events E) (ly_event i) e db)) (\<lambda>(_, db'). Inr db'))"

definition new_version :: "policy_in \<Rightarrow> policy_create \<Rightarrow> policy_version" where
  "new_version i q = \<lparr>vw_workspace = pn_workspace q, vw_policy_id = pk_policy_id (pn_pack q),
    vw_version = pk_version (pn_pack q), vw_hash = pk_policy_hash (pn_pack q), vw_pack = pn_pack q,
    vw_status = ''draft'', vw_actor = pn_actor q, vw_created = ly_clk i 1, vw_updated = ly_clk i 1,
    vw_activated = None, vw_retired = None\<rparr>"

definition rule_rows :: "policy_version \<Rightarrow> policy_rule_row list" where
  "rule_rows v = map (\<lambda>(n, r). \<lparr>pu_key = version_key v, pu_ordinal = n, pu_rule = r\<rparr>)
    (enumerate 0 (pk_rules (vw_pack v)))"

text \<open>A reserved idempotency key: its stored request must be the same one.\<close>

definition policy_replay ::
    "policy_idem \<Rightarrow> string \<Rightarrow> string \<Rightarrow> string \<Rightarrow> ('x, 'z) policy_db_scheme \<Rightarrow> policy_store_error + policy_version" where
  "policy_replay r hash operation ws db =
    (if pi_hash r \<noteq> hash \<or> pi_operation r \<noteq> operation then Inl ErrPolicyConflict
     else read_policy_version_tx ws (pi_policy_id r) (pi_version r) db)"

definition insert_policy_tx ::
    "'x policy_env \<Rightarrow> policy_in \<Rightarrow> policy_create \<Rightarrow> ('x, 'z) policy_db_scheme \<Rightarrow>
      policy_store_error + (policy_version \<times> bool) \<times> ('x, 'z) policy_db_scheme" where
  "insert_policy_tx E i q db =
    (let v = new_version i q; reason = ''policy version created'';
         audit = (\<lambda>k. audit_row i k v ''create'' [] ''draft'' (pn_actor q) (pn_request_id q) (pn_idempotency q) reason);
         db1 = db\<lparr>policy_identities := List.insert (vw_workspace v, vw_policy_id v) (policy_identities db)\<rparr> in
    if \<not> le_accepts E v then Inl (PolicyStoreInvalid ''insert policy version'')
    else if find (\<lambda>w. version_key w = version_key v) (policy_versions db) \<noteq> None then Inl ErrPolicyConflict
    else
      let db2 = db1\<lparr>policy_versions := policy_versions db @ [v], policy_rule_rows := policy_rule_rows db @ rule_rows v,
        policy_transitions := policy_transitions db @ [audit 2], policy_audits := policy_audits db @ [audit 3]\<rparr> in
      bindE (append_policy_event E i ''policy.created''
        [(''policy_hash'', vw_hash v), (''policy_id'', vw_policy_id v), (''status'', ''draft''), (''version'', vw_version v)]
        (pn_workspace q) (pn_actor q) v (pn_request_id q)
        (''policy:create:'' @ pn_workspace q @ '':'' @ pn_idempotency q) db2) (\<lambda>db3.
      bindE (read_policy_version_tx (pn_workspace q) (vw_policy_id v) (vw_version v) db3) (\<lambda>w. Inr ((w, True), db3))))"

definition create_policy_tx ::
    "'x policy_env \<Rightarrow> policy_in \<Rightarrow> policy_create \<Rightarrow> ('x, 'z) policy_db_scheme \<Rightarrow>
      policy_store_error + (policy_version \<times> bool) \<times> ('x, 'z) policy_db_scheme" where
  "create_policy_tx E i q0 db =
    bindE (liftE PolicyRejected (normalize_policy_create (pe_sha (le_engine E)) (ly_request_id i) q0)) (\<lambda>q1.
    if \<not> le_attached E then Inl (PolicyStoreInvalid ''policy resolver is not configured'')
    else bindE (liftE PolicyRejected (validate_pack (le_engine E) (pn_pack q1))) (\<lambda>pack.
    let q = q1\<lparr>pn_pack := pack\<rparr>; hash = le_create_hash E (policy_create_content q);
        (inserted, idem) = insert_new (pn_workspace q, pn_idempotency q)
          \<lparr>pi_hash = hash, pi_operation = ''create'', pi_policy_id = pk_policy_id pack, pi_version = pk_version pack,
           pi_policy_hash = pk_policy_hash pack\<rparr> (policy_idempotency db) in
    if inserted then insert_policy_tx E i q (db\<lparr>policy_idempotency := idem\<rparr>)
    else case idem (pn_workspace q, pn_idempotency q) of
      None \<Rightarrow> Inl (PolicyStoreInvalid ''read policy idempotency'')
    | Some r \<Rightarrow> bindE (policy_replay r hash ''create'' (pn_workspace q) db) (\<lambda>v. Inr ((v, False), db))))"

definition create_policy ::
    "'x policy_env \<Rightarrow> policy_in \<Rightarrow> policy_create \<Rightarrow> ('x, 'z) policy_db_scheme \<Rightarrow>
      (policy_store_error + policy_version \<times> bool) \<times> ('x, 'z) policy_db_scheme" where
  "create_policy E i q = in_tx (create_policy_tx E i q)"

section \<open>Lifecycle\<close>

datatype policy_operation = Activate | SetDefault | Retire

definition operation_name :: "policy_operation \<Rightarrow> string" where
  "operation_name k = (case k of Activate \<Rightarrow> ''activate'' | SetDefault \<Rightarrow> ''default'' | Retire \<Rightarrow> ''retire'')"

definition coalesce :: "'a option \<Rightarrow> 'a \<Rightarrow> 'a option" where
  "coalesce x d = (case x of None \<Rightarrow> Some d | Some y \<Rightarrow> Some y)"

definition activate_version :: "policy_in \<Rightarrow> policy_version \<Rightarrow> ('x, 'z) policy_db_scheme \<Rightarrow> ('x, 'z) policy_db_scheme" where
  "activate_version i v db =
    update_versions (\<lambda>w. version_key w = version_key v)
      (\<lambda>w. w\<lparr>vw_status := ''active'', vw_activated := coalesce (vw_activated w) (ly_clk i 2), vw_retired := None,
           vw_updated := ly_clk i 2\<rparr>)
    (update_versions (\<lambda>w. vw_workspace w = vw_workspace v \<and> vw_policy_id w = vw_policy_id v \<and>
        vw_status w = ''active'' \<and> vw_version w \<noteq> vw_version v)
      (\<lambda>w. w\<lparr>vw_status := ''retired'', vw_retired := coalesce (vw_retired w) (ly_clk i 1), vw_updated := ly_clk i 1\<rparr>) db)"

definition bind_default ::
    "policy_version \<Rightarrow> actor_ref \<Rightarrow> ('x, 'z) policy_db_scheme \<Rightarrow> ('x, 'z) policy_db_scheme" where
  "bind_default v actor db = db\<lparr>policy_defaults := (policy_defaults db)(vw_workspace v \<mapsto>
    \<lparr>pd_policy_id = vw_policy_id v, pd_version = vw_version v, pd_hash = vw_hash v, pd_actor = actor\<rparr>)\<rparr>"

definition retire_version :: "policy_in \<Rightarrow> policy_version \<Rightarrow> ('x, 'z) policy_db_scheme \<Rightarrow> ('x, 'z) policy_db_scheme" where
  "retire_version i v db0 =
    (let db = update_versions (\<lambda>w. version_key w = version_key v)
      (\<lambda>w. w\<lparr>vw_status := ''retired'', vw_retired := Some (ly_clk i 1), vw_updated := ly_clk i 1\<rparr>) db0 in
    case policy_defaults db (vw_workspace v) of
      None \<Rightarrow> db
    | Some d \<Rightarrow> if pd_policy_id d = vw_policy_id v \<and> pd_version d = vw_version v
        then db\<lparr>policy_defaults := (policy_defaults db)(vw_workspace v := None)\<rparr> else db)"

text \<open>The switch over the operation: the new status and the updated tables.\<close>

definition change_status ::
    "policy_in \<Rightarrow> policy_operation \<Rightarrow> policy_version \<Rightarrow> actor_ref \<Rightarrow> ('x, 'z) policy_db_scheme \<Rightarrow>
      policy_store_error + string \<times> ('x, 'z) policy_db_scheme" where
  "change_status i k v actor db =
    (case k of
      Activate \<Rightarrow>
        if vw_status v \<notin> {''active'', ''draft'', ''retired''} then Inl ErrPolicyInvalidTransition
        else Inr (''active'', activate_version i v db)
    | SetDefault \<Rightarrow>
        if vw_status v \<noteq> ''active'' then Inl ErrPolicyRetired else Inr (vw_status v, bind_default v actor db)
    | Retire \<Rightarrow>
        if vw_status v = ''draft'' \<or> vw_status v = ''active'' then Inr (''retired'', retire_version i v db)
        else if vw_status v \<noteq> ''retired'' then Inl ErrPolicyInvalidTransition
        else Inr (vw_status v, db))"

definition transition_policy_tx ::
    "'x policy_env \<Rightarrow> policy_in \<Rightarrow> policy_operation \<Rightarrow> policy_lifecycle \<Rightarrow> ('x, 'z) policy_db_scheme \<Rightarrow>
      policy_store_error + (policy_version \<times> bool) \<times> ('x, 'z) policy_db_scheme" where
  "transition_policy_tx E i k q db =
    (let ws = pg_workspace q; pid = pr_policy_id (pg_policy q); ver = pr_version (pg_policy q); name = operation_name k in
    if k = Activate \<and> (ws, pid) \<notin> set (policy_identities db) then Inl (PolicyStoreInvalid ''policy identity'')
    else bindE (read_policy_version_tx ws pid ver db) (\<lambda>v.
    if pr_policy_hash (pg_policy q) \<noteq> [] \<and> pr_policy_hash (pg_policy q) \<noteq> vw_hash v then Inl ErrPolicyConflict
    else bindE (change_status i k v (pg_actor q) db) (\<lambda>(status, db1).
    let audit = (\<lambda>n. audit_row i n v name (vw_status v) status (pg_actor q) (pg_request_id q) (pg_idempotency q) (pg_reason q));
        db2 = db1\<lparr>policy_transitions := policy_transitions db1 @ [audit 3], policy_audits := policy_audits db1 @ [audit 4]\<rparr> in
    if \<not> le_accepts_actor E (pg_actor q) then Inl (PolicyStoreInvalid ''record policy transition'')
    else bindE (append_policy_event E i (''policy.'' @ name)
      [(''from_status'', vw_status v), (''policy_hash'', vw_hash v), (''policy_id'', vw_policy_id v),
       (''to_status'', status), (''version'', vw_version v)]
      ws (pg_actor q) v (pg_request_id q) (''policy:'' @ name @ '':'' @ ws @ '':'' @ pg_idempotency q) db2) (\<lambda>db3.
    bindE (read_policy_version_tx ws (vw_policy_id v) (vw_version v) db3) (\<lambda>w. Inr ((w, False), db3))))))"

definition lifecycle_tx ::
    "'x policy_env \<Rightarrow> policy_in \<Rightarrow> policy_operation \<Rightarrow> policy_lifecycle \<Rightarrow> ('x, 'z) policy_db_scheme \<Rightarrow>
      policy_store_error + (policy_version \<times> bool) \<times> ('x, 'z) policy_db_scheme" where
  "lifecycle_tx E i k q0 db =
    bindE (liftE PolicyRejected (normalize_lifecycle (ly_request_id i) q0)) (\<lambda>q.
    let hash = le_lifecycle_hash E (lifecycle_content q); key = (pg_workspace q, pg_idempotency q);
        (inserted, idem) = insert_new key \<lparr>pi_hash = hash, pi_operation = operation_name k,
          pi_policy_id = pr_policy_id (pg_policy q), pi_version = pr_version (pg_policy q),
          pi_policy_hash = pr_policy_hash (pg_policy q)\<rparr> (policy_idempotency db) in
    if inserted then transition_policy_tx E i k q (db\<lparr>policy_idempotency := idem\<rparr>)
    else case idem key of
      None \<Rightarrow> Inl (PolicyStoreInvalid ''read policy idempotency'')
    | Some r \<Rightarrow> bindE (policy_replay r hash (operation_name k) (pg_workspace q) db) (\<lambda>v. Inr ((v, True), db)))"

definition lifecycle ::
    "'x policy_env \<Rightarrow> policy_in \<Rightarrow> policy_operation \<Rightarrow> policy_lifecycle \<Rightarrow> ('x, 'z) policy_db_scheme \<Rightarrow>
      (policy_store_error + policy_version \<times> bool) \<times> ('x, 'z) policy_db_scheme" where
  "lifecycle E i k q = in_tx (lifecycle_tx E i k q)"

section \<open>Admission\<close>

text \<open>\<open>LockActiveTx\<close>, called inside the transaction that inserts admitted work.\<close>

definition lock_active_tx :: "policy_ref option \<Rightarrow> ('x, 'z) policy_db_scheme \<Rightarrow> policy_store_error + unit" where
  "lock_active_tx r db =
    (case r of
      None \<Rightarrow> Inr ()
    | Some r0 \<Rightarrow> bindE (liftE PolicyRejected (policy_ref_checked r0)) (\<lambda>ref.
        case find (\<lambda>v. version_key v = (pr_workspace ref, pr_policy_id ref, pr_version ref)) (policy_versions db) of
          None \<Rightarrow> Inl ErrPolicyNotFound
        | Some v \<Rightarrow>
            if pr_policy_hash ref \<noteq> [] \<and> pr_policy_hash ref \<noteq> vw_hash v then Inl ErrPolicyConflict
            else if vw_status v \<noteq> ''active'' then Inl ErrPolicyRetired else Inr ()))"

definition select_policy ::
    "policy_evaluation \<Rightarrow> ('x, 'z) policy_db_scheme \<Rightarrow> policy_store_error + policy_version" where
  "select_policy q db =
    (case pq_policy q of
      Some r0 \<Rightarrow> bindE (liftE PolicyRejected (policy_within (pq_workspace q) r0)) (\<lambda>ref.
        bindE (get_policy (pq_workspace q) (pr_policy_id ref) (pr_version ref) db) (\<lambda>v.
        if pr_policy_hash ref \<noteq> [] \<and> pr_policy_hash ref \<noteq> vw_hash v then Inl ErrPolicyConflict else Inr v))
    | None \<Rightarrow> default_policy (pq_workspace q) db)"

definition admit ::
    "'x policy_env \<Rightarrow> policy_evaluation \<Rightarrow> ('x, 'z) policy_db_scheme \<Rightarrow> policy_store_error + policy_resolution" where
  "admit E q0 db =
    bindE (liftE PolicyRejected (normalize_evaluation q0)) (\<lambda>q.
    if pq_policy q = None \<and> select_policy q db = Inl ErrPolicyDefaultMissing
    then if \<not> le_attached E then Inl (PolicyStoreInvalid ''policy resolver is not configured'')
         else liftE PolicyRejected (resolve_policy (le_engine E) None q)
    else bindE (select_policy q db) (\<lambda>v.
    if vw_status v \<noteq> ''active'' then Inl ErrPolicyRetired
    else if \<not> le_attached E then Inl (PolicyStoreInvalid ''policy resolver is not configured'')
    else liftE PolicyRejected (resolve_policy (le_engine E) (Some (vw_pack v)) (q\<lparr>pq_policy := Some (pack_ref (vw_pack v))\<rparr>))))"

end
