(* ===== verification/Policy_Admission.thy ===== *)
theory Policy_Admission
  imports Policy_Facts
begin

text \<open>
  What an admission guarantees: the properties of \<open>resolve_policy\<close> and of the canonical form of
  packs, with the facts about the resolver's steps they rest on.
\<close>

section \<open>The validators of a resolution\<close>

lemma add_validator_Inr:
  assumes "add_validator look vs u = Inr ws"
  obtains "ws = vs" and "ref_key (trim_ref u) \<in> ref_key ` set vs"
  | "ws = vs @ [trim_ref u]" and "ref_key (trim_ref u) \<notin> ref_key ` set vs" and "look (trim_ref u)"
  using assms unfolding add_validator_def Let_def by (auto split: if_splits)

lemma add_validators_Inr:
  assumes "add_validators look vs us = Inr ws" and "distinct (map ref_key vs)" and "list_all look vs"
  shows "distinct (map ref_key ws) \<and> list_all look ws \<and> set vs \<subseteq> set ws \<and> set ws \<subseteq> set vs \<union> trim_ref ` set us \<and>
    (\<forall>u \<in> set us. ref_key (trim_ref u) \<in> ref_key ` set ws)"
  using assms
proof (induction us arbitrary: vs)
  case (Cons u us)
  then obtain vs' where first: "add_validator look vs u = Inr vs'" and rest: "add_validators look vs' us = Inr ws"
    by (auto elim: bindE_InrE)
  from first have step: "distinct (map ref_key vs') \<and> list_all look vs' \<and> set vs \<subseteq> set vs' \<and>
      set vs' \<subseteq> insert (trim_ref u) (set vs) \<and> ref_key (trim_ref u) \<in> ref_key ` set vs'"
    using Cons.prems(2,3) by (cases rule: add_validator_Inr) auto
  with Cons.IH [OF rest] show ?case by auto
qed auto

lemma sorted_validators:
  assumes "distinct (map ref_key vs)"
  shows "sorted_wrt validator_before (sort_by validator_before vs)"
proof -
  let ?s = "sort_by validator_before vs"
  have "distinct ?s" using assms distinct_map by auto
  moreover have "sorted_wrt (\<lambda>x y. \<not> validator_before y x) ?s"
    by (rule sorted_sort_by) (rule validator_before_strict_weak)
  ultimately have "sorted_wrt (\<lambda>x y. \<not> validator_before y x \<and> x \<noteq> y) ?s"
    by (auto simp: sorted_wrt_iff_nth_less nth_eq_iff_index_eq)
  then show ?thesis
    by (rule sorted_wrt_mono_rel [rotated]) (use validator_before_total in blast)
qed

text \<open>A key with a single separator determines its reference.\<close>

lemma ref_key_exact:
  assumes "ref_key v = ref_key w" and "CHR 0x00 \<notin> set (vr_id w)" and "CHR 0x00 \<notin> set (vr_version w)"
  shows "v = w"
proof -
  have "length (filter (\<lambda>c. c = CHR 0x00) (ref_key v)) = length (filter (\<lambda>c. c = CHR 0x00) (ref_key w))"
    by (simp only: assms(1))
  moreover have "filter (\<lambda>c. c = CHR 0x00) xs = []" if "CHR 0x00 \<notin> set xs" for xs
    using that by (auto simp: filter_empty_conv)
  ultimately have "CHR 0x00 \<notin> set (vr_id v)"
    using assms(2,3) by (auto simp: ref_key_def filter_empty_conv)
  moreover have "takeWhile (\<lambda>c. c \<noteq> CHR 0x00) (ref_key u) = vr_id u" if "CHR 0x00 \<notin> set (vr_id u)" for u
    using that by (auto simp: ref_key_def takeWhile_append2 takeWhile_tail)
  ultimately have "vr_id v = vr_id w" using assms(1,2) by metis
  with assms(1) show ?thesis by (cases v; cases w) (simp add: ref_key_def)
qed

section \<open>Budgets and approval\<close>

lemma pick_le: "q \<le> p \<Longrightarrow> pick q p \<le> p"
  by (simp add: pick_def)

lemma apply_requested_within:
  assumes "tighten_budget p q = Inr b"
  shows "budget_within b p" and "b = apply_requested p q"
proof -
  from assms show b: "b = apply_requested p q"
    unfolding tighten_budget_def Let_def by (elim if_InlE) simp
  from assms have "change_within (pb_change q) (pb_change p)" and "validation_within (pb_validation q) (pb_validation p)"
    unfolding tighten_budget_def Let_def change_within_def validation_within_def
    by (elim if_InlE; simp only: de_Morgan_disj not_less simp_thms)+
  then show "budget_within b p"
    unfolding b budget_within_def change_within_def validation_within_def apply_requested_def Let_def
    by (simp add: pick_le)
qed

definition approval_rank :: "string \<Rightarrow> nat" where
  "approval_rank m = (if m = ''denied'' then 2 else if m = ''required'' then 1 else 0)"

lemma combine_approval_table:
  "\<forall>m \<in> set approval_modes. \<forall>r \<in> set ([] # approval_modes). \<forall>b \<in> {True, False}.
    approval_rank (combine_approval m r b) =
      max (max (approval_rank m) (approval_rank r)) (if m = ''automatic'' \<and> b then 1 else 0) \<and>
    combine_approval m r b \<in> set approval_modes"
  by code_simp

lemma effective_approval_rank:
  assumes "effective_approval c r operation types = Inr m" and "pa_mode c \<in> set approval_modes"
    and "to_lower (trim_space r) = r"
  shows "approval_rank m = max (max (approval_rank (pa_mode c)) (approval_rank r))
      (if pa_mode c = ''automatic'' \<and> approval_required_for (pa_require_for c) operation types then 1 else 0)"
    and "m \<in> set approval_modes"
proof -
  have modes: "\<forall>m \<in> set approval_modes. to_lower (trim_space m) = m \<and> m \<noteq> []" by code_simp
  then have mode: "to_lower (trim_space (pa_mode c)) = pa_mode c" "pa_mode c \<noteq> []" using assms(2) by blast+
  define scoped where "scoped = approval_required_for (pa_require_for c) operation types"
  have m: "m = combine_approval (pa_mode c) r scoped" and r: "r \<in> set ([] # approval_modes)"
    using assms(1) unfolding effective_approval_def Let_def mode(1) assms(3) scoped_def
    by (auto simp: mode(2) elim!: if_InlE)
  have "scoped \<in> {True, False}" by simp
  with combine_approval_table assms(2) r
  show "approval_rank m = max (max (approval_rank (pa_mode c)) (approval_rank r))
      (if pa_mode c = ''automatic'' \<and> approval_required_for (pa_require_for c) operation types then 1 else 0)"
    "m \<in> set approval_modes"
    unfolding m scoped_def [symmetric] by blast+
qed

section \<open>Admission under a policy\<close>

definition policy_engine_ok :: "policy_engine \<Rightarrow> bool" where
  "policy_engine_ok R \<longleftrightarrow> (\<forall>s. valid_sha256 (pe_sha R s))"

lemma validate_pack_Inr:
  "validate_pack R p0 = Inr p \<longleftrightarrow> normalize_pack (pe_sha R) p0 = Inr p \<and>
    (\<exists>look. pe_lookup R = Some look \<and> list_all (\<lambda>r. look (ru_validator r)) (pk_rules p))"
  by (auto simp: validate_pack_def results if_cases_Inr split: option.splits)

lemma resolve_pack_Inr:
  assumes "resolve_pack R pack q = Inr x"
  obtains p look v1 v2 v3 v4 budget approval where
    "validate_pack R pack = Inr p" and "check_requested_policy (pq_policy q) p = Inr ()" and
    "pe_lookup R = Some look" and
    "add_validators look [] (map ru_validator (pk_rules p)) = Inr v1" and
    "add_validators look v1 mandatory_validators = Inr v2" and
    "add_validators look v2 (pq_validators q) = Inr v3" and
    "(if pk_require_reindex p then add_validator look v3 reindex_validator else Inr v3) = Inr v4" and
    "len (sort_by validator_before v4) \<le> vb_validators (pb_validation (pk_budget p))" and
    "tighten_budget (pk_budget p) (pq_budget q) = Inr budget" and
    "effective_approval (pk_approval p) (pq_approval_mode q) (pq_operation q) (pq_operation_types q) = Inr approval" and
    "approval \<noteq> ''denied''" and "rs_workspace x = pq_workspace q" and "rs_selected x" and "rs_snapshot x = Some p" and
    "rs_validators x = sort_by validator_before v4" and
    "rs_budget x = budget" and "rs_approval_mode x = approval" and "rs_require_task_fence x"
proof -
  from assms obtain p where p: "validate_pack R pack = Inr p" and "\<exists>look. pe_lookup R = Some look"
    unfolding resolve_pack_def by (elim bindE_InrE) (auto simp: validate_pack_Inr)
  then obtain look where look: "pe_lookup R = Some look" by blast
  note body = assms [unfolded resolve_pack_def p look bindE_simps option.case Let_def]
  from body obtain v1 v2 v3 v4 budget approval where
    parts: "check_requested_policy (pq_policy q) p = Inr ()"
      "add_validators look [] (map ru_validator (pk_rules p)) = Inr v1"
      "add_validators look v1 mandatory_validators = Inr v2"
      "add_validators look v2 (pq_validators q) = Inr v3"
      "(if pk_require_reindex p then add_validator look v3 reindex_validator else Inr v3) = Inr v4"
      "\<not> len (sort_by validator_before v4) > vb_validators (pb_validation (pk_budget p))"
      "tighten_budget (pk_budget p) (pq_budget q) = Inr budget"
      "effective_approval (pk_approval p) (pq_approval_mode q) (pq_operation q) (pq_operation_types q) = Inr approval"
      "approval \<noteq> ''denied''"
    and x: "Inr (with_resolution_hash R
      \<lparr>rs_workspace = pq_workspace q, rs_selected = True, rs_ref = Some ((pack_ref p)\<lparr>pr_schema_version := 1\<rparr>),
       rs_snapshot = Some p, rs_validators = sort_by validator_before v4, rs_budget = budget,
       rs_approval_mode = approval, rs_require_reindex = (pk_require_reindex p \<or> pq_require_reindex q),
       rs_require_task_fence = True, rs_hash = []\<rparr>) = (Inr x :: policy_error + policy_resolution)"
    by (elim bindE_InrE if_InlE) (rule that; (assumption | simp))
  from x have "rs_workspace x = pq_workspace q" "rs_selected x" "rs_snapshot x = Some p"
    "rs_validators x = sort_by validator_before v4" "rs_budget x = budget" "rs_approval_mode x = approval"
    "rs_require_task_fence x"
    unfolding with_resolution_hash_def by auto
  with parts show ?thesis by (intro that [OF p _ look]) (simp_all only: not_less not_False_eq_True)
qed

lemma normalize_evaluation_Inr:
  assumes "normalize_evaluation q0 = Inr q"
  shows "to_lower (trim_space (pq_approval_mode q)) = pq_approval_mode q" and "pq_budget q = pq_budget q0"
    and "mset (pq_validators q) = mset (map trim_ref (pq_validators q0))"
    and "pq_approval_mode q = to_lower (trim_space (pq_approval_mode q0))"
    and "trim_space (pq_workspace q) = pq_workspace q"
    and "pq_operation q = trim_space (pq_operation q0)"
    and "pq_workspace q = trim_space (pq_workspace q0)"
proof -
  from assms obtain vs where vs: "normalize_requested_validators (pq_validators q0) = Inr vs"
    and "pq_validators q = sort_by validator_before vs"
    and q: "pq_budget q = pq_budget q0" "pq_approval_mode q = to_lower (trim_space (pq_approval_mode q0))"
      "pq_workspace q = trim_space (pq_workspace q0)" "pq_operation q = trim_space (pq_operation q0)"
    unfolding normalize_evaluation_def Let_def by (elim if_InlE bindE_InrE) (rule that, assumption, auto)
  moreover have "vs = map trim_ref (pq_validators q0)"
    using vs by (auto simp: normalize_requested_validators_def check_refs_Inr if_cases_Inr)
  ultimately show "mset (pq_validators q) = mset (map trim_ref (pq_validators q0))" by simp
  show "to_lower (trim_space (pq_approval_mode q)) = pq_approval_mode q" "pq_budget q = pq_budget q0"
    "pq_approval_mode q = to_lower (trim_space (pq_approval_mode q0))" "trim_space (pq_workspace q) = pq_workspace q"
    "pq_operation q = trim_space (pq_operation q0)" "pq_workspace q = trim_space (pq_workspace q0)"
    using q by simp_all
qed

text \<open>
  C24: A resolution never widens its policy.  Whatever a caller requests, the budget of the
  resolution stays within the normalised pack's in every dimension; its approval mode is at
  least as strict as the pack's and as the requested one, is raised to \<open>required\<close> when an
  automatic pack names a scope of the operation, and is never \<open>denied\<close>; and the task fence is
  always required.
\<close>

theorem resolution_never_widens:
  assumes "resolve_policy R (Some pack) q0 = Inr x"
  shows "\<exists>p q. normalize_pack (pe_sha R) pack = Inr p \<and> normalize_evaluation q0 = Inr q \<and>
    rs_snapshot x = Some p \<and> rs_workspace x = pq_workspace q \<and> rs_require_task_fence x \<and>
    budget_within (rs_budget x) (pk_budget p) \<and> rs_budget x = apply_requested (pk_budget p) (pq_budget q) \<and>
    approval_rank (rs_approval_mode x) = max (max (approval_rank (pa_mode (pk_approval p)))
        (approval_rank (pq_approval_mode q)))
      (if pa_mode (pk_approval p) = ''automatic'' \<and>
          approval_required_for (pa_require_for (pk_approval p)) (pq_operation q) (pq_operation_types q) then 1 else 0) \<and>
    approval_rank (rs_approval_mode x) < 2"
proof -
  from assms obtain q where q: "normalize_evaluation q0 = Inr q" and body: "resolve_pack R pack q = Inr x"
    unfolding resolve_policy_def by (auto elim: bindE_InrE)
  from body obtain p budget approval where p: "validate_pack R pack = Inr p"
    and budget: "tighten_budget (pk_budget p) (pq_budget q) = Inr budget"
    and approval: "effective_approval (pk_approval p) (pq_approval_mode q) (pq_operation q) (pq_operation_types q) = Inr approval"
    and neq: "approval \<noteq> ''denied''" and x: "rs_workspace x = pq_workspace q" "rs_snapshot x = Some p"
      "rs_budget x = budget" "rs_approval_mode x = approval" "rs_require_task_fence x"
    by (rule resolve_pack_Inr)
  have norm: "normalize_pack (pe_sha R) pack = Inr p" using p by (simp add: validate_pack_Inr)
  then have mode: "pa_mode (pk_approval p) \<in> set approval_modes"
    by (elim normalize_pack_Inr) (auto simp: pack_body_def dest: normalize_approval_parts(1))
  note rank = effective_approval_rank [OF approval mode normalize_evaluation_Inr(1) [OF q]]
  have "approval_rank approval < 2" using neq by (simp add: approval_rank_def)
  with norm q x rank(1) apply_requested_within [OF budget] show ?thesis by metis
qed

text \<open>
  C25: Mandatory checks cannot be left out.  The validators of a resolution under a policy are
  strictly sorted, all registered with the process, contain every rule's validator, the four
  built-in change validators and, when the pack demands it, the re-index validator, and answer
  every requested reference; nothing else is added, and there are no more than the pack allows.
\<close>

theorem resolution_validators:
  assumes "resolve_policy R (Some pack) q0 = Inr x"
  shows "\<exists>p look. normalize_pack (pe_sha R) pack = Inr p \<and> pe_lookup R = Some look \<and>
    sorted_wrt validator_before (rs_validators x) \<and> list_all look (rs_validators x) \<and>
    ru_validator ` set (pk_rules p) \<union> set mandatory_validators \<subseteq> set (rs_validators x) \<and>
    (\<not> pk_require_reindex p \<or> reindex_validator \<in> set (rs_validators x)) \<and>
    ref_key ` trim_ref ` set (pq_validators q0) \<subseteq> ref_key ` set (rs_validators x) \<and>
    set (rs_validators x) \<subseteq> ru_validator ` set (pk_rules p) \<union> set default_validator_refs \<union>
      trim_ref ` set (pq_validators q0) \<and>
    len (rs_validators x) \<le> vb_validators (pb_validation (pk_budget p))"
proof -
  from assms obtain q where q: "normalize_evaluation q0 = Inr q" and body: "resolve_pack R pack q = Inr x"
    unfolding resolve_policy_def by (auto elim: bindE_InrE)
  from body obtain p look v1 v2 v3 v4 where p: "validate_pack R pack = Inr p" and look: "pe_lookup R = Some look"
    and a1: "add_validators look [] (map ru_validator (pk_rules p)) = Inr v1"
    and a2: "add_validators look v1 mandatory_validators = Inr v2"
    and a3: "add_validators look v2 (pq_validators q) = Inr v3"
    and a4: "(if pk_require_reindex p then add_validator look v3 reindex_validator else Inr v3) = Inr v4"
    and size: "len (sort_by validator_before v4) \<le> vb_validators (pb_validation (pk_budget p))"
    and x: "rs_validators x = sort_by validator_before v4"
    by (rule resolve_pack_Inr)
  have norm: "normalize_pack (pe_sha R) pack = Inr p" using p by (simp add: validate_pack_Inr)
  have rules: "rules_ok (pk_rules p)"
    using norm by (elim normalize_pack_Inr) (auto simp: pack_body_def dest: normalize_rules_fix(2))
  have trimmed: "trim_ref ` ru_validator ` set (pk_rules p) = ru_validator ` set (pk_rules p)"
    using rules by (force simp: rules_ok_def ref_ok_def list_all_iff)
  have requested: "trim_ref ` set (pq_validators q) = trim_ref ` set (pq_validators q0)"
    using arg_cong [OF normalize_evaluation_Inr(3) [OF q], of set_mset] by (auto simp: image_image)
  have fixed: "trim_ref ` set mandatory_validators = set mandatory_validators" "trim_ref reindex_validator = reindex_validator"
    "set mandatory_validators \<union> {reindex_validator} = set default_validator_refs"
    "\<forall>v \<in> set default_validator_refs. CHR 0x00 \<notin> set (vr_id v) \<and> CHR 0x00 \<notin> set (vr_version v)"
    "\<forall>v \<in> set mandatory_validators. trim_ref v = v"
    by code_simp+
  have "add_validators look v3 (if pk_require_reindex p then [reindex_validator] else []) = Inr v4"
    using a4 by (simp add: bindE_def split: if_splits)
  note a4' = this
  have s1: "distinct (map ref_key v1) \<and> list_all look v1 \<and> set v1 \<subseteq> ru_validator ` set (pk_rules p) \<and>
      (\<forall>u \<in> set (pk_rules p). ref_key (trim_ref (ru_validator u)) \<in> ref_key ` set v1)"
    using add_validators_Inr [OF a1] trimmed by simp
  then have s2: "distinct (map ref_key v2) \<and> list_all look v2 \<and> set v1 \<subseteq> set v2 \<and>
      set v2 \<subseteq> set v1 \<union> set mandatory_validators \<and> (\<forall>u \<in> set mandatory_validators. ref_key u \<in> ref_key ` set v2)"
    using add_validators_Inr [OF a2] fixed(1,5) by auto
  then have s3: "distinct (map ref_key v3) \<and> list_all look v3 \<and> set v2 \<subseteq> set v3 \<and>
      set v3 \<subseteq> set v2 \<union> trim_ref ` set (pq_validators q0) \<and>
      ref_key ` trim_ref ` set (pq_validators q) \<subseteq> ref_key ` set v3"
    using add_validators_Inr [OF a3] unfolding requested [symmetric] by (simp add: image_subset_iff)
  then have s4: "distinct (map ref_key v4) \<and> list_all look v4 \<and> set v3 \<subseteq> set v4 \<and>
      set v4 \<subseteq> insert reindex_validator (set v3) \<and> (\<not> pk_require_reindex p \<or> ref_key reindex_validator \<in> ref_key ` set v4)"
    using add_validators_Inr [OF a4'] fixed(2) by (cases "pk_require_reindex p") (simp_all add: subset_insertI2)
  have distinct: "distinct (map ref_key v4)" and all: "list_all look v4" using s4 by simp_all
  have steps: "set v1 \<subseteq> set v2" "set v2 \<subseteq> set v3" "set v3 \<subseteq> set v4" using s2 s3 s4 by simp_all
  have chain: "set v1 \<subseteq> set v4" "set v2 \<subseteq> set v4" "set v3 \<subseteq> set v4" using steps by simp_all
  have above: "set v1 \<subseteq> ru_validator ` set (pk_rules p)" "set v2 \<subseteq> set v1 \<union> set mandatory_validators"
    "set v3 \<subseteq> set v2 \<union> trim_ref ` set (pq_validators q0)" "set v4 \<subseteq> insert reindex_validator (set v3)"
    using s1 s2 s3 s4 by simp_all
  have covers: "\<forall>u \<in> set (pk_rules p). ref_key (trim_ref (ru_validator u)) \<in> ref_key ` set v1"
    "\<forall>u \<in> set mandatory_validators. ref_key u \<in> ref_key ` set v2"
    "ref_key ` trim_ref ` set (pq_validators q) \<subseteq> ref_key ` set v3"
    "\<not> pk_require_reindex p \<or> ref_key reindex_validator \<in> ref_key ` set v4"
    using s1 s2 s3 s4 by simp_all
  have "u \<in> set v4" if "u \<in> ru_validator ` set (pk_rules p)" for u
  proof -
    from that obtain r where r: "r \<in> set (pk_rules p)" "u = ru_validator r" by blast
    with rules have "trim_ref u = u" by (auto simp: rules_ok_def ref_ok_def list_all_iff)
    moreover have "ref_key (trim_ref (ru_validator r)) \<in> ref_key ` set v1" using covers(1) r(1) by blast
    ultimately obtain w where "w \<in> set v1" and key: "ref_key w = ref_key u" using r(2) by auto
    then have "w \<in> ru_validator ` set (pk_rules p)" using above(1) by blast
    with that key rules have "w = u"
      unfolding rules_ok_def distinct_map inj_on_def by (metis list.set_map)
    with \<open>w \<in> set v1\<close> chain(1) show ?thesis by blast
  qed
  moreover have exact: "v \<in> set v4" if "v \<in> set default_validator_refs" "ref_key v \<in> ref_key ` set v4" for v
    using that fixed(4) ref_key_exact by (metis image_iff)
  have "v \<in> set v4" if "v \<in> set mandatory_validators" for v
  proof (rule exact)
    show "v \<in> set default_validator_refs" using that fixed(3) by blast
    show "ref_key v \<in> ref_key ` set v4" using that covers(2) chain(2) by blast
  qed
  moreover have "\<not> pk_require_reindex p \<or> reindex_validator \<in> set v4"
    using covers(4) fixed(3) exact [of reindex_validator] by blast
  moreover have "ref_key ` trim_ref ` set (pq_validators q0) \<subseteq> ref_key ` set v4"
    using covers(3) chain(3) unfolding requested by blast
  moreover have "set v4 \<subseteq> ru_validator ` set (pk_rules p) \<union> set default_validator_refs \<union> trim_ref ` set (pq_validators q0)"
    using above fixed(3) by blast
  ultimately show ?thesis
    using norm look size all sorted_validators [OF distinct] by (auto simp: x list_all_iff)
qed

text \<open>
  C40: Stored packs are canonical.  Normalising a pack a second time changes nothing, its hash
  included, so the admission that re-validates a stored pack accepts it; and packs that list the
  same rules in another order have the same normal form and hash.
\<close>

theorem policy_pack_canonical:
  assumes "normalize_pack sha p = Inr q" and "\<And>s. valid_sha256 (sha s)" and "mset rules = mset (pk_rules p)"
  shows "normalize_pack sha q = Inr q \<and> normalize_pack sha (p\<lparr>pk_rules := rules\<rparr>) = Inr q \<and>
    compute_policy_hash sha q = pk_policy_hash q"
proof (intro conjI)
  show "normalize_pack sha q = Inr q" by (rule normalize_pack_fix) (use assms in simp_all)
  show "compute_policy_hash sha q = pk_policy_hash q" by (rule normalize_pack_hash) (rule assms(1))
  from assms(1) obtain budget approval qs where head: "if_zero 1 (pk_schema_version p) = 1"
      "trim_space (pk_workspace p) \<noteq> []" "trim_space (pk_policy_id p) \<noteq> []" "trim_space (pk_version p) \<noteq> []"
      "len (trim_space (pk_policy_id p)) \<le> max_policy_id_length"
      "len (trim_space (pk_version p)) \<le> max_policy_version_length" "len (pk_rules p) \<le> 64"
      "normalize_policy_budget (pk_budget p) = Inr budget" "normalize_approval_config (pk_approval p) = Inr approval"
    and rules: "normalize_rules (pk_rules p) = Inr qs"
    and tail: "to_lower (trim_space (pk_policy_hash p)) = [] \<or>
        to_lower (trim_space (pk_policy_hash p)) = compute_policy_hash sha (pack_body p budget approval qs)"
      "q = (pack_body p budget approval qs)\<lparr>pk_policy_hash := compute_policy_hash sha (pack_body p budget approval qs)\<rparr>"
      "len (policy_document q) \<le> max_policy_document_bytes"
    by (elim normalize_pack_Inr)
  have same: "pack_body (p\<lparr>pk_rules := rules\<rparr>) budget approval qs = pack_body p budget approval qs"
    by (simp add: pack_body_def)
  have "length rules = length (pk_rules p)" using assms(3) by (metis size_mset)
  then show "normalize_pack sha (p\<lparr>pk_rules := rules\<rparr>) = Inr q"
    using head tail normalize_rules_mset [OF rules assms(3)]
    by (intro normalize_pack_intro [where budget = budget and approval = approval and rules = qs])
      (simp_all add: same len_def)
qed

section \<open>A sample policy\<close>

definition sample_sha :: "string \<Rightarrow> string" where
  "sample_sha s = replicate 64 (CHR ''a'')"

definition sample_engine :: policy_engine where
  "sample_engine = \<lparr>pe_lookup = Some (\<lambda>v. vr_version v = ''1''), pe_sha = sample_sha, pe_digest = (\<lambda>_. ''r'')\<rparr>"

definition sample_pack :: policy_pack where
  "sample_pack = \<lparr>pk_schema_version = 0, pk_workspace = '' w'', pk_policy_id = ''p'', pk_version = ''2'', pk_policy_hash = [],
    pk_rules = [\<lparr>ru_validator = \<lparr>vr_id = ''lint '', vr_version = ''1''\<rparr>, ru_required = True\<rparr>,
                \<lparr>ru_validator = \<lparr>vr_id = ''change.tree'', vr_version = ''1''\<rparr>, ru_required = True\<rparr>],
    pk_budget = \<lparr>pb_change = \<lparr>cb_operations = 4, cb_file_bytes = 0, cb_total_bytes = 0\<rparr>,
      pb_validation = \<lparr>vb_validators = 0, vb_files = 0, vb_bytes = 0, vb_output_bytes = 0, vb_wall_ms = 0,
        vb_sql_queries = 0, vb_retries = 0, vb_report_bytes = 0\<rparr>\<rparr>,
    pk_approval = \<lparr>pa_mode = '' Automatic'', pa_require_for = [''delete_file'', ''apply'', ''apply'']\<rparr>,
    pk_require_reindex = True, pk_require_task_fence = False,
    pk_floors = all_floors\<lparr>sf_replay_safety := False\<rparr>\<rparr>"

definition sample_evaluation :: policy_evaluation where
  "sample_evaluation = \<lparr>pq_schema_version = 0, pq_workspace = ''w '', pq_policy = None,
    pq_validators = [\<lparr>vr_id = ''spell'', vr_version = ''1''\<rparr>],
    pq_budget = \<lparr>pb_change = \<lparr>cb_operations = 2, cb_file_bytes = 0, cb_total_bytes = 0\<rparr>,
      pb_validation = \<lparr>vb_validators = 0, vb_files = 0, vb_bytes = 0, vb_output_bytes = 0, vb_wall_ms = 0,
        vb_sql_queries = 0, vb_retries = 1, vb_report_bytes = 0\<rparr>\<rparr>,
    pq_approval_mode = ''automatic'', pq_operation = ''apply'', pq_operation_types = [], pq_require_reindex = False,
    pq_require_task_fence = False, pq_actor = no_actor, pq_request_id = [], pq_idempotency = [],
    pq_causation = [], pq_correlation = []\<rparr>"

definition sample_normal_pack :: policy_pack where
  "sample_normal_pack = (case normalize_pack sample_sha sample_pack of Inr p \<Rightarrow> p | Inl _ \<Rightarrow> sample_pack)"

definition sample_resolution :: "policy_error + policy_resolution" where
  "sample_resolution = resolve_policy sample_engine (Some sample_pack) sample_evaluation"

lemma sample_pack_normal: "normalize_pack sample_sha sample_pack = Inr sample_normal_pack"
  by code_simp

lemma sample_sha_valid: "valid_sha256 (sample_sha s)"
proof -
  have "valid_sha256 (replicate 64 (CHR ''a''))" by code_simp
  then show ?thesis by (simp only: sample_sha_def)
qed

text \<open>The scope raises the automatic pack to required approval and the caller narrows two limits.\<close>

lemma sample_resolves:
  "case sample_resolution of Inl _ \<Rightarrow> False | Inr x \<Rightarrow>
    rs_approval_mode x = ''required'' \<and> cb_operations (pb_change (rs_budget x)) = 2 \<and>
    vb_retries (pb_validation (rs_budget x)) = 1 \<and>
    map vr_id (rs_validators x) =
      [''change.files'', ''change.preconditions'', ''change.reindex'', ''change.safety'', ''change.tree'', ''lint'', ''spell'']"
  by code_simp

lemma sample_resolution_Inr:
  obtains x where "sample_resolution = Inr x"
proof -
  have "\<not> isl sample_resolution" by code_simp
  then obtain x where "sample_resolution = Inr x" by (metis isl_def sum.exhaust)
  then show ?thesis by (rule that)
qed

theorem policy_pack_canonical_witness:
  "normalize_pack sample_sha sample_normal_pack = Inr sample_normal_pack \<and>
    normalize_pack sample_sha (sample_pack\<lparr>pk_rules := rev (pk_rules sample_pack)\<rparr>) = Inr sample_normal_pack \<and>
    compute_policy_hash sample_sha sample_normal_pack = pk_policy_hash sample_normal_pack"
  by (rule policy_pack_canonical [OF sample_pack_normal]) (simp_all add: sample_sha_valid)

theorem resolution_never_widens_witness:
  "\<exists>x p q. sample_resolution = Inr x \<and> normalize_pack sample_sha sample_pack = Inr p \<and>
    normalize_evaluation sample_evaluation = Inr q \<and> budget_within (rs_budget x) (pk_budget p) \<and>
    approval_rank (rs_approval_mode x) < 2"
proof -
  obtain x where x: "sample_resolution = Inr x" by (rule sample_resolution_Inr)
  from resolution_never_widens [OF x [unfolded sample_resolution_def]] show ?thesis
    using x by (auto simp: sample_engine_def)
qed

theorem resolution_validators_witness:
  "\<exists>x. sample_resolution = Inr x \<and> sorted_wrt validator_before (rs_validators x) \<and>
    set mandatory_validators \<subseteq> set (rs_validators x)"
proof -
  obtain x where x: "sample_resolution = Inr x" by (rule sample_resolution_Inr)
  have "sorted_wrt validator_before (rs_validators x)" and "set mandatory_validators \<subseteq> set (rs_validators x)"
    using resolution_validators [OF x [unfolded sample_resolution_def]]
    by (elim exE conjE, simp only: Un_subset_iff)+
  with x show ?thesis by (intro exI conjI) simp_all
qed

end
