(* ===== verification/Policy_Lifecycle.thy ===== *)
theory Policy_Lifecycle
  imports Policy_Store Policy_Admission "HOL-Library.Sublist"
begin

text \<open>
  The policy authority over any sequence of its operations: rows stay well-typed and at most one
  version of a policy is active, bodies and history are never rewritten, and only an active
  version admits work.
\<close>

section \<open>Steps\<close>

datatype policy_call = CreatePolicy policy_create | MovePolicy policy_operation policy_lifecycle

definition policy_step :: "'x policy_env \<Rightarrow> policy_in \<times> policy_call \<Rightarrow> ('x, 'z) policy_db_scheme \<Rightarrow> ('x, 'z) policy_db_scheme" where
  "policy_step E = (\<lambda>(i, c) db. case c of
      CreatePolicy q \<Rightarrow> snd (create_policy E i q db)
    | MovePolicy k q \<Rightarrow> snd (lifecycle E i k q db))"

text \<open>A state component that every operation keeps or extends keeps or extends over every run.\<close>

locale ordered_steps =
  fixes step :: "'i \<Rightarrow> 's \<Rightarrow> 's" and le :: "'s \<Rightarrow> 's \<Rightarrow> bool" and ok :: "'s \<Rightarrow> bool"
  assumes le_refl: "le s s"
    and le_trans: "le s t \<Longrightarrow> le t u \<Longrightarrow> le s u"
    and step_ok: "ok s \<Longrightarrow> ok (step i s)"
    and step_le: "ok s \<Longrightarrow> le s (step i s)"
begin

lemma run_ok: "ok s \<Longrightarrow> ok (fold step is s)"
  by (induction "is" arbitrary: s) (simp_all add: step_ok)

lemma run_le: "ok s \<Longrightarrow> le s (fold step is s)"
proof (induction "is" arbitrary: s)
  case (Cons i "is")
  then have "le (step i s) (fold step is (step i s))" by (simp add: step_ok)
  with Cons.prems show ?case using le_trans [OF step_le] by simp
qed (simp add: le_refl)

end

section \<open>What a transaction does to the tables\<close>

definition same_policy_tables :: "('x, 'z) policy_db_scheme \<Rightarrow> ('x, 'y) policy_db_scheme \<Rightarrow> bool" where
  "same_policy_tables db db' \<longleftrightarrow> policy_versions db' = policy_versions db \<and> policy_defaults db' = policy_defaults db \<and>
    policy_identities db' = policy_identities db \<and> policy_transitions db' = policy_transitions db \<and>
    policy_audits db' = policy_audits db \<and> policy_rule_rows db' = policy_rule_rows db \<and>
    policy_idempotency db' = policy_idempotency db"

lemma append_policy_event_frame:
  assumes "append_policy_event E i etype payload ws actor v rid key db = Inr db'"
  shows "same_policy_tables db db'"
  using assms by (auto simp: append_policy_event_def same_policy_tables_def results Let_def elim!: append_tx_Inr)

lemma read_policy_version_Inr:
  "read_policy_version_tx ws pid ver db = Inr v \<longleftrightarrow>
    (\<exists>w. find (\<lambda>v. version_key v = (ws, pid, ver)) (policy_versions db) = Some w \<and>
      v = w\<lparr>vw_pack := (vw_pack w)\<lparr>pk_policy_hash := vw_hash w\<rparr>\<rparr>)"
  by (auto simp: read_policy_version_tx_def split: option.splits)

lemma read_policy_version_row:
  assumes "read_policy_version_tx ws pid ver db = Inr v"
  shows "version_key v = (ws, pid, ver)"
    and "\<exists>w \<in> set (policy_versions db). version_key w = (ws, pid, ver) \<and> vw_status w = vw_status v \<and>
      vw_hash w = vw_hash v \<and> vw_actor w = vw_actor v \<and> vw_pack v = (vw_pack w)\<lparr>pk_policy_hash := vw_hash w\<rparr>"
  using assms by (auto simp: read_policy_version_Inr find_Some_iff version_key_def dest: nth_mem)

lemma update_versions_frame [simp]:
  "policy_defaults (update_versions P f db) = policy_defaults db"
  "policy_identities (update_versions P f db) = policy_identities db"
  "policy_transitions (update_versions P f db) = policy_transitions db"
  "policy_audits (update_versions P f db) = policy_audits db"
  "policy_rule_rows (update_versions P f db) = policy_rule_rows db"
  "policy_idempotency (update_versions P f db) = policy_idempotency db"
  by (simp_all add: update_versions_def)

text \<open>The effect of a successful creation, and of a successful transition.\<close>

lemma normalize_pack_ids:
  assumes "normalize_pack sha p = Inr q"
  shows "pk_workspace q = trim_space (pk_workspace p)"
  using assms by (elim normalize_pack_Inr) (simp add: pack_body_def)

lemma normalize_pack_identity:
  assumes "normalize_pack sha p = Inr q"
  shows "pk_schema_version q = 1" "trim_space (pk_workspace q) = pk_workspace q" "pk_workspace q \<noteq> []"
    "trim_space (pk_policy_id q) = pk_policy_id q" "pk_policy_id q \<noteq> []" "len (pk_policy_id q) \<le> max_policy_id_length"
    "trim_space (pk_version q) = pk_version q" "pk_version q \<noteq> []" "len (pk_version q) \<le> max_policy_version_length"
    "\<exists>s. pk_policy_hash q = sha s"
  using assms by (elim normalize_pack_Inr; auto simp add: pack_body_def compute_policy_hash_def)+

lemma create_policy_Inr:
  assumes "create_policy_tx E i q0 db = Inr ((w, fresh), db')"
  obtains (replayed) "\<not> fresh" and "db' = db"
  | (created) q pack v where "fresh" and "validate_pack (le_engine E) (pn_pack q) = Inr pack"
      and "v = new_version i (q\<lparr>pn_pack := pack\<rparr>)" and "pn_workspace q = pk_workspace pack"
      and "normalize_policy_create (pe_sha (le_engine E)) (ly_request_id i) q0 = Inr q"
      and "\<forall>u \<in> set (policy_versions db). version_key u \<noteq> version_key v"
      and "policy_versions db' = policy_versions db @ [v]" and "policy_defaults db' = policy_defaults db"
      and "policy_identities db' = List.insert (vw_workspace v, vw_policy_id v) (policy_identities db)"
      and "\<exists>t. policy_transitions db' = policy_transitions db @ [t]"
      and "\<exists>a. policy_audits db' = policy_audits db @ [a]"
      and "policy_rule_rows db' = policy_rule_rows db @ rule_rows v"
      and "\<exists>r. policy_idempotency db (pn_workspace q, pn_idempotency q) = None \<and>
        policy_idempotency db' = (policy_idempotency db)((pn_workspace q, pn_idempotency q) \<mapsto> r)"
proof -
  from assms obtain q pack where q: "normalize_policy_create (pe_sha (le_engine E)) (ly_request_id i) q0 = Inr q"
    and pack: "validate_pack (le_engine E) (pn_pack q) = Inr pack"
    by (auto simp: create_policy_tx_def results if_cases_Inr)
  define q1 where "q1 = q\<lparr>pn_pack := pack\<rparr>"
  define key where "key = (pn_workspace q1, pn_idempotency q1)"
  define row where "row = \<lparr>pi_hash = le_create_hash E (policy_create_content q1), pi_operation = ''create'',
    pi_policy_id = pk_policy_id pack, pi_version = pk_version pack, pi_policy_hash = pk_policy_hash pack\<rparr>"
  note tx = assms [unfolded create_policy_tx_def q pack liftE_simps bindE_simps Let_def,
    folded q1_def, folded key_def, folded row_def]
  show ?thesis
  proof (cases "policy_idempotency db key")
    case (Some r)
    with tx show ?thesis
      by (intro replayed) (auto simp: results if_cases_Inr insert_new_def split: option.splits)
  next
    case None
    then have ins: "insert_policy_tx E i q1 (db\<lparr>policy_idempotency := (policy_idempotency db)(key \<mapsto> row)\<rparr>) = Inr ((w, fresh), db')"
      using tx by (auto simp: if_cases_Inr)
    have "pn_workspace q = pk_workspace (pn_pack q) \<and> trim_space (pn_workspace q) = pn_workspace q"
      using q unfolding normalize_policy_create_def Let_def
      by (elim if_InlE bindE_InrE) (auto dest!: normalize_pack_ids)
    then have ws: "pn_workspace q = pk_workspace pack"
      using pack by (auto simp: validate_pack_Inr dest!: normalize_pack_ids)
    note body = ins [unfolded insert_policy_tx_def Let_def]
    then have fresh: "\<forall>u \<in> set (policy_versions db). version_key u \<noteq> version_key (new_version i q1)"
      by (elim if_InlE) (auto simp: find_None_iff)
    let ?v = "new_version i q1"
    have "\<exists>t a. same_policy_tables (db\<lparr>policy_idempotency := (policy_idempotency db)(key \<mapsto> row),
        policy_identities := List.insert (vw_workspace ?v, vw_policy_id ?v) (policy_identities db),
        policy_versions := policy_versions db @ [?v], policy_rule_rows := policy_rule_rows db @ rule_rows ?v,
        policy_transitions := policy_transitions db @ [t], policy_audits := policy_audits db @ [a]\<rparr>) db'"
      using body by (elim if_InlE bindE_InrE) (drule append_policy_event_frame, simp, intro exI, (elim conjE)?, assumption)
    then obtain t a where effect: "same_policy_tables (db\<lparr>policy_idempotency := (policy_idempotency db)(key \<mapsto> row),
        policy_identities := List.insert (vw_workspace ?v, vw_policy_id ?v) (policy_identities db),
        policy_versions := policy_versions db @ [?v], policy_rule_rows := policy_rule_rows db @ rule_rows ?v,
        policy_transitions := policy_transitions db @ [t], policy_audits := policy_audits db @ [a]\<rparr>) db'" by blast
    have "fresh" using body by (elim if_InlE bindE_InrE) simp
    show ?thesis
    proof (rule created [of q pack "new_version i q1"])
      show "\<exists>r. policy_idempotency db (pn_workspace q, pn_idempotency q) = None \<and>
          policy_idempotency db' = (policy_idempotency db)((pn_workspace q, pn_idempotency q) \<mapsto> r)"
        using effect None by (auto simp: same_policy_tables_def key_def q1_def)
    qed (use effect \<open>fresh\<close> q pack ws fresh in \<open>simp_all add: same_policy_tables_def q1_def\<close>)
  qed
qed

lemma lifecycle_Inr:
  assumes "lifecycle_tx E i k q0 db = Inr ((w, dup), db')"
  obtains (replayed) "dup" and "db' = db"
  | (moved) q v status db1 row t a where "\<not> dup" and "normalize_lifecycle (ly_request_id i) q0 = Inr q"
      and "policy_idempotency db (pg_workspace q, pg_idempotency q) = None"
      and "read_policy_version_tx (pg_workspace q) (pr_policy_id (pg_policy q)) (pr_version (pg_policy q)) db = Inr v"
      and "change_status i k v (pg_actor q)
        (db\<lparr>policy_idempotency := (policy_idempotency db)((pg_workspace q, pg_idempotency q) \<mapsto> row)\<rparr>) = Inr (status, db1)"
      and "same_policy_tables (db1\<lparr>policy_transitions := policy_transitions db1 @ [t],
        policy_audits := policy_audits db1 @ [a]\<rparr>) db'"
proof -
  from assms obtain q where q: "normalize_lifecycle (ly_request_id i) q0 = Inr q"
    by (auto simp: lifecycle_tx_def results)
  define key where "key = (pg_workspace q, pg_idempotency q)"
  define row where "row = \<lparr>pi_hash = le_lifecycle_hash E (lifecycle_content q), pi_operation = operation_name k,
    pi_policy_id = pr_policy_id (pg_policy q), pi_version = pr_version (pg_policy q),
    pi_policy_hash = pr_policy_hash (pg_policy q)\<rparr>"
  note tx = assms [unfolded lifecycle_tx_def q liftE_simps bindE_simps Let_def, folded key_def, folded row_def]
  show ?thesis
  proof (cases "policy_idempotency db key")
    case (Some r)
    with tx show ?thesis
      by (intro replayed) (auto simp: results insert_new_def split: option.splits)
  next
    case None
    let ?db = "db\<lparr>policy_idempotency := (policy_idempotency db)(key \<mapsto> row)\<rparr>"
    from tx None have body: "transition_policy_tx E i k q ?db = Inr ((w, dup), db')" by simp
    then have nodup: "\<not> dup"
      unfolding transition_policy_tx_def Let_def by (elim handler_elims) simp
    from body obtain v where v: "read_policy_version_tx (pg_workspace q) (pr_policy_id (pg_policy q))
        (pr_version (pg_policy q)) ?db = Inr v"
      unfolding transition_policy_tx_def Let_def by (elim if_InlE bindE_InrE)
    note rest = body [unfolded transition_policy_tx_def Let_def v bindE_simps]
    from rest obtain status db1 where change: "change_status i k v (pg_actor q) ?db = Inr (status, db1)"
      by (elim handler_elims)
    note rest = rest [unfolded change bindE_simps case_prod_conv]
    have "\<exists>t a. same_policy_tables (db1\<lparr>policy_transitions := policy_transitions db1 @ [t],
        policy_audits := policy_audits db1 @ [a]\<rparr>) db'"
      using rest by (elim if_InlE bindE_InrE)
        (drule append_policy_event_frame, simp, intro exI, (elim conjE)?, assumption)
    then obtain t a where "same_policy_tables (db1\<lparr>policy_transitions := policy_transitions db1 @ [t],
        policy_audits := policy_audits db1 @ [a]\<rparr>) db'" by blast
    moreover have "read_policy_version_tx (pg_workspace q) (pr_policy_id (pg_policy q)) (pr_version (pg_policy q)) db = Inr v"
      using v by (simp add: read_policy_version_tx_def)
    ultimately show ?thesis
      using None nodup q change unfolding key_def by (intro moved)
  qed
qed

section \<open>Well-typed rows\<close>

text \<open>
  A row's status is one of the three, its time stamps agree with it, and its body is a normalised
  pack of the same identity and hash.
\<close>

definition status_times_ok :: "policy_version \<Rightarrow> bool" where
  "status_times_ok v \<longleftrightarrow>
    vw_status v = ''draft'' \<and> vw_activated v = None \<and> vw_retired v = None \<or>
    vw_status v = ''active'' \<and> vw_activated v \<noteq> None \<and> vw_retired v = None \<or>
    vw_status v = ''retired'' \<and> vw_retired v \<noteq> None"

definition body_ok :: "(string \<Rightarrow> string) \<Rightarrow> policy_version \<Rightarrow> bool" where
  "body_ok sha v \<longleftrightarrow> normalize_pack sha (vw_pack v) = Inr (vw_pack v) \<and> pk_policy_hash (vw_pack v) = vw_hash v \<and>
    version_key v = (pk_workspace (vw_pack v), pk_policy_id (vw_pack v), pk_version (vw_pack v))"

definition version_body :: "policy_version \<Rightarrow> (string \<times> string \<times> string) \<times> string \<times> policy_pack \<times> actor_ref \<times> time" where
  "version_body v = (version_key v, vw_hash v, vw_pack v, vw_actor v, vw_created v)"

definition one_active :: "policy_version list \<Rightarrow> bool" where
  "one_active vs \<longleftrightarrow> (\<forall>v \<in> set vs. \<forall>w \<in> set vs. vw_status v = ''active'' \<longrightarrow> vw_status w = ''active'' \<longrightarrow>
    vw_workspace v = vw_workspace w \<longrightarrow> vw_policy_id v = vw_policy_id w \<longrightarrow> vw_version v = vw_version w)"

definition policy_db_wf :: "(string \<Rightarrow> string) \<Rightarrow> ('x, 'z) policy_db_scheme \<Rightarrow> bool" where
  "policy_db_wf sha db \<longleftrightarrow>
    distinct (map version_key (policy_versions db)) \<and>
    (\<forall>v \<in> set (policy_versions db). status_times_ok v \<and> body_ok sha v \<and>
      (vw_workspace v, vw_policy_id v) \<in> set (policy_identities db)) \<and>
    one_active (policy_versions db) \<and>
    (\<forall>ws d. policy_defaults db ws = Some d \<longrightarrow>
      (\<exists>v \<in> set (policy_versions db). version_key v = (ws, pd_policy_id d, pd_version d) \<and> vw_hash v = pd_hash d))"

lemma body_ok_cong: "version_body v = version_body w \<Longrightarrow> body_ok sha v = body_ok sha w"
  by (simp add: version_body_def body_ok_def)

lemma version_body_key: "version_body v = version_body w \<Longrightarrow> version_key v = version_key w"
  by (simp add: version_body_def)

text \<open>An update that keeps the bodies only has to establish the status facts.\<close>

lemma policy_db_wf_map:
  assumes wf: "policy_db_wf sha db" and vs: "policy_versions db' = map f (policy_versions db)"
    and body: "\<And>v. version_body (f v) = version_body v"
    and times: "\<And>v. status_times_ok v \<Longrightarrow> status_times_ok (f v)"
    and one: "one_active (map f (policy_versions db))"
    and ids: "policy_identities db' = policy_identities db"
    and defaults: "\<And>ws d. policy_defaults db' ws = Some d \<Longrightarrow> policy_defaults db ws = Some d \<or>
      (\<exists>v \<in> set (policy_versions db). version_key v = (ws, pd_policy_id d, pd_version d) \<and> vw_hash v = pd_hash d)"
  shows "policy_db_wf sha db'"
proof -
  have keys: "version_key (f v) = version_key v" "vw_hash (f v) = vw_hash v" for v
    using body [of v] by (simp_all add: version_body_def)
  then have ws: "vw_workspace (f v) = vw_workspace v" "vw_policy_id (f v) = vw_policy_id v" for v
    by (simp_all add: version_key_def)
  show ?thesis
    unfolding policy_db_wf_def vs ids
  proof (intro conjI allI impI)
    have "map version_key (map f (policy_versions db)) = map version_key (policy_versions db)" by (simp add: keys)
    then show "distinct (map version_key (map f (policy_versions db)))" using wf by (simp only: policy_db_wf_def)
    show "\<forall>v \<in> set (map f (policy_versions db)). status_times_ok v \<and> body_ok sha v \<and>
        (vw_workspace v, vw_policy_id v) \<in> set (policy_identities db)"
      using wf times body_ok_cong [OF body] by (simp add: policy_db_wf_def ws)
    show "one_active (map f (policy_versions db))" by (rule one)
    fix w d assume "policy_defaults db' w = Some d"
    then obtain v where "v \<in> set (policy_versions db)" "version_key v = (w, pd_policy_id d, pd_version d)" "vw_hash v = pd_hash d"
      using defaults wf unfolding policy_db_wf_def by blast
    then show "\<exists>v \<in> set (map f (policy_versions db)). version_key v = (w, pd_policy_id d, pd_version d) \<and> vw_hash v = pd_hash d"
      by (intro bexI [of _ "f v"]) (simp_all add: keys)
  qed
qed

definition activated :: "policy_in \<Rightarrow> policy_version \<Rightarrow> policy_version \<Rightarrow> policy_version" where
  "activated i v w =
    (if version_key w = version_key v
     then w\<lparr>vw_status := ''active'', vw_activated := coalesce (vw_activated w) (ly_clk i 2), vw_retired := None,
       vw_updated := ly_clk i 2\<rparr>
     else if vw_workspace w = vw_workspace v \<and> vw_policy_id w = vw_policy_id v \<and> vw_status w = ''active''
     then w\<lparr>vw_status := ''retired'', vw_retired := coalesce (vw_retired w) (ly_clk i 1), vw_updated := ly_clk i 1\<rparr>
     else w)"

definition retired :: "policy_in \<Rightarrow> policy_version \<Rightarrow> policy_version \<Rightarrow> policy_version" where
  "retired i v w =
    (if version_key w = version_key v
     then w\<lparr>vw_status := ''retired'', vw_retired := Some (ly_clk i 1), vw_updated := ly_clk i 1\<rparr> else w)"

lemma policy_tables_activate:
  "policy_versions (activate_version i v db) = map (activated i v) (policy_versions db)"
  "policy_defaults (activate_version i v db) = policy_defaults db"
  "policy_identities (activate_version i v db) = policy_identities db"
  by (auto simp: activate_version_def update_versions_def activated_def version_key_def)

lemma policy_tables_retire:
  "policy_versions (retire_version i v db) = map (retired i v) (policy_versions db)"
  "policy_identities (retire_version i v db) = policy_identities db"
  "policy_defaults (retire_version i v db) ws = Some d \<Longrightarrow> policy_defaults db ws = Some d"
  by (auto simp: retire_version_def update_versions_def retired_def Let_def split: option.splits if_splits)

lemma history_tables_moved:
  "policy_rule_rows (activate_version i v db) = policy_rule_rows db"
  "policy_transitions (activate_version i v db) = policy_transitions db"
  "policy_audits (activate_version i v db) = policy_audits db"
  "policy_idempotency (activate_version i v db) = policy_idempotency db"
  "policy_rule_rows (retire_version i v db) = policy_rule_rows db"
  "policy_transitions (retire_version i v db) = policy_transitions db"
  "policy_audits (retire_version i v db) = policy_audits db"
  "policy_idempotency (retire_version i v db) = policy_idempotency db"
  by (simp_all add: activate_version_def retire_version_def Let_def split: option.split)

lemma body_moved [simp]:
  "version_body (activated i v w) = version_body w" "version_body (retired i v w) = version_body w"
  by (simp_all add: version_body_def activated_def retired_def version_key_def)

lemma coalesce_Some [simp]: "coalesce x d \<noteq> None" "\<exists>y. coalesce x d = Some y"
  by (simp_all add: coalesce_def split: option.split)

lemma times_moved:
  "status_times_ok w \<Longrightarrow> status_times_ok (activated i v w)"
  "status_times_ok w \<Longrightarrow> status_times_ok (retired i v w)"
  by (simp_all add: status_times_ok_def activated_def retired_def)

lemma moved_identity [simp]:
  "vw_workspace (activated i v w) = vw_workspace w" "vw_policy_id (activated i v w) = vw_policy_id w"
  "vw_version (activated i v w) = vw_version w"
  by (simp_all add: activated_def)

lemma activated_active:
  "vw_status (activated i v w) = ''active'' \<longleftrightarrow> version_key w = version_key v \<or>
    vw_status w = ''active'' \<and> (vw_workspace w \<noteq> vw_workspace v \<or> vw_policy_id w \<noteq> vw_policy_id v)"
  by (auto simp: activated_def)

lemma one_active_activated:
  assumes "one_active vs"
  shows "one_active (map (activated i v) vs)"
  unfolding one_active_def list.set_map
proof (intro ballI impI; elim imageE; clarsimp simp: activated_active)
  fix w u
  assume "w \<in> set vs" "u \<in> set vs" "vw_workspace w = vw_workspace u" "vw_policy_id w = vw_policy_id u"
    and "version_key w = version_key v \<or> vw_status w = ''active'' \<and>
      (vw_workspace u = vw_workspace v \<longrightarrow> vw_policy_id u \<noteq> vw_policy_id v)"
    and "version_key u = version_key v \<or> vw_status u = ''active'' \<and>
      (vw_workspace u = vw_workspace v \<longrightarrow> vw_policy_id u \<noteq> vw_policy_id v)"
  with assms show "vw_version w = vw_version u"
    unfolding one_active_def version_key_def by auto
qed

lemma one_active_snoc:
  assumes "one_active vs" and "vw_status v \<noteq> ''active''"
  shows "one_active (vs @ [v])"
  unfolding one_active_def
proof (intro ballI impI)
  fix a b assume ab: "a \<in> set (vs @ [v])" "b \<in> set (vs @ [v])" and st: "vw_status a = ''active''" "vw_status b = ''active''"
    and same: "vw_workspace a = vw_workspace b" "vw_policy_id a = vw_policy_id b"
  have "a \<noteq> v" "b \<noteq> v" using st assms(2) by metis+
  with ab have "a \<in> set vs" "b \<in> set vs" by simp_all
  with assms(1) st same show "vw_version a = vw_version b" unfolding one_active_def by blast
qed

lemma retired_active:
  "vw_status (retired i v w) = ''active'' \<Longrightarrow> vw_status w = ''active''"
  by (simp add: retired_def split: if_splits)

lemma retired_identity [simp]:
  "vw_workspace (retired i v w) = vw_workspace w" "vw_policy_id (retired i v w) = vw_policy_id w"
  "vw_version (retired i v w) = vw_version w"
  by (simp_all add: retired_def)

lemma one_active_retired:
  assumes "one_active vs"
  shows "one_active (map (retired i v) vs)"
  unfolding one_active_def list.set_map
proof (intro ballI impI; elim imageE)
  fix w u w' u'
  assume st: "vw_status w = ''active''" "vw_status u = ''active''" and same: "vw_workspace w = vw_workspace u" "vw_policy_id w = vw_policy_id u"
    and eq: "w = retired i v w'" "u = retired i v u'" and mem: "w' \<in> set vs" "u' \<in> set vs"
  have "vw_status w' = ''active''" "vw_status u' = ''active''" using st retired_active unfolding eq by blast+
  moreover have "vw_workspace w' = vw_workspace u'" "vw_policy_id w' = vw_policy_id u'" using same by (simp_all add: eq)
  ultimately have "vw_version w' = vw_version u'" using assms mem unfolding one_active_def by blast
  then show "vw_version w = vw_version u" by (simp add: eq)
qed

lemma same_tables_wf: "same_policy_tables db db' \<Longrightarrow> policy_db_wf sha db' = policy_db_wf sha db"
  by (simp add: same_policy_tables_def policy_db_wf_def)

lemma same_tables_cong:
  "policy_versions db' = policy_versions db \<Longrightarrow> policy_defaults db' = policy_defaults db \<Longrightarrow>
    policy_identities db' = policy_identities db \<Longrightarrow> policy_db_wf sha db' = policy_db_wf sha db"
  by (simp add: policy_db_wf_def)

lemma change_status_Inr:
  assumes "change_status i k v actor db = Inr (status, db')"
  obtains (activate) "k = Activate" and "db' = activate_version i v db"
  | (bind) "k = SetDefault" and "db' = bind_default v actor db"
  | (retire) "k = Retire" and "db' = retire_version i v db"
  | (keep) "db' = db"
proof (cases k)
  case Activate
  with assms show ?thesis unfolding change_status_def by (intro activate) (auto elim: if_InlE)
next
  case SetDefault
  with assms show ?thesis unfolding change_status_def by (intro bind) (auto elim: if_InlE)
next
  case Retire
  show ?thesis
  proof (cases "vw_status v = ''draft'' \<or> vw_status v = ''active''")
    case True
    with assms Retire show ?thesis unfolding change_status_def by (intro retire) simp_all
  next
    case False
    then have "(if vw_status v \<noteq> ''retired'' then Inl ErrPolicyInvalidTransition else Inr (vw_status v, db)) =
        (Inr (status, db') :: policy_store_error + string \<times> ('a, 'b) policy_db_scheme)"
      using assms Retire unfolding change_status_def by (simp only: policy_operation.case if_False)
    then show ?thesis by (elim if_InlE) (rule keep, simp)
  qed
qed

lemma change_status_wf:
  assumes "change_status i k v actor db = Inr (status, db')" and wf: "policy_db_wf sha db"
    and v: "read_policy_version_tx ws pid ver db = Inr v"
  shows "policy_db_wf sha db'"
  using assms(1)
proof (cases rule: change_status_Inr)
  case activate
  have "one_active (policy_versions db)" using wf by (simp only: policy_db_wf_def)
  then show ?thesis
    unfolding activate(2)
    by (intro policy_db_wf_map [OF wf policy_tables_activate(1)])
      (simp_all only: times_moved one_active_activated policy_tables_activate body_moved simp_thms)
next
  case bind
  obtain w where w: "w \<in> set (policy_versions db)" "version_key w = (ws, pid, ver)" "vw_hash w = vw_hash v"
    using read_policy_version_row(2) [OF v] by blast
  have "version_key v = (ws, pid, ver)" by (rule read_policy_version_row(1)) (rule v)
  then have key: "vw_workspace v = ws" "vw_policy_id v = pid" "vw_version v = ver" by (auto simp: version_key_def)
  have one: "one_active (policy_versions db)" using wf by (simp only: policy_db_wf_def)
  show ?thesis
    unfolding bind(2)
  proof (rule policy_db_wf_map [OF wf, where f = id])
    fix u d assume d: "policy_defaults (bind_default v actor db) u = Some d"
    show "policy_defaults db u = Some d \<or>
        (\<exists>v \<in> set (policy_versions db). version_key v = (u, pd_policy_id d, pd_version d) \<and> vw_hash v = pd_hash d)"
    proof (cases "u = ws")
      case True
      with d key have "pd_policy_id d = pid" "pd_version d = ver" "pd_hash d = vw_hash v"
        by (auto simp: bind_default_def)
      with True w show ?thesis by (intro disjI2 bexI [of _ w]) simp_all
    next
      case False
      with d key show ?thesis by (simp add: bind_default_def)
    qed
  qed (use one in \<open>simp_all add: bind_default_def\<close>)
next
  case retire
  have "one_active (policy_versions db)" using wf by (simp only: policy_db_wf_def)
  then have one: "one_active (map (retired i v) (policy_versions db))" by (rule one_active_retired)
  show ?thesis
    unfolding retire(2)
  proof (rule policy_db_wf_map [OF wf policy_tables_retire(1) _ _ one])
    fix u d assume "policy_defaults (retire_version i v db) u = Some d"
    then show "policy_defaults db u = Some d \<or>
        (\<exists>v \<in> set (policy_versions db). version_key v = (u, pd_policy_id d, pd_version d) \<and> vw_hash v = pd_hash d)"
      by (rule disjI1 [OF policy_tables_retire(3)])
  qed (simp_all only: times_moved policy_tables_retire(2) body_moved)
qed (use wf in simp)

lemma create_wf:
  assumes "create_policy_tx E i q0 db = Inr ((w, fresh), db')" and wf: "policy_db_wf (pe_sha (le_engine E)) db"
    and sha: "policy_engine_ok (le_engine E)"
  shows "policy_db_wf (pe_sha (le_engine E)) db'"
  using assms(1)
proof (cases rule: create_policy_Inr)
  case replayed
  with wf show ?thesis by simp
next
  case (created q pack v)
  let ?sha = "pe_sha (le_engine E)"
  have "normalize_pack ?sha pack = Inr pack"
    using created(2) sha by (auto simp: validate_pack_Inr policy_engine_ok_def intro: normalize_pack_fix)
  then have body: "body_ok ?sha v"
    using created(4) by (simp add: body_ok_def created(3) new_version_def version_key_def)
  have "vw_status v = ''draft''" "vw_activated v = None" "vw_retired v = None" by (simp_all add: created(3) new_version_def)
  then have draft: "status_times_ok v" "vw_status v \<noteq> ''active''" by (simp_all add: status_times_ok_def)
  show ?thesis
    unfolding policy_db_wf_def created(7-9)
  proof (intro conjI allI impI)
    show "distinct (map version_key (policy_versions db @ [v]))"
      using wf created(6) by (auto simp: policy_db_wf_def)
    have "one_active (policy_versions db)" using wf by (simp only: policy_db_wf_def)
    then show "one_active (policy_versions db @ [v])"
      using draft(2) by (rule one_active_snoc)
    show "\<forall>u \<in> set (policy_versions db @ [v]). status_times_ok u \<and> body_ok ?sha u \<and>
        (vw_workspace u, vw_policy_id u) \<in> set (List.insert (vw_workspace v, vw_policy_id v) (policy_identities db))"
      using wf body draft(1) by (auto simp: policy_db_wf_def)
    fix ws d assume "policy_defaults db ws = Some d"
    with wf show "\<exists>u \<in> set (policy_versions db @ [v]). version_key u = (ws, pd_policy_id d, pd_version d) \<and> vw_hash u = pd_hash d"
      by (auto simp: policy_db_wf_def)
  qed
qed

lemma lifecycle_wf:
  assumes "lifecycle_tx E i k q0 db = Inr ((w, dup), db')" and wf: "policy_db_wf sha db"
  shows "policy_db_wf sha db'"
  using assms(1)
proof (cases rule: lifecycle_Inr)
  case replayed
  with wf show ?thesis by simp
next
  case (moved q v status db1 row t a)
  have "policy_db_wf sha db1"
    by (rule change_status_wf [OF moved(5)]) (use wf moved(4) in \<open>simp_all add: policy_db_wf_def read_policy_version_tx_def\<close>)
  then have "policy_db_wf sha (db1\<lparr>policy_transitions := policy_transitions db1 @ [t], policy_audits := policy_audits db1 @ [a]\<rparr>)"
    by (simp add: policy_db_wf_def)
  then show ?thesis by (simp add: same_tables_wf [OF moved(6)])
qed

section \<open>Nothing recorded is rewritten\<close>

definition history_le :: "('x, 'z) policy_db_scheme \<Rightarrow> ('x, 'z) policy_db_scheme \<Rightarrow> bool" where
  "history_le db db' \<longleftrightarrow>
    prefix (map version_body (policy_versions db)) (map version_body (policy_versions db')) \<and>
    prefix (policy_rule_rows db) (policy_rule_rows db') \<and>
    prefix (policy_transitions db) (policy_transitions db') \<and> prefix (policy_audits db) (policy_audits db') \<and>
    policy_idempotency db \<subseteq>\<^sub>m policy_idempotency db'"

lemma change_status_history:
  assumes "change_status i k v actor db = Inr (status, db')"
  shows "map version_body (policy_versions db') = map version_body (policy_versions db)"
    "policy_rule_rows db' = policy_rule_rows db" "policy_transitions db' = policy_transitions db"
    "policy_audits db' = policy_audits db" "policy_idempotency db' = policy_idempotency db"
  using assms
  by (cases rule: change_status_Inr;
      simp add: policy_tables_activate policy_tables_retire(1) history_tables_moved bind_default_def comp_def)+

lemma map_le_new: "m k = None \<Longrightarrow> m \<subseteq>\<^sub>m m(k \<mapsto> r)"
  by (auto simp: map_le_def)

lemma create_history:
  assumes "create_policy_tx E i q0 db = Inr ((w, fresh), db')"
  shows "history_le db db'"
  using assms by (cases rule: create_policy_Inr) (auto simp: history_le_def intro: map_le_new)

lemma lifecycle_history:
  assumes "lifecycle_tx E i k q0 db = Inr ((w, dup), db')"
  shows "history_le db db'"
  using assms
proof (cases rule: lifecycle_Inr)
  case (moved q v status db1 row t a)
  then show ?thesis
    using change_status_history [OF moved(5)] by (simp add: history_le_def same_policy_tables_def map_le_new)
qed (simp add: history_le_def)

lemma policy_step_cases:
  obtains (stay) "policy_step E ic db = db"
  | (create) i q0 w fresh where "create_policy_tx E i q0 db = Inr ((w, fresh), policy_step E ic db)"
  | (move) i k q0 w dup where "lifecycle_tx E i k q0 db = Inr ((w, dup), policy_step E ic db)"
proof -
  obtain i c where ic: "ic = (i, c)" by (cases ic)
  show ?thesis
  proof (cases c)
    case (CreatePolicy q)
    obtain r db' where "create_policy E i q db = (r, db')" by (cases "create_policy E i q db")
    moreover from this have "policy_step E ic db = db'" by (simp add: policy_step_def ic CreatePolicy)
    ultimately show ?thesis
      unfolding create_policy_def by (cases rule: in_tx_cases) (auto intro: stay create)
  next
    case (MovePolicy k q)
    obtain r db' where "lifecycle E i k q db = (r, db')" by (cases "lifecycle E i k q db")
    moreover from this have "policy_step E ic db = db'" by (simp add: policy_step_def ic MovePolicy)
    ultimately show ?thesis
      unfolding lifecycle_def by (cases rule: in_tx_cases) (auto intro: stay move)
  qed
qed

lemma policy_step_wf:
  assumes "policy_db_wf (pe_sha (le_engine E)) db" and "policy_engine_ok (le_engine E)"
  shows "policy_db_wf (pe_sha (le_engine E)) (policy_step E ic db)"
  using assms by (cases rule: policy_step_cases [of E ic db]) (auto dest: create_wf lifecycle_wf)

lemma history_refl: "history_le db db"
  by (simp add: history_le_def)

lemma history_trans: "history_le db db' \<Longrightarrow> history_le db' db'' \<Longrightarrow> history_le db db''"
  by (auto simp: history_le_def intro: prefix_order.trans map_le_trans)

lemma policy_step_history: "history_le db (policy_step E ic db)"
  by (cases rule: policy_step_cases [of E ic db]) (auto intro: create_history lifecycle_history history_refl)

text \<open>The authority keeps its tables well formed and only extends its history.\<close>

definition authority_ok :: "'x policy_env \<Rightarrow> ('x, 'z) policy_db_scheme \<Rightarrow> bool" where
  "authority_ok E db \<longleftrightarrow> policy_db_wf (pe_sha (le_engine E)) db \<and> policy_engine_ok (le_engine E)"

interpretation authority: ordered_steps "policy_step E" history_le "authority_ok E" for E
  by unfold_locales
    (auto simp: authority_ok_def intro: history_refl history_trans policy_step_wf policy_step_history)

text \<open>
  C22: Policy rows stay well-typed.  Whatever sequence of creations and lifecycle calls runs,
  failing ones included, every version's status is one of the three with the time stamps that go
  with it, its body is a normalised pack of the same identity and hash, at most one version of a
  policy is active, and a workspace default names an existing version by its hash.
\<close>

theorem policy_rows_well_typed:
  assumes "policy_db_wf (pe_sha (le_engine E)) db" and "policy_engine_ok (le_engine E)"
  shows "policy_db_wf (pe_sha (le_engine E)) (fold (policy_step E) calls db)"
  using authority.run_ok [of E db calls] assms by (simp add: authority_ok_def)

text \<open>
  C26: Policy bodies are immutable and the audit history is append-only.  Over any run of the
  authority, the identity, hash, body, author and creation time of every version, the rule rows,
  the transitions and the audit rows are kept in place, and every idempotency record keeps its
  request.
\<close>

theorem policy_history_append_only:
  assumes "policy_db_wf (pe_sha (le_engine E)) db" and "policy_engine_ok (le_engine E)"
  shows "history_le db (fold (policy_step E) calls db)"
  using authority.run_le [of E db calls] assms by (simp add: authority_ok_def)

section \<open>Only active versions admit work\<close>

lemma pack_ref_checked:
  assumes "normalize_pack sha p = Inr p" and "\<And>s. valid_sha256 (sha s)"
  shows "policy_ref_checked (pack_ref p) = Inr (pack_ref p)"
proof -
  note fields = normalize_pack_identity [OF assms(1)]
  have "valid_sha256 (pk_policy_hash p)" using fields(10) assms(2) by auto
  then show ?thesis
    using fields(1-9) sha_trimmed(1)
    by (simp add: policy_ref_checked_def normalize_policy_ref_def pack_ref_def max_policy_id_length_def
        max_policy_version_length_def Let_def)
qed

lemma find_version:
  assumes "distinct (map version_key vs)" and "v \<in> set vs"
  shows "find (\<lambda>w. version_key w = version_key v) vs = Some v"
  using assms
proof (induction vs)
  case (Cons u vs)
  then show ?case by (cases "version_key u = version_key v") (auto simp: image_iff)
qed simp

lemma select_policy_row:
  assumes "select_policy q db = Inr v" and wf: "policy_db_wf sha db" and ws: "trim_space (pq_workspace q) = pq_workspace q"
  shows "v \<in> set (policy_versions db)" and "vw_workspace v = pq_workspace q" and "body_ok sha v"
proof -
  obtain pid ver where "get_policy (pq_workspace q) pid ver db = Inr v"
    using assms(1) by (cases "pq_policy q")
      (auto simp: select_policy_def default_policy_def results if_cases_Inr split: option.splits)
  then have read: "read_policy_version_tx (pq_workspace q) (trim_space pid) (trim_space ver) db = Inr v"
    by (simp add: get_policy_def ws)
  then obtain w where found: "find (\<lambda>v. version_key v = (pq_workspace q, trim_space pid, trim_space ver)) (policy_versions db) = Some w"
    and v: "v = w\<lparr>vw_pack := (vw_pack w)\<lparr>pk_policy_hash := vw_hash w\<rparr>\<rparr>"
    by (auto simp: read_policy_version_Inr)
  from found have w: "w \<in> set (policy_versions db)" by (metis find_Some_iff nth_mem)
  have body: "body_ok sha w" using wf w by (simp only: policy_db_wf_def)
  then have "pk_policy_hash (vw_pack w) = vw_hash w" by (simp add: body_ok_def)
  then have "v = w" by (cases w) (simp add: v)
  with w body show "v \<in> set (policy_versions db)" "body_ok sha v" by simp_all
  show "vw_workspace v = pq_workspace q"
    using read_policy_version_row(1) [OF read] by (simp add: version_key_def)
qed

text \<open>
  C23: Only an active version admits work.  When the authority resolves an admission under a
  policy, the snapshot is the stored body of a version of the request's workspace that is active
  at that moment and that the admission lock accepts; when it resolves one without a policy, the
  workspace has no default.
\<close>

theorem admit_only_active:
  assumes "admit E q0 db = Inr x" and "policy_db_wf (pe_sha (le_engine E)) db" and "policy_engine_ok (le_engine E)"
  shows "case rs_snapshot x of
      None \<Rightarrow> policy_defaults db (rs_workspace x) = None
    | Some p \<Rightarrow> \<exists>v \<in> set (policy_versions db). vw_pack v = p \<and> vw_status v = ''active'' \<and> vw_workspace v = rs_workspace x \<and>
        vw_hash v = pk_policy_hash p \<and> lock_active_tx (Some (pack_ref p)) db = Inr ()"
proof -
  let ?sha = "pe_sha (le_engine E)"
  from assms(1) obtain q where q: "normalize_evaluation q0 = Inr q"
    unfolding admit_def by (auto simp: results)
  note ws = normalize_evaluation_Inr(5) [OF q]
  show ?thesis
  proof (cases "pq_policy q = None \<and> select_policy q db = Inl ErrPolicyDefaultMissing")
    case True
    then have "resolve_policy (le_engine E) None q = Inr x"
      using assms(1) unfolding admit_def q liftE_simps bindE_simps by (auto simp: results if_cases_Inr)
    then obtain q' where q': "normalize_evaluation q = Inr q'" and "resolve_compatibility (le_engine E) q' = Inr x"
      by (auto simp: resolve_policy_def results)
    then have "rs_snapshot x = None \<and> rs_workspace x = pq_workspace q'"
      unfolding resolve_compatibility_def Let_def
      by (auto simp: results if_cases_Inr with_resolution_hash_def split: option.splits)
    moreover have "pq_workspace q' = pq_workspace q" using normalize_evaluation_Inr(7) [OF q'] ws by simp
    moreover have "policy_defaults db (pq_workspace q) = None"
      using True ws by (auto simp: select_policy_def default_policy_def results get_policy_def read_policy_version_tx_def
          split: option.splits if_splits)
    ultimately show ?thesis by simp
  next
    case False
    then have body: "bindE (select_policy q db) (\<lambda>v. if vw_status v \<noteq> ''active'' then Inl ErrPolicyRetired
        else if \<not> le_attached E then Inl (PolicyStoreInvalid ''policy resolver is not configured'')
        else liftE PolicyRejected (resolve_policy (le_engine E) (Some (vw_pack v)) (q\<lparr>pq_policy := Some (pack_ref (vw_pack v))\<rparr>))) = Inr x"
      using assms(1) unfolding admit_def q liftE_simps bindE_simps by (simp only: if_False)
    then obtain v where sel: "select_policy q db = Inr v" and active: "\<not> vw_status v \<noteq> ''active''"
      and res: "resolve_policy (le_engine E) (Some (vw_pack v)) (q\<lparr>pq_policy := Some (pack_ref (vw_pack v))\<rparr>) = Inr x"
      by (elim bindE_InrE if_InlE) (rule that; simp add: results)
    note row = select_policy_row [OF sel assms(2) ws]
    from resolution_never_widens [OF res] obtain p q' where
      p: "normalize_pack ?sha (vw_pack v) = Inr p" "rs_snapshot x = Some p" and
      q': "normalize_evaluation (q\<lparr>pq_policy := Some (pack_ref (vw_pack v))\<rparr>) = Inr q'" "rs_workspace x = pq_workspace q'"
      by (elim exE conjE)
    have pack: "p = vw_pack v" "normalize_pack ?sha (vw_pack v) = Inr (vw_pack v)"
      "vw_hash v = pk_policy_hash (vw_pack v)" "version_key v = (pk_workspace (vw_pack v), pk_policy_id (vw_pack v), pk_version (vw_pack v))"
      using row(3) p(1) by (simp_all add: body_ok_def)
    have "pq_workspace q' = pq_workspace q" using normalize_evaluation_Inr(7) [OF q'(1)] ws by simp
    then have workspace: "vw_workspace v = rs_workspace x" using row(2) q'(2) by simp
    have "distinct (map version_key (policy_versions db))" using assms(2) by (simp only: policy_db_wf_def)
    note found = find_version [OF this row(1)]
    have "policy_ref_checked (pack_ref (vw_pack v)) = Inr (pack_ref (vw_pack v))"
      by (rule pack_ref_checked [OF pack(2)]) (use assms(3) in \<open>simp add: policy_engine_ok_def\<close>)
    then have "lock_active_tx (Some (pack_ref (vw_pack v))) db = Inr ()"
      using found active pack(3,4) by (simp add: lock_active_tx_def pack_ref_def)
    with row(1) active workspace pack(1,3) show ?thesis
      unfolding p(2) option.case by (intro bexI [of _ v] conjI) simp_all
  qed
qed

end
