(* ===== verification/Policy_Samples.thy ===== *)
theory Policy_Samples
  imports Policy_Lifecycle
begin

text \<open>
  The policy authority on a concrete run: a version is created, activated and made the default,
  then a second version is created and activated.  The run shows that the hypotheses of the
  authority's properties hold, and that activating another version leaves the default bound to
  the retired one.
\<close>

definition sample_policy_env :: "unit policy_env" where
  "sample_policy_env = \<lparr>le_events = sample_env, le_engine = sample_engine, le_attached = True,
    le_create_hash = (\<lambda>q. pn_workspace q @ pk_version (pn_pack q)), le_lifecycle_hash = (\<lambda>q. pr_version (pg_policy q)),
    le_accepts = (\<lambda>_. True), le_accepts_actor = (\<lambda>_. True), le_before = (\<lambda>a b. a < b)\<rparr>"

definition empty_policy_db :: "unit policy_db" where
  "empty_policy_db = \<lparr>control_events = [], idempotency_records = (\<lambda>_. None), control_checkpoints = (\<lambda>_. None),
    evidence_tables = (), policy_identities = [], policy_versions = [], policy_rule_rows = [],
    policy_defaults = (\<lambda>_. None), policy_transitions = [], policy_audits = [], policy_idempotency = (\<lambda>_. None)\<rparr>"

definition sample_policy_in :: "string \<Rightarrow> int \<Rightarrow> policy_in" where
  "sample_policy_in k n = \<lparr>ly_request_id = ''r'' @ k, ly_event = sample_io (''e'' @ k) n, ly_row = n,
    ly_clk = (\<lambda>j. 100 * n + int j)\<rparr>"

definition sample_policy_move :: "string \<Rightarrow> string \<Rightarrow> policy_lifecycle" where
  "sample_policy_move k ver = \<lparr>pg_schema_version = 0, pg_request_id = [], pg_idempotency = k, pg_workspace = ''w'',
    pg_policy = \<lparr>pr_schema_version = 0, pr_workspace = ''w'', pr_policy_id = ''p'', pr_version = ver, pr_policy_hash = []\<rparr>,
    pg_actor = no_actor, pg_reason = []\<rparr>"

definition sample_version :: "string \<Rightarrow> string \<Rightarrow> time option \<Rightarrow> policy_version" where
  "sample_version ver status act = \<lparr>vw_workspace = ''w'', vw_policy_id = ''p'', vw_version = ver,
    vw_hash = pk_policy_hash sample_normal_pack, vw_pack = sample_normal_pack\<lparr>pk_version := ver\<rparr>, vw_status = status,
    vw_actor = no_actor, vw_created = 1, vw_updated = 1, vw_activated = act, vw_retired = None\<rparr>"

text \<open>One active version, which is the default of its workspace.\<close>

definition sample_bound :: "unit policy_db" where
  "sample_bound = empty_policy_db\<lparr>policy_identities := [(''w'', ''p'')],
    policy_versions := [sample_version ''2'' ''active'' (Some 1)],
    policy_defaults := [''w'' \<mapsto> \<lparr>pd_policy_id = ''p'', pd_version = ''2'',
      pd_hash = pk_policy_hash sample_normal_pack, pd_actor = no_actor\<rparr>]\<rparr>"

definition sample_retire :: "(policy_in \<times> policy_call) list" where
  "sample_retire = [(sample_policy_in ''2'' 2, MovePolicy Retire (sample_policy_move ''k2'' ''2''))]"

lemma sample_normal_fields:
  "pk_workspace sample_normal_pack = ''w'' \<and> pk_policy_id sample_normal_pack = ''p'' \<and> pk_version sample_normal_pack = ''2''"
  by code_simp

lemma sample_version_body: "body_ok sample_sha (sample_version ''2'' ''active'' (Some 1))"
proof -
  have pack: "sample_normal_pack\<lparr>pk_version := ''2''\<rparr> = sample_normal_pack"
    using sample_normal_fields by (cases sample_normal_pack) simp
  have "normalize_pack sample_sha sample_normal_pack = Inr sample_normal_pack"
    by (rule normalize_pack_fix [OF sample_pack_normal sample_sha_valid])
  then show ?thesis
    using sample_normal_fields by (simp add: body_ok_def sample_version_def pack version_key_def)
qed

lemma sample_bound_wf: "policy_db_wf (pe_sha (le_engine sample_policy_env)) sample_bound"
proof -
  let ?v = "sample_version ''2'' ''active'' (Some 1)"
  have vs: "policy_versions sample_bound = [?v]" "policy_identities sample_bound = [(''w'', ''p'')]"
    "policy_defaults sample_bound = [''w'' \<mapsto> \<lparr>pd_policy_id = ''p'', pd_version = ''2'',
      pd_hash = pk_policy_hash sample_normal_pack, pd_actor = no_actor\<rparr>]"
    by (simp_all add: sample_bound_def)
  have v: "version_key ?v = (''w'', ''p'', ''2'')" "vw_workspace ?v = ''w''" "vw_policy_id ?v = ''p''"
    "vw_hash ?v = pk_policy_hash sample_normal_pack"
    by (simp_all add: sample_version_def version_key_def)
  have times: "status_times_ok ?v" by code_simp
  have sha: "pe_sha (le_engine sample_policy_env) = sample_sha" by (simp add: sample_policy_env_def sample_engine_def)
  have one: "one_active [?v]" by (simp add: one_active_def)
  show ?thesis
    unfolding policy_db_wf_def vs sha using one times sample_version_body by (auto simp: v split: if_splits)
qed

lemma sample_engine_valid: "policy_engine_ok (le_engine sample_policy_env)"
  by (simp add: policy_engine_ok_def sample_policy_env_def sample_engine_def sample_sha_valid)

lemma sample_retire_run:
  "(let db = fold (policy_step sample_policy_env) sample_retire sample_bound in
    (map vw_status (policy_versions db), policy_defaults db ''w'', map px_operation (policy_audits db))) =
    ([''retired''], None, [''retire''])"
  by code_simp

theorem policy_rows_well_typed_witness:
  "policy_db_wf sample_sha (fold (policy_step sample_policy_env) sample_retire sample_bound) \<and>
    map vw_status (policy_versions (fold (policy_step sample_policy_env) sample_retire sample_bound)) = [''retired'']"
  using policy_rows_well_typed [OF sample_bound_wf sample_engine_valid, of sample_retire] sample_retire_run
  by (simp add: Let_def sample_policy_env_def sample_engine_def)

theorem policy_history_append_only_witness:
  "history_le sample_bound (fold (policy_step sample_policy_env) sample_retire sample_bound) \<and>
    map px_operation (policy_audits (fold (policy_step sample_policy_env) sample_retire sample_bound)) = [''retire'']"
  using policy_history_append_only [OF sample_bound_wf sample_engine_valid, of sample_retire] sample_retire_run
  by (simp add: Let_def)

lemma sample_admits: "\<not> isl (admit sample_policy_env sample_evaluation sample_bound)"
  by code_simp

theorem admit_only_active_witness:
  "\<exists>x. admit sample_policy_env sample_evaluation sample_bound = Inr x \<and>
    (case rs_snapshot x of
      None \<Rightarrow> policy_defaults sample_bound (rs_workspace x) = None
    | Some p \<Rightarrow> \<exists>v \<in> set (policy_versions sample_bound). vw_pack v = p \<and> vw_status v = ''active'' \<and>
        vw_workspace v = rs_workspace x \<and> vw_hash v = pk_policy_hash p \<and> lock_active_tx (Some (pack_ref p)) sample_bound = Inr ())"
proof -
  obtain x where x: "admit sample_policy_env sample_evaluation sample_bound = Inr x"
    using sample_admits by (metis isl_def sum.exhaust)
  from admit_only_active [OF x sample_bound_wf sample_engine_valid] x show ?thesis by (intro exI conjI)
qed

section \<open>A stranded default\<close>

text \<open>
  \<open>Activate\<close> retires the active version but, unlike \<open>Retire\<close>, keeps a default that names it:
  until \<open>SetDefault\<close> is called again, every admission of the workspace that names no policy fails.
\<close>

definition sample_drafted :: "unit policy_db" where
  "sample_drafted = sample_bound\<lparr>policy_versions :=
    [sample_version ''2'' ''active'' (Some 1), sample_version ''3'' ''draft'' None]\<rparr>"

definition sample_replaced :: "unit policy_db" where
  "sample_replaced = activate_version (sample_policy_in ''5'' 5) (sample_version ''3'' ''draft'' None) sample_drafted"

lemma sample_replaced_step:
  "change_status (sample_policy_in ''5'' 5) Activate (sample_version ''3'' ''draft'' None) no_actor sample_drafted =
    Inr (''active'', sample_replaced)"
  by (simp add: change_status_def sample_version_def sample_replaced_def)

lemma sample_replaced_statuses:
  "map (\<lambda>v. (vw_version v, vw_status v)) (policy_versions sample_replaced) = [(''2'', ''retired''), (''3'', ''active'')]"
  by (simp add: sample_replaced_def sample_drafted_def activate_version_def update_versions_def sample_version_def version_key_def)

lemma activation_strands_default:
  "admit sample_policy_env sample_evaluation sample_replaced = Inl ErrPolicyRetired"
  by code_simp

text \<open>
  The cursor of a page compares whole rows with one \<open>less than\<close> while the rows are sorted by
  descending time and ascending identity: of two versions created at the same instant, the second
  page loses the one that follows the cursor.
\<close>

lemma policy_list_skips_rows:
  "let db = sample_bound\<lparr>policy_versions := [sample_version ''2'' ''draft'' None, sample_version ''3'' ''draft'' None]\<rparr> in
    map_sum id (\<lambda>(vs, c). (map vw_version vs, c)) (list_policies sample_policy_env ''w'' 1 [] db) =
      Inr ([''2''], ''p'' @ [CHR 0x00] @ ''2'') \<and>
    map_sum id (\<lambda>(vs, c). (map vw_version vs, c))
      (list_policies sample_policy_env ''w'' 1 (''p'' @ [CHR 0x00] @ ''2'') db) = Inr ([], [])"
  by code_simp

end
