(* ===== verification/Change_Contract.thy ===== *)
theory Change_Contract
  imports Policy_Contract Tool_Contract
begin

text \<open>
  \<open>internal/contracts/change.go\<close>: the vocabulary of repository changes.  A proposal request
  names file operations with their content; a packet is its planned, content-addressed form, with
  the source snapshot it was planned against; the stable hash of the packet is what an approval
  is bound to.

  The structs that also live in tables (proposal, approval, application) stand with the store,
  and the digests of JSON documents are arguments of the definitions that use them, applied to
  the value that is marshalled.  File modes are the \<open>uint32\<close> of the source as integers.
\<close>

datatype change_error =
  ChangeInvalid string
| ChangePolicy policy_error
| ErrUnsafePath
| ErrSourceConflict string
| ErrChangeOperation string
| ErrPacketBudget
| ErrRecovery string
| ChangeFileSystem
| ChangeCancelled
| ChangeContentMissing

section \<open>Data\<close>

definition max_change_path_length :: int where
  "max_change_path_length = 4096"

record change_file =
  cf_path :: string
  cf_mode :: int
  cf_size :: int
  cf_hash :: string
  cf_exists :: bool

record change_snapshot =
  cs_workspace :: string
  cs_repository :: string
  cs_root :: string
  cs_manifest :: string
  cs_files :: "change_file list"
  cs_actor :: actor_ref
  cs_task :: "entity_ref option"
  cs_session :: "entity_ref option"
  cs_agent_run :: "entity_ref option"
  cs_owner :: string
  cs_fence :: int
  cs_captured :: "time option"

record change_op_input =
  oi_id :: string
  oi_ordinal :: int
  oi_type :: string
  oi_path :: string
  oi_destination :: string
  oi_expected_hash :: string
  oi_expected_mode :: int
  oi_content :: string
  oi_new_mode :: int

record change_op =
  co_id :: string
  co_ordinal :: int
  co_type :: string
  co_path :: string
  co_destination :: string
  co_expected_hash :: string
  co_expected_mode :: int
  co_new_hash :: string
  co_new_size :: int
  co_new_mode :: int

record change_request =
  cr_schema_version :: int
  cr_id :: string
  cr_request_id :: string
  cr_idempotency :: string
  cr_causation :: string
  cr_correlation :: string
  cr_workspace :: string
  cr_actor :: actor_ref
  cr_task :: "entity_ref option"
  cr_session :: "entity_ref option"
  cr_agent_run :: "entity_ref option"
  cr_policy :: "policy_ref option"
  cr_owner :: string
  cr_fence :: int
  cr_repository :: string
  cr_source :: change_snapshot
  cr_operations :: "change_op_input list"
  cr_approval_mode :: string
  cr_budgets :: change_budgets

record change_packet =
  cp_schema_version :: int
  cp_workspace :: string
  cp_repository :: string
  cp_source :: change_snapshot
  cp_operations :: "change_op list"
  cp_budgets :: change_budgets
  cp_tree_hash :: string
  cp_policy :: "policy_ref option"

text \<open>A conflict found before an operation, and a classified failure.\<close>

record change_conflict =
  cc_path :: string
  cc_expected_hash :: string
  cc_observed_hash :: string
  cc_expected_exists :: bool
  cc_observed_exists :: bool
  cc_reason :: string

record change_failure =
  cx_code :: string
  cx_message :: string

definition change_op_types :: "string list" where
  "change_op_types = [''create_file'', ''replace_file'', ''delete_file'', ''rename_file'', ''chmod_file'']"

section \<open>Normalisation of a proposal\<close>

definition entity_within :: "string \<Rightarrow> entity_ref option \<Rightarrow> bool" where
  "entity_within ws e = (case e of None \<Rightarrow> True | Some r \<Rightarrow> er_workspace r = [] \<or> er_workspace r = ws)"

text \<open>The two identities are those \<open>NewID\<close> returns when the request brings none.\<close>

definition change_request_defaults :: "string \<Rightarrow> string \<Rightarrow> change_request \<Rightarrow> change_request" where
  "change_request_defaults new_req new_chg r = r\<lparr>cr_schema_version := if_zero 1 (cr_schema_version r),
    cr_workspace := trim_space (cr_workspace r), cr_repository := trim_space (cr_repository r),
    cr_idempotency := trim_space (cr_idempotency r),
    cr_request_id := (if cr_request_id r = [] then new_req else cr_request_id r),
    cr_id := (if cr_id r = [] then new_chg else cr_id r),
    cr_approval_mode := (if cr_approval_mode r = [] then ''required'' else cr_approval_mode r),
    cr_budgets := change_budget_defaults (cr_budgets r)\<rparr>"

definition normalize_change_request :: "string \<Rightarrow> string \<Rightarrow> change_request \<Rightarrow> change_error + change_request" where
  "normalize_change_request new_req new_chg r0 =
    (let r = change_request_defaults new_req new_chg r0; ws = cr_workspace r; b = cr_budgets r; m = max_change_budgets in
    if cr_schema_version r \<noteq> 1 then Inl (ChangeInvalid ''unsupported change schema_version'')
    else if ws = [] \<or> cr_repository r = [] \<or> cr_idempotency r = []
    then Inl (ChangeInvalid ''workspace_id, repository, and idempotency_key are required'')
    else if len (cr_idempotency r) > max_idempotency_length then Inl (ChangeInvalid ''idempotency_key is too large'')
    else bindE (liftE ChangePolicy (bind_workspace ws (cr_actor r))) (\<lambda>actor.
    if \<not> entity_within ws (cr_task r) then Inl (ChangeInvalid ''task crosses workspace boundary'')
    else if \<not> entity_within ws (cr_session r) then Inl (ChangeInvalid ''session crosses workspace boundary'')
    else if \<not> entity_within ws (cr_agent_run r) then Inl (ChangeInvalid ''agent run crosses workspace boundary'')
    else bindE (case cr_policy r of None \<Rightarrow> Inr None
      | Some p \<Rightarrow> bindE (liftE ChangePolicy (policy_within ws p)) (\<lambda>q. Inr (Some q))) (\<lambda>policy.
    if cr_task r \<noteq> None \<and> (cr_owner r = [] \<or> cr_fence r = 0)
    then Inl (ChangeInvalid ''task-bound change requires owner and fence'')
    else if cr_operations r = [] \<or> len (cr_operations r) > cb_operations m
    then Inl (ChangeInvalid ''operations'')
    else if cr_approval_mode r \<notin> {''required'', ''automatic'', ''denied''} then Inl (ChangeInvalid ''unsupported approval_mode'')
    else if out_of 1 (cb_operations m) (cb_operations b) \<or> out_of 1 (cb_file_bytes m) (cb_file_bytes b) \<or>
       out_of 1 (cb_total_bytes m) (cb_total_bytes b)
    then Inl (ChangeInvalid ''change budgets exceed configured bounds'')
    else if len (cr_operations r) > cb_operations b then Inl (ChangeInvalid ''operation count exceeds budget'')
    else Inr (r\<lparr>cr_actor := actor, cr_policy := policy\<rparr>))))"

section \<open>Hashed contents\<close>

definition file_before :: "change_file \<Rightarrow> change_file \<Rightarrow> bool" where
  "file_before a b \<longleftrightarrow> cf_path a < cf_path b"

definition normalized_source :: "change_snapshot \<Rightarrow> change_snapshot" where
  "normalized_source s = s\<lparr>cs_files := sort_by file_before (cs_files s), cs_root := [], cs_captured := None\<rparr>"

definition packet_op_before :: "change_op \<Rightarrow> change_op \<Rightarrow> bool" where
  "packet_op_before a b \<longleftrightarrow>
    (if co_ordinal a \<noteq> co_ordinal b then co_ordinal a < co_ordinal b
     else if co_path a \<noteq> co_path b then co_path a < co_path b
     else co_id a < co_id b)"

definition normalize_packet_for_hash :: "change_packet \<Rightarrow> change_packet" where
  "normalize_packet_for_hash p = p\<lparr>cp_source := normalized_source (cp_source p),
    cp_operations := sort_by packet_op_before (cp_operations p)\<rparr>"

definition stable_hash :: "(change_packet \<Rightarrow> string) \<Rightarrow> change_packet \<Rightarrow> string" where
  "stable_hash digest p = digest (normalize_packet_for_hash p)"

text \<open>A request is identified by its content hashes: the request with each content replaced.\<close>

definition hashed_op :: "(string \<Rightarrow> string) \<Rightarrow> change_op_input \<Rightarrow> change_op_input" where
  "hashed_op sha o1 = o1\<lparr>oi_content := (if oi_content o1 = [] then [] else sha (oi_content o1)), oi_expected_mode := 0\<rparr>"

definition change_request_content :: "(string \<Rightarrow> string) \<Rightarrow> change_request \<Rightarrow> change_request" where
  "change_request_content sha r = r\<lparr>cr_id := [], cr_request_id := [], cr_causation := [], cr_correlation := [],
    cr_actor := no_actor, cr_task := None, cr_session := None, cr_agent_run := None, cr_owner := [], cr_fence := 0,
    cr_source := normalized_source (cr_source r), cr_operations := map (hashed_op sha) (cr_operations r)\<rparr>"

section \<open>Disclosure requests\<close>

record change_disclosure =
  cd_workspace :: string
  cd_proposal :: string
  cd_application :: string
  cd_level :: string
  cd_max_bytes :: int
  cd_max_items :: int

definition normalize_change_disclosure :: "change_disclosure \<Rightarrow> change_error + change_disclosure" where
  "normalize_change_disclosure r0 =
    (let l = to_lower (trim_space (cd_level r0));
         r = \<lparr>cd_workspace = trim_space (cd_workspace r0), cd_proposal = trim_space (cd_proposal r0),
           cd_application = trim_space (cd_application r0), cd_level = (if l = [] then ''gist'' else l),
           cd_max_bytes = if_zero 32768 (cd_max_bytes r0), cd_max_items = if_zero 100 (cd_max_items r0)\<rparr> in
    if cd_workspace r = [] \<or> (cd_proposal r = []) = (cd_application r = [])
    then Inl (ChangeInvalid ''workspace and exactly one change identity are required'')
    else if cd_level r \<notin> {''gist'', ''detail'', ''raw''} then Inl (ChangeInvalid ''unsupported change disclosure level'')
    else if out_of 1 1048576 (cd_max_bytes r) \<or> out_of 1 100 (cd_max_items r)
    then Inl (ChangeInvalid ''change disclosure budget exceeds bounds'')
    else Inr r)"

end
