(* ===== verification/Mount.thy ===== *)
theory Mount
  imports Fornix_Prelude "HOL-Library.Sublist" "HOL-Library.AList"
begin

text \<open>
  The part of a Unix file system that \<open>internal/change\<close> uses through the standard library: the
  tree below one configured root as an association list from path elements to nodes, with the calls
  \<open>Lstat\<close>, \<open>ReadFile\<close>, \<open>MkdirAll\<close>, \<open>Remove\<close>, \<open>Rename\<close>, \<open>Chmod\<close> and the creation of a
  temporary file.

  A regular file carries its bytes and its nine permission bits.  Whether the operating system
  refuses a call for a reason outside the tree (permissions, quota, an I/O error) is the argument
  \<open>denied\<close>.  The tree has no hard links, and nobody else changes it during a call.  A root that
  is itself a symbolic link is outside the model.
\<close>

section \<open>Trees\<close>

type_synonym elements = "string list"

datatype node = File string int | Directory | Link | Special

type_synonym tree = "(elements \<times> node) list"

datatype syscall = SysLstat | SysRead | SysMkdir | SysTemp | SysWrite | SysRename | SysRemove | SysChmod | SysOpenRoot

type_synonym denials = "syscall \<Rightarrow> elements \<Rightarrow> bool"

text \<open>Every node but the root stands in a directory.\<close>

definition node_at :: "tree \<Rightarrow> elements \<Rightarrow> node option" where
  "node_at t p = map_of t p"

definition put_node :: "elements \<Rightarrow> node \<Rightarrow> tree \<Rightarrow> tree" where
  "put_node p n t = AList.update p n t"

definition drop_node :: "elements \<Rightarrow> tree \<Rightarrow> tree" where
  "drop_node p t = AList.delete p t"

definition has_entries :: "tree \<Rightarrow> elements \<Rightarrow> bool" where
  "has_entries t p \<longleftrightarrow> list_ex (\<lambda>(q, n). length q = Suc (length p) \<and> take (length p) q = p) t"

definition tree_wf :: "tree \<Rightarrow> bool" where
  "tree_wf t \<longleftrightarrow> distinct (map fst t) \<and> (\<forall>p c. node_at t (p @ [c]) \<noteq> None \<longrightarrow> node_at t p = Some Directory)"

lemma node_at_put [simp]: "node_at (put_node p n t) q = (if q = p then Some n else node_at t q)"
  by (simp add: node_at_def put_node_def update_conv')

lemma node_at_drop [simp]: "node_at (drop_node p t) q = (if q = p then None else node_at t q)"
  by (simp add: node_at_def drop_node_def delete_conv')

section \<open>Calls\<close>

datatype stat = Missing | Found node | StatFailed

text \<open>Path resolution: every element but the last has to be a directory.\<close>

fun walk :: "tree \<Rightarrow> elements \<Rightarrow> elements \<Rightarrow> stat" where
  "walk t d [] = (case node_at t d of None \<Rightarrow> Missing | Some n \<Rightarrow> Found n)"
| "walk t d (c # cs) =
    (case node_at t d of None \<Rightarrow> Missing | Some Directory \<Rightarrow> walk t (d @ [c]) cs | Some _ \<Rightarrow> StatFailed)"

definition lstat :: "denials \<Rightarrow> tree \<Rightarrow> elements \<Rightarrow> stat" where
  "lstat denied t p = (if denied SysLstat p then StatFailed else walk t [] p)"

definition read_file :: "denials \<Rightarrow> tree \<Rightarrow> elements \<Rightarrow> string option" where
  "read_file denied t p = (if denied SysRead p then None else case walk t [] p of Found (File s m) \<Rightarrow> Some s | _ \<Rightarrow> None)"

definition open_root :: "denials \<Rightarrow> tree \<Rightarrow> bool" where
  "open_root denied t \<longleftrightarrow> \<not> denied SysOpenRoot [] \<and> node_at t [] = Some Directory"

text \<open>\<open>MkdirAll\<close> makes the missing directories from the root downwards.\<close>

fun mkdir_all :: "denials \<Rightarrow> elements \<Rightarrow> elements \<Rightarrow> tree \<Rightarrow> bool \<times> tree" where
  "mkdir_all denied d cs t =
    (case node_at t d of
      Some Directory \<Rightarrow> (case cs of [] \<Rightarrow> (True, t) | c # cs' \<Rightarrow> mkdir_all denied (d @ [c]) cs' t)
    | Some _ \<Rightarrow> (False, t)
    | None \<Rightarrow>
        if denied SysMkdir d then (False, t)
        else let t' = put_node d Directory t in
          (case cs of [] \<Rightarrow> (True, t') | c # cs' \<Rightarrow> mkdir_all denied (d @ [c]) cs' t'))"

declare mkdir_all.simps [simp del]

text \<open>\<open>Rename\<close> moves a node with everything below it; Go refuses an existing directory as target.\<close>

definition moved :: "elements \<Rightarrow> elements \<Rightarrow> tree \<Rightarrow> tree" where
  "moved old new t = map (\<lambda>(q, n). (if prefix old q then new @ drop (length old) q else q, n)) t"

definition rename_node :: "denials \<Rightarrow> elements \<Rightarrow> elements \<Rightarrow> tree \<Rightarrow> bool \<times> tree" where
  "rename_node denied old new t =
    (if denied SysRename old \<or> denied SysRename new then (False, t)
     else case walk t [] old of
       Found n \<Rightarrow>
         if new = [] \<or> node_at t (butlast new) \<noteq> Some Directory \<or> node_at t new = Some Directory then (False, t)
         else if n \<noteq> Directory then (True, put_node new n (if new = old then t else drop_node old t))
         else if node_at t new \<noteq> None \<or> prefix old new then (False, t)
         else (True, moved old new t)
     | _ \<Rightarrow> (False, t))"

definition remove_node :: "denials \<Rightarrow> elements \<Rightarrow> tree \<Rightarrow> bool \<times> tree" where
  "remove_node denied p t =
    (if denied SysRemove p then (False, t)
     else case walk t [] p of
       Found n \<Rightarrow> if p = [] \<or> n = Directory \<and> has_entries t p then (False, t) else (True, drop_node p t)
     | _ \<Rightarrow> (False, t))"

definition permission_bits :: "int \<Rightarrow> int" where
  "permission_bits m = m mod 512"

definition chmod_node :: "denials \<Rightarrow> elements \<Rightarrow> int \<Rightarrow> tree \<Rightarrow> bool \<times> tree" where
  "chmod_node denied p m t =
    (if denied SysChmod p then (False, t)
     else case walk t [] p of
       Found (File s m') \<Rightarrow> (True, put_node p (File s (permission_bits m)) t)
     | Found Link \<Rightarrow> (False, t)
     | Found n \<Rightarrow> (True, t)
     | _ \<Rightarrow> (False, t))"

text \<open>
  Replacing a file by a temporary one: create \<open>tmp\<close> in the directory, set its mode, write and
  sync, rename it over the target; whatever happens, the deferred call removes \<open>tmp\<close>.  An error of
  the first \<open>Chmod\<close> counts unless the mode is zero.
\<close>

definition replace_file :: "denials \<Rightarrow> string \<Rightarrow> elements \<Rightarrow> string \<Rightarrow> int \<Rightarrow> tree \<Rightarrow> bool \<times> tree" where
  "replace_file denied tmp target content mode t =
    (let temporary = butlast target @ [tmp] in
    if denied SysTemp temporary \<or> node_at t (butlast target) \<noteq> Some Directory \<or> node_at t temporary \<noteq> None then (False, t)
    else
      let t1 = put_node temporary (File [] 384) t;
          (chmod_ok, t2) = chmod_node denied temporary mode t1;
          t3 = put_node temporary (case node_at t2 temporary of Some (File s m) \<Rightarrow> File content m | _ \<Rightarrow> File content 384) t2 in
      if \<not> chmod_ok \<and> mode \<noteq> 0 then (False, snd (remove_node denied temporary t2))
      else if denied SysWrite temporary then (False, snd (remove_node denied temporary t2))
      else
        let (ok, t4) = rename_node denied temporary target t3 in
        (ok, snd (remove_node denied temporary t4)))"

section \<open>Lookups\<close>

definition parents_ok :: "tree \<Rightarrow> elements \<Rightarrow> bool" where
  "parents_ok t p \<longleftrightarrow> (\<forall>n < length p. node_at t (take n p) = Some Directory)"

lemma walk_found: "walk t d cs = Found n \<longleftrightarrow>
    (\<forall>k < length cs. node_at t (d @ take k cs) = Some Directory) \<and> node_at t (d @ cs) = Some n"
proof (induction cs arbitrary: d)
  case (Cons c cs)
  have "(\<forall>k < length (c # cs). node_at t (d @ take k (c # cs)) = Some Directory) \<longleftrightarrow>
      node_at t d = Some Directory \<and> (\<forall>k < length cs. node_at t ((d @ [c]) @ take k cs) = Some Directory)"
    by (auto simp: less_Suc_eq_0_disj)
  with Cons show ?case by (auto split: option.splits node.splits)
qed (auto split: option.splits)

lemma walk_parents: "parents_ok t p \<Longrightarrow> walk t [] p = (case node_at t p of None \<Rightarrow> Missing | Some n \<Rightarrow> Found n)"
proof -
  have "walk t d cs = (case node_at t (d @ cs) of None \<Rightarrow> Missing | Some n \<Rightarrow> Found n)"
    if "\<forall>k < length cs. node_at t (d @ take k cs) = Some Directory" for d cs
    using that
  proof (induction cs arbitrary: d)
    case (Cons c cs)
    have "node_at t (d @ take k (c # cs)) = Some Directory" if "k < Suc (length cs)" for k
      using Cons.prems that by simp
    from this [of 0] this [of "Suc k" for k] have "node_at t d = Some Directory"
      "\<forall>k < length cs. node_at t ((d @ [c]) @ take k cs) = Some Directory" by auto
    with Cons.IH [of "d @ [c]"] show ?case by simp
  qed simp
  from this [of p "[]"] show "parents_ok t p \<Longrightarrow> ?thesis" by (simp add: parents_ok_def)
qed

lemma mkdir_all_present:
  assumes "\<And>k. k \<le> length cs \<Longrightarrow> node_at t (d @ take k cs) = Some Directory"
  shows "mkdir_all denied d cs t = (True, t)"
  using assms
proof (induction cs arbitrary: d)
  case Nil
  from Nil [of 0] show ?case by (simp add: mkdir_all.simps)
next
  case (Cons c cs)
  from Cons.prems [of 0] have "node_at t d = Some Directory" by simp
  moreover have "mkdir_all denied (d @ [c]) cs t = (True, t)"
  proof (rule Cons.IH)
    fix k assume "k \<le> length cs"
    then show "node_at t ((d @ [c]) @ take k cs) = Some Directory" using Cons.prems [of "Suc k"] by simp
  qed
  ultimately show ?case by (subst mkdir_all.simps) simp
qed

lemma mkdir_parent: "parents_ok t p \<Longrightarrow> p \<noteq> [] \<Longrightarrow> mkdir_all denied [] (butlast p) t = (True, t)"
proof (rule mkdir_all_present)
  fix k assume p: "parents_ok t p" "p \<noteq> []" and "k \<le> length (butlast p)"
  moreover have "0 < length p" using p by simp
  ultimately have "k < length p" unfolding length_butlast by linarith
  with p show "node_at t ([] @ take k (butlast p)) = Some Directory"
    by (simp add: parents_ok_def butlast_conv_take min_def)
qed

lemma parents_ok_cong:
  assumes "parents_ok t p" and "\<And>q. strict_prefix q p \<Longrightarrow> node_at t q = Some Directory \<Longrightarrow> node_at t' q = Some Directory"
  shows "parents_ok t' p"
  unfolding parents_ok_def
proof (intro allI impI)
  fix n assume "n < length p"
  then have "strict_prefix (take n p) p" by (metis append_take_drop_id length_take min.absorb4 nat_neq_iff prefixI strict_prefixI)
  with assms \<open>n < length p\<close> show "node_at t' (take n p) = Some Directory" by (simp add: parents_ok_def)
qed

lemma parents_ok_butlast: "parents_ok t p \<Longrightarrow> p \<noteq> [] \<Longrightarrow> node_at t (butlast p) = Some Directory"
  by (simp add: parents_ok_def butlast_conv_take)

lemma parents_ok_root: "parents_ok t p \<Longrightarrow> p \<noteq> [] \<Longrightarrow> node_at t [] = Some Directory"
  by (auto simp: parents_ok_def dest: spec [of _ 0])

end
