(* ===== verification/Change_Planner.thy ===== *)
theory Change_Planner
  imports Change_Contract Mount
begin

text \<open>
  \<open>internal/change/planner.go\<close>: safe paths below a configured root, the snapshot of the affected
  files, planning of a packet against a snapshot, and its application to the file system.

  \<open>change_env\<close> holds what comes from outside: the SHA-256 function, the digests of the marshalled
  packet and snapshot, the refusals of the operating system, the name \<open>CreateTemp\<close> picks for the
  temporary file of a target, the steps at which the context is found cancelled, and the resolver
  of content by hash (absent for a nil resolver).  The hooks of the crash tests are left out, and
  the messages of conflicts are abbreviated.
\<close>

record change_env =
  ce_sha :: "string \<Rightarrow> string"
  ce_packet_digest :: "change_packet \<Rightarrow> string"
  ce_manifest_digest :: "change_snapshot \<Rightarrow> string"
  ce_denied :: denials
  ce_temp :: "elements \<Rightarrow> string"
  ce_cancelled :: "nat \<Rightarrow> bool"
  ce_resolve :: "(string \<Rightarrow> string \<Rightarrow> change_error + string) option"

section \<open>Paths\<close>

text \<open>A control character, in UTF-8: a byte below 0x20, 0x7F, or 0xC2 before 0x80 to 0x9F.\<close>

fun has_control :: "string \<Rightarrow> bool" where
  "has_control [] = False"
| "has_control (c # cs) =
    (control_byte c \<or> c = CHR 0x7F \<or>
     c = CHR 0xC2 \<and> (case cs of d # _ \<Rightarrow> 128 \<le> (of_char d :: nat) \<and> (of_char d :: nat) < 160 | [] \<Rightarrow> False) \<or>
     has_control cs)"

text \<open>\<open>Clean\<close> of a relative path, as elements (the empty list is \<open>.\<close>): leading \<open>..\<close> stay.\<close>

fun clean_relative :: "string list \<Rightarrow> string list \<Rightarrow> string list" where
  "clean_relative acc [] = rev acc"
| "clean_relative acc (e # es) =
    (if e = [] \<or> e = ''.'' then clean_relative acc es
     else if e = ''..'' then
       (case acc of [] \<Rightarrow> clean_relative [e] es
        | a # as \<Rightarrow> if a = ''..'' then clean_relative (e # acc) es else clean_relative as es)
     else clean_relative (e # acc) es)"

fun join_slash :: "string list \<Rightarrow> string" where
  "join_slash [] = []"
| "join_slash [e] = e"
| "join_slash (e # es) = e @ [CHR ''/''] @ join_slash es"

definition normalize_relative_path :: "string \<Rightarrow> change_error + string" where
  "normalize_relative_path raw =
    (let v = trim_space (map (\<lambda>c. if c = CHR 0x5C then CHR ''/'' else c) raw) in
    if v = [] \<or> len v > max_change_path_length \<or> CHR 0x00 \<in> set v then Inl ErrUnsafePath
    else if has_control v then Inl ErrUnsafePath
    else if is_abs v then Inl ErrUnsafePath
    else
      let els = clean_relative [] (split_slash v) in
      if els = [] \<or> hd els = ''..'' then Inl ErrUnsafePath else Inr (join_slash els))"

definition path_elements :: "string \<Rightarrow> elements" where
  "path_elements p = split_slash p"

text \<open>Every element down to the last is looked at; only the last may be missing.\<close>

fun check_components :: "denials \<Rightarrow> tree \<Rightarrow> elements \<Rightarrow> elements \<Rightarrow> change_error + unit" where
  "check_components denied t d [] = Inr ()"
| "check_components denied t d (c # cs) =
    (case lstat denied t (d @ [c]) of
      Missing \<Rightarrow> if cs = [] then Inr () else Inl ChangeFileSystem
    | StatFailed \<Rightarrow> Inl ChangeFileSystem
    | Found Link \<Rightarrow> Inl ErrUnsafePath
    | Found _ \<Rightarrow> check_components denied t (d @ [c]) cs)"

text \<open>The result is the path below the root that \<open>Rel\<close> gives for the joined path.\<close>

definition safe_join :: "denials \<Rightarrow> tree \<Rightarrow> string \<Rightarrow> string \<Rightarrow> change_error + elements" where
  "safe_join denied t rt relative =
    (let r = trim_space rt in
    if \<not> is_abs r then Inl ErrUnsafePath
    else bindE (normalize_relative_path relative) (\<lambda>path.
      let base = abs_elements r;
          rel = rel_elements base (abs_elements (r @ ''/'' @ path)) in
      if rel \<noteq> [] \<and> hd rel = ''..'' then Inl ErrUnsafePath
      else bindE (check_components denied t [] rel) (\<lambda>_. Inr rel)))"

section \<open>Snapshots\<close>

definition missing_file :: "string \<Rightarrow> change_file" where
  "missing_file p = \<lparr>cf_path = p, cf_mode = 0, cf_size = 0, cf_hash = [], cf_exists = False\<rparr>"

definition present_file :: "(string \<Rightarrow> string) \<Rightarrow> string \<Rightarrow> int \<Rightarrow> string \<Rightarrow> change_file" where
  "present_file sha p m s = \<lparr>cf_path = p, cf_mode = m, cf_size = len s, cf_hash = sha s, cf_exists = True\<rparr>"

text \<open>One path of a snapshot or of an observed tree: \<open>Lstat\<close>, then \<open>ReadFile\<close>.\<close>

definition observe_file :: "change_env \<Rightarrow> string \<Rightarrow> tree \<Rightarrow> string \<Rightarrow> change_error + change_file" where
  "observe_file C rt t p =
    bindE (safe_join (ce_denied C) t rt p) (\<lambda>_.
    case lstat (ce_denied C) t (path_elements p) of
      Missing \<Rightarrow> Inr (missing_file p)
    | StatFailed \<Rightarrow> Inl ChangeFileSystem
    | Found (File s m) \<Rightarrow>
        if read_file (ce_denied C) t (path_elements p) = None then Inl ChangeFileSystem
        else Inr (present_file (ce_sha C) p m s)
    | Found _ \<Rightarrow> Inl ErrUnsafePath)"

fun observe_files :: "change_env \<Rightarrow> nat \<Rightarrow> string \<Rightarrow> tree \<Rightarrow> string list \<Rightarrow> change_error + change_file list" where
  "observe_files C n rt t [] = Inr []"
| "observe_files C n rt t (p # ps) =
    (if ce_cancelled C n then Inl ChangeCancelled
     else bindE (observe_file C rt t p) (\<lambda>f.
       bindE (observe_files C (n + 1) rt t ps) (\<lambda>fs. Inr (f # fs))))"

definition normalize_paths :: "string list \<Rightarrow> change_error + string list" where
  "normalize_paths ps = bindE (mapE normalize_relative_path ps) (\<lambda>qs. Inr (sort (remdups qs)))"

text \<open>The digest covers the snapshot without its root and time, its own previous digest included.\<close>

definition manifest_hash :: "change_env \<Rightarrow> change_snapshot \<Rightarrow> string" where
  "manifest_hash C s = ce_manifest_digest C (s\<lparr>cs_root := [], cs_captured := None,
    cs_files := sort_by file_before (cs_files s)\<rparr>)"

definition slash_path :: "elements \<Rightarrow> string" where
  "slash_path es = CHR ''/'' # join_slash es"

definition capture_snapshot ::
    "change_env \<Rightarrow> string \<Rightarrow> string \<Rightarrow> string \<Rightarrow> string list \<Rightarrow> actor_ref \<Rightarrow> time \<Rightarrow> tree \<Rightarrow>
      change_error + change_snapshot" where
  "capture_snapshot C ws0 repo0 root0 paths actor now t =
    (let ws = trim_space ws0; repo = trim_space repo0; root1 = trim_space root0 in
    if ws = [] \<or> repo = [] then Inl (ChangeInvalid ''workspace_id and repository are required'')
    else if \<not> is_abs root1 then Inl (ChangeInvalid ''repository root must be absolute'')
    else if lstat (ce_denied C) t [] \<noteq> Found Directory then Inl ChangeFileSystem
    else bindE (normalize_paths paths) (\<lambda>ps.
    if \<not> open_root (ce_denied C) t then Inl ChangeFileSystem
    else
      let rt = slash_path (abs_elements root1) in
      bindE (observe_files C 0 rt t ps) (\<lambda>fs.
      let s = \<lparr>cs_workspace = ws, cs_repository = repo, cs_root = rt, cs_manifest = [], cs_files = fs, cs_actor = actor,
        cs_task = None, cs_session = None, cs_agent_run = None, cs_owner = [], cs_fence = 0, cs_captured = Some now\<rparr> in
      Inr (s\<lparr>cs_manifest := manifest_hash C s\<rparr>))))"

section \<open>Planning\<close>

record planned_change =
  pc_packet :: change_packet
  pc_contents :: "(string \<times> string) list"
  pc_tree_hash :: string

definition lookup_file :: "change_file list \<Rightarrow> string \<Rightarrow> change_file" where
  "lookup_file fs p = (case find (\<lambda>f. cf_path f = p) (rev fs) of None \<Rightarrow> missing_file [] | Some f \<Rightarrow> f)"

text \<open>\<open>op-%03d\<close>.\<close>

definition pad3 :: "nat \<Rightarrow> string" where
  "pad3 n = (let d = show_nat n in replicate (3 - length d) CHR ''0'' @ d)"

definition input_op :: "nat \<Rightarrow> string \<Rightarrow> change_op_input \<Rightarrow> change_op" where
  "input_op index path q = \<lparr>co_id = (if trim_space (oi_id q) = [] then ''op-'' @ pad3 (index + 1) else trim_space (oi_id q)),
    co_ordinal = (if oi_ordinal q = 0 then int index + 1 else oi_ordinal q), co_type = to_lower (trim_space (oi_type q)),
    co_path = path, co_destination = trim_space (oi_destination q),
    co_expected_hash = to_lower (trim_space (oi_expected_hash q)), co_expected_mode = oi_expected_mode q,
    co_new_hash = [], co_new_size = 0, co_new_mode = oi_new_mode q\<rparr>"

definition source_matches :: "change_file \<Rightarrow> change_op \<Rightarrow> bool" where
  "source_matches f p \<longleftrightarrow> cf_exists f \<and> co_expected_hash p \<noteq> [] \<and> co_expected_hash p = cf_hash f"

definition with_content :: "(string \<Rightarrow> string) \<Rightarrow> int \<Rightarrow> string \<Rightarrow> change_op \<Rightarrow> change_op" where
  "with_content sha mode content p = p\<lparr>co_new_hash := sha content, co_new_size := len content,
    co_new_mode := (if co_new_mode p = 0 then mode else co_new_mode p)\<rparr>"

text \<open>The switch over the type: the operation, its content and the destination it claims.\<close>

definition plan_op ::
    "(string \<Rightarrow> string) \<Rightarrow> change_file list \<Rightarrow> string list \<Rightarrow> string \<Rightarrow> change_op \<Rightarrow>
      change_error + change_op \<times> string list" where
  "plan_op sha files seen content p =
    (let f = lookup_file files (co_path p) in
    if co_type p = ''create_file'' then
      if cf_exists f then Inl (ErrSourceConflict (co_path p))
      else if content = [] then Inl (ErrChangeOperation ''create content is required'')
      else Inr (with_content sha 420 content p, seen)
    else if co_type p = ''replace_file'' then
      if \<not> source_matches f p then Inl (ErrSourceConflict (co_path p))
      else if content = [] then Inl (ErrChangeOperation ''replacement content is required'')
      else Inr (with_content sha (cf_mode f) content p, seen)
    else if co_type p = ''delete_file'' then
      if \<not> source_matches f p then Inl (ErrSourceConflict (co_path p)) else Inr (p, seen)
    else if co_type p = ''rename_file'' then
      if \<not> source_matches f p then Inl (ErrSourceConflict (co_path p))
      else bindE (normalize_relative_path (co_destination p)) (\<lambda>d.
        if cf_exists (lookup_file files d) then Inl (ErrSourceConflict d)
        else if d \<in> set seen then Inl (ErrChangeOperation ''duplicate destination'')
        else Inr (p\<lparr>co_destination := d, co_new_hash := cf_hash f, co_new_size := cf_size f, co_new_mode := cf_mode f\<rparr>, d # seen))
    else
      if \<not> source_matches f p \<or> co_new_mode p = 0 then Inl (ErrSourceConflict (co_path p))
      else Inr (p\<lparr>co_new_hash := cf_hash f, co_new_size := cf_size f\<rparr>, seen))"

fun plan_ops ::
    "(string \<Rightarrow> string) \<Rightarrow> change_budgets \<Rightarrow> change_file list \<Rightarrow> nat \<Rightarrow> string list \<Rightarrow> int \<Rightarrow> change_op_input list \<Rightarrow>
      change_error + (change_op \<times> string) list" where
  "plan_ops sha b files index seen used [] = Inr []"
| "plan_ops sha b files index seen used (q # qs) =
    bindE (normalize_relative_path (oi_path q)) (\<lambda>path.
    if path \<in> set seen then Inl (ErrChangeOperation ''duplicate path'')
    else if to_lower (trim_space (oi_type q)) \<notin> set change_op_types then Inl (ErrChangeOperation ''unsupported type'')
    else bindE (plan_op sha files (path # seen) (oi_content q) (input_op index path q)) (\<lambda>(p, seen').
    if co_new_size p > cb_file_bytes b then Inl ErrPacketBudget
    else if used + co_new_size p > cb_total_bytes b then Inl ErrPacketBudget
    else bindE (plan_ops sha b files (index + 1) seen' (used + co_new_size p) qs) (\<lambda>ps.
      Inr ((p, oi_content q) # ps))))"

definition op_before :: "change_op \<Rightarrow> change_op \<Rightarrow> bool" where
  "op_before a b \<longleftrightarrow> (if co_ordinal a \<noteq> co_ordinal b then co_ordinal a < co_ordinal b else co_path a < co_path b)"

definition sorted_operations :: "change_op list \<Rightarrow> change_op list" where
  "sorted_operations ps = sort_by op_before ps"

text \<open>The files the operations are expected to leave, by path, and the document that is hashed.\<close>

definition predict :: "change_op \<Rightarrow> (string \<times> change_file) list \<Rightarrow> (string \<times> change_file) list" where
  "predict p m =
    (let f = (case map_of m (co_path p) of None \<Rightarrow> missing_file [] | Some f \<Rightarrow> f) in
    if co_type p = ''create_file'' \<or> co_type p = ''replace_file'' then
      AList.update (co_path p) \<lparr>cf_path = co_path p, cf_mode = co_new_mode p, cf_size = co_new_size p,
        cf_hash = co_new_hash p, cf_exists = True\<rparr> m
    else if co_type p = ''delete_file'' then AList.delete (co_path p) m
    else if co_type p = ''rename_file'' then
      AList.update (co_destination p) (f\<lparr>cf_path := co_destination p\<rparr>) (AList.delete (co_path p) m)
    else if co_type p = ''chmod_file'' then AList.update (co_path p) (f\<lparr>cf_mode := co_new_mode p\<rparr>) m
    else m)"

definition predicted_files :: "change_snapshot \<Rightarrow> change_op list \<Rightarrow> change_file list" where
  "predicted_files s ps = sort_by file_before (map snd
    (fold predict (sorted_operations ps) (fold (\<lambda>f. AList.update (cf_path f) f) (cs_files s) [])))"

definition file_document :: "change_file \<Rightarrow> string" where
  "file_document f = json_object [(''path'', json_string (cf_path f)), (''mode'', show_int (cf_mode f)),
    (''byte_size'', show_int (cf_size f)), (''content_hash'', json_string (cf_hash f)), (''exists'', json_bool (cf_exists f))]"

definition tree_hash :: "(string \<Rightarrow> string) \<Rightarrow> change_file list \<Rightarrow> string" where
  "tree_hash sha fs = sha (json_array (map file_document fs))"

definition predicted_tree_hash :: "change_env \<Rightarrow> change_snapshot \<Rightarrow> change_op list \<Rightarrow> string" where
  "predicted_tree_hash C s ps = tree_hash (ce_sha C) (predicted_files s ps)"

definition plan_change :: "change_env \<Rightarrow> string \<Rightarrow> string \<Rightarrow> change_request \<Rightarrow> change_snapshot \<Rightarrow> change_error + planned_change" where
  "plan_change C new_req new_chg r0 source0 =
    bindE (normalize_change_request new_req new_chg r0) (\<lambda>r.
    if cs_workspace source0 \<noteq> cr_workspace r \<or> cs_repository source0 \<noteq> cr_repository r
    then Inl (ChangeInvalid ''source snapshot crosses workspace or repository boundary'')
    else if len (cr_operations r) > cb_operations (cr_budgets r) then Inl ErrPacketBudget
    else
      let source = source0\<lparr>cs_manifest := manifest_hash C source0\<rparr> in
      bindE (plan_ops (ce_sha C) (cr_budgets r) (cs_files source) 0 [] 0 (cr_operations r)) (\<lambda>planned.
      let ps = map fst planned; h = predicted_tree_hash C source ps in
      Inr \<lparr>pc_packet = \<lparr>cp_schema_version = 1, cp_workspace = cr_workspace r, cp_repository = cr_repository r,
             cp_source = source, cp_operations = ps, cp_budgets = cr_budgets r, cp_tree_hash = h, cp_policy = cr_policy r\<rparr>,
           pc_contents = fold (\<lambda>(p, c). if co_type p = ''create_file'' \<or> co_type p = ''replace_file''
             then AList.update (co_id p) c else id) planned [],
           pc_tree_hash = h\<rparr>))"

section \<open>Preconditions\<close>

definition no_conflict :: change_conflict where
  "no_conflict = \<lparr>cc_path = [], cc_expected_hash = [], cc_observed_hash = [], cc_expected_exists = False,
    cc_observed_exists = False, cc_reason = []\<rparr>"

definition change_error_text :: "change_error \<Rightarrow> string" where
  "change_error_text e = (case e of
      ErrUnsafePath \<Rightarrow> ''unsafe repository path''
    | ChangeFileSystem \<Rightarrow> ''stat change path''
    | _ \<Rightarrow> ''repository change'')"

definition observed_hash :: "change_env \<Rightarrow> tree \<Rightarrow> elements \<Rightarrow> string option" where
  "observed_hash C t p = (case lstat (ce_denied C) t p of
      Found (File s m) \<Rightarrow> (if read_file (ce_denied C) t p = None then None else Some (ce_sha C s))
    | _ \<Rightarrow> Some [])"

definition check_precondition :: "change_env \<Rightarrow> string \<Rightarrow> tree \<Rightarrow> change_op \<Rightarrow> change_conflict option" where
  "check_precondition C rt t p =
    (case safe_join (ce_denied C) t rt (co_path p) of
      Inl e \<Rightarrow> Some (no_conflict\<lparr>cc_path := co_path p, cc_reason := change_error_text e\<rparr>)
    | Inr target \<Rightarrow>
        let st = lstat (ce_denied C) t target; found = (st \<noteq> Missing);
            base = no_conflict\<lparr>cc_path := co_path p, cc_expected_hash := co_expected_hash p\<rparr> in
        if st = StatFailed then Some (base\<lparr>cc_reason := ''stat''\<rparr>)
        else if st = Found Link then Some (base\<lparr>cc_observed_exists := True, cc_reason := ''symlink''\<rparr>)
        else case observed_hash C t target of
          None \<Rightarrow> Some (base\<lparr>cc_observed_exists := True, cc_reason := ''read''\<rparr>)
        | Some observed \<Rightarrow>
            let expected = (co_type p \<noteq> ''create_file'') in
            if found \<noteq> expected \<or> expected \<and> observed \<noteq> co_expected_hash p then
              Some (base\<lparr>cc_observed_hash := observed, cc_expected_exists := expected, cc_observed_exists := found,
                cc_reason := ''source precondition mismatch''\<rparr>)
            else if co_type p = ''rename_file'' then
              (case safe_join (ce_denied C) t rt (co_destination p) of
                Inl e \<Rightarrow> None
              | Inr d \<Rightarrow> (case lstat (ce_denied C) t d of
                  Found n \<Rightarrow> Some (no_conflict\<lparr>cc_path := co_destination p, cc_observed_exists := True,
                    cc_reason := ''rename destination exists''\<rparr>)
                | _ \<Rightarrow> None))
            else None)"

section \<open>Application\<close>

definition fs_result :: "bool \<times> tree \<Rightarrow> (change_error + unit) \<times> tree" where
  "fs_result r = (if fst r then Inr () else Inl ChangeFileSystem, snd r)"

definition write_content ::
    "change_env \<Rightarrow> string \<Rightarrow> change_op \<Rightarrow> elements \<Rightarrow> tree \<Rightarrow> (change_error + unit) \<times> tree" where
  "write_content C ws p target t =
    (case ce_resolve C of
      None \<Rightarrow> (Inl (ChangeInvalid ''content resolver is required''), t)
    | Some resolve \<Rightarrow> (case resolve ws (co_new_hash p) of
        Inl e \<Rightarrow> (Inl e, t)
      | Inr content \<Rightarrow>
          if ce_sha C content \<noteq> co_new_hash p then (Inl (ErrRecovery ''content hash mismatch''), t)
          else
            let (ok, t1) = mkdir_all (ce_denied C) [] (butlast target) t in
            if \<not> ok then (Inl ChangeFileSystem, t1)
            else fs_result (replace_file (ce_denied C) (ce_temp C target) target content (co_new_mode p) t1)))"

definition apply_one :: "change_env \<Rightarrow> string \<Rightarrow> string \<Rightarrow> change_op \<Rightarrow> tree \<Rightarrow> (change_error + unit) \<times> tree" where
  "apply_one C ws rt p t =
    (case safe_join (ce_denied C) t rt (co_path p) of
      Inl e \<Rightarrow> (Inl e, t)
    | Inr target \<Rightarrow>
        if co_type p = ''create_file'' \<or> co_type p = ''replace_file'' then write_content C ws p target t
        else if co_type p = ''delete_file'' then fs_result (remove_node (ce_denied C) target t)
        else if co_type p = ''rename_file'' then
          (case safe_join (ce_denied C) t rt (co_destination p) of
            Inl e \<Rightarrow> (Inl e, t)
          | Inr d \<Rightarrow>
              let (ok, t1) = mkdir_all (ce_denied C) [] (butlast d) t in
              if \<not> ok then (Inl ChangeFileSystem, t1) else fs_result (rename_node (ce_denied C) target d t1))
        else if co_type p = ''chmod_file'' then fs_result (chmod_node (ce_denied C) target (co_new_mode p) t)
        else (Inl (ErrChangeOperation ''unsupported type''), t))"

definition affected_paths :: "change_snapshot \<Rightarrow> change_op list \<Rightarrow> string list" where
  "affected_paths s ps = sort (remdups (map cf_path (cs_files s) @
    concat (map (\<lambda>p. if co_type p = ''rename_file'' then [co_path p, co_destination p] else [co_path p]) ps)))"

definition never_cancelled :: "change_env \<Rightarrow> change_env" where
  "never_cancelled C = C\<lparr>ce_cancelled := (\<lambda>_. False)\<rparr>"

definition observed_files :: "change_env \<Rightarrow> string \<Rightarrow> tree \<Rightarrow> change_snapshot \<Rightarrow> change_op list \<Rightarrow> change_error + change_file list" where
  "observed_files C rt t s ps =
    (if \<not> open_root (ce_denied C) t then Inl ChangeFileSystem
     else observe_files (never_cancelled C) 0 rt t (affected_paths s ps))"

text \<open>\<open>observedTreeHashFull\<close>; \<open>Apply\<close> drops its error and keeps the empty hash.\<close>

definition observed_tree_hash_full ::
    "change_env \<Rightarrow> string \<Rightarrow> tree \<Rightarrow> change_snapshot \<Rightarrow> change_op list \<Rightarrow> change_error + string" where
  "observed_tree_hash_full C rt t s ps = bindE (observed_files C rt t s ps) (\<lambda>fs. Inr (tree_hash (ce_sha C) fs))"

record applied_change =
  ax_result_hash :: string
  ax_expected_hash :: string
  ax_changed :: bool
  ax_applied :: nat
  ax_operations :: "change_op list"
  ax_conflict :: "change_conflict option"

fun apply_loop ::
    "change_env \<Rightarrow> string \<Rightarrow> string \<Rightarrow> bool \<Rightarrow> nat \<Rightarrow> change_op list \<Rightarrow> applied_change \<Rightarrow> tree \<Rightarrow>
      (applied_change \<times> change_error option) \<times> tree" where
  "apply_loop C ws rt dry n [] r t = ((r, None), t)"
| "apply_loop C ws rt dry n (p # ps) r t =
    (if ce_cancelled C n then ((r, Some ChangeCancelled), t)
     else case check_precondition C rt t p of
       Some c \<Rightarrow> ((r\<lparr>ax_conflict := Some c\<rparr>, Some (ErrSourceConflict (cc_path c))), t)
     | None \<Rightarrow>
         if dry then apply_loop C ws rt dry (n + 1) ps r t
         else case apply_one C ws rt p t of
           (Inl e, t') \<Rightarrow> ((r, Some e), t')
         | (Inr u, t') \<Rightarrow> apply_loop C ws rt dry (n + 1) ps (r\<lparr>ax_applied := ax_applied r + 1\<rparr>) t')"

definition applied_start :: "change_env \<Rightarrow> change_packet \<Rightarrow> applied_change" where
  "applied_start C k = \<lparr>ax_result_hash = [], ax_expected_hash = predicted_tree_hash C (cp_source k) (cp_operations k),
    ax_changed = False, ax_applied = 0, ax_operations = cp_operations k, ax_conflict = None\<rparr>"

definition no_application :: applied_change where
  "no_application = \<lparr>ax_result_hash = [], ax_expected_hash = [], ax_changed = False, ax_applied = 0,
    ax_operations = [], ax_conflict = None\<rparr>"

definition apply_packet ::
    "change_env \<Rightarrow> string \<Rightarrow> change_packet \<Rightarrow> bool \<Rightarrow> tree \<Rightarrow> (applied_change \<times> change_error option) \<times> tree" where
  "apply_packet C rt k dry t =
    (if rt = [] then ((no_application, Some (ChangeInvalid ''repository root is required'')), t)
     else if cp_workspace k = [] then ((no_application, Some (ChangeInvalid ''packet workspace_id is required'')), t)
     else
       let ((r, e), t') = apply_loop C (cp_workspace k) rt dry 0 (sorted_operations (cp_operations k)) (applied_start C k) t in
       if e \<noteq> None then ((r, e), t')
       else if dry then ((r\<lparr>ax_result_hash := ax_expected_hash r\<rparr>, None), t')
       else
         let h = (case observed_tree_hash_full C rt t' (cp_source k) (cp_operations k) of Inl e \<Rightarrow> [] | Inr h \<Rightarrow> h);
             r' = r\<lparr>ax_result_hash := h, ax_changed := True\<rparr> in
         if h \<noteq> ax_expected_hash r then ((r', Some (ErrRecovery ''resulting tree hash mismatch'')), t') else ((r', None), t'))"

section \<open>Observation for validators\<close>

definition regular_files :: "change_file list \<Rightarrow> nat \<times> int" where
  "regular_files fs = (length (filter cf_exists fs), sum_list (map cf_size (filter cf_exists fs)))"

definition observe_applied ::
    "change_env \<Rightarrow> string \<Rightarrow> change_packet \<Rightarrow> tree \<Rightarrow> change_error + (string \<times> nat \<times> int)" where
  "observe_applied C rt k t =
    (if trim_space rt = [] then Inl (ChangeInvalid ''repository root is required'')
     else if cp_workspace k = [] then Inl (ChangeInvalid ''packet workspace_id is required'')
     else if ce_cancelled C 0 then Inl ChangeCancelled
     else bindE (observed_files C rt t (cp_source k) (cp_operations k)) (\<lambda>fs.
       bindE (observe_files C 1 rt t (affected_paths (cp_source k) (cp_operations k))) (\<lambda>gs.
       Inr (tree_hash (ce_sha C) fs, regular_files gs))))"

fun check_all_preconditions :: "change_env \<Rightarrow> nat \<Rightarrow> string \<Rightarrow> tree \<Rightarrow> change_op list \<Rightarrow> change_error + unit" where
  "check_all_preconditions C n rt t [] = Inr ()"
| "check_all_preconditions C n rt t (p # ps) =
    (if ce_cancelled C n then Inl ChangeCancelled
     else case check_precondition C rt t p of
       Some c \<Rightarrow> Inl (ErrSourceConflict (cc_path c))
     | None \<Rightarrow> check_all_preconditions C (n + 1) rt t ps)"

definition observe_packet_state ::
    "change_env \<Rightarrow> string \<Rightarrow> change_packet \<Rightarrow> tree \<Rightarrow> change_error + (string \<times> nat \<times> int)" where
  "observe_packet_state C rt k t =
    (if trim_space rt = [] then Inl (ChangeInvalid ''repository root is required'')
     else if cp_workspace k = [] then Inl (ChangeInvalid ''packet workspace_id is required'')
     else bindE (check_all_preconditions C 0 rt t (sorted_operations (cp_operations k))) (\<lambda>_.
       bindE (observed_files C rt t (cp_source k) (cp_operations k)) (\<lambda>fs.
       bindE (observe_files (never_cancelled C) 0 rt t (affected_paths (cp_source k) (cp_operations k))) (\<lambda>gs.
       Inr (tree_hash (ce_sha C) fs, regular_files gs)))))"

end
