(* ===== verification/Change_Paths.thy ===== *)
theory Change_Paths
  imports Change_Planner
begin

text \<open>
  What path normalisation and \<open>safe_join\<close> guarantee: a normalised path is a list of plain
  elements, and a joined path runs through directories of the root only.
\<close>

section \<open>Elements\<close>

lemma split_slash_ne [simp]: "split_slash s \<noteq> []"
  by (induction s rule: split_slash.induct) (auto split: list.split)

lemma split_slash_no_slash: "e \<in> set (split_slash s) \<Longrightarrow> CHR ''/'' \<notin> set e"
proof (induction s arbitrary: e)
  case (Cons c cs)
  then show ?case by (cases "split_slash cs") (auto split: if_splits)
qed simp

lemma split_slash_plain: "CHR ''/'' \<notin> set e \<Longrightarrow> split_slash e = [e]"
  by (induction e) auto

lemma split_slash_cons: "CHR ''/'' \<notin> set e \<Longrightarrow> split_slash (e @ CHR ''/'' # s) = e # split_slash s"
  by (induction e) auto

lemma split_slash_append: "split_slash (a @ CHR ''/'' # b) = split_slash a @ split_slash b"
proof (induction a)
  case (Cons c a)
  then show ?case by (cases "split_slash a") auto
qed simp

lemma split_join_slash:
  "es \<noteq> [] \<Longrightarrow> \<forall>e \<in> set es. CHR ''/'' \<notin> set e \<Longrightarrow> split_slash (join_slash es) = es"
  by (induction es rule: join_slash.induct) (simp_all add: split_slash_plain split_slash_cons)

lemma clean_elements_append: "clean_elements acc (xs @ ys) = clean_elements (rev (clean_elements acc xs)) ys"
  by (induction acc xs rule: clean_elements.induct) auto

lemma clean_elements_id: "list_all path_element ys \<Longrightarrow> clean_elements acc ys = rev acc @ ys"
  by (induction ys arbitrary: acc) (auto simp: path_element_def)

lemma rel_elements_append: "rel_elements b (b @ ts) = ts"
  by (induction b) (cases ts; simp)+

text \<open>Leading \<open>..\<close> elements aside, what \<open>Clean\<close> leaves are plain elements of its input.\<close>

lemma clean_relative_shape:
  assumes "rev acc = replicate k ''..'' @ xs" and "list_all path_element xs"
  shows "\<exists>k xs. clean_relative acc es = replicate k ''..'' @ xs \<and> list_all path_element xs"
  using assms
proof (induction es arbitrary: acc k xs)
  case Nil
  then show ?case by auto
next
  case (Cons e es)
  consider (skip) "e = [] \<or> e = ''.''" | (up) "e = ''..''" | (plain) "path_element e"
    by (auto simp: path_element_def)
  then show ?case
  proof cases
    case skip
    with Cons show ?thesis by auto
  next
    case up
    show ?thesis
    proof (cases xs rule: rev_cases)
      case Nil
      with arg_cong [OF Cons.prems(1), of rev] have acc: "acc = replicate k ''..''" by simp
      have "clean_relative acc (e # es) = clean_relative (e # acc) es"
        using up by (cases k) (simp_all add: acc)
      moreover have "rev (e # acc) = replicate (Suc k) ''..'' @ []"
        using up by (simp add: acc replicate_append_same)
      ultimately show ?thesis using Cons.IH [of "e # acc" "Suc k" "[]"] by simp
    next
      case (snoc ys y)
      have "acc = rev (replicate k ''..'' @ xs)" using arg_cong [OF Cons.prems(1), of rev] by simp
      with snoc have acc: "acc = y # rev (replicate k ''..'' @ ys)" by simp
      from snoc Cons.prems(2) have y: "path_element y" "list_all path_element ys" by simp_all
      have "clean_relative acc (e # es) = clean_relative (rev (replicate k ''..'' @ ys)) es"
        using up y by (simp add: acc path_element_def)
      with Cons.IH [of "rev (replicate k ''..'' @ ys)" k ys] y show ?thesis by simp
    qed
  next
    case plain
    have "clean_relative acc (e # es) = clean_relative (e # acc) es"
      using plain by (simp add: path_element_def)
    moreover have "rev (e # acc) = replicate k ''..'' @ (xs @ [e])" using Cons.prems by simp
    ultimately show ?thesis using Cons.IH [of "e # acc" k "xs @ [e]"] Cons.prems plain by simp
  qed
qed

lemma clean_relative_set: "set (clean_relative acc es) \<subseteq> set acc \<union> set es"
  by (induction acc es rule: clean_relative.induct) (auto split: list.splits if_splits)

definition plain_path :: "elements \<Rightarrow> bool" where
  "plain_path es \<longleftrightarrow> es \<noteq> [] \<and> list_all path_element es \<and> (\<forall>e \<in> set es. CHR ''/'' \<notin> set e)"

lemma normalized_path:
  assumes "normalize_relative_path raw = Inr p"
  shows "plain_path (path_elements p)" and "p = join_slash (path_elements p)"
proof -
  from assms obtain v where v: "p = join_slash (clean_relative [] (split_slash v))"
    "clean_relative [] (split_slash v) \<noteq> []" "hd (clean_relative [] (split_slash v)) \<noteq> ''..''"
    by (auto simp: normalize_relative_path_def Let_def split: if_splits)
  define els where "els = clean_relative [] (split_slash v)"
  with v have p: "p = join_slash els" and ne: "els \<noteq> []" and hd: "hd els \<noteq> ''..''" by simp_all
  from clean_relative_shape [of "[]" 0 "[]" "split_slash v"] obtain k xs
    where shape: "els = replicate k ''..'' @ xs" "list_all path_element xs" by (auto simp: els_def)
  with ne hd have "els = xs" by (cases k) auto
  moreover have slash: "\<forall>e \<in> set els. CHR ''/'' \<notin> set e"
    using clean_relative_set [of "[]" "split_slash v"] split_slash_no_slash [of _ v] by (auto simp: els_def)
  ultimately have "plain_path els" using shape ne by (simp add: plain_path_def)
  moreover have "path_elements p = els" unfolding path_elements_def p by (rule split_join_slash [OF ne slash])
  ultimately show "plain_path (path_elements p)" and "p = join_slash (path_elements p)" by (simp_all add: p)
qed

lemma path_elements_inj:
  "normalize_relative_path a = Inr p \<Longrightarrow> normalize_relative_path b = Inr q \<Longrightarrow> path_elements p = path_elements q \<Longrightarrow> p = q"
  by (metis normalized_path(2))

section \<open>Joined paths\<close>

lemma safe_join_elements:
  "safe_join denied t rt relative =
    (if \<not> is_abs (trim_space rt) then Inl ErrUnsafePath
     else bindE (normalize_relative_path relative) (\<lambda>p.
       bindE (check_components denied t [] (path_elements p)) (\<lambda>_. Inr (path_elements p))))"
proof (cases "normalize_relative_path relative")
  case (Inr p)
  note plain = normalized_path [OF Inr]
  have "abs_elements (r @ ''/'' @ p) = abs_elements r @ path_elements p" for r
  proof -
    have "split_slash (r @ ''/'' @ p) = split_slash r @ path_elements p"
      using split_slash_append [of r p] by (simp add: path_elements_def)
    with plain show ?thesis
      by (simp add: abs_elements_def clean_elements_append clean_elements_id plain_path_def)
  qed
  moreover have "hd (path_elements p) \<noteq> ''..''"
    using plain by (cases "path_elements p") (auto simp: plain_path_def path_element_def)
  ultimately show ?thesis using Inr by (simp add: safe_join_def Let_def rel_elements_append)
qed (simp add: safe_join_def Let_def)

lemma check_components_walk:
  assumes "check_components denied t d cs = Inr ()" and "0 < k" and "k < length cs"
  shows "\<exists>n. lstat denied t (d @ take k cs) = Found n \<and> n \<noteq> Link"
  using assms
proof (induction cs arbitrary: d k)
  case (Cons c cs)
  then have "cs \<noteq> []" by auto
  with Cons.prems have n: "\<exists>n. lstat denied t (d @ [c]) = Found n \<and> n \<noteq> Link"
    by (auto split: stat.splits node.splits)
  with Cons.prems \<open>cs \<noteq> []\<close> have rest: "check_components denied t (d @ [c]) cs = Inr ()"
    by (auto split: stat.splits node.splits)
  show ?case
  proof (cases "k = 1")
    case True
    with n show ?thesis by simp
  next
    case False
    with Cons.prems have "0 < k - 1" "k - 1 < length cs" by auto
    from Cons.IH [OF rest this] have "\<exists>n. lstat denied t (d @ c # take (k - 1) cs) = Found n \<and> n \<noteq> Link" by simp
    moreover have "take k (c # cs) = c # take (k - 1) cs" using Cons.prems by (cases k) auto
    ultimately show ?thesis by simp
  qed
qed simp

lemma check_components_last:
  assumes "check_components denied t d cs = Inr ()" and "cs \<noteq> []"
  shows "lstat denied t (d @ cs) = Missing \<or> (\<exists>n. lstat denied t (d @ cs) = Found n \<and> n \<noteq> Link)"
  using assms
proof (induction cs arbitrary: d)
  case (Cons c cs)
  show ?case
  proof (cases "cs = []")
    case True
    with Cons.prems show ?thesis by (auto split: stat.splits node.splits)
  next
    case False
    with Cons.prems have "check_components denied t (d @ [c]) cs = Inr ()" by (auto split: stat.splits node.splits)
    from Cons.IH [OF this False] show ?thesis by simp
  qed
qed simp

text \<open>Below a mounted root, a joined path has directories for parents and is not a link.\<close>

lemma safe_join_Inr:
  assumes "safe_join denied t rt relative = Inr els" and "node_at t [] = Some Directory"
  shows "parents_ok t els" and "plain_path els" and "node_at t els \<noteq> Some Link" and "\<not> denied SysLstat els"
    and "\<exists>p. normalize_relative_path relative = Inr p \<and> els = path_elements p"
proof -
  from assms(1) obtain p where p: "normalize_relative_path relative = Inr p" "els = path_elements p"
    and check: "check_components denied t [] els = Inr ()"
    by (auto simp: safe_join_elements results split: if_splits)
  then show plain: "plain_path els" and "\<exists>p. normalize_relative_path relative = Inr p \<and> els = path_elements p"
    using normalized_path [OF p(1)] by auto
  then have ne: "els \<noteq> []" by (simp add: plain_path_def)
  note last = check_components_last [OF check ne]
  then show "\<not> denied SysLstat els" by (auto simp: lstat_def split: if_splits)
  show parents: "parents_ok t els"
    unfolding parents_ok_def
  proof (intro allI impI)
    fix k assume k: "k < length els"
    show "node_at t (take k els) = Some Directory"
    proof (cases "Suc k < length els")
      case True
      from check_components_walk [OF check _ True] obtain n where "walk t [] (take (Suc k) els) = Found n"
        by (auto simp: lstat_def split: if_splits)
      then have "\<forall>j < Suc k. node_at t (take j (take (Suc k) els)) = Some Directory" using True by (simp add: walk_found)
      then show ?thesis by (auto dest: spec [of _ k])
    next
      case False
      with k have k': "k = length els - 1" by simp
      show ?thesis
      proof (cases "k = 0")
        case True
        then show ?thesis using assms(2) by simp
      next
        case False
        with check_components_walk [OF check, of k] k obtain n where n: "walk t [] (take k els) = Found n" "n \<noteq> Link"
          by (auto simp: lstat_def split: if_splits)
        then have above: "\<forall>j < k. node_at t (take j els) = Some Directory" "node_at t (take k els) = Some n"
          using k by (auto simp: walk_found min_def split: if_splits)
        have "els = take k els @ [els ! k]" using k' k by (metis Suc_diff_1 append_take_drop_id id_take_nth_drop
          length_greater_0_conv ne take_Suc_conv_app_nth take_all_iff order_refl)
        moreover have "walk t [] (take k els @ [els ! k]) = StatFailed" if "n \<noteq> Directory"
        proof -
          have "walk t d (cs @ [e]) = StatFailed"
            if "\<forall>j < length cs. node_at t (d @ take j cs) = Some Directory" "node_at t (d @ cs) = Some n" for d cs e
            using that \<open>n \<noteq> Directory\<close>
          proof (induction cs arbitrary: d)
            case (Cons c cs)
            from Cons.prems have "node_at t d = Some Directory" by (auto dest: spec [of _ 0])
            moreover have "\<forall>j < length cs. node_at t ((d @ [c]) @ take j cs) = Some Directory"
              using Cons.prems(1) by (auto dest: spec [of _ "Suc j" for j])
            ultimately show ?case using Cons.IH [of "d @ [c]"] Cons.prems by simp
          qed (simp split: node.splits)
          from this [of "take k els" "[]"] above k show ?thesis by (simp add: min_def)
        qed
        ultimately have "n = Directory" using last \<open>\<not> denied SysLstat els\<close> by (cases "n = Directory") (simp_all add: lstat_def)
        with above show ?thesis by simp
      qed
    qed
  qed
  with last show "node_at t els \<noteq> Some Link" by (auto simp: lstat_def walk_parents split: if_splits option.splits)
qed

end
