(* ===== verification/Change_Application.thy ===== *)
theory Change_Application
  imports Change_Paths
begin

text \<open>
  Applying a packet: which nodes an application can touch, what is done when it stops early,
  and what an operation of a creation, a replacement or a mode change needs to be applied and to
  leave what was predicted.
\<close>

section \<open>Single calls\<close>

definition temporary_path :: "change_env \<Rightarrow> elements \<Rightarrow> elements" where
  "temporary_path C p = butlast p @ [ce_temp C p]"

lemma chmod_node_frame: "q \<noteq> p \<Longrightarrow> node_at (snd (chmod_node denied p m t)) q = node_at t q"
  by (auto simp: chmod_node_def split: stat.splits node.splits)

lemma remove_node_frame: "q \<noteq> p \<Longrightarrow> node_at (snd (remove_node denied p t)) q = node_at t q"
  by (auto simp: remove_node_def split: stat.splits)

lemma rename_node_frame:
  assumes "node_at t old \<noteq> Some Directory" and "q \<noteq> old" and "q \<noteq> new"
  shows "node_at (snd (rename_node denied old new t)) q = node_at t q"
  using assms by (auto simp: rename_node_def walk_found split: stat.splits)

lemma chmod_node_file: "\<not> denied SysChmod p \<Longrightarrow> parents_ok t p \<Longrightarrow> node_at t p = Some (File s m') \<Longrightarrow>
    chmod_node denied p m t = (True, put_node p (File s (permission_bits m)) t)"
  by (simp add: chmod_node_def walk_parents)

lemma node_at_replaced:
  assumes "q \<noteq> target" and "q \<noteq> butlast target @ [tmp]"
  shows "node_at (snd (replace_file denied tmp target content mode t)) q = node_at t q"
proof -
  let ?tmp = "butlast target @ [tmp]" and ?t1 = "put_node (butlast target @ [tmp]) (File [] 384) t"
  obtain ok1 t2 where t2: "chmod_node denied ?tmp mode ?t1 = (ok1, t2)" by fastforce
  have q2: "node_at t2 q = node_at t q" using chmod_node_frame [of q ?tmp denied mode ?t1] t2 assms by simp
  define t3 where "t3 = put_node ?tmp (case node_at t2 ?tmp of Some (File s m) \<Rightarrow> File content m | _ \<Rightarrow> File content 384) t2"
  have t3: "node_at t3 q = node_at t q" "node_at t3 ?tmp \<noteq> Some Directory"
    using q2 assms by (auto simp: t3_def split: option.splits node.splits)
  obtain ok4 t4 where t4: "rename_node denied ?tmp target t3 = (ok4, t4)" by fastforce
  have q4: "node_at t4 q = node_at t q" using rename_node_frame [OF t3(2), of q target denied] t4 t3 assms by simp
  show ?thesis
    unfolding replace_file_def Let_def t2 case_prod_conv t3_def [symmetric] t4
    using assms q2 q4 by (simp add: remove_node_frame)
qed

lemma replace_file_quiet:
  assumes "denied = (\<lambda>_ _. False)" and "parents_ok t target" and "target \<noteq> []"
    and "node_at t target \<noteq> Some Directory" and "node_at t (butlast target @ [tmp]) = None"
    and "butlast target @ [tmp] \<noteq> target"
  shows "\<exists>t'. replace_file denied tmp target content mode t = (True, t') \<and>
    (\<forall>q. node_at t' q = (if q = target then Some (File content (permission_bits mode)) else node_at t q))"
proof -
  let ?tmp = "butlast target @ [tmp]"
  let ?t1 = "put_node ?tmp (File [] 384) t"
  have dir: "node_at t (butlast target) = Some Directory" using assms(2,3) by (rule parents_ok_butlast)
  have strict: "take n ?tmp \<noteq> ?tmp" if "n < length ?tmp" for n using that by (metis length_take min.absorb4 nat_neq_iff)
  have parents: "parents_ok u ?tmp" if "\<And>q. q \<noteq> ?tmp \<Longrightarrow> node_at u q = node_at t q" for u
    unfolding parents_ok_def
  proof (intro allI impI)
    fix n assume n: "n < length ?tmp"
    then have n': "n < length target" using assms(3) by simp
    then have "n - length (butlast target) = 0" by simp
    with n' have "take n ?tmp = take n target" by (simp only: take_append take_butlast take_0 append_Nil2)
    with n' have "node_at t (take n ?tmp) = Some Directory" using assms(2) by (simp add: parents_ok_def)
    with that [OF strict [OF n]] show "node_at u (take n ?tmp) = Some Directory" by simp
  qed
  have chmod: "chmod_node denied ?tmp mode ?t1 = (True, put_node ?tmp (File [] (permission_bits mode)) ?t1)"
    by (rule chmod_node_file) (simp_all add: assms(1) parents)
  let ?t3 = "put_node ?tmp (File content (permission_bits mode)) (put_node ?tmp (File [] (permission_bits mode)) ?t1)"
  have walk: "walk ?t3 [] ?tmp = Found (File content (permission_bits mode))"
    using parents [of ?t3] by (simp add: walk_parents)
  have "butlast target \<noteq> ?tmp" by (metis append_self_conv list.distinct(1))
  then have ren: "rename_node denied ?tmp target ?t3 = (True, put_node target (File content (permission_bits mode)) (drop_node ?tmp ?t3))"
    using assms dir walk by (simp add: rename_node_def)
  let ?t4 = "put_node target (File content (permission_bits mode)) (drop_node ?tmp ?t3)"
  have "\<forall>q. node_at (snd (remove_node denied ?tmp ?t4)) q =
      (if q = target then Some (File content (permission_bits mode)) else node_at t q)"
  proof
    fix q
    show "node_at (snd (remove_node denied ?tmp ?t4)) q =
        (if q = target then Some (File content (permission_bits mode)) else node_at t q)"
    proof (cases "q = ?tmp")
      case True
      have "walk ?t4 [] ?tmp = Found n \<Longrightarrow> False" for n using assms(6) by (simp add: walk_found)
      then have "remove_node denied ?tmp ?t4 = (False, ?t4)" by (auto simp: remove_node_def assms(1) split: stat.split)
      with True assms(5,6) show ?thesis by simp
    next
      case False
      then show ?thesis by (simp add: remove_node_frame)
    qed
  qed
  then show ?thesis
    unfolding replace_file_def Let_def using assms dir chmod ren by (auto simp: split_beta)
qed

section \<open>Confinement\<close>

text \<open>The nodes an operation may change: its path, the temporary file beside it, its destination.\<close>

definition touched :: "change_env \<Rightarrow> change_op \<Rightarrow> elements set" where
  "touched C p =
    {q. \<exists>r. normalize_relative_path (co_path p) = Inr r \<and> (q = path_elements r \<or> q = temporary_path C (path_elements r))} \<union>
    {q. co_type p = ''rename_file'' \<and> (\<exists>r. normalize_relative_path (co_destination p) = Inr r \<and> q = path_elements r)}"

lemma precondition_target:
  assumes "check_precondition C rt t p = None" and "node_at t [] = Some Directory"
  shows "\<exists>els. safe_join (ce_denied C) t rt (co_path p) = Inr els \<and> parents_ok t els \<and> plain_path els \<and>
    (if co_type p = ''create_file'' then node_at t els = None
     else co_expected_hash p \<noteq> [] \<longrightarrow> (\<exists>s m. node_at t els = Some (File s m) \<and> ce_sha C s = co_expected_hash p))"
proof -
  from assms(1) obtain els where els: "safe_join (ce_denied C) t rt (co_path p) = Inr els"
    by (auto simp: check_precondition_def split: sum.splits)
  note join = safe_join_Inr [OF els assms(2)]
  from join(1,4) have stat: "lstat (ce_denied C) t els = (case node_at t els of None \<Rightarrow> Missing | Some n \<Rightarrow> Found n)"
    by (simp add: lstat_def walk_parents)
  from assms(1) obtain observed where obs: "observed_hash C t els = Some observed"
    and match: "\<not> ((lstat (ce_denied C) t els \<noteq> Missing) \<noteq> (co_type p \<noteq> ''create_file'') \<or>
      co_type p \<noteq> ''create_file'' \<and> observed \<noteq> co_expected_hash p)"
    by (auto simp: check_precondition_def els Let_def simp del: Not_eq_iff split: if_splits option.splits)
  have "if co_type p = ''create_file'' then node_at t els = None
     else co_expected_hash p \<noteq> [] \<longrightarrow> (\<exists>s m. node_at t els = Some (File s m) \<and> ce_sha C s = co_expected_hash p)"
    using obs match stat by (auto simp: observed_hash_def split: option.splits node.splits if_splits)
  with els join(1,2) show ?thesis by blast
qed

lemma write_content_frame:
  assumes "parents_ok t els" and "els \<noteq> []" and "q \<noteq> els" and "q \<noteq> temporary_path C els"
  shows "node_at (snd (write_content C ws p els t)) q = node_at t q"
  using assms node_at_replaced [of q els "ce_temp C els" "ce_denied C" _ "co_new_mode p" t]
  by (auto simp: write_content_def mkdir_parent temporary_path_def fs_result_def split: option.splits sum.splits)

lemma apply_one_frame:
  assumes "check_precondition C rt t p = None" and "node_at t [] = Some Directory"
    and "co_type p \<noteq> ''create_file'' \<Longrightarrow> co_expected_hash p \<noteq> []" and "q \<notin> touched C p"
  shows "node_at (snd (apply_one C ws rt p t)) q = node_at t q"
proof -
  from precondition_target [OF assms(1,2)] obtain els where els: "safe_join (ce_denied C) t rt (co_path p) = Inr els"
    "parents_ok t els" "plain_path els" and node: "node_at t els \<noteq> Some Directory"
    using assms(3) by (auto split: if_splits)
  from safe_join_Inr(5) [OF els(1) assms(2)] obtain r where r: "normalize_relative_path (co_path p) = Inr r" "els = path_elements r"
    by blast
  with assms(4) have q: "q \<noteq> els" "q \<noteq> temporary_path C els" by (auto simp: touched_def)
  from els have ne: "els \<noteq> []" by (simp add: plain_path_def)
  note written = write_content_frame [OF els(2) ne q]
  have ren: "node_at (snd (case safe_join (ce_denied C) t rt (co_destination p) of
      Inl e \<Rightarrow> (Inl e, t)
    | Inr d \<Rightarrow>
        let (ok, t1) = mkdir_all (ce_denied C) [] (butlast d) t in
        if \<not> ok then (Inl ChangeFileSystem, t1) else fs_result (rename_node (ce_denied C) els d t1))) q = node_at t q"
    if "co_type p = ''rename_file''"
  proof (cases "safe_join (ce_denied C) t rt (co_destination p)")
    case (Inr d)
    from safe_join_Inr [OF Inr assms(2)] have "parents_ok t d" "d \<noteq> []"
      and "\<exists>r. normalize_relative_path (co_destination p) = Inr r \<and> d = path_elements r" by (auto simp: plain_path_def)
    moreover from this that assms(4) have "q \<noteq> d" by (auto simp: touched_def)
    ultimately show ?thesis
      using rename_node_frame [OF node q(1), of d] by (simp add: Inr mkdir_parent fs_result_def)
  qed simp
  show ?thesis
    using written ren remove_node_frame [OF q(1)] chmod_node_frame [OF q(1)]
    by (auto simp: apply_one_def els(1) fs_result_def)
qed

lemma touched_not_root: "[] \<notin> touched C p"
  using normalized_path(1) by (fastforce simp: touched_def temporary_path_def plain_path_def)

lemma apply_loop_frame:
  assumes "apply_loop C ws rt dry n ps r t = (x, t')" and "node_at t [] = Some Directory"
    and "\<And>p. p \<in> set ps \<Longrightarrow> co_type p \<noteq> ''create_file'' \<Longrightarrow> co_expected_hash p \<noteq> []"
    and "\<And>p. p \<in> set ps \<Longrightarrow> q \<notin> touched C p"
  shows "node_at t' q = node_at t q"
  using assms
proof (induction ps arbitrary: n r t)
  case (Cons p ps)
  show ?case
  proof (cases "\<not> ce_cancelled C n \<and> check_precondition C rt t p = None \<and> \<not> dry")
    case True
    obtain res t1 where one: "apply_one C ws rt p t = (res, t1)" by fastforce
    have frame: "node_at t1 e = node_at t e" if "e \<notin> touched C p" for e
      using apply_one_frame [of C rt t p e ws] True Cons.prems(2,3) that one by simp
    have step: "node_at t1 q = node_at t q" "node_at t1 [] = Some Directory"
      using frame Cons.prems(2,4) touched_not_root by auto
    show ?thesis
    proof (cases res)
      case (Inl e)
      with Cons.prems(1) True one step show ?thesis by simp
    next
      case (Inr u)
      with Cons.prems(1) True one have "apply_loop C ws rt dry (n + 1) ps (r\<lparr>ax_applied := ax_applied r + 1\<rparr>) t1 = (x, t')" by simp
      from Cons.IH [OF this step(2)] Cons.prems(3,4) step(1) show ?thesis by simp
    qed
  next
    case False
    with Cons show ?thesis by (auto split: if_splits option.splits)
  qed
qed simp

lemma apply_packet_loop:
  assumes "apply_packet C rt k dry t = ((r, e), t')" and "t' \<noteq> t"
  shows "\<exists>r1 e1. apply_loop C (cp_workspace k) rt dry 0 (sorted_operations (cp_operations k)) (applied_start C k) t = ((r1, e1), t')"
  using assms by (auto simp: apply_packet_def Let_def split: if_splits prod.splits sum.splits)

lemma dry_apply_loop: "snd (apply_loop C ws rt True n ps r t) = t"
  by (induction ps arbitrary: n r) (auto split: option.splits)

section \<open>Stopping early\<close>

text \<open>What it means that operations ran: each one found its precondition and succeeded.\<close>

fun run_ops :: "change_env \<Rightarrow> string \<Rightarrow> string \<Rightarrow> change_op list \<Rightarrow> tree \<Rightarrow> tree option" where
  "run_ops C ws rt [] t = Some t"
| "run_ops C ws rt (p # ps) t =
    (if check_precondition C rt t p \<noteq> None then None
     else case apply_one C ws rt p t of (Inl e, t') \<Rightarrow> None | (Inr u, t') \<Rightarrow> run_ops C ws rt ps t')"

lemma apply_loop_conflict:
  assumes "apply_loop C ws rt False n ps r t = ((r', e), t')" and "ax_conflict r = None" and "ax_conflict r' = Some c"
  shows "\<exists>m. ax_applied r' = ax_applied r + m \<and> m < length ps \<and> run_ops C ws rt (take m ps) t = Some t' \<and>
    check_precondition C rt t' (ps ! m) = Some c \<and> e = Some (ErrSourceConflict (cc_path c))"
  using assms
proof (induction ps arbitrary: n r t)
  case (Cons p ps)
  show ?case
  proof (cases "check_precondition C rt t p")
    case (Some d)
    with Cons.prems show ?thesis by (intro exI [of _ 0]) (auto split: if_splits)
  next
    case None
    obtain res t1 where one: "apply_one C ws rt p t = (res, t1)" by fastforce
    with Cons.prems None obtain u where "res = Inr u" by (cases res) (auto split: if_splits)
    with Cons.prems None one
    have "apply_loop C ws rt False (n + 1) ps (r\<lparr>ax_applied := ax_applied r + 1\<rparr>) t1 = ((r', e), t')" by (auto split: if_splits)
    from Cons.IH [OF this] Cons.prems obtain m where "ax_applied r' = ax_applied r + 1 + m" "m < length ps"
      "run_ops C ws rt (take m ps) t1 = Some t'" "check_precondition C rt t' (ps ! m) = Some c"
      "e = Some (ErrSourceConflict (cc_path c))" by auto
    with None one \<open>res = Inr u\<close> show ?thesis by (intro exI [of _ "Suc m"]) auto
  qed
qed simp

lemma apply_loop_all:
  assumes "run_ops C ws rt ps t = Some t'" and "\<And>k. \<not> ce_cancelled C k"
  shows "apply_loop C ws rt False n ps r t = ((r\<lparr>ax_applied := ax_applied r + length ps\<rparr>, None), t')"
  using assms by (induction ps arbitrary: n r t) (auto split: if_splits prod.splits sum.splits)

section \<open>Operations that apply\<close>

text \<open>
  What an operation needs of the tree to be applied, and the node it leaves: for a mode change the
  bytes that are there, otherwise the content the resolver has.
\<close>

definition outcome :: "change_op \<Rightarrow> string \<Rightarrow> node option \<Rightarrow> node" where
  "outcome p content n = (if co_type p = ''chmod_file''
    then (case n of Some (File s m) \<Rightarrow> File s (co_new_mode p) | _ \<Rightarrow> File content (co_new_mode p))
    else File content (co_new_mode p))"

definition ready :: "change_env \<Rightarrow> string \<Rightarrow> tree \<Rightarrow> change_op \<times> string \<Rightarrow> bool" where
  "ready C ws t = (\<lambda>(p, content). let els = path_elements (co_path p); n = node_at t els in
    normalize_relative_path (co_path p) = Inr (co_path p) \<and> parents_ok t els \<and>
    node_at t (temporary_path C els) = None \<and> temporary_path C els \<noteq> els \<and>
    0 \<le> co_new_mode p \<and> co_new_mode p < 512 \<and>
    (if co_type p = ''create_file'' then n = None
     else (co_type p = ''replace_file'' \<or> co_type p = ''chmod_file'') \<and>
       (\<exists>s m. n = Some (File s m) \<and> ce_sha C s = co_expected_hash p)) \<and>
    (if co_type p = ''chmod_file'' then \<exists>s m. n = Some (File s m) \<and> co_new_hash p = ce_sha C s \<and> co_new_size p = len s
     else (\<exists>res. ce_resolve C = Some res \<and> res ws (co_new_hash p) = Inr content) \<and>
       co_new_hash p = ce_sha C content \<and> co_new_size p = len content))"

definition quiet :: "change_env \<Rightarrow> bool" where
  "quiet C \<longleftrightarrow> ce_denied C = (\<lambda>_ _. False) \<and> ce_cancelled C = (\<lambda>_. False)"

lemma check_components_ok:
  assumes "quiet C" and "parents_ok t (d @ cs)" and "node_at t (d @ cs) \<noteq> Some Link"
  shows "check_components (ce_denied C) t d cs = Inr ()"
  using assms(2,3)
proof (induction cs arbitrary: d)
  case (Cons c cs)
  have below: "parents_ok t (d @ [c])"
    unfolding parents_ok_def
  proof (intro allI impI)
    fix k assume "k < length (d @ [c])"
    then show "node_at t (take k (d @ [c])) = Some Directory"
      using Cons.prems(1) by (auto simp: parents_ok_def dest: spec [of _ k])
  qed
  have dir: "node_at t (d @ [c]) = Some Directory" if "cs \<noteq> []"
    using Cons.prems(1) that by (auto simp: parents_ok_def dest: spec [of _ "Suc (length d)"])
  have "lstat (ce_denied C) t (d @ [c]) = (case node_at t (d @ [c]) of None \<Rightarrow> Missing | Some n \<Rightarrow> Found n)"
    using below assms(1) by (simp add: lstat_def quiet_def walk_parents)
  moreover have "check_components (ce_denied C) t (d @ [c]) cs = Inr ()" using Cons by simp
  ultimately show ?case using dir Cons.prems(2) by (cases "cs = []") (auto split: option.splits node.splits)
qed simp

lemma safe_join_ok:
  assumes "quiet C" and "is_abs (trim_space rt)" and "normalize_relative_path p = Inr p"
    and "parents_ok t (path_elements p)" and "node_at t (path_elements p) \<noteq> Some Link"
  shows "safe_join (ce_denied C) t rt p = Inr (path_elements p)"
  using assms check_components_ok [of C t "[]"] by (simp add: safe_join_elements)

lemma path_elements_ne: "normalize_relative_path p = Inr p \<Longrightarrow> path_elements p \<noteq> []"
  using normalized_path(1) by (auto simp: plain_path_def)

lemma ready_applies:
  assumes "ready C ws t (p, content)" and "quiet C" and "is_abs (trim_space rt)"
  shows "check_precondition C rt t p = None"
    and "\<exists>t'. apply_one C ws rt p t = (Inr (), t') \<and> (\<forall>q. node_at t' q =
      (if q = path_elements (co_path p) then Some (outcome p content (node_at t (path_elements (co_path p)))) else node_at t q))"
proof -
  let ?els = "path_elements (co_path p)"
  note r = assms(1) [unfolded ready_def Let_def case_prod_conv]
  have link: "node_at t ?els \<noteq> Some Link" using r by (auto split: if_splits)
  have join: "safe_join (ce_denied C) t rt (co_path p) = Inr ?els"
    using safe_join_ok [OF assms(2,3)] r link by blast
  have stat: "lstat (ce_denied C) t ?els = (case node_at t ?els of None \<Rightarrow> Missing | Some n \<Rightarrow> Found n)"
    using r assms(2) by (simp add: lstat_def quiet_def walk_parents)
  have read: "read_file (ce_denied C) t ?els = Some s" if "node_at t ?els = Some (File s m)" for s m
    using r assms(2) that by (simp add: read_file_def quiet_def walk_parents)
  show "check_precondition C rt t p = None"
    using r stat read by (auto simp: check_precondition_def join Let_def observed_hash_def split: if_splits option.splits)
  have modes: "permission_bits (co_new_mode p) = co_new_mode p" using r by (simp add: permission_bits_def)
  have ne: "?els \<noteq> []" using r path_elements_ne by blast
  show "\<exists>t'. apply_one C ws rt p t = (Inr (), t') \<and> (\<forall>q. node_at t' q =
      (if q = ?els then Some (outcome p content (node_at t ?els)) else node_at t q))"
  proof (cases "co_type p = ''chmod_file''")
    case True
    with r obtain s m where node: "node_at t ?els = Some (File s m)" by auto
    have "\<not> ce_denied C SysChmod ?els" "parents_ok t ?els" using assms(2) r by (simp_all add: quiet_def)
    note chmod = chmod_node_file [of "ce_denied C", OF this node, of "co_new_mode p"]
    show ?thesis using True by (simp add: apply_one_def join fs_result_def chmod modes outcome_def node)
  next
    case False
    with r obtain res where res: "ce_resolve C = Some res" "res ws (co_new_hash p) = Inr content"
      and hash: "co_new_hash p = ce_sha C content" by auto
    have dir: "node_at t ?els \<noteq> Some Directory" using r by (auto split: if_splits)
    have parents: "parents_ok t ?els" using r by blast
    have tmp: "node_at t (butlast ?els @ [ce_temp C ?els]) = None" "butlast ?els @ [ce_temp C ?els] \<noteq> ?els"
      using r by (simp_all add: temporary_path_def)
    have denied: "ce_denied C = (\<lambda>_ _. False)" using assms(2) by (simp add: quiet_def)
    from replace_file_quiet [OF denied parents ne dir tmp, of content "co_new_mode p"]
    obtain t' where t': "replace_file (ce_denied C) (ce_temp C ?els) ?els content (co_new_mode p) t = (True, t')"
      and nodes: "\<forall>q. node_at t' q = (if q = ?els then Some (File content (co_new_mode p)) else node_at t q)"
      by (auto simp: modes)
    have "apply_one C ws rt p t = (Inr (), t')"
      using False r by (auto simp: apply_one_def join write_content_def res hash mkdir_parent [OF parents ne]
        fs_result_def t' split: if_splits)
    with nodes False show ?thesis by (auto simp: outcome_def)
  qed
qed

section \<open>Simulation\<close>

text \<open>The files a tree has at a list of paths, and a predicted table that agrees with the tree.\<close>

definition file_of :: "(string \<Rightarrow> string) \<Rightarrow> tree \<Rightarrow> string \<Rightarrow> change_file" where
  "file_of sha t p = (case node_at t (path_elements p) of
      Some (File s m) \<Rightarrow> present_file sha p m s | _ \<Rightarrow> missing_file p)"

definition observable :: "tree \<Rightarrow> string \<Rightarrow> bool" where
  "observable t p \<longleftrightarrow> normalize_relative_path p = Inr p \<and> parents_ok t (path_elements p) \<and>
    (case node_at t (path_elements p) of None \<Rightarrow> True | Some (File s m) \<Rightarrow> True | _ \<Rightarrow> False)"

definition tracks :: "(string \<Rightarrow> string) \<Rightarrow> string list \<Rightarrow> (string \<times> change_file) list \<Rightarrow> tree \<Rightarrow> bool" where
  "tracks sha ps m t \<longleftrightarrow> distinct (map fst m) \<and> map_of m = (\<lambda>q. if q \<in> set ps then Some (file_of sha t q) else None)"

lemma observe_file_ok:
  assumes "quiet C" and "is_abs (trim_space rt)" and "observable t p"
  shows "observe_file C rt t p = Inr (file_of (ce_sha C) t p)"
proof -
  have "node_at t (path_elements p) \<noteq> Some Link" using assms(3) by (auto simp: observable_def)
  then have "safe_join (ce_denied C) t rt p = Inr (path_elements p)"
    using safe_join_ok [OF assms(1,2)] assms(3) by (simp add: observable_def)
  then show ?thesis
    using assms by (auto simp: observe_file_def observable_def file_of_def lstat_def read_file_def quiet_def walk_parents
      split: option.splits node.splits)
qed

lemma observe_files_ok:
  assumes "quiet C" and "is_abs (trim_space rt)" and "\<And>p. p \<in> set ps \<Longrightarrow> observable t p"
  shows "observe_files C n rt t ps = Inr (map (file_of (ce_sha C) t) ps)"
  using assms by (induction ps arbitrary: n) (simp_all add: observe_file_ok quiet_def)

lemma observe_file_Inr:
  assumes "observe_file C rt t p = Inr f" and "node_at t [] = Some Directory" and "normalize_relative_path p = Inr p"
  shows "observable t p" and "f = file_of (ce_sha C) t p" and "is_abs (trim_space rt)"
proof -
  from assms(1) obtain els where els: "safe_join (ce_denied C) t rt p = Inr els" by (auto simp: observe_file_def results)
  then show "is_abs (trim_space rt)" by (auto simp: safe_join_elements split: if_splits)
  from els assms(3) have "els = path_elements p" by (auto simp: safe_join_elements results split: if_splits)
  with safe_join_Inr [OF els assms(2)] have parents: "parents_ok t (path_elements p)" and "\<not> ce_denied C SysLstat (path_elements p)"
    by simp_all
  then have stat: "lstat (ce_denied C) t (path_elements p) = (case node_at t (path_elements p) of None \<Rightarrow> Missing | Some n \<Rightarrow> Found n)"
    by (simp add: lstat_def walk_parents)
  from assms(1) els stat parents assms(3) show "observable t p" "f = file_of (ce_sha C) t p"
    by (auto simp: observe_file_def observable_def file_of_def split: option.splits node.splits if_splits)
qed

lemma observe_files_Inr:
  assumes "observe_files C n rt t ps = Inr fs" and "node_at t [] = Some Directory"
    and "\<And>p. p \<in> set ps \<Longrightarrow> normalize_relative_path p = Inr p"
  shows "fs = map (file_of (ce_sha C) t) ps \<and> (\<forall>p \<in> set ps. observable t p)"
  using assms by (induction ps arbitrary: n fs) (auto simp: results dest: observe_file_Inr split: if_splits)

lemma file_of_path [simp]: "cf_path (file_of sha t p) = p"
  by (simp add: file_of_def present_file_def missing_file_def split: option.split node.split)

lemma file_before_strict_weak: "strict_weak file_before"
  by (auto simp: strict_weak_def file_before_def)

text \<open>Both sides hash the same list once the table agrees with the tree.\<close>

lemma tracks_files:
  assumes "tracks sha ps m t" and "sorted ps" and "distinct ps"
  shows "sort_by file_before (map snd m) = map (file_of sha t) ps"
proof -
  let ?fs = "map (file_of sha t) ps"
  from assms(1) have m: "distinct (map fst m)" "map_of m = (\<lambda>q. if q \<in> set ps then Some (file_of sha t q) else None)"
    by (simp_all add: tracks_def)
  have "set m = set (map (\<lambda>q. (q, file_of sha t q)) ps)"
  proof (intro set_eqI)
    fix x :: "string \<times> change_file"
    obtain k v where x: "x = (k, v)" by fastforce
    have "(k, v) \<in> set m \<longleftrightarrow> map_of m k = Some v" using m(1) by (rule map_of_eq_Some_iff [symmetric])
    then show "x \<in> set m \<longleftrightarrow> x \<in> set (map (\<lambda>q. (q, file_of sha t q)) ps)" by (auto simp: x m(2) split: if_splits)
  qed
  moreover have "distinct m" using m(1) by (simp add: distinct_map)
  moreover have "distinct (map (\<lambda>q. (q, file_of sha t q)) ps)" using assms(3) by (simp add: distinct_map inj_on_def)
  ultimately have "mset m = mset (map (\<lambda>q. (q, file_of sha t q)) ps)" by (metis set_eq_iff_mset_eq_distinct)
  then have "mset (map snd m) = mset ?fs"
    by (metis (no_types, lifting) mset_map map_map comp_apply snd_conv map_eq_conv)
  moreover have inj: "x = y" if "x \<in> set (map snd m)" "y \<in> set (map snd m)" "\<not> file_before x y" "\<not> file_before y x" for x y
  proof -
    from \<open>mset (map snd m) = mset ?fs\<close> have "set (map snd m) = set ?fs" by (rule mset_eq_setD)
    with that obtain a b where "x = file_of sha t a" "y = file_of sha t b" by auto
    with that show ?thesis by (auto simp: file_before_def)
  qed
  ultimately have "sort_by file_before (map snd m) = sort_by file_before ?fs"
    by (intro sort_by_unique [OF file_before_strict_weak])
  also have "sort_by file_before ?fs = ?fs"
  proof -
    have sorted: "sorted_wrt (\<lambda>x y. \<not> file_before y x) (sort_by file_before ?fs)" by (rule sorted_sort_by [OF file_before_strict_weak])
    have "sorted (map cf_path (sort_by file_before ?fs))"
      using sorted by (simp add: sorted_map file_before_def not_less)
    moreover have "sorted (map cf_path ?fs)" using assms(2) by (simp add: comp_def)
    moreover have "mset (map cf_path (sort_by file_before ?fs)) = mset (map cf_path ?fs)" by (simp only: mset_map mset_sort_by)
    ultimately have "map cf_path (sort_by file_before ?fs) = map cf_path ?fs"
      by (metis properties_for_sort)
    moreover have "inj_on cf_path (set (sort_by file_before ?fs) \<union> set ?fs)" by (auto simp: inj_on_def)
    ultimately show ?thesis by (rule map_inj_on)
  qed
  finally show ?thesis .
qed

lemma outcome_file: "ready C ws t (p, content) \<Longrightarrow>
    \<exists>s. outcome p content (node_at t (path_elements (co_path p))) = File s (co_new_mode p) \<and>
      co_new_hash p = ce_sha C s \<and> co_new_size p = len s"
  by (auto simp: ready_def Let_def outcome_def split: if_splits)

text \<open>Applying an operation and predicting it keep the agreement.\<close>

lemma tracks_step:
  assumes "tracks (ce_sha C) ps m t" and "ready C ws t (p, content)" and "co_path p \<in> set ps"
    and "\<forall>q \<in> set ps. normalize_relative_path q = Inr q"
    and "\<forall>q. node_at t' q = (if q = path_elements (co_path p)
      then Some (outcome p content (node_at t (path_elements (co_path p)))) else node_at t q)"
  shows "tracks (ce_sha C) ps (predict p m) t'"
proof -
  obtain s where s: "outcome p content (node_at t (path_elements (co_path p))) = File s (co_new_mode p)"
    "co_new_hash p = ce_sha C s" "co_new_size p = len s" using outcome_file [OF assms(2)] by blast
  have same: "file_of (ce_sha C) t' q = file_of (ce_sha C) t q" if "q \<in> set ps" "q \<noteq> co_path p" for q
  proof -
    have "path_elements q \<noteq> path_elements (co_path p)"
      using that assms(3,4) path_elements_inj by blast
    then show ?thesis using assms(5) by (simp add: file_of_def)
  qed
  have new: "file_of (ce_sha C) t' (co_path p) = present_file (ce_sha C) (co_path p) (co_new_mode p) s"
    using assms(5) s(1) by (simp add: file_of_def)
  have old: "map_of m (co_path p) = Some (file_of (ce_sha C) t (co_path p))" using assms(1,3) by (simp add: tracks_def)
  have keys: "distinct (map fst m)" using assms(1) by (simp add: tracks_def)
  have upd: "tracks (ce_sha C) ps (AList.update (co_path p) (file_of (ce_sha C) t' (co_path p)) m) t'"
    using assms(1,3) same keys by (auto simp: tracks_def update_conv' distinct_update fun_eq_iff)
  show ?thesis
  proof (cases "co_type p = ''chmod_file''")
    case True
    with assms(2) obtain s' m' where n: "node_at t (path_elements (co_path p)) = Some (File s' m')"
      by (auto simp: ready_def Let_def)
    with s(1) True have "s' = s" by (simp add: outcome_def)
    with n have "file_of (ce_sha C) t (co_path p) = present_file (ce_sha C) (co_path p) m' s" by (simp add: file_of_def)
    with True old have "predict p m = AList.update (co_path p) (file_of (ce_sha C) t' (co_path p)) m"
      by (simp add: predict_def new present_file_def)
    with upd show ?thesis by simp
  next
    case False
    with assms(2) have "co_type p = ''create_file'' \<or> co_type p = ''replace_file''"
      by (auto simp: ready_def Let_def split: if_splits)
    then have "predict p m = AList.update (co_path p) (file_of (ce_sha C) t' (co_path p)) m"
      using s(2,3) by (simp add: predict_def new present_file_def)
    with upd show ?thesis by simp
  qed
qed

lemma parents_ok_put_file:
  assumes "parents_ok t q" and "\<forall>e. node_at t' e = (if e = els then Some n else node_at t e)"
    and "node_at t els \<noteq> Some Directory"
  shows "parents_ok t' q"
  using assms by (intro parents_ok_cong [OF assms(1)]) auto

text \<open>The rest of the packet stays ready: its paths, and its temporary files, lie elsewhere.\<close>

lemma ready_other:
  assumes "ready C ws t (q, d)" and "ready C ws t (p, content)" and "co_path q \<noteq> co_path p"
    and "temporary_path C (path_elements (co_path q)) \<noteq> path_elements (co_path p)"
    and "\<forall>e. node_at t' e = (if e = path_elements (co_path p)
      then Some (outcome p content (node_at t (path_elements (co_path p)))) else node_at t e)"
  shows "ready C ws t' (q, d)"
proof -
  have norm: "normalize_relative_path (co_path q) = Inr (co_path q)" "normalize_relative_path (co_path p) = Inr (co_path p)"
    using assms(1,2) by (auto simp: ready_def Let_def)
  then have "path_elements (co_path q) \<noteq> path_elements (co_path p)" using path_elements_inj assms(3) by blast
  then have node: "node_at t' (path_elements (co_path q)) = node_at t (path_elements (co_path q))"
    "node_at t' (temporary_path C (path_elements (co_path q))) = node_at t (temporary_path C (path_elements (co_path q)))"
    using assms(4,5) by simp_all
  have "parents_ok t (path_elements (co_path q))" using assms(1) by (simp add: ready_def Let_def)
  moreover have "node_at t (path_elements (co_path p)) \<noteq> Some Directory"
    using assms(2) by (auto simp: ready_def Let_def split: if_splits)
  ultimately have "parents_ok t' (path_elements (co_path q))" by (rule parents_ok_put_file [OF _ assms(5)])
  with assms(1) show ?thesis unfolding ready_def Let_def case_prod_conv node by blast
qed

definition separate :: "change_env \<Rightarrow> (change_op \<times> string) list \<Rightarrow> bool" where
  "separate C qs \<longleftrightarrow> distinct (map (co_path \<circ> fst) qs) \<and>
    (\<forall>q \<in> set qs. \<forall>p \<in> set qs. temporary_path C (path_elements (co_path (fst q))) \<noteq> path_elements (co_path (fst p)))"

lemma ready_run:
  assumes "quiet C" and "is_abs (trim_space rt)" and "\<forall>x \<in> set qs. ready C ws t x" and "separate C qs"
    and "tracks (ce_sha C) ps m t" and "\<forall>x \<in> set qs. co_path (fst x) \<in> set ps" and "\<forall>q \<in> set ps. observable t q"
  shows "\<exists>t'. run_ops C ws rt (map fst qs) t = Some t' \<and> tracks (ce_sha C) ps (fold predict (map fst qs) m) t' \<and>
    (\<forall>q \<in> set ps. observable t' q) \<and>
    (\<forall>x \<in> set qs. node_at t' (path_elements (co_path (fst x))) =
      Some (outcome (fst x) (snd x) (node_at t (path_elements (co_path (fst x)))))) \<and>
    (\<forall>e. e \<notin> (\<lambda>x. path_elements (co_path (fst x))) ` set qs \<longrightarrow> node_at t' e = node_at t e)"
  using assms(3-7)
proof (induction qs arbitrary: t m)
  case (Cons x qs)
  obtain p content where x: "x = (p, content)" by fastforce
  let ?els = "path_elements (co_path p)"
  have ready: "ready C ws t (p, content)" using Cons.prems(1) x by simp
  from ready_applies(2) [OF ready assms(1,2)] obtain t1 where one: "apply_one C ws rt p t = (Inr (), t1)"
    and nodes: "\<forall>q. node_at t1 q = (if q = ?els then Some (outcome p content (node_at t ?els)) else node_at t q)" by blast
  obtain s where fl: "outcome p content (node_at t ?els) = File s (co_new_mode p)" using outcome_file [OF ready] by blast
  have norm: "\<forall>q \<in> set ps. normalize_relative_path q = Inr q" using Cons.prems(5) by (simp add: observable_def)
  have dir: "node_at t ?els \<noteq> Some Directory" using ready by (auto simp: ready_def Let_def split: if_splits)
  have other: "co_path (fst y) \<noteq> co_path p" "path_elements (co_path (fst y)) \<noteq> ?els" if "y \<in> set qs" for y
  proof -
    have "co_path p \<notin> set (map (co_path \<circ> fst) qs)" using Cons.prems(2) x by (simp add: separate_def)
    with that show "co_path (fst y) \<noteq> co_path p" by force
    have "normalize_relative_path (co_path (fst y)) = Inr (co_path (fst y))" "normalize_relative_path (co_path p) = Inr (co_path p)"
      using norm Cons.prems(4) that x by simp_all
    from path_elements_inj [OF this] \<open>co_path (fst y) \<noteq> co_path p\<close> show "path_elements (co_path (fst y)) \<noteq> ?els" by blast
  qed
  have "\<forall>y \<in> set qs. ready C ws t1 y"
  proof
    fix y assume y: "y \<in> set qs"
    have "ready C ws t (fst y, snd y)" using Cons.prems(1) y by simp
    moreover have "temporary_path C (path_elements (co_path (fst y))) \<noteq> ?els"
      using Cons.prems(2) y x by (force simp: separate_def)
    ultimately have "ready C ws t1 (fst y, snd y)" using ready_other [OF _ ready _ _ nodes] other(1) [OF y] by blast
    then show "ready C ws t1 y" by simp
  qed
  moreover have "separate C qs" using Cons.prems(2) by (simp add: separate_def)
  moreover have "tracks (ce_sha C) ps (predict p m) t1"
    by (rule tracks_step [OF Cons.prems(3) ready _ norm nodes]) (use Cons.prems(4) x in simp)
  moreover have "\<forall>q \<in> set ps. observable t1 q"
  proof
    fix q assume "q \<in> set ps"
    with Cons.prems(5) have "observable t q" by blast
    then show "observable t1 q"
      using parents_ok_put_file [OF _ nodes dir] nodes by (auto simp: observable_def fl split: option.splits node.splits)
  qed
  moreover have "\<forall>y \<in> set qs. co_path (fst y) \<in> set ps" using Cons.prems(4) by simp
  ultimately obtain t' where t': "run_ops C ws rt (map fst qs) t1 = Some t'"
    "tracks (ce_sha C) ps (fold predict (map fst qs) (predict p m)) t'" "\<forall>q \<in> set ps. observable t' q"
    "\<forall>y \<in> set qs. node_at t' (path_elements (co_path (fst y))) =
      Some (outcome (fst y) (snd y) (node_at t1 (path_elements (co_path (fst y)))))"
    "\<forall>e. e \<notin> (\<lambda>x. path_elements (co_path (fst x))) ` set qs \<longrightarrow> node_at t' e = node_at t1 e"
    using Cons.IH [of t1 "predict p m"] by blast
  show ?case
  proof (intro exI [of _ t'] conjI)
    show "run_ops C ws rt (map fst (x # qs)) t = Some t'"
      using ready_applies(1) [OF ready assms(1,2)] one t'(1) x by simp
    show "tracks (ce_sha C) ps (fold predict (map fst (x # qs)) m) t'" using t'(2) x by simp
    show "\<forall>q \<in> set ps. observable t' q" by (rule t'(3))
    have "?els \<notin> (\<lambda>x. path_elements (co_path (fst x))) ` set qs" using other(2) by force
    with t'(5) nodes have "node_at t' ?els = Some (outcome p content (node_at t ?els))" by simp
    moreover have "node_at t1 (path_elements (co_path (fst y))) = node_at t (path_elements (co_path (fst y)))" if "y \<in> set qs" for y
      using nodes other(2) [OF that] by simp
    ultimately show "\<forall>y \<in> set (x # qs). node_at t' (path_elements (co_path (fst y))) =
        Some (outcome (fst y) (snd y) (node_at t (path_elements (co_path (fst y)))))"
      using t'(4) x by simp
    show "\<forall>e. e \<notin> (\<lambda>x. path_elements (co_path (fst x))) ` set (x # qs) \<longrightarrow> node_at t' e = node_at t e"
      using t'(5) nodes x by simp
  qed
qed simp

end
