(* ===== verification/Change_Theorems.thy ===== *)
theory Change_Theorems
  imports Change_Application
begin

text \<open>
  \<open>Service.plan\<close> of \<open>internal/change/service.go\<close> and the properties of planning and applying a
  packet, on the lemmas of \<open>Change_Application\<close>.
\<close>

section \<open>Planning for a request\<close>

definition request_paths :: "change_request \<Rightarrow> string list" where
  "request_paths r = concat (map (\<lambda>q. oi_path q #
    (if trim_space (oi_destination q) \<noteq> [] then [oi_destination q] else [])) (cr_operations r))"

definition plan_request ::
    "change_env \<Rightarrow> string \<Rightarrow> string \<Rightarrow> change_request \<Rightarrow> string \<Rightarrow> time \<Rightarrow> tree \<Rightarrow> change_error + planned_change" where
  "plan_request C new_req new_chg r0 rt0 now t =
    bindE (normalize_change_request new_req new_chg r0) (\<lambda>r.
    if \<not> is_abs (trim_space rt0) then Inl (ChangeInvalid ''configured repository root must be absolute'')
    else
      let rt = slash_path (abs_elements (trim_space rt0)) in
      bindE (capture_snapshot C (cr_workspace r) (cr_repository r) rt (request_paths r) (cr_actor r) now t) (\<lambda>s0.
      let s = s0\<lparr>cs_task := cr_task r, cs_session := cr_session r, cs_agent_run := cr_agent_run r,
        cs_owner := cr_owner r, cs_fence := cr_fence r\<rparr> in
      plan_change C new_req new_chg (r\<lparr>cr_source := s\<rparr>) s))"

section \<open>Planned operations\<close>

definition planned_from :: "(string \<Rightarrow> string) \<Rightarrow> change_file list \<Rightarrow> change_op_input \<Rightarrow> change_op \<Rightarrow> bool" where
  "planned_from sha files q p \<longleftrightarrow>
    normalize_relative_path (oi_path q) = Inr (co_path p) \<and> co_type p = to_lower (trim_space (oi_type q)) \<and>
    co_type p \<in> set change_op_types \<and>
    (let f = lookup_file files (co_path p) in
      if co_type p = ''create_file'' then \<not> cf_exists f else source_matches f p) \<and>
    (let f = lookup_file files (co_path p) in
      if co_type p = ''create_file'' \<or> co_type p = ''replace_file'' then
        oi_content q \<noteq> [] \<and> co_new_hash p = sha (oi_content q) \<and> co_new_size p = len (oi_content q) \<and>
        co_new_mode p = (if oi_new_mode q = 0 then (if co_type p = ''create_file'' then 420 else cf_mode f) else oi_new_mode q)
      else if co_type p = ''delete_file'' then True
      else if co_type p = ''rename_file'' then normalize_relative_path (trim_space (oi_destination q)) = Inr (co_destination p)
      else co_new_mode p = oi_new_mode q \<and> co_new_hash p = cf_hash f \<and> co_new_size p = cf_size f)"

text \<open>The paths an operation claims for itself; no two operations of a plan share one.\<close>

definition claims :: "change_op \<Rightarrow> string list" where
  "claims p = (if co_type p = ''rename_file'' then [co_destination p, co_path p] else [co_path p])"

lemma plan_op_Inr:
  assumes "plan_op sha files (path # seen) (oi_content q) (input_op index path q) = Inr (p, seen')"
    and "normalize_relative_path (oi_path q) = Inr path" and "path \<notin> set seen"
    and "to_lower (trim_space (oi_type q)) \<in> set change_op_types"
  shows "planned_from sha files q p" and "seen' = claims p @ seen" and "distinct (claims p)" and "co_path p = path"
    and "set (claims p) \<inter> set seen = {}"
proof -
  have ty: "to_lower (trim_space (oi_type q)) \<in>
      {''create_file'', ''replace_file'', ''delete_file'', ''rename_file'', ''chmod_file''}"
    using assms(4) by (simp add: change_op_types_def)
  have "planned_from sha files q p \<and> seen' = claims p @ seen \<and> distinct (claims p) \<and> co_path p = path \<and>
      set (claims p) \<inter> set seen = {}"
    using ty assms(1-3)
    by (elim insertE; simp add: plan_op_def input_op_def results if_cases_Inr Let_def;
        auto simp: planned_from_def change_op_types_def with_content_def source_matches_def claims_def input_op_def Let_def)
  then show "planned_from sha files q p" and "seen' = claims p @ seen" and "distinct (claims p)" and "co_path p = path"
    and "set (claims p) \<inter> set seen = {}" by simp_all
qed

lemma plan_ops_Inr:
  assumes "plan_ops sha b files index seen used qs = Inr xs"
  shows "list_all2 (\<lambda>q x. planned_from sha files q (fst x) \<and> snd x = oi_content q) qs xs"
    and "distinct (concat (map (claims \<circ> fst) xs))" and "set (concat (map (claims \<circ> fst) xs)) \<inter> set seen = {}"
    and "\<forall>x \<in> set xs. co_new_size (fst x) \<le> cb_file_bytes b"
    and "xs \<noteq> [] \<Longrightarrow> used + sum_list (map (co_new_size \<circ> fst) xs) \<le> cb_total_bytes b"
proof -
  have "list_all2 (\<lambda>q x. planned_from sha files q (fst x) \<and> snd x = oi_content q) qs xs \<and>
      distinct (concat (map (claims \<circ> fst) xs)) \<and> set (concat (map (claims \<circ> fst) xs)) \<inter> set seen = {} \<and>
      (\<forall>x \<in> set xs. co_new_size (fst x) \<le> cb_file_bytes b) \<and>
      (xs \<noteq> [] \<longrightarrow> used + sum_list (map (co_new_size \<circ> fst) xs) \<le> cb_total_bytes b)"
    using assms
  proof (induction qs arbitrary: index seen used xs)
    case (Cons q qs)
    from Cons.prems obtain path p seen' ys where path: "normalize_relative_path (oi_path q) = Inr path" "path \<notin> set seen"
      "to_lower (trim_space (oi_type q)) \<in> set change_op_types"
      and op: "plan_op sha files (path # seen) (oi_content q) (input_op index path q) = Inr (p, seen')"
      and size: "co_new_size p \<le> cb_file_bytes b" "used + co_new_size p \<le> cb_total_bytes b"
      and rest: "plan_ops sha b files (index + 1) seen' (used + co_new_size p) qs = Inr ys"
      and xs: "xs = (p, oi_content q) # ys"
      by (auto simp: results if_cases_Inr not_less)
    note planned = plan_op_Inr [OF op path]
    from Cons.IH [OF rest] planned(2) have ih:
      "list_all2 (\<lambda>q x. planned_from sha files q (fst x) \<and> snd x = oi_content q) qs ys"
      "distinct (concat (map (claims \<circ> fst) ys))" "set (concat (map (claims \<circ> fst) ys)) \<inter> set (claims p @ seen) = {}"
      "\<forall>x \<in> set ys. co_new_size (fst x) \<le> cb_file_bytes b"
      "ys \<noteq> [] \<longrightarrow> used + co_new_size p + sum_list (map (co_new_size \<circ> fst) ys) \<le> cb_total_bytes b"
      by (simp_all add: comp_def)
    have "distinct (concat (map (claims \<circ> fst) xs))"
      using planned(3) ih(2,3) by (auto simp: xs)
    moreover have "set (concat (map (claims \<circ> fst) xs)) \<inter> set seen = {}" using planned(5) ih(3) by (auto simp: xs)
    moreover have "used + sum_list (map (co_new_size \<circ> fst) xs) \<le> cb_total_bytes b"
      using size(2) ih(5) by (cases "ys = []") (simp_all add: xs add.assoc)
    ultimately show ?case using planned(1) ih(1,4) size(1) by (simp add: xs comp_def)
  qed simp
  then show "list_all2 (\<lambda>q x. planned_from sha files q (fst x) \<and> snd x = oi_content q) qs xs"
    and "distinct (concat (map (claims \<circ> fst) xs))" and "set (concat (map (claims \<circ> fst) xs)) \<inter> set seen = {}"
    and "\<forall>x \<in> set xs. co_new_size (fst x) \<le> cb_file_bytes b"
    and "xs \<noteq> [] \<Longrightarrow> used + sum_list (map (co_new_size \<circ> fst) xs) \<le> cb_total_bytes b" by blast+
qed

lemma normalize_change_request_Inr:
  assumes "normalize_change_request a b r0 = Inr r"
  shows "cr_operations r = cr_operations r0" and "cr_workspace r \<noteq> []" and "cr_operations r \<noteq> []"
    and "1 \<le> cb_operations (cr_budgets r)" and "len (cr_operations r) \<le> cb_operations (cr_budgets r)"
    and "cb_total_bytes (cr_budgets r) \<le> cb_total_bytes max_change_budgets"
    and "cb_operations (cr_budgets r) \<le> cb_operations max_change_budgets"
    and "cb_file_bytes (cr_budgets r) \<le> cb_file_bytes max_change_budgets"
proof -
  let ?r = "change_request_defaults a b r0"
  obtain actor policy where r: "r = ?r\<lparr>cr_actor := actor, cr_policy := policy\<rparr>" and ws: "cr_workspace ?r \<noteq> []"
    and ops: "cr_operations ?r \<noteq> []" and out: "\<not> out_of 1 (cb_operations max_change_budgets) (cb_operations (cr_budgets ?r))"
      "\<not> out_of 1 (cb_file_bytes max_change_budgets) (cb_file_bytes (cr_budgets ?r))"
      "\<not> out_of 1 (cb_total_bytes max_change_budgets) (cb_total_bytes (cr_budgets ?r))"
    and count: "len (cr_operations ?r) \<le> cb_operations (cr_budgets ?r)"
    using assms unfolding normalize_change_request_def Let_def by (elim if_InlE bindE_InrE) auto
  have same: "cr_operations ?r = cr_operations r0" by (simp add: change_request_defaults_def)
  show "cr_operations r = cr_operations r0" and "cr_workspace r \<noteq> []" and "cr_operations r \<noteq> []"
    and "1 \<le> cb_operations (cr_budgets r)" and "len (cr_operations r) \<le> cb_operations (cr_budgets r)"
    and "cb_total_bytes (cr_budgets r) \<le> cb_total_bytes max_change_budgets"
    and "cb_operations (cr_budgets r) \<le> cb_operations max_change_budgets"
    and "cb_file_bytes (cr_budgets r) \<le> cb_file_bytes max_change_budgets"
    using ws ops out count same by (simp_all add: r out_of_def not_less)
qed

lemma plan_change_Inr:
  assumes "plan_change C a b r0 s = Inr pl"
  obtains r planned where "normalize_change_request a b r0 = Inr r"
    and "plan_ops (ce_sha C) (cr_budgets r) (cs_files s) 0 [] 0 (cr_operations r) = Inr planned"
    and "cp_operations (pc_packet pl) = map fst planned" and "cs_files (cp_source (pc_packet pl)) = cs_files s"
    and "cp_budgets (pc_packet pl) = cr_budgets r" and "cp_workspace (pc_packet pl) = cr_workspace r"
    and "pc_tree_hash pl = predicted_tree_hash C (cp_source (pc_packet pl)) (map fst planned)"
  using assms by (auto simp: plan_change_def results if_cases_Inr Let_def)

lemma mapE_stable:
  assumes "mapE f xs = Inr ys" and "\<And>x. x \<in> set xs \<Longrightarrow> f x = Inr x"
  shows "ys = xs"
  using assms by (induction xs arbitrary: ys) (auto simp: results)

lemma capture_snapshot_Inr:
  assumes "capture_snapshot C ws repo rt paths actor now t = Inr s"
    and "\<And>p. p \<in> set paths \<Longrightarrow> normalize_relative_path p = Inr p"
  shows "cs_files s = map (file_of (ce_sha C) t) (sort (remdups paths))" and "\<forall>p \<in> set paths. observable t p"
    and "node_at t [] = Some Directory"
proof -
  from assms(1) obtain qs fs rt' where t: "lstat (ce_denied C) t [] = Found Directory"
    and qs: "mapE normalize_relative_path paths = Inr qs" and fs: "observe_files C 0 rt' t (sort (remdups qs)) = Inr fs"
    and s: "cs_files s = fs"
    by (auto simp: capture_snapshot_def normalize_paths_def results if_cases_Inr Let_def)
  from t show root: "node_at t [] = Some Directory" by (auto simp: lstat_def split: if_splits option.splits)
  have "qs = paths" by (rule mapE_stable [OF qs assms(2)])
  with observe_files_Inr [OF fs root] assms(2) have "fs = map (file_of (ce_sha C) t) (sort (remdups paths)) \<and>
      (\<forall>p \<in> set (sort (remdups paths)). observable t p)" by simp
  then show "cs_files s = map (file_of (ce_sha C) t) (sort (remdups paths))" and "\<forall>p \<in> set paths. observable t p"
    by (simp_all add: s)
qed

lemma lookup_captured:
  assumes "p \<in> set ps" and "distinct ps"
  shows "lookup_file (map (file_of sha t) ps) p = file_of sha t p"
proof -
  have "find (\<lambda>f. cf_path f = p) (map (file_of sha t) qs) = Some (file_of sha t p)" if "p \<in> set qs" for qs
    using that by (induction qs) auto
  from this [of "rev ps"] assms show ?thesis by (simp add: lookup_file_def rev_map)
qed

lemma map_insert_by: "map f (insert_by (\<lambda>x y. lt (f x) (f y)) x xs) = insert_by lt (f x) (map f xs)"
  by (induction xs) simp_all

lemma map_sort_by: "map f (sort_by (\<lambda>x y. lt (f x) (f y)) xs) = sort_by lt (map f xs)"
  by (induction xs) (simp_all add: sort_by_def map_insert_by)

lemma tracks_captured:
  assumes "distinct ps"
  shows "tracks sha ps (fold (\<lambda>f. AList.update (cf_path f) f) (map (file_of sha t) ps) []) t"
proof -
  have "map_of (fold (\<lambda>f. AList.update (cf_path f) f) (map (file_of sha t) qs) m) =
      (\<lambda>q. if q \<in> set qs then Some (file_of sha t q) else map_of m q) \<and>
    (distinct (map fst m) \<longrightarrow> distinct (map fst (fold (\<lambda>f. AList.update (cf_path f) f) (map (file_of sha t) qs) m)))" for qs m
    by (induction qs arbitrary: m) (auto simp: update_conv' distinct_update fun_eq_iff)
  from this [of ps "[]"] show ?thesis by (auto simp: tracks_def)
qed

section \<open>Planned packets apply\<close>

lemma planned_ready:
  assumes "planned_from (ce_sha C) (map (file_of (ce_sha C) t) ps) q p" and "co_path p \<in> set ps" and "distinct ps"
    and "co_type p \<in> {''create_file'', ''replace_file'', ''chmod_file''}" and "observable t (co_path p)"
    and "0 \<le> oi_new_mode q \<and> oi_new_mode q < 512" and "\<And>e s m. node_at t e = Some (File s m) \<Longrightarrow> 0 \<le> m \<and> m < 512"
    and "ce_resolve C = Some res" and "oi_content q \<noteq> [] \<Longrightarrow> res ws (ce_sha C (oi_content q)) = Inr (oi_content q)"
    and "node_at t (temporary_path C (path_elements (co_path p))) = None"
    and "temporary_path C (path_elements (co_path p)) \<noteq> path_elements (co_path p)"
  shows "ready C ws t (p, oi_content q)"
proof -
  let ?n = "node_at t (path_elements (co_path p))"
  have look: "lookup_file (map (file_of (ce_sha C) t) ps) (co_path p) = file_of (ce_sha C) t (co_path p)"
    by (rule lookup_captured [OF assms(2,3)])
  note pf = assms(1) [unfolded planned_from_def look Let_def]
  have node: "?n = None \<or> (\<exists>s m. ?n = Some (File s m))"
    using assms(5) by (auto simp: observable_def split: option.splits node.splits)
  have absent: "?n = None" if "\<not> cf_exists (file_of (ce_sha C) t (co_path p))"
    using that node by (auto simp: file_of_def present_file_def)
  have found: "\<exists>s m. ?n = Some (File s m) \<and> ce_sha C s = co_expected_hash p" if "source_matches (file_of (ce_sha C) t (co_path p)) p"
    using that node by (auto simp: source_matches_def file_of_def present_file_def missing_file_def)
  have mode: "0 \<le> cf_mode (file_of (ce_sha C) t (co_path p)) \<and> cf_mode (file_of (ce_sha C) t (co_path p)) < 512"
    using assms(7) by (auto simp: file_of_def present_file_def missing_file_def split: option.split node.split)
  show ?thesis
    using assms(4)
  proof (elim insertE emptyE)
    assume ty: "co_type p = ''create_file''"
    with pf absent assms(5,6,8-11) show ?thesis by (auto simp: ready_def Let_def observable_def)
  next
    assume ty: "co_type p = ''replace_file''"
    with pf found mode assms(5,6,8-11) show ?thesis by (auto simp: ready_def Let_def observable_def)
  next
    assume ty: "co_type p = ''chmod_file''"
    with pf have "source_matches (file_of (ce_sha C) t (co_path p)) p" by simp
    from found [OF this] obtain s m where s: "?n = Some (File s m)" "ce_sha C s = co_expected_hash p" by blast
    then have "file_of (ce_sha C) t (co_path p) = present_file (ce_sha C) (co_path p) m s" by (simp add: file_of_def)
    with ty pf s assms(5,6,10,11) show ?thesis by (auto simp: ready_def Let_def observable_def present_file_def)
  qed
qed

lemma sorted_remdups_unique: "sorted ps \<Longrightarrow> distinct ps \<Longrightarrow> set xs = set ps \<Longrightarrow> sort (remdups xs) = ps"
  by (rule sorted_distinct_set_unique) simp_all

lemma request_paths_plain:
  "\<forall>q \<in> set (cr_operations r). trim_space (oi_destination q) = [] \<Longrightarrow> request_paths r = map oi_path (cr_operations r)"
proof -
  have "concat (map (\<lambda>q. oi_path q # (if trim_space (oi_destination q) \<noteq> [] then [oi_destination q] else [])) qs) = map oi_path qs"
    if "\<forall>q \<in> set qs. trim_space (oi_destination q) = []" for qs
    using that by (induction qs) simp_all
  then show "\<forall>q \<in> set (cr_operations r). trim_space (oi_destination q) = [] \<Longrightarrow> ?thesis" by (simp add: request_paths_def)
qed

text \<open>The snapshot of a request is what the tree holds at its paths; the plan is made from it.\<close>

lemma plan_request_Inr:
  assumes "plan_request C a b r0 rt now t = Inr pl"
    and "\<forall>q \<in> set (cr_operations r0). normalize_relative_path (oi_path q) = Inr (oi_path q) \<and> trim_space (oi_destination q) = []"
    and "ps = sort (remdups (map oi_path (cr_operations r0)))"
  obtains planned budgets where "is_abs (trim_space rt)" and "\<forall>p \<in> set ps. observable t p" and "ps \<noteq> []"
    and "plan_ops (ce_sha C) budgets (map (file_of (ce_sha C) t) ps) 0 [] 0 (cr_operations r0) = Inr planned"
    and "cp_operations (pc_packet pl) = map fst planned" and "cp_workspace (pc_packet pl) \<noteq> []"
    and "cs_files (cp_source (pc_packet pl)) = map (file_of (ce_sha C) t) ps"
    and "pc_tree_hash pl = predicted_tree_hash C (cp_source (pc_packet pl)) (cp_operations (pc_packet pl))"
proof -
  from assms(1) obtain r s rt' where r: "normalize_change_request a b r0 = Inr r" and abs: "is_abs (trim_space rt)"
    and cap: "capture_snapshot C (cr_workspace r) (cr_repository r) rt' (request_paths r) (cr_actor r) now t = Inr s"
    and plan: "plan_change C a b (r\<lparr>cr_source := s\<lparr>cs_task := cr_task r, cs_session := cr_session r, cs_agent_run := cr_agent_run r,
      cs_owner := cr_owner r, cs_fence := cr_fence r\<rparr>\<rparr>) (s\<lparr>cs_task := cr_task r, cs_session := cr_session r,
      cs_agent_run := cr_agent_run r, cs_owner := cr_owner r, cs_fence := cr_fence r\<rparr>) = Inr pl"
    by (auto simp: plan_request_def results if_cases_Inr Let_def)
  define s1 where "s1 = s\<lparr>cs_task := cr_task r, cs_session := cr_session r, cs_agent_run := cr_agent_run r,
      cs_owner := cr_owner r, cs_fence := cr_fence r\<rparr>"
  define r1 where "r1 = r\<lparr>cr_source := s1\<rparr>"
  have r1: "cr_operations r1 = cr_operations r" and s1: "cs_files s1 = cs_files s" and pc: "plan_change C a b r1 s1 = Inr pl"
    using plan by (simp_all add: r1_def s1_def)
  note nr = normalize_change_request_Inr [OF r]
  have paths: "request_paths r = map oi_path (cr_operations r0)" using request_paths_plain [of r] assms(2) nr(1) by simp
  have stable: "normalize_relative_path p = Inr p" if "p \<in> set (request_paths r)" for p
    using that assms(2) by (auto simp: paths)
  note captured = capture_snapshot_Inr [OF cap stable]
  have files: "cs_files s1 = map (file_of (ce_sha C) t) ps" using captured by (simp add: s1 paths assms(3))
  have obs: "\<forall>p \<in> set ps. observable t p" using captured by (simp add: paths assms(3))
  have ne: "ps \<noteq> []" using nr(3) nr(1) by (metis assms(3) empty_set list.map_disc_iff set_empty2 set_remdups set_sort)
  from pc show ?thesis
  proof (elim plan_change_Inr)
    fix r2 planned
    assume r2: "normalize_change_request a b r1 = Inr r2"
      and ops: "plan_ops (ce_sha C) (cr_budgets r2) (cs_files s1) 0 [] 0 (cr_operations r2) = Inr planned"
      and packet: "cp_operations (pc_packet pl) = map fst planned" "cs_files (cp_source (pc_packet pl)) = cs_files s1"
        "cp_workspace (pc_packet pl) = cr_workspace r2"
      and hash: "pc_tree_hash pl = predicted_tree_hash C (cp_source (pc_packet pl)) (map fst planned)"
    note nr2 = normalize_change_request_Inr [OF r2]
    show ?thesis
      using that [OF abs obs ne, of "cr_budgets r2" planned] ops packet hash nr2(1,2) nr(1) files r1 by simp
  qed
qed

lemma planned_inputs:
  assumes "plan_ops sha b files index seen used qs = Inr xs" and "x \<in> set xs"
  shows "\<exists>q \<in> set qs. planned_from sha files q (fst x) \<and> snd x = oi_content q"
proof -
  from assms(2) obtain i where i: "i < length xs" "xs ! i = x" by (auto simp: in_set_conv_nth)
  with plan_ops_Inr(1) [OF assms(1)] show ?thesis
    by (intro bexI [of _ "qs ! i"]) (auto simp: list_all2_conv_all_nth)
qed

lemma distinct_claims_paths:
  "distinct (concat (map (claims \<circ> fst) xs)) \<Longrightarrow> distinct (map (co_path \<circ> fst) xs)"
proof (induction xs)
  case (Cons x xs)
  have own: "co_path (fst y) \<in> set (claims (fst y))" for y :: "change_op \<times> 'a" by (simp add: claims_def)
  have "co_path (fst x) \<noteq> co_path (fst y)" if "y \<in> set xs" for y
  proof -
    have "set (claims (fst x)) \<inter> set (claims (fst y)) = {}" using Cons.prems that by auto
    with own [of x] own [of y] show ?thesis by (metis IntI empty_iff)
  qed
  then have "(co_path \<circ> fst) x \<notin> set (map (co_path \<circ> fst) xs)" by auto
  with Cons show ?case by simp
qed simp

text \<open>A packet whose operations are ready applies, and its verification finds what was predicted.\<close>

lemma ready_packet_applies:
  assumes "quiet C" and "is_abs (trim_space rt)" and "cp_operations k = map fst xs" and "cp_workspace k \<noteq> []"
    and ready: "\<forall>x \<in> set xs. ready C (cp_workspace k) t x" and "separate C xs"
    and "cs_files (cp_source k) = map (file_of (ce_sha C) t) ps" and ps: "sorted ps" "distinct ps" "ps \<noteq> []"
    and paths: "\<forall>x \<in> set xs. co_path (fst x) \<in> set ps \<and> co_type (fst x) \<noteq> ''rename_file''"
    and obs: "\<forall>p \<in> set ps. observable t p"
  shows "\<exists>r t'. apply_packet C rt k False t = ((r, None), t') \<and>
    ax_result_hash r = predicted_tree_hash C (cp_source k) (cp_operations k) \<and> ax_applied r = length xs \<and>
    (\<forall>x \<in> set xs. node_at t' (path_elements (co_path (fst x))) =
      Some (outcome (fst x) (snd x) (node_at t (path_elements (co_path (fst x)))))) \<and>
    (\<forall>e. e \<notin> (\<lambda>x. path_elements (co_path (fst x))) ` set xs \<longrightarrow> node_at t' e = node_at t e)"
proof -
  let ?sha = "ce_sha C" and ?ws = "cp_workspace k"
  define qs where "qs = sort_by (\<lambda>x y. op_before (fst x) (fst y)) xs"
  have set_qs: "set qs = set xs" "length qs = length xs" by (simp_all add: qs_def)
  have sorted: "sorted_operations (cp_operations k) = map fst qs"
    by (simp add: sorted_operations_def assms(3) qs_def map_sort_by)
  have "mset (map (co_path \<circ> fst) qs) = mset (map (co_path \<circ> fst) xs)" by (simp add: qs_def)
  then have sep: "separate C qs"
    using assms(6) unfolding separate_def set_qs by (metis mset_eq_imp_distinct_iff)
  let ?m0 = "fold (\<lambda>f. AList.update (cf_path f) f) (map (file_of ?sha t) ps) []"
  from ready_run [OF assms(1,2) _ sep tracks_captured [OF ps(2)] _ obs] ready paths
  obtain t' where run: "run_ops C ?ws rt (map fst qs) t = Some t'" and tracks: "tracks ?sha ps (fold predict (map fst qs) ?m0) t'"
    and obs': "\<forall>q \<in> set ps. observable t' q"
    and nodes: "\<forall>x \<in> set xs. node_at t' (path_elements (co_path (fst x))) =
      Some (outcome (fst x) (snd x) (node_at t (path_elements (co_path (fst x)))))"
    and frame: "\<forall>e. e \<notin> (\<lambda>x. path_elements (co_path (fst x))) ` set xs \<longrightarrow> node_at t' e = node_at t e"
    unfolding set_qs by blast
  have "\<And>j. \<not> ce_cancelled C j" using assms(1) by (simp add: quiet_def)
  note loop = apply_loop_all [OF run this, of 0 "applied_start C k"]
  have predicted: "predicted_files (cp_source k) (cp_operations k) = map (file_of ?sha t') ps"
    unfolding predicted_files_def sorted assms(7) by (rule tracks_files [OF tracks ps(1,2)])
  have "set (map cf_path (cs_files (cp_source k)) @ concat (map (\<lambda>p. if co_type p = ''rename_file''
      then [co_path p, co_destination p] else [co_path p]) (map fst xs))) = set ps"
    using paths by (fastforce simp: assms(7) comp_def)
  then have affected: "affected_paths (cp_source k) (cp_operations k) = ps"
    unfolding affected_paths_def assms(3) by (rule sorted_remdups_unique [OF ps(1,2)])
  have "node_at t' [] = Some Directory"
    using obs' ps(3) path_elements_ne parents_ok_root by (cases ps) (auto simp: observable_def)
  moreover have "quiet (never_cancelled C)" "ce_sha (never_cancelled C) = ?sha"
    using assms(1) by (simp_all add: quiet_def never_cancelled_def)
  ultimately have observed: "observed_files C rt t' (cp_source k) (cp_operations k) = Inr (map (file_of ?sha t') ps)"
    using observe_files_ok [of "never_cancelled C" rt ps t' 0] obs' assms(1,2)
    by (simp add: observed_files_def open_root_def quiet_def affected)
  have "rt \<noteq> []" using assms(2) by (auto simp: is_abs_def)
  define fin where "fin = (applied_start C k)\<lparr>ax_applied := length xs,
    ax_result_hash := predicted_tree_hash C (cp_source k) (cp_operations k), ax_changed := True\<rparr>"
  have "apply_packet C rt k False t = ((fin, None), t')"
    using loop assms(4) \<open>rt \<noteq> []\<close>
    by (simp add: apply_packet_def sorted observed_tree_hash_full_def observed applied_start_def set_qs
        predicted_tree_hash_def predicted Let_def fin_def)
  moreover have "ax_result_hash fin = predicted_tree_hash C (cp_source k) (cp_operations k)" "ax_applied fin = length xs"
    by (simp_all add: fin_def)
  ultimately show ?thesis using nodes frame by blast
qed

lemma planned_outcome:
  assumes "planned_from sha files q (fst x)" and "ready C ws t x"
  shows "(\<exists>m. outcome (fst x) c (node_at t (path_elements (co_path (fst x)))) = File c m) \<or>
    to_lower (trim_space (oi_type q)) = ''chmod_file'' \<and>
    (\<exists>s m. node_at t (path_elements (co_path (fst x))) = Some (File s m) \<and>
      outcome (fst x) c (node_at t (path_elements (co_path (fst x)))) = File s (oi_new_mode q))"
proof (cases "co_type (fst x) = ''chmod_file''")
  case True
  with assms(2) obtain s m where "node_at t (path_elements (co_path (fst x))) = Some (File s m)"
    by (auto simp: ready_def Let_def split_beta)
  moreover have "co_new_mode (fst x) = oi_new_mode q" "co_type (fst x) = to_lower (trim_space (oi_type q))"
    using assms(1) True by (auto simp: planned_from_def Let_def)
  ultimately show ?thesis using True by (simp add: outcome_def)
qed (simp add: outcome_def)


section \<open>Confinement and early stops\<close>


text \<open>
  C28: A conflict stops an application exactly before the operation it was found at.  The operations
  that precede it in the packet's order ran, one after the other, each on a tree that met its
  precondition, and the tree is what the last of them left; the conflicting operation, and those
  after it, did nothing.  In particular the tree is untouched when nothing was applied.
\<close>

theorem conflict_stops_application:
  assumes "apply_packet C rt k False t = ((r, e), t')" and "ax_conflict r = Some c"
  shows "ax_applied r < length (cp_operations k) \<and>
    run_ops C (cp_workspace k) rt (take (ax_applied r) (sorted_operations (cp_operations k))) t = Some t' \<and>
    check_precondition C rt t' (sorted_operations (cp_operations k) ! ax_applied r) = Some c \<and>
    e = Some (ErrSourceConflict (cc_path c)) \<and> (ax_applied r = 0 \<longrightarrow> t' = t)"
proof -
  obtain r1 e1 t1 where loop: "apply_loop C (cp_workspace k) rt False 0 (sorted_operations (cp_operations k)) (applied_start C k) t = ((r1, e1), t1)"
    by (metis prod.collapse)
  have start: "ax_conflict (applied_start C k) = None" "ax_applied (applied_start C k) = 0" by (simp_all add: applied_start_def)
  have len: "length (sorted_operations (cp_operations k)) = length (cp_operations k)" by (simp add: sorted_operations_def)
  have "ax_conflict r1 = Some c"
    using assms loop by (auto simp: apply_packet_def no_application_def Let_def split: if_splits)
  from apply_loop_conflict [OF loop start(1) this] start(2) len
  have stop: "ax_applied r1 < length (cp_operations k)"
    "run_ops C (cp_workspace k) rt (take (ax_applied r1) (sorted_operations (cp_operations k))) t = Some t1"
    "check_precondition C rt t1 (sorted_operations (cp_operations k) ! ax_applied r1) = Some c"
    "e1 = Some (ErrSourceConflict (cc_path c))" by auto
  then have "r1 = r" "e1 = e" "t1 = t'"
    using assms loop by (auto simp: apply_packet_def no_application_def Let_def split: if_splits)
  with stop show ?thesis by auto
qed

text \<open>
  A plan keeps its budget.  The operations of a planned packet are at most as many as the
  budget and the contract allow, each writes at most the bytes of one file and together at most the
  bytes of the packet, and no two of them claim the same path.
\<close>

theorem plan_within_budget:
  assumes "plan_change C a b r0 s = Inr pl"
  shows "let k = pc_packet pl; g = cp_budgets k in
    1 \<le> length (cp_operations k) \<and> int (length (cp_operations k)) \<le> cb_operations g \<and> cb_operations g \<le> 128 \<and>
    (\<forall>p \<in> set (cp_operations k). co_new_size p \<le> cb_file_bytes g) \<and>
    sum_list (map co_new_size (cp_operations k)) \<le> cb_total_bytes g \<and> cb_total_bytes g \<le> 268435456 \<and>
    distinct (concat (map claims (cp_operations k)))"
proof -
  from assms show ?thesis
  proof (elim plan_change_Inr)
    fix r planned
    assume r: "normalize_change_request a b r0 = Inr r"
      and planned: "plan_ops (ce_sha C) (cr_budgets r) (cs_files s) 0 [] 0 (cr_operations r) = Inr planned"
      and packet: "cp_operations (pc_packet pl) = map fst planned" "cp_budgets (pc_packet pl) = cr_budgets r"
    note nr = normalize_change_request_Inr [OF r] and pl = plan_ops_Inr [OF planned]
    have len: "length planned = length (cr_operations r)" using pl(1) by (simp add: list_all2_lengthD)
    with nr(3) have "planned \<noteq> []" by auto
    with pl nr len show ?thesis
      by (simp add: packet Let_def comp_def max_change_budgets_def len_def Suc_le_eq)
  qed
qed

section \<open>Removals\<close>

lemma predict_keys:
  "k \<notin> fst ` set m \<Longrightarrow> k \<notin> set (claims q) \<Longrightarrow> k \<notin> fst ` set (predict q m)"
  by (auto simp: predict_def claims_def Let_def dom_update delete_keys image_iff [symmetric] map_of_eq_None_iff [symmetric]
      update_conv' delete_conv' simp del: image_iff split: if_splits)

lemma predict_removes:
  assumes "co_type p = ''delete_file'' \<or> co_type p = ''rename_file''" and "distinct (claims p)"
  shows "co_path p \<notin> fst ` set (predict p m)"
  using assms by (auto simp: predict_def claims_def Let_def map_of_eq_None_iff [symmetric] update_conv' delete_conv')

lemma fold_predict_keys:
  "k \<notin> fst ` set m \<Longrightarrow> \<forall>q \<in> set qs. k \<notin> set (claims q) \<Longrightarrow> k \<notin> fst ` set (fold predict qs m)"
  by (induction qs arbitrary: m) (simp_all add: predict_keys)

text \<open>A predicted file stands under its own path, except for the zero value of a missing one.\<close>

definition filed :: "(string \<times> change_file) list \<Rightarrow> bool" where
  "filed m \<longleftrightarrow> (\<forall>(k, f) \<in> set m. cf_path f = k \<or> cf_path f = [])"

lemma filed_update: "filed m \<Longrightarrow> cf_path f = k \<or> cf_path f = [] \<Longrightarrow> filed (AList.update k f m)"
  unfolding filed_def by (induction m) (auto split: if_splits)

lemma filed_delete: "filed m \<Longrightarrow> filed (AList.delete k m)"
  by (auto simp: filed_def AList.delete_eq)

lemma filed_lookup: "filed m \<Longrightarrow> map_of m k = Some f \<Longrightarrow> cf_path f = k \<or> cf_path f = []"
  by (auto simp: filed_def dest: map_of_SomeD)

lemma filed_predict: "filed m \<Longrightarrow> filed (predict p m)"
  by (auto simp: predict_def Let_def missing_file_def intro!: filed_update filed_delete split: option.split dest: filed_lookup)

lemma filed_files:
  assumes "k \<notin> fst ` set m" and "filed m" and "k \<noteq> []" and "f \<in> set (map snd m)"
  shows "cf_path f \<noteq> k"
  using assms by (force simp: filed_def)

lemma observe_files_paths:
  "observe_files C n rt t ps = Inr fs \<Longrightarrow> map cf_path fs = ps"
proof (induction ps arbitrary: n fs)
  case (Cons p ps)
  then obtain f gs where "observe_file C rt t p = Inr f" "observe_files C (n + 1) rt t ps = Inr gs" "fs = f # gs"
    by (auto simp: results split: if_splits)
  moreover from this have "cf_path f = p"
    by (auto simp: observe_file_def results missing_file_def present_file_def split: stat.splits node.splits if_splits)
  ultimately show ?case using Cons.IH by simp
qed simp

lemma distinct_claims_disjoint:
  assumes "distinct (concat (map claims ps))" and "p \<in> set ps" and "q \<in> set ps" and "p \<noteq> q"
  shows "set (claims p) \<inter> set (claims q) = {}"
  using assms by (induction ps) auto

lemma distinct_claims_distinct: "distinct (concat (map claims ps)) \<Longrightarrow> distinct ps"
proof (induction ps)
  case (Cons p ps)
  have "co_path p \<in> set (claims p)" by (simp add: claims_def)
  with Cons.prems have "p \<notin> set ps" by (auto dest: bspec [of _ _ p])
  with Cons show ?case by simp
qed simp

lemma predicted_without:
  assumes "distinct (concat (map claims ps))" and "p \<in> set ps" and "co_path p \<noteq> []"
    and "co_type p = ''delete_file'' \<or> co_type p = ''rename_file''" and "f \<in> set (predicted_files s ps)"
  shows "cf_path f \<noteq> co_path p"
proof -
  let ?m0 = "fold (\<lambda>f. AList.update (cf_path f) f) (cs_files s) []"
  have "set (sorted_operations ps) = set ps" "distinct (sorted_operations ps)"
    using distinct_claims_distinct [OF assms(1)] by (simp_all add: sorted_operations_def)
  with assms(2) obtain us vs where split: "sorted_operations ps = us @ p # vs" "p \<notin> set vs" "set vs \<subseteq> set ps"
    by (metis (no_types, lifting) Un_iff distinct.simps(2) distinct_append set_append set_subset_Cons split_list subset_code(1))
  have "distinct (claims p)" using assms(1,2) by (induction ps) auto
  have "\<forall>q \<in> set vs. co_path p \<notin> set (claims q)"
  proof
    fix q assume "q \<in> set vs"
    with split have "q \<in> set ps" "p \<noteq> q" by auto
    with distinct_claims_disjoint [OF assms(1,2)] have "set (claims p) \<inter> set (claims q) = {}" by blast
    moreover have "co_path p \<in> set (claims p)" by (simp add: claims_def)
    ultimately show "co_path p \<notin> set (claims q)" by blast
  qed
  with predict_removes [OF assms(4) \<open>distinct (claims p)\<close>]
  have keys: "co_path p \<notin> fst ` set (fold predict (sorted_operations ps) ?m0)"
    by (simp add: split(1) fold_predict_keys)
  have "filed (fold (\<lambda>f. AList.update (cf_path f) f) fs m)" if "filed m" for fs m
    using that by (induction fs arbitrary: m) (simp_all add: filed_update)
  moreover have "filed (fold predict qs m)" if "filed m" for qs m
    using that by (induction qs arbitrary: m) (simp_all add: filed_predict)
  ultimately have "filed (fold predict (sorted_operations ps) ?m0)" by (simp add: filed_def [of "[]"])
  from filed_files [OF keys this assms(3)] assms(5) show ?thesis by (simp add: predicted_files_def)
qed

text \<open>
  A packet that deletes or renames is never verified.  The prediction drops the path that goes
  away while the observation records it as absent, so the two lists of files always differ: if an
  application of a planned packet with a deletion or a rename reports success, the two different
  lists have the same digest.
\<close>

theorem removal_never_verifies:
  assumes "plan_change C a b r0 s = Inr pl" and "p \<in> set (cp_operations (pc_packet pl))"
    and "co_type p = ''delete_file'' \<or> co_type p = ''rename_file''"
    and "apply_packet C rt (pc_packet pl) False t = ((x, None), t')" and "\<forall>d. ce_sha C d \<noteq> []"
  shows "let k = pc_packet pl in \<exists>fs. observed_files C rt t' (cp_source k) (cp_operations k) = Inr fs \<and>
    fs \<noteq> predicted_files (cp_source k) (cp_operations k) \<and>
    tree_hash (ce_sha C) fs = tree_hash (ce_sha C) (predicted_files (cp_source k) (cp_operations k))"
proof -
  let ?k = "pc_packet pl"
  obtain g qs planned where planned: "plan_ops (ce_sha C) g (cs_files s) 0 [] 0 qs = Inr planned"
    and packet: "cp_operations ?k = map fst planned" by (rule plan_change_Inr [OF assms(1)])
  have claims: "distinct (concat (map claims (cp_operations ?k)))" using plan_ops_Inr(2) [OF planned] by (simp add: packet)
  from assms(2) packet obtain x where x: "x \<in> set planned" "p = fst x" by auto
  from planned_inputs [OF planned this(1)] this(2) have "\<exists>raw. normalize_relative_path raw = Inr (co_path p)"
    by (auto simp: planned_from_def)
  then have ne: "co_path p \<noteq> []" using normalized_path(1) by (force simp: plain_path_def path_element_def path_elements_def)
  from assms(4) have hash: "(case observed_tree_hash_full C rt t' (cp_source ?k) (cp_operations ?k) of Inl e \<Rightarrow> [] | Inr h \<Rightarrow> h) =
      predicted_tree_hash C (cp_source ?k) (cp_operations ?k)"
  proof -
    obtain r1 e1 t1 where loop: "apply_loop C (cp_workspace ?k) rt False 0 (sorted_operations (cp_operations ?k)) (applied_start C ?k) t = ((r1, e1), t1)"
      by (metis prod.collapse)
    have "ax_expected_hash r1 = predicted_tree_hash C (cp_source ?k) (cp_operations ?k)"
    proof -
      have "ax_expected_hash (fst (fst (apply_loop C ws rt dry n ps r t))) = ax_expected_hash r" for ws dry n ps r t
        by (induction ps arbitrary: n r t) (auto split: option.splits prod.splits sum.splits)
      from this [of "cp_workspace ?k" False 0 "sorted_operations (cp_operations ?k)" "applied_start C ?k" t] loop
      show ?thesis by (simp add: applied_start_def)
    qed
    with assms(4) loop show ?thesis by (auto simp: apply_packet_def Let_def split: if_splits)
  qed
  have "predicted_tree_hash C (cp_source ?k) (cp_operations ?k) \<noteq> []"
    using assms(5) by (simp add: predicted_tree_hash_def tree_hash_def)
  with hash obtain fs where fs: "observed_files C rt t' (cp_source ?k) (cp_operations ?k) = Inr fs"
    "tree_hash (ce_sha C) fs = predicted_tree_hash C (cp_source ?k) (cp_operations ?k)"
    by (auto simp: observed_tree_hash_full_def results split: sum.splits)
  from fs(1) have "map cf_path fs = affected_paths (cp_source ?k) (cp_operations ?k)"
    by (auto simp: observed_files_def split: if_splits dest: observe_files_paths)
  then have "cf_path ` set fs = set (affected_paths (cp_source ?k) (cp_operations ?k))" by (metis set_map)
  moreover have "co_path p \<in> set (affected_paths (cp_source ?k) (cp_operations ?k))"
    using assms(2) by (auto simp: affected_paths_def intro!: bexI [of _ p])
  ultimately obtain f where "f \<in> set fs" "cf_path f = co_path p" by (metis imageE)
  with predicted_without [OF claims assms(2) ne assms(3)] have "fs \<noteq> predicted_files (cp_source ?k) (cp_operations ?k)" by blast
  with fs show ?thesis by (auto simp: Let_def predicted_tree_hash_def)
qed

end
