(* ===== verification/Change_Samples.thy ===== *)
theory Change_Samples
  imports Change_Theorems
begin

text \<open>
  Witnesses of the properties of \<open>Change_Theorems\<close>: a request that creates one file and replaces
  another below a repository root, planned and applied; and the behaviours of the planner that
  differ from its documentation.
\<close>

definition sample_change_env :: change_env where
  "sample_change_env = \<lparr>ce_sha = (\<lambda>s. ''h:'' @ s), ce_packet_digest = (\<lambda>_. ''p''), ce_manifest_digest = (\<lambda>s. cs_manifest s @ ''m''),
    ce_denied = (\<lambda>_ _. False), ce_temp = (\<lambda>_. ''.fornix-change-1''), ce_cancelled = (\<lambda>_. False),
    ce_resolve = Some (\<lambda>_ h. Inr (drop 2 h))\<rparr>"

definition sample_tree :: tree where
  "sample_tree = [([], Directory), ([''a.txt''], File ''old'' 420), ([''docs''], Directory), ([''docs'', ''b.txt''], File ''kept'' 384)]"

definition sample_op :: "string \<Rightarrow> string \<Rightarrow> string \<Rightarrow> string \<Rightarrow> change_op_input" where
  "sample_op ty path expected content = \<lparr>oi_id = [], oi_ordinal = 0, oi_type = ty, oi_path = path, oi_destination = [],
    oi_expected_hash = expected, oi_expected_mode = 0, oi_content = content, oi_new_mode = 0\<rparr>"

definition no_snapshot :: change_snapshot where
  "no_snapshot = \<lparr>cs_workspace = [], cs_repository = [], cs_root = [], cs_manifest = [], cs_files = [], cs_actor = no_actor,
    cs_task = None, cs_session = None, cs_agent_run = None, cs_owner = [], cs_fence = 0, cs_captured = None\<rparr>"

definition sample_change :: "change_op_input list \<Rightarrow> change_request" where
  "sample_change qs = \<lparr>cr_schema_version = 0, cr_id = ''c1'', cr_request_id = ''r1'', cr_idempotency = ''k'', cr_causation = [],
    cr_correlation = [], cr_workspace = ''ws'', cr_actor = no_actor, cr_task = None, cr_session = None, cr_agent_run = None,
    cr_policy = None, cr_owner = [], cr_fence = 0, cr_repository = ''repo'', cr_source = no_snapshot, cr_operations = qs,
    cr_approval_mode = [], cr_budgets = \<lparr>cb_operations = 0, cb_file_bytes = 0, cb_total_bytes = 0\<rparr>\<rparr>"

definition sample_writes :: "change_op_input list" where
  "sample_writes = [sample_op ''create_file'' ''docs/new.txt'' [] ''hi'', sample_op ''Replace_File'' ''a.txt'' ''h:old'' ''new'']"

abbreviation sample_plan :: "change_op_input list \<Rightarrow> change_error + planned_change" where
  "sample_plan qs \<equiv> plan_request sample_change_env [] [] (sample_change qs) ''/srv/repo'' 5 sample_tree"

definition planned_packet :: "change_op_input list \<Rightarrow> change_packet" where
  "planned_packet qs = (case sample_plan qs of Inl _ \<Rightarrow> undefined | Inr pl \<Rightarrow> pc_packet pl)"

lemma sample_planned: "sample_plan sample_writes \<noteq> Inl e"
proof -
  have "case sample_plan sample_writes of Inl _ \<Rightarrow> False | Inr _ \<Rightarrow> True" by code_simp
  then show ?thesis by (auto split: sum.splits)
qed

lemma sample_modes: "node_at sample_tree e = Some (File s m) \<Longrightarrow> 0 \<le> m \<and> m < 512"
  by (auto simp: node_at_def sample_tree_def split: if_splits)


text \<open>The second operation finds its file changed: the first has run, the second has not.\<close>

definition changed_tree :: tree where
  "changed_tree = put_node [''a.txt''] (File ''edited'' 420) sample_tree"

definition sample_conflict :: "(applied_change \<times> change_error option) \<times> tree" where
  "sample_conflict = apply_packet sample_change_env ''/srv/repo'' (planned_packet sample_writes) False changed_tree"

lemma conflict_stops_application_witness:
  "\<exists>c. ax_conflict (fst (fst sample_conflict)) = Some c \<and> cc_path c = ''a.txt'' \<and> cc_observed_hash c = ''h:edited'' \<and>
    ax_applied (fst (fst sample_conflict)) = 1 \<and>
    run_ops sample_change_env (cp_workspace (planned_packet sample_writes)) ''/srv/repo''
      (take 1 (sorted_operations (cp_operations (planned_packet sample_writes)))) changed_tree = Some (snd sample_conflict) \<and>
    snd (fst sample_conflict) = Some (ErrSourceConflict ''a.txt'')"
proof -
  have "(case ax_conflict (fst (fst sample_conflict)) of None \<Rightarrow> False
    | Some c \<Rightarrow> cc_path c = ''a.txt'' \<and> cc_observed_hash c = ''h:edited'') \<and> ax_applied (fst (fst sample_conflict)) = 1"
    by code_simp
  then obtain c where c: "ax_conflict (fst (fst sample_conflict)) = Some c" "cc_path c = ''a.txt''" "cc_observed_hash c = ''h:edited''"
    "ax_applied (fst (fst sample_conflict)) = 1" by (auto split: option.split_asm)
  have "apply_packet sample_change_env ''/srv/repo'' (planned_packet sample_writes) False changed_tree =
      ((fst (fst sample_conflict), snd (fst sample_conflict)), snd sample_conflict)" by (simp add: sample_conflict_def)
  from conflict_stops_application [OF this c(1)] c show ?thesis by auto
qed


section \<open>Where the planner differs from its documentation\<close>

text \<open>A deletion is applied and then not verified.\<close>

lemma deletion_needs_recovery:
  "case apply_packet sample_change_env ''/srv/repo'' (planned_packet [sample_op ''delete_file'' ''a.txt'' ''h:old'' []])
      False sample_tree of
    ((x, e), t') \<Rightarrow> e = Some (ErrRecovery ''resulting tree hash mismatch'') \<and> ax_applied x = 1 \<and> node_at t' [''a.txt''] = None"
  by code_simp

text \<open>Normalising a path twice is not the same as once.\<close>

lemma normalize_path_not_idempotent:
  "normalize_relative_path ''./ a'' = Inr '' a'' \<and> normalize_relative_path '' a'' = Inr ''a''"
  by code_simp

text \<open>A file in a directory that is yet to be made cannot be proposed.\<close>

lemma new_directory_not_proposed:
  "sample_plan [sample_op ''create_file'' ''new/x.txt'' [] ''hi''] = Inl ChangeFileSystem"
  by code_simp

text \<open>The manifest digest of a captured snapshot changes when it is computed again.\<close>

lemma manifest_digest_not_stable:
  "case capture_snapshot sample_change_env ''ws'' ''repo'' ''/srv/repo'' [''a.txt''] no_actor 5 sample_tree of
    Inl _ \<Rightarrow> False
  | Inr s \<Rightarrow> manifest_hash sample_change_env s \<noteq> cs_manifest s"
  by code_simp

end
