(* ===== verification/Spec2Isabelle.thy ===== *)
theory Spec2Isabelle
  imports Task_Projection Task_Properties Retrieval Tool_Executor Agent_Worker Policy_Samples Change_Samples
begin

text \<open>
  Fornix: verification of the core of the control plane.

  \<^bold>\<open>The program.\<close>  Fornix coordinates coding agents over one PostgreSQL database.  Every change of
  state is a transaction that also appends to an event log; workers hold leases with a fence that
  grows with each owner; derived views follow the log; an agent run is advanced phase by phase,
  calling a model and tools; tools run under a policy, possibly after an approval; policies are
  versioned; changes of a repository are planned into packets and applied to a mount.

  \<^bold>\<open>Theories and sources\<close> (below \<open>src/internal\<close>).

  \<^item> \<open>Fornix_Prelude\<close>: results with an error value (\<open>bindE\<close>, \<open>in_tx\<close> for a transaction that rolls
    back on an error, the collection \<open>results\<close>), Go's strings and 64-bit integers, stable sorting by a
    comparison.  \<open>Json\<close>: what is used of \<open>encoding/json\<close>.  \<open>Fencing\<close>: the lease row and the contract
    \<open>fenced_lease\<close>, interpreted by the three lease tables (consumers, tasks, agent runs).
  \<^item> \<open>Event_Contract\<close>, \<open>Event_Store\<close>: \<open>contracts/events.go\<close>, \<open>store/events.go\<close>; the log, idempotency
    records, replay and checkpoints.  \<open>Consumer_Lease\<close>: \<open>store/leases.go\<close>.
  \<^item> \<open>Projection\<close>, \<open>Task_Projection\<close>: \<open>projection/runtime.go\<close> and \<open>projection/task.go\<close>.
  \<^item> \<open>Task_Store\<close>, with \<open>Task_Lifecycle\<close>, \<open>Task_Safety\<close> and \<open>Task_Properties\<close>: \<open>store/tasks.go\<close>; one
    function per operation, the histories of the tables as a step relation over all of them.
  \<^item> \<open>Model_Contract\<close>, \<open>Retrieval\<close>: \<open>contracts/model.go\<close>; the plan and the compiler of \<open>retrieval\<close>.
  \<^item> \<open>Tool_Contract\<close>, \<open>Tool_Policy\<close>, \<open>Tool_Store\<close>, \<open>Tool_Executor\<close>: \<open>contracts/tool.go\<close>,
    \<open>tool/policy.go\<close>, \<open>tool/registry.go\<close>, \<open>store/tool_runs.go\<close>, \<open>tool/executor.go\<close>.
  \<^item> \<open>Agent_Contract\<close>, \<open>Agent_Store\<close>, \<open>Agent_Commit\<close>, with \<open>Agent_Safety\<close> and \<open>Agent_Properties\<close>:
    \<open>contracts/agent.go\<close>, \<open>store/agent_runs.go\<close>, \<open>store/agent_run_scheduler.go\<close>.
  \<^item> \<open>Agent_Loop\<close>, with \<open>Agent_Transitions\<close> and \<open>Agent_Loop_Properties\<close>: \<open>agentloop/loop.go\<close>;
    \<open>Agent_Worker\<close>: \<open>scheduler/worker.go\<close>.
  \<^item> \<open>Policy_Contract\<close>, \<open>Policy_Resolver\<close>, \<open>Policy_Store\<close>, with \<open>Policy_Facts\<close>, \<open>Policy_Admission\<close>,
    \<open>Policy_Lifecycle\<close> and \<open>Policy_Samples\<close>: \<open>contracts/policy.go\<close>, \<open>policy/resolver.go\<close>,
    \<open>store/policies.go\<close>.
  \<^item> \<open>Mount\<close>, \<open>Change_Contract\<close>, \<open>Change_Planner\<close>, with \<open>Change_Paths\<close>, \<open>Change_Application\<close>,
    \<open>Change_Theorems\<close> and \<open>Change_Samples\<close>: \<open>contracts/change.go\<close>, \<open>change/planner.go\<close> and the planning
    of \<open>change/service.go\<close>, over a tree of nodes in place of the file system.

  \<^bold>\<open>State.\<close>  A table is a list of rows in insertion order, or a map where only the key matters; the
  records of the databases extend each other (\<open>control_db\<close>, \<open>task_db\<close>, \<open>tool_db\<close>, \<open>agent_db\<close>, and
  \<open>policy_db\<close>), so an operation of one store is an operation of every larger database.  A record
  of draws (\<open>agent_in\<close>, \<open>tool_in\<close>, \<open>loop_in\<close> and so on) supplies what an operation reads from
  outside: instants of the database and process clocks, new identities, rows other sessions have
  locked, and, between transactions, what other sessions do to the tables.  Digests, JSON codecs,
  the model gateway, child processes, symbolic links and the artifact and observation writes are
  arguments.

  \<^bold>\<open>What is shown.\<close>

  \<^item> Events: a retried append returns the first event, a reused key conflicts, the log is only
    extended, a read is complete and ordered; the tables keep their constraints.
  \<^item> Leases and fences: after a takeover no token of an older epoch is accepted again, for
    consumers, tasks, agent runs and the tool runs bound to tasks.
  \<^item> Projections: a batch, or a rebuild, leaves the view that replaying the log gives, rebuilding
    ends, and a runner that lost its lease changes nothing.
  \<^item> Tasks: the invariant of the tables, terminal rows stay as they are, a claim is granted as
    specified, dependencies stay acyclic.
  \<^item> Agent runs: at most one commit per version, terminal runs are frozen, replaying the log gives
    the checkpoint, the scheduler grants the best due run.
  \<^item> The loop: \<open>advance\<close> refines the transition relation \<open>loop_next\<close>, budgets are kept, \<open>Run\<close> stops
    within its phases, a worker's round leaves the run at rest and the lease released.
  \<^item> Tools: the policy denies by default and takes the strongest rule, a process starts only as the
    tightened definition admits, below its root, and under a grant where the rule asks for one.
  \<^item> Policies: typed rows with one active version, history that is never rewritten, admission by
    active versions only, resolutions that never widen the pack, canonical packs.
  \<^item> Retrieval: the compiled context fits its budget with exact totals.
  \<^item> Changes: a planned packet applies with the predicted result, an application touches only the
    paths of its packet, and a conflict stops it before the operation it was found at.

  \<^bold>\<open>Recursion and bounds.\<close>  \<open>run_phases\<close> recurses on the phases left; \<open>run_loop\<close> starts it with
  \<open>max_phases\<close>, the bound of the loop in \<open>Run\<close>, and \<open>run_stops_in_time\<close> shows that a stop comes
  earlier, by the measure \<open>loop_rank\<close>.  \<open>rebuild_loop\<close> has fuel for the unbounded loop of
  \<open>Rebuild\<close>; \<open>rebuild_terminates\<close> shows that more fuel than events is enough.  All other
  functions recurse on their data or by a measure.

  \<^bold>\<open>Where the code departs from its documents.\<close>  Some lemmas record behaviour that the documents
  or the intent of the code exclude: \<open>external_completion_exceeds_turns\<close>,
  \<open>approved_request_never_runs\<close>, \<open>approval_expiry_not_recorded\<close>,
  \<open>register_workspace_tool_drops_denial\<close>, \<open>agent_budget_wall_overflow\<close>,
  \<open>validation_wall_time_overflow\<close>, \<open>activation_strands_default\<close>, \<open>policy_list_skips_rows\<close>,
  \<open>removal_never_verifies\<close>, \<open>new_directory_not_proposed\<close>, \<open>normalize_path_not_idempotent\<close> and
  \<open>manifest_digest_not_stable\<close>.

  \<^bold>\<open>Not modelled.\<close>  The HTTP handlers and commands, the docker runtime, profiles, configuration,
  credentials and migrations (input, output and glue); the model gateway with its providers and
  call ledger; SQL of retrieval and its traces; evidence and artifact storage, ingestion and
  evaluation; identity, operator reports, observability, work receipts; validation runs; the store
  of change proposals with its approvals and the application driven through it.  SQL errors other than those of
  constraints and casts, cancellation of contexts and the failure hooks of the tests are left out
  where a theory does not say otherwise.  Small departures: marshalling errors of values that
  always marshal are left out (\<open>request_hash\<close>, \<open>decode_task_result\<close>), the creation time of a task
  is the clock of its statement, error texts of one kind are sometimes merged, and an empty
  list of rules is measured as a missing one.
\<close>

end
